(* ===== verification/Prelude.thy ===== *)
theory Prelude
  imports Main "HOL-Library.Char_ord"
begin

text \<open>
  The base of the development: the exceptions the NestJS services throw, the state-and-exception
  computations every service method is translated to, a small calculus to reason about them, and
  the list operations that stand for reads and writes of a database table.

  A service method becomes a value of type \<open>('s, 'a) act\<close>: it takes the state (the database and
  the collaborators that are observable) and returns either the thrown exception (\<open>Inl\<close>) or the
  returned value (\<open>Inr\<close>), together with the state it leaves.  The state is returned in the
  exceptional case too, because a method that throws after an \<open>await prisma...update\<close> has
  already written.  Only \<open>prisma.$transaction\<close> (\<open>txA\<close>) restores the state when its body throws.
\<close>

section \<open>Exceptions\<close>

text \<open>
  One constructor per exception class of the source.  The argument is a short form of the message;
  where the code inspects or stores the message (\<open>RawError\<close>), it is the message itself.
\<close>

datatype exn =
    BadRequest string
  | Unauthorized string
  | Forbidden string
  | NotFound string
  | Conflict string
  | ServiceUnavailable string
  | PayloadTooLarge string
  | RawError string
  | PrismaError string

text \<open>What \<open>e instanceof Error ? e.message : ...\<close> reads.\<close>

fun exn_message :: "exn \<Rightarrow> string" where
  "exn_message (BadRequest m) = m"
| "exn_message (Unauthorized m) = m"
| "exn_message (Forbidden m) = m"
| "exn_message (NotFound m) = m"
| "exn_message (Conflict m) = m"
| "exn_message (ServiceUnavailable m) = m"
| "exn_message (PayloadTooLarge m) = m"
| "exn_message (RawError m) = m"
| "exn_message (PrismaError m) = m"

section \<open>Computations with state and exceptions\<close>

type_synonym ('s, 'a) act = "'s \<Rightarrow> (exn + 'a) \<times> 's"

definition returnA :: "'a \<Rightarrow> ('s, 'a) act" where
  "returnA x = (\<lambda>s. (Inr x, s))"

definition throwA :: "exn \<Rightarrow> ('s, 'a) act" where
  "throwA e = (\<lambda>s. (Inl e, s))"

definition bindA :: "('s, 'a) act \<Rightarrow> ('a \<Rightarrow> ('s, 'b) act) \<Rightarrow> ('s, 'b) act" where
  "bindA m f = (\<lambda>s. case m s of (Inl e, s') \<Rightarrow> (Inl e, s') | (Inr x, s') \<Rightarrow> f x s')"

definition thenA :: "('s, 'a) act \<Rightarrow> ('s, 'b) act \<Rightarrow> ('s, 'b) act" where
  "thenA m n = bindA m (\<lambda>_. n)"

text \<open>\<open>guardA b e\<close> is \<open>if (!b) throw e\<close>.\<close>

definition guardA :: "bool \<Rightarrow> exn \<Rightarrow> ('s, unit) act" where
  "guardA b e = (if b then returnA () else throwA e)"

definition getsA :: "('s \<Rightarrow> 'a) \<Rightarrow> ('s, 'a) act" where
  "getsA g = (\<lambda>s. (Inr (g s), s))"

definition modifyA :: "('s \<Rightarrow> 's) \<Rightarrow> ('s, unit) act" where
  "modifyA g = (\<lambda>s. (Inr (), g s))"

definition whenA :: "bool \<Rightarrow> ('s, unit) act \<Rightarrow> ('s, unit) act" where
  "whenA b m = (if b then m else returnA ())"

text \<open>A row that must be there: \<open>if (!row) throw e\<close>, and the row otherwise.\<close>

definition someA :: "'a option \<Rightarrow> exn \<Rightarrow> ('s, 'a) act" where
  "someA x e = (case x of None \<Rightarrow> throwA e | Some y \<Rightarrow> returnA y)"

text \<open>\<open>prisma.$transaction\<close>: all writes of the body or none.\<close>

definition txA :: "('s, 'a) act \<Rightarrow> ('s, 'a) act" where
  "txA m = (\<lambda>s. case m s of (Inl e, _) \<Rightarrow> (Inl e, s) | (Inr x, s') \<Rightarrow> (Inr x, s'))"

text \<open>\<open>try m catch (e) h e\<close>; the writes made before the throw stay.\<close>

definition catchA :: "('s, 'a) act \<Rightarrow> (exn \<Rightarrow> ('s, 'a) act) \<Rightarrow> ('s, 'a) act" where
  "catchA m h = (\<lambda>s. case m s of (Inl e, s') \<Rightarrow> h e s' | (Inr x, s') \<Rightarrow> (Inr x, s'))"

text \<open>\<open>for (const x of xs) await f x\<close>: stops at the first exception.\<close>

fun forA :: "'x list \<Rightarrow> ('x \<Rightarrow> ('s, unit) act) \<Rightarrow> ('s, unit) act" where
  "forA [] f = returnA ()"
| "forA (x # xs) f = bindA (f x) (\<lambda>_. forA xs f)"

text \<open>The loop that collects the results of its body.\<close>

fun mapA :: "'x list \<Rightarrow> ('x \<Rightarrow> ('s, 'a) act) \<Rightarrow> ('s, 'a list) act" where
  "mapA [] f = returnA []"
| "mapA (x # xs) f = bindA (f x) (\<lambda>y. bindA (mapA xs f) (\<lambda>ys. returnA (y # ys)))"

section \<open>Rules for runs\<close>

named_theorems act_defs \<open>definitions of the computation combinators\<close>
named_theorems ok_simps \<open>when a composed computation returns, and with what\<close>

declare returnA_def [act_defs] throwA_def [act_defs] bindA_def [act_defs] thenA_def [act_defs]
  guardA_def [act_defs] getsA_def [act_defs] modifyA_def [act_defs] whenA_def [act_defs]
  someA_def [act_defs] txA_def [act_defs] catchA_def [act_defs]

lemma returnA_ok [ok_simps]: "returnA x s = (Inr y, s') \<longleftrightarrow> y = x \<and> s' = s"
  by (auto simp: act_defs)

lemma throwA_ok [ok_simps]: "throwA e s = (Inr y, s') \<longleftrightarrow> False"
  by (auto simp: act_defs)

lemma bindA_ok [ok_simps]:
  "bindA m f s = (Inr y, s') \<longleftrightarrow> (\<exists>x s1. m s = (Inr x, s1) \<and> f x s1 = (Inr y, s'))"
  by (auto simp: bindA_def split: prod.splits sum.splits)

lemma thenA_ok [ok_simps]:
  "thenA m n s = (Inr y, s') \<longleftrightarrow> (\<exists>x s1. m s = (Inr x, s1) \<and> n s1 = (Inr y, s'))"
  by (simp add: thenA_def bindA_ok)

lemma guardA_ok [ok_simps]: "guardA b e s = (Inr y, s') \<longleftrightarrow> b \<and> s' = s"
  by (auto simp: act_defs)

lemma getsA_ok [ok_simps]: "getsA g s = (Inr y, s') \<longleftrightarrow> y = g s \<and> s' = s"
  by (auto simp: act_defs)

lemma modifyA_ok [ok_simps]: "modifyA g s = (Inr y, s') \<longleftrightarrow> s' = g s"
  by (auto simp: act_defs)

lemma whenA_ok [ok_simps]:
  "whenA b m s = (Inr y, s') \<longleftrightarrow> (if b then m s = (Inr y, s') else s' = s)"
  by (auto simp: act_defs)

lemma someA_ok [ok_simps]: "someA x e s = (Inr y, s') \<longleftrightarrow> x = Some y \<and> s' = s"
  by (auto simp: act_defs split: option.splits)

lemma txA_ok [ok_simps]: "txA m s = (Inr y, s') \<longleftrightarrow> m s = (Inr y, s')"
  by (auto simp: txA_def split: prod.splits sum.splits)

lemma mapA_Nil_ok [ok_simps]: "mapA [] f s = (Inr y, s') \<longleftrightarrow> y = [] \<and> s' = s"
  by (auto simp: act_defs)

text \<open>One step at a time.\<close>

lemma bindA_gets: "bindA (getsA g) f s = f (g s) s"
  by (simp add: act_defs)

lemma bindA_run: "m s = (Inr x, s1) \<Longrightarrow> bindA m f s = f x s1"
  by (simp add: act_defs)

lemma bindA_throws: "m s = (Inl e, s1) \<Longrightarrow> bindA m f s = (Inl e, s1)"
  by (simp add: act_defs)

text \<open>The laws of the combinators, for computing a run from its front.\<close>

named_theorems act_laws \<open>equations that take the first step of a computation\<close>

lemma act_laws_bind [act_laws]:
  "bindA (returnA x) f = f x" "bindA (throwA e) f = throwA e" "thenA (returnA x) m = m" "thenA (throwA e) m = throwA e"
  by (simp_all add: fun_eq_iff act_defs)

lemma act_laws_check [act_laws]:
  "guardA True e = returnA ()" "guardA False e = throwA e" "someA (Some x) e = returnA x" "someA None e = throwA e"
  "whenA True m = m" "whenA False m = returnA ()"
  by (simp_all add: act_defs)

lemma act_laws_run [act_laws]:
  "bindA (getsA g) f s = f (g s) s" "returnA x s = (Inr x, s)" "throwA e s = (Inl e, s)"
  "thenA (guardA b e) m s = (if b then m s else (Inl e, s))"
  by (simp_all add: act_defs)

text \<open>A transaction that throws leaves the state as it was.\<close>

lemma txA_rollback: "txA m s = (Inl e, s') \<Longrightarrow> s' = s"
  by (auto simp: txA_def split: prod.splits sum.splits)

lemma txA_state:
  "snd (txA m s) = (case m s of (Inl e, _) \<Rightarrow> s | (Inr x, s') \<Rightarrow> s')"
  by (auto simp: txA_def split: prod.splits sum.splits)

lemma act_cases:
  obtains (throws) e s' where "m s = (Inl e, s')" | (returns) x s' where "m s = (Inr x, s')"
  by (cases "m s"; cases "fst (m s)") auto

section \<open>Invariants of computations\<close>

text \<open>
  \<open>keeps I m\<close>: the computation keeps \<open>I\<close>, whether it returns or throws.  \<open>keeps_ok I m\<close>: it keeps
  \<open>I\<close> when it returns; enough inside a transaction, which undoes the other case.
\<close>

definition keeps :: "('s \<Rightarrow> bool) \<Rightarrow> ('s, 'a) act \<Rightarrow> bool" where
  "keeps I m \<longleftrightarrow> (\<forall>s. I s \<longrightarrow> I (snd (m s)))"

definition keeps_ok :: "('s \<Rightarrow> bool) \<Rightarrow> ('s, 'a) act \<Rightarrow> bool" where
  "keeps_ok I m \<longleftrightarrow> (\<forall>s x s'. I s \<longrightarrow> m s = (Inr x, s') \<longrightarrow> I s')"

named_theorems keeps_intros \<open>composition rules for keeps and keeps_ok\<close>

lemma keepsD: "keeps I m \<Longrightarrow> I s \<Longrightarrow> m s = (r, s') \<Longrightarrow> I s'"
  by (metis keeps_def snd_conv)

lemma keeps_okD: "keeps_ok I m \<Longrightarrow> I s \<Longrightarrow> m s = (Inr x, s') \<Longrightarrow> I s'"
  by (auto simp: keeps_ok_def)

lemma keeps_okI: "(\<And>s x s'. I s \<Longrightarrow> m s = (Inr x, s') \<Longrightarrow> I s') \<Longrightarrow> keeps_ok I m"
  by (auto simp: keeps_ok_def)

lemma keepsI: "(\<And>s r s'. I s \<Longrightarrow> m s = (r, s') \<Longrightarrow> I s') \<Longrightarrow> keeps I m"
  by (metis keeps_def prod.collapse)

lemma keeps_imp_ok: "keeps I m \<Longrightarrow> keeps_ok I m"
  by (metis keepsD keeps_okI)

lemma keeps_return [keeps_intros]: "keeps I (returnA x)"
  by (simp add: keeps_def act_defs)

lemma keeps_throw [keeps_intros]: "keeps I (throwA e)"
  by (simp add: keeps_def act_defs)

lemma keeps_gets [keeps_intros]: "keeps I (getsA g)"
  by (simp add: keeps_def act_defs)

lemma keeps_guard [keeps_intros]: "keeps I (guardA b e)"
  by (simp add: keeps_def act_defs)

lemma keeps_some [keeps_intros]: "keeps I (someA x e)"
  by (simp add: keeps_def act_defs split: option.splits)

lemma keeps_modify [keeps_intros]: "(\<And>s. I s \<Longrightarrow> I (g s)) \<Longrightarrow> keeps I (modifyA g)"
  by (simp add: keeps_def act_defs)

lemma keeps_bind [keeps_intros]:
  "keeps I m \<Longrightarrow> (\<And>x. keeps I (f x)) \<Longrightarrow> keeps I (bindA m f)"
  by (auto simp: keeps_def bindA_def split: prod.splits sum.splits; metis snd_conv)

lemma keeps_then [keeps_intros]:
  "keeps I m \<Longrightarrow> keeps I n \<Longrightarrow> keeps I (thenA m n)"
  by (simp add: thenA_def keeps_bind)

lemma keeps_when [keeps_intros]: "keeps I m \<Longrightarrow> keeps I (whenA b m)"
  by (simp add: keeps_def act_defs)

lemma keeps_tx [keeps_intros]: "keeps_ok I m \<Longrightarrow> keeps I (txA m)"
  by (auto simp: keeps_def keeps_ok_def txA_def split: prod.splits sum.splits)

lemma keeps_catch [keeps_intros]:
  "keeps I m \<Longrightarrow> (\<And>e. keeps I (h e)) \<Longrightarrow> keeps I (catchA m h)"
  by (auto simp: keeps_def catchA_def split: prod.splits sum.splits; metis snd_conv)

lemma keeps_for [keeps_intros]: "(\<And>x. keeps I (f x)) \<Longrightarrow> keeps I (forA xs f)"
  by (induction xs) (auto intro: keeps_intros)

lemma keeps_map [keeps_intros]: "(\<And>x. keeps I (f x)) \<Longrightarrow> keeps I (mapA xs f)"
  by (induction xs) (auto intro: keeps_intros)

text \<open>The rules for a computation all of whose steps keep the invariant, by themselves.\<close>

lemma keeps_tx_all: "keeps I m \<Longrightarrow> keeps I (txA m)"
  by (rule keeps_tx [OF keeps_imp_ok])

lemma keeps_if: "keeps I m \<Longrightarrow> keeps I n \<Longrightarrow> keeps I (if b then m else n)"
  by simp

lemma keeps_option:
  "keeps I m \<Longrightarrow> (\<And>x. keeps I (f x)) \<Longrightarrow> keeps I (case y of None \<Rightarrow> m | Some x \<Rightarrow> f x)"
  by (simp split: option.splits)

lemmas keeps_steps = keeps_return keeps_throw keeps_gets keeps_guard keeps_some keeps_bind keeps_then
  keeps_when keeps_tx_all keeps_catch keeps_for keeps_map keeps_if keeps_option

lemma keeps_ok_for: "(\<And>x. x \<in> set xs \<Longrightarrow> keeps_ok I (f x)) \<Longrightarrow> keeps_ok I (forA xs f)"
proof (induction xs)
  case Nil
  show ?case by (simp add: keeps_ok_def act_defs)
next
  case (Cons x xs)
  then have x: "keeps_ok I (f x)" and xs: "keeps_ok I (forA xs f)" by auto
  show ?case
    by (rule keeps_okI) (auto simp: ok_simps intro: keeps_okD [OF x] keeps_okD [OF xs])
qed

text \<open>The composition rules again for \<open>keeps_ok\<close>, where each part may assume a normal return.\<close>

lemma keeps_ok_bind: "keeps_ok I m \<Longrightarrow> (\<And>x. keeps_ok I (f x)) \<Longrightarrow> keeps_ok I (bindA m f)"
  unfolding keeps_ok_def bindA_ok by blast

section \<open>Sequences of operations\<close>

text \<open>
  A history: operations run one after the other on the shared state, each keeping what it wrote,
  whether it returned or threw (the next HTTP request starts from there).
\<close>

fun run_all :: "('op \<Rightarrow> ('s, 'a) act) \<Rightarrow> 'op list \<Rightarrow> 's \<Rightarrow> 's" where
  "run_all ex [] s = s"
| "run_all ex (x # xs) s = run_all ex xs (snd (ex x s))"

text \<open>
  The contract of a component whose operations all keep an invariant.  A component interprets it
  with its operations and its invariant, and gets the invariant of every history.
\<close>

locale invariant_component =
  fixes ex :: "'op \<Rightarrow> ('s, 'a) act"
    and inv :: "'s \<Rightarrow> bool"
  assumes op_keeps: "keeps inv (ex x)"
begin

lemma history_keeps: "inv s \<Longrightarrow> inv (run_all ex xs s)"
proof (induction xs arbitrary: s)
  case Nil
  then show ?case by simp
next
  case (Cons x xs)
  have "inv (snd (ex x s))"
    using op_keeps [of x] Cons.prems by (simp add: keeps_def)
  then show ?case by (simp add: Cons.IH)
qed

lemma history_append: "run_all ex (xs @ ys) s = run_all ex ys (run_all ex xs s)"
  by (induction xs arbitrary: s) auto

end

section \<open>Status machines\<close>

text \<open>
  The contract of a status column: which change a code path may make, and which statuses it never
  leaves.  The machines of orders and of refunds interpret it.
\<close>

locale status_machine =
  fixes change :: "'st \<Rightarrow> 'st \<Rightarrow> bool"
    and final :: "'st \<Rightarrow> bool"
  assumes final_stuck: "final a \<Longrightarrow> \<not> change a b"
begin

lemma final_forever: "change\<^sup>*\<^sup>* a b \<Longrightarrow> final a \<Longrightarrow> b = a"
  by (induction rule: converse_rtranclp_induct) (auto dest: final_stuck)

lemma no_return_to_final:
  assumes "change\<^sup>*\<^sup>* a b" and "final b" and "change\<^sup>*\<^sup>* b c"
  shows "c = b"
  using assms final_forever by blast

end

section \<open>Tables\<close>

text \<open>
  A table is the list of its rows in the order of insertion.  \<open>find_row\<close> is \<open>findUnique\<close> and
  \<open>findFirst\<close>, \<open>update_where\<close> is \<open>update\<close> and \<open>updateMany\<close>, \<open>count_where\<close> is \<open>count\<close>, and the sum of
  a column over the rows that satisfy a condition is \<open>aggregate { _sum }\<close> (0 when there is none, the
  value the code puts there with \<open>?? 0\<close> or \<open>|| 0\<close>).
\<close>

definition find_row :: "('r \<Rightarrow> bool) \<Rightarrow> 'r list \<Rightarrow> 'r option" where
  "find_row P xs = List.find P xs"

definition update_where :: "('r \<Rightarrow> bool) \<Rightarrow> ('r \<Rightarrow> 'r) \<Rightarrow> 'r list \<Rightarrow> 'r list" where
  "update_where P f xs = map (\<lambda>r. if P r then f r else r) xs"

definition count_where :: "('r \<Rightarrow> bool) \<Rightarrow> 'r list \<Rightarrow> nat" where
  "count_where P xs = length (filter P xs)"

definition sum_where :: "('r \<Rightarrow> bool) \<Rightarrow> ('r \<Rightarrow> int) \<Rightarrow> 'r list \<Rightarrow> int" where
  "sum_where P f xs = sum_list (map f (filter P xs))"

lemma find_row_Nil [simp]: "find_row P [] = None"
  by (simp add: find_row_def)

lemma find_row_Cons [simp]: "find_row P (x # xs) = (if P x then Some x else find_row P xs)"
  by (simp add: find_row_def)

lemma find_row_Some: "find_row P xs = Some x \<Longrightarrow> P x \<and> x \<in> set xs"
  by (auto simp: find_row_def find_Some_iff)

lemma find_row_None: "find_row P xs = None \<longleftrightarrow> (\<forall>x \<in> set xs. \<not> P x)"
  by (auto simp: find_row_def find_None_iff)

lemma find_row_ex: "find_row P xs \<noteq> None \<longleftrightarrow> (\<exists>x \<in> set xs. P x)"
  using find_row_None [of P xs] by auto

lemma find_row_append:
  "find_row P (xs @ ys) = (case find_row P xs of None \<Rightarrow> find_row P ys | Some x \<Rightarrow> Some x)"
  by (induction xs) auto

lemma update_where_Nil [simp]: "update_where P f [] = []"
  by (simp add: update_where_def)

lemma update_where_Cons [simp]:
  "update_where P f (x # xs) = (if P x then f x else x) # update_where P f xs"
  by (simp add: update_where_def)

lemma update_where_append [simp]:
  "update_where P f (xs @ ys) = update_where P f xs @ update_where P f ys"
  by (simp add: update_where_def)

lemma update_where_none: "(\<And>x. x \<in> set xs \<Longrightarrow> \<not> P x) \<Longrightarrow> update_where P f xs = xs"
  by (induction xs) auto

lemma length_update_where [simp]: "length (update_where P f xs) = length xs"
  by (simp add: update_where_def)

lemma set_update_where: "set (update_where P f xs) = (\<lambda>r. if P r then f r else r) ` set xs"
  by (simp add: update_where_def)

lemma in_update_whereE:
  assumes "y \<in> set (update_where P f xs)"
  obtains (old) "y \<in> set xs" "\<not> P y" | (new) x where "x \<in> set xs" "P x" "y = f x"
  using assms by (auto simp: update_where_def split: if_splits)

lemma map_update_where:
  "(\<And>r. k (f r) = k r) \<Longrightarrow> map k (update_where P f xs) = map k xs"
  by (induction xs) auto

lemma image_update_where:
  "(\<And>r. k (f r) = k r) \<Longrightarrow> k ` set (update_where P f xs) = k ` set xs"
  by (metis list.set_map map_update_where)

lemma ball_update_where:
  "(\<forall>y \<in> set (update_where P f xs). Q y) \<longleftrightarrow> (\<forall>x \<in> set xs. Q (if P x then f x else x))"
  by (induction xs) auto

lemma bex_update_where:
  "(\<exists>y \<in> set (update_where P f xs). Q y) \<longleftrightarrow> (\<exists>x \<in> set xs. Q (if P x then f x else x))"
  by (induction xs) auto

lemma update_where_twice:
  "(\<And>x. P x \<Longrightarrow> P (g x)) \<Longrightarrow> update_where P f (update_where P g xs) = update_where P (\<lambda>x. f (g x)) xs"
  by (induction xs) auto

lemma find_row_update_where:
  assumes "\<And>r. Q (f r) = Q r"
  shows "find_row Q (update_where P f xs) =
    map_option (\<lambda>r. if P r then f r else r) (find_row Q xs)"
  using assms by (induction xs) auto

lemma count_where_Nil [simp]: "count_where P [] = 0"
  by (simp add: count_where_def)

lemma count_where_append [simp]: "count_where P (xs @ ys) = count_where P xs + count_where P ys"
  by (simp add: count_where_def)

lemma count_where_Cons [simp]: "count_where P (x # xs) = (if P x then Suc (count_where P xs) else count_where P xs)"
  by (simp add: count_where_def)

lemma count_where_zero: "count_where P xs = 0 \<longleftrightarrow> (\<forall>x \<in> set xs. \<not> P x)"
  by (auto simp: count_where_def filter_empty_conv)

lemma sum_where_Nil [simp]: "sum_where P f [] = 0"
  by (simp add: sum_where_def)

lemma sum_where_Cons [simp]:
  "sum_where P f (x # xs) = (if P x then f x + sum_where P f xs else sum_where P f xs)"
  by (simp add: sum_where_def)

lemma sum_where_append [simp]: "sum_where P f (xs @ ys) = sum_where P f xs + sum_where P f ys"
  by (simp add: sum_where_def)

lemma sum_where_cong:
  "(\<And>x. x \<in> set xs \<Longrightarrow> P x = Q x) \<Longrightarrow> (\<And>x. x \<in> set xs \<Longrightarrow> P x \<Longrightarrow> f x = g x) \<Longrightarrow>
   sum_where P f xs = sum_where Q g xs"
  by (induction xs) auto

lemma sum_where_none: "(\<And>x. x \<in> set xs \<Longrightarrow> \<not> P x) \<Longrightarrow> sum_where P f xs = 0"
  by (induction xs) auto

lemma sum_where_nonneg: "(\<And>x. x \<in> set xs \<Longrightarrow> P x \<Longrightarrow> 0 \<le> f x) \<Longrightarrow> 0 \<le> sum_where P f xs"
  by (induction xs) auto

lemma sum_where_mono:
  "(\<And>x. x \<in> set xs \<Longrightarrow> P x \<Longrightarrow> f x \<le> g x) \<Longrightarrow> sum_where P f xs \<le> sum_where P g xs"
  by (induction xs) (auto simp: add_mono)

lemma sum_where_subset:
  "(\<And>x. x \<in> set xs \<Longrightarrow> P x \<Longrightarrow> Q x) \<Longrightarrow> (\<And>x. x \<in> set xs \<Longrightarrow> Q x \<Longrightarrow> 0 \<le> f x) \<Longrightarrow>
   sum_where P f xs \<le> sum_where Q f xs"
  by (induction xs) (auto simp: add_increasing)

lemma sum_where_split:
  "sum_where P f xs = sum_where (\<lambda>x. P x \<and> Q x) f xs + sum_where (\<lambda>x. P x \<and> \<not> Q x) f xs"
  by (induction xs) auto

text \<open>
  Rows identified by a key: at most one row satisfies \<open>key r = k\<close>, so a change of that row changes
  a column sum by the change of that one row.
\<close>

lemma distinct_key_eq:
  "distinct (map key xs) \<Longrightarrow> x \<in> set xs \<Longrightarrow> y \<in> set xs \<Longrightarrow> key x = key y \<Longrightarrow> x = y"
  by (metis distinct_map inj_onD)

lemma find_row_key:
  "distinct (map key xs) \<Longrightarrow> x \<in> set xs \<Longrightarrow> find_row (\<lambda>r. key r = key x) xs = Some x"
  by (induction xs) (auto simp: rev_image_eqI)

lemma sum_where_update_key:
  assumes "distinct (map key xs)" and "find_row (\<lambda>r. key r = k) xs = Some x"
  shows "sum_where P f (update_where (\<lambda>r. key r = k) g xs) =
    sum_where P f xs - (if P x then f x else 0) + (if P (g x) then f (g x) else 0)"
  using assms
proof (induction xs)
  case Nil
  then show ?case by simp
next
  case (Cons a xs)
  show ?case
  proof (cases "key a = k")
    case True
    with Cons.prems have a: "a = x" and nk: "\<And>r. r \<in> set xs \<Longrightarrow> key r \<noteq> k"
      by (auto simp: image_iff)
    from nk have "update_where (\<lambda>r. key r = k) g xs = xs"
      by (rule update_where_none)
    with True a show ?thesis by simp
  next
    case False
    with Cons show ?thesis by simp
  qed
qed

section \<open>Strings\<close>

text \<open>
  JavaScript strings are modelled for ASCII text: \<open>trim\<close>, \<open>toUpperCase\<close>, \<open>toLowerCase\<close> and
  \<open>includes\<close>/\<open>contains\<close>.
\<close>

definition js_space :: "char \<Rightarrow> bool" where
  "js_space c \<longleftrightarrow> c \<in> {CHR '' '', CHR 0x09, CHR 0x0A, CHR 0x0B, CHR 0x0C, CHR 0x0D}"

definition js_trim :: "string \<Rightarrow> string" where
  "js_trim s = rev (dropWhile js_space (rev (dropWhile js_space s)))"

definition js_upper_char :: "char \<Rightarrow> char" where
  "js_upper_char c =
    (let n = (of_char c :: nat) in if 97 \<le> n \<and> n \<le> 122 then char_of (n - 32) else c)"

definition js_lower_char :: "char \<Rightarrow> char" where
  "js_lower_char c =
    (let n = (of_char c :: nat) in if 65 \<le> n \<and> n \<le> 90 then char_of (n + 32) else c)"

definition js_upper :: "string \<Rightarrow> string" where
  "js_upper s = map js_upper_char s"

definition js_lower :: "string \<Rightarrow> string" where
  "js_lower s = map js_lower_char s"

fun js_starts :: "string \<Rightarrow> string \<Rightarrow> bool" where
  "js_starts [] ys = True"
| "js_starts (x # xs) [] = False"
| "js_starts (x # xs) (y # ys) = (x = y \<and> js_starts xs ys)"

fun js_contains :: "string \<Rightarrow> string \<Rightarrow> bool" where
  "js_contains p [] = (p = [])"
| "js_contains p (y # ys) = (js_starts p (y # ys) \<or> js_contains p ys)"

lemma js_trim_Nil [simp]: "js_trim [] = []"
  by (simp add: js_trim_def)

lemma js_starts_append: "js_starts p (p @ ys)"
  by (induction p) auto

lemma js_contains_infix: "js_contains p (xs @ p @ ys)"
proof (induction xs)
  case Nil
  show ?case using js_starts_append [of p ys] by (cases "p @ ys") auto
next
  case (Cons x xs)
  then show ?case by simp
qed

text \<open>The decimal text of a whole number, as a template string prints it.\<close>

fun dec_nat :: "nat \<Rightarrow> string" where
  "dec_nat n = (if n < 10 then [char_of (48 + n)] else dec_nat (n div 10) @ [char_of (48 + n mod 10)])"

declare dec_nat.simps [simp del]

definition dec :: "int \<Rightarrow> string" where
  "dec i = (if i < 0 then ''-'' @ dec_nat (nat (- i)) else dec_nat (nat i))"

text \<open>A string a condition of the source reads as true: neither missing nor empty.\<close>

definition truthy :: "string option \<Rightarrow> bool" where
  "truthy x = (case x of None \<Rightarrow> False | Some s \<Rightarrow> s \<noteq> [])"

text \<open>\<open>x || y\<close> on an optional string.\<close>

definition or_else :: "string option \<Rightarrow> string option \<Rightarrow> string option" where
  "or_else x y = (if truthy x then x else y)"

lemma truthy_simps [simp]: "truthy None = False" "truthy (Some s) = (s \<noteq> [])"
  by (simp_all add: truthy_def)

lemma or_else_simps [simp]:
  "or_else None y = y" "or_else (Some []) y = y" "or_else (Some (c # cs)) y = Some (c # cs)"
  by (simp_all add: or_else_def)

end
