(* ===== verification/JsNumber.thy ===== *)
theory JsNumber
  imports Prelude Complex_Main "HOL-Library.Log_Nat"
begin

text \<open>
  JavaScript numbers where the money code leaves the integers: quotients and products of cents are
  IEEE doubles, and \<open>Math.round\<close> brings them back.  A double is a pair \<open>(m, k)\<close> that stands for
  \<open>m / 2 ^ k\<close>.  \<open>fl_frac n d\<close> is the double nearest to \<open>n / d\<close>, ties to even, for quotients below
  \<open>2 ^ 53\<close> (every amount here is a 32-bit number of cents); \<open>js_round\<close> is \<open>Math.round\<close>, which
  rounds halves up.  The theorem \<open>js_round_fl_frac\<close> says when the detour through doubles is
  harmless: the rounded quotient of two integers is the exact one while the numerator is below
  \<open>2 ^ 52\<close>.  Integers themselves are exact below \<open>2 ^ 53\<close> and are modelled as \<open>int\<close>.
\<close>

type_synonym dbl = "int \<times> nat"

text \<open>The integer nearest to \<open>n / d\<close>, ties to even.\<close>

definition round_even :: "int \<Rightarrow> int \<Rightarrow> int" where
  "round_even n d =
    (let q = n div d; r = n mod d in
      if 2 * r < d then q
      else if d < 2 * r then q + 1
      else if even q then q else q + 1)"

definition fl_pos :: "int \<Rightarrow> int \<Rightarrow> dbl" where
  "fl_pos n d =
    (let k = nat (53 - (bitlen n - bitlen d)) in
      if n * 2 ^ k < 2 ^ 53 * d then (round_even (n * 2 ^ k) d, k)
      else (round_even (n * 2 ^ (k - 1)) d, k - 1))"

definition fl_frac :: "int \<Rightarrow> int \<Rightarrow> dbl" where
  "fl_frac n d =
    (if n = 0 then (0, 0)
     else if 0 < n then fl_pos n d
     else (let (m, k) = fl_pos (- n) d in (- m, k)))"

definition fl_mul :: "dbl \<Rightarrow> dbl \<Rightarrow> dbl" where
  "fl_mul x y = fl_frac (fst x * fst y) (2 ^ (snd x + snd y))"

definition dbl_of_int :: "int \<Rightarrow> dbl" where
  "dbl_of_int n = (n, 0)"

definition js_round :: "dbl \<Rightarrow> int" where
  "js_round x = (2 * fst x + 2 ^ snd x) div (2 * 2 ^ snd x)"

text \<open>The exact rounded quotient: halves up, no double in between.\<close>

definition round_frac :: "int \<Rightarrow> int \<Rightarrow> int" where
  "round_frac n d = (2 * n + d) div (2 * d)"

section \<open>Rounding a quotient of integers\<close>

lemma round_even_bound:
  assumes "0 < d"
  shows "2 * (round_even n d * d) \<le> 2 * n + d" and "2 * n - d \<le> 2 * (round_even n d * d)"
proof -
  define q r where "q = n div d" and "r = n mod d"
  have n: "n = q * d + r" and r: "0 \<le> r" "r < d"
    using assms by (auto simp: q_def r_def)
  have e: "round_even n d = q \<and> 2 * r \<le> d \<or> round_even n d = q + 1 \<and> d \<le> 2 * r"
    by (auto simp: round_even_def Let_def q_def [symmetric] r_def [symmetric])
  have q1: "(q + 1) * d = q * d + d" by (simp add: algebra_simps)
  show "2 * (round_even n d * d) \<le> 2 * n + d"
    using e n r q1 by auto
  show "2 * n - d \<le> 2 * (round_even n d * d)"
    using e n r q1 by auto
qed

lemma round_even_exact: "0 < d \<Longrightarrow> round_even (a * d) d = a"
  by (simp add: round_even_def)

lemma pow2_split: "k \<le> j \<Longrightarrow> (2::int) ^ j = 2 ^ k * 2 ^ (j - k)"
  by (simp flip: power_add)

text \<open>\<open>fl_pos\<close> scales the quotient into \<open>[2 ^ 52, 2 ^ 53)\<close>: it keeps 53 significant bits.\<close>

lemma fl_pos_scale:
  assumes n: "0 < n" and d: "0 < d" and small: "n < 2 ^ 52 * d"
  obtains k where "fl_pos n d = (round_even (n * 2 ^ k) d, k)" and "0 < k" and
    "2 ^ 52 * d \<le> n * 2 ^ k" and "n * 2 ^ k < 2 ^ 53 * d"
proof -
  define a b where "a = nat (bitlen n)" and "b = nat (bitlen d)"
  have a1: "1 \<le> bitlen n" and b1: "1 \<le> bitlen d"
    using n d bitlen_eq_zero_iff [of n] bitlen_eq_zero_iff [of d] bitlen_nonneg [of n] bitlen_nonneg [of d]
    by linarith+
  have bl: "bitlen n = int a" "bitlen d = int b" and ab: "1 \<le> a" "1 \<le> b"
    using a1 b1 by (auto simp: a_def b_def)
  have na: "2 ^ (a - 1) \<le> n" "n < 2 ^ a"
    using bitlen_bounds [OF n] bl ab by (auto simp: nat_diff_distrib)
  have db: "2 ^ (b - 1) \<le> d" "d < 2 ^ b"
    using bitlen_bounds [OF d] bl ab by (auto simp: nat_diff_distrib)
  have le: "a \<le> 53 + b"
  proof (rule ccontr)
    assume "\<not> a \<le> 53 + b"
    then have "(2::int) ^ (53 + b) \<le> 2 ^ (a - 1)" by (intro power_increasing) auto
    also have "\<dots> \<le> n" by (rule na)
    finally have "2 ^ 53 * 2 ^ b \<le> n" by (simp add: power_add)
    moreover have "(2::int) ^ 52 * d \<le> 2 ^ 53 * 2 ^ b"
      using db(2) d by (intro mult_mono) auto
    ultimately show False using small by linarith
  qed
  define k where "k = nat (53 - (bitlen n - bitlen d))"
  have k: "k = 53 + b - a" using le by (simp add: k_def bl)
  have low: "2 ^ 52 * d < n * 2 ^ k"
  proof -
    have "2 ^ 52 * d < 2 ^ 52 * 2 ^ b" using db(2) by simp
    also have "\<dots> = 2 ^ (a - 1) * 2 ^ k"
    proof -
      have "52 + b = a - 1 + k" using k le ab by simp
      then show ?thesis by (metis power_add)
    qed
    also have "\<dots> \<le> n * 2 ^ k" using na(1) by (intro mult_right_mono) auto
    finally show ?thesis .
  qed
  have high: "n * 2 ^ k < 2 ^ 54 * d"
  proof -
    have "n * 2 ^ k < 2 ^ a * 2 ^ k" using na(2) by simp
    also have "\<dots> = 2 ^ 54 * 2 ^ (b - 1)"
    proof -
      have "a + k = 54 + (b - 1)" using k le ab by simp
      then show ?thesis by (metis power_add)
    qed
    also have "\<dots> \<le> 2 ^ 54 * d" using db(1) by (intro mult_left_mono) auto
    finally show ?thesis .
  qed
  show ?thesis
  proof (cases "n * 2 ^ k < 2 ^ 53 * d")
    case True
    have "0 < k" using low small by (cases k) auto
    with True low show ?thesis
      by (intro that [of k]) (auto simp: fl_pos_def Let_def k_def [symmetric])
  next
    case False
    have k1: "1 < k"
    proof (rule ccontr)
      assume "\<not> 1 < k"
      then have "n * 2 ^ k \<le> n * 2 ^ 1" using n by (intro mult_left_mono power_increasing) auto
      with False small show False by simp
    qed
    then have pk: "(2::int) ^ k = 2 * 2 ^ (k - 1)"
      by (cases k) auto
    from False high k1 show ?thesis
      by (intro that [of "k - 1"]) (auto simp: fl_pos_def Let_def k_def [symmetric] pk)
  qed
qed

lemma round_frac_bounds:
  assumes "0 < d"
  shows "round_frac n d * (2 * d) \<le> 2 * n + d" and "2 * n + d < (round_frac n d + 1) * (2 * d)"
proof -
  define r where "r = (2 * n + d) mod (2 * d)"
  have "round_frac n d * (2 * d) + r = 2 * n + d"
    unfolding r_def round_frac_def by (rule div_mult_mod_eq)
  moreover have "0 \<le> r" "r < 2 * d" using assms by (auto simp: r_def)
  moreover have "(round_frac n d + 1) * (2 * d) = round_frac n d * (2 * d) + 2 * d"
    by (simp add: algebra_simps)
  ultimately show "round_frac n d * (2 * d) \<le> 2 * n + d"
    and "2 * n + d < (round_frac n d + 1) * (2 * d)" by linarith+
qed

lemma js_round_eqI:
  assumes "(2 * t - 1) * 2 ^ k \<le> 2 * m" and "2 * m < (2 * t + 1) * 2 ^ k"
  shows "js_round (m, k) = t"
proof -
  have "t * (2 * 2 ^ k) \<le> 2 * m + 2 ^ k" "2 * m + 2 ^ k < (t + 1) * (2 * 2 ^ k)"
    using assms by (auto simp: algebra_simps)
  then show ?thesis
    unfolding js_round_def fst_conv snd_conv
    by (intro int_div_pos_eq [of _ _ _ "2 * m + 2 ^ k - t * (2 * 2 ^ k)"]) (auto simp: algebra_simps)
qed

text \<open>
  \<open>Math.round (n / d)\<close> is the exact rounded quotient.  The relative error of the division is at
  most \<open>2 ^ -53\<close>; with \<open>n < 2 ^ 52\<close> it is below \<open>1 / (2 * d)\<close>, the distance of a quotient that is
  not a half integer from the next half integer, and half integers are representable.
\<close>

lemma js_round_fl_frac:
  assumes n: "0 \<le> n" "n < 2 ^ 52" and d: "0 < d"
  shows "js_round (fl_frac n d) = round_frac n d"
proof (cases "n = 0")
  case True
  then show ?thesis using d
    by (simp add: fl_frac_def js_round_def round_frac_def)
next
  case False
  with n have n0: "0 < n" by simp
  have "(2 ^ 52 :: int) * 1 \<le> 2 ^ 52 * d" using d by (intro mult_left_mono) auto
  with n have "n < 2 ^ 52 * d" by linarith
  from fl_pos_scale [OF n0 d this]
  obtain k where fl: "fl_pos n d = (round_even (n * 2 ^ k) d, k)" and k0: "0 < k"
    and low: "2 ^ 52 * d \<le> n * 2 ^ k" by metis
  define m t where "m = round_even (n * 2 ^ k) d" and "t = round_frac n d"
  have dk: "d < 2 ^ k"
  proof -
    have "n * 2 ^ k < 2 ^ 52 * 2 ^ k"
      by (rule mult_strict_right_mono) (use n(2) in simp_all)
    with low have "2 ^ 52 * d < 2 ^ 52 * 2 ^ k" by (rule order_le_less_trans)
    then show ?thesis by (rule mult_left_less_imp_less) simp
  qed
  have up: "2 * (m * d) \<le> 2 * (n * 2 ^ k) + d" and lo: "2 * (n * 2 ^ k) - d \<le> 2 * (m * d)"
    using round_even_bound [OF d, of "n * 2 ^ k"] by (auto simp: m_def)
  have t: "t * (2 * d) \<le> 2 * n + d" "2 * n + d < (t + 1) * (2 * d)"
    using round_frac_bounds [OF d, of n] by (simp_all add: t_def)
  have upper: "2 * m < (2 * t + 1) * 2 ^ k"
  proof -
    have "2 * n + 1 \<le> (2 * t + 1) * d" using t(2) by (simp add: algebra_simps)
    then have "(2 * n + 1) * 2 ^ k \<le> (2 * t + 1) * d * 2 ^ k" by (intro mult_right_mono) auto
    with up dk have "(2 * m) * d < ((2 * t + 1) * 2 ^ k) * d" by (simp add: algebra_simps)
    then show ?thesis using d by (simp only: mult_less_cancel_right_pos)
  qed
  have lower: "(2 * t - 1) * 2 ^ k \<le> 2 * m"
  proof (cases "2 * n = (2 * t - 1) * d")
    case True
    have pk: "(2::int) ^ k = 2 * 2 ^ (k - 1)" using k0 by (cases k) auto
    have "n * 2 ^ k = (2 * n) * 2 ^ (k - 1)" by (simp only: pk mult_ac)
    also have "\<dots> = ((2 * t - 1) * d) * 2 ^ (k - 1)" by (simp only: True)
    also have "\<dots> = ((2 * t - 1) * 2 ^ (k - 1)) * d" by (simp only: mult_ac)
    finally have "n * 2 ^ k = ((2 * t - 1) * 2 ^ (k - 1)) * d" .
    then have "m = (2 * t - 1) * 2 ^ (k - 1)"
      unfolding m_def by (simp only: round_even_exact [OF d])
    then show ?thesis by (simp add: pk)
  next
    case False
    with t(1) have "(2 * t - 1) * d + 1 \<le> 2 * n" by (simp add: algebra_simps)
    then have "((2 * t - 1) * d + 1) * 2 ^ k \<le> 2 * n * 2 ^ k" by (intro mult_right_mono) auto
    with lo dk have "((2 * t - 1) * 2 ^ k) * d < (2 * m) * d" by (simp add: algebra_simps)
    then have "(2 * t - 1) * 2 ^ k < 2 * m" using d by (simp only: mult_less_cancel_right_pos)
    then show ?thesis by simp
  qed
  have "js_round (m, k) = t" using lower upper by (rule js_round_eqI)
  with n0 fl show ?thesis by (simp add: fl_frac_def m_def t_def)
qed

section \<open>Facts about the exact rounded quotient\<close>

lemma round_frac_nonneg: "0 \<le> n \<Longrightarrow> 0 < d \<Longrightarrow> 0 \<le> round_frac n d"
  by (simp add: round_frac_def pos_imp_zdiv_nonneg_iff)

lemma round_frac_le:
  assumes "0 \<le> n" "0 < d" "n \<le> a * d"
  shows "round_frac n d \<le> a"
proof -
  have "(2 * n + d) div (2 * d) \<le> (2 * (a * d) + d) div (2 * d)"
    using assms by (intro zdiv_mono1) auto
  also have "2 * (a * d) + d = d + a * (2 * d)" by (simp add: algebra_simps)
  also have "(d + a * (2 * d)) div (2 * d) = a"
    using assms(2) by (subst div_mult_self1) (auto simp: div_pos_pos_trivial)
  finally show ?thesis by (simp add: round_frac_def)
qed

lemma round_frac_whole: "0 < d \<Longrightarrow> round_frac (a * d) d = a"
proof -
  assume d: "0 < d"
  have "2 * (a * d) + d = d + a * (2 * d)" by (simp add: algebra_simps)
  moreover have "(d + a * (2 * d)) div (2 * d) = a"
    using d by (subst div_mult_self1) (auto simp: div_pos_pos_trivial)
  ultimately show ?thesis by (simp only: round_frac_def)
qed

end
