(* ===== verification/Schema.thy ===== *)
theory Schema
  imports JsNumber
begin

text \<open>
  The data model: the enums and the tables of \<open>apps/api/prisma/schema.prisma\<close> the services work
  on, and the state their methods run in.  The state is a chain of extensible records, so that a
  component's operations are stated over the tables it uses and hold for every larger state:
  \<open>core_db\<close> (clock, ids, audit log, emitted events, outbox), \<open>inv_db\<close> (shops, products, stock,
  reservations), \<open>fin_db\<close> (both ledgers, payouts), \<open>ord_db\<close> (carts, orders, tax and shipping rates),
  \<open>pay_db\<close> (payments, refunds, webhooks, disputes) and \<open>rfq_db\<close> (requests for quotation).

  A row keeps the columns the modelled methods read or write.  Ids are strings, times are
  milliseconds, amounts are cents.  A fresh id (\<open>cuid()\<close>, \<open>uuid()\<close>, \<open>randomUUID()\<close>) is the next
  value of the supply carried by the state; that the supply never repeats is a hypothesis where it
  matters.  The clock is one value during an operation.
\<close>

section \<open>Enums\<close>

datatype role = SUPER_ADMIN | ADMIN | MERCHANT | CUSTOMER

datatype shop_status = SH_PENDING | SH_ACTIVE | SH_SUSPENDED | SH_REJECTED

datatype product_status = PR_DRAFT | PR_ACTIVE | PR_ARCHIVED

datatype reservation_status = RS_ACTIVE | RS_CONFIRMED | RS_EXPIRED | RS_RELEASED | RS_CANCELLED

datatype order_status =
    OS_PENDING_PAYMENT | OS_PAID | OS_PROCESSING | OS_SHIPPED | OS_COMPLETED
  | OS_CANCELLED | OS_DISPUTED | OS_REFUNDED | OS_PARTIALLY_REFUNDED

datatype payment_status = PS_PENDING | PS_REQUIRES_ACTION | PS_SUCCEEDED | PS_FAILED | PS_CANCELLED

datatype payout_status =
    PO_PENDING | PO_RESERVED | PO_PROCESSING | PO_APPROVED | PO_REJECTED
  | PO_COMPLETED | PO_PAID | PO_FAILED | PO_CANCELLED

datatype refund_status =
    RF_REQUESTED | RF_APPROVED | RF_PROVIDER_REQUESTED | RF_PROVIDER_CONFIRMED
  | RF_COMPLETED | RF_REJECTED | RF_FAILED

datatype dispute_status = DS_OPEN | DS_APPEALED | DS_RESOLVED | DS_CLOSED

datatype ledger_account = LA_PLATFORM | LA_VENDOR | LA_CUSTOMER_HOLD | LA_EXTERNAL

datatype ledger_entry_type =
    LE_ORDER_PAYMENT | LE_COMMISSION | LE_VENDOR_EARNING | LE_PAYOUT | LE_REFUND
  | LE_ADJUSTMENT | LE_DEPOSIT

datatype fin_type = FT_PAYMENT | FT_REFUND | FT_PAYOUT | FT_COMMISSION | FT_ADJUSTMENT | FT_CHARGEBACK

datatype fin_status = FS_PENDING | FS_POSTED | FS_REVERSED | FS_FAILED

datatype account_type =
    PLATFORM_CLEARING | PLATFORM_COMMISSION | VENDOR_PAYABLE | VENDOR_AVAILABLE | CUSTOMER_BALANCE

datatype direction = DEBIT | CREDIT

datatype rfq_status = RQ_DRAFT | RQ_OPEN | RQ_MATCHED | RQ_QUOTED | RQ_AWARDED | RQ_CLOSED | RQ_CANCELLED

datatype offer_status = OF_PENDING | OF_ACCEPTED | OF_REJECTED | OF_WITHDRAWN

section \<open>The caller\<close>

record jwt_payload =
  sub :: string
  email :: string
  user_role :: role
  user_shopId :: "string option"
  user_tenantId :: "string option"

definition is_admin :: "jwt_payload \<Rightarrow> bool" where
  "is_admin u \<longleftrightarrow> user_role u = ADMIN \<or> user_role u = SUPER_ADMIN"

section \<open>Core\<close>

record audit_row =
  au_actorId :: "string option"
  au_action :: string
  au_entityType :: string
  au_entityId :: "string option"

text \<open>An emitted domain event: its name and the id of the entity it is about.\<close>

type_synonym domain_event = "string \<times> string"

text \<open>The JSON values the services put into a payload.\<close>

datatype json = JNull | JString string | JNumber int | JStrings "string list"

type_synonym payload = "(string \<times> json) list"

record outbox_row =
  ob_id :: string
  ob_eventType :: string
  ob_payload :: payload
  ob_status :: string
  ob_attempts :: int
  ob_lastError :: "string option"
  ob_processedAt :: "int option"

record core_db =
  clock :: int
  id_supply :: "nat \<Rightarrow> string"
  next_id :: nat
  audit_log :: "audit_row list"
  emitted :: "domain_event list"
  outbox :: "outbox_row list"

section \<open>Catalog and stock\<close>

record shop_row =
  sh_id :: string
  sh_name :: string
  sh_slug :: string
  sh_status :: shop_status
  sh_verified :: bool
  sh_tenantId :: "string option"
  sh_stripeAccountId :: "string option"
  sh_stripeAccountStatus :: "string option"
  sh_chargesEnabled :: bool
  sh_payoutsEnabled :: bool
  sh_detailsSubmitted :: bool
  sh_stripeOnboardedAt :: "int option"
  sh_kycNotes :: "string option"
  sh_rejectionReason :: "string option"
  sh_description :: "string option"
  sh_legalName :: "string option"
  sh_taxId :: "string option"
  sh_country :: "string option"
  sh_address :: "string option"
  sh_payoutDetails :: "string option"

record product_row =
  p_id :: string
  p_shopId :: string
  p_categoryId :: "string option"
  p_name :: string
  p_priceCents :: int
  p_stock :: int
  p_reservedStock :: int
  p_status :: product_status
  p_slug :: string
  p_description :: "string option"
  p_imageUrl :: "string option"
  p_sku :: "string option"
  p_gtin :: "string option"
  p_brand :: "string option"
  p_moq :: int
  p_currency :: string
  p_tenantId :: "string option"

record stock_row =
  ps_productId :: string
  ps_warehouseId :: string
  ps_quantity :: int
  ps_reserved :: int

record warehouse_row =
  w_id :: string
  w_tenantId :: "string option"
  w_merchantId :: string
  w_name :: string
  w_code :: "string option"
  w_isDefault :: bool
  w_isActive :: bool

record reservation_row =
  r_id :: string
  r_productId :: string
  r_orderId :: string
  r_warehouseId :: "string option"
  r_quantity :: int
  r_status :: reservation_status
  r_expiresAt :: int

record inv_db = core_db +
  shops :: "shop_row list"
  products :: "product_row list"
  stocks :: "stock_row list"
  warehouses :: "warehouse_row list"
  reservations :: "reservation_row list"

section \<open>Money\<close>

record entry_row =
  fe_account :: account_type
  fe_shopId :: "string option"
  fe_direction :: direction
  fe_amountCents :: int

record fin_txn_row =
  ft_id :: string
  ft_type :: fin_type
  ft_referenceType :: string
  ft_referenceId :: string
  ft_currency :: string
  ft_status :: fin_status
  ft_entries :: "entry_row list"

record ledger_row =
  le_shopId :: "string option"
  le_orderId :: "string option"
  le_account :: ledger_account
  le_entryType :: ledger_entry_type
  le_amountCents :: int
  le_currency :: string
  le_metadata :: "string option"

record payout_row =
  po_id :: string
  po_shopId :: string
  po_amountCents :: int
  po_status :: payout_status
  po_note :: "string option"
  po_adminNote :: "string option"
  po_reservedAt :: "int option"
  po_processedAt :: "int option"
  po_completedAt :: "int option"
  po_failureReason :: "string option"
  po_stripeTransferId :: "string option"
  po_requestedById :: "string option"

record fin_db = inv_db +
  fin_txns :: "fin_txn_row list"
  ledger_entries :: "ledger_row list"
  payouts :: "payout_row list"

section \<open>Orders\<close>

record cart_row =
  c_id :: string
  c_userId :: "string option"
  c_sessionKey :: "string option"

record cart_item_row =
  ci_id :: string
  ci_cartId :: string
  ci_productId :: string
  ci_quantity :: int

record order_item =
  oi_productId :: "string option"
  oi_productName :: string
  oi_unitPriceCents :: int
  oi_quantity :: int
  oi_lineTotalCents :: int
  oi_warehouseId :: "string option"
  oi_taxRateId :: "string option"
  oi_taxCents :: int

record order_row =
  o_id :: string
  o_orderNumber :: string
  o_customerId :: "string option"
  o_shopId :: string
  o_status :: order_status
  o_currency :: string
  o_subtotalCents :: int
  o_taxCents :: int
  o_commissionCents :: int
  o_totalCents :: int
  o_customerEmail :: "string option"
  o_customerName :: "string option"
  o_paymentTokenHash :: "string option"
  o_paymentTokenExpiresAt :: "int option"
  o_shippingMethodId :: "string option"
  o_shippingRateId :: "string option"
  o_shippingPriceCents :: int
  o_shippingDaysMin :: "int option"
  o_shippingDaysMax :: "int option"
  o_paymentRef :: "string option"
  o_source :: string
  o_rfqId :: "string option"
  o_offerId :: "string option"
  o_items :: "order_item list"

record history_row =
  h_orderId :: string
  h_fromStatus :: "order_status option"
  h_toStatus :: order_status
  h_actorId :: "string option"
  h_reason :: "string option"

record tax_rate_row =
  tr_id :: string
  tr_tenantId :: "string option"
  tr_name :: string
  tr_code :: "string option"
  tr_rate10000 :: int
  tr_country :: string
  tr_isDefault :: bool
  tr_isActive :: bool

record product_tax_row =
  pt_productId :: string
  pt_taxRateId :: string

record shipping_method_row =
  sm_id :: string
  sm_tenantId :: "string option"
  sm_merchantId :: "string option"
  sm_name :: string
  sm_code :: "string option"
  sm_description :: "string option"
  sm_isActive :: bool

record shipping_zone_row =
  sz_id :: string
  sz_tenantId :: "string option"
  sz_name :: string
  sz_countries :: "string list"
  sz_regions :: "string list"

record shipping_rate_row =
  sr_id :: string
  sr_methodId :: string
  sr_zoneId :: string
  sr_warehouseId :: "string option"
  sr_minWeightKg :: "dbl option"
  sr_maxWeightKg :: "dbl option"
  sr_priceCents :: int
  sr_pricePerKgCents :: "int option"
  sr_isActive :: bool
  sr_daysMin :: "int option"
  sr_daysMax :: "int option"

record ord_db = fin_db +
  carts :: "cart_row list"
  cart_items :: "cart_item_row list"
  orders :: "order_row list"
  history :: "history_row list"
  tax_rates :: "tax_rate_row list"
  product_taxes :: "product_tax_row list"
  shipping_methods :: "shipping_method_row list"
  shipping_zones :: "shipping_zone_row list"
  shipping_rates :: "shipping_rate_row list"

section \<open>Payments and refunds\<close>

record payment_row =
  pay_id :: string
  pay_orderId :: string
  pay_provider :: string
  pay_providerPaymentId :: "string option"
  pay_status :: payment_status
  pay_amountCents :: int
  pay_currency :: string
  pay_idempotencyKey :: string
  pay_paidAt :: "int option"

record refund_row =
  rf_id :: string
  rf_orderId :: string
  rf_amountCents :: int
  rf_currency :: string
  rf_reason :: "string option"
  rf_status :: refund_status
  rf_adminNote :: "string option"
  rf_requestedById :: "string option"
  rf_approvedById :: "string option"
  rf_approvedAt :: "int option"
  rf_stripeRefundId :: "string option"
  rf_providerRequestedAt :: "int option"
  rf_providerConfirmedAt :: "int option"
  rf_completedAt :: "int option"
  rf_failureReason :: "string option"

record webhook_row =
  wh_provider :: string
  wh_externalId :: string
  wh_eventType :: string
  wh_status :: string
  wh_orderId :: "string option"
  wh_processedAt :: "int option"
  wh_errorMessage :: "string option"

record dispute_row =
  dp_id :: string
  dp_orderId :: string
  dp_reason :: string
  dp_status :: dispute_status
  dp_resolution :: "string option"

record connected_row =
  ca_shopId :: string
  ca_stripeAccountId :: string
  ca_status :: string
  ca_chargesEnabled :: bool
  ca_payoutsEnabled :: bool
  ca_detailsSubmitted :: bool

record pay_db = ord_db +
  payments :: "payment_row list"
  refunds :: "refund_row list"
  webhook_events :: "webhook_row list"
  disputes :: "dispute_row list"
  connected_accounts :: "connected_row list"

section \<open>Requests for quotation\<close>

record rfq_item =
  ri_id :: string
  ri_name :: string
  ri_quantity :: int
  ri_categoryId :: "string option"

record rfq_row =
  rq_id :: string
  rq_number :: string
  rq_buyerId :: string
  rq_title :: string
  rq_status :: rfq_status
  rq_deadline :: "int option"
  rq_currency :: string
  rq_awardedOfferId :: "string option"
  rq_items :: "rfq_item list"

record offer_item =
  of_rfqItemId :: string
  of_unitPriceCents :: int
  of_quantity :: int

record offer_row =
  of_id :: string
  of_rfqId :: string
  of_shopId :: string
  of_vendorId :: string
  of_status :: offer_status
  of_totalCents :: int
  of_currency :: string
  of_items :: "offer_item list"

record match_row =
  ma_rfqId :: string
  ma_shopId :: string
  ma_score :: int
  ma_reason :: string

record message_row =
  ms_rfqId :: string
  ms_authorId :: string
  ms_body :: string

record rfq_db = pay_db +
  rfqs :: "rfq_row list"
  offers :: "offer_row list"
  matches :: "match_row list"
  messages :: "message_row list"
  rfq_seq :: nat

section \<open>Steps every service uses\<close>

text \<open>A fresh id.\<close>

definition newIdA :: "('z core_db_scheme, string) act" where
  "newIdA = (\<lambda>s. (Inr (id_supply s (next_id s)), s\<lparr>next_id := Suc (next_id s)\<rparr>))"

text \<open>
  \<open>prisma.t.update({ where, data })\<close>: throws (code P2025) when no row matches.  The table is given
  by its selector and its updater.
\<close>

definition updateA ::
  "('s \<Rightarrow> 'r list) \<Rightarrow> (('r list \<Rightarrow> 'r list) \<Rightarrow> 's \<Rightarrow> 's) \<Rightarrow> ('r \<Rightarrow> bool) \<Rightarrow> ('r \<Rightarrow> 'r) \<Rightarrow>
   ('s, unit) act" where
  "updateA sel upd P f =
    (\<lambda>s. if find_row P (sel s) = None then (Inl (PrismaError ''P2025''), s)
         else (Inr (), upd (update_where P f) s))"

text \<open>The same where the code uses the updated row.\<close>

definition updateRowA ::
  "('s \<Rightarrow> 'r list) \<Rightarrow> (('r list \<Rightarrow> 'r list) \<Rightarrow> 's \<Rightarrow> 's) \<Rightarrow> ('r \<Rightarrow> bool) \<Rightarrow> ('r \<Rightarrow> 'r) \<Rightarrow>
   ('s, 'r) act" where
  "updateRowA sel upd P f =
    (\<lambda>s. case find_row P (sel s) of
      None \<Rightarrow> (Inl (PrismaError ''P2025''), s)
    | Some r \<Rightarrow> (Inr (f r), upd (update_where P f) s))"

text \<open>\<open>prisma.t.create({ data })\<close> and \<open>prisma.t.updateMany({ where, data })\<close>.\<close>

definition createA :: "(('r list \<Rightarrow> 'r list) \<Rightarrow> 's \<Rightarrow> 's) \<Rightarrow> 'r \<Rightarrow> ('s, unit) act" where
  "createA upd row = modifyA (upd (\<lambda>t. t @ [row]))"

definition updateManyA ::
  "(('r list \<Rightarrow> 'r list) \<Rightarrow> 's \<Rightarrow> 's) \<Rightarrow> ('r \<Rightarrow> bool) \<Rightarrow> ('r \<Rightarrow> 'r) \<Rightarrow> ('s, unit) act" where
  "updateManyA upd P f = modifyA (upd (update_where P f))"

text \<open>\<open>audit.log\<close>; an empty actor or entity id is stored as null.\<close>

definition auditA ::
  "string option \<Rightarrow> string \<Rightarrow> string \<Rightarrow> string option \<Rightarrow> ('z core_db_scheme, unit) act" where
  "auditA actor action ety eid =
    modifyA (audit_log_update (\<lambda>t. t @
      [\<lparr>au_actorId = or_else actor None, au_action = action, au_entityType = ety,
        au_entityId = or_else eid None\<rparr>]))"

text \<open>\<open>events.emit\<close>.\<close>

definition emitA :: "string \<Rightarrow> string \<Rightarrow> ('z core_db_scheme, unit) act" where
  "emitA name eid = modifyA (emitted_update (\<lambda>t. t @ [(name, eid)]))"

text \<open>\<open>outbox.enqueue\<close> and \<open>outbox.addToOutbox\<close>: the same row, outside or inside a transaction.\<close>

definition enqueueA :: "string \<Rightarrow> payload \<Rightarrow> ('z core_db_scheme, unit) act" where
  "enqueueA eventType p =
    bindA newIdA (\<lambda>i. createA outbox_update
      \<lparr>ob_id = i, ob_eventType = eventType, ob_payload = p, ob_status = ''PENDING'', ob_attempts = 0,
       ob_lastError = None, ob_processedAt = None\<rparr>)"

text \<open>A unique column: \<open>create\<close> throws P2002 when the value is taken.\<close>

definition createUniqueA ::
  "('s \<Rightarrow> 'r list) \<Rightarrow> (('r list \<Rightarrow> 'r list) \<Rightarrow> 's \<Rightarrow> 's) \<Rightarrow> ('r \<Rightarrow> bool) \<Rightarrow> 'r \<Rightarrow> ('s, unit) act" where
  "createUniqueA sel upd taken row =
    bindA (getsA sel) (\<lambda>t. thenA (guardA (\<not> list_ex taken t) (PrismaError ''P2002'')) (createA upd row))"

named_theorems step_defs \<open>definitions of the steps every service uses\<close>

declare newIdA_def [step_defs] updateA_def [step_defs] updateRowA_def [step_defs] createA_def [step_defs]
  updateManyA_def [step_defs] enqueueA_def [step_defs] createUniqueA_def [step_defs] auditA_def [step_defs] emitA_def [step_defs]

lemma newIdA_ok [ok_simps]:
  "newIdA s = (Inr i, s') \<longleftrightarrow> i = id_supply s (next_id s) \<and> s' = s\<lparr>next_id := Suc (next_id s)\<rparr>"
  by (auto simp: newIdA_def)

lemma updateA_ok [ok_simps]:
  "updateA sel upd P f s = (Inr u, s') \<longleftrightarrow>
    find_row P (sel s) \<noteq> None \<and> s' = upd (update_where P f) s"
  by (auto simp: updateA_def)

lemma updateRowA_ok [ok_simps]:
  "updateRowA sel upd P f s = (Inr x, s') \<longleftrightarrow>
    (\<exists>r. find_row P (sel s) = Some r \<and> x = f r \<and> s' = upd (update_where P f) s)"
  by (auto simp: updateRowA_def split: option.splits)

lemma createA_ok [ok_simps]: "createA upd row s = (Inr u, s') \<longleftrightarrow> s' = upd (\<lambda>t. t @ [row]) s"
  by (simp add: createA_def ok_simps)

lemma createUniqueA_ok [ok_simps]:
  "createUniqueA sel upd taken row s = (Inr u, s') \<longleftrightarrow>
    (\<forall>r \<in> set (sel s). \<not> taken r) \<and> s' = upd (\<lambda>t. t @ [row]) s"
  by (auto simp: createUniqueA_def ok_simps list_ex_iff)

lemma updateManyA_ok [ok_simps]:
  "updateManyA upd P f s = (Inr u, s') \<longleftrightarrow> s' = upd (update_where P f) s"
  by (simp add: updateManyA_def ok_simps)

lemma auditA_ok [ok_simps]:
  "auditA a b c d s = (Inr u, s') \<longleftrightarrow>
    s' = audit_log_update (\<lambda>t. t @ [\<lparr>au_actorId = or_else a None, au_action = b,
      au_entityType = c, au_entityId = or_else d None\<rparr>]) s"
  by (simp add: auditA_def ok_simps)

lemma emitA_ok [ok_simps]:
  "emitA a b s = (Inr u, s') \<longleftrightarrow> s' = emitted_update (\<lambda>t. t @ [(a, b)]) s"
  by (simp add: emitA_def ok_simps)

lemma updateA_state: "snd (updateA sel upd P f s) = s \<or> snd (updateA sel upd P f s) = upd (update_where P f) s"
  by (simp add: updateA_def)

lemma keeps_updateA [keeps_intros]:
  "(\<And>s. I s \<Longrightarrow> I (upd (update_where P f) s)) \<Longrightarrow> keeps I (updateA sel upd P f)"
  by (simp add: keeps_def updateA_def)

lemma keeps_updateRowA [keeps_intros]:
  "(\<And>s. I s \<Longrightarrow> I (upd (update_where P f) s)) \<Longrightarrow> keeps I (updateRowA sel upd P f)"
  by (simp add: keeps_def updateRowA_def split: option.splits)

lemma keeps_createA [keeps_intros]:
  "(\<And>s. I s \<Longrightarrow> I (upd (\<lambda>t. t @ [row]) s)) \<Longrightarrow> keeps I (createA upd row)"
  by (simp add: createA_def keeps_modify)

lemma keeps_createUniqueA [keeps_intros]:
  "(\<And>s. I s \<Longrightarrow> I (upd (\<lambda>t. t @ [row]) s)) \<Longrightarrow> keeps I (createUniqueA sel upd taken row)"
  unfolding createUniqueA_def by (intro keeps_intros)

lemma keeps_updateManyA [keeps_intros]:
  "(\<And>s. I s \<Longrightarrow> I (upd (update_where P f) s)) \<Longrightarrow> keeps I (updateManyA upd P f)"
  by (simp add: updateManyA_def keeps_modify)

lemma keeps_auditA [keeps_intros]:
  "(\<And>s f. I s \<Longrightarrow> I (audit_log_update f s)) \<Longrightarrow> keeps I (auditA a b c d)"
  by (simp add: auditA_def keeps_modify)

lemma keeps_emitA [keeps_intros]:
  "(\<And>s f. I s \<Longrightarrow> I (emitted_update f s)) \<Longrightarrow> keeps I (emitA a b)"
  by (simp add: emitA_def keeps_modify)

lemma keeps_newIdA [keeps_intros]:
  "(\<And>s n. I s \<Longrightarrow> I (s\<lparr>next_id := n\<rparr>)) \<Longrightarrow> keeps I newIdA"
  by (simp add: newIdA_def keeps_def)

lemma keeps_enqueueA [keeps_intros]:
  "(\<And>s n. I s \<Longrightarrow> I (s\<lparr>next_id := n\<rparr>)) \<Longrightarrow> (\<And>s f. I s \<Longrightarrow> I (outbox_update f s)) \<Longrightarrow>
   keeps I (enqueueA e p)"
  unfolding enqueueA_def by (intro keeps_bind keeps_newIdA keeps_createA) auto

section \<open>The empty database\<close>

text \<open>No rows; ids are runs of a letter, so the supply does not repeat.\<close>

definition empty_db :: rfq_db where
  "empty_db =
    \<lparr>clock = 0, id_supply = (\<lambda>n. replicate (Suc n) CHR ''i''), next_id = 0, audit_log = [], emitted = [],
     outbox = [], shops = [], products = [], stocks = [], warehouses = [], reservations = [],
     fin_txns = [], ledger_entries = [], payouts = [], carts = [], cart_items = [], orders = [],
     history = [], tax_rates = [], product_taxes = [], shipping_methods = [],
     shipping_zones = [], shipping_rates = [], payments = [], refunds = [],
     webhook_events = [], disputes = [], connected_accounts = [], rfqs = [], offers = [], matches = [], messages = [],
     rfq_seq = 0\<rparr>"

lemma inj_runs: "inj (\<lambda>n. replicate (Suc n) c)"
  by (intro injI) (metis Suc_inject length_replicate)

end
