(* ===== verification/Inventory.thy ===== *)
theory Inventory
  imports Schema "HOL-Library.List_Lexorder"
begin

text \<open>
  Stock and reservations: \<open>warehouse/warehouse-stock.util.ts\<close>, \<open>warehouse/inventory.service.ts\<close>
  and the command handlers of \<open>warehouse/commands\<close>.

  A product has an aggregate \<open>p_stock\<close>; once it is stored in warehouses it also has one
  \<open>stock_row\<close> per warehouse with the units there and the units held.  A checkout holds units
  (\<open>reserve\<close>), the payment turns the hold into a decrease of stock (\<open>confirm\<close>), a cancellation or
  the expiry job gives the hold up (\<open>releaseOrder\<close>, \<open>releaseExpired\<close>).

  The row locks (\<open>SELECT ... FOR UPDATE\<close>) have no effect in this model, where an operation runs
  alone.
\<close>

section \<open>warehouse-stock.util.ts\<close>

abbreviation at_place :: "string \<Rightarrow> string \<Rightarrow> stock_row \<Rightarrow> bool" where
  "at_place pid wid r \<equiv> ps_productId r = pid \<and> ps_warehouseId r = wid"

text \<open>The row an \<open>orderBy\<close> puts first; rows that compare equal keep the order of the table.\<close>

fun first_by :: "('r \<Rightarrow> 'r \<Rightarrow> bool) \<Rightarrow> 'r list \<Rightarrow> 'r option" where
  "first_by before [] = None"
| "first_by before (x # xs) =
    (case first_by before xs of
      None \<Rightarrow> Some x
    | Some y \<Rightarrow> if before y x then Some y else Some x)"

text \<open>\<open>orderBy: [{ isDefault: 'desc' }, { name: 'asc' }]\<close>.\<close>

definition warehouse_before :: "warehouse_row \<Rightarrow> warehouse_row \<Rightarrow> bool" where
  "warehouse_before a b \<longleftrightarrow>
    w_isDefault a \<and> \<not> w_isDefault b \<or> w_isDefault a = w_isDefault b \<and> w_name a < w_name b"

definition resolveDefaultWarehouse :: "string \<Rightarrow> 'z inv_db_scheme \<Rightarrow> warehouse_row option" where
  "resolveDefaultWarehouse shopId s =
    first_by warehouse_before
      (filter (\<lambda>w. w_merchantId w = shopId \<and> w_isActive w) (warehouses s))"

definition getAvailableAtWarehouse ::
  "string \<Rightarrow> string option \<Rightarrow> int \<Rightarrow> 'z inv_db_scheme \<Rightarrow> int" where
  "getAvailableAtWarehouse productId warehouseId legacyProductStock s =
    (case or_else warehouseId None of
      None \<Rightarrow> legacyProductStock
    | Some wid \<Rightarrow>
        (case find_row (at_place productId wid) (stocks s) of
          None \<Rightarrow> legacyProductStock
        | Some row \<Rightarrow> max 0 (ps_quantity row - ps_reserved row)))"

definition reserveStock ::
  "string \<Rightarrow> int \<Rightarrow> string \<Rightarrow> int \<Rightarrow> ('z inv_db_scheme, unit) act" where
  "reserveStock productId quantity warehouseId legacyProductStock =
    bindA (getsA (\<lambda>s. find_row (at_place productId warehouseId) (stocks s))) (\<lambda>existing.
    case existing of
      None \<Rightarrow>
        thenA (guardA (\<not> legacyProductStock < quantity) (BadRequest ''insufficient stock''))
          (createA stocks_update
            \<lparr>ps_productId = productId, ps_warehouseId = warehouseId,
             ps_quantity = legacyProductStock, ps_reserved = quantity\<rparr>)
    | Some row \<Rightarrow>
        thenA (guardA (\<not> ps_quantity row - ps_reserved row < quantity)
            (BadRequest ''insufficient stock at warehouse''))
          (updateA stocks stocks_update (at_place productId warehouseId)
            (\<lambda>r. r\<lparr>ps_reserved := ps_reserved r + quantity\<rparr>)))"

definition syncProductStockAggregate :: "string \<Rightarrow> ('z inv_db_scheme, unit) act" where
  "syncProductStockAggregate productId =
    bindA (getsA (\<lambda>s. sum_where (\<lambda>r. ps_productId r = productId) ps_quantity (stocks s))) (\<lambda>agg.
    bindA (getsA (\<lambda>s. count_where (\<lambda>r. ps_productId r = productId) (stocks s))) (\<lambda>count.
    whenA (0 < count)
      (updateA products products_update (\<lambda>p. p_id p = productId) (\<lambda>p. p\<lparr>p_stock := agg\<rparr>))))"

definition commitReservedStock ::
  "string \<Rightarrow> string option \<Rightarrow> int \<Rightarrow> ('z inv_db_scheme, unit) act" where
  "commitReservedStock productId warehouseId quantity =
    (case or_else warehouseId None of
      None \<Rightarrow>
        bindA (getsA (\<lambda>s. count_where (\<lambda>p. p_id p = productId \<and> quantity \<le> p_stock p) (products s)))
          (\<lambda>affected.
        thenA (updateManyA products_update (\<lambda>p. p_id p = productId \<and> quantity \<le> p_stock p)
                (\<lambda>p. p\<lparr>p_stock := p_stock p - quantity\<rparr>))
          (guardA (affected \<noteq> 0) (RawError (''stock_fail_'' @ productId))))
    | Some wid \<Rightarrow>
        bindA (getsA (\<lambda>s. find_row (at_place productId wid) (stocks s))) (\<lambda>row.
        thenA (guardA (case row of None \<Rightarrow> False
                 | Some r \<Rightarrow> \<not> (ps_reserved r < quantity \<or> ps_quantity r < quantity))
                (RawError (''stock_fail_'' @ productId)))
        (thenA (updateA stocks stocks_update (at_place productId wid)
                (\<lambda>r. r\<lparr>ps_quantity := ps_quantity r - quantity,
                       ps_reserved := ps_reserved r - quantity\<rparr>))
          (syncProductStockAggregate productId))))"

definition releaseReservation ::
  "string \<Rightarrow> string option \<Rightarrow> int \<Rightarrow> bool \<Rightarrow> ('z inv_db_scheme, unit) act" where
  "releaseReservation productId warehouseId quantity restock =
    (case or_else warehouseId None of
      None \<Rightarrow>
        whenA restock
          (updateA products products_update (\<lambda>p. p_id p = productId)
            (\<lambda>p. p\<lparr>p_stock := p_stock p + quantity\<rparr>))
    | Some wid \<Rightarrow>
        bindA (getsA (\<lambda>s. find_row (at_place productId wid) (stocks s))) (\<lambda>row.
        case row of
          None \<Rightarrow> returnA ()
        | Some r \<Rightarrow>
            thenA
              (if restock then
                 updateA stocks stocks_update (at_place productId wid)
                   (\<lambda>r. r\<lparr>ps_quantity := ps_quantity r + quantity\<rparr>)
               else
                 (let decr = min (ps_reserved r) quantity in
                   whenA (0 < decr)
                     (updateA stocks stocks_update (at_place productId wid)
                       (\<lambda>r. r\<lparr>ps_reserved := ps_reserved r - decr\<rparr>))))
              (syncProductStockAggregate productId)))"

definition totalAvailableForProduct :: "string \<Rightarrow> int \<Rightarrow> 'z inv_db_scheme \<Rightarrow> int" where
  "totalAvailableForProduct productId legacyStock s =
    (let rows = filter (\<lambda>r. ps_productId r = productId) (stocks s) in
      if rows = [] then legacyStock
      else sum_list (map (\<lambda>r. max 0 (ps_quantity r - ps_reserved r)) rows))"

section \<open>inventory.service.ts\<close>

definition DEFAULT_TTL_MINUTES :: int where
  "DEFAULT_TTL_MINUTES = 30"

text \<open>The three numbers \<open>getAvailable\<close> returns.\<close>

record availability =
  av_stock :: int
  av_reserved :: int
  av_available :: int

definition getAvailable :: "string \<Rightarrow> ('z inv_db_scheme, availability) act" where
  "getAvailable productId =
    bindA (getsA (\<lambda>s. find_row (\<lambda>p. p_id p = productId) (products s))) (\<lambda>found.
    bindA (someA found (NotFound ''Product'')) (\<lambda>product.
    bindA (getsA (\<lambda>s. filter (\<lambda>r. ps_productId r = productId) (stocks s))) (\<lambda>rows.
    if rows \<noteq> [] then
      (let stock = sum_list (map ps_quantity rows); reserved = sum_list (map ps_reserved rows) in
        returnA \<lparr>av_stock = stock, av_reserved = reserved, av_available = max 0 (stock - reserved)\<rparr>)
    else
      bindA (getsA (\<lambda>s. sum_where
          (\<lambda>r. r_productId r = productId \<and> r_status r = RS_ACTIVE \<and> clock s < r_expiresAt r)
          r_quantity (reservations s))) (\<lambda>reserved.
      returnA \<lparr>av_stock = p_stock product, av_reserved = reserved,
        av_available = max 0 (p_stock product - reserved)\<rparr>))))"

text \<open>The body \<open>run\<close> of \<open>reserve\<close>, inside the caller's transaction or its own.\<close>

definition reserve_run ::
  "string \<Rightarrow> int \<Rightarrow> string \<Rightarrow> string option \<Rightarrow> int \<Rightarrow> ('z inv_db_scheme, reservation_row) act" where
  "reserve_run productId quantity orderId warehouseId ttlMinutes =
    bindA (getsA (\<lambda>s. find_row (\<lambda>p. p_id p = productId) (products s))) (\<lambda>found.
    bindA (someA found (NotFound ''Product'')) (\<lambda>product.
    bindA (getsA clock) (\<lambda>now.
    thenA (updateManyA reservations_update
            (\<lambda>r. r_productId r = productId \<and> r_status r = RS_ACTIVE \<and> r_expiresAt r < now)
            (\<lambda>r. r\<lparr>r_status := RS_EXPIRED\<rparr>))
    (bindA (getAvailable productId) (\<lambda>av.
    thenA (guardA (\<not> av_available av < quantity) (BadRequest ''Insufficient stock''))
    (thenA (case or_else warehouseId None of
             None \<Rightarrow> returnA ()
           | Some wid \<Rightarrow> reserveStock productId quantity wid (p_stock product))
    (bindA newIdA (\<lambda>rid.
     let reservation =
       \<lparr>r_id = rid, r_productId = productId, r_orderId = orderId,
        r_warehouseId = or_else warehouseId None, r_quantity = quantity, r_status = RS_ACTIVE,
        r_expiresAt = now + ttlMinutes * 60 * 1000\<rparr> in
     thenA (createA reservations_update reservation)
     (thenA (updateA products products_update (\<lambda>p. p_id p = productId)
             (\<lambda>p. p\<lparr>p_reservedStock := p_reservedStock p + quantity\<rparr>))
       (returnA reservation))))))))))"

text \<open>\<open>reserve\<close> called with the transaction of the caller, as the checkout does.\<close>

definition reserve ::
  "string \<Rightarrow> int \<Rightarrow> string \<Rightarrow> string option \<Rightarrow> int \<Rightarrow> ('z inv_db_scheme, reservation_row) act" where
  "reserve productId quantity orderId warehouseId ttlMinutes =
    thenA (guardA (\<not> quantity \<le> 0) (BadRequest ''Invalid quantity''))
      (txA (reserve_run productId quantity orderId warehouseId ttlMinutes))"

text \<open>The rows of an order whose hold is still open.\<close>

abbreviation open_of :: "string \<Rightarrow> reservation_row \<Rightarrow> bool" where
  "open_of orderId r \<equiv> r_orderId r = orderId \<and> r_status r = RS_ACTIVE"

text \<open>One round of the loop of \<open>confirm\<close>.\<close>

definition confirm_one :: "reservation_row \<Rightarrow> ('z inv_db_scheme, unit) act" where
  "confirm_one r =
    thenA (case or_else (r_warehouseId r) None of
        Some wid \<Rightarrow> commitReservedStock (r_productId r) (Some wid) (r_quantity r)
      | None \<Rightarrow>
          bindA (getsA (\<lambda>s. count_where (\<lambda>p. p_id p = r_productId r \<and> r_quantity r \<le> p_stock p) (products s)))
            (\<lambda>affected.
          thenA (updateManyA products_update (\<lambda>p. p_id p = r_productId r \<and> r_quantity r \<le> p_stock p)
                  (\<lambda>p. p\<lparr>p_stock := p_stock p - r_quantity r\<rparr>))
            (guardA (affected \<noteq> 0) (RawError (''stock_fail_'' @ r_productId r)))))
    (thenA (updateA reservations reservations_update (\<lambda>x. r_id x = r_id r)
             (\<lambda>x. x\<lparr>r_status := RS_CONFIRMED\<rparr>))
    (thenA (updateA products products_update (\<lambda>p. p_id p = r_productId r)
             (\<lambda>p. p\<lparr>p_reservedStock := p_reservedStock p - min (r_quantity r) 999999\<rparr>))
      (updateManyA products_update (\<lambda>p. p_id p = r_productId r)
             (\<lambda>p. p\<lparr>p_reservedStock := max 0 (p_reservedStock p)\<rparr>))))"

definition confirm_run :: "string \<Rightarrow> ('z inv_db_scheme, nat) act" where
  "confirm_run orderId =
    bindA (getsA (\<lambda>s. filter (open_of orderId) (reservations s))) (\<lambda>rs.
    thenA (forA rs confirm_one) (returnA (length rs)))"

definition confirm :: "string \<Rightarrow> ('z inv_db_scheme, nat) act" where
  "confirm orderId = txA (confirm_run orderId)"

text \<open>
  Giving up a hold: the warehouse row, the status of the reservation and the counter on the
  product.  \<open>releaseOrder\<close> and \<open>releaseExpired\<close> both do it, with different final statuses.
\<close>

definition release_one :: "reservation_status \<Rightarrow> reservation_row \<Rightarrow> ('z inv_db_scheme, unit) act" where
  "release_one final r =
    thenA (case or_else (r_warehouseId r) None of
        Some wid \<Rightarrow> releaseReservation (r_productId r) (Some wid) (r_quantity r) False
      | None \<Rightarrow> returnA ())
    (thenA (updateA reservations reservations_update (\<lambda>x. r_id x = r_id r)
             (\<lambda>x. x\<lparr>r_status := final\<rparr>))
    (thenA (updateA products products_update (\<lambda>p. p_id p = r_productId r)
             (\<lambda>p. p\<lparr>p_reservedStock := p_reservedStock p - r_quantity r\<rparr>))
      (updateManyA products_update (\<lambda>p. p_id p = r_productId r)
             (\<lambda>p. p\<lparr>p_reservedStock := max 0 (p_reservedStock p)\<rparr>))))"

definition releaseOrder_run :: "string \<Rightarrow> ('z inv_db_scheme, nat) act" where
  "releaseOrder_run orderId =
    bindA (getsA (\<lambda>s. filter (open_of orderId) (reservations s))) (\<lambda>rs.
    thenA (forA rs (release_one RS_RELEASED)) (returnA (length rs)))"

definition releaseOrder :: "string \<Rightarrow> ('z inv_db_scheme, nat) act" where
  "releaseOrder orderId = txA (releaseOrder_run orderId)"

text \<open>The transaction of \<open>releaseExpired\<close> for one row; 1 when it expired the row.\<close>

definition expire_one :: "string \<Rightarrow> ('z inv_db_scheme, int) act" where
  "expire_one rid =
    txA (bindA (getsA (\<lambda>s. find_row (\<lambda>x. r_id x = rid) (reservations s))) (\<lambda>current.
      case current of
        None \<Rightarrow> returnA 0
      | Some r \<Rightarrow>
          if r_status r \<noteq> RS_ACTIVE then returnA 0
          else thenA (release_one RS_EXPIRED r) (returnA 1)))"

definition releaseExpired :: "('z inv_db_scheme, int) act" where
  "releaseExpired =
    bindA (getsA (\<lambda>s. filter (\<lambda>r. r_status r = RS_ACTIVE \<and> r_expiresAt r < clock s) (reservations s)))
      (\<lambda>expired.
    bindA (mapA expired (\<lambda>r. expire_one (r_id r))) (\<lambda>counts.
    returnA (sum_list counts)))"

section \<open>warehouse/commands\<close>

record create_warehouse =
  cw_name :: string
  cw_code :: "string option"
  cw_isDefault :: bool

text \<open>The optional texts trimmed, the empty one stored as null.\<close>

definition trim_or_null :: "string option \<Rightarrow> string option" where
  "trim_or_null x = or_else (map_option js_trim x) None"

definition CreateWarehouseHandler ::
  "string option \<Rightarrow> string \<Rightarrow> create_warehouse \<Rightarrow> ('z inv_db_scheme, warehouse_row) act" where
  "CreateWarehouseHandler tenantId merchantId data =
    thenA (guardA (merchantId \<noteq> []) (BadRequest ''no shopId''))
    (thenA (guardA (js_trim (cw_name data) \<noteq> []) (BadRequest ''warehouse name required''))
    (bindA (getsA (\<lambda>s. find_row (\<lambda>h. sh_id h = merchantId) (shops s))) (\<lambda>found.
     bindA (someA found (NotFound ''shop'')) (\<lambda>shop.
     bindA (getsA (\<lambda>s. count_where (\<lambda>w. w_merchantId w = merchantId) (warehouses s))) (\<lambda>existingCount.
     let makeDefault = (cw_isDefault data \<or> existingCount = 0) in
     txA
      (thenA (whenA makeDefault
              (updateManyA warehouses_update (\<lambda>w. w_merchantId w = merchantId \<and> w_isDefault w)
                (\<lambda>w. w\<lparr>w_isDefault := False\<rparr>)))
       (let code = trim_or_null (cw_code data) in
        bindA (getsA (\<lambda>s. find_row (\<lambda>w. w_merchantId w = merchantId \<and> w_code w = code) (warehouses s)))
          (\<lambda>clash.
        thenA (guardA (code = None \<or> clash = None) (BadRequest ''warehouse code taken''))
        (bindA newIdA (\<lambda>wid.
         let w = \<lparr>w_id = wid, w_tenantId = or_else tenantId (or_else (sh_tenantId shop) None),
                  w_merchantId = merchantId, w_name = js_trim (cw_name data), w_code = code,
                  w_isDefault = makeDefault, w_isActive = True\<rparr> in
         thenA (createA warehouses_update w) (returnA w)))))))))))"

text \<open>A field the client left out keeps its value.\<close>

record update_warehouse =
  uw_name :: "string option"
  uw_code :: "string option"
  uw_isDefault :: "bool option"
  uw_isActive :: "bool option"

definition UpdateWarehouseHandler ::
  "string \<Rightarrow> string \<Rightarrow> string option \<Rightarrow> update_warehouse \<Rightarrow> ('z inv_db_scheme, unit) act" where
  "UpdateWarehouseHandler warehouseId merchantId tenantId data =
    txA
     (bindA (getsA (\<lambda>s. find_row (\<lambda>w. w_id w = warehouseId \<and> w_merchantId w = merchantId) (warehouses s)))
       (\<lambda>found.
      bindA (someA found (NotFound ''warehouse'')) (\<lambda>existing.
      thenA (guardA (\<not> (truthy tenantId \<and> truthy (w_tenantId existing) \<and> w_tenantId existing \<noteq> tenantId))
              (Forbidden ''warehouse of another tenant''))
      (thenA (whenA (uw_isDefault data = Some True)
               (updateManyA warehouses_update
                 (\<lambda>w. w_merchantId w = w_merchantId existing \<and> w_isDefault w)
                 (\<lambda>w. w\<lparr>w_isDefault := False\<rparr>)))
        (updateA warehouses warehouses_update (\<lambda>w. w_id w = warehouseId)
          (\<lambda>w. w\<lparr>w_name := (case uw_name data of None \<Rightarrow> w_name w | Some n \<Rightarrow> n),
                 w_code := (case uw_code data of None \<Rightarrow> w_code w | Some c \<Rightarrow> Some c),
                 w_isDefault := (case uw_isDefault data of None \<Rightarrow> w_isDefault w | Some b \<Rightarrow> b),
                 w_isActive := (case uw_isActive data of None \<Rightarrow> w_isActive w | Some b \<Rightarrow> b)\<rparr>))))))"

text \<open>\<open>quantity\<close> is a whole number here, so \<open>Math.floor\<close> leaves it as it is.\<close>

definition UpdateProductStockHandler ::
  "string \<Rightarrow> string \<Rightarrow> string \<Rightarrow> string option \<Rightarrow> int \<Rightarrow> ('z inv_db_scheme, unit) act" where
  "UpdateProductStockHandler productId warehouseId merchantId tenantId quantity =
    thenA (guardA (\<not> quantity < 0) (BadRequest ''quantity >= 0''))
    (bindA (getsA (\<lambda>s. find_row (\<lambda>p. p_id p = productId) (products s))) (\<lambda>found.
     bindA (someA found (NotFound ''product'')) (\<lambda>product.
     thenA (guardA (p_shopId product = merchantId) (Forbidden ''product of another shop''))
     (bindA (getsA (\<lambda>s. find_row (\<lambda>w. w_id w = warehouseId \<and> w_merchantId w = merchantId) (warehouses s)))
       (\<lambda>foundw.
      bindA (someA foundw (NotFound ''warehouse'')) (\<lambda>warehouse.
      thenA (guardA (\<not> (truthy tenantId \<and> truthy (w_tenantId warehouse) \<and> w_tenantId warehouse \<noteq> tenantId))
              (Forbidden ''no access to warehouse''))
      (bindA (getsA (\<lambda>s. find_row (at_place productId warehouseId) (stocks s))) (\<lambda>row.
       thenA (case row of
           None \<Rightarrow> createA stocks_update
             \<lparr>ps_productId = productId, ps_warehouseId = warehouseId,
              ps_quantity = quantity, ps_reserved = 0\<rparr>
         | Some r \<Rightarrow> updateA stocks stocks_update (at_place productId warehouseId)
             (\<lambda>r. r\<lparr>ps_quantity := quantity\<rparr>))
       (bindA (getsA (\<lambda>s. sum_where (\<lambda>r. ps_productId r = productId) ps_quantity (stocks s))) (\<lambda>agg.
        updateA products products_update (\<lambda>p. p_id p = productId) (\<lambda>p. p\<lparr>p_stock := agg\<rparr>)))))))))))"

end
