(* ===== verification/Inventory_Facts.thy ===== *)
theory Inventory_Facts
  imports Inventory
begin

text \<open>
  What the stock model guarantees.  First what each operation does when it returns, then the
  invariants: row counters stay within bounds under every history (\<open>stock_ok\<close>), and, as long as
  holds are placed consistently, every open hold is backed by stock (\<open>covered\<close>), so that a payment
  can always be turned into a decrease of stock.
\<close>

section \<open>What the steps do when they return\<close>

lemma reserveStock_ok [ok_simps]:
  "reserveStock pid q wid leg s = (Inr u, s') \<longleftrightarrow>
    (case find_row (at_place pid wid) (stocks s) of
      None \<Rightarrow> q \<le> leg \<and> s' = stocks_update (\<lambda>t. t @
        [\<lparr>ps_productId = pid, ps_warehouseId = wid, ps_quantity = leg, ps_reserved = q\<rparr>]) s
    | Some row \<Rightarrow> q \<le> ps_quantity row - ps_reserved row \<and>
        s' = stocks_update (update_where (at_place pid wid)
          (\<lambda>r. r\<lparr>ps_reserved := ps_reserved r + q\<rparr>)) s)"
  by (auto simp: reserveStock_def ok_simps not_less split: option.splits)

lemma syncProductStockAggregate_ok:
  "syncProductStockAggregate pid s = (Inr u, s') \<longleftrightarrow>
    (if count_where (\<lambda>r. ps_productId r = pid) (stocks s) = 0 then s' = s
     else find_row (\<lambda>p. p_id p = pid) (products s) \<noteq> None \<and>
       s' = products_update (update_where (\<lambda>p. p_id p = pid)
         (\<lambda>p. p\<lparr>p_stock := sum_where (\<lambda>r. ps_productId r = pid) ps_quantity (stocks s)\<rparr>)) s)"
  by (auto simp: syncProductStockAggregate_def ok_simps)

lemma getAvailable_ok [ok_simps]:
  "getAvailable pid s = (Inr av, s') \<longleftrightarrow> s' = s \<and>
    (\<exists>p. find_row (\<lambda>p. p_id p = pid) (products s) = Some p \<and>
      (if \<exists>r \<in> set (stocks s). ps_productId r = pid then
        av_available av = max 0 (sum_where (\<lambda>r. ps_productId r = pid) ps_quantity (stocks s)
          - sum_where (\<lambda>r. ps_productId r = pid) ps_reserved (stocks s)) \<and>
        av_stock av = sum_where (\<lambda>r. ps_productId r = pid) ps_quantity (stocks s) \<and>
        av_reserved av = sum_where (\<lambda>r. ps_productId r = pid) ps_reserved (stocks s)
      else
        av_available av = max 0 (p_stock p - sum_where
          (\<lambda>r. r_productId r = pid \<and> r_status r = RS_ACTIVE \<and> clock s < r_expiresAt r)
          r_quantity (reservations s)) \<and>
        av_stock av = p_stock p \<and>
        av_reserved av = sum_where
          (\<lambda>r. r_productId r = pid \<and> r_status r = RS_ACTIVE \<and> clock s < r_expiresAt r)
          r_quantity (reservations s)))"
  by (cases av) (auto simp: getAvailable_def ok_simps Let_def sum_where_def filter_empty_conv)

section \<open>Well-formed stock\<close>

text \<open>
  Primary keys, unique constraints and foreign keys of the tables, ids drawn from the supply,
  positive quantities, and the null-or-id form of the stored warehouse.
\<close>

definition wf_inv :: "'z inv_db_scheme \<Rightarrow> bool" where
  "wf_inv s \<longleftrightarrow>
    distinct (map p_id (products s)) \<and>
    distinct (map (\<lambda>r. (ps_productId r, ps_warehouseId r)) (stocks s)) \<and>
    distinct (map r_id (reservations s)) \<and>
    inj (id_supply s) \<and>
    (\<forall>r \<in> set (reservations s). r_id r \<in> id_supply s ` {..<next_id s} \<and> 0 < r_quantity r \<and>
      r_warehouseId r \<noteq> Some [] \<and> r_productId r \<in> p_id ` set (products s)) \<and>
    (\<forall>x \<in> set (stocks s). ps_productId x \<in> p_id ` set (products s))"

definition stock_ok :: "'z inv_db_scheme \<Rightarrow> bool" where
  "stock_ok s \<longleftrightarrow>
    (\<forall>x \<in> set (stocks s). 0 \<le> ps_reserved x \<and> ps_reserved x \<le> ps_quantity x) \<and>
    (\<forall>p \<in> set (products s). 0 \<le> p_stock p \<and> 0 \<le> p_reservedStock p)"

text \<open>The units of a product held at a place (a warehouse, or the product itself).\<close>

definition held :: "string \<Rightarrow> string option \<Rightarrow> 'z inv_db_scheme \<Rightarrow> int" where
  "held pid wid s =
    sum_where (\<lambda>r. r_productId r = pid \<and> r_warehouseId r = wid \<and> r_status r = RS_ACTIVE)
      r_quantity (reservations s)"

definition stored :: "string \<Rightarrow> 'z inv_db_scheme \<Rightarrow> bool" where
  "stored pid s \<longleftrightarrow> (\<exists>x \<in> set (stocks s). ps_productId x = pid)"

text \<open>
  Every open hold is backed: by the held units of its warehouse row, or, for a product that is not
  stored in warehouses, by the stock of the product.
\<close>

definition covered :: "'z inv_db_scheme \<Rightarrow> bool" where
  "covered s \<longleftrightarrow>
    (\<forall>x \<in> set (stocks s). held (ps_productId x) (Some (ps_warehouseId x)) s \<le> ps_reserved x) \<and>
    (\<forall>p \<in> set (products s). \<not> stored (p_id p) s \<longrightarrow> held (p_id p) None s \<le> p_stock p) \<and>
    (\<forall>r \<in> set (reservations s). r_status r = RS_ACTIVE \<longrightarrow>
      (case r_warehouseId r of
        None \<Rightarrow> \<not> stored (r_productId r) s
      | Some w \<Rightarrow> \<exists>x \<in> set (stocks s). at_place (r_productId r) w x))"

definition inv_ok :: "'z inv_db_scheme \<Rightarrow> bool" where
  "inv_ok s \<longleftrightarrow> wf_inv s \<and> stock_ok s \<and> covered s"

text \<open>The units of a product in stock: in its warehouses, or on the product.\<close>

definition units :: "string \<Rightarrow> 'z inv_db_scheme \<Rightarrow> int" where
  "units pid s =
    (if stored pid s then sum_where (\<lambda>x. ps_productId x = pid) ps_quantity (stocks s)
     else sum_where (\<lambda>p. p_id p = pid) p_stock (products s))"

lemma stored_count: "count_where (\<lambda>r. ps_productId r = pid) (stocks s) = 0 \<longleftrightarrow> \<not> stored pid s"
  by (auto simp: count_where_zero stored_def)

section \<open>Row counters stay within bounds\<close>

text \<open>
  The invariant that needs no assumption on how holds are placed, with the exception of the places
  (a product at a warehouse) in \<open>E\<close>: there the row may hold more units than it has.
\<close>

definition stock_ok_but :: "(string \<times> string) set \<Rightarrow> 'z inv_db_scheme \<Rightarrow> bool" where
  "stock_ok_but E s \<longleftrightarrow>
    (\<forall>x \<in> set (stocks s). 0 \<le> ps_reserved x \<and> 0 \<le> ps_quantity x \<and>
      ((ps_productId x, ps_warehouseId x) \<notin> E \<longrightarrow> ps_reserved x \<le> ps_quantity x)) \<and>
    (\<forall>p \<in> set (products s). 0 \<le> p_stock p \<and> 0 \<le> p_reservedStock p)"

definition base_but :: "(string \<times> string) set \<Rightarrow> 'z inv_db_scheme \<Rightarrow> bool" where
  "base_but E s \<longleftrightarrow> wf_inv s \<and> stock_ok_but E s"

abbreviation base_inv :: "'z inv_db_scheme \<Rightarrow> bool" where
  "base_inv \<equiv> base_but {}"

lemma stock_ok_but_none: "stock_ok_but {} s \<longleftrightarrow> stock_ok s"
  by (auto simp: stock_ok_but_def stock_ok_def)

lemma base_inv_def: "base_inv s \<longleftrightarrow> wf_inv s \<and> stock_ok s"
  by (simp add: base_but_def stock_ok_but_none)

lemma base_wf: "base_but E s \<Longrightarrow> wf_inv s"
  by (simp add: base_but_def)

lemma base_mono: "base_but E s \<Longrightarrow> E \<subseteq> F \<Longrightarrow> base_but F s"
  unfolding base_but_def stock_ok_but_def by blast

lemma base_product: "base_but E s \<Longrightarrow> p \<in> set (products s) \<Longrightarrow> 0 \<le> p_stock p \<and> 0 \<le> p_reservedStock p"
  by (simp add: base_but_def stock_ok_but_def)

lemma base_row:
  "base_but E s \<Longrightarrow> x \<in> set (stocks s) \<Longrightarrow> 0 \<le> ps_reserved x \<and> 0 \<le> ps_quantity x \<and>
    ((ps_productId x, ps_warehouseId x) \<notin> E \<longrightarrow> ps_reserved x \<le> ps_quantity x)"
  by (simp add: base_but_def stock_ok_but_def)

lemma base_products:
  assumes "base_but E s" and "\<And>p. p_id (f p) = p_id p"
    and "\<And>p. p \<in> set (products s) \<Longrightarrow> P p \<Longrightarrow> 0 \<le> p_stock (f p) \<and> 0 \<le> p_reservedStock (f p)"
  shows "base_but E (products_update (update_where P f) s)"
  using assms
  by (simp add: base_but_def wf_inv_def stock_ok_but_def map_update_where image_update_where ball_update_where)

lemma base_stocks:
  assumes "base_but E s"
    and "\<And>x. ps_productId (f x) = ps_productId x" "\<And>x. ps_warehouseId (f x) = ps_warehouseId x"
    and "\<And>x. x \<in> set (stocks s) \<Longrightarrow> P x \<Longrightarrow> 0 \<le> ps_reserved (f x) \<and> 0 \<le> ps_quantity (f x) \<and>
      ((ps_productId x, ps_warehouseId x) \<notin> E \<longrightarrow> ps_reserved (f x) \<le> ps_quantity (f x))"
  shows "base_but E (stocks_update (update_where P f) s)"
  using assms
  by (simp add: base_but_def wf_inv_def stock_ok_but_def map_update_where ball_update_where)

lemma base_reservations:
  assumes "base_but E s"
    and "\<And>x. r_id (f x) = r_id x \<and> r_quantity (f x) = r_quantity x \<and>
      r_warehouseId (f x) = r_warehouseId x \<and> r_productId (f x) = r_productId x"
  shows "base_but E (reservations_update (update_where P f) s)"
  using assms
  by (simp add: base_but_def wf_inv_def stock_ok_but_def map_update_where ball_update_where)

lemma find_row_at_place:
  assumes "wf_inv s" and "find_row (at_place pid wid) (stocks s) = Some row"
    and "x \<in> set (stocks s)" and "at_place pid wid x"
  shows "x = row"
proof -
  have "row \<in> set (stocks s)" "at_place pid wid row" using find_row_Some [OF assms(2)] by auto
  with assms(1,3,4) show ?thesis
    by (auto simp: wf_inv_def intro: distinct_key_eq)
qed

lemma base_sync:
  assumes "base_but E s" and "syncProductStockAggregate pid s = (Inr u, s')"
  shows "base_but E s'"
proof (cases "stored pid s")
  case False
  with assms show ?thesis by (simp add: syncProductStockAggregate_ok stored_count)
next
  case True
  define n where "n = sum_where (\<lambda>r. ps_productId r = pid) ps_quantity (stocks s)"
  have "0 \<le> n"
    unfolding n_def using base_row [OF assms(1)] by (intro sum_where_nonneg) force
  then have "base_but E (products_update (update_where (\<lambda>p. p_id p = pid) (\<lambda>p. p\<lparr>p_stock := n\<rparr>)) s)"
    using base_product [OF assms(1)] by (intro base_products [OF assms(1)]) auto
  with assms(2) True show ?thesis
    by (auto simp: syncProductStockAggregate_ok stored_count n_def)
qed

lemma base_reserveStock:
  assumes "base_but E s" and "reserveStock pid q wid leg s = (Inr u, s')" and "0 \<le> q"
    and "pid \<in> p_id ` set (products s)"
  shows "base_but E s'"
proof (cases "find_row (at_place pid wid) (stocks s)")
  case None
  have "base_but E (stocks_update (\<lambda>t. t @ [\<lparr>ps_productId = pid, ps_warehouseId = wid,
      ps_quantity = leg, ps_reserved = q\<rparr>]) s)" if "q \<le> leg"
    using assms(1,3,4) that None
    by (auto simp: base_but_def wf_inv_def stock_ok_but_def find_row_None)
  with assms(2) None show ?thesis by (auto simp: ok_simps)
next
  case (Some row)
  have "base_but E (stocks_update (update_where (at_place pid wid)
      (\<lambda>r. r\<lparr>ps_reserved := ps_reserved r + q\<rparr>)) s)" if "q \<le> ps_quantity row - ps_reserved row"
  proof (rule base_stocks [OF assms(1)])
    fix x assume x: "x \<in> set (stocks s)" "at_place pid wid x"
    have "x = row"
      using assms(1) Some x by (auto simp: base_but_def intro: find_row_at_place)
    with that base_row [OF assms(1) x(1)] assms(3)
    show "0 \<le> ps_reserved (x\<lparr>ps_reserved := ps_reserved x + q\<rparr>) \<and>
      0 \<le> ps_quantity (x\<lparr>ps_reserved := ps_reserved x + q\<rparr>) \<and>
      ((ps_productId x, ps_warehouseId x) \<notin> E \<longrightarrow> ps_reserved (x\<lparr>ps_reserved := ps_reserved x + q\<rparr>) \<le>
      ps_quantity (x\<lparr>ps_reserved := ps_reserved x + q\<rparr>))" by simp
  qed auto
  with assms(2) Some show ?thesis by (auto simp: ok_simps)
qed

lemma base_commit:
  assumes inv: "base_but E s" and run: "commitReservedStock pid w q s = (Inr u, s')"
  shows "base_but E s'"
proof (cases "or_else w None")
  case None
  have "base_but E (products_update (update_where (\<lambda>p. p_id p = pid \<and> q \<le> p_stock p)
      (\<lambda>p. p\<lparr>p_stock := p_stock p - q\<rparr>)) s)"
    using base_product [OF inv] by (intro base_products [OF inv]) auto
  with run None show ?thesis by (auto simp: commitReservedStock_def ok_simps)
next
  case (Some wid)
  from run Some obtain row where row: "find_row (at_place pid wid) (stocks s) = Some row"
      "q \<le> ps_reserved row" "q \<le> ps_quantity row"
    and sync: "syncProductStockAggregate pid (stocks_update (update_where (at_place pid wid)
      (\<lambda>r. r\<lparr>ps_quantity := ps_quantity r - q, ps_reserved := ps_reserved r - q\<rparr>)) s) = (Inr (), s')"
    by (auto simp: commitReservedStock_def ok_simps split: option.splits)
  have "base_but E (stocks_update (update_where (at_place pid wid)
      (\<lambda>r. r\<lparr>ps_quantity := ps_quantity r - q, ps_reserved := ps_reserved r - q\<rparr>)) s)"
  proof (rule base_stocks [OF inv])
    fix x assume x: "x \<in> set (stocks s)" "at_place pid wid x"
    have "x = row" using inv row x by (auto simp: base_but_def intro: find_row_at_place)
    with row base_row [OF inv x(1)]
    show "0 \<le> ps_reserved (x\<lparr>ps_quantity := ps_quantity x - q, ps_reserved := ps_reserved x - q\<rparr>) \<and>
      0 \<le> ps_quantity (x\<lparr>ps_quantity := ps_quantity x - q, ps_reserved := ps_reserved x - q\<rparr>) \<and>
      ((ps_productId x, ps_warehouseId x) \<notin> E \<longrightarrow>
        ps_reserved (x\<lparr>ps_quantity := ps_quantity x - q, ps_reserved := ps_reserved x - q\<rparr>) \<le>
        ps_quantity (x\<lparr>ps_quantity := ps_quantity x - q, ps_reserved := ps_reserved x - q\<rparr>))" by simp
  qed auto
  then show ?thesis using sync by (rule base_sync)
qed

lemma base_release:
  assumes inv: "base_but E s" and run: "releaseReservation pid w q restock s = (Inr u, s')"
    and q: "restock \<Longrightarrow> 0 \<le> q"
  shows "base_but E s'"
proof (cases "or_else w None")
  case None
  have "base_but E (products_update (update_where (\<lambda>p. p_id p = pid)
      (\<lambda>p. p\<lparr>p_stock := p_stock p + q\<rparr>)) s)" if restock
    using base_product [OF inv] q [OF that] by (intro base_products [OF inv]) auto
  with run None inv show ?thesis by (auto simp: releaseReservation_def ok_simps split: if_splits)
next
  case (Some wid)
  show ?thesis
  proof (cases "find_row (at_place pid wid) (stocks s)")
    case None
    with run Some inv show ?thesis by (auto simp: releaseReservation_def ok_simps)
  next
    case row: (Some row)
    have up: "base_but E (stocks_update (update_where (at_place pid wid)
        (\<lambda>r. r\<lparr>ps_quantity := ps_quantity r + q\<rparr>)) s)" if restock
      using base_row [OF inv] q [OF that] by (intro base_stocks [OF inv]) fastforce+
    have down: "base_but E (stocks_update (update_where (at_place pid wid)
        (\<lambda>r. r\<lparr>ps_reserved := ps_reserved r - min (ps_reserved row) q\<rparr>)) s)"
      if pos: "0 < min (ps_reserved row) q"
    proof (rule base_stocks [OF inv])
      fix x assume x: "x \<in> set (stocks s)" "at_place pid wid x"
      have "x = row" using inv row x by (auto simp: base_but_def intro: find_row_at_place)
      with pos base_row [OF inv x(1)]
      show "0 \<le> ps_reserved (x\<lparr>ps_reserved := ps_reserved x - min (ps_reserved row) q\<rparr>) \<and>
        0 \<le> ps_quantity (x\<lparr>ps_reserved := ps_reserved x - min (ps_reserved row) q\<rparr>) \<and>
        ((ps_productId x, ps_warehouseId x) \<notin> E \<longrightarrow>
          ps_reserved (x\<lparr>ps_reserved := ps_reserved x - min (ps_reserved row) q\<rparr>) \<le>
          ps_quantity (x\<lparr>ps_reserved := ps_reserved x - min (ps_reserved row) q\<rparr>))"
        by (auto simp: min_def split: if_splits)
    qed auto
    from run Some row up down inv show ?thesis
      by (auto simp: releaseReservation_def ok_simps Let_def intro: base_sync split: if_splits)
  qed
qed

text \<open>The two writes of \<open>reservedStock\<close> in a row are one: decrement and clamp at 0.\<close>

lemma base_clamp:
  assumes "base_but E s"
  shows "base_but E (products_update
    (update_where (\<lambda>p. p_id p = pid) (\<lambda>p. p\<lparr>p_reservedStock := max 0 (p_reservedStock p)\<rparr>) \<circ>
     update_where (\<lambda>p. p_id p = pid) (\<lambda>p. p\<lparr>p_reservedStock := p_reservedStock p - k\<rparr>)) s)"
proof -
  have "base_but E (products_update (update_where (\<lambda>p. p_id p = pid)
      (\<lambda>p. p\<lparr>p_reservedStock := max 0 (p_reservedStock p - k)\<rparr>)) s)"
    using base_product [OF assms] by (intro base_products [OF assms]) auto
  then show ?thesis by (simp add: comp_def update_where_twice)
qed

lemma base_status:
  "base_but E s \<Longrightarrow> base_but E (reservations_update (update_where P (\<lambda>x. x\<lparr>r_status := st\<rparr>)) s)"
  by (erule base_reservations) simp

text \<open>
  The parts of a round: what happens to the stock (\<open>s1\<close>), then the status of the reservation and
  the counter on the product.
\<close>

definition drop_reserved :: "string \<Rightarrow> int \<Rightarrow> product_row list \<Rightarrow> product_row list" where
  "drop_reserved pid k =
    update_where (\<lambda>p. p_id p = pid) (\<lambda>p. p\<lparr>p_reservedStock := max 0 (p_reservedStock p)\<rparr>) \<circ>
    update_where (\<lambda>p. p_id p = pid) (\<lambda>p. p\<lparr>p_reservedStock := p_reservedStock p - k\<rparr>)"

definition take_stock :: "string \<Rightarrow> int \<Rightarrow> product_row list \<Rightarrow> product_row list" where
  "take_stock pid q =
    update_where (\<lambda>p. p_id p = pid \<and> q \<le> p_stock p) (\<lambda>p. p\<lparr>p_stock := p_stock p - q\<rparr>)"

definition set_status :: "string \<Rightarrow> reservation_status \<Rightarrow> reservation_row list \<Rightarrow> reservation_row list" where
  "set_status rid st = update_where (\<lambda>x. r_id x = rid) (\<lambda>x. x\<lparr>r_status := st\<rparr>)"

lemma confirm_one_ok:
  "confirm_one r s = (Inr u, s') \<longleftrightarrow>
    (\<exists>s1. (case or_else (r_warehouseId r) None of
        None \<Rightarrow> 0 < count_where (\<lambda>p. p_id p = r_productId r \<and> r_quantity r \<le> p_stock p) (products s) \<and>
          s1 = products_update (take_stock (r_productId r) (r_quantity r)) s
      | Some w \<Rightarrow> commitReservedStock (r_productId r) (Some w) (r_quantity r) s = (Inr (), s1)) \<and>
      find_row (\<lambda>x. r_id x = r_id r) (reservations s1) \<noteq> None \<and>
      find_row (\<lambda>p. p_id p = r_productId r) (products s1) \<noteq> None \<and>
      s' = products_update (drop_reserved (r_productId r) (min (r_quantity r) 999999))
        (reservations_update (set_status (r_id r) RS_CONFIRMED) s1))"
  by (auto simp: confirm_one_def ok_simps take_stock_def drop_reserved_def set_status_def
      split: option.splits)

lemma release_one_ok:
  "release_one final r s = (Inr u, s') \<longleftrightarrow>
    (\<exists>s1. (case or_else (r_warehouseId r) None of
        None \<Rightarrow> s1 = s
      | Some w \<Rightarrow> releaseReservation (r_productId r) (Some w) (r_quantity r) False s = (Inr (), s1)) \<and>
      find_row (\<lambda>x. r_id x = r_id r) (reservations s1) \<noteq> None \<and>
      find_row (\<lambda>p. p_id p = r_productId r) (products s1) \<noteq> None \<and>
      s' = products_update (drop_reserved (r_productId r) (r_quantity r))
        (reservations_update (set_status (r_id r) final) s1))"
  by (auto simp: release_one_def ok_simps drop_reserved_def set_status_def split: option.splits)

lemma base_drop_reserved: "base_but E s \<Longrightarrow> base_but E (products_update (drop_reserved pid k) s)"
  unfolding drop_reserved_def by (rule base_clamp)

lemma base_set_status: "base_but E s \<Longrightarrow> base_but E (reservations_update (set_status rid st) s)"
  unfolding set_status_def by (rule base_status)

lemma base_take_stock: "base_but E s \<Longrightarrow> base_but E (products_update (take_stock pid q) s)"
  unfolding take_stock_def using base_product by (intro base_products) force+

lemma base_confirm_one: "keeps_ok (base_but E) (confirm_one r)"
proof (rule keeps_okI)
  fix s u s' assume inv: "base_but E s" and run: "confirm_one r s = (Inr u, s')"
  from run obtain s1 where s1: "case or_else (r_warehouseId r) None of
        None \<Rightarrow> s1 = products_update (take_stock (r_productId r) (r_quantity r)) s
      | Some w \<Rightarrow> commitReservedStock (r_productId r) (Some w) (r_quantity r) s = (Inr (), s1)"
    and s': "s' = products_update (drop_reserved (r_productId r) (min (r_quantity r) 999999))
        (reservations_update (set_status (r_id r) RS_CONFIRMED) s1)"
    unfolding confirm_one_ok by (force split: option.splits)
  have "base_but E s1"
    using s1 inv base_take_stock by (auto split: option.splits intro: base_commit)
  then show "base_but E s'"
    unfolding s' by (intro base_drop_reserved base_set_status)
qed

lemma base_release_one: "keeps_ok (base_but E) (release_one final r)"
proof (rule keeps_okI)
  fix s u s' assume inv: "base_but E s" and run: "release_one final r s = (Inr u, s')"
  from run obtain s1 where s1: "case or_else (r_warehouseId r) None of
        None \<Rightarrow> s1 = s
      | Some w \<Rightarrow> releaseReservation (r_productId r) (Some w) (r_quantity r) False s = (Inr (), s1)"
    and s': "s' = products_update (drop_reserved (r_productId r) (r_quantity r))
        (reservations_update (set_status (r_id r) final) s1)"
    unfolding release_one_ok by (force split: option.splits)
  have "base_but E s1"
    using s1 inv by (auto split: option.splits intro: base_release)
  then show "base_but E s'"
    unfolding s' by (intro base_drop_reserved base_set_status)
qed

text \<open>The parts of a reservation: stale holds expire, the warehouse row is held, the row is added.\<close>

definition expire_stale :: "string \<Rightarrow> 'z inv_db_scheme \<Rightarrow> 'z inv_db_scheme" where
  "expire_stale pid s = reservations_update (update_where
    (\<lambda>r. r_productId r = pid \<and> r_status r = RS_ACTIVE \<and> r_expiresAt r < clock s)
    (\<lambda>r. r\<lparr>r_status := RS_EXPIRED\<rparr>)) s"

definition new_hold ::
  "string \<Rightarrow> int \<Rightarrow> string \<Rightarrow> string option \<Rightarrow> int \<Rightarrow> 'z inv_db_scheme \<Rightarrow> reservation_row" where
  "new_hold pid q oid w ttl s =
    \<lparr>r_id = id_supply s (next_id s), r_productId = pid, r_orderId = oid,
     r_warehouseId = or_else w None, r_quantity = q, r_status = RS_ACTIVE,
     r_expiresAt = clock s + ttl * 60 * 1000\<rparr>"

definition add_hold ::
  "string \<Rightarrow> int \<Rightarrow> reservation_row \<Rightarrow> 'z inv_db_scheme \<Rightarrow> 'z inv_db_scheme" where
  "add_hold pid q r s =
    products_update (update_where (\<lambda>p. p_id p = pid) (\<lambda>p. p\<lparr>p_reservedStock := p_reservedStock p + q\<rparr>))
      (reservations_update (\<lambda>t. t @ [r]) (s\<lparr>next_id := Suc (next_id s)\<rparr>))"

lemma reserve_run_okE:
  assumes "reserve_run pid q oid w ttl s = (Inr r, s')"
  obtains p av s2 where
    "find_row (\<lambda>p. p_id p = pid) (products s) = Some p"
    "getAvailable pid (expire_stale pid s) = (Inr av, expire_stale pid s)" "q \<le> av_available av"
    "case or_else w None of None \<Rightarrow> s2 = expire_stale pid s
      | Some wid \<Rightarrow> reserveStock pid q wid (p_stock p) (expire_stale pid s) = (Inr (), s2)"
    "r = new_hold pid q oid w ttl s2" "s' = add_hold pid q r s2"
proof -
  have clk: "clock s2 = clock s" if "case or_else w None of None \<Rightarrow> s2 = expire_stale pid s
      | Some wid \<Rightarrow> reserveStock pid q wid k (expire_stale pid s) = (Inr (), s2)" for s2 k
    using that by (auto simp: ok_simps expire_stale_def split: option.splits)
  from assms obtain p av s2 sx u where p: "find_row (\<lambda>p. p_id p = pid) (products s) = Some p"
    and av: "getAvailable pid (expire_stale pid s) = (Inr av, sx)" and le: "q \<le> av_available av"
    and s2: "(case or_else w None of None \<Rightarrow> returnA ()
      | Some wid \<Rightarrow> reserveStock pid q wid (p_stock p)) sx = (Inr u, s2)"
    and r: "r = \<lparr>r_id = id_supply s2 (next_id s2), r_productId = pid, r_orderId = oid,
        r_warehouseId = or_else w None, r_quantity = q, r_status = RS_ACTIVE,
        r_expiresAt = clock s + ttl * 60 * 1000\<rparr>"
    and s': "s' = add_hold pid q r s2"
    unfolding reserve_run_def bindA_ok thenA_ok getsA_ok someA_ok guardA_ok newIdA_ok Let_def
      updateManyA_ok createA_ok updateA_ok returnA_ok expire_stale_def add_hold_def not_less
    by clarify (rule that [unfolded expire_stale_def add_hold_def], assumption+, simp only:)
  from av have "sx = expire_stale pid s" by (simp add: getAvailable_ok)
  with s2 have s2': "case or_else w None of None \<Rightarrow> s2 = expire_stale pid s
      | Some wid \<Rightarrow> reserveStock pid q wid (p_stock p) (expire_stale pid s) = (Inr (), s2)"
    by (auto simp: returnA_ok split: option.splits)
  show thesis
    by (rule that [of p av s2])
      (use p av le s2' r s' clk [OF s2'] \<open>sx = _\<close> in \<open>auto simp: new_hold_def\<close>)
qed

lemma base_new_hold:
  assumes "base_but E s" and "0 < q" and "pid \<in> p_id ` set (products s)"
  shows "base_but E (add_hold pid q (new_hold pid q oid w ttl s) s)"
proof -
  have inj: "inj (id_supply s)" and old: "\<forall>r \<in> set (reservations s). r_id r \<in> id_supply s ` {..<next_id s}"
    using assms(1) by (auto simp: base_but_def wf_inv_def)
  have "id_supply s (next_id s) \<notin> r_id ` set (reservations s)"
    using old inj by (force dest: injD)
  moreover have "or_else w None \<noteq> Some []"
    by (cases w) (auto simp: or_else_def)
  ultimately have "base_but E (reservations_update (\<lambda>t. t @ [new_hold pid q oid w ttl s])
      (s\<lparr>next_id := Suc (next_id s)\<rparr>))"
    using assms inj by (auto simp: new_hold_def base_but_def wf_inv_def stock_ok_but_def lessThan_Suc)
  then show ?thesis
    unfolding add_hold_def using assms(2) base_product by (intro base_products) force+
qed

lemma base_expire_stale: "base_but E s \<Longrightarrow> base_but E (expire_stale pid s)"
  unfolding expire_stale_def by (rule base_status)

lemma base_reserve_run:
  assumes "0 < q"
  shows "keeps_ok (base_but E) (reserve_run pid q oid w ttl)"
proof (rule keeps_okI)
  fix s r s' assume inv: "base_but E s" and run: "reserve_run pid q oid w ttl s = (Inr r, s')"
  from run obtain p s2 where p: "find_row (\<lambda>p. p_id p = pid) (products s) = Some p"
    and s2: "case or_else w None of None \<Rightarrow> s2 = expire_stale pid s
      | Some wid \<Rightarrow> reserveStock pid q wid (p_stock p) (expire_stale pid s) = (Inr (), s2)"
    and s': "s' = add_hold pid q (new_hold pid q oid w ttl s2) s2"
    by (elim reserve_run_okE) simp
  have pin: "pid \<in> p_id ` set (products (expire_stale pid s))"
    using find_row_Some [OF p] by (auto simp: expire_stale_def)
  have "base_but E s2 \<and> products s2 = products (expire_stale pid s)"
    using s2 base_expire_stale [OF inv] base_reserveStock [OF base_expire_stale [OF inv] _ _ pin, of q] assms
    by (auto simp: ok_simps split: option.splits)
  with assms pin show "base_but E s'"
    unfolding s' by (intro base_new_hold) auto
qed

section \<open>Histories\<close>

text \<open>
  The requests and jobs that reach the stock tables, and the passing of time.  \<open>EditStock\<close> stands for
  the editors of products, which all write the same: a number that is not negative into the stock of
  the product (\<open>own_patch_stock\<close> and its neighbours of \<open>Product_Facts\<close> show it of each of them).
\<close>

datatype inv_op =
    Reserve string int string "string option" int
  | Confirm string
  | ReleaseOrder string
  | ReleaseExpired
  | Restock string "string option" nat
  | CreateWarehouse "string option" string create_warehouse
  | UpdateWarehouse string string "string option" update_warehouse
  | UpdateProductStock string string string "string option" int
  | EditStock string nat
  | Tick nat

fun inv_exec :: "inv_op \<Rightarrow> ('z inv_db_scheme, unit) act" where
  "inv_exec (Reserve pid q oid w ttl) = thenA (reserve pid q oid w ttl) (returnA ())"
| "inv_exec (Confirm oid) = thenA (confirm oid) (returnA ())"
| "inv_exec (ReleaseOrder oid) = thenA (releaseOrder oid) (returnA ())"
| "inv_exec ReleaseExpired = thenA releaseExpired (returnA ())"
| "inv_exec (Restock pid w q) = txA (releaseReservation pid w (int q) True)"
| "inv_exec (CreateWarehouse t m d) = thenA (CreateWarehouseHandler t m d) (returnA ())"
| "inv_exec (UpdateWarehouse w m t d) = UpdateWarehouseHandler w m t d"
| "inv_exec (UpdateProductStock pid w m t q) = UpdateProductStockHandler pid w m t q"
| "inv_exec (EditStock pid n) =
    updateManyA products_update (\<lambda>p. p_id p = pid) (\<lambda>p. p\<lparr>p_stock := int n\<rparr>)"
| "inv_exec (Tick d) = modifyA (clock_update (\<lambda>t. t + int d))"

text \<open>
  The places whose owner last set the quantity below what was held there: the request of the owner
  that returns adds the place or takes it off the list.
\<close>

definition undercut :: "string \<Rightarrow> string \<Rightarrow> int \<Rightarrow> 'z inv_db_scheme \<Rightarrow> bool" where
  "undercut pid w q s \<longleftrightarrow> (\<exists>x \<in> set (stocks s). at_place pid w x \<and> q < ps_reserved x)"

fun lowered_by :: "inv_op \<Rightarrow> 'z inv_db_scheme \<Rightarrow> (string \<times> string) set \<Rightarrow> (string \<times> string) set" where
  "lowered_by (UpdateProductStock pid w m t q) s E =
    (case fst (UpdateProductStockHandler pid w m t q s) of
      Inl e \<Rightarrow> E
    | Inr u \<Rightarrow> (if undercut pid w q s then insert (pid, w) E else E - {(pid, w)}))"
| "lowered_by _ s E = E"

text \<open>A value carried along a history, and the contract of an invariant that depends on it.\<close>

fun track_all :: "('op \<Rightarrow> ('s, 'a) act) \<Rightarrow> ('op \<Rightarrow> 's \<Rightarrow> 'e \<Rightarrow> 'e) \<Rightarrow> 'op list \<Rightarrow> 's \<Rightarrow> 'e \<Rightarrow> 'e" where
  "track_all ex tr [] s e = e"
| "track_all ex tr (x # xs) s e = track_all ex tr xs (snd (ex x s)) (tr x s e)"

locale tracked_component =
  fixes ex :: "'op \<Rightarrow> ('s, 'a) act"
    and inv :: "'e \<Rightarrow> 's \<Rightarrow> bool"
    and tr :: "'op \<Rightarrow> 's \<Rightarrow> 'e \<Rightarrow> 'e"
  assumes op_tracks: "inv e s \<Longrightarrow> inv (tr x s e) (snd (ex x s))"
begin

lemma history_tracks: "inv e s \<Longrightarrow> inv (track_all ex tr xs s e) (run_all ex xs s)"
  by (induction xs arbitrary: s e) (simp_all add: op_tracks)

end

lemma base_frame:
  "base_but E (clock_update f s) = base_but E s"
  "base_but E (warehouses_update g s) = base_but E s"
  by (simp_all add: base_but_def wf_inv_def stock_ok_but_def)

lemma base_next_id: "base_but E s \<Longrightarrow> base_but E (s\<lparr>next_id := Suc (next_id s)\<rparr>)"
  by (auto simp: base_but_def wf_inv_def stock_ok_but_def lessThan_Suc)

lemma keeps_base_reserve: "keeps (base_but E) (reserve pid q oid w ttl)"
proof (cases "q \<le> 0")
  case True
  then show ?thesis by (auto simp: reserve_def keeps_def act_defs)
next
  case False
  then show ?thesis
    unfolding reserve_def by (intro keeps_intros base_reserve_run) simp
qed

lemma keeps_base_confirm: "keeps (base_but E) (confirm oid)"
  unfolding confirm_def confirm_run_def thenA_def
  by (intro keeps_tx keeps_ok_bind keeps_ok_for base_confirm_one keeps_imp_ok [OF keeps_gets]
      keeps_imp_ok [OF keeps_return])

lemma keeps_base_releaseOrder: "keeps (base_but E) (releaseOrder oid)"
  unfolding releaseOrder_def releaseOrder_run_def thenA_def
  by (intro keeps_tx keeps_ok_bind keeps_ok_for base_release_one keeps_imp_ok [OF keeps_gets]
      keeps_imp_ok [OF keeps_return])

lemma keeps_ok_expire_body:
  "keeps_ok (base_but E) (bindA (getsA g) (\<lambda>current. case current of None \<Rightarrow> returnA 0
      | Some r \<Rightarrow> if r_status r \<noteq> RS_ACTIVE then returnA 0
                   else thenA (release_one RS_EXPIRED r) (returnA (1::int))))"
  by (rule keeps_okI)
    (auto simp: ok_simps split: option.splits if_splits intro: keeps_okD [OF base_release_one])

lemma keeps_base_releaseExpired: "keeps (base_but E) releaseExpired"
  unfolding releaseExpired_def expire_one_def
  by (intro keeps_bind keeps_gets keeps_map keeps_return keeps_tx keeps_ok_expire_body)

lemma keeps_base_restock: "keeps (base_but E) (txA (releaseReservation pid w (int q) True))"
  by (intro keeps_tx keeps_okI) (auto intro: base_release)

lemma keeps_base_warehouses:
  "keeps (base_but E) (CreateWarehouseHandler t m d)"
  "keeps (base_but E) (UpdateWarehouseHandler wid m t e)"
  unfolding CreateWarehouseHandler_def UpdateWarehouseHandler_def Let_def newIdA_def
  by (intro keeps_intros keeps_imp_ok [OF keeps_bind] keeps_imp_ok [OF keeps_then];
      simp add: base_frame keeps_def base_next_id)+

text \<open>
  The request of the owner throws before it writes, or it sets the quantity of the row, or adds the
  row, and the stock of the product follows.
\<close>

definition place_quantity :: "string \<Rightarrow> string \<Rightarrow> int \<Rightarrow> stock_row list \<Rightarrow> stock_row list" where
  "place_quantity pid w q t =
    (if find_row (at_place pid w) t = None
     then t @ [\<lparr>ps_productId = pid, ps_warehouseId = w, ps_quantity = q, ps_reserved = 0\<rparr>]
     else update_where (at_place pid w) (\<lambda>r. r\<lparr>ps_quantity := q\<rparr>) t)"

definition set_quantity :: "string \<Rightarrow> string \<Rightarrow> int \<Rightarrow> 'z inv_db_scheme \<Rightarrow> 'z inv_db_scheme" where
  "set_quantity pid w q s =
    (let t = place_quantity pid w q (stocks s) in
     products_update (update_where (\<lambda>p. p_id p = pid) (\<lambda>p. p\<lparr>p_stock := sum_where (\<lambda>r. ps_productId r = pid) ps_quantity t\<rparr>))
      (s\<lparr>stocks := t\<rparr>))"

lemma UpdateProductStock_cases:
  obtains (throws) e where "UpdateProductStockHandler pid w m t q s = (Inl e, s)"
  | (returns) "UpdateProductStockHandler pid w m t q s = (Inr (), set_quantity pid w q s)"
      "0 \<le> q" "pid \<in> p_id ` set (products s)"
proof -
  have "(\<exists>e. UpdateProductStockHandler pid w m t q s = (Inl e, s)) \<or>
    UpdateProductStockHandler pid w m t q s = (Inr (), set_quantity pid w q s) \<and> 0 \<le> q \<and>
    pid \<in> p_id ` set (products s)"
  proof (cases "find_row (\<lambda>p. p_id p = pid) (products s)")
    case None
    then show ?thesis by (simp add: UpdateProductStockHandler_def act_laws act_laws_run thenA_def bindA_def guardA_def
      returnA_def throwA_def getsA_def someA_def)
  next
    case (Some p)
    then have "pid \<in> p_id ` set (products s)" by (auto dest: find_row_Some)
    with Some show ?thesis
      by (cases "find_row (\<lambda>x. w_id x = w \<and> w_merchantId x = m) (warehouses s)"; cases "find_row (at_place pid w) (stocks s)")
        (simp_all add: UpdateProductStockHandler_def set_quantity_def place_quantity_def Let_def act_defs createA_def
          updateA_def not_less)
  qed
  with that show thesis by blast
qed

lemma place_quantity_rows:
  assumes "wf_inv s" and x: "x \<in> set (place_quantity pid w q (stocks s))"
  shows "(x \<in> set (stocks s) \<and> \<not> at_place pid w x) \<or> (at_place pid w x \<and> ps_quantity x = q \<and>
    (ps_reserved x = 0 \<and> \<not> (\<exists>y \<in> set (stocks s). at_place pid w y) \<or>
     (\<exists>y \<in> set (stocks s). at_place pid w y \<and> ps_reserved y = ps_reserved x)))"
proof (cases "find_row (at_place pid w) (stocks s)")
  case None
  with x show ?thesis by (auto simp: place_quantity_def find_row_None)
next
  case (Some row)
  with x have "x \<in> set (update_where (at_place pid w) (\<lambda>r. r\<lparr>ps_quantity := q\<rparr>) (stocks s))"
    by (simp add: place_quantity_def)
  then show ?thesis by (rule in_update_whereE) auto
qed

lemma wf_place_quantity:
  assumes "wf_inv s" and "pid \<in> p_id ` set (products s)"
  shows "wf_inv (s\<lparr>stocks := place_quantity pid w q (stocks s)\<rparr>)"
proof (cases "find_row (at_place pid w) (stocks s)")
  case None
  then have "(pid, w) \<notin> (\<lambda>r. (ps_productId r, ps_warehouseId r)) ` set (stocks s)"
    by (auto simp: find_row_None)
  with None assms show ?thesis by (simp add: wf_inv_def place_quantity_def)
next
  case (Some row)
  with assms show ?thesis
    by (simp add: wf_inv_def place_quantity_def map_update_where ball_update_where)
qed

lemma base_set_quantity:
  assumes inv: "base_but E s" and q: "0 \<le> q" and pid: "pid \<in> p_id ` set (products s)"
  shows "base_but (if undercut pid w q s then insert (pid, w) E else E - {(pid, w)}) (set_quantity pid w q s)"
    (is "base_but ?E _")
proof -
  let ?t = "place_quantity pid w q (stocks s)"
  note wf = base_wf [OF inv] and rows = place_quantity_rows [OF base_wf [OF inv], of _ pid w q]
  have row: "0 \<le> ps_reserved x \<and> 0 \<le> ps_quantity x \<and>
      ((ps_productId x, ps_warehouseId x) \<notin> ?E \<longrightarrow> ps_reserved x \<le> ps_quantity x)" if x: "x \<in> set ?t" for x
    using rows [OF x]
  proof (elim disjE conjE)
    assume "x \<in> set (stocks s)" and "\<not> (ps_productId x = pid \<and> ps_warehouseId x = w)"
    with base_row [OF inv, of x] show ?thesis by auto
  next
    assume "ps_productId x = pid" "ps_warehouseId x = w" "ps_quantity x = q" "ps_reserved x = 0"
    with q show ?thesis by simp
  next
    assume x: "ps_productId x = pid" "ps_warehouseId x = w" "ps_quantity x = q"
      and "\<exists>y \<in> set (stocks s). at_place pid w y \<and> ps_reserved y = ps_reserved x"
    then obtain y where y: "y \<in> set (stocks s)" "at_place pid w y" "ps_reserved y = ps_reserved x" by blast
    then have "ps_reserved x \<le> q" if "\<not> undercut pid w q s" using that by (force simp: undercut_def)
    with x q base_row [OF inv y(1)] y(3) show ?thesis by auto
  qed
  then have "base_but ?E (s\<lparr>stocks := ?t\<rparr>)"
    using wf_place_quantity [OF wf pid] base_product [OF inv] by (simp add: base_but_def stock_ok_but_def)
  moreover have "0 \<le> sum_where (\<lambda>r. ps_productId r = pid) ps_quantity ?t"
    using row by (intro sum_where_nonneg) blast
  ultimately show ?thesis
    unfolding set_quantity_def Let_def using base_product [OF inv] by (intro base_products) auto
qed

lemma base_edit_stock:
  "keeps (base_but E) (updateManyA products_update (\<lambda>p. p_id p = pid) (\<lambda>p. p\<lparr>p_stock := int n\<rparr>))"
  unfolding updateManyA_def
  by (intro keeps_modify base_products) (auto dest: base_product)

lemma keeps_snd: "keeps I m \<Longrightarrow> I s \<Longrightarrow> I (snd (m s))"
  by (simp add: keeps_def)

lemma other_op_keeps:
  "\<nexists>pid w m t q. x = UpdateProductStock pid w m t q \<Longrightarrow> keeps (base_but E) (inv_exec x)"
  by (cases x) (auto intro!: keeps_then keeps_return keeps_base_reserve keeps_base_confirm
      keeps_base_releaseOrder keeps_base_releaseExpired keeps_base_restock keeps_base_warehouses base_edit_stock
      keeps_modify simp: base_frame)

lemma other_op_lowers_none:
  "\<nexists>pid w m t q. x = UpdateProductStock pid w m t q \<Longrightarrow> lowered_by x s E = E"
  by (cases x) simp_all

lemma op_lowers:
  assumes inv: "base_but E s"
  shows "base_but (lowered_by x s E) (snd (inv_exec x s))"
proof (cases "\<exists>pid w m t q. x = UpdateProductStock pid w m t q")
  case True
  then obtain pid w m t q where x: "x = UpdateProductStock pid w m t q" by blast
  show ?thesis
  proof (rule UpdateProductStock_cases [of pid w m t q s])
    fix e assume "UpdateProductStockHandler pid w m t q s = (Inl e, s)"
    with inv show ?thesis by (simp add: x)
  next
    assume run: "UpdateProductStockHandler pid w m t q s = (Inr (), set_quantity pid w q s)"
      and q: "0 \<le> q" "pid \<in> p_id ` set (products s)"
    from base_set_quantity [OF inv q, of w] run show ?thesis by (simp only: x lowered_by.simps inv_exec.simps fst_conv snd_conv sum.case)
  qed
next
  case False
  with keeps_snd [OF other_op_keeps inv, of x] other_op_lowers_none [of x s E] show ?thesis by simp
qed

interpretation stock: tracked_component inv_exec base_but lowered_by
  by unfold_locales (rule op_lowers)

end
