(* ===== verification/Stock_Holds.thy ===== *)
theory Stock_Holds
  imports Inventory_Facts
begin

text \<open>
  Open holds are backed.  \<open>inv_ok\<close> of \<open>Inventory_Facts\<close> is kept by every operation on the stock,
  as long as the checkout places its holds consistently (\<open>placed_ok\<close>: a hold on a warehouse only
  where the product is stored or at its first storage, a hold without warehouse only for a product
  that is not stored).  Under it a confirmation never fails, and it takes exactly the held units.
\<close>

section \<open>Holds of a place\<close>

lemma update_where_cong:
  "(\<And>x. x \<in> set xs \<Longrightarrow> P x = Q x) \<Longrightarrow> (\<And>x. x \<in> set xs \<Longrightarrow> P x \<Longrightarrow> f x = g x) \<Longrightarrow>
   update_where P f xs = update_where Q g xs"
  by (induction xs) auto

lemma wf_warehouse: "wf_inv s \<Longrightarrow> r \<in> set (reservations s) \<Longrightarrow> or_else (r_warehouseId r) None = r_warehouseId r"
  by (cases "r_warehouseId r") (auto simp: wf_inv_def or_else_def)

lemma wf_quantity: "wf_inv s \<Longrightarrow> r \<in> set (reservations s) \<Longrightarrow> 0 < r_quantity r"
  by (auto simp: wf_inv_def)

lemma held_nonneg: "wf_inv s \<Longrightarrow> 0 \<le> held pid w s"
  unfolding held_def by (intro sum_where_nonneg) (auto dest: wf_quantity)

lemma sum_where_ge:
  "(\<And>x. x \<in> set xs \<Longrightarrow> 0 < f x) \<Longrightarrow> r \<in> set xs \<Longrightarrow> P r \<Longrightarrow> f r \<le> sum_where P f xs"
proof (induction xs)
  case Nil
  then show ?case by simp
next
  case (Cons a xs)
  have "0 \<le> sum_where P f xs"
    using Cons.prems(1) by (intro sum_where_nonneg) (auto intro: less_imp_le)
  moreover have "0 \<le> f a" using Cons.prems(1) [of a] by simp
  ultimately show ?case using Cons by auto
qed

lemma stored_image: "stored pid s \<longleftrightarrow> pid \<in> ps_productId ` set (stocks s)"
  by (auto simp: stored_def)

lemma placed_image:
  "(\<exists>x \<in> set (stocks s). at_place pid w x) \<longleftrightarrow>
    (pid, w) \<in> (\<lambda>x. (ps_productId x, ps_warehouseId x)) ` set (stocks s)"
  by auto

lemma held_ge:
  assumes wf: "wf_inv s" and r: "r \<in> set (reservations s)" "r_status r = RS_ACTIVE"
  shows "r_quantity r \<le> held (r_productId r) (r_warehouseId r) s"
  unfolding held_def
  using assms by (intro sum_where_ge) (auto dest: wf_quantity)

lemma held_set_status:
  assumes wf: "wf_inv s" and r: "r \<in> set (reservations s)" "r_status r = RS_ACTIVE" and st: "st \<noteq> RS_ACTIVE"
    and s': "reservations s' = set_status (r_id r) st (reservations s)"
  shows "held pid w s' = held pid w s -
    (if r_productId r = pid \<and> r_warehouseId r = w then r_quantity r else 0)"
proof -
  have d: "distinct (map r_id (reservations s))" using wf by (simp add: wf_inv_def)
  note f = find_row_key [OF d r(1)]
  show ?thesis
    unfolding held_def s' set_status_def
    by (subst sum_where_update_key [OF d f]) (use r(2) st in auto)
qed

lemma find_product:
  assumes "wf_inv s" and "r \<in> set (reservations s)"
  obtains p where "find_row (\<lambda>p. p_id p = r_productId r) (products s) = Some p"
    "p \<in> set (products s)" "p_id p = r_productId r"
proof -
  have "r_productId r \<in> p_id ` set (products s)" using assms by (simp add: wf_inv_def)
  then have "find_row (\<lambda>p. p_id p = r_productId r) (products s) \<noteq> None"
    by (auto simp: find_row_None)
  then obtain p where "find_row (\<lambda>p. p_id p = r_productId r) (products s) = Some p" by blast
  with find_row_Some [OF this] that show thesis by blast
qed

lemma wf_stock_unique:
  assumes "wf_inv s" and "x \<in> set (stocks s)"
  shows "find_row (at_place (ps_productId x) (ps_warehouseId x)) (stocks s) = Some x"
proof -
  have "distinct (map (\<lambda>r. (ps_productId r, ps_warehouseId r)) (stocks s))"
    using assms(1) by (simp add: wf_inv_def)
  from find_row_key [OF this assms(2)] show ?thesis by simp
qed

section \<open>Closing a hold\<close>

text \<open>
  A hold is closed: the reservation gets a final status, the row of its warehouse and the product
  change, but in such a way that no more than the quantity of the hold is lost.
\<close>

lemma close_hold_inv:
  fixes s s' :: "'z inv_db_scheme"
  assumes inv: "inv_ok s" and r: "r \<in> set (reservations s)" "r_status r = RS_ACTIVE"
    and st: "st \<noteq> RS_ACTIVE"
    and res: "reservations s' = set_status (r_id r) st (reservations s)"
    and ids: "id_supply s' = id_supply s" "next_id s' = next_id s"
    and sto: "stocks s' = update_where (\<lambda>x. ps_productId x = r_productId r \<and> Some (ps_warehouseId x) = r_warehouseId r)
      g (stocks s)"
    and g: "\<And>x. ps_productId (g x) = ps_productId x" "\<And>x. ps_warehouseId (g x) = ps_warehouseId x"
    and gx: "\<And>x. x \<in> set (stocks s) \<Longrightarrow> ps_productId x = r_productId r \<Longrightarrow>
      Some (ps_warehouseId x) = r_warehouseId r \<Longrightarrow>
      0 \<le> ps_reserved (g x) \<and> ps_reserved (g x) \<le> ps_quantity (g x) \<and>
      ps_reserved x - r_quantity r \<le> ps_reserved (g x)"
    and prod: "products s' = update_where (\<lambda>p. p_id p = r_productId r) h (products s)"
    and h: "\<And>p. p_id (h p) = p_id p"
    and hp: "\<And>p. p \<in> set (products s) \<Longrightarrow> p_id p = r_productId r \<Longrightarrow>
      0 \<le> p_stock (h p) \<and> 0 \<le> p_reservedStock (h p) \<and>
      (r_warehouseId r = None \<longrightarrow> p_stock p - r_quantity r \<le> p_stock (h p))"
  shows "inv_ok s'"
proof -
  have wf: "wf_inv s" and so: "stock_ok s" and cov: "covered s"
    using inv by (auto simp: inv_ok_def)
  have stored: "stored pid s' \<longleftrightarrow> stored pid s" for pid
    by (simp add: stored_image sto image_update_where g)
  have placed: "(\<exists>x \<in> set (stocks s'). at_place pid w x) \<longleftrightarrow> (\<exists>x \<in> set (stocks s). at_place pid w x)" for pid w
    unfolding placed_image by (simp add: sto image_update_where g)
  note hs = held_set_status [OF wf r st res]
  have rk: "r_id r \<in> id_supply s ` {..<next_id s}" "r_productId r \<in> p_id ` set (products s)"
    using wf r(1) by (simp_all add: wf_inv_def)
  have "wf_inv s'"
    using wf unfolding wf_inv_def ids
    using rk by (simp add: res set_status_def sto prod map_update_where ball_update_where image_update_where g h)
  moreover have "stock_ok s'"
    using so gx hp unfolding stock_ok_def sto prod ball_update_where by auto
  moreover have "covered s'"
    unfolding covered_def
  proof (intro conjI)
    show "\<forall>x \<in> set (stocks s'). held (ps_productId x) (Some (ps_warehouseId x)) s' \<le> ps_reserved x"
      using cov gx unfolding covered_def sto ball_update_where hs
      by (fastforce simp: g)
    show "\<forall>p \<in> set (products s'). \<not> stored (p_id p) s' \<longrightarrow> held (p_id p) None s' \<le> p_stock p"
    proof -
      have "held (p_id p) None s' \<le> p_stock (if p_id p = r_productId r then h p else p)"
        if p: "p \<in> set (products s)" "\<not> stored (p_id p) s" for p
      proof -
        from cov p have le: "held (p_id p) None s \<le> p_stock p" by (simp add: covered_def)
        have "r_warehouseId r = None" if "p_id p = r_productId r"
          using cov r p(2) that by (auto simp: covered_def stored_def split: option.splits)
        with le hp [OF p(1)] show ?thesis by (auto simp: hs)
      qed
      moreover have "p_id (if p_id p = r_productId r then h p else p) = p_id p" for p by (simp add: h)
      ultimately show ?thesis unfolding prod ball_update_where stored by simp
    qed
    show "\<forall>r \<in> set (reservations s'). r_status r = RS_ACTIVE \<longrightarrow>
      (case r_warehouseId r of
        None \<Rightarrow> \<not> stored (r_productId r) s'
      | Some w \<Rightarrow> \<exists>x \<in> set (stocks s'). at_place (r_productId r) w x)"
      using cov st unfolding covered_def res set_status_def ball_update_where stored placed
      by (auto split: option.splits)
  qed
  ultimately show ?thesis by (simp add: inv_ok_def)
qed

section \<open>Confirming and giving up one hold\<close>

lemma drop_reserved_after:
  assumes "\<And>p. p_id (f p) = p_id p"
  shows "drop_reserved pid k (update_where (\<lambda>p. p_id p = pid) f ps) =
    update_where (\<lambda>p. p_id p = pid)
      (\<lambda>p. (f p)\<lparr>p_reservedStock := max 0 (p_reservedStock (f p) - k)\<rparr>) ps"
  by (simp add: drop_reserved_def update_where_twice assms)

lemma drop_reserved_eq:
  "drop_reserved pid k ps =
    update_where (\<lambda>p. p_id p = pid) (\<lambda>p. p\<lparr>p_reservedStock := max 0 (p_reservedStock p - k)\<rparr>) ps"
  by (simp add: drop_reserved_def update_where_twice)

lemma units_stored: "stored pid s \<Longrightarrow> units pid s = sum_where (\<lambda>x. ps_productId x = pid) ps_quantity (stocks s)"
  by (simp add: units_def)

lemma units_not_stored: "\<not> stored pid s \<Longrightarrow> units pid s = sum_where (\<lambda>p. p_id p = pid) p_stock (products s)"
  by (simp add: units_def)

text \<open>A hold on a warehouse is backed by the row of that warehouse.\<close>

lemma held_row:
  assumes "inv_ok s" and "r \<in> set (reservations s)" "r_status r = RS_ACTIVE" and "r_warehouseId r = Some w"
  obtains x where "x \<in> set (stocks s)" "find_row (at_place (r_productId r) w) (stocks s) = Some x"
    "r_quantity r \<le> ps_reserved x" "ps_reserved x \<le> ps_quantity x" "0 \<le> ps_reserved x"
    "\<forall>y \<in> set (stocks s). at_place (r_productId r) w y \<longrightarrow> y = x" "at_place (r_productId r) w x"
proof -
  have wf: "wf_inv s" and so: "stock_ok s" and cov: "covered s"
    using assms(1) by (auto simp: inv_ok_def)
  from cov assms(2-4) obtain x where x: "x \<in> set (stocks s)" "at_place (r_productId r) w x"
    by (fastforce simp: covered_def)
  then have f: "find_row (at_place (r_productId r) w) (stocks s) = Some x"
    using wf_stock_unique [OF wf x(1)] by simp
  have "held (r_productId r) (Some w) s \<le> ps_reserved x"
    using cov x by (auto simp: covered_def)
  with held_ge [OF wf assms(2,3)] assms(4) have "r_quantity r \<le> ps_reserved x" by simp
  moreover have "ps_reserved x \<le> ps_quantity x" "0 \<le> ps_reserved x"
    using so x by (auto simp: stock_ok_def)
  ultimately show thesis
    using that x f find_row_at_place [OF wf f] by blast
qed

text \<open>A hold without warehouse is backed by the stock of the product.\<close>

lemma held_product:
  assumes "inv_ok s" and "r \<in> set (reservations s)" "r_status r = RS_ACTIVE" and "r_warehouseId r = None"
    and "p \<in> set (products s)" "p_id p = r_productId r"
  shows "r_quantity r \<le> p_stock p" and "\<not> stored (r_productId r) s"
proof -
  have wf: "wf_inv s" and cov: "covered s" using assms(1) by (auto simp: inv_ok_def)
  show ns: "\<not> stored (r_productId r) s"
    using cov assms(2-4) by (fastforce simp: covered_def)
  then have "held (r_productId r) None s \<le> p_stock p"
    using cov assms(5,6) by (auto simp: covered_def)
  with held_ge [OF wf assms(2,3)] assms(4) show "r_quantity r \<le> p_stock p" by simp
qed

definition keeps_rest :: "'z inv_db_scheme \<Rightarrow> 'z inv_db_scheme \<Rightarrow> bool" where
  "keeps_rest s s' \<longleftrightarrow> id_supply s' = id_supply s \<and> next_id s' = next_id s \<and> clock s' = clock s \<and>
    warehouses s' = warehouses s \<and> shops s' = shops s \<and> (\<forall>pid. stored pid s' = stored pid s)"

lemma keeps_rest_refl: "keeps_rest s s"
  by (simp add: keeps_rest_def)

lemma keeps_rest_trans: "keeps_rest s s1 \<Longrightarrow> keeps_rest s1 s2 \<Longrightarrow> keeps_rest s s2"
  by (simp add: keeps_rest_def)

lemma confirm_one_step:
  assumes inv: "inv_ok s" and r: "r \<in> set (reservations s)" "r_status r = RS_ACTIVE"
  shows "\<exists>s'. confirm_one r s = (Inr (), s') \<and> inv_ok s' \<and> keeps_rest s s' \<and>
    reservations s' = set_status (r_id r) RS_CONFIRMED (reservations s) \<and>
    (\<forall>pid. units pid s' = units pid s - (if pid = r_productId r then r_quantity r else 0))"
proof -
  let ?pid = "r_productId r" and ?q = "r_quantity r" and ?k = "min (r_quantity r) 999999"
  have wf: "wf_inv s" and so: "stock_ok s" and cov: "covered s" using inv by (auto simp: inv_ok_def)
  have dst: "distinct (map p_id (products s))" using wf by (simp add: wf_inv_def)
  obtain p where p: "find_row (\<lambda>p. p_id p = ?pid) (products s) = Some p" "p \<in> set (products s)" "p_id p = ?pid"
    by (rule find_product [OF wf r(1)])
  have rr: "find_row (\<lambda>x. r_id x = r_id r) (reservations s) \<noteq> None"
    using r(1) by (auto simp: find_row_None)
  note w = wf_warehouse [OF wf r(1)]
  have pos: "0 < ?q" by (rule wf_quantity [OF wf r(1)])
  show ?thesis
  proof (cases "r_warehouseId r")
    case None
    have le: "?q \<le> p_stock p" and ns: "\<not> stored ?pid s"
      using held_product [OF inv r None p(2,3)] by auto
    define s' where "s' = products_update (drop_reserved ?pid ?k)
        (reservations_update (set_status (r_id r) RS_CONFIRMED) (products_update (take_stock ?pid ?q) s))"
    have take: "take_stock ?pid ?q (products s) =
        update_where (\<lambda>p. p_id p = ?pid) (\<lambda>p. p\<lparr>p_stock := p_stock p - ?q\<rparr>) (products s)"
      unfolding take_stock_def
      using le distinct_key_eq [OF dst _ p(2)] p(3) by (intro update_where_cong) auto
    have prod: "products s' = update_where (\<lambda>p. p_id p = ?pid)
        (\<lambda>p. p\<lparr>p_stock := p_stock p - ?q, p_reservedStock := max 0 (p_reservedStock p - ?k)\<rparr>) (products s)"
      by (simp add: s'_def take drop_reserved_after)
    have run: "confirm_one r s = (Inr (), s')"
      unfolding confirm_one_ok w None s'_def
      using p(1) le rr p(2,3) by (auto simp: take find_row_update_where count_where_zero not_less intro!: gr0I)
    have inv': "inv_ok s'"
    proof (rule close_hold_inv [OF inv r _ _ _ _ _ _ _ _ prod, where st = RS_CONFIRMED])
      show "stocks s' = update_where (\<lambda>x. ps_productId x = ?pid \<and> Some (ps_warehouseId x) = r_warehouseId r)
          id (stocks s)"
        by (simp add: s'_def None update_where_none)
    qed (use so pos le distinct_key_eq [OF dst _ p(2)] p(3) None in \<open>auto simp: s'_def stock_ok_def\<close>)
    have st: "stored pid s' = stored pid s" for pid by (simp add: stored_def s'_def)
    have "units pid s' = units pid s - (if pid = ?pid then ?q else 0)" for pid
    proof (cases "pid = ?pid")
      case True
      with ns st show ?thesis
        by (simp add: units_not_stored prod sum_where_update_key [OF dst p(1)]) (use p(3) in simp)
    next
      case False
      then have "sum_where (\<lambda>p. p_id p = pid) p_stock (products s') = sum_where (\<lambda>p. p_id p = pid) p_stock (products s)"
        by (simp add: prod sum_where_update_key [OF dst p(1)]) (use p(3) in simp)
      with False st show ?thesis by (simp add: units_def s'_def)
    qed
    with run inv' st show ?thesis by (auto simp: keeps_rest_def s'_def)
  next
    case (Some wid)
    obtain x where x: "x \<in> set (stocks s)" "find_row (at_place ?pid wid) (stocks s) = Some x"
        "?q \<le> ps_reserved x" "ps_reserved x \<le> ps_quantity x" "0 \<le> ps_reserved x"
        "\<forall>y \<in> set (stocks s). at_place ?pid wid y \<longrightarrow> y = x" "at_place ?pid wid x"
      by (rule held_row [OF inv r Some])
    let ?g = "\<lambda>r. r\<lparr>ps_quantity := ps_quantity r - ?q, ps_reserved := ps_reserved r - ?q\<rparr>"
    define s0 where "s0 = stocks_update (update_where (at_place ?pid wid) ?g) s"
    define n where "n = sum_where (\<lambda>r. ps_productId r = ?pid) ps_quantity (stocks s0)"
    define s1 where "s1 = products_update (update_where (\<lambda>p. p_id p = ?pid) (\<lambda>p. p\<lparr>p_stock := n\<rparr>)) s0"
    define s' where "s' = products_update (drop_reserved ?pid ?k)
        (reservations_update (set_status (r_id r) RS_CONFIRMED) s1)"
    have n0: "0 \<le> n"
      unfolding n_def s0_def using so x(3-6)
      by (intro sum_where_nonneg) (fastforce simp: set_update_where stock_ok_def)
    have st0: "stored pid s0 = stored pid s" for pid
      by (simp add: stored_image s0_def image_update_where)
    have stp: "stored ?pid s" using x(1,7) by (auto simp: stored_def)
    have sync: "syncProductStockAggregate ?pid s0 = (Inr (), s1)"
      unfolding syncProductStockAggregate_ok stored_count using stp p(1)
      by (simp add: st0 s1_def n_def) (simp add: s0_def)
    have commit: "commitReservedStock ?pid (Some wid) ?q s = (Inr (), s1)"
      using x(2-4) sync w Some wf_inv_def
      by (auto simp: commitReservedStock_def ok_simps s0_def split: option.splits)
    have prod: "products s' = update_where (\<lambda>p. p_id p = ?pid)
        (\<lambda>p. p\<lparr>p_stock := n, p_reservedStock := max 0 (p_reservedStock p - ?k)\<rparr>) (products s)"
      by (simp add: s'_def s1_def s0_def drop_reserved_after)
    have run: "confirm_one r s = (Inr (), s')"
      unfolding confirm_one_ok Some w [unfolded Some] option.case s'_def
      by (rule exI [of _ s1]) (use p(1) rr in \<open>simp add: commit s1_def s0_def find_row_update_where\<close>)
    have inv': "inv_ok s'"
    proof (rule close_hold_inv [OF inv r _ _ _ _ _ _ _ _ prod, where st = RS_CONFIRMED])
      show "stocks s' = update_where (\<lambda>x. ps_productId x = ?pid \<and> Some (ps_warehouseId x) = r_warehouseId r)
          ?g (stocks s)"
        by (simp add: s'_def s1_def s0_def Some)
    qed (use prod x(3-6) n0 Some in \<open>auto simp: s'_def s1_def s0_def\<close>)
    have st: "stored pid s' = stored pid s" for pid
      using st0 [of pid] by (simp add: stored_def s'_def s1_def)
    have dk: "distinct (map (\<lambda>r. (ps_productId r, ps_warehouseId r)) (stocks s))"
      using wf by (simp add: wf_inv_def)
    have sq: "sum_where (\<lambda>r. ps_productId r = pid) ps_quantity (stocks s') =
        sum_where (\<lambda>r. ps_productId r = pid) ps_quantity (stocks s) - (if pid = ?pid then ?q else 0)" for pid
      using sum_where_update_key [OF dk, of "(?pid, wid)" x "\<lambda>r. ps_productId r = pid" ps_quantity ?g] x(2,7)
      by (auto simp: s'_def s1_def s0_def)
    have sp: "pid \<noteq> ?pid \<Longrightarrow> sum_where (\<lambda>p. p_id p = pid) p_stock (products s') =
        sum_where (\<lambda>p. p_id p = pid) p_stock (products s)" for pid
      by (simp add: prod sum_where_update_key [OF dst p(1)]) (use p(3) in simp)
    have "units pid s' = units pid s - (if pid = ?pid then ?q else 0)" for pid
      using sq [of pid] sp [of pid] stp by (cases "pid = ?pid") (auto simp: units_def st)
    with run inv' st show ?thesis by (auto simp: keeps_rest_def s'_def s1_def s0_def)
  qed
qed

lemma release_one_step:
  assumes inv: "inv_ok s" and r: "r \<in> set (reservations s)" "r_status r = RS_ACTIVE" and st: "st \<noteq> RS_ACTIVE"
  shows "\<exists>s'. release_one st r s = (Inr (), s') \<and> inv_ok s' \<and> keeps_rest s s' \<and>
    reservations s' = set_status (r_id r) st (reservations s) \<and> (\<forall>pid. units pid s' = units pid s)"
proof -
  let ?pid = "r_productId r" and ?q = "r_quantity r"
  have wf: "wf_inv s" and so: "stock_ok s" using inv by (auto simp: inv_ok_def)
  have dst: "distinct (map p_id (products s))" using wf by (simp add: wf_inv_def)
  obtain p where p: "find_row (\<lambda>p. p_id p = ?pid) (products s) = Some p" "p \<in> set (products s)" "p_id p = ?pid"
    by (rule find_product [OF wf r(1)])
  have rr: "find_row (\<lambda>x. r_id x = r_id r) (reservations s) \<noteq> None"
    using r(1) by (auto simp: find_row_None)
  note w = wf_warehouse [OF wf r(1)]
  have pos: "0 < ?q" by (rule wf_quantity [OF wf r(1)])
  show ?thesis
  proof (cases "r_warehouseId r")
    case None
    define s' where "s' = products_update (drop_reserved ?pid ?q)
        (reservations_update (set_status (r_id r) st) s)"
    have prod: "products s' = update_where (\<lambda>p. p_id p = ?pid)
        (\<lambda>p. p\<lparr>p_reservedStock := max 0 (p_reservedStock p - ?q)\<rparr>) (products s)"
      by (simp add: s'_def drop_reserved_eq)
    have run: "release_one st r s = (Inr (), s')"
      unfolding release_one_ok None s'_def using p(1) rr by auto
    have inv': "inv_ok s'"
    proof (rule close_hold_inv [OF inv r st _ _ _ _ _ _ _ prod])
      show "stocks s' = update_where (\<lambda>x. ps_productId x = ?pid \<and> Some (ps_warehouseId x) = r_warehouseId r)
          id (stocks s)"
        by (simp add: s'_def None update_where_none)
    qed (use so pos None in \<open>auto simp: s'_def stock_ok_def\<close>)
    have st: "stored pid s' = stored pid s" for pid by (simp add: stored_def s'_def)
    have "sum_where (\<lambda>p. p_id p = pid) p_stock (products s') = sum_where (\<lambda>p. p_id p = pid) p_stock (products s)" for pid
      by (simp add: prod sum_where_update_key [OF dst p(1)])
    then have "units pid s' = units pid s" for pid
      using st by (simp add: units_def s'_def)
    with run inv' st show ?thesis by (auto simp: keeps_rest_def s'_def)
  next
    case (Some wid)
    obtain x where x: "x \<in> set (stocks s)" "find_row (at_place ?pid wid) (stocks s) = Some x"
        "?q \<le> ps_reserved x" "ps_reserved x \<le> ps_quantity x" "0 \<le> ps_reserved x"
        "\<forall>y \<in> set (stocks s). at_place ?pid wid y \<longrightarrow> y = x" "at_place ?pid wid x"
      by (rule held_row [OF inv r Some])
    let ?g = "\<lambda>r. r\<lparr>ps_reserved := ps_reserved r - ?q\<rparr>"
    define s0 where "s0 = stocks_update (update_where (at_place ?pid wid) ?g) s"
    define n where "n = sum_where (\<lambda>r. ps_productId r = ?pid) ps_quantity (stocks s0)"
    define s1 where "s1 = products_update (update_where (\<lambda>p. p_id p = ?pid) (\<lambda>p. p\<lparr>p_stock := n\<rparr>)) s0"
    define s' where "s' = products_update (drop_reserved ?pid ?q) (reservations_update (set_status (r_id r) st) s1)"
    have n0: "0 \<le> n"
      unfolding n_def s0_def using so x(3-6)
      by (intro sum_where_nonneg) (fastforce simp: set_update_where stock_ok_def)
    have st0: "stored pid s0 = stored pid s" for pid
      by (simp add: stored_image s0_def image_update_where)
    have stp: "stored ?pid s" using x(1,7) by (auto simp: stored_def)
    have sync: "syncProductStockAggregate ?pid s0 = (Inr (), s1)"
      unfolding syncProductStockAggregate_ok stored_count using stp p(1)
      by (simp add: st0 s1_def n_def) (simp add: s0_def)
    have free: "releaseReservation ?pid (Some wid) ?q False s = (Inr (), s1)"
      using x(2-4) sync w Some pos
      by (auto simp: releaseReservation_def ok_simps s0_def min_absorb2 split: option.splits)
    have prod: "products s' = update_where (\<lambda>p. p_id p = ?pid)
        (\<lambda>p. p\<lparr>p_stock := n, p_reservedStock := max 0 (p_reservedStock p - ?q)\<rparr>) (products s)"
      by (simp add: s'_def s1_def s0_def drop_reserved_after)
    have run: "release_one st r s = (Inr (), s')"
      unfolding release_one_ok Some w [unfolded Some] option.case s'_def
      by (rule exI [of _ s1]) (use p(1) rr in \<open>simp add: free s1_def s0_def find_row_update_where\<close>)
    have inv': "inv_ok s'"
    proof (rule close_hold_inv [OF inv r st _ _ _ _ _ _ _ prod])
      show "stocks s' = update_where (\<lambda>x. ps_productId x = ?pid \<and> Some (ps_warehouseId x) = r_warehouseId r)
          ?g (stocks s)"
        by (simp add: s'_def s1_def s0_def Some)
    qed (use x(3-6) n0 Some pos in \<open>auto simp: s'_def s1_def s0_def\<close>)
    have st: "stored pid s' = stored pid s" for pid
      using st0 [of pid] by (simp add: stored_def s'_def s1_def)
    have dk: "distinct (map (\<lambda>r. (ps_productId r, ps_warehouseId r)) (stocks s))"
      using wf by (simp add: wf_inv_def)
    have sq: "sum_where (\<lambda>r. ps_productId r = pid) ps_quantity (stocks s') =
        sum_where (\<lambda>r. ps_productId r = pid) ps_quantity (stocks s)" for pid
      using sum_where_update_key [OF dk, of "(?pid, wid)" x "\<lambda>r. ps_productId r = pid" ps_quantity ?g] x(2,7)
      by (auto simp: s'_def s1_def s0_def)
    have sp: "pid \<noteq> ?pid \<Longrightarrow> sum_where (\<lambda>p. p_id p = pid) p_stock (products s') =
        sum_where (\<lambda>p. p_id p = pid) p_stock (products s)" for pid
      by (simp add: prod sum_where_update_key [OF dst p(1)]) (use p(3) in simp)
    have "units pid s' = units pid s" for pid
      using sq [of pid] sp [of pid] stp by (cases "pid = ?pid") (auto simp: units_def st)
    with run inv' st show ?thesis by (auto simp: keeps_rest_def s'_def s1_def s0_def)
  qed
qed

section \<open>Closing the holds of an order\<close>

text \<open>
  The contract of a round of the loops of \<open>confirm\<close>, \<open>releaseOrder\<close> and \<open>releaseExpired\<close>: it closes
  one open hold, it cannot fail where holds are backed, and it takes \<open>taken r\<close> units of stock.
\<close>

locale hold_closer =
  fixes close :: "reservation_row \<Rightarrow> ('z inv_db_scheme, unit) act"
    and final :: reservation_status
    and taken :: "reservation_row \<Rightarrow> int"
  assumes close_step: "inv_ok s \<Longrightarrow> r \<in> set (reservations s) \<Longrightarrow> r_status r = RS_ACTIVE \<Longrightarrow>
    \<exists>s'. close r s = (Inr (), s') \<and> inv_ok s' \<and> keeps_rest s s' \<and>
      reservations s' = set_status (r_id r) final (reservations s) \<and>
      (\<forall>pid. units pid s' = units pid s - (if pid = r_productId r then taken r else 0))"
begin

lemma close_all:
  assumes "inv_ok s" and "set rs \<subseteq> set (reservations s)" and "\<forall>r \<in> set rs. r_status r = RS_ACTIVE"
    and "distinct (map r_id rs)"
  shows "\<exists>s'. forA rs close s = (Inr (), s') \<and> inv_ok s' \<and> keeps_rest s s' \<and>
    reservations s' = update_where (\<lambda>x. r_id x \<in> r_id ` set rs) (\<lambda>x. x\<lparr>r_status := final\<rparr>) (reservations s) \<and>
    (\<forall>pid. units pid s' = units pid s - sum_where (\<lambda>r. r_productId r = pid) taken rs)"
  using assms
proof (induction rs arbitrary: s)
  case Nil
  then show ?case by (simp add: returnA_def keeps_rest_refl update_where_none)
next
  case (Cons r rs)
  then obtain s1 where s1: "close r s = (Inr (), s1)" "inv_ok s1" "keeps_rest s s1"
      "reservations s1 = set_status (r_id r) final (reservations s)"
      "\<forall>pid. units pid s1 = units pid s - (if pid = r_productId r then taken r else 0)"
    using close_step [of s r] by auto
  have "x \<in> set (reservations s1)" if "x \<in> set rs" for x
  proof -
    have "r_id x \<noteq> r_id r" using that Cons.prems(4) by (auto simp: rev_image_eqI)
    with that Cons.prems(2) show ?thesis by (force simp: s1(4) set_status_def set_update_where)
  qed
  then obtain s2 where s2: "forA rs close s1 = (Inr (), s2)" "inv_ok s2" "keeps_rest s1 s2"
      "reservations s2 = update_where (\<lambda>x. r_id x \<in> r_id ` set rs) (\<lambda>x. x\<lparr>r_status := final\<rparr>) (reservations s1)"
      "\<forall>pid. units pid s2 = units pid s1 - sum_where (\<lambda>r. r_productId r = pid) taken rs"
    using Cons.IH [OF s1(2)] Cons.prems(3,4) by auto
  have "reservations s2 = update_where (\<lambda>x. r_id x \<in> r_id ` set (r # rs)) (\<lambda>x. x\<lparr>r_status := final\<rparr>) (reservations s)"
    unfolding s2(4) s1(4) set_status_def update_where_def by simp
  with s1 s2 show ?case
    by (auto simp: bindA_def intro: keeps_rest_trans)
qed

text \<open>All the open holds of an order at once.\<close>

lemma close_order:
  assumes "inv_ok s"
  shows "\<exists>s'. forA (filter (open_of oid) (reservations s)) close s = (Inr (), s') \<and> inv_ok s' \<and>
    keeps_rest s s' \<and>
    reservations s' = update_where (open_of oid) (\<lambda>x. x\<lparr>r_status := final\<rparr>) (reservations s) \<and>
    (\<forall>pid. units pid s' = units pid s -
      sum_where (\<lambda>r. open_of oid r \<and> r_productId r = pid) taken (reservations s))"
proof -
  let ?rs = "filter (open_of oid) (reservations s)"
  have d: "distinct (map r_id (reservations s))" using assms by (simp add: inv_ok_def wf_inv_def)
  then have "distinct (map r_id ?rs)" by (simp add: distinct_map_filter)
  then have "\<exists>s'. forA ?rs close s = (Inr (), s') \<and> inv_ok s' \<and> keeps_rest s s' \<and>
      reservations s' = update_where (\<lambda>x. r_id x \<in> r_id ` set ?rs) (\<lambda>x. x\<lparr>r_status := final\<rparr>) (reservations s) \<and>
      (\<forall>pid. units pid s' = units pid s - sum_where (\<lambda>r. r_productId r = pid) taken ?rs)"
    by (intro close_all [OF assms]) auto
  then obtain s' where s': "forA ?rs close s = (Inr (), s')" "inv_ok s'" "keeps_rest s s'"
      "reservations s' = update_where (\<lambda>x. r_id x \<in> r_id ` set ?rs) (\<lambda>x. x\<lparr>r_status := final\<rparr>) (reservations s)"
      "\<forall>pid. units pid s' = units pid s - sum_where (\<lambda>r. r_productId r = pid) taken ?rs"
    by blast
  have "update_where (\<lambda>x. r_id x \<in> r_id ` set ?rs) (\<lambda>x. x\<lparr>r_status := final\<rparr>) (reservations s) =
      update_where (open_of oid) (\<lambda>x. x\<lparr>r_status := final\<rparr>) (reservations s)"
  proof (rule update_where_cong)
    fix x assume x: "x \<in> set (reservations s)"
    show "(r_id x \<in> r_id ` set ?rs) = open_of oid x"
    proof
      assume "r_id x \<in> r_id ` set ?rs"
      then obtain y where y: "y \<in> set ?rs" "r_id x = r_id y" by blast
      with distinct_key_eq [OF d x, of y] show "open_of oid x" by simp
    qed (use x in auto)
  qed simp
  moreover have "sum_where (\<lambda>r. r_productId r = pid) taken ?rs =
      sum_where (\<lambda>r. open_of oid r \<and> r_productId r = pid) taken (reservations s)" for pid
    by (simp add: sum_where_def conj_commute)
  ultimately show ?thesis using s' by (auto intro!: exI [of _ s'])
qed

end

interpretation confirmed: hold_closer confirm_one RS_CONFIRMED r_quantity
  by unfold_locales (rule confirm_one_step)

interpretation released: hold_closer "release_one RS_RELEASED" RS_RELEASED "\<lambda>_. 0"
  by unfold_locales (use release_one_step [where st = RS_RELEASED] in auto)

interpretation expired: hold_closer "release_one RS_EXPIRED" RS_EXPIRED "\<lambda>_. 0"
  by unfold_locales (use release_one_step [where st = RS_EXPIRED] in auto)

end
