(* ===== verification/Stock_Reach.thy ===== *)
theory Stock_Reach
  imports Stock_Holds
begin

text \<open>
  The operations on whole orders over backed holds: a confirmation returns and takes exactly the
  held units, a release or an expiry returns and takes none, a consistently placed reservation is
  backed.  Then the reachable states of the stock, as a step relation.
\<close>

section \<open>Whole orders\<close>

theorem confirm_total:
  assumes "inv_ok s"
  shows "\<exists>s'. confirm oid s = (Inr (count_where (open_of oid) (reservations s)), s') \<and> inv_ok s' \<and>
    keeps_rest s s' \<and>
    reservations s' = update_where (open_of oid) (\<lambda>x. x\<lparr>r_status := RS_CONFIRMED\<rparr>) (reservations s) \<and>
    (\<forall>pid. units pid s' = units pid s -
      sum_where (\<lambda>r. open_of oid r \<and> r_productId r = pid) r_quantity (reservations s))"
proof -
  from confirmed.close_order [OF assms, of oid] obtain s' where
    s': "forA (filter (open_of oid) (reservations s)) confirm_one s = (Inr (), s')"
    and rest: "inv_ok s'" "keeps_rest s s'"
      "reservations s' = update_where (open_of oid) (\<lambda>x. x\<lparr>r_status := RS_CONFIRMED\<rparr>) (reservations s)"
      "\<forall>pid. units pid s' = units pid s -
        sum_where (\<lambda>r. open_of oid r \<and> r_productId r = pid) r_quantity (reservations s)"
    by blast
  have "confirm oid s = (Inr (count_where (open_of oid) (reservations s)), s')"
    unfolding confirm_def txA_ok confirm_run_def
    by (simp add: bindA_def thenA_def getsA_def returnA_def s' count_where_def)
  with rest show ?thesis by blast
qed

theorem releaseOrder_total:
  assumes "inv_ok s"
  shows "\<exists>s'. releaseOrder oid s = (Inr (count_where (open_of oid) (reservations s)), s') \<and> inv_ok s' \<and>
    keeps_rest s s' \<and>
    reservations s' = update_where (open_of oid) (\<lambda>x. x\<lparr>r_status := RS_RELEASED\<rparr>) (reservations s) \<and>
    (\<forall>pid. units pid s' = units pid s)"
proof -
  from released.close_order [OF assms, of oid] obtain s' where
    s': "forA (filter (open_of oid) (reservations s)) (release_one RS_RELEASED) s = (Inr (), s')"
    and rest: "inv_ok s'" "keeps_rest s s'"
      "reservations s' = update_where (open_of oid) (\<lambda>x. x\<lparr>r_status := RS_RELEASED\<rparr>) (reservations s)"
      "\<forall>pid. units pid s' = units pid s"
    by (auto simp: sum_where_def)
  have "releaseOrder oid s = (Inr (count_where (open_of oid) (reservations s)), s')"
    unfolding releaseOrder_def txA_ok releaseOrder_run_def
    by (simp add: bindA_def thenA_def getsA_def returnA_def s' count_where_def)
  with rest show ?thesis by blast
qed

lemma expire_one_open:
  assumes "inv_ok s" and "r \<in> set (reservations s)" "r_status r = RS_ACTIVE"
  shows "\<exists>s'. expire_one (r_id r) s = (Inr 1, s') \<and> inv_ok s' \<and> keeps_rest s s' \<and>
    reservations s' = set_status (r_id r) RS_EXPIRED (reservations s) \<and>
    (\<forall>pid. units pid s' = units pid s)"
proof -
  from release_one_step [OF assms, of RS_EXPIRED] obtain s' where
    s': "release_one RS_EXPIRED r s = (Inr (), s')" "inv_ok s' \<and> keeps_rest s s' \<and>
      reservations s' = set_status (r_id r) RS_EXPIRED (reservations s) \<and> (\<forall>pid. units pid s' = units pid s)"
    by auto
  have "distinct (map r_id (reservations s))" using assms(1) by (simp add: inv_ok_def wf_inv_def)
  from find_row_key [OF this assms(2)] have "expire_one (r_id r) s = (Inr 1, s')"
    using s'(1) assms(3) by (simp add: expire_one_def txA_def bindA_def thenA_def getsA_def returnA_def)
  with s'(2) show ?thesis by blast
qed

lemma expire_rows:
  assumes "inv_ok s" and "set rs \<subseteq> set (reservations s)" and "\<forall>r \<in> set rs. r_status r = RS_ACTIVE"
    and "distinct (map r_id rs)"
  shows "\<exists>s'. mapA rs (\<lambda>r. expire_one (r_id r)) s = (Inr (replicate (length rs) 1), s') \<and> inv_ok s' \<and>
    keeps_rest s s' \<and>
    reservations s' = update_where (\<lambda>x. r_id x \<in> r_id ` set rs) (\<lambda>x. x\<lparr>r_status := RS_EXPIRED\<rparr>) (reservations s) \<and>
    (\<forall>pid. units pid s' = units pid s)"
  using assms
proof (induction rs arbitrary: s)
  case Nil
  then show ?case by (simp add: returnA_def keeps_rest_refl update_where_none)
next
  case (Cons r rs)
  then obtain s1 where s1: "expire_one (r_id r) s = (Inr 1, s1)" "inv_ok s1" "keeps_rest s s1"
      "reservations s1 = set_status (r_id r) RS_EXPIRED (reservations s)" "\<forall>pid. units pid s1 = units pid s"
    using expire_one_open [of s r] by auto
  have "x \<in> set (reservations s1)" if "x \<in> set rs" for x
  proof -
    have "r_id x \<noteq> r_id r" using that Cons.prems(4) by (auto simp: rev_image_eqI)
    with that Cons.prems(2) show ?thesis by (force simp: s1(4) set_status_def set_update_where)
  qed
  then obtain s2 where s2: "mapA rs (\<lambda>r. expire_one (r_id r)) s1 = (Inr (replicate (length rs) 1), s2)"
      "inv_ok s2" "keeps_rest s1 s2"
      "reservations s2 = update_where (\<lambda>x. r_id x \<in> r_id ` set rs) (\<lambda>x. x\<lparr>r_status := RS_EXPIRED\<rparr>) (reservations s1)"
      "\<forall>pid. units pid s2 = units pid s1"
    using Cons.IH [OF s1(2)] Cons.prems(3,4) by auto
  have "reservations s2 = update_where (\<lambda>x. r_id x \<in> r_id ` set (r # rs)) (\<lambda>x. x\<lparr>r_status := RS_EXPIRED\<rparr>) (reservations s)"
    unfolding s2(4) s1(4) set_status_def update_where_def by simp
  with s1 s2 show ?case
    by (auto simp: bindA_def returnA_def intro: keeps_rest_trans)
qed

theorem releaseExpired_total:
  assumes "inv_ok s"
  shows "\<exists>s'. releaseExpired s =
      (Inr (int (count_where (\<lambda>r. r_status r = RS_ACTIVE \<and> r_expiresAt r < clock s) (reservations s))), s') \<and>
    inv_ok s' \<and> keeps_rest s s' \<and>
    reservations s' = update_where (\<lambda>r. r_status r = RS_ACTIVE \<and> r_expiresAt r < clock s)
      (\<lambda>x. x\<lparr>r_status := RS_EXPIRED\<rparr>) (reservations s) \<and>
    (\<forall>pid. units pid s' = units pid s)"
proof -
  let ?P = "\<lambda>r. r_status r = RS_ACTIVE \<and> r_expiresAt r < clock s"
  let ?rs = "filter ?P (reservations s)"
  have d: "distinct (map r_id (reservations s))" using assms by (simp add: inv_ok_def wf_inv_def)
  have "\<exists>s'. mapA ?rs (\<lambda>r. expire_one (r_id r)) s = (Inr (replicate (length ?rs) 1), s') \<and> inv_ok s' \<and>
    keeps_rest s s' \<and>
    reservations s' = update_where (\<lambda>x. r_id x \<in> r_id ` set ?rs) (\<lambda>x. x\<lparr>r_status := RS_EXPIRED\<rparr>) (reservations s) \<and>
    (\<forall>pid. units pid s' = units pid s)"
    using d by (intro expire_rows [OF assms]) (auto simp: distinct_map_filter)
  then obtain s' where s': "mapA ?rs (\<lambda>r. expire_one (r_id r)) s = (Inr (replicate (length ?rs) 1), s')"
    and rest: "inv_ok s'" "keeps_rest s s'" "\<forall>pid. units pid s' = units pid s"
      "reservations s' = update_where (\<lambda>x. r_id x \<in> r_id ` set ?rs) (\<lambda>x. x\<lparr>r_status := RS_EXPIRED\<rparr>) (reservations s)"
    by blast
  have "update_where (\<lambda>x. r_id x \<in> r_id ` set ?rs) (\<lambda>x. x\<lparr>r_status := RS_EXPIRED\<rparr>) (reservations s) =
      update_where ?P (\<lambda>x. x\<lparr>r_status := RS_EXPIRED\<rparr>) (reservations s)"
    by (intro update_where_cong) (use distinct_key_eq [OF d] in auto)
  moreover have "releaseExpired s = (Inr (int (count_where ?P (reservations s))), s')"
    unfolding releaseExpired_def
    by (simp add: bindA_def getsA_def returnA_def s' count_where_def sum_list_replicate)
  ultimately show ?thesis using rest by auto
qed

section \<open>Placing a hold\<close>

text \<open>
  Where a hold may be placed: at a warehouse that has a row for the product; at any warehouse for a
  product that is not yet stored and has no open hold; without warehouse for a product that is not
  stored, at an instant at which no open hold of it expires.
\<close>

definition placed_ok :: "string \<Rightarrow> string option \<Rightarrow> 'z inv_db_scheme \<Rightarrow> bool" where
  "placed_ok pid w s \<longleftrightarrow>
    (case or_else w None of
      None \<Rightarrow> \<not> stored pid s \<and>
        (\<forall>r \<in> set (reservations s). r_productId r = pid \<and> r_status r = RS_ACTIVE \<longrightarrow> r_expiresAt r \<noteq> clock s)
    | Some wid \<Rightarrow> (\<exists>x \<in> set (stocks s). at_place pid wid x) \<or>
        (\<not> stored pid s \<and>
         (\<forall>r \<in> set (reservations s). r_productId r = pid \<and> r_status r = RS_ACTIVE \<longrightarrow> r_expiresAt r < clock s)))"

lemma inv_expire_stale:
  assumes "inv_ok s"
  shows "inv_ok (expire_stale pid s)"
proof -
  let ?s = "expire_stale pid s"
  have base: "base_inv ?s" using assms base_expire_stale [of "{}" s pid] by (simp add: inv_ok_def base_inv_def)
  have wf: "wf_inv s" using assms by (simp add: inv_ok_def)
  have gen: "sum_where (\<lambda>r. r_productId r = p \<and> r_warehouseId r = w \<and> r_status r = RS_ACTIVE) r_quantity
      (update_where P (\<lambda>r. r\<lparr>r_status := RS_EXPIRED\<rparr>) xs) \<le>
    sum_where (\<lambda>r. r_productId r = p \<and> r_warehouseId r = w \<and> r_status r = RS_ACTIVE) r_quantity xs"
    if "\<forall>r \<in> set xs. 0 < r_quantity r" for p w P and xs :: "reservation_row list"
    using that by (induction xs) (auto simp: add_increasing)
  have le: "held p w ?s \<le> held p w s" for p w
    unfolding held_def expire_stale_def using gen wf_quantity [OF wf] by simp
  have "covered ?s"
    unfolding covered_def
  proof (intro conjI)
    show "\<forall>x \<in> set (stocks ?s). held (ps_productId x) (Some (ps_warehouseId x)) ?s \<le> ps_reserved x"
      using assms order_trans [OF le] by (auto simp: inv_ok_def covered_def expire_stale_def)
    show "\<forall>p \<in> set (products ?s). \<not> stored (p_id p) ?s \<longrightarrow> held (p_id p) None ?s \<le> p_stock p"
      using assms order_trans [OF le] by (auto simp: inv_ok_def covered_def expire_stale_def stored_def)
    show "\<forall>r \<in> set (reservations ?s). r_status r = RS_ACTIVE \<longrightarrow>
      (case r_warehouseId r of
        None \<Rightarrow> \<not> stored (r_productId r) ?s
      | Some w \<Rightarrow> \<exists>x \<in> set (stocks ?s). at_place (r_productId r) w x)"
      using assms
      by (auto simp: inv_ok_def covered_def expire_stale_def stored_def ball_update_where split: option.splits)
  qed
  with base show ?thesis by (simp add: inv_ok_def base_inv_def)
qed

lemma reserve_step:
  assumes run: "reserve pid q oid w ttl s = (Inr r, s')"
  shows "0 < q" and "reserve_run pid q oid w ttl s = (Inr r, s')"
  using run by (auto simp: reserve_def ok_simps)

lemma held_add_hold:
  "held pid' w' (add_hold pid q (new_hold pid q oid w ttl s0) s) =
    held pid' w' s + (if pid' = pid \<and> w' = or_else w None then q else 0)"
  by (auto simp: held_def add_hold_def new_hold_def)

lemma add_hold_simps [simp]:
  "stocks (add_hold pid q r s) = stocks s"
  "stored p (add_hold pid q r s) = stored p s"
  "reservations (add_hold pid q r s) = reservations s @ [r]"
  "products (add_hold pid q r s) =
    update_where (\<lambda>p. p_id p = pid) (\<lambda>p. p\<lparr>p_reservedStock := p_reservedStock p + q\<rparr>) (products s)"
  by (simp_all add: add_hold_def stored_def)

text \<open>A new hold at a place that can take it.\<close>

lemma covered_add_hold:
  assumes cov: "covered s"
    and row: "\<And>wid. or_else w None = Some wid \<Longrightarrow> (\<exists>x \<in> set (stocks s). at_place pid wid x) \<and>
      (\<forall>x \<in> set (stocks s). at_place pid wid x \<longrightarrow> held pid (Some wid) s + q \<le> ps_reserved x)"
    and prod: "or_else w None = None \<Longrightarrow> \<not> stored pid s \<and>
      (\<forall>p \<in> set (products s). p_id p = pid \<longrightarrow> held pid None s + q \<le> p_stock p)"
  shows "covered (add_hold pid q (new_hold pid q oid w ttl s0) s)"
  using assms
  unfolding covered_def held_add_hold add_hold_simps ball_update_where
  by (cases "or_else w None") (auto simp: new_hold_def split: option.splits)

lemma covered_reserve_row:
  assumes "covered s" and "0 \<le> q"
  shows "covered (stocks_update (update_where P (\<lambda>r. r\<lparr>ps_reserved := ps_reserved r + q\<rparr>)) s)" (is "covered ?s")
proof -
  have h: "held p w ?s = held p w s" for p w by (simp add: held_def)
  have st: "stored p ?s = stored p s" for p by (simp add: stored_image image_update_where)
  have pl: "(\<exists>x \<in> set (stocks ?s). at_place p w x) \<longleftrightarrow> (\<exists>x \<in> set (stocks s). at_place p w x)" for p w
    unfolding placed_image by (simp add: image_update_where)
  show ?thesis
    using assms unfolding covered_def h st pl by (auto simp: ball_update_where)
qed

theorem reserve_backed:
  assumes inv: "inv_ok s" and run: "reserve pid q oid w ttl s = (Inr r, s')" and place: "placed_ok pid w s"
  shows "inv_ok s'"
proof -
  let ?e = "expire_stale pid s"
  have q: "0 < q" and run': "reserve_run pid q oid w ttl s = (Inr r, s')"
    using reserve_step [OF run] by auto
  have base: "base_inv s'"
    using inv by (intro keeps_okD [OF base_reserve_run [OF q] _ run']) (simp add: inv_ok_def base_inv_def)
  from run' obtain p av s2 where p: "find_row (\<lambda>p. p_id p = pid) (products s) = Some p"
    and av: "getAvailable pid ?e = (Inr av, ?e)" "q \<le> av_available av"
    and s2: "case or_else w None of None \<Rightarrow> s2 = ?e
      | Some wid \<Rightarrow> reserveStock pid q wid (p_stock p) ?e = (Inr (), s2)"
    and s': "s' = add_hold pid q (new_hold pid q oid w ttl s2) s2"
    by (elim reserve_run_okE) simp
  have ie: "inv_ok ?e" by (rule inv_expire_stale [OF inv])
  then have wf: "wf_inv ?e" and so: "stock_ok ?e" and cov: "covered ?e" by (auto simp: inv_ok_def)
  have same: "stocks ?e = stocks s" "products ?e = products s" "clock ?e = clock s"
    by (simp_all add: expire_stale_def)
  have st: "stored pid ?e = stored pid s" by (simp add: stored_def same)
  have act: "r \<in> set (reservations s) \<and> \<not> r_expiresAt r < clock s"
    if "r \<in> set (reservations ?e)" "r_productId r = pid" "r_status r = RS_ACTIVE" for r
  proof -
    from that(1) have "r \<in> set (update_where
        (\<lambda>r. r_productId r = pid \<and> r_status r = RS_ACTIVE \<and> r_expiresAt r < clock s)
        (\<lambda>r. r\<lparr>r_status := RS_EXPIRED\<rparr>) (reservations s))"
      by (simp add: expire_stale_def)
    then show ?thesis
      by (rule in_update_whereE) (use that(2,3) in simp_all)
  qed
  have "covered s'"
  proof (cases "or_else w None")
    case None
    with s2 have s2e: "s2 = ?e" by simp
    from place None have ns: "\<not> stored pid s"
      and inst: "\<forall>r \<in> set (reservations s). r_productId r = pid \<and> r_status r = RS_ACTIVE \<longrightarrow> r_expiresAt r \<noteq> clock s"
      by (auto simp: placed_ok_def)
    have "held pid None ?e \<le> sum_where
        (\<lambda>r. r_productId r = pid \<and> r_status r = RS_ACTIVE \<and> clock ?e < r_expiresAt r) r_quantity (reservations ?e)"
      unfolding held_def
    proof (rule sum_where_subset)
      fix r assume r: "r \<in> set (reservations ?e)" "r_productId r = pid \<and> r_warehouseId r = None \<and> r_status r = RS_ACTIVE"
      then have "r \<in> set (reservations s)" "\<not> r_expiresAt r < clock s" using act by blast+
      with inst r(2) have "clock s < r_expiresAt r" by fastforce
      with r(2) show "r_productId r = pid \<and> r_status r = RS_ACTIVE \<and> clock ?e < r_expiresAt r"
        by (simp add: same(3))
    qed (use wf_quantity [OF wf] in \<open>auto intro: less_imp_le\<close>)
    moreover have "q \<le> p_stock p - sum_where
        (\<lambda>r. r_productId r = pid \<and> r_status r = RS_ACTIVE \<and> clock ?e < r_expiresAt r) r_quantity (reservations ?e)"
      using av q ns p by (auto simp: getAvailable_ok same stored_def split: if_splits)
    ultimately have le: "held pid None ?e + q \<le> p_stock p" by linarith
    have "distinct (map p_id (products s))" using inv by (simp add: inv_ok_def wf_inv_def)
    then have "\<forall>p' \<in> set (products ?e). p_id p' = pid \<longrightarrow> p' = p"
      using find_row_Some [OF p] by (auto simp: same intro: distinct_key_eq)
    with le ns show ?thesis
      unfolding s' s2e by (intro covered_add_hold [OF cov]) (auto simp: None st)
  next
    case (Some wid)
    show ?thesis
    proof (cases "find_row (at_place pid wid) (stocks s)")
      case row: (Some x)
      with s2 Some have s2e: "s2 = stocks_update (update_where (at_place pid wid) (\<lambda>r. r\<lparr>ps_reserved := ps_reserved r + q\<rparr>)) ?e"
        by (simp add: reserveStock_ok same)
      have cov2: "covered s2"
        unfolding s2e using cov q by (intro covered_reserve_row) auto
      have "held pid (Some wid) s2 + q \<le> ps_reserved y" if y: "y \<in> set (stocks s2)" "at_place pid wid y" for y
      proof -
        from y(1) have "y \<in> set (update_where (at_place pid wid) (\<lambda>r. r\<lparr>ps_reserved := ps_reserved r + q\<rparr>) (stocks ?e))"
          by (simp add: s2e)
        then obtain z where z: "z \<in> set (stocks ?e)" "at_place pid wid z" "y = z\<lparr>ps_reserved := ps_reserved z + q\<rparr>"
          by (rule in_update_whereE) (use y(2) in auto)
        have "held pid (Some wid) ?e \<le> ps_reserved z" using cov z(1,2) unfolding covered_def by blast
        moreover have "held pid (Some wid) s2 = held pid (Some wid) ?e" by (simp add: held_def s2e)
        ultimately show ?thesis by (simp add: z(3))
      qed
      moreover have "\<exists>y \<in> set (stocks s2). at_place pid wid y"
        unfolding s2e using find_row_Some [OF row] by (simp add: bex_update_where same) (rule bexI [of _ x], auto)
      ultimately show ?thesis
        unfolding s' by (intro covered_add_hold [OF cov2]) (auto simp: Some)
    next
      case None
      with place Some have ns: "\<not> stored pid s"
        and noact: "\<forall>r \<in> set (reservations ?e). r_productId r = pid \<longrightarrow> r_status r \<noteq> RS_ACTIVE"
        using act by (auto simp: placed_ok_def find_row_None)
      let ?x = "\<lparr>ps_productId = pid, ps_warehouseId = wid, ps_quantity = p_stock p, ps_reserved = q\<rparr>"
      from s2 Some None have s2e: "s2 = stocks_update (\<lambda>t. t @ [?x]) ?e"
        by (simp add: reserveStock_ok same)
      have zero: "held pid w' ?e = 0" for w'
        unfolding held_def using noact by (intro sum_where_none) auto
      have held2: "held p' w' s2 = held p' w' ?e" for p' w' by (simp add: held_def s2e)
      have st2: "stored p' s2 = (p' = pid \<or> stored p' ?e)" for p' by (auto simp: stored_def s2e)
      have cov2: "covered s2"
        using cov q noact unfolding covered_def held2 st2
        by (auto simp: s2e zero split: option.splits)
      have "held pid (Some wid) s2 + q \<le> ps_reserved y" if y: "y \<in> set (stocks s2)" "at_place pid wid y" for y
      proof -
        have "y \<in> set (stocks s) \<or> y = ?x" using y(1) by (auto simp: s2e same)
        with y(2) None have "y = ?x" by (auto simp: find_row_None)
        then have "ps_reserved y = q" by simp
        then show ?thesis by (simp add: held2 zero)
      qed
      moreover have "\<exists>y \<in> set (stocks s2). at_place pid wid y" by (simp add: s2e)
      ultimately show ?thesis
        unfolding s' by (intro covered_add_hold [OF cov2]) (auto simp: Some)
    qed
  qed
  with base show ?thesis by (simp add: inv_ok_def base_inv_def)
qed

section \<open>The other operations\<close>

text \<open>Stock added at a place, where nothing else changes.\<close>

lemma inv_ok_frame:
  assumes "inv_ok s" and "base_inv s'" and "reservations s' = reservations s"
    and "\<And>pid w. (\<exists>x \<in> set (stocks s'). at_place pid w x) = (\<exists>x \<in> set (stocks s). at_place pid w x)"
    and "\<forall>x \<in> set (stocks s'). \<exists>y \<in> set (stocks s). at_place (ps_productId x) (ps_warehouseId x) y \<and> ps_reserved y = ps_reserved x"
    and "\<forall>p \<in> set (products s'). stored (p_id p) s \<or> (\<exists>p0 \<in> set (products s). p_id p0 = p_id p \<and> p_stock p0 \<le> p_stock p)"
  shows "inv_ok s'"
proof -
  have h: "held p w s' = held p w s" for p w by (simp add: held_def assms(3))
  have st: "stored p s' = stored p s" for p
    using assms(4) [of p] unfolding stored_def by blast
  have cov: "covered s" using assms(1) by (simp add: inv_ok_def)
  have "covered s'"
    unfolding covered_def h st assms(3,4)
  proof (intro conjI)
    show "\<forall>x \<in> set (stocks s'). held (ps_productId x) (Some (ps_warehouseId x)) s \<le> ps_reserved x"
      using assms(5) cov unfolding covered_def by metis
    show "\<forall>p \<in> set (products s'). \<not> stored (p_id p) s \<longrightarrow> held (p_id p) None s \<le> p_stock p"
      using assms(6) cov unfolding covered_def by (metis order_trans)
  qed (use cov in \<open>simp add: covered_def\<close>)
  with assms(1,2) show ?thesis by (simp add: inv_ok_def base_inv_def)
qed

lemma inv_restock:
  assumes inv: "inv_ok s" and run: "releaseReservation pid w (int q) True s = (Inr u, s')"
  shows "inv_ok s'"
proof -
  have base: "base_inv s'"
    using inv by (intro base_release [OF _ run]) (auto simp: inv_ok_def base_inv_def)
  show ?thesis
  proof (cases "or_else w None")
    case None
    with run have "s' = products_update (update_where (\<lambda>p. p_id p = pid) (\<lambda>p. p\<lparr>p_stock := p_stock p + int q\<rparr>)) s"
      by (simp add: releaseReservation_def ok_simps)
    then show ?thesis
      using base by (intro inv_ok_frame [OF inv]) (auto simp: ball_update_where)
  next
    case (Some wid)
    show ?thesis
    proof (cases "find_row (at_place pid wid) (stocks s)")
      case None
      with run Some inv show ?thesis by (simp add: releaseReservation_def ok_simps)
    next
      case row: (Some x)
      define s0 where "s0 = stocks_update (update_where (at_place pid wid) (\<lambda>r. r\<lparr>ps_quantity := ps_quantity r + int q\<rparr>)) s"
      have "stored pid s" using find_row_Some [OF row] by (auto simp: stored_def)
      moreover from this have "stored pid s0" by (simp add: stored_image s0_def image_update_where)
      moreover from run Some row have "syncProductStockAggregate pid s0 = (Inr (), s')"
        by (simp add: releaseReservation_def ok_simps s0_def)
      ultimately have s': "s' = products_update (update_where (\<lambda>p. p_id p = pid)
          (\<lambda>p. p\<lparr>p_stock := sum_where (\<lambda>r. ps_productId r = pid) ps_quantity (stocks s0)\<rparr>)) s0" and st: "stored pid s"
        unfolding syncProductStockAggregate_ok stored_count by simp_all
      show ?thesis
      proof (rule inv_ok_frame [OF inv base])
        show "(\<exists>x \<in> set (stocks s'). at_place p w x) = (\<exists>x \<in> set (stocks s). at_place p w x)" for p w
          unfolding placed_image by (simp add: s' s0_def image_update_where)
      qed (use st in \<open>auto simp: s' s0_def ball_update_where\<close>)
    qed
  qed
qed

lemma inv_other:
  "inv_ok (clock_update f s) = inv_ok s"
  "inv_ok (warehouses_update g s) = inv_ok s"
  "inv_ok s \<Longrightarrow> inv_ok (s\<lparr>next_id := Suc (next_id s)\<rparr>)"
  by (auto simp: inv_ok_def wf_inv_def stock_ok_def covered_def held_def stored_def lessThan_Suc split: option.splits)

lemma keeps_inv_warehouses:
  "keeps inv_ok (CreateWarehouseHandler t m d)"
  "keeps inv_ok (UpdateWarehouseHandler wid m t e)"
  unfolding CreateWarehouseHandler_def UpdateWarehouseHandler_def Let_def newIdA_def
  by (intro keeps_intros keeps_imp_ok [OF keeps_bind] keeps_imp_ok [OF keeps_then];
      simp add: inv_other keeps_def)+

section \<open>Reachable stock\<close>

text \<open>
  A step of the stock: any operation, in any order.  An operation that throws is a step too.  Three
  operations come with a condition: a hold is placed consistently; the owner does not set the quantity
  of a place below the units held there, and begins to store a product in warehouses only when no hold
  without warehouse is open on it; the editor does not set the stock of a product that is not stored
  in warehouses below its open holds.  The program checks none of the last two.
\<close>

definition proper :: "inv_op \<Rightarrow> 'z inv_db_scheme \<Rightarrow> bool" where
  "proper x s = (case x of
      Reserve pid q oid w ttl \<Rightarrow> placed_ok pid w s
    | UpdateProductStock pid w m t q \<Rightarrow> \<not> undercut pid w q s \<and>
        (\<forall>r \<in> set (reservations s). r_productId r = pid \<and> r_status r = RS_ACTIVE \<longrightarrow> r_warehouseId r \<noteq> None)
    | EditStock pid n \<Rightarrow> stored pid s \<or> held pid None s \<le> int n
    | _ \<Rightarrow> True)"

inductive stock_step :: "'z inv_db_scheme \<Rightarrow> 'z inv_db_scheme \<Rightarrow> bool" where
  run: "proper x s \<Longrightarrow> stock_step s (snd (inv_exec x s))"

inductive_cases stock_stepE: "stock_step s s'"

lemma thenA_return_snd: "snd (thenA m (returnA x) s) = snd (m s)"
  by (simp add: thenA_def bindA_def returnA_def split: prod.splits sum.splits)

lemma covered_set_quantity:
  assumes inv: "inv_ok s" and cut: "\<not> undercut pid w q s"
    and loose: "\<forall>r \<in> set (reservations s). r_productId r = pid \<and> r_status r = RS_ACTIVE \<longrightarrow> r_warehouseId r \<noteq> None"
  shows "covered (set_quantity pid w q s)" (is "covered ?s")
proof -
  have wf: "wf_inv s" and cov: "covered s" using inv by (auto simp: inv_ok_def)
  let ?t = "place_quantity pid w q (stocks s)"
  have sel: "stocks ?s = ?t" "reservations ?s = reservations s" by (simp_all add: set_quantity_def Let_def)
  have h: "held p v ?s = held p v s" for p v by (simp add: held_def sel)
  have place: "(\<exists>x \<in> set ?t. at_place p v x) \<longleftrightarrow> (p = pid \<and> v = w) \<or> (\<exists>x \<in> set (stocks s). at_place p v x)" for p v
  proof (cases "find_row (at_place pid w) (stocks s)")
    case None
    then show ?thesis by (auto simp: place_quantity_def)
  next
    case (Some row)
    from find_row_Some [OF Some] have "(pid, w) \<in> (\<lambda>x. (ps_productId x, ps_warehouseId x)) ` set (stocks s)" by auto
    moreover have "(\<lambda>x. (ps_productId x, ps_warehouseId x)) ` set ?t = (\<lambda>x. (ps_productId x, ps_warehouseId x)) ` set (stocks s)"
      using Some by (simp add: place_quantity_def image_update_where)
    moreover have "(\<exists>x \<in> set u. at_place p v x) \<longleftrightarrow> (p, v) \<in> (\<lambda>x. (ps_productId x, ps_warehouseId x)) ` set u" for u
      by auto
    ultimately show ?thesis by (metis (no_types, lifting))
  qed
  have st: "stored p ?s \<longleftrightarrow> p = pid \<or> stored p s" for p
    using place [of p] unfolding stored_def sel by blast
  have new: "held pid (Some w) s = 0" if none: "\<not> (\<exists>x \<in> set (stocks s). at_place pid w x)"
  proof -
    have "\<not> (r_productId r = pid \<and> r_warehouseId r = Some w \<and> r_status r = RS_ACTIVE)" if r: "r \<in> set (reservations s)" for r
    proof
      assume a: "r_productId r = pid \<and> r_warehouseId r = Some w \<and> r_status r = RS_ACTIVE"
      with cov r have "case r_warehouseId r of None \<Rightarrow> \<not> stored (r_productId r) s
        | Some v \<Rightarrow> \<exists>x \<in> set (stocks s). at_place (r_productId r) v x" unfolding covered_def by blast
      then have "\<exists>x \<in> set (stocks s). at_place pid w x" using a by simp
      with none show False by blast
    qed
    then show ?thesis unfolding held_def by (intro sum_where_none) blast
  qed
  show ?thesis
    unfolding covered_def h st sel place
  proof (intro conjI ballI impI)
    fix x assume "x \<in> set ?t"
    from place_quantity_rows [OF wf this] show "held (ps_productId x) (Some (ps_warehouseId x)) s \<le> ps_reserved x"
    proof (elim disjE conjE bexE)
      assume "x \<in> set (stocks s)"
      with cov show ?thesis by (simp add: covered_def)
    next
      fix y assume "ps_productId x = pid" "ps_warehouseId x = w" "y \<in> set (stocks s)" "ps_productId y = pid"
        "ps_warehouseId y = w" "ps_reserved y = ps_reserved x"
      with cov show ?thesis unfolding covered_def by metis
    next
      assume "ps_productId x = pid" "ps_warehouseId x = w" "ps_reserved x = 0"
        "\<not> (\<exists>y \<in> set (stocks s). at_place pid w y)"
      with new show ?thesis by simp
    qed
  next
    fix p assume "p \<in> set (products ?s)" and ns: "\<not> (p_id p = pid \<or> stored (p_id p) s)"
    then have "\<exists>p0 \<in> set (products s). p_id p0 = p_id p \<and> p_stock p0 = p_stock p"
      by (auto simp: set_quantity_def Let_def elim!: in_update_whereE)
    with cov ns show "held (p_id p) None s \<le> p_stock p" unfolding covered_def by force
  next
    fix r assume r: "r \<in> set (reservations s)" "r_status r = RS_ACTIVE"
    with cov have "case r_warehouseId r of None \<Rightarrow> \<not> stored (r_productId r) s
      | Some v \<Rightarrow> \<exists>x \<in> set (stocks s). at_place (r_productId r) v x" by (simp add: covered_def)
    with loose r show "case r_warehouseId r of None \<Rightarrow> \<not> (r_productId r = pid \<or> stored (r_productId r) s)
      | Some v \<Rightarrow> (r_productId r = pid \<and> v = w) \<or> (\<exists>x \<in> set (stocks s). at_place (r_productId r) v x)"
      by (auto split: option.splits)
  qed
qed

lemma inv_update_stock:
  assumes inv: "inv_ok s" and ok: "proper (UpdateProductStock pid w m t q) s"
  shows "inv_ok (snd (UpdateProductStockHandler pid w m t q s))"
proof (rule UpdateProductStock_cases [of pid w m t q s])
  assume run: "UpdateProductStockHandler pid w m t q s = (Inr (), set_quantity pid w q s)"
    and q: "0 \<le> q" "pid \<in> p_id ` set (products s)"
  have base: "base_inv s" using inv by (simp add: inv_ok_def base_inv_def)
  have cut: "\<not> undercut pid w q s" using ok by (simp add: proper_def)
  have "base_inv (set_quantity pid w q s)" using base_set_quantity [OF base q, of w] cut by simp
  moreover have "covered (set_quantity pid w q s)"
    using ok by (intro covered_set_quantity [OF inv cut]) (simp add: proper_def)
  ultimately show ?thesis by (simp add: run inv_ok_def base_inv_def)
qed (use inv in simp)

lemma inv_edit_stock:
  assumes inv: "inv_ok s" and ok: "stored pid s \<or> held pid None s \<le> int n"
  shows "inv_ok (products_update (update_where (\<lambda>p. p_id p = pid) (\<lambda>p. p\<lparr>p_stock := int n\<rparr>)) s)" (is "inv_ok ?s")
proof -
  have "base_inv s" using inv by (simp add: inv_ok_def base_inv_def)
  from keeps_snd [OF base_edit_stock this, of pid n] have "base_inv ?s" by (simp add: updateManyA_def modifyA_def)
  moreover have "covered ?s"
  proof -
    have cov: "covered s" using inv by (simp add: inv_ok_def)
    have h: "held p v ?s = held p v s" "stored p ?s = stored p s" "stocks ?s = stocks s" "reservations ?s = reservations s"
      for p v by (simp_all add: held_def stored_def)
    show ?thesis
      using cov ok unfolding covered_def h by (auto simp: ball_update_where)
  qed
  ultimately show ?thesis by (simp add: inv_ok_def base_inv_def)
qed

lemma inv_exec_inv:
  assumes inv: "inv_ok s" and "proper x s"
  shows "inv_ok (snd (inv_exec x s))"
proof (cases x)
  case (Reserve pid q oid w ttl)
  show ?thesis
  proof (cases "reserve pid q oid w ttl s")
    case (Pair r s')
    show ?thesis
    proof (cases r)
      case (Inl e)
      with Pair have "s' = s"
        by (auto simp: reserve_def thenA_def bindA_def guardA_def returnA_def throwA_def split: if_splits dest: txA_rollback)
      with inv Pair Reserve show ?thesis by (simp add: thenA_return_snd)
    next
      case (Inr row)
      with Pair assms Reserve show ?thesis
        by (simp add: thenA_return_snd proper_def) (rule reserve_backed, auto)
    qed
  qed
next
  case (Confirm oid)
  from confirm_total [OF inv, of oid] Confirm show ?thesis by (auto simp: thenA_return_snd)
next
  case (ReleaseOrder oid)
  from releaseOrder_total [OF inv, of oid] ReleaseOrder show ?thesis by (auto simp: thenA_return_snd)
next
  case ReleaseExpired
  from releaseExpired_total [OF inv] ReleaseExpired show ?thesis by (auto simp: thenA_return_snd)
next
  case (Restock pid w q)
  with inv show ?thesis by (auto simp: txA_state split: prod.splits sum.splits intro: inv_restock)
next
  case (CreateWarehouse t m d)
  with inv show ?thesis by (simp add: thenA_return_snd keeps_snd [OF keeps_inv_warehouses(1)])
next
  case (UpdateWarehouse w m t d)
  with inv show ?thesis by (simp add: keeps_snd [OF keeps_inv_warehouses(2)])
next
  case (UpdateProductStock pid w m t q)
  with assms show ?thesis by (simp add: inv_update_stock)
next
  case (EditStock pid n)
  with assms show ?thesis by (simp add: proper_def updateManyA_def modifyA_def inv_edit_stock)
next
  case (Tick d)
  with inv show ?thesis by (simp add: modifyA_def inv_other)
qed

lemma stock_reach_inv: "stock_step\<^sup>*\<^sup>* s s' \<Longrightarrow> inv_ok s \<Longrightarrow> inv_ok s'"
  by (induction rule: rtranclp_induct) (auto elim!: stock_stepE intro: inv_exec_inv)

end
