(* ===== verification/Samples.thy ===== *)
theory Samples
  imports Schema
begin

text \<open>
  Concrete database contents the examples of the development share: one shop with a warehouse, two
  products (one stored in the warehouse, one not), a buyer, a merchant and an administrator.
\<close>

definition demo_shop :: shop_row where
  "demo_shop =
    \<lparr>sh_id = ''s1'', sh_name = ''Shop'', sh_slug = ''shop'', sh_status = SH_ACTIVE, sh_verified = True, sh_tenantId = None,
     sh_stripeAccountId = None, sh_stripeAccountStatus = None, sh_chargesEnabled = False,
     sh_payoutsEnabled = False, sh_detailsSubmitted = False, sh_stripeOnboardedAt = None,
     sh_kycNotes = None, sh_rejectionReason = None, sh_description = None,
     sh_legalName = None, sh_taxId = None, sh_country = None, sh_address = None, sh_payoutDetails = None\<rparr>"

definition demo_product :: "string \<Rightarrow> int \<Rightarrow> int \<Rightarrow> product_row" where
  "demo_product i price stock =
    \<lparr>p_id = i, p_shopId = ''s1'', p_categoryId = Some ''cat'', p_name = i, p_priceCents = price,
     p_stock = stock, p_reservedStock = 0, p_status = PR_ACTIVE, p_slug = i,
     p_description = None, p_imageUrl = None, p_sku = None, p_gtin = None, p_brand = None, p_moq = 1, p_currency = ''USD'', p_tenantId = None\<rparr>"

definition demo_warehouse :: warehouse_row where
  "demo_warehouse =
    \<lparr>w_id = ''w1'', w_tenantId = None, w_merchantId = ''s1'', w_name = ''Main'', w_code = None,
     w_isDefault = True, w_isActive = True\<rparr>"

definition demo_db :: rfq_db where
  "demo_db = empty_db
    \<lparr>clock := 1000, shops := [demo_shop],
     products := [demo_product ''p1'' 1000 5, demo_product ''p2'' 250 3],
     stocks := [\<lparr>ps_productId = ''p1'', ps_warehouseId = ''w1'', ps_quantity = 5, ps_reserved = 0\<rparr>],
     warehouses := [demo_warehouse]\<rparr>"

definition demo_buyer :: jwt_payload where
  "demo_buyer = \<lparr>sub = ''u1'', email = ''u1@x'', user_role = CUSTOMER, user_shopId = None, user_tenantId = None\<rparr>"

definition demo_merchant :: jwt_payload where
  "demo_merchant =
    \<lparr>sub = ''m1'', email = ''m1@x'', user_role = MERCHANT, user_shopId = Some ''s1'', user_tenantId = None\<rparr>"

definition demo_admin :: jwt_payload where
  "demo_admin = \<lparr>sub = ''a1'', email = ''a1@x'', user_role = ADMIN, user_shopId = None, user_tenantId = None\<rparr>"

named_theorems sample_defs \<open>definitions of the sample contents\<close>

declare demo_shop_def [sample_defs] demo_product_def [sample_defs] demo_warehouse_def [sample_defs]
  demo_db_def [sample_defs] demo_buyer_def [sample_defs] demo_merchant_def [sample_defs]
  demo_admin_def [sample_defs] empty_db_def [sample_defs]

end
