(* ===== verification/Stock_Claims.thy ===== *)
theory Stock_Claims
  imports Stock_Reach Samples
begin

text \<open>
  The properties of stock and reservations, each with a concrete instance.
\<close>

section \<open>A product in stock, and a hold on it\<close>

lemma demo_db_inv: "inv_ok demo_db"
  by (simp add: sample_defs inv_ok_def wf_inv_def stock_ok_def covered_def held_def stored_def inj_runs [simplified])

definition demo_held :: rfq_db where
  "demo_held = snd (reserve ''p1'' 2 ''o1'' (Some ''w1'') 30 demo_db)"

lemma demo_reserve: "reserve ''p1'' 2 ''o1'' (Some ''w1'') 30 demo_db =
    (Inr \<lparr>r_id = ''i'', r_productId = ''p1'', r_orderId = ''o1'', r_warehouseId = Some ''w1'',
      r_quantity = 2, r_status = RS_ACTIVE, r_expiresAt = 1801000\<rparr>, demo_held)"
  by (simp add: demo_held_def sample_defs reserve_def reserve_run_def act_defs step_defs getAvailable_def
      reserveStock_def or_else_def truthy_def Let_def sum_where_def update_where_def)

lemma demo_placed: "placed_ok ''p1'' (Some ''w1'') demo_db"
  by (simp add: placed_ok_def sample_defs or_else_def truthy_def)

lemma demo_held_inv: "inv_ok demo_held"
  by (rule reserve_backed [OF demo_db_inv demo_reserve demo_placed])

lemma demo_held_reservations: "reservations demo_held =
    [\<lparr>r_id = ''i'', r_productId = ''p1'', r_orderId = ''o1'', r_warehouseId = Some ''w1'',
      r_quantity = 2, r_status = RS_ACTIVE, r_expiresAt = 1801000\<rparr>]"
  by (simp add: demo_held_def sample_defs reserve_def reserve_run_def act_defs step_defs getAvailable_def
      reserveStock_def or_else_def truthy_def Let_def sum_where_def update_where_def)

lemma demo_held_stocks: "stocks demo_held =
    [\<lparr>ps_productId = ''p1'', ps_warehouseId = ''w1'', ps_quantity = 5, ps_reserved = 2\<rparr>]"
  by (simp add: demo_held_def sample_defs reserve_def reserve_run_def act_defs step_defs getAvailable_def
      reserveStock_def or_else_def truthy_def Let_def sum_where_def update_where_def)

lemma demo_held_core: "clock demo_held = 1000"
  by (simp add: demo_held_def sample_defs reserve_def reserve_run_def act_defs step_defs getAvailable_def
      reserveStock_def or_else_def truthy_def Let_def sum_where_def update_where_def)

lemma stored_demo_held: "stored ''p1'' demo_held"
  by (simp add: stored_def demo_held_stocks)

section \<open>Counters\<close>

text \<open>
  C1.  Whatever sequence of reservations, confirmations, releases, expiry runs, restocks, warehouse
  changes, new quantities set by the owner of a warehouse (\<open>UpdateProductStockHandler\<close>), edits of a
  product's stock and passing time is run, returning or throwing: no counter of a row or a product ever
  becomes negative, and a warehouse row holds more units than it has only at the places whose owner last
  set the quantity below the units held there (\<open>lowered_by\<close>).
\<close>

theorem stock_counters_within_bounds:
  assumes "base_inv s"
  shows "(\<forall>x \<in> set (stocks (run_all inv_exec ops s)). 0 \<le> ps_reserved x \<and> 0 \<le> ps_quantity x \<and>
      ((ps_productId x, ps_warehouseId x) \<notin> track_all inv_exec lowered_by ops s {} \<longrightarrow> ps_reserved x \<le> ps_quantity x)) \<and>
    (\<forall>p \<in> set (products (run_all inv_exec ops s)). 0 \<le> p_stock p \<and> 0 \<le> p_reservedStock p)"
  using stock.history_tracks [OF assms, of ops] by (simp add: base_but_def stock_ok_but_def)

theorem stock_counters_within_bounds_witness:
  "list_all (\<lambda>x. 0 \<le> ps_reserved x \<and> ps_reserved x \<le> ps_quantity x)
     (stocks (run_all inv_exec [Reserve ''p1'' 4 ''o1'' (Some ''w1'') 30, Confirm ''o1''] demo_db)) \<and>
   list_all (\<lambda>p. 0 \<le> p_stock p \<and> 0 \<le> p_reservedStock p)
     (products (run_all inv_exec [Reserve ''p1'' 4 ''o1'' (Some ''w1'') 30, Confirm ''o1''] demo_db))"
proof -
  let ?ops = "[Reserve ''p1'' 4 ''o1'' (Some ''w1'') 30, Confirm ''o1'']"
  have "base_inv demo_db"
    using demo_db_inv by (simp add: inv_ok_def base_inv_def)
  moreover have "track_all inv_exec lowered_by ?ops demo_db {} = {}" by simp
  ultimately show ?thesis
    using stock_counters_within_bounds [of demo_db ?ops] by (simp only: list_all_iff) blast
qed

text \<open>
  The exception is real: the owner of the demo's warehouse sets the quantity to 1 while 2 units are
  held, the row holds more than it has, and the payment of the order that holds them fails.
\<close>

definition demo_lowered :: rfq_db where
  "demo_lowered = snd (inv_exec (UpdateProductStock ''p1'' ''w1'' ''s1'' None 1) demo_held)"

lemma demo_held_found:
  "find_row (\<lambda>p. p_id p = ''p1'') (products demo_held) = Some ((demo_product ''p1'' 1000 5)\<lparr>p_reservedStock := 2\<rparr>)"
  "find_row (\<lambda>w. w_id w = ''w1'' \<and> w_merchantId w = ''s1'') (warehouses demo_held) = Some demo_warehouse"
  by (simp_all add: demo_held_def sample_defs reserve_def reserve_run_def act_defs step_defs getAvailable_def
      reserveStock_def or_else_def truthy_def Let_def sum_where_def update_where_def)

lemma demo_lowered_run:
  "UpdateProductStockHandler ''p1'' ''w1'' ''s1'' None 1 demo_held = (Inr (), demo_lowered)"
  "stocks demo_lowered = [\<lparr>ps_productId = ''p1'', ps_warehouseId = ''w1'', ps_quantity = 1, ps_reserved = 2\<rparr>]"
  "reservations demo_lowered = reservations demo_held"
  using demo_held_found demo_held_stocks
  by (simp_all add: demo_lowered_def UpdateProductStockHandler_def act_defs createA_def updateA_def demo_product_def
      demo_warehouse_def truthy_def)

theorem lowered_stock_stops_payment:
  "track_all inv_exec lowered_by [UpdateProductStock ''p1'' ''w1'' ''s1'' None 1] demo_held {} = {(''p1'', ''w1'')} \<and>
   stocks demo_lowered = [\<lparr>ps_productId = ''p1'', ps_warehouseId = ''w1'', ps_quantity = 1, ps_reserved = 2\<rparr>] \<and>
   confirm ''o1'' demo_lowered = (Inl (RawError ''stock_fail_p1''), demo_lowered)"
proof (intro conjI)
  have "undercut ''p1'' ''w1'' 1 demo_held" by (simp add: undercut_def demo_held_stocks)
  then show "track_all inv_exec lowered_by [UpdateProductStock ''p1'' ''w1'' ''s1'' None 1] demo_held {} = {(''p1'', ''w1'')}"
    by (simp add: demo_lowered_run)
  show "confirm ''o1'' demo_lowered = (Inl (RawError ''stock_fail_p1''), demo_lowered)"
    by (simp add: confirm_def confirm_run_def confirm_one_def commitReservedStock_def act_defs demo_lowered_run
        demo_held_reservations or_else_def truthy_def)
qed (rule demo_lowered_run)

section \<open>Payment turns holds into a decrease of stock\<close>

lemma open_after_close:
  "a \<noteq> RS_ACTIVE \<Longrightarrow>
   filter (open_of oid) (update_where (open_of oid) (\<lambda>x. x\<lparr>r_status := a\<rparr>) rs) = []"
  by (induction rs) auto

lemma confirm_nothing: "filter (open_of oid) (reservations s) = [] \<Longrightarrow> confirm oid s = (Inr 0, s)"
  by (simp add: confirm_def confirm_run_def act_defs)


lemma demo_held_reachable: "stock_step\<^sup>*\<^sup>* demo_db demo_held"
proof -
  have "stock_step demo_db (snd (inv_exec (Reserve ''p1'' 2 ''o1'' (Some ''w1'') 30) demo_db))"
    by (rule stock_step.run) (simp add: proper_def demo_placed)
  then show ?thesis by (simp add: thenA_return_snd demo_reserve)
qed


text \<open>
  Confirming an order twice is the same as confirming it once: the second confirmation returns 0
  and changes nothing.
\<close>

theorem confirm_twice:
  assumes "inv_ok s" and "confirm oid s = (Inr n, s')"
  shows "confirm oid s' = (Inr 0, s')"
proof -
  from confirm_total [OF assms(1), of oid] assms(2)
  have "reservations s' = update_where (open_of oid) (\<lambda>x. x\<lparr>r_status := RS_CONFIRMED\<rparr>) (reservations s)"
    by auto
  then show ?thesis by (intro confirm_nothing) (simp add: open_after_close)
qed

theorem confirm_twice_witness:
  "\<exists>s'. confirm ''o1'' demo_held = (Inr 1, s') \<and> confirm ''o1'' s' = (Inr 0, s')"
  using confirm_total [OF demo_held_inv, of "''o1''"] confirm_twice [OF demo_held_inv, of "''o1''" 1]
  by (auto simp: demo_held_reservations)

text \<open>
  Releasing an order in a reachable state returns, closes its holds and takes no unit of any
  product out of stock; a confirmation that comes after it finds nothing to take and leaves the state
  as it is.
\<close>

theorem release_takes_nothing:
  assumes "inv_ok s0" and "stock_step\<^sup>*\<^sup>* s0 s"
  shows "\<exists>s'. releaseOrder oid s = (Inr (count_where (open_of oid) (reservations s)), s') \<and>
    (\<forall>pid. units pid s' = units pid s) \<and> confirm oid s' = (Inr 0, s')"
proof -
  from releaseOrder_total [OF stock_reach_inv [OF assms(2,1)], of oid] obtain s' where
    s': "releaseOrder oid s = (Inr (count_where (open_of oid) (reservations s)), s')"
      "reservations s' = update_where (open_of oid) (\<lambda>x. x\<lparr>r_status := RS_RELEASED\<rparr>) (reservations s)"
      "\<forall>pid. units pid s' = units pid s"
    by blast
  then show ?thesis by (intro exI [of _ s']) (simp add: confirm_nothing open_after_close)
qed

theorem release_takes_nothing_witness:
  "\<exists>s'. releaseOrder ''o1'' demo_held = (Inr 1, s') \<and> (\<forall>pid. units pid s' = units pid demo_held) \<and>
    confirm ''o1'' s' = (Inr 0, s')"
  using release_takes_nothing [OF demo_db_inv demo_held_reachable, of "''o1''"]
  by (simp add: demo_held_reservations)

section \<open>Reservations\<close>

lemma fresh_sum_expire:
  "sum_where (\<lambda>r. r_productId r = pid \<and> r_status r = RS_ACTIVE \<and> c < r_expiresAt r) r_quantity
    (update_where (\<lambda>r. r_productId r = pid \<and> r_status r = RS_ACTIVE \<and> r_expiresAt r < c)
      (\<lambda>r. r\<lparr>r_status := RS_EXPIRED\<rparr>) rs) =
   sum_where (\<lambda>r. r_productId r = pid \<and> r_status r = RS_ACTIVE \<and> c < r_expiresAt r) r_quantity rs"
  by (induction rs) auto

lemma getAvailable_expire_stale:
  "getAvailable pid (expire_stale pid s) = (Inr av, expire_stale pid s) \<longleftrightarrow> getAvailable pid s = (Inr av, s)"
  by (simp add: getAvailable_ok expire_stale_def fresh_sum_expire)

lemma sum_reserved_update:
  assumes "wf_inv s" and "find_row (at_place pid wid) (stocks s) = Some x"
  shows "sum_where (\<lambda>r. ps_productId r = pid) ps_reserved
      (update_where (at_place pid wid) (\<lambda>r. r\<lparr>ps_reserved := ps_reserved r + q\<rparr>) (stocks s)) =
    sum_where (\<lambda>r. ps_productId r = pid) ps_reserved (stocks s) + q"
    "sum_where (\<lambda>r. ps_productId r = pid) ps_quantity
      (update_where (at_place pid wid) (\<lambda>r. r\<lparr>ps_reserved := ps_reserved r + q\<rparr>) (stocks s)) =
    sum_where (\<lambda>r. ps_productId r = pid) ps_quantity (stocks s)"
  using sum_where_update_key [of "\<lambda>r. (ps_productId r, ps_warehouseId r)" "stocks s" "(pid, wid)" x
      "\<lambda>r. ps_productId r = pid" ps_reserved "\<lambda>r. r\<lparr>ps_reserved := ps_reserved r + q\<rparr>"]
    sum_where_update_key [of "\<lambda>r. (ps_productId r, ps_warehouseId r)" "stocks s" "(pid, wid)" x
      "\<lambda>r. ps_productId r = pid" ps_quantity "\<lambda>r. r\<lparr>ps_reserved := ps_reserved r + q\<rparr>"]
    assms find_row_Some [OF assms(2)]
  by (simp_all add: wf_inv_def)

text \<open>
  A reservation that returns had enough available units, and lowers what \<open>getAvailable\<close> reports
  for the product by exactly the reserved quantity (for a hold with a positive lifetime, placed at a
  warehouse that stores the product or at the product itself).
\<close>

theorem reserve_lowers_availability:
  assumes inv: "inv_ok s" and place: "placed_ok pid w s" and ttl: "0 < ttl"
    and run: "reserve pid q oid w ttl s = (Inr r, s')"
  shows "\<exists>av av'. getAvailable pid s = (Inr av, s) \<and> getAvailable pid s' = (Inr av', s') \<and>
    q \<le> av_available av \<and> av_available av' = av_available av - q"
proof -
  let ?e = "expire_stale pid s"
  have q: "0 < q" and run': "reserve_run pid q oid w ttl s = (Inr r, s')"
    using reserve_step [OF run] by auto
  from run' obtain p av s2 where p: "find_row (\<lambda>p. p_id p = pid) (products s) = Some p"
    and av: "getAvailable pid s = (Inr av, s)" "q \<le> av_available av"
    and s2: "case or_else w None of None \<Rightarrow> s2 = ?e
      | Some wid \<Rightarrow> reserveStock pid q wid (p_stock p) ?e = (Inr (), s2)"
    and s': "s' = add_hold pid q (new_hold pid q oid w ttl s2) s2"
    by (elim reserve_run_okE) (simp add: getAvailable_expire_stale)
  have same: "stocks ?e = stocks s" "products ?e = products s" "clock ?e = clock s"
    by (simp_all add: expire_stale_def)
  have wf: "wf_inv s" and pos: "0 \<le> p_stock p"
    using inv find_row_Some [OF p] by (auto simp: inv_ok_def stock_ok_def)
  have wfe: "wf_inv ?e" using inv_expire_stale [OF inv, of pid] by (simp add: inv_ok_def)
  have p2: "find_row (\<lambda>p. p_id p = pid) (products s') = Some (p\<lparr>p_reservedStock := p_reservedStock p + q\<rparr>)"
    if "products s2 = products s"
    using p find_row_Some [OF p] by (simp add: s' that find_row_update_where)
  have "\<exists>av'. getAvailable pid s' = (Inr av', s') \<and> av_available av' = av_available av - q"
  proof (cases "or_else w None")
    case None
    with s2 have s2e: "s2 = ?e" by simp
    from place None have ns: "\<not> stored pid s" by (simp add: placed_ok_def)
    let ?n = "sum_where (\<lambda>r. r_productId r = pid \<and> r_status r = RS_ACTIVE \<and> clock s < r_expiresAt r) r_quantity (reservations s)"
    have "getAvailable pid s' = (Inr \<lparr>av_stock = p_stock p, av_reserved = ?n + q, av_available = max 0 (p_stock p - (?n + q))\<rparr>, s')"
      using ns p2 [unfolded s2e, OF same(2)] ttl
      by (simp add: getAvailable_ok s' s2e same stored_def new_hold_def add_hold_def expire_stale_def fresh_sum_expire)
    moreover from av ns p have "av_available av = max 0 (p_stock p - ?n)" by (auto simp: getAvailable_ok stored_def)
    ultimately show ?thesis using av(2) q by auto
  next
    case (Some wid)
    show ?thesis
    proof (cases "find_row (at_place pid wid) (stocks s)")
      case row: (Some x)
      let ?Q = "sum_where (\<lambda>r. ps_productId r = pid) ps_quantity (stocks s)"
        and ?R = "sum_where (\<lambda>r. ps_productId r = pid) ps_reserved (stocks s)"
      from s2 Some row have s2e: "s2 = stocks_update (update_where (at_place pid wid) (\<lambda>r. r\<lparr>ps_reserved := ps_reserved r + q\<rparr>)) ?e"
        by (simp add: reserveStock_ok same)
      have st: "\<exists>r \<in> set (stocks s). ps_productId r = pid" using find_row_Some [OF row] by auto
      then have st': "\<exists>r \<in> set (update_where (at_place pid wid) (\<lambda>r. r\<lparr>ps_reserved := ps_reserved r + q\<rparr>) (stocks s)). ps_productId r = pid"
        by (auto simp: bex_update_where)
      have "getAvailable pid s' = (Inr \<lparr>av_stock = ?Q, av_reserved = ?R + q, av_available = max 0 (?Q - (?R + q))\<rparr>, s')"
        using p2 st' by (simp add: getAvailable_ok s' s2e same sum_reserved_update [OF wf row])
      moreover from av st p have "av_available av = max 0 (?Q - ?R)" by (auto simp: getAvailable_ok)
      ultimately show ?thesis using av(2) q by auto
    next
      case None
      with place Some have ns: "\<not> stored pid s"
        and noact: "\<forall>r \<in> set (reservations s). r_productId r = pid \<and> r_status r = RS_ACTIVE \<longrightarrow> r_expiresAt r < clock s"
        by (auto simp: placed_ok_def find_row_None)
      from s2 Some None have s2e: "s2 = stocks_update (\<lambda>t. t @ [\<lparr>ps_productId = pid, ps_warehouseId = wid,
          ps_quantity = p_stock p, ps_reserved = q\<rparr>]) ?e"
        by (simp add: reserveStock_ok same)
      have zero: "sum_where (\<lambda>r. ps_productId r = pid) f (stocks s) = 0" for f
        using ns by (intro sum_where_none) (auto simp: stored_def)
      have "sum_where (\<lambda>r. r_productId r = pid \<and> r_status r = RS_ACTIVE \<and> clock s < r_expiresAt r) r_quantity (reservations s) = 0"
        using noact by (intro sum_where_none) force
      with av ns p pos have "av_available av = p_stock p" by (auto simp: getAvailable_ok stored_def)
      moreover have "getAvailable pid s' = (Inr \<lparr>av_stock = p_stock p, av_reserved = q, av_available = max 0 (p_stock p - q)\<rparr>, s')"
        using p2 by (simp add: getAvailable_ok s' s2e same zero)
      ultimately show ?thesis using av(2) by auto
    qed
  qed
  with av show ?thesis by blast
qed

theorem reserve_lowers_availability_witness:
  "\<exists>av av'. getAvailable ''p1'' demo_db = (Inr av, demo_db) \<and> getAvailable ''p1'' demo_held = (Inr av', demo_held) \<and>
    2 \<le> av_available av \<and> av_available av' = av_available av - 2"
  by (rule reserve_lowers_availability [OF demo_db_inv demo_placed _ demo_reserve]) simp

text \<open>
  A reservation is refused, and nothing is written, when the quantity is not positive, when the
  product does not exist, and when fewer units are available than are asked for.
\<close>

theorem reserve_refused:
  assumes "q \<le> 0 \<or> find_row (\<lambda>p. p_id p = pid) (products s) = None \<or>
    (\<exists>av. getAvailable pid s = (Inr av, s) \<and> av_available av < q)"
  shows "\<exists>e. reserve pid q oid w ttl s = (Inl e, s)"
proof (cases "reserve pid q oid w ttl s")
  case (Pair r s')
  show ?thesis
  proof (cases r)
    case (Inl e)
    with Pair have "s' = s"
      by (auto simp: reserve_def thenA_def bindA_def guardA_def returnA_def throwA_def split: if_splits dest: txA_rollback)
    with Pair Inl show ?thesis by blast
  next
    case (Inr row)
    with Pair have q: "0 < q" and run: "reserve_run pid q oid w ttl s = (Inr row, s')"
      using reserve_step by blast+
    from run obtain p av where "find_row (\<lambda>p. p_id p = pid) (products s) = Some p"
      "getAvailable pid s = (Inr av, s)" "q \<le> av_available av"
      by (elim reserve_run_okE) (simp add: getAvailable_expire_stale)
    with assms q show ?thesis by auto
  qed
qed

theorem reserve_refused_witness: "\<exists>e. reserve ''p1'' 6 ''o1'' (Some ''w1'') 30 demo_db = (Inl e, demo_db)"
proof (rule reserve_refused)
  have "getAvailable ''p1'' demo_db = (Inr \<lparr>av_stock = 5, av_reserved = 0, av_available = 5\<rparr>, demo_db)"
    by (simp add: getAvailable_ok sample_defs)
  then show "(6::int) \<le> 0 \<or> find_row (\<lambda>p. p_id p = ''p1'') (products demo_db) = None \<or>
      (\<exists>av. getAvailable ''p1'' demo_db = (Inr av, demo_db) \<and> av_available av < 6)"
    by fastforce
qed

section \<open>Stale holds\<close>

lemma sum_where_stale:
  assumes "h \<in> set xs" and "P h" and "E h" and "\<forall>x \<in> set xs. 0 < r_quantity x"
    and "\<And>x. \<not> P (x\<lparr>r_status := RS_EXPIRED\<rparr>)"
  shows "sum_where P r_quantity (update_where E (\<lambda>r. r\<lparr>r_status := RS_EXPIRED\<rparr>) xs) + r_quantity h \<le>
    sum_where P r_quantity xs"
  using assms(1,4)
proof (induction xs)
  case Nil
  then show ?case by simp
next
  case (Cons x xs)
  have le: "sum_where P r_quantity (update_where E (\<lambda>r. r\<lparr>r_status := RS_EXPIRED\<rparr>) xs) \<le> sum_where P r_quantity xs"
    using Cons.prems(2) assms(5) by (induction xs) (auto simp: add_increasing)
  show ?case
  proof (cases "h = x")
    case True
    with assms(2,3,5) le show ?thesis by simp
  next
    case False
    with Cons have "sum_where P r_quantity (update_where E (\<lambda>r. r\<lparr>r_status := RS_EXPIRED\<rparr>) xs) + r_quantity h \<le>
      sum_where P r_quantity xs" by simp
    with Cons.prems(2) assms(5) show ?thesis by auto
  qed
qed

text \<open>
  A reservation at a warehouse expires the stale holds of the product by their status alone: it
  does not lower the held units of the warehouse row.  The units of a stale hold stay counted as held
  although no open hold has them any more.
\<close>

theorem stale_hold_keeps_units:
  assumes inv: "inv_ok s" and run: "reserve pid q oid (Some wid) ttl s = (Inr r, s')"
    and h: "h \<in> set (reservations s)" "r_productId h = pid" "r_warehouseId h = Some wid"
      "r_status h = RS_ACTIVE" "r_expiresAt h < clock s"
  shows "h\<lparr>r_status := RS_EXPIRED\<rparr> \<in> set (reservations s') \<and>
    (\<exists>x \<in> set (stocks s'). at_place pid wid x \<and> held pid (Some wid) s' + r_quantity h \<le> ps_reserved x)"
proof -
  let ?e = "expire_stale pid s"
  have wf: "wf_inv s" and cov: "covered s" using inv by (auto simp: inv_ok_def)
  have wid: "or_else (Some wid) None = Some wid" using wf_warehouse [OF wf h(1)] h(3) by simp
  obtain x where x: "x \<in> set (stocks s)" "at_place pid wid x"
    using cov h unfolding covered_def by fastforce
  have row: "find_row (at_place pid wid) (stocks s) = Some x"
    using find_row_at_place [OF wf _ x] x by (cases "find_row (at_place pid wid) (stocks s)") (auto simp: find_row_None)
  have "\<exists>k s2. reserveStock pid q wid k ?e = (Inr (), s2) \<and>
      s' = add_hold pid q (new_hold pid q oid (Some wid) ttl s2) s2"
    using reserve_step(2) [OF run] by (elim reserve_run_okE) (auto simp: wid)
  then obtain k s2 where s2: "reserveStock pid q wid k ?e = (Inr (), s2)"
    and s': "s' = add_hold pid q (new_hold pid q oid (Some wid) ttl s2) s2" by blast
  have same: "stocks ?e = stocks s" by (simp add: expire_stale_def)
  with s2 wid row have s2e: "s2 = stocks_update (update_where (at_place pid wid) (\<lambda>r. r\<lparr>ps_reserved := ps_reserved r + q\<rparr>)) ?e"
    by (simp add: reserveStock_ok)
  have "held pid (Some wid) ?e + r_quantity h \<le> held pid (Some wid) s"
    unfolding held_def expire_stale_def
    using sum_where_stale [OF h(1), of "\<lambda>r. r_productId r = pid \<and> r_warehouseId r = Some wid \<and> r_status r = RS_ACTIVE"
        "\<lambda>r. r_productId r = pid \<and> r_status r = RS_ACTIVE \<and> r_expiresAt r < clock s"] h wf_quantity [OF wf]
    by simp
  moreover have "held pid (Some wid) s \<le> ps_reserved x" using cov x unfolding covered_def by blast
  moreover have "held pid (Some wid) s' = held pid (Some wid) ?e + q"
    unfolding s' held_add_hold wid by (simp add: s2e held_def)
  ultimately have "held pid (Some wid) s' + r_quantity h \<le> ps_reserved (x\<lparr>ps_reserved := ps_reserved x + q\<rparr>)"
    by simp
  moreover have "x\<lparr>ps_reserved := ps_reserved x + q\<rparr> \<in> set (stocks s')"
    using x by (auto simp: s' s2e same set_update_where image_iff)
  moreover have "h\<lparr>r_status := RS_EXPIRED\<rparr> \<in> set (reservations s')"
    using h by (auto simp: s' s2e expire_stale_def set_update_where image_iff)
  ultimately show ?thesis using x(2) by (metis stock_row.select_convs(1,2) stock_row.surjective stock_row.update_convs(4))
qed

definition demo_late :: rfq_db where
  "demo_late = demo_held\<lparr>clock := 2000000\<rparr>"

lemma demo_late_inv: "inv_ok demo_late"
  using demo_held_inv inv_other(1) [of "\<lambda>_. 2000000" demo_held] by (simp add: demo_late_def)

lemma demo_late_reserve: "\<exists>r s'. reserve ''p1'' 1 ''o2'' (Some ''w1'') 30 demo_late = (Inr r, s')"
  by (simp add: demo_late_def demo_held_def sample_defs reserve_def reserve_run_def act_defs step_defs getAvailable_def
      reserveStock_def or_else_def truthy_def Let_def sum_where_def update_where_def)

theorem stale_hold_keeps_units_witness:
  "\<exists>r s' x. reserve ''p1'' 1 ''o2'' (Some ''w1'') 30 demo_late = (Inr r, s') \<and> x \<in> set (stocks s') \<and>
    at_place ''p1'' ''w1'' x \<and> held ''p1'' (Some ''w1'') s' + 2 \<le> ps_reserved x"
proof -
  from demo_late_reserve obtain r s' where run: "reserve ''p1'' 1 ''o2'' (Some ''w1'') 30 demo_late = (Inr r, s')"
    by blast
  have "hd (reservations demo_late) \<in> set (reservations demo_late)" by (simp add: demo_late_def demo_held_reservations)
  from stale_hold_keeps_units [OF demo_late_inv run this] run show ?thesis
    by (auto simp: demo_late_def demo_held_reservations)
qed

end
