(* ===== verification/Tax.thy ===== *)
theory Tax
  imports Schema "HOL-Library.List_Lexorder"
begin

text \<open>
  Tax per line: \<open>tax/tax.service.ts\<close> (the command handlers only forward to it).  A rate is a
  \<open>Decimal(5, 4)\<close>, kept as ten-thousandths; \<open>Number(rate)\<close> is the nearest double, the product with
  the subtotal is rounded to a double again, and \<open>Math.round\<close> gives the cents.
\<close>

section \<open>Rates\<close>

record new_rate =
  nr_name :: string
  nr_code :: "string option"
  nr_rate10000 :: int
  nr_country :: string
  nr_isDefault :: "bool option"

text \<open>\<open>(country || 'RU').trim().toUpperCase()\<close>.\<close>

definition country_norm :: "string \<Rightarrow> string" where
  "country_norm c = js_upper (js_trim (if c = [] then ''RU'' else c))"

definition createRate :: "string option \<Rightarrow> new_rate \<Rightarrow> ('z ord_db_scheme, tax_rate_row) act" where
  "createRate tenantId data =
    thenA (guardA (js_trim (nr_name data) \<noteq> []) (BadRequest ''name''))
    (thenA (guardA (\<not> (nr_rate10000 data < 0 \<or> 10000 < nr_rate10000 data)) (BadRequest ''rate''))
     (let country = country_norm (nr_country data) in
      txA
       (thenA (whenA (nr_isDefault data = Some True)
                (updateManyA tax_rates_update
                  (\<lambda>t. tr_country t = country \<and> tr_isDefault t \<and>
                    tr_tenantId t = (if truthy tenantId then tenantId else None))
                  (\<lambda>t. t\<lparr>tr_isDefault := False\<rparr>)))
        (bindA newIdA (\<lambda>i.
         let row = \<lparr>tr_id = i, tr_tenantId = tenantId, tr_name = js_trim (nr_name data),
                    tr_code = or_else (map_option js_trim (nr_code data)) None,
                    tr_rate10000 = nr_rate10000 data, tr_country = country,
                    tr_isDefault = (case nr_isDefault data of None \<Rightarrow> False | Some b \<Rightarrow> b),
                    tr_isActive = True\<rparr> in
         thenA (createA tax_rates_update row) (returnA row))))))"

text \<open>Which rates a tenant sees: its own and those of the platform; all, when no tenant is known.\<close>

definition visible_rate :: "string option \<Rightarrow> tax_rate_row \<Rightarrow> bool" where
  "visible_rate tenantId t \<longleftrightarrow>
    (truthy tenantId \<longrightarrow> tr_tenantId t = tenantId \<or> tr_tenantId t = None)"

fun insert_by :: "('r \<Rightarrow> 'r \<Rightarrow> bool) \<Rightarrow> 'r \<Rightarrow> 'r list \<Rightarrow> 'r list" where
  "insert_by before x [] = [x]"
| "insert_by before x (y # ys) = (if before y x then y # insert_by before x ys else x # y # ys)"

text \<open>A stable sort by the order of an \<open>orderBy\<close>.\<close>

fun sort_by :: "('r \<Rightarrow> 'r \<Rightarrow> bool) \<Rightarrow> 'r list \<Rightarrow> 'r list" where
  "sort_by before [] = []"
| "sort_by before (x # xs) = insert_by before x (sort_by before xs)"

text \<open>\<open>orderBy: [{ country: 'asc' }, { rate: 'desc' }]\<close>.\<close>

definition rate_before :: "tax_rate_row \<Rightarrow> tax_rate_row \<Rightarrow> bool" where
  "rate_before a b \<longleftrightarrow>
    tr_country a < tr_country b \<or> tr_country a = tr_country b \<and> tr_rate10000 b < tr_rate10000 a"

definition listRates :: "string option \<Rightarrow> 'z ord_db_scheme \<Rightarrow> tax_rate_row list" where
  "listRates tenantId s =
    sort_by rate_before (filter (\<lambda>t. tr_isActive t \<and> visible_rate tenantId t) (tax_rates s))"

section \<open>calculate\<close>

record tax_input =
  ti_productId :: string
  ti_quantity :: int
  ti_priceCents :: int

record tax_line =
  tl_productId :: string
  tl_quantity :: int
  tl_priceCents :: int
  tl_subtotalCents :: int
  tl_taxRateId :: "string option"
  tl_rate :: dbl
  tl_taxName :: "string option"
  tl_taxCents :: int
  tl_totalCents :: int

record tax_calculation =
  tc_items :: "tax_line list"
  tc_subtotalCents :: int
  tc_taxCents :: int
  tc_totalCents :: int

text \<open>
  \<open>findFirst\<close> with \<open>orderBy: { tenantId: 'desc' }\<close>.  PostgreSQL puts nulls first in a descending
  order, so a platform rate (no tenant) comes before a rate of the tenant.
\<close>

definition first_tenant_desc :: "tax_rate_row list \<Rightarrow> tax_rate_row option" where
  "first_tenant_desc rows =
    (case find_row (\<lambda>t. tr_tenantId t = None) rows of
      Some t \<Rightarrow> Some t
    | None \<Rightarrow> find_row (\<lambda>t. \<forall>u \<in> set rows. \<not> the (tr_tenantId t) < the (tr_tenantId u)) rows)"

definition country_default :: "string \<Rightarrow> tax_rate_row \<Rightarrow> bool" where
  "country_default country t \<longleftrightarrow> tr_country t = country \<and> tr_isDefault t \<and> tr_isActive t"

definition defaultTax :: "string option \<Rightarrow> string \<Rightarrow> 'z ord_db_scheme \<Rightarrow> tax_rate_row option" where
  "defaultTax tenantId country s =
    first_tenant_desc (filter (\<lambda>t. country_default country t \<and>
      (if truthy tenantId then tr_tenantId t = tenantId \<or> tr_tenantId t = None else tr_tenantId t = None))
      (tax_rates s))"

definition fallbackDefault :: "string option \<Rightarrow> string \<Rightarrow> 'z ord_db_scheme \<Rightarrow> tax_rate_row option" where
  "fallbackDefault tenantId country s =
    (case defaultTax tenantId country s of
      Some t \<Rightarrow> Some t
    | None \<Rightarrow> find_row (country_default country) (tax_rates s))"

text \<open>The rate attached to a product, unless it is switched off.\<close>

definition productRate :: "string \<Rightarrow> 'z ord_db_scheme \<Rightarrow> tax_rate_row option" where
  "productRate productId s =
    (case find_row (\<lambda>x. pt_productId x = productId) (product_taxes s) of
      None \<Rightarrow> None
    | Some x \<Rightarrow>
        (case find_row (\<lambda>t. tr_id t = pt_taxRateId x) (tax_rates s) of
          None \<Rightarrow> None
        | Some t \<Rightarrow> if tr_isActive t then Some t else None))"

definition rate_number :: "tax_rate_row option \<Rightarrow> dbl" where
  "rate_number t = (case t of None \<Rightarrow> (0, 0) | Some r \<Rightarrow> fl_frac (tr_rate10000 r) 10000)"

text \<open>\<open>Math.round(subtotal * rate)\<close>.\<close>

definition line_tax :: "int \<Rightarrow> dbl \<Rightarrow> int" where
  "line_tax subtotal rate = js_round (fl_mul (dbl_of_int subtotal) rate)"

definition calculate_line :: "tax_rate_row option \<Rightarrow> tax_input \<Rightarrow> 'z ord_db_scheme \<Rightarrow> tax_line" where
  "calculate_line fallback item s =
    (let taxRate = (case productRate (ti_productId item) s of Some t \<Rightarrow> Some t | None \<Rightarrow> fallback);
         rate = rate_number taxRate;
         subtotal = max 0 (ti_priceCents item) * max 0 (ti_quantity item);
         taxCents = line_tax subtotal rate
     in \<lparr>tl_productId = ti_productId item, tl_quantity = ti_quantity item,
         tl_priceCents = ti_priceCents item, tl_subtotalCents = subtotal,
         tl_taxRateId = or_else (map_option tr_id taxRate) None, tl_rate = rate,
         tl_taxName = or_else (map_option tr_name taxRate) None, tl_taxCents = taxCents,
         tl_totalCents = subtotal + taxCents\<rparr>)"

definition calculate ::
  "string option \<Rightarrow> tax_input list \<Rightarrow> string \<Rightarrow> 'z ord_db_scheme \<Rightarrow> tax_calculation" where
  "calculate tenantId items country s =
    (let fallback = fallbackDefault tenantId (country_norm country) s;
         result = map (\<lambda>item. calculate_line fallback item s) items;
         subtotalCents = foldl (\<lambda>a i. a + tl_subtotalCents i) 0 result;
         taxCents = foldl (\<lambda>a i. a + tl_taxCents i) 0 result
     in \<lparr>tc_items = result, tc_subtotalCents = subtotalCents, tc_taxCents = taxCents,
         tc_totalCents = subtotalCents + taxCents\<rparr>)"

end
