(* ===== verification/Tax_Claims.thy ===== *)
theory Tax_Claims
  imports Tax Samples
begin

text \<open>
  The properties of the tax calculation: how far two roundings to doubles can be from the exact tax,
  what the lines add up to, and which default rate is taken.
\<close>

section \<open>The error of a quotient and of a product\<close>

definition dval :: "dbl \<Rightarrow> real" where
  "dval x = real_of_int (fst x) / 2 ^ snd x"

lemma fl_frac_error:
  assumes n: "0 \<le> n" and d: "0 < d" and small: "n < 2 ^ 52 * d"
  shows "\<bar>dval (fl_frac n d) - real_of_int n / real_of_int d\<bar> \<le> real_of_int n / real_of_int d / 2 ^ 53"
proof (cases "n = 0")
  case True
  then show ?thesis by (simp add: fl_frac_def dval_def)
next
  case False
  with n have n0: "0 < n" by simp
  from fl_pos_scale [OF n0 d small] obtain k where
    fl: "fl_pos n d = (round_even (n * 2 ^ k) d, k)" and low: "2 ^ 52 * d \<le> n * 2 ^ k" by metis
  define m x where "m = real_of_int (round_even (n * 2 ^ k) d)" and "x = real_of_int n / real_of_int d"
  have d': "0 < real_of_int d" using d by simp
  have b: "2 * (m * d) \<le> 2 * (real_of_int n * 2 ^ k) + d" "2 * (real_of_int n * 2 ^ k) - d \<le> 2 * (m * d)"
    using round_even_bound [OF d, of "n * 2 ^ k"] unfolding m_def
    by (metis (mono_tags) of_int_add of_int_diff of_int_le_iff of_int_mult of_int_numeral of_int_power)+
  have near: "\<bar>m - x * 2 ^ k\<bar> \<le> 1 / 2"
  proof (rule abs_leI)
    show "m - x * 2 ^ k \<le> 1 / 2" using b(1) d' by (simp add: x_def field_simps)
    show "- (m - x * 2 ^ k) \<le> 1 / 2" using b(2) d' by (simp add: x_def field_simps)
  qed
  have "real_of_int (2 ^ 52 * d) \<le> real_of_int (n * 2 ^ k)" using low by (simp only: of_int_le_iff)
  then have big: "2 ^ 52 \<le> x * 2 ^ k" using d' by (simp add: x_def field_simps)
  have "\<bar>m / 2 ^ k - x\<bar> = \<bar>m - x * 2 ^ k\<bar> / 2 ^ k"
    by (simp add: abs_div_pos [symmetric] field_simps)
  also have "\<dots> \<le> (1 / 2) / 2 ^ k" using near by (intro divide_right_mono) auto
  also have "\<dots> \<le> x / 2 ^ 53" using big by (simp add: field_simps)
  finally show ?thesis using n0 by (simp add: fl_frac_def fl dval_def m_def x_def)
qed

lemma js_round_near: "\<bar>real_of_int (js_round x) - dval x\<bar> \<le> 1 / 2"
proof -
  obtain m k where x: "x = (m, k)" by (cases x)
  define q where "q = js_round x"
  have p: "(0::int) < 2 * 2 ^ k" by simp
  have "q * (2 * 2 ^ k) \<le> 2 * m + 2 ^ k" "2 * m + 2 ^ k < (q + 1) * (2 * 2 ^ k)"
    unfolding q_def js_round_def x fst_conv snd_conv
    using div_mult_mod_eq [of "2 * m + 2 ^ k" "2 * 2 ^ k"] pos_mod_bound [OF p, of "2 * m + 2 ^ k"]
      pos_mod_sign [OF p, of "2 * m + 2 ^ k"] by (simp_all only: distrib_right mult_1)
  then have "real_of_int (q * (2 * 2 ^ k)) \<le> real_of_int (2 * m + 2 ^ k)"
      "real_of_int (2 * m + 2 ^ k) \<le> real_of_int ((q + 1) * (2 * 2 ^ k))"
    by (simp_all only: of_int_le_iff less_imp_le)
  then have "real_of_int q - real_of_int m / 2 ^ k \<le> 1 / 2" "real_of_int m / 2 ^ k - real_of_int q \<le> 1 / 2"
    by (simp_all add: field_simps)
  then have "\<bar>real_of_int q - real_of_int m / 2 ^ k\<bar> \<le> 1 / 2" by linarith
  then show ?thesis by (simp add: q_def dval_def x)
qed

text \<open>A tax of at most the whole price is the nearest whole cent, up to the direction of a tie.\<close>

lemma line_tax_nearest:
  assumes r: "0 \<le> r" "r \<le> 10000" and n: "0 \<le> n" "n < 2 ^ 31"
  shows "\<bar>10000 * line_tax n (fl_frac r 10000) - n * r\<bar> \<le> 5000"
proof -
  define R N x where "R = dval (fl_frac r 10000)" and "N = real_of_int n" and "x = real_of_int r / 10000"
  obtain m k where mk: "fl_frac r 10000 = (m, k)" by (cases "fl_frac r 10000")
  have R: "R = real_of_int m / 2 ^ k" by (simp add: R_def mk dval_def)
  have x: "0 \<le> x" "x \<le> 1" using r by (simp_all add: x_def)
  have N: "0 \<le> N" "N \<le> 2 ^ 31" using n by (simp_all add: N_def)
  have e1: "\<bar>R - x\<bar> \<le> x / 2 ^ 53"
    using fl_frac_error [of r 10000] r by (simp add: R_def x_def)
  then have "R - x \<le> x / 2 ^ 53" "x - R \<le> x / 2 ^ 53" by linarith+
  then have R2: "0 \<le> R" "R \<le> 2" using x by simp_all
  have m: "0 \<le> m" using R2(1) unfolding R
    by (metis divide_neg_pos not_le of_int_less_0_iff zero_less_numeral zero_less_power)
  have NR: "N * R \<le> 2 ^ 31 * 2" using N R2 by (intro mult_mono) auto
  have "n * m < 2 ^ 52 * 2 ^ k"
  proof -
    have "N * R < 2 ^ 52" using NR by simp
    then have "N * R * 2 ^ k < 2 ^ 52 * 2 ^ k" by (rule mult_strict_right_mono) simp
    then have "real_of_int (n * m) < real_of_int (2 ^ 52 * 2 ^ k)" by (simp add: R N_def)
    then show ?thesis by (simp only: of_int_less_iff)
  qed
  then have "\<bar>dval (fl_frac (n * m) (2 ^ k)) - N * R\<bar> \<le> N * R / 2 ^ 53"
    using fl_frac_error [of "n * m" "2 ^ k"] n m by (simp add: N_def R)
  moreover have "N * R / 2 ^ 53 \<le> 1 / 1000000" using NR by simp
  moreover have "\<bar>N * R - N * x\<bar> \<le> 1 / 1000000"
  proof -
    have "\<bar>N * R - N * x\<bar> = N * \<bar>R - x\<bar>" using N by (simp add: abs_mult right_diff_distrib [symmetric])
    also have "\<dots> \<le> 2 ^ 31 * (1 / 2 ^ 53)" using e1 x N by (intro mult_mono) (auto intro: order_trans)
    finally show ?thesis by simp
  qed
  moreover have "\<bar>real_of_int (line_tax n (fl_frac r 10000)) - dval (fl_frac (n * m) (2 ^ k))\<bar> \<le> 1 / 2"
    using js_round_near [of "fl_frac (n * m) (2 ^ k)"] by (simp add: line_tax_def fl_mul_def dbl_of_int_def mk)
  ultimately have near: "\<bar>real_of_int (line_tax n (fl_frac r 10000)) - N * x\<bar> \<le> 1 / 2 + 1 / 100000" by linarith
  define T where "T = real_of_int (line_tax n (fl_frac r 10000))"
  have nr: "N * x = real_of_int (n * r) / 10000" by (simp add: N_def x_def)
  from near have "\<bar>T - real_of_int (n * r) / 10000\<bar> \<le> 1 / 2 + 1 / 100000" by (simp only: nr T_def)
  then have "10000 * T - real_of_int (n * r) < 5001" "real_of_int (n * r) - 10000 * T < 5001"
    by linarith+
  then have "real_of_int (10000 * line_tax n (fl_frac r 10000) - n * r) < real_of_int 5001"
      "real_of_int (n * r - 10000 * line_tax n (fl_frac r 10000)) < real_of_int 5001"
    by (simp_all add: T_def)
  then show ?thesis unfolding of_int_less_iff by linarith
qed

section \<open>calculate\<close>

text \<open>The rate of a line in ten-thousandths: that of the product, else the default, else zero.\<close>

definition rate_in_effect :: "string option \<Rightarrow> string \<Rightarrow> string \<Rightarrow> 'z ord_db_scheme \<Rightarrow> int" where
  "rate_in_effect tenantId country productId s =
    (case productRate productId s of
      Some t \<Rightarrow> tr_rate10000 t
    | None \<Rightarrow>
        (case fallbackDefault tenantId (country_norm country) s of
          Some t \<Rightarrow> tr_rate10000 t
        | None \<Rightarrow> 0))"

lemma productRate_row: "productRate pid s = Some t \<Longrightarrow> t \<in> set (tax_rates s)"
  by (auto simp: productRate_def dest!: find_row_Some split: option.splits if_splits)

lemma first_tenant_desc_row: "first_tenant_desc rows = Some t \<Longrightarrow> t \<in> set rows"
  by (auto simp: first_tenant_desc_def dest!: find_row_Some split: option.splits)

lemma fallbackDefault_row: "fallbackDefault ten c s = Some t \<Longrightarrow> t \<in> set (tax_rates s)"
  by (auto simp: fallbackDefault_def defaultTax_def dest!: find_row_Some first_tenant_desc_row split: option.splits)

lemma rate_in_effect_bounds:
  "\<forall>t \<in> set (tax_rates s). 0 \<le> tr_rate10000 t \<and> tr_rate10000 t \<le> 10000 \<Longrightarrow>
   0 \<le> rate_in_effect ten c pid s \<and> rate_in_effect ten c pid s \<le> 10000"
  by (auto simp: rate_in_effect_def dest!: productRate_row fallbackDefault_row split: option.splits)

lemma calculate_line_tax:
  "tl_taxCents (calculate_line (fallbackDefault ten (country_norm c) s) item s) =
   line_tax (max 0 (ti_priceCents item) * max 0 (ti_quantity item)) (fl_frac (rate_in_effect ten c (ti_productId item) s) 10000)"
  by (auto simp: calculate_line_def Let_def rate_in_effect_def rate_number_def fl_frac_def split: option.splits)

lemma calculate_simps:
  "tc_items (calculate ten items c s) = map (\<lambda>i. calculate_line (fallbackDefault ten (country_norm c) s) i s) items"
  "tc_subtotalCents (calculate ten items c s) = sum_list (map tl_subtotalCents (tc_items (calculate ten items c s)))"
  "tc_taxCents (calculate ten items c s) = sum_list (map tl_taxCents (tc_items (calculate ten items c s)))"
  "tc_totalCents (calculate ten items c s) = tc_subtotalCents (calculate ten items c s) + tc_taxCents (calculate ten items c s)"
proof -
  have f: "foldl (\<lambda>a i. a + h i) (b::int) xs = b + sum_list (map h xs)" for h b and xs :: "tax_line list"
    by (induction xs arbitrary: b) auto
  show "tc_items (calculate ten items c s) = map (\<lambda>i. calculate_line (fallbackDefault ten (country_norm c) s) i s) items"
    "tc_subtotalCents (calculate ten items c s) = sum_list (map tl_subtotalCents (tc_items (calculate ten items c s)))"
    "tc_taxCents (calculate ten items c s) = sum_list (map tl_taxCents (tc_items (calculate ten items c s)))"
    "tc_totalCents (calculate ten items c s) = tc_subtotalCents (calculate ten items c s) + tc_taxCents (calculate ten items c s)"
    by (simp_all add: calculate_def Let_def f)
qed

lemma sum_list_between:
  "(\<And>x. x \<in> set xs \<Longrightarrow> 0 \<le> f x \<and> f x \<le> g x) \<Longrightarrow> 0 \<le> sum_list (map f xs) \<and> sum_list (map f xs) \<le> sum_list (map (g :: 'x \<Rightarrow> int) xs)"
  by (induction xs) (auto, fastforce+)

text \<open>
  C7.  With rates between 0 and 1 and line subtotals of 32 bits, the tax of every line is the nearest
  whole cent of subtotal times rate (the two roundings to doubles can only decide a tie the other way),
  the tax is the sum over the lines and lies between zero and the subtotal, and the total is subtotal
  plus tax.
\<close>

theorem calculate_nearest_cent:
  assumes rates: "\<forall>t \<in> set (tax_rates s). 0 \<le> tr_rate10000 t \<and> tr_rate10000 t \<le> 10000"
    and small: "\<forall>i \<in> set items. max 0 (ti_priceCents i) * max 0 (ti_quantity i) < 2 ^ 31"
  shows "(\<forall>l \<in> set (tc_items (calculate ten items c s)).
      \<bar>10000 * tl_taxCents l - tl_subtotalCents l * rate_in_effect ten c (tl_productId l) s\<bar> \<le> 5000) \<and>
    tc_taxCents (calculate ten items c s) = sum_list (map tl_taxCents (tc_items (calculate ten items c s))) \<and>
    0 \<le> tc_taxCents (calculate ten items c s) \<and>
    tc_taxCents (calculate ten items c s) \<le> tc_subtotalCents (calculate ten items c s) \<and>
    tc_totalCents (calculate ten items c s) = tc_subtotalCents (calculate ten items c s) + tc_taxCents (calculate ten items c s)"
proof -
  have near: "\<bar>10000 * tl_taxCents l - tl_subtotalCents l * rate_in_effect ten c (tl_productId l) s\<bar> \<le> 5000"
    and pos: "0 \<le> tl_subtotalCents l" if l: "l \<in> set (tc_items (calculate ten items c s))" for l
  proof -
    from l obtain i where i: "i \<in> set items" "l = calculate_line (fallbackDefault ten (country_norm c) s) i s"
      by (auto simp: calculate_simps)
    have sub: "tl_subtotalCents l = max 0 (ti_priceCents i) * max 0 (ti_quantity i)" "tl_productId l = ti_productId i"
      by (simp_all add: i calculate_line_def Let_def)
    show p: "0 \<le> tl_subtotalCents l" by (simp add: sub)
    from line_tax_nearest [of "rate_in_effect ten c (tl_productId l) s" "tl_subtotalCents l"]
      rate_in_effect_bounds [OF rates, of ten c "tl_productId l"] p small i(1)
    show "\<bar>10000 * tl_taxCents l - tl_subtotalCents l * rate_in_effect ten c (tl_productId l) s\<bar> \<le> 5000"
      by (simp add: sub calculate_line_tax [of ten c s i, folded i(2)])
  qed
  have "0 \<le> tl_taxCents l \<and> tl_taxCents l \<le> tl_subtotalCents l" if l: "l \<in> set (tc_items (calculate ten items c s))" for l
  proof -
    have "0 \<le> tl_subtotalCents l * rate_in_effect ten c (tl_productId l) s"
      "tl_subtotalCents l * rate_in_effect ten c (tl_productId l) s \<le> tl_subtotalCents l * 10000"
      using pos [OF l] rate_in_effect_bounds [OF rates, of ten c "tl_productId l"] by (auto intro: mult_left_mono)
    with near [OF l] show ?thesis by linarith
  qed
  from sum_list_between [of "tc_items (calculate ten items c s)" tl_taxCents tl_subtotalCents, OF this] near
  show ?thesis by (simp only: calculate_simps(2-4) [of ten items c s]) blast
qed

definition demo_rate :: "string \<Rightarrow> string option \<Rightarrow> int \<Rightarrow> tax_rate_row" where
  "demo_rate i tenant r =
    \<lparr>tr_id = i, tr_tenantId = tenant, tr_name = i, tr_code = None, tr_rate10000 = r, tr_country = ''RU'',
     tr_isDefault = True, tr_isActive = True\<rparr>"

definition demo_taxes :: rfq_db where
  "demo_taxes = demo_db\<lparr>tax_rates := [demo_rate ''t1'' (Some ''ten'') 1000, demo_rate ''t2'' None 2000]\<rparr>"

theorem calculate_nearest_cent_witness:
  "0 \<le> tc_taxCents (calculate None [\<lparr>ti_productId = ''p1'', ti_quantity = 3, ti_priceCents = 333\<rparr>] ''ru'' demo_taxes) \<and>
   tc_taxCents (calculate None [\<lparr>ti_productId = ''p1'', ti_quantity = 3, ti_priceCents = 333\<rparr>] ''ru'' demo_taxes) \<le>
   tc_subtotalCents (calculate None [\<lparr>ti_productId = ''p1'', ti_quantity = 3, ti_priceCents = 333\<rparr>] ''ru'' demo_taxes)"
  using calculate_nearest_cent [of demo_taxes "[\<lparr>ti_productId = ''p1'', ti_quantity = 3, ti_priceCents = 333\<rparr>]" None "''ru''"]
  by (simp add: demo_taxes_def demo_rate_def)

text \<open>
  A default rate of the platform for the country is taken even where the tenant has a default rate
  of its own: PostgreSQL puts the missing tenant first in the descending order of the query, whose
  comment promises the opposite.
\<close>

theorem platform_default_wins:
  assumes "\<exists>t \<in> set (tax_rates s). country_default country t \<and> tr_tenantId t = None"
  shows "\<exists>r. fallbackDefault tenantId country s = Some r \<and> tr_tenantId r = None \<and> country_default country r"
proof -
  let ?rows = "filter (\<lambda>t. country_default country t \<and>
      (if truthy tenantId then tr_tenantId t = tenantId \<or> tr_tenantId t = None else tr_tenantId t = None)) (tax_rates s)"
  have "find_row (\<lambda>t. tr_tenantId t = None) ?rows \<noteq> None"
    unfolding find_row_ex using assms by auto
  then obtain r where r: "find_row (\<lambda>t. tr_tenantId t = None) ?rows = Some r" by blast
  from find_row_Some [OF r] r show ?thesis
    by (auto simp: fallbackDefault_def defaultTax_def first_tenant_desc_def)
qed

theorem platform_default_wins_witness:
  "\<exists>r. fallbackDefault (Some ''ten'') ''RU'' demo_taxes = Some r \<and> tr_tenantId r = None"
  using platform_default_wins [of demo_taxes "''RU''" "Some ''ten''"]
  by (auto simp: demo_taxes_def demo_rate_def country_default_def)

text \<open>
  At a tie the tax can be a cent lower than rounding half up gives: 14.5 percent of 100 cents is
  14, because 0.145 is not a double and the product falls below the half.
\<close>

theorem tax_tie_rounds_down:
  "line_tax 100 (rate_number (Some (demo_rate ''t'' None 1450))) = 14 \<and> round_frac (100 * 1450) 10000 = 15"
  by code_simp

section \<open>createRate\<close>

text \<open>At most one default rate for a tenant and a country.\<close>

definition one_default :: "tax_rate_row list \<Rightarrow> bool" where
  "one_default ts \<longleftrightarrow> distinct (map (\<lambda>t. (tr_tenantId t, tr_country t)) (filter tr_isDefault ts))"

lemma one_default_clear:
  assumes "one_default ts" and "tr_isDefault t \<Longrightarrow> tr_tenantId t = ten \<and> tr_country t = c"
  shows "one_default (update_where (\<lambda>t. tr_country t = c \<and> tr_isDefault t \<and> tr_tenantId t = ten)
      (\<lambda>t. t\<lparr>tr_isDefault := False\<rparr>) ts @ [t])"
proof -
  let ?key = "\<lambda>t. (tr_tenantId t, tr_country t)" and ?D = "filter tr_isDefault ts"
  have eq: "filter tr_isDefault (update_where (\<lambda>t. tr_country t = c \<and> tr_isDefault t \<and> tr_tenantId t = ten)
      (\<lambda>t. t\<lparr>tr_isDefault := False\<rparr>) ts) = filter (\<lambda>t. ?key t \<noteq> (ten, c)) ?D"
    by (induction ts) auto
  have "distinct (map ?key (filter (\<lambda>t. ?key t \<noteq> (ten, c)) ?D))"
    using assms(1) unfolding one_default_def by (rule distinct_map_filter)
  then show ?thesis
    using assms(2) unfolding one_default_def filter_append eq by auto
qed

text \<open>
  Creating a rate keeps at most one default rate per tenant and country: a new default first
  takes the mark from the old one.
\<close>

theorem createRate_one_default:
  assumes "one_default (tax_rates s)" and "ten \<noteq> Some []"
  shows "one_default (tax_rates (snd (createRate ten data s)))"
proof (cases "createRate ten data s")
  case (Pair r s')
  show ?thesis
  proof (cases r)
    case (Inl e)
    with Pair have "s' = s"
      by (auto simp: createRate_def Let_def thenA_def bindA_def guardA_def returnA_def throwA_def
          split: if_splits dest: txA_rollback)
    with Pair assms show ?thesis by simp
  next
    case (Inr row)
    have ten: "(if truthy ten then ten else None) = ten" using assms(2) by (cases ten) auto
    from Pair Inr obtain t where t: "tax_rates s' = (if nr_isDefault data = Some True then
        update_where (\<lambda>t. tr_country t = country_norm (nr_country data) \<and> tr_isDefault t \<and> tr_tenantId t = ten)
          (\<lambda>t. t\<lparr>tr_isDefault := False\<rparr>) (tax_rates s) else tax_rates s) @ [t]"
      "tr_tenantId t = ten" "tr_country t = country_norm (nr_country data)" "tr_isDefault t \<longleftrightarrow> nr_isDefault data = Some True"
      by (auto simp: createRate_def Let_def ok_simps ten split: if_splits option.splits)
    with assms(1) one_default_clear [OF assms(1), of t ten "country_norm (nr_country data)"] Pair show ?thesis
      by (auto simp: one_default_def)
  qed
qed

theorem createRate_one_default_witness:
  "one_default (tax_rates (snd (createRate (Some ''ten'')
    \<lparr>nr_name = ''VAT'', nr_code = None, nr_rate10000 = 1500, nr_country = ''ru'', nr_isDefault = Some True\<rparr> demo_taxes)))"
  by (rule createRate_one_default) (simp_all add: one_default_def demo_taxes_def demo_rate_def)

end
