(* ===== verification/Ledger.thy ===== *)
theory Ledger
  imports Schema
begin

text \<open>
  The double-entry ledger of \<open>finance/ledger.service.ts\<close>: every posting is a transaction with
  balanced entries, at most one per type and reference.  Then what a posting does to the balances,
  stated as a contract (\<open>booking\<close>) that the payout and payment proofs use.

  Amounts are whole cents, so \<open>Math.round\<close> leaves them as they are and \<open>Number.isFinite\<close> holds.
  The transaction client (\<open>params.tx\<close>) makes no difference to a single \<open>create\<close>.
\<close>

section \<open>Posting\<close>

definition debits :: "entry_row list \<Rightarrow> int" where
  "debits entries = foldl (\<lambda>s e. s + fe_amountCents e) 0 (filter (\<lambda>e. fe_direction e = DEBIT) entries)"

definition credits :: "entry_row list \<Rightarrow> int" where
  "credits entries = foldl (\<lambda>s e. s + fe_amountCents e) 0 (filter (\<lambda>e. fe_direction e = CREDIT) entries)"

definition assertBalanced :: "entry_row list \<Rightarrow> ('s, unit) act" where
  "assertBalanced entries =
    thenA (guardA (entries \<noteq> []) (BadRequest ''Ledger entries required''))
    (thenA (guardA (\<not> list_ex (\<lambda>e. fe_amountCents e \<le> 0) entries) (BadRequest ''Amount must be positive''))
      (guardA (debits entries = credits entries) (BadRequest ''Ledger invariant violated'')))"

text \<open>The key of the idempotency check; only a posted transaction counts.\<close>

definition posting_of :: "fin_type \<Rightarrow> string \<Rightarrow> string \<Rightarrow> fin_txn_row \<Rightarrow> bool" where
  "posting_of ty rty rid t \<longleftrightarrow>
    ft_type t = ty \<and> ft_referenceType t = rty \<and> ft_referenceId t = rid \<and> ft_status t = FS_POSTED"

definition postTransaction ::
  "fin_type \<Rightarrow> string \<Rightarrow> string \<Rightarrow> string option \<Rightarrow> entry_row list \<Rightarrow> ('z fin_db_scheme, fin_txn_row) act" where
  "postTransaction ty referenceType referenceId ccy entries =
    (let cur = js_upper (if truthy ccy then the ccy else ''USD'') in
     thenA (assertBalanced entries)
     (bindA (getsA (\<lambda>s. find_row (posting_of ty referenceType referenceId) (fin_txns s))) (\<lambda>existing.
      case existing of
        Some t \<Rightarrow> returnA t
      | None \<Rightarrow>
          bindA newIdA (\<lambda>i.
          let t = \<lparr>ft_id = i, ft_type = ty, ft_referenceType = referenceType,
                   ft_referenceId = referenceId, ft_currency = cur, ft_status = FS_POSTED,
                   ft_entries = map (\<lambda>e. e\<lparr>fe_shopId := or_else (fe_shopId e) None\<rparr>) entries\<rparr> in
          thenA (createA fin_txns_update t) (returnA t)))))"

abbreviation entry :: "account_type \<Rightarrow> string option \<Rightarrow> direction \<Rightarrow> int \<Rightarrow> entry_row" where
  "entry a sh d n \<equiv> \<lparr>fe_account = a, fe_shopId = sh, fe_direction = d, fe_amountCents = n\<rparr>"

definition postPayment ::
  "string \<Rightarrow> int \<Rightarrow> int \<Rightarrow> string \<Rightarrow> string option \<Rightarrow> ('z fin_db_scheme, fin_txn_row) act" where
  "postPayment orderId amount commissionCents shopId ccy =
    (let commission0 = max 0 commissionCents;
         commission = (if amount < commission0 then amount else commission0);
         vendorAmount = amount - commission;
         entries = [entry PLATFORM_CLEARING None DEBIT amount]
           @ (if 0 < vendorAmount then [entry VENDOR_PAYABLE (Some shopId) CREDIT vendorAmount] else [])
           @ (if 0 < commission then [entry PLATFORM_COMMISSION None CREDIT commission] else [])
     in postTransaction FT_PAYMENT ''Order'' orderId ccy entries)"

definition postRefund ::
  "string \<Rightarrow> int \<Rightarrow> int \<Rightarrow> string \<Rightarrow> string option \<Rightarrow> ('z fin_db_scheme, fin_txn_row) act" where
  "postRefund refundId amount commissionCents shopId ccy =
    (let commission0 = max 0 commissionCents;
         commission = (if amount < commission0 then amount else commission0);
         vendorAmount = amount - commission;
         entries = [entry PLATFORM_CLEARING None CREDIT amount]
           @ (if 0 < vendorAmount then [entry VENDOR_PAYABLE (Some shopId) DEBIT vendorAmount] else [])
           @ (if 0 < commission then [entry PLATFORM_COMMISSION None DEBIT commission] else [])
     in postTransaction FT_REFUND ''Refund'' refundId ccy entries)"

section \<open>Balances\<close>

definition vendorPayableBalanceCents :: "string \<Rightarrow> 'z fin_db_scheme \<Rightarrow> int" where
  "vendorPayableBalanceCents shopId s =
    foldl (\<lambda>bal e. if fe_direction e = CREDIT then bal + fe_amountCents e else bal - fe_amountCents e) 0
      (filter (\<lambda>e. fe_shopId e = Some shopId \<and> fe_account e = VENDOR_PAYABLE)
        (concat (map ft_entries (filter (\<lambda>t. ft_status t = FS_POSTED) (fin_txns s)))))"

text \<open>The statuses in which a payout holds funds.\<close>

definition OPEN_PAYOUT_STATUSES :: "payout_status list" where
  "OPEN_PAYOUT_STATUSES = [PO_PENDING, PO_RESERVED, PO_PROCESSING, PO_APPROVED]"

text \<open>The number of double entries on the payable account of a shop.\<close>

definition deCount :: "string \<Rightarrow> 'z fin_db_scheme \<Rightarrow> nat" where
  "deCount shopId s =
    count_where (\<lambda>e. fe_shopId e = Some shopId \<and> fe_account e = VENDOR_PAYABLE)
      (concat (map ft_entries (fin_txns s)))"

definition openPayouts :: "string \<Rightarrow> 'z fin_db_scheme \<Rightarrow> int" where
  "openPayouts shopId s =
    sum_where (\<lambda>p. po_shopId p = shopId \<and> po_status p \<in> set OPEN_PAYOUT_STATUSES) po_amountCents (payouts s)"

definition getAvailableBalance :: "string \<Rightarrow> 'z fin_db_scheme \<Rightarrow> int" where
  "getAvailableBalance shopId s =
    (if 0 < deCount shopId s then max 0 (vendorPayableBalanceCents shopId s)
     else
       (let rows = filter (\<lambda>e. le_shopId e = Some shopId \<and> le_account e = LA_VENDOR) (ledger_entries s);
            earned = sum_where (\<lambda>e. le_entryType e = LE_VENDOR_EARNING) le_amountCents rows;
            paidOut = sum_where (\<lambda>e. le_entryType e = LE_PAYOUT) (\<lambda>e. \<bar>le_amountCents e\<bar>) rows;
            held = openPayouts shopId s
        in max 0 (earned - paidOut - held)))"

section \<open>Payout postings\<close>

definition postPayoutReserve :: "string \<Rightarrow> string \<Rightarrow> int \<Rightarrow> ('z fin_db_scheme, fin_txn_row) act" where
  "postPayoutReserve payoutId shopId amount =
    postTransaction FT_PAYOUT ''Payout'' payoutId None
      [entry VENDOR_PAYABLE (Some shopId) DEBIT amount,
       entry VENDOR_AVAILABLE (Some shopId) CREDIT amount]"

definition releasePayoutReserve :: "string \<Rightarrow> string \<Rightarrow> int \<Rightarrow> ('z fin_db_scheme, fin_txn_row) act" where
  "releasePayoutReserve payoutId shopId amount =
    postTransaction FT_PAYOUT ''PayoutRelease'' payoutId None
      [entry VENDOR_AVAILABLE (Some shopId) DEBIT amount,
       entry VENDOR_PAYABLE (Some shopId) CREDIT amount]"

definition postPayoutCompleted :: "string \<Rightarrow> string \<Rightarrow> int \<Rightarrow> ('z fin_db_scheme, fin_txn_row) act" where
  "postPayoutCompleted payoutId shopId amount =
    postTransaction FT_PAYOUT ''PayoutComplete'' payoutId None
      [entry VENDOR_AVAILABLE (Some shopId) DEBIT amount,
       entry PLATFORM_CLEARING None CREDIT amount]"

section \<open>Balance sheets\<close>

text \<open>
  The books as a function: what each account of each shop (or of the platform) holds, credits
  counted positive, over the posted transactions.
\<close>

definition signed :: "entry_row \<Rightarrow> int" where
  "signed e = (case fe_direction e of CREDIT \<Rightarrow> fe_amountCents e | DEBIT \<Rightarrow> - fe_amountCents e)"

definition net :: "account_type \<Rightarrow> string option \<Rightarrow> entry_row list \<Rightarrow> int" where
  "net a sh es = sum_where (\<lambda>e. fe_account e = a \<and> fe_shopId e = sh) signed es"

definition posted_entries :: "'z fin_db_scheme \<Rightarrow> entry_row list" where
  "posted_entries s = concat (map ft_entries (filter (\<lambda>t. ft_status t = FS_POSTED) (fin_txns s)))"

definition account_balance :: "account_type \<Rightarrow> string option \<Rightarrow> 'z fin_db_scheme \<Rightarrow> int" where
  "account_balance a sh s = net a sh (posted_entries s)"

definition posted :: "fin_type \<Rightarrow> string \<Rightarrow> string \<Rightarrow> 'z fin_db_scheme \<Rightarrow> bool" where
  "posted ty rty rid s \<longleftrightarrow> (\<exists>t \<in> set (fin_txns s). posting_of ty rty rid t)"

text \<open>Balanced entries, as \<open>assertBalanced\<close> lets them through.\<close>

definition balanced :: "entry_row list \<Rightarrow> bool" where
  "balanced es \<longleftrightarrow> es \<noteq> [] \<and> (\<forall>e \<in> set es. 0 < fe_amountCents e) \<and> sum_list (map signed es) = 0"

text \<open>The invariant of the ledger: balanced transactions, no two postings with one reference.\<close>

definition ledger_ok :: "'z fin_db_scheme \<Rightarrow> bool" where
  "ledger_ok s \<longleftrightarrow>
    (\<forall>t \<in> set (fin_txns s). balanced (ft_entries t)) \<and>
    distinct (map (\<lambda>t. (ft_type t, ft_referenceType t, ft_referenceId t))
      (filter (\<lambda>t. ft_status t = FS_POSTED) (fin_txns s)))"

lemma foldl_plus: "foldl (\<lambda>s e. s + f e) (a::int) xs = a + sum_list (map f xs)"
  by (induction xs arbitrary: a) auto

lemma debits_credits: "credits es - debits es = sum_list (map signed es)"
proof (induction es)
  case Nil
  show ?case by (simp add: debits_def credits_def)
next
  case (Cons e es)
  then show ?case by (cases "fe_direction e") (auto simp: debits_def credits_def foldl_plus signed_def)
qed

lemma assertBalanced_ok [ok_simps]: "assertBalanced es s = (Inr u, s') \<longleftrightarrow> balanced es \<and> s' = s"
  using debits_credits [of es]
  by (auto simp: assertBalanced_def ok_simps balanced_def list_ex_iff not_le)

lemma assertBalanced_throws: "\<not> balanced es \<Longrightarrow> \<exists>m. assertBalanced es s = (Inl (BadRequest m), s)"
  using debits_credits [of es]
  by (auto simp: assertBalanced_def act_defs balanced_def list_ex_iff not_le)

lemma vendorPayable_account: "vendorPayableBalanceCents sh s = account_balance VENDOR_PAYABLE (Some sh) s"
proof -
  have "foldl (\<lambda>bal e. if fe_direction e = CREDIT then bal + fe_amountCents e else bal - fe_amountCents e) b
      (filter (\<lambda>e. fe_shopId e = Some sh \<and> fe_account e = VENDOR_PAYABLE) es) = b + net VENDOR_PAYABLE (Some sh) es" for b es
  proof (induction es arbitrary: b)
    case Nil
    show ?case by (simp add: net_def)
  next
    case (Cons e es)
    then show ?case by (cases "fe_direction e") (auto simp: net_def signed_def)
  qed
  then show ?thesis by (simp add: vendorPayableBalanceCents_def account_balance_def posted_entries_def)
qed

section \<open>What a posting does\<close>

definition stored_entry :: "entry_row \<Rightarrow> entry_row" where
  "stored_entry e = e\<lparr>fe_shopId := or_else (fe_shopId e) None\<rparr>"

definition new_txn ::
  "fin_type \<Rightarrow> string \<Rightarrow> string \<Rightarrow> string option \<Rightarrow> entry_row list \<Rightarrow> 'z fin_db_scheme \<Rightarrow> fin_txn_row" where
  "new_txn ty rty rid ccy es s =
    \<lparr>ft_id = id_supply s (next_id s), ft_type = ty, ft_referenceType = rty, ft_referenceId = rid,
     ft_currency = js_upper (if truthy ccy then the ccy else ''USD''), ft_status = FS_POSTED,
     ft_entries = map stored_entry es\<rparr>"

definition add_txn :: "fin_txn_row \<Rightarrow> 'z fin_db_scheme \<Rightarrow> 'z fin_db_scheme" where
  "add_txn t s = fin_txns_update (\<lambda>ts. ts @ [t]) (s\<lparr>next_id := Suc (next_id s)\<rparr>)"

lemma postTransaction_new:
  assumes "balanced es" and "\<not> posted ty rty rid s"
  shows "postTransaction ty rty rid ccy es s =
    (Inr (new_txn ty rty rid ccy es s), add_txn (new_txn ty rty rid ccy es s) s)"
proof -
  have "find_row (posting_of ty rty rid) (fin_txns s) = None"
    using assms(2) by (auto simp: posted_def find_row_None)
  moreover have "assertBalanced es s = (Inr (), s)"
    using assms(1) assertBalanced_ok [of es s "()" s] by simp
  ultimately show ?thesis
    by (simp add: postTransaction_def Let_def thenA_def bindA_def getsA_def returnA_def newIdA_def
        createA_def modifyA_def new_txn_def add_txn_def stored_entry_def)
qed

lemma postTransaction_old:
  assumes "balanced es" and "posted ty rty rid s"
  shows "\<exists>t. postTransaction ty rty rid ccy es s = (Inr t, s) \<and> t \<in> set (fin_txns s) \<and> posting_of ty rty rid t"
proof -
  obtain t where t: "find_row (posting_of ty rty rid) (fin_txns s) = Some t"
    using assms(2) by (cases "find_row (posting_of ty rty rid) (fin_txns s)") (auto simp: posted_def find_row_None)
  moreover have "assertBalanced es s = (Inr (), s)"
    using assms(1) assertBalanced_ok [of es s "()" s] by simp
  ultimately show ?thesis
    using find_row_Some [OF t]
    by (simp add: postTransaction_def Let_def thenA_def bindA_def getsA_def returnA_def)
qed

lemma postTransaction_bad:
  assumes "\<not> balanced es"
  shows "\<exists>m. postTransaction ty rty rid ccy es s = (Inl (BadRequest m), s)"
  using assertBalanced_throws [OF assms, of s]
  by (auto simp: postTransaction_def Let_def thenA_def bindA_def)

text \<open>The cases together: what is left by a posting that returns.\<close>

lemma postTransaction_ok:
  "postTransaction ty rty rid ccy es s = (Inr t, s') \<Longrightarrow>
    balanced es \<and> s' = (if posted ty rty rid s then s else add_txn (new_txn ty rty rid ccy es s) s)"
  by (cases "balanced es"; cases "posted ty rty rid s")
    (use postTransaction_new [of es ty rty rid s ccy] postTransaction_old [of es ty rty rid s ccy]
      postTransaction_bad [of es ty rty rid ccy s] in auto)

lemma signed_stored [simp]: "signed (stored_entry e) = signed e"
  by (simp add: signed_def stored_entry_def split: direction.splits)

lemma stored_entry_simps [simp]:
  "fe_account (stored_entry e) = fe_account e" "fe_amountCents (stored_entry e) = fe_amountCents e"
  "fe_shopId (stored_entry e) = or_else (fe_shopId e) None"
  by (simp_all add: stored_entry_def)

lemma balanced_stored: "balanced (map stored_entry es) \<longleftrightarrow> balanced es"
  by (auto simp: balanced_def comp_def)

lemma posted_add_txn:
  "posted a b c (add_txn t s) \<longleftrightarrow> posted a b c s \<or> posting_of a b c t"
  by (auto simp: posted_def add_txn_def)

lemma posting_of_new [simp]:
  "posting_of a b c (new_txn ty rty rid ccy es s) \<longleftrightarrow> (a, b, c) = (ty, rty, rid)"
  by (auto simp: posting_of_def new_txn_def)

lemma net_append [simp]: "net a sh (xs @ ys) = net a sh xs + net a sh ys"
  by (simp add: net_def)

lemma account_balance_add:
  "account_balance a sh (add_txn (new_txn ty rty rid ccy es s) s) =
    account_balance a sh s + net a sh (map stored_entry es)"
  by (simp add: account_balance_def posted_entries_def add_txn_def new_txn_def)

lemma ledger_ok_add:
  assumes "ledger_ok s" and "balanced es" and "\<not> posted ty rty rid s"
  shows "ledger_ok (add_txn (new_txn ty rty rid ccy es s) s)"
  using assms
  by (auto simp: ledger_ok_def add_txn_def new_txn_def balanced_stored posted_def posting_of_def)

lemma keeps_postTransaction: "keeps ledger_ok (postTransaction ty rty rid ccy es)"
proof (rule keepsI)
  fix s r s' assume inv: "ledger_ok s" and run: "postTransaction ty rty rid ccy es s = (r, s')"
  show "ledger_ok s'"
  proof (cases r)
    case (Inl e)
    have "balanced es \<Longrightarrow> \<exists>x. fst (postTransaction ty rty rid ccy es s) = Inr x"
      using postTransaction_new [of es ty rty rid s ccy] postTransaction_old [of es ty rty rid s ccy]
      by (cases "posted ty rty rid s") auto
    with run Inl have "\<not> balanced es" by auto
    from postTransaction_bad [OF this, of ty rty rid ccy s] run inv show ?thesis by auto
  next
    case (Inr t)
    with postTransaction_ok [of ty rty rid ccy es s t s'] run inv show ?thesis
      by (auto intro: ledger_ok_add)
  qed
qed

text \<open>The books balance: over all accounts, what is posted sums to zero.\<close>

lemma ledger_trial_balance: "ledger_ok s \<Longrightarrow> sum_list (map signed (posted_entries s)) = 0"
proof -
  have "(\<forall>t \<in> set ts. balanced (ft_entries t)) \<Longrightarrow>
      sum_list (map signed (concat (map ft_entries (filter P ts)))) = 0" for P and ts :: "fin_txn_row list"
    by (induction ts) (auto simp: balanced_def)
  then show "ledger_ok s \<Longrightarrow> sum_list (map signed (posted_entries s)) = 0"
    by (simp add: ledger_ok_def posted_entries_def)
qed

section \<open>The contract the other services rely on\<close>

text \<open>
  Posting under a reference: refused without a trace when the entries do not balance, without
  effect when the reference is already posted, and otherwise it adds the entries to the balances.
\<close>

locale booking =
  fixes post :: "'k \<Rightarrow> entry_row list \<Rightarrow> ('s, 'r) act"
    and is_posted :: "'k \<Rightarrow> 's \<Rightarrow> bool"
    and bal :: "'acc \<Rightarrow> 's \<Rightarrow> int"
    and effect :: "'acc \<Rightarrow> entry_row list \<Rightarrow> int"
  assumes post_new: "balanced es \<Longrightarrow> \<not> is_posted k s \<Longrightarrow>
      \<exists>r s'. post k es s = (Inr r, s') \<and> (\<forall>k'. is_posted k' s' \<longleftrightarrow> is_posted k' s \<or> k' = k) \<and>
        (\<forall>a. bal a s' = bal a s + effect a es)"
    and post_old: "balanced es \<Longrightarrow> is_posted k s \<Longrightarrow> \<exists>r. post k es s = (Inr r, s)"
    and post_bad: "\<not> balanced es \<Longrightarrow> \<exists>e. post k es s = (Inl e, s)"
begin

lemma post_returns: "balanced es \<Longrightarrow> \<exists>r s'. post k es s = (Inr r, s')"
  using post_new [of es k s] post_old [of es k s] by blast

lemma post_effect:
  assumes "post k es s = (Inr r, s')"
  shows "bal a s' = bal a s + (if is_posted k s then 0 else effect a es)"
    and "is_posted k' s' \<longleftrightarrow> is_posted k' s \<or> k' = k"
proof -
  have b: "balanced es" using assms post_bad [of es k s] by fastforce
  show "bal a s' = bal a s + (if is_posted k s then 0 else effect a es)"
    using assms b post_new [of es k s] post_old [of es k s] by (cases "is_posted k s") auto
  show "is_posted k' s' \<longleftrightarrow> is_posted k' s \<or> k' = k"
    using assms b post_new [of es k s] post_old [of es k s] by (cases "is_posted k s") auto
qed

text \<open>A posting repeated, at any later time, changes nothing.\<close>

lemma post_again:
  assumes "post k es s = (Inr r, s')" and "\<And>k'. is_posted k' s' \<Longrightarrow> is_posted k' s2" and "balanced es2"
  shows "\<exists>r2. post k es2 s2 = (Inr r2, s2)"
  using post_effect(2) [OF assms(1), of k] assms(2,3) post_old [of es2 k s2] by blast

text \<open>Two postings with opposite entries under new references leave the balances as they were.\<close>

lemma post_opposite:
  assumes "post k es s = (Inr r, s1)" and "post k2 es2 s1 = (Inr r2, s2)"
    and "\<not> is_posted k s" and "\<not> is_posted k2 s" and "k2 \<noteq> k" and "effect a es2 = - effect a es"
  shows "bal a s2 = bal a s"
  using post_effect [OF assms(1)] post_effect(1) [OF assms(2), of a] assms(3-6) by simp

end

interpretation books: booking
  "\<lambda>(ty, rty, rid) es. postTransaction ty rty rid ccy es"
  "\<lambda>(ty, rty, rid). posted ty rty rid"
  "\<lambda>(a, sh). account_balance a sh"
  "\<lambda>(a, sh) es. net a sh (map stored_entry es)"
  for ccy
proof (unfold_locales, goal_cases)
  case (1 es k s)
  obtain ty rty rid where k: "k = (ty, rty, rid)" by (cases k)
  show ?case
    using 1 postTransaction_new [of es ty rty rid s ccy]
    by (auto simp: k posted_add_txn account_balance_add)
next
  case (2 es k s)
  then show ?case by (cases k) (use postTransaction_old in fastforce)
next
  case (3 es k s)
  then show ?case by (cases k) (use postTransaction_bad in fastforce)
qed

end
