(* ===== verification/Finance.thy ===== *)
theory Finance
  imports Ledger
begin

text \<open>
  Payouts: \<open>finance/finance.service.ts\<close>.  A merchant's request reserves funds (payable to
  available), the provider's success completes the payout, its failure gives the reserve back, and
  an administrator may approve, reject or pay.

  The methods that read the payout before they open a transaction are split into the read and the
  transaction (\<open>completePayout_tx\<close>, \<open>failPayout_tx\<close> take the row that was read), so that two requests
  can be interleaved.  The row lock on the shop has no effect in this model.
\<close>

section \<open>Balances and lists\<close>

record shop_balance =
  sb_earnedCents :: "int option"
  sb_pendingPayoutCents :: int
  sb_availableCents :: int
  sb_ledger :: string
  sb_vendorPayableCents :: int

definition shopBalance :: "string \<Rightarrow> 'z fin_db_scheme \<Rightarrow> shop_balance" where
  "shopBalance shopId s =
    (let availableCents = getAvailableBalance shopId s;
         deBalance = vendorPayableBalanceCents shopId s;
         de = deCount shopId s;
         held = openPayouts shopId s
     in \<lparr>sb_earnedCents = (if 0 < de then Some (max 0 (deBalance + held)) else None),
         sb_pendingPayoutCents = held,
         sb_availableCents = availableCents,
         sb_ledger = (if 0 < de then ''double_entry'' else ''legacy''),
         sb_vendorPayableCents = deBalance\<rparr>)"

text \<open>The shop of a merchant; \<open>!user.shopId\<close> also refuses the empty one.\<close>

definition merchantShop :: "jwt_payload \<Rightarrow> string option" where
  "merchantShop user =
    (if user_role user = MERCHANT \<and> truthy (user_shopId user) then user_shopId user else None)"

definition myBalance :: "jwt_payload \<Rightarrow> ('z fin_db_scheme, shop_balance) act" where
  "myBalance user =
    bindA (someA (merchantShop user) (Forbidden '''')) (\<lambda>shopId. getsA (shopBalance shopId))"

text \<open>Newest first: the table in reverse.\<close>

definition listPayouts :: "jwt_payload \<Rightarrow> ('z fin_db_scheme, payout_row list) act" where
  "listPayouts user =
    (if is_admin user then getsA (\<lambda>s. rev (payouts s))
     else (case merchantShop user of
       Some shopId \<Rightarrow> getsA (\<lambda>s. rev (filter (\<lambda>p. po_shopId p = shopId) (payouts s)))
     | None \<Rightarrow> throwA (Forbidden '''')))"

definition listLedger :: "jwt_payload \<Rightarrow> string option \<Rightarrow> ('z fin_db_scheme, ledger_row list) act" where
  "listLedger user shopId =
    (if is_admin user then
       getsA (\<lambda>s. take 200 (rev (filter (\<lambda>e. truthy shopId \<longrightarrow> le_shopId e = shopId) (ledger_entries s))))
     else (case merchantShop user of
       Some sh \<Rightarrow> getsA (\<lambda>s. take 200 (rev (filter (\<lambda>e. le_shopId e = Some sh) (ledger_entries s))))
     | None \<Rightarrow> throwA (Forbidden '''')))"

record report =
  rp_paidOrders :: nat
  rp_gmvCents :: int
  rp_activeShops :: nat
  rp_activeProducts :: nat
  rp_pendingPayouts :: nat

definition reportsSummary :: "jwt_payload \<Rightarrow> ('z ord_db_scheme, report) act" where
  "reportsSummary user =
    thenA (guardA (is_admin user) (Forbidden ''''))
     (getsA (\<lambda>s. \<lparr>rp_paidOrders = count_where (\<lambda>o'. o_status o' \<notin> {OS_CANCELLED, OS_PENDING_PAYMENT}) (orders s),
        rp_gmvCents = sum_where (\<lambda>o'. o_status o' \<notin> {OS_CANCELLED, OS_PENDING_PAYMENT}) o_totalCents (orders s),
        rp_activeShops = count_where (\<lambda>h. sh_status h = SH_ACTIVE) (shops s),
        rp_activeProducts = count_where (\<lambda>p. p_status p = PR_ACTIVE) (products s),
        rp_pendingPayouts = count_where (\<lambda>p. po_status p = PO_PENDING) (payouts s)\<rparr>))"

section \<open>requestPayout\<close>

text \<open>The mirror entry in the single-entry ledger.\<close>

definition legacyPayout :: "string \<Rightarrow> int \<Rightarrow> ledger_row" where
  "legacyPayout shopId amount =
    \<lparr>le_shopId = Some shopId, le_orderId = None, le_account = LA_VENDOR, le_entryType = LE_PAYOUT,
     le_amountCents = amount, le_currency = ''USD'', le_metadata = Some ''payout''\<rparr>"

definition reservePayout_tx ::
  "string \<Rightarrow> int \<Rightarrow> string option \<Rightarrow> string option \<Rightarrow> ('z fin_db_scheme, payout_row) act" where
  "reservePayout_tx shopId amount userId note =
    bindA (getsA (getAvailableBalance shopId)) (\<lambda>available.
    thenA (guardA (\<not> available < amount)
            (BadRequest (''Insufficient balance. Available: '' @ dec available)))
    (bindA newIdA (\<lambda>pid.
     bindA (getsA clock) (\<lambda>now.
     let payout =
       \<lparr>po_id = pid, po_shopId = shopId, po_amountCents = amount, po_status = PO_RESERVED,
        po_note = or_else note None, po_adminNote = None, po_reservedAt = Some now, po_processedAt = None,
        po_completedAt = None, po_failureReason = None, po_stripeTransferId = None,
        po_requestedById = or_else userId None\<rparr> in
     thenA (createA payouts_update payout)
     (thenA (postPayoutReserve pid shopId amount)
     (thenA (createA ledger_entries_update (legacyPayout shopId (- amount)))
     (thenA (auditA (case userId of Some u \<Rightarrow> if 20 \<le> length u then Some u else None | None \<Rightarrow> None)
              ''payout.reserved'' ''PayoutRequest'' (Some pid))
       (returnA payout))))))))"

text \<open>Which exceptions the loop tries again after.\<close>

definition retryable :: "exn \<Rightarrow> bool" where
  "retryable e \<longleftrightarrow> e = PrismaError ''P2034'' \<or>
    js_contains ''could not serialize'' (exn_message e) \<or> js_contains ''deadlock'' (exn_message e) \<or>
    js_contains ''40001'' (exn_message e)"

text \<open>
  The database may abort an attempt: \<open>aborts i\<close> is the exception it throws at attempt \<open>i\<close>, and
  nothing of that attempt stays.  \<open>reserve_attempts n i\<close> are the last \<open>n\<close> rounds of the loop,
  starting with attempt \<open>i\<close>.
\<close>

definition attempt ::
  "(nat \<Rightarrow> exn option) \<Rightarrow> nat \<Rightarrow> ('s, 'a) act \<Rightarrow> ('s, 'a) act" where
  "attempt aborts i m = (case aborts i of Some e \<Rightarrow> throwA e | None \<Rightarrow> txA m)"

fun reserve_attempts ::
  "(nat \<Rightarrow> exn option) \<Rightarrow> nat \<Rightarrow> nat \<Rightarrow> exn \<Rightarrow> ('s, 'a) act \<Rightarrow> ('s, 'a) act" where
  "reserve_attempts aborts 0 i lastError m = throwA lastError"
| "reserve_attempts aborts (Suc n) i lastError m =
    catchA (attempt aborts i m)
      (\<lambda>e. if retryable e then reserve_attempts aborts n (Suc i) e m else throwA e)"

definition maxAttempts :: nat where
  "maxAttempts = 5"

definition requestPayoutAtomic ::
  "(nat \<Rightarrow> exn option) \<Rightarrow> string \<Rightarrow> int \<Rightarrow> string option \<Rightarrow> string option \<Rightarrow> ('z fin_db_scheme, payout_row) act" where
  "requestPayoutAtomic aborts shopId amount userId note =
    thenA (guardA (\<not> amount \<le> 0) (BadRequest ''Invalid amount''))
    (bindA (reserve_attempts aborts maxAttempts 0 (BadRequest ''Payout reservation failed'')
             (reservePayout_tx shopId amount userId note)) (\<lambda>row.
     thenA (emitA ''payout.requested'' (po_id row)) (returnA row)))"

definition requestPayout ::
  "(nat \<Rightarrow> exn option) \<Rightarrow> jwt_payload \<Rightarrow> int \<Rightarrow> string option \<Rightarrow> ('z fin_db_scheme, payout_row) act" where
  "requestPayout aborts user amount note =
    bindA (someA (merchantShop user) (Forbidden '''')) (\<lambda>shopId.
      requestPayoutAtomic aborts shopId amount (Some (sub user)) note)"

section \<open>The provider's side\<close>

text \<open>The note the services write: by whom, or what was there.\<close>

definition noteBy :: "string \<Rightarrow> string option \<Rightarrow> string option \<Rightarrow> string option" where
  "noteBy verb actorId old =
    (case or_else actorId None of Some a \<Rightarrow> Some (verb @ '' by '' @ a) | None \<Rightarrow> old)"

definition markPayoutProcessing :: "string \<Rightarrow> string option \<Rightarrow> ('z fin_db_scheme, payout_row) act" where
  "markPayoutProcessing payoutId actorId =
    bindA (getsA (\<lambda>s. find_row (\<lambda>p. po_id p = payoutId) (payouts s))) (\<lambda>found.
    bindA (someA found (NotFound '''')) (\<lambda>row.
    thenA (guardA (po_status row \<in> {PO_RESERVED, PO_APPROVED, PO_PENDING}) (BadRequest ''Invalid status''))
    (bindA (getsA clock) (\<lambda>now.
      updateRowA payouts payouts_update (\<lambda>p. po_id p = payoutId)
        (\<lambda>p. p\<lparr>po_status := PO_PROCESSING, po_processedAt := Some now,
               po_adminNote := noteBy ''processing'' actorId (po_adminNote row)\<rparr>)))))"

definition completePayout_tx ::
  "payout_row \<Rightarrow> string option \<Rightarrow> string option \<Rightarrow> ('z fin_db_scheme, payout_row) act" where
  "completePayout_tx row stripeTransferId actorId =
    txA
     (thenA
       (whenA (po_status row = PO_PENDING \<or> po_status row = PO_APPROVED)
         (bindA (getsA (getAvailableBalance (po_shopId row))) (\<lambda>available.
          thenA (guardA (\<not> available < po_amountCents row) (BadRequest ''Insufficient balance to complete''))
          (thenA (postPayoutReserve (po_id row) (po_shopId row) (po_amountCents row)) (returnA ())))))
     (thenA (postPayoutCompleted (po_id row) (po_shopId row) (po_amountCents row))
     (bindA (getsA clock) (\<lambda>now.
      bindA (updateRowA payouts payouts_update (\<lambda>p. po_id p = po_id row)
        (\<lambda>p. p\<lparr>po_status := PO_COMPLETED, po_completedAt := Some now,
               po_processedAt := (case po_processedAt row of None \<Rightarrow> Some now | Some t \<Rightarrow> Some t),
               po_stripeTransferId := or_else stripeTransferId (po_stripeTransferId row),
               po_adminNote := noteBy ''completed'' actorId (po_adminNote row)\<rparr>)) (\<lambda>updated.
      thenA (auditA actorId ''payout.completed'' ''PayoutRequest'' (Some (po_id row)))
        (returnA updated))))))"

definition completePayout ::
  "string \<Rightarrow> string option \<Rightarrow> string option \<Rightarrow> ('z fin_db_scheme, payout_row) act" where
  "completePayout payoutId stripeTransferId actorId =
    bindA (getsA (\<lambda>s. find_row (\<lambda>p. po_id p = payoutId) (payouts s))) (\<lambda>found.
    bindA (someA found (NotFound '''')) (\<lambda>row.
    if po_status row \<notin> {PO_RESERVED, PO_PROCESSING, PO_APPROVED, PO_PENDING} then
      (if po_status row \<in> {PO_COMPLETED, PO_PAID} then returnA row
       else throwA (BadRequest ''Cannot complete''))
    else
      bindA (completePayout_tx row stripeTransferId actorId) (\<lambda>updated.
      thenA (emitA ''payout.completed'' (po_id updated)) (returnA updated))))"

definition failPayout_tx ::
  "payout_row \<Rightarrow> string \<Rightarrow> string option \<Rightarrow> ('z fin_db_scheme, payout_row) act" where
  "failPayout_tx row reason actorId =
    txA
     (thenA
       (whenA (po_status row = PO_RESERVED \<or> po_status row = PO_PROCESSING)
         (thenA (releasePayoutReserve (po_id row) (po_shopId row) (po_amountCents row))
           (createA ledger_entries_update (legacyPayout (po_shopId row) (po_amountCents row)))))
     (bindA (updateRowA payouts payouts_update (\<lambda>p. po_id p = po_id row)
        (\<lambda>p. p\<lparr>po_status := PO_FAILED, po_failureReason := Some (take 500 reason),
               po_adminNote := noteBy ''failed'' actorId (po_adminNote row)\<rparr>)) (\<lambda>updated.
      thenA (auditA actorId ''payout.failed'' ''PayoutRequest'' (Some (po_id row)))
        (returnA updated))))"

definition failPayout :: "string \<Rightarrow> string \<Rightarrow> string option \<Rightarrow> ('z fin_db_scheme, payout_row) act" where
  "failPayout payoutId reason actorId =
    bindA (getsA (\<lambda>s. find_row (\<lambda>p. po_id p = payoutId) (payouts s))) (\<lambda>found.
    bindA (someA found (NotFound '''')) (\<lambda>row.
    thenA (guardA (po_status row \<notin> {PO_COMPLETED, PO_PAID, PO_FAILED, PO_CANCELLED}) (BadRequest ''Cannot fail''))
      (failPayout_tx row reason actorId)))"

section \<open>decidePayout\<close>

datatype decision = D_APPROVED | D_REJECTED | D_PAID

definition approvePending_tx :: "payout_row \<Rightarrow> string option \<Rightarrow> ('z fin_db_scheme, payout_row) act" where
  "approvePending_tx row adminNote =
    txA
     (bindA (getsA (getAvailableBalance (po_shopId row))) (\<lambda>available.
      thenA (guardA (\<not> available < po_amountCents row)
              (BadRequest (''Insufficient balance. Available: '' @ dec available)))
      (thenA (postPayoutReserve (po_id row) (po_shopId row) (po_amountCents row))
      (bindA (getsA clock) (\<lambda>now.
        updateRowA payouts payouts_update (\<lambda>p. po_id p = po_id row)
          (\<lambda>p. p\<lparr>po_status := PO_RESERVED, po_reservedAt := Some now,
                 po_adminNote := or_else adminNote None\<rparr>))))))"

definition decidePayout ::
  "jwt_payload \<Rightarrow> string \<Rightarrow> decision \<Rightarrow> string option \<Rightarrow> ('z fin_db_scheme, payout_row) act" where
  "decidePayout user i d adminNote =
    thenA (guardA (is_admin user) (Forbidden ''''))
    (bindA (getsA (\<lambda>s. find_row (\<lambda>p. po_id p = i) (payouts s))) (\<lambda>found.
     bindA (someA found (NotFound '''')) (\<lambda>row.
     case d of
       D_PAID \<Rightarrow> completePayout i None (Some (sub user))
     | D_REJECTED \<Rightarrow>
         if po_status row = PO_RESERVED \<or> po_status row = PO_PROCESSING then
           failPayout i (case or_else adminNote None of Some n \<Rightarrow> n | None \<Rightarrow> ''rejected'') (Some (sub user))
         else
           bindA (updateRowA payouts payouts_update (\<lambda>p. po_id p = i)
             (\<lambda>p. p\<lparr>po_status := PO_REJECTED, po_adminNote := or_else adminNote None\<rparr>)) (\<lambda>updated.
           thenA (auditA (Some (sub user)) ''payout.rejected'' ''PayoutRequest'' (Some i)) (returnA updated))
     | D_APPROVED \<Rightarrow>
         if po_status row = PO_PENDING then approvePending_tx row adminNote
         else
           bindA (updateRowA payouts payouts_update (\<lambda>p. po_id p = i)
             (\<lambda>p. p\<lparr>po_status := PO_APPROVED, po_adminNote := or_else adminNote None\<rparr>)) (\<lambda>updated.
           thenA (auditA (Some (sub user)) ''payout.approved'' ''PayoutRequest'' (Some i)) (returnA updated)))))"

end
