(* ===== verification/Finance_Facts.thy ===== *)
theory Finance_Facts
  imports Finance
begin

text \<open>
  What the payouts do to the books.  Every posting of the finance service keeps the ledger
  balanced (\<open>finance\<close>, an interpretation of \<open>invariant_component\<close>).  On the provider's path
  (request, processing, completion, failure) the reserved account of a shop holds exactly its open
  payouts, and what is payable, open or paid out to a shop is conserved (\<open>provider\<close>).
\<close>

section \<open>Frames\<close>

lemma ledger_frame [simp]:
  "ledger_ok (payouts_update f s) = ledger_ok s"
  "ledger_ok (ledger_entries_update g s) = ledger_ok s"
  "ledger_ok (audit_log_update h s) = ledger_ok s"
  "ledger_ok (emitted_update k s) = ledger_ok s"
  "ledger_ok (s\<lparr>next_id := n\<rparr>) = ledger_ok s"
  by (simp_all add: ledger_ok_def)

lemma balance_frame [simp]:
  "account_balance a sh (payouts_update f s) = account_balance a sh s"
  "account_balance a sh (ledger_entries_update g s) = account_balance a sh s"
  "account_balance a sh (audit_log_update h s) = account_balance a sh s"
  "account_balance a sh (emitted_update k s) = account_balance a sh s"
  "account_balance a sh (s\<lparr>next_id := n\<rparr>) = account_balance a sh s"
  by (simp_all add: account_balance_def posted_entries_def)

lemma posted_frame [simp]:
  "posted x y z (payouts_update f s) = posted x y z s"
  "posted x y z (ledger_entries_update g s) = posted x y z s"
  "posted x y z (audit_log_update h s) = posted x y z s"
  "posted x y z (emitted_update k s) = posted x y z s"
  "posted x y z (s\<lparr>next_id := n\<rparr>) = posted x y z s"
  by (simp_all add: posted_def)

text \<open>A posting touches the transactions and the supply of ids only.\<close>

lemma postTransaction_frame:
  assumes "postTransaction ty rty rid ccy es s = (Inr t, s')"
  shows "payouts s' = payouts s" "ledger_entries s' = ledger_entries s" "id_supply s' = id_supply s"
    "clock s' = clock s" "next_id s \<le> next_id s'" "audit_log s' = audit_log s" "outbox s' = outbox s"
  using postTransaction_ok [OF assms] by (auto simp: add_txn_def)

section \<open>The ledger stays balanced\<close>

lemma keeps_ledger_payment: "keeps ledger_ok (postPayment i a c sh ccy)"
  unfolding postPayment_def Let_def by (rule keeps_postTransaction)

lemma keeps_ledger_refund: "keeps ledger_ok (postRefund i a c sh ccy)"
  unfolding postRefund_def Let_def by (rule keeps_postTransaction)

lemma keeps_ledger_payout_postings:
  "keeps ledger_ok (postPayoutReserve i sh a)"
  "keeps ledger_ok (releasePayoutReserve i sh a)"
  "keeps ledger_ok (postPayoutCompleted i sh a)"
  unfolding postPayoutReserve_def releasePayoutReserve_def postPayoutCompleted_def
  by (rule keeps_postTransaction)+

lemmas ledger_intros = keeps_steps keeps_ledger_payment keeps_ledger_refund keeps_ledger_payout_postings
  keeps_newIdA keeps_createA keeps_updateRowA keeps_auditA keeps_emitA

lemma keeps_attempts: "keeps I (txA m) \<Longrightarrow> keeps I (reserve_attempts ab n i l m)"
  by (induction n arbitrary: i l) (auto simp: attempt_def intro!: keeps_steps)

lemma keeps_ledger_request: "keeps ledger_ok (requestPayoutAtomic ab sh a u n)"
  unfolding requestPayoutAtomic_def reservePayout_tx_def Let_def
  by (intro ledger_intros keeps_attempts) simp_all

lemma keeps_ledger_complete: "keeps ledger_ok (completePayout p t a)"
  unfolding completePayout_def completePayout_tx_def
  by (intro ledger_intros) simp_all

lemma keeps_ledger_fail: "keeps ledger_ok (failPayout p r a)"
  unfolding failPayout_def failPayout_tx_def
  by (intro ledger_intros) simp_all

lemma keeps_ledger_processing: "keeps ledger_ok (markPayoutProcessing p a)"
  unfolding markPayoutProcessing_def
  by (intro ledger_intros) simp_all

lemma keeps_decision:
  "keeps I m \<Longrightarrow> keeps I n \<Longrightarrow> keeps I k \<Longrightarrow>
   keeps I (case d of D_APPROVED \<Rightarrow> m | D_REJECTED \<Rightarrow> n | D_PAID \<Rightarrow> k)"
  by (simp split: decision.splits)

lemma keeps_ledger_decide: "keeps ledger_ok (decidePayout u i d n)"
  unfolding decidePayout_def approvePending_tx_def
  by (intro keeps_decision ledger_intros keeps_ledger_complete keeps_ledger_fail) simp_all

text \<open>The requests that move money.\<close>

datatype fin_op =
    Payment string int int string "string option"
  | Refund string int int string "string option"
  | Request "nat \<Rightarrow> exn option" jwt_payload int "string option"
  | Processing string "string option"
  | Complete string "string option" "string option"
  | Fail string string "string option"
  | Decide jwt_payload string decision "string option"

fun fin_exec :: "fin_op \<Rightarrow> ('z fin_db_scheme, unit) act" where
  "fin_exec (Payment i a c sh ccy) = thenA (postPayment i a c sh ccy) (returnA ())"
| "fin_exec (Refund i a c sh ccy) = thenA (postRefund i a c sh ccy) (returnA ())"
| "fin_exec (Request ab u a n) = thenA (requestPayout ab u a n) (returnA ())"
| "fin_exec (Processing p a) = thenA (markPayoutProcessing p a) (returnA ())"
| "fin_exec (Complete p t a) = thenA (completePayout p t a) (returnA ())"
| "fin_exec (Fail p r a) = thenA (failPayout p r a) (returnA ())"
| "fin_exec (Decide u i d n) = thenA (decidePayout u i d n) (returnA ())"

interpretation finance: invariant_component fin_exec ledger_ok
proof
  fix x :: fin_op
  show "keeps ledger_ok (fin_exec x :: ('a fin_db_scheme, unit) act)"
    by (cases x) (auto simp: requestPayout_def intro!: keeps_then keeps_return keeps_bind keeps_some
        keeps_ledger_payment keeps_ledger_refund keeps_ledger_request keeps_ledger_processing
        keeps_ledger_complete keeps_ledger_fail keeps_ledger_decide)
qed

section \<open>The retries of a request\<close>

text \<open>
  Whatever the database aborts, a request has either no effect at all or the effect of one run.
\<close>

lemma reserve_attempts_once:
  assumes "reserve_attempts ab n i l m s = (r, s')"
  shows "case r of Inl e \<Rightarrow> s' = s | Inr x \<Rightarrow> txA m s = (Inr x, s')"
  using assms
proof (induction n arbitrary: i l)
  case 0
  then show ?case by (auto simp: throwA_def)
next
  case (Suc n)
  show ?case
  proof (cases "ab i")
    case (Some e)
    with Suc show ?thesis
      by (auto simp: attempt_def catchA_def throwA_def split: if_splits)
  next
    case None
    show ?thesis
    proof (cases "txA m s")
      case (Pair q s1)
      with Suc None show ?thesis
        by (cases q) (auto simp: attempt_def catchA_def throwA_def dest!: txA_rollback split: if_splits)
    qed
  qed
qed

text \<open>An abort that may be tried again is tried again: the fifth attempt still counts.\<close>

lemma reserve_attempts_returns:
  assumes "\<forall>j < k. \<exists>e. ab (i + j) = Some e \<and> retryable e" and "ab (i + k) = None" and "k < n"
    and "txA m s = (Inr x, s')"
  shows "reserve_attempts ab n i l m s = (Inr x, s')"
  using assms
proof (induction k arbitrary: i n l)
  case 0
  then show ?case by (cases n) (auto simp: attempt_def catchA_def)
next
  case (Suc k)
  obtain n' where n: "n = Suc n'" using Suc.prems(3) by (cases n) auto
  obtain e where e: "ab i = Some e" "retryable e" using Suc.prems(1) by fastforce
  have "reserve_attempts ab n' (Suc i) e m s = (Inr x, s')"
  proof (rule Suc.IH)
    show "\<forall>j<k. \<exists>e. ab (Suc i + j) = Some e \<and> retryable e"
      using Suc.prems(1) by (metis Suc_less_eq add_Suc_right add_Suc_shift)
  qed (use Suc.prems n in auto)
  with e show ?case by (simp add: n attempt_def catchA_def throwA_def)
qed

end
