(* ===== verification/Payout_Funds.thy ===== *)
theory Payout_Funds
  imports Finance_Facts
begin

text \<open>
  Conservation of a shop's funds on the provider's path of a payout.  \<open>funds\<close> is what is payable
  to the shop plus its payouts that are open or completed; requests, processing, completions and
  failures keep it, and the reserved account of the shop holds exactly the open payouts.
\<close>

section \<open>The invariant\<close>

definition open_payout :: "string \<Rightarrow> payout_row \<Rightarrow> bool" where
  "open_payout sh p \<longleftrightarrow> po_shopId p = sh \<and> po_status p \<in> {PO_RESERVED, PO_PROCESSING}"

definition funds :: "string \<Rightarrow> 'z fin_db_scheme \<Rightarrow> int" where
  "funds sh s = account_balance VENDOR_PAYABLE (Some sh) s +
    sum_where (\<lambda>p. po_shopId p = sh \<and> po_status p \<in> {PO_RESERVED, PO_PROCESSING, PO_COMPLETED})
      po_amountCents (payouts s)"

text \<open>
  Payout ids are drawn from the supply and unique, payout postings belong to payouts, an open payout
  is neither released nor completed in the books, and the reserved account holds the open payouts.
\<close>

definition prov_inv :: "'z fin_db_scheme \<Rightarrow> bool" where
  "prov_inv s \<longleftrightarrow>
    inj (id_supply s) \<and> distinct (map po_id (payouts s)) \<and>
    (\<forall>p \<in> set (payouts s). po_id p \<in> id_supply s ` {..<next_id s} \<and> po_shopId p \<noteq> [] \<and> 0 < po_amountCents p \<and>
      po_status p \<in> {PO_RESERVED, PO_PROCESSING, PO_COMPLETED, PO_FAILED}) \<and>
    (\<forall>rty rid. posted FT_PAYOUT rty rid s \<longrightarrow> rid \<in> po_id ` set (payouts s)) \<and>
    (\<forall>p \<in> set (payouts s). po_status p \<in> {PO_RESERVED, PO_PROCESSING} \<longrightarrow>
      \<not> posted FT_PAYOUT ''PayoutRelease'' (po_id p) s \<and> \<not> posted FT_PAYOUT ''PayoutComplete'' (po_id p) s) \<and>
    (\<forall>sh. sh \<noteq> [] \<longrightarrow> account_balance VENDOR_AVAILABLE (Some sh) s =
      sum_where (open_payout sh) po_amountCents (payouts s))"

lemma shop_norm [simp]: "sh \<noteq> [] \<Longrightarrow> or_else (Some sh) y = Some sh"
  by (simp add: or_else_def)

lemma balanced_pair [simp]:
  "0 < n \<Longrightarrow> balanced [entry a sh DEBIT n, entry b sh' CREDIT n]"
  by (simp add: balanced_def signed_def)

lemma net_pair:
  "sh \<noteq> [] \<Longrightarrow> net a (Some sh') (map stored_entry [entry b (Some sh) DEBIT n, entry c (Some sh) CREDIT n]) =
    (if sh' = sh \<and> a = b then - n else 0) + (if sh' = sh \<and> a = c then n else 0)"
  by (simp add: net_def signed_def stored_entry_def)

lemma net_out:
  "sh \<noteq> [] \<Longrightarrow> net a (Some sh') (map stored_entry [entry b (Some sh) DEBIT n, entry c None CREDIT n]) =
    (if sh' = sh \<and> a = b then - n else 0)"
  by (simp add: net_def signed_def stored_entry_def)

section \<open>Changing one payout\<close>

text \<open>
  The common part of processing, completion and failure: the payout gets another status of the
  path, and the books change by what that takes from the reserved account.
\<close>

lemma prov_inv_move:
  fixes s s' :: "'z fin_db_scheme"
  assumes inv: "prov_inv s" and p: "p \<in> set (payouts s)" and open_p: "po_status p \<in> {PO_RESERVED, PO_PROCESSING}"
    and pay: "payouts s' = update_where (\<lambda>x. po_id x = po_id p) g (payouts s)"
    and g: "\<And>x. po_id (g x) = po_id x" "\<And>x. po_shopId (g x) = po_shopId x" "\<And>x. po_amountCents (g x) = po_amountCents x"
      "\<And>x. po_status (g x) = st"
    and st: "st \<in> {PO_PROCESSING, PO_COMPLETED, PO_FAILED}"
    and ids: "id_supply s' = id_supply s" "next_id s \<le> next_id s'"
    and post: "\<And>rty rid. posted FT_PAYOUT rty rid s' \<Longrightarrow> posted FT_PAYOUT rty rid s \<or> rid = po_id p \<and> st \<noteq> PO_PROCESSING"
    and avail: "\<And>sh. account_balance VENDOR_AVAILABLE (Some sh) s' = account_balance VENDOR_AVAILABLE (Some sh) s -
      (if sh = po_shopId p \<and> st \<noteq> PO_PROCESSING then po_amountCents p else 0)"
    and payable: "\<And>sh. account_balance VENDOR_PAYABLE (Some sh) s' = account_balance VENDOR_PAYABLE (Some sh) s +
      (if sh = po_shopId p \<and> st = PO_FAILED then po_amountCents p else 0)"
  shows "prov_inv s'" and "funds sh s' = funds sh s"
proof -
  have d: "distinct (map po_id (payouts s))" using inv by (simp add: prov_inv_def)
  note f = find_row_key [OF d p]
  have unique: "\<And>x. x \<in> set (payouts s) \<Longrightarrow> po_id x = po_id p \<Longrightarrow> x = p"
    using distinct_key_eq [OF d _ p] by blast
  have sum: "sum_where P po_amountCents (payouts s') = sum_where P po_amountCents (payouts s)
      - (if P p then po_amountCents p else 0) + (if P (g p) then po_amountCents p else 0)" for P
    using sum_where_update_key [OF d f, of P po_amountCents g] by (simp add: pay g)
  show "funds sh s' = funds sh s"
    using open_p st by (auto simp: funds_def sum payable g)
  have range: "id_supply s ` {..<next_id s} \<subseteq> id_supply s' ` {..<next_id s'}"
    using ids by auto
  show "prov_inv s'"
    unfolding prov_inv_def
  proof (intro conjI)
    show "inj (id_supply s')" using inv ids by (simp add: prov_inv_def)
    show "distinct (map po_id (payouts s'))" using d by (simp add: pay map_update_where g)
    show "\<forall>p \<in> set (payouts s'). po_id p \<in> id_supply s' ` {..<next_id s'} \<and> po_shopId p \<noteq> [] \<and> 0 < po_amountCents p \<and>
        po_status p \<in> {PO_RESERVED, PO_PROCESSING, PO_COMPLETED, PO_FAILED}"
    proof -
      have "\<forall>x \<in> set (payouts s). po_id x \<in> id_supply s' ` {..<next_id s'} \<and> po_shopId x \<noteq> [] \<and> 0 < po_amountCents x \<and>
          po_status x \<in> {PO_RESERVED, PO_PROCESSING, PO_COMPLETED, PO_FAILED}"
        using inv range unfolding prov_inv_def by blast
      moreover have "po_id (if b then g x else x) = po_id x \<and> po_shopId (if b then g x else x) = po_shopId x \<and>
          po_amountCents (if b then g x else x) = po_amountCents x \<and>
          po_status (if b then g x else x) = (if b then st else po_status x)" for b x
        by (simp add: g)
      ultimately show ?thesis using st unfolding pay ball_update_where by simp
    qed
    show "\<forall>rty rid. posted FT_PAYOUT rty rid s' \<longrightarrow> rid \<in> po_id ` set (payouts s')"
    proof (intro allI impI)
      fix rty rid assume "posted FT_PAYOUT rty rid s'"
      then have "posted FT_PAYOUT rty rid s \<or> rid = po_id p" using post by blast
      then have "rid \<in> po_id ` set (payouts s)" using inv p unfolding prov_inv_def by blast
      then show "rid \<in> po_id ` set (payouts s')" by (simp add: pay image_update_where g)
    qed
    show "\<forall>p \<in> set (payouts s'). po_status p \<in> {PO_RESERVED, PO_PROCESSING} \<longrightarrow>
      \<not> posted FT_PAYOUT ''PayoutRelease'' (po_id p) s' \<and> \<not> posted FT_PAYOUT ''PayoutComplete'' (po_id p) s'"
      unfolding pay ball_update_where
    proof (intro ballI impI)
      fix x assume x: "x \<in> set (payouts s)"
        and o: "po_status (if po_id x = po_id p then g x else x) \<in> {PO_RESERVED, PO_PROCESSING}"
      have id: "po_id (if po_id x = po_id p then g x else x) = po_id x" by (simp add: g)
      have ox: "po_status x \<in> {PO_RESERVED, PO_PROCESSING} \<and> (po_id x = po_id p \<longrightarrow> st = PO_PROCESSING)"
        using o st open_p unique [OF x] by (auto simp: g split: if_splits)
      have "\<not> posted FT_PAYOUT ''PayoutRelease'' (po_id x) s \<and> \<not> posted FT_PAYOUT ''PayoutComplete'' (po_id x) s"
        using inv x ox unfolding prov_inv_def by blast
      then have "\<not> posted FT_PAYOUT ''PayoutRelease'' (po_id x) s' \<and> \<not> posted FT_PAYOUT ''PayoutComplete'' (po_id x) s'"
        using post ox by blast
      then show "\<not> posted FT_PAYOUT ''PayoutRelease'' (po_id (if po_id x = po_id p then g x else x)) s' \<and>
        \<not> posted FT_PAYOUT ''PayoutComplete'' (po_id (if po_id x = po_id p then g x else x)) s'"
        unfolding id .
    qed
    show "\<forall>sh. sh \<noteq> [] \<longrightarrow> account_balance VENDOR_AVAILABLE (Some sh) s' =
        sum_where (open_payout sh) po_amountCents (payouts s')"
      using inv open_p st by (auto simp: prov_inv_def avail sum open_payout_def g)
  qed
qed

section \<open>The operations of the path\<close>

lemma reserve_effect:
  assumes "postPayoutReserve i sh n s = (Inr t, s')" and "sh \<noteq> []" and "\<not> posted FT_PAYOUT ''Payout'' i s"
  shows "account_balance a (Some sh') s' = account_balance a (Some sh') s +
      (if sh' = sh \<and> a = VENDOR_PAYABLE then - n else 0) + (if sh' = sh \<and> a = VENDOR_AVAILABLE then n else 0)"
    and "posted x y z s' \<longleftrightarrow> posted x y z s \<or> (x, y, z) = (FT_PAYOUT, ''Payout'', i)"
  using books.post_effect(1) [where k = "(FT_PAYOUT, ''Payout'', i)" and a = "(a, Some sh')", simplified,
      OF assms(1) [unfolded postPayoutReserve_def]]
    books.post_effect(2) [where k = "(FT_PAYOUT, ''Payout'', i)" and k' = "(x, y, z)", simplified,
      OF assms(1) [unfolded postPayoutReserve_def]] assms(3) net_pair [OF assms(2)]
  by auto

lemma release_effect:
  assumes "releasePayoutReserve i sh n s = (Inr t, s')" and "sh \<noteq> []" and "\<not> posted FT_PAYOUT ''PayoutRelease'' i s"
  shows "account_balance a (Some sh') s' = account_balance a (Some sh') s +
      (if sh' = sh \<and> a = VENDOR_AVAILABLE then - n else 0) + (if sh' = sh \<and> a = VENDOR_PAYABLE then n else 0)"
    and "posted x y z s' \<longleftrightarrow> posted x y z s \<or> (x, y, z) = (FT_PAYOUT, ''PayoutRelease'', i)"
  using books.post_effect(1) [where k = "(FT_PAYOUT, ''PayoutRelease'', i)" and a = "(a, Some sh')", simplified,
      OF assms(1) [unfolded releasePayoutReserve_def]]
    books.post_effect(2) [where k = "(FT_PAYOUT, ''PayoutRelease'', i)" and k' = "(x, y, z)", simplified,
      OF assms(1) [unfolded releasePayoutReserve_def]] assms(3) net_pair [OF assms(2)]
  by auto

lemma completed_effect:
  assumes "postPayoutCompleted i sh n s = (Inr t, s')" and "sh \<noteq> []" and "\<not> posted FT_PAYOUT ''PayoutComplete'' i s"
  shows "account_balance a (Some sh') s' = account_balance a (Some sh') s +
      (if sh' = sh \<and> a = VENDOR_AVAILABLE then - n else 0)"
    and "posted x y z s' \<longleftrightarrow> posted x y z s \<or> (x, y, z) = (FT_PAYOUT, ''PayoutComplete'', i)"
  using books.post_effect(1) [where k = "(FT_PAYOUT, ''PayoutComplete'', i)" and a = "(a, Some sh')", simplified,
      OF assms(1) [unfolded postPayoutCompleted_def]]
    books.post_effect(2) [where k = "(FT_PAYOUT, ''PayoutComplete'', i)" and k' = "(x, y, z)", simplified,
      OF assms(1) [unfolded postPayoutCompleted_def]] assms(3) net_out [OF assms(2)]
  by auto

text \<open>The books of the path, whole or by the change of one payout.\<close>

definition path_ok :: "(string \<Rightarrow> int) \<Rightarrow> 'z fin_db_scheme \<Rightarrow> bool" where
  "path_ok c s \<longleftrightarrow> prov_inv s \<and> (\<forall>sh. funds sh s = c sh)"

lemma path_frame [simp]:
  "path_ok c (emitted_update f s) = path_ok c s"
  "path_ok c (audit_log_update g s) = path_ok c s"
  by (simp_all add: path_ok_def prov_inv_def funds_def)

lemma path_move:
  fixes s s' :: "'z fin_db_scheme"
  assumes "path_ok c s" and "p \<in> set (payouts s)" "po_status p \<in> {PO_RESERVED, PO_PROCESSING}"
    and "payouts s' = update_where (\<lambda>x. po_id x = po_id p) g (payouts s)"
    and "\<And>x. po_id (g x) = po_id x" "\<And>x. po_shopId (g x) = po_shopId x" "\<And>x. po_amountCents (g x) = po_amountCents x"
      "\<And>x. po_status (g x) = st"
    and "st \<in> {PO_PROCESSING, PO_COMPLETED, PO_FAILED}"
    and "id_supply s' = id_supply s" "next_id s \<le> next_id s'"
    and "\<And>rty rid. posted FT_PAYOUT rty rid s' \<Longrightarrow> posted FT_PAYOUT rty rid s \<or> rid = po_id p \<and> st \<noteq> PO_PROCESSING"
    and "\<And>sh. account_balance VENDOR_AVAILABLE (Some sh) s' = account_balance VENDOR_AVAILABLE (Some sh) s -
      (if sh = po_shopId p \<and> st \<noteq> PO_PROCESSING then po_amountCents p else 0)"
    and "\<And>sh. account_balance VENDOR_PAYABLE (Some sh) s' = account_balance VENDOR_PAYABLE (Some sh) s +
      (if sh = po_shopId p \<and> st = PO_FAILED then po_amountCents p else 0)"
  shows "path_ok c s'"
proof -
  have "prov_inv s" using assms(1) by (simp add: path_ok_def)
  have "prov_inv s'"
    by (rule prov_inv_move(1) [of s p s' g st]) fact+
  moreover have "funds sh s' = funds sh s" for sh
    by (rule prov_inv_move(2) [of s p s' g st]) fact+
  ultimately show ?thesis using assms(1) by (simp add: path_ok_def)
qed

lemma path_payout:
  assumes "path_ok c s" and "find_row (\<lambda>p. po_id p = i) (payouts s) = Some row"
  shows "row \<in> set (payouts s)" "po_id row = i" "po_shopId row \<noteq> []" "0 < po_amountCents row"
    "po_status row \<in> {PO_RESERVED, PO_PROCESSING, PO_COMPLETED, PO_FAILED}"
    "po_status row \<in> {PO_RESERVED, PO_PROCESSING} \<Longrightarrow> \<not> posted FT_PAYOUT ''PayoutRelease'' i s"
    "po_status row \<in> {PO_RESERVED, PO_PROCESSING} \<Longrightarrow> \<not> posted FT_PAYOUT ''PayoutComplete'' i s"
  using assms(1) find_row_Some [OF assms(2)] unfolding path_ok_def prov_inv_def by blast+

lemma path_processing: "keeps (path_ok c) (markPayoutProcessing i a)"
proof (rule keepsI)
  fix s r s' assume inv: "path_ok c s" and run: "markPayoutProcessing i a s = (r, s')"
  show "path_ok c s'"
  proof (cases "\<exists>row. find_row (\<lambda>p. po_id p = i) (payouts s) = Some row \<and> po_status row = PO_RESERVED")
    case True
    then obtain row where row: "find_row (\<lambda>p. po_id p = i) (payouts s) = Some row" "po_status row = PO_RESERVED" by blast
    note p = path_payout [OF inv row(1)]
    let ?g = "\<lambda>p. p\<lparr>po_status := PO_PROCESSING, po_processedAt := Some (clock s),
               po_adminNote := noteBy ''processing'' a (po_adminNote row)\<rparr>"
    from run row have "s' = payouts_update (update_where (\<lambda>p. po_id p = i) ?g) s"
      by (simp add: markPayoutProcessing_def bindA_def thenA_def getsA_def someA_def guardA_def returnA_def updateRowA_def)
    then show ?thesis
      by (intro path_move [OF inv p(1), where g = ?g and st = PO_PROCESSING]) (use row p(2) in auto)
  next
    case False
    with run inv path_payout(5) [OF inv, of i] have "s' = s"
      by (cases "find_row (\<lambda>p. po_id p = i) (payouts s)")
        (auto simp: markPayoutProcessing_def bindA_def thenA_def getsA_def someA_def guardA_def returnA_def throwA_def)
    with inv show ?thesis by simp
  qed
qed

lemma path_complete: "keeps (path_ok c) (completePayout i t a)"
proof (rule keepsI)
  fix s r s' assume inv: "path_ok c s" and run: "completePayout i t a s = (r, s')"
  show "path_ok c s'"
  proof (cases "\<exists>row. find_row (\<lambda>p. po_id p = i) (payouts s) = Some row \<and> po_status row \<in> {PO_RESERVED, PO_PROCESSING}")
    case True
    then obtain row where row: "find_row (\<lambda>p. po_id p = i) (payouts s) = Some row"
        "po_status row \<in> {PO_RESERVED, PO_PROCESSING}" by blast
    note p = path_payout [OF inv row(1)]
    have keep: "path_ok c s1" if tx: "completePayout_tx row t a s = (q, s1)" for q s1
    proof (cases q)
      case (Inl e)
      with tx inv show ?thesis by (auto simp: completePayout_tx_def dest: txA_rollback)
    next
      case (Inr u)
      let ?g = "\<lambda>p. p\<lparr>po_status := PO_COMPLETED, po_completedAt := Some (clock s),
               po_processedAt := (case po_processedAt row of None \<Rightarrow> Some (clock s) | Some t \<Rightarrow> Some t),
               po_stripeTransferId := or_else t (po_stripeTransferId row),
               po_adminNote := noteBy ''completed'' a (po_adminNote row)\<rparr>"
      have cond: "po_status row = PO_RESERVED \<or> po_status row = PO_PROCESSING"
        "\<not> (po_status row = PO_PENDING \<or> po_status row = PO_APPROVED)" using row(2) by auto
      from tx [unfolded Inr] cond obtain b sb where b: "postPayoutCompleted (po_id row) (po_shopId row) (po_amountCents row) s = (Inr b, sb)"
        and s1: "\<exists>l. s1 = audit_log_update l (payouts_update (update_where (\<lambda>p. po_id p = po_id row)
          (\<lambda>p. p\<lparr>po_status := PO_COMPLETED, po_completedAt := Some (clock sb),
               po_processedAt := (case po_processedAt row of None \<Rightarrow> Some (clock sb) | Some t \<Rightarrow> Some t),
               po_stripeTransferId := or_else t (po_stripeTransferId row),
               po_adminNote := noteBy ''completed'' a (po_adminNote row)\<rparr>)) sb)"
        unfolding completePayout_tx_def txA_ok thenA_ok bindA_ok whenA_ok updateRowA_ok auditA_ok returnA_ok getsA_ok createA_ok
        by (simp only: if_True if_False simp_thms) blast
      note fr = postTransaction_frame [OF b [unfolded postPayoutCompleted_def]]
      note ef = completed_effect [OF b p(3) p(7) [OF row(2), folded p(2)]]
      show ?thesis
        by (rule path_move [OF inv p(1) row(2), where g = ?g and st = PO_COMPLETED])
          (use s1 [unfolded fr(4)] fr ef in auto)
    qed
    show ?thesis
    proof (cases "completePayout_tx row t a s")
      case (Pair q s1)
      with run row p(5) keep [OF Pair] show ?thesis
        by (cases q) (auto simp: completePayout_def bindA_def thenA_def getsA_def someA_def returnA_def emitA_def modifyA_def)
    qed
  next
    case False
    with run inv path_payout(5) [OF inv, of i] have "s' = s"
      by (cases "find_row (\<lambda>p. po_id p = i) (payouts s)")
        (auto simp: completePayout_def bindA_def thenA_def getsA_def someA_def returnA_def throwA_def)
    with inv show ?thesis by simp
  qed
qed

lemma path_fail: "keeps (path_ok c) (failPayout i reason a)"
proof (rule keepsI)
  fix s r s' assume inv: "path_ok c s" and run: "failPayout i reason a s = (r, s')"
  show "path_ok c s'"
  proof (cases "\<exists>row. find_row (\<lambda>p. po_id p = i) (payouts s) = Some row \<and> po_status row \<in> {PO_RESERVED, PO_PROCESSING}")
    case True
    then obtain row where row: "find_row (\<lambda>p. po_id p = i) (payouts s) = Some row"
        "po_status row \<in> {PO_RESERVED, PO_PROCESSING}" by blast
    note p = path_payout [OF inv row(1)]
    have keep: "path_ok c s1" if tx: "failPayout_tx row reason a s = (q, s1)" for q s1
    proof (cases q)
      case (Inl e)
      with tx inv show ?thesis by (auto simp: failPayout_tx_def dest: txA_rollback)
    next
      case (Inr u)
      let ?g = "\<lambda>p. p\<lparr>po_status := PO_FAILED, po_failureReason := Some (take 500 reason),
               po_adminNote := noteBy ''failed'' a (po_adminNote row)\<rparr>"
      have cond: "po_status row = PO_RESERVED \<or> po_status row = PO_PROCESSING"
        "\<not> (po_status row = PO_PENDING \<or> po_status row = PO_APPROVED)" using row(2) by auto
      from tx [unfolded Inr] cond obtain b sb where b: "releasePayoutReserve (po_id row) (po_shopId row) (po_amountCents row) s = (Inr b, sb)"
        and s1: "\<exists>l k. s1 = audit_log_update l (payouts_update (update_where (\<lambda>p. po_id p = po_id row)
          (\<lambda>p. p\<lparr>po_status := PO_FAILED, po_failureReason := Some (take 500 reason),
               po_adminNote := noteBy ''failed'' a (po_adminNote row)\<rparr>)) (ledger_entries_update k sb))"
        unfolding failPayout_tx_def txA_ok thenA_ok bindA_ok whenA_ok updateRowA_ok auditA_ok returnA_ok getsA_ok createA_ok
        by (simp only: if_True if_False simp_thms) blast
      note fr = postTransaction_frame [OF b [unfolded releasePayoutReserve_def]]
      note ef = release_effect [OF b p(3) p(6) [OF row(2), folded p(2)]]
      show ?thesis
        by (rule path_move [OF inv p(1) row(2), where g = ?g and st = PO_FAILED])
          (use s1 [unfolded fr(4)] fr ef in auto)
    qed
    show ?thesis
    proof (cases "failPayout_tx row reason a s")
      case (Pair q s1)
      with run row p(5) keep [OF Pair] show ?thesis
        by (cases q) (auto simp: failPayout_def bindA_def thenA_def getsA_def someA_def returnA_def guardA_def)
    qed
  next
    case False
    with run inv path_payout(5) [OF inv, of i] have "s' = s"
      by (cases "find_row (\<lambda>p. po_id p = i) (payouts s)")
        (auto simp: failPayout_def bindA_def thenA_def getsA_def someA_def returnA_def throwA_def guardA_def)
    with inv show ?thesis by simp
  qed
qed

text \<open>A request adds an open payout under a fresh id.\<close>

lemma reservePayout_tx_okE:
  assumes "reservePayout_tx sh n u nt s = (Inr row, s')"
  obtains b sb l k where
    "n \<le> getAvailableBalance sh s"
    "row = \<lparr>po_id = id_supply s (next_id s), po_shopId = sh, po_amountCents = n, po_status = PO_RESERVED,
        po_note = or_else nt None, po_adminNote = None, po_reservedAt = Some (clock s), po_processedAt = None,
        po_completedAt = None, po_failureReason = None, po_stripeTransferId = None,
        po_requestedById = or_else u None\<rparr>"
    "postPayoutReserve (po_id row) sh n (payouts_update (\<lambda>t. t @ [row]) (s\<lparr>next_id := Suc (next_id s)\<rparr>)) = (Inr b, sb)"
    "s' = audit_log_update l (ledger_entries_update k sb)"
  using assms
  unfolding reservePayout_tx_def bindA_ok thenA_ok getsA_ok guardA_ok newIdA_ok Let_def createA_ok auditA_ok returnA_ok
  by (auto simp: not_less)

lemma path_request_tx:
  assumes inv: "path_ok c s" and run: "reservePayout_tx sh n u nt s = (Inr row, s')" and pos: "0 < n" and sh: "sh \<noteq> []"
  shows "path_ok c s'"
proof -
  obtain b sb l k where row: "row = \<lparr>po_id = id_supply s (next_id s), po_shopId = sh, po_amountCents = n, po_status = PO_RESERVED,
        po_note = or_else nt None, po_adminNote = None, po_reservedAt = Some (clock s), po_processedAt = None,
        po_completedAt = None, po_failureReason = None, po_stripeTransferId = None,
        po_requestedById = or_else u None\<rparr>"
    and b: "postPayoutReserve (po_id row) sh n (payouts_update (\<lambda>t. t @ [row]) (s\<lparr>next_id := Suc (next_id s)\<rparr>)) = (Inr b, sb)"
    and s': "s' = audit_log_update l (ledger_entries_update k sb)"
    by (rule reservePayout_tx_okE [OF run])
  have P: "prov_inv s" using inv by (simp add: path_ok_def)
  have fresh: "po_id row \<notin> po_id ` set (payouts s)"
  proof
    assume "po_id row \<in> po_id ` set (payouts s)"
    then have "id_supply s (next_id s) \<in> id_supply s ` {..<next_id s}"
      using P unfolding prov_inv_def row by auto
    moreover have "inj (id_supply s)" using P by (simp add: prov_inv_def)
    ultimately show False by (simp add: inj_image_mem_iff)
  qed
  then have np: "\<not> posted FT_PAYOUT rty (po_id row) s" for rty
    using P by (auto simp: prov_inv_def)
  note fr = postTransaction_frame [OF b [unfolded postPayoutReserve_def], simplified]
  note ef = reserve_effect [OF b sh, simplified, OF np]
  have pay: "payouts s' = payouts s @ [row]" by (simp add: s' fr)
  have ids: "id_supply s' = id_supply s" "Suc (next_id s) \<le> next_id s'"
    using fr by (simp_all add: s')
  have "prov_inv s'"
    unfolding prov_inv_def
  proof (intro conjI)
    show "inj (id_supply s')" using P ids by (simp add: prov_inv_def)
    show "distinct (map po_id (payouts s'))" using P fresh by (simp add: pay prov_inv_def)
    have new: "po_id row \<in> id_supply s' ` {..<next_id s'}" using ids by (auto simp: row)
    have old: "id_supply s ` {..<next_id s} \<subseteq> id_supply s' ` {..<next_id s'}" using ids by auto
    show "\<forall>p \<in> set (payouts s'). po_id p \<in> id_supply s' ` {..<next_id s'} \<and> po_shopId p \<noteq> [] \<and> 0 < po_amountCents p \<and>
        po_status p \<in> {PO_RESERVED, PO_PROCESSING, PO_COMPLETED, PO_FAILED}"
    proof -
      have "\<forall>p \<in> set (payouts s). po_id p \<in> id_supply s' ` {..<next_id s'} \<and> po_shopId p \<noteq> [] \<and> 0 < po_amountCents p \<and>
          po_status p \<in> {PO_RESERVED, PO_PROCESSING, PO_COMPLETED, PO_FAILED}"
        using P old unfolding prov_inv_def by blast
      moreover have "po_shopId row \<noteq> [] \<and> 0 < po_amountCents row \<and> po_status row = PO_RESERVED"
        using pos sh by (simp add: row)
      ultimately show ?thesis using new by (simp add: pay)
    qed
    show "\<forall>rty rid. posted FT_PAYOUT rty rid s' \<longrightarrow> rid \<in> po_id ` set (payouts s')"
      using P by (simp add: s' ef(2) fr prov_inv_def)
    show "\<forall>p \<in> set (payouts s'). po_status p \<in> {PO_RESERVED, PO_PROCESSING} \<longrightarrow>
        \<not> posted FT_PAYOUT ''PayoutRelease'' (po_id p) s' \<and> \<not> posted FT_PAYOUT ''PayoutComplete'' (po_id p) s'"
      using P np by (simp add: s' ef(2) fr prov_inv_def)
    show "\<forall>shp. shp \<noteq> [] \<longrightarrow> account_balance VENDOR_AVAILABLE (Some shp) s' =
        sum_where (open_payout shp) po_amountCents (payouts s')"
      using P unfolding pay by (simp add: s' ef(1) prov_inv_def open_payout_def row)
  qed
  moreover have "funds shp s' = funds shp s" for shp
    by (simp add: funds_def pay) (simp add: s' ef(1) row)
  ultimately show ?thesis using inv by (simp add: path_ok_def)
qed

lemma requestPayoutAtomic_outcome:
  assumes "requestPayoutAtomic ab sh n u nt s = (r, s')"
  shows "case r of Inl e \<Rightarrow> s' = s
    | Inr row \<Rightarrow> 0 < n \<and> (\<exists>s1. reservePayout_tx sh n u nt s = (Inr row, s1) \<and>
        s' = emitted_update (\<lambda>t. t @ [(''payout.requested'', po_id row)]) s1)"
proof (cases "n \<le> 0")
  case True
  with assms show ?thesis by (auto simp: requestPayoutAtomic_def thenA_def bindA_def guardA_def throwA_def)
next
  case False
  obtain q s1 where q: "reserve_attempts ab maxAttempts 0 (BadRequest ''Payout reservation failed'')
      (reservePayout_tx sh n u nt) s = (q, s1)" by fastforce
  from reserve_attempts_once [OF this] assms False q show ?thesis
    by (cases q) (auto simp: requestPayoutAtomic_def thenA_def bindA_def guardA_def returnA_def emitA_def modifyA_def txA_ok)
qed

lemma path_request: "sh \<noteq> [] \<Longrightarrow> keeps (path_ok c) (requestPayoutAtomic ab sh n u nt)"
proof (rule keepsI)
  fix s r s' assume "sh \<noteq> []" "path_ok c s" "requestPayoutAtomic ab sh n u nt s = (r, s')"
  with requestPayoutAtomic_outcome [of ab sh n u nt s r s'] show "path_ok c s'"
    by (cases r) (auto intro: path_request_tx)
qed

section \<open>Histories of the path\<close>

datatype path_op =
    AskPayout "nat \<Rightarrow> exn option" jwt_payload int "string option"
  | Transfer string "string option"
  | Succeeded string "string option" "string option"
  | Failed string string "string option"

fun path_exec :: "path_op \<Rightarrow> ('z fin_db_scheme, unit) act" where
  "path_exec (AskPayout ab u n nt) = thenA (requestPayout ab u n nt) (returnA ())"
| "path_exec (Transfer i a) = thenA (markPayoutProcessing i a) (returnA ())"
| "path_exec (Succeeded i t a) = thenA (completePayout i t a) (returnA ())"
| "path_exec (Failed i r a) = thenA (failPayout i r a) (returnA ())"

interpretation provider: invariant_component path_exec "path_ok c" for c
proof
  fix x :: path_op
  have req: "keeps (path_ok c) (requestPayout ab u n nt)" for ab u n nt
  proof (cases "merchantShop u")
    case None
    then show ?thesis by (simp add: requestPayout_def keeps_def bindA_def someA_def throwA_def)
  next
    case (Some sh)
    then have "sh \<noteq> []" by (auto simp: merchantShop_def split: if_splits)
    then have "keeps (path_ok c) (requestPayoutAtomic ab sh n (Some (sub u)) nt)" by (rule path_request)
    with Some show ?thesis
      by (simp add: requestPayout_def keeps_def bindA_def someA_def returnA_def)
  qed
  show "keeps (path_ok c) (path_exec x)"
    by (cases x) (auto intro!: keeps_then keeps_return req path_processing path_complete path_fail)
qed

end
