(* ===== verification/Money_Claims.thy ===== *)
theory Money_Claims
  imports Payout_Funds Samples
begin

text \<open>
  The properties of the ledger and of payouts.
\<close>

lemma demo_db_books [simp]:
  "fin_txns demo_db = []" "payouts demo_db = []" "posted x y z demo_db = False" "account_balance a sh demo_db = 0"
  "deCount shop demo_db = 0"
  by (simp_all add: sample_defs posted_def account_balance_def posted_entries_def net_def deCount_def)

section \<open>Posting\<close>

text \<open>
  The three outcomes of a posting.  Entries that do not balance (or are empty or not positive) are
  refused and nothing is written; a reference that is already posted returns the posted transaction and
  writes nothing; otherwise the entries are added, and every account of every shop changes by exactly
  the net amount of its entries.
\<close>

theorem posting_outcome:
  assumes "postTransaction ty rty rid ccy es s = (r, s')"
  shows "if \<not> balanced es then (\<exists>m. r = Inl (BadRequest m)) \<and> s' = s
    else if posted ty rty rid s then (\<exists>t \<in> set (fin_txns s). r = Inr t \<and> posting_of ty rty rid t) \<and> s' = s
    else (\<exists>t. r = Inr t \<and> fin_txns s' = fin_txns s @ [t]) \<and> posted ty rty rid s' \<and>
      (\<forall>a sh. account_balance a sh s' = account_balance a sh s + net a sh (map stored_entry es))"
proof (cases "balanced es")
  case False
  with postTransaction_bad [OF this, of ty rty rid ccy s] assms show ?thesis by auto
next
  case True
  show ?thesis
  proof (cases "posted ty rty rid s")
    case True
    with postTransaction_old [OF \<open>balanced es\<close> this, of ccy] \<open>balanced es\<close> assms show ?thesis by auto
  next
    case False
    with postTransaction_new [OF \<open>balanced es\<close> this, of ccy] assms have
      "r = Inr (new_txn ty rty rid ccy es s)" "s' = add_txn (new_txn ty rty rid ccy es s) s" by auto
    with \<open>balanced es\<close> False show ?thesis
      by (simp add: posted_add_txn account_balance_add) (simp add: add_txn_def)
  qed
qed

abbreviation demo_sale :: "entry_row list" where
  "demo_sale \<equiv> [entry PLATFORM_CLEARING None DEBIT 100, entry VENDOR_PAYABLE (Some ''s1'') CREDIT 100]"

theorem posting_outcome_witness:
  "account_balance VENDOR_PAYABLE (Some ''s1'') (snd (postTransaction FT_PAYMENT ''Order'' ''o1'' None demo_sale demo_db)) =
    account_balance VENDOR_PAYABLE (Some ''s1'') demo_db + 100"
proof (cases "postTransaction FT_PAYMENT ''Order'' ''o1'' None demo_sale demo_db")
  case (Pair r s')
  moreover have "net VENDOR_PAYABLE (Some ''s1'') (map stored_entry demo_sale) = 100"
    by (simp add: net_def signed_def stored_entry_def)
  ultimately show ?thesis
    using posting_outcome [of FT_PAYMENT "''Order''" "''o1''" None demo_sale demo_db r s'] by auto
qed

text \<open>
  C5.  After any sequence of payments, refunds, payout requests, transfers, completions, failures and
  decisions by administrators, with any aborts by the database, every transaction of the double-entry
  ledger is balanced, no reference is posted twice, and the posted entries sum to zero.
\<close>

theorem books_always_balance:
  assumes "ledger_ok s"
  shows "ledger_ok (run_all fin_exec ops s) \<and>
    sum_list (map signed (posted_entries (run_all fin_exec ops s))) = 0"
  using finance.history_keeps [OF assms] ledger_trial_balance by blast

theorem books_always_balance_witness:
  "sum_list (map signed (posted_entries (run_all fin_exec
    [Payment ''o1'' 1000 100 ''s1'' None, Request (\<lambda>_. None) demo_merchant 500 None] demo_db))) = 0"
proof -
  have "ledger_ok demo_db" by (simp add: ledger_ok_def)
  from books_always_balance [OF this] show ?thesis by blast
qed

section \<open>Payments and refunds in the books\<close>

definition cut_commission :: "int \<Rightarrow> int \<Rightarrow> int" where
  "cut_commission amount c = (if amount < max 0 c then amount else max 0 c)"

text \<open>The entries of a payment, and those of a refund: the same with the sides exchanged.\<close>

definition sale_entries :: "direction \<Rightarrow> direction \<Rightarrow> int \<Rightarrow> int \<Rightarrow> string \<Rightarrow> entry_row list" where
  "sale_entries d k amount c sh =
    [entry PLATFORM_CLEARING None d amount]
     @ (if 0 < amount - cut_commission amount c then [entry VENDOR_PAYABLE (Some sh) k (amount - cut_commission amount c)] else [])
     @ (if 0 < cut_commission amount c then [entry PLATFORM_COMMISSION None k (cut_commission amount c)] else [])"

lemma postPayment_entries:
  "postPayment i amount c sh ccy = postTransaction FT_PAYMENT ''Order'' i ccy (sale_entries DEBIT CREDIT amount c sh)"
  by (simp add: postPayment_def sale_entries_def Let_def cut_commission_def)

lemma postRefund_entries:
  "postRefund i amount c sh ccy = postTransaction FT_REFUND ''Refund'' i ccy (sale_entries CREDIT DEBIT amount c sh)"
  by (simp add: postRefund_def sale_entries_def Let_def cut_commission_def)

lemma cut_bounds: "0 < amount \<Longrightarrow> 0 \<le> cut_commission amount c \<and> cut_commission amount c \<le> amount"
  by (auto simp: cut_commission_def)

lemma balanced_sale:
  "0 < amount \<Longrightarrow> balanced (sale_entries DEBIT CREDIT amount c sh)"
  "0 < amount \<Longrightarrow> balanced (sale_entries CREDIT DEBIT amount c sh)"
  using cut_bounds [of amount c] by (auto simp: sale_entries_def balanced_def signed_def)

lemma net_sale:
  assumes "0 < amount" and "sh \<noteq> []"
  shows "net VENDOR_PAYABLE (Some sh) (map stored_entry (sale_entries DEBIT CREDIT amount c sh)) = amount - cut_commission amount c"
    "net PLATFORM_COMMISSION None (map stored_entry (sale_entries DEBIT CREDIT amount c sh)) = cut_commission amount c"
    "net PLATFORM_CLEARING None (map stored_entry (sale_entries DEBIT CREDIT amount c sh)) = - amount"
  using cut_bounds [of amount c] assms by (auto simp: sale_entries_def net_def signed_def stored_entry_def)

lemma net_refund:
  "net a sh' (map stored_entry (sale_entries CREDIT DEBIT amount c sh)) =
    - net a sh' (map stored_entry (sale_entries DEBIT CREDIT amount c sh))"
  by (auto simp: sale_entries_def net_def signed_def stored_entry_def)

text \<open>
  A payment of a positive amount that was not posted before is posted; it credits the shop with the
  amount less the commission and the platform with the commission, the commission cut to the range
  from zero to the amount; posting it again changes nothing.
\<close>

theorem payment_splits_amount:
  assumes "0 < amount" and "sh \<noteq> []" and "\<not> posted FT_PAYMENT ''Order'' i s"
  shows "\<exists>t s'. postPayment i amount c sh ccy s = (Inr t, s') \<and>
    account_balance VENDOR_PAYABLE (Some sh) s' =
      account_balance VENDOR_PAYABLE (Some sh) s + (amount - min amount (max 0 c)) \<and>
    account_balance PLATFORM_COMMISSION None s' =
      account_balance PLATFORM_COMMISSION None s + min amount (max 0 c) \<and>
    account_balance PLATFORM_CLEARING None s' = account_balance PLATFORM_CLEARING None s - amount \<and>
    (\<exists>t'. postPayment i amount c sh ccy s' = (Inr t', s'))"
proof -
  let ?es = "sale_entries DEBIT CREDIT amount c sh"
  let ?t = "new_txn FT_PAYMENT ''Order'' i ccy ?es s"
  have b: "balanced ?es" using assms(1) by (rule balanced_sale)
  have "posted FT_PAYMENT ''Order'' i (add_txn ?t s)" by (simp add: posted_add_txn)
  from postTransaction_old [OF b this, of ccy] postTransaction_new [OF b assms(3), of ccy] net_sale [OF assms(1,2), of c]
  show ?thesis
    by (intro exI [of _ ?t] exI [of _ "add_txn ?t s"])
      (auto simp: postPayment_entries account_balance_add cut_commission_def min_def)
qed

theorem payment_splits_amount_witness:
  "\<exists>t s'. postPayment ''o1'' 1000 100 ''s1'' None demo_db = (Inr t, s') \<and>
    account_balance VENDOR_PAYABLE (Some ''s1'') s' = 900"
  using payment_splits_amount [of 1000 "''s1''" "''o1''" demo_db 100 None]
  by auto

text \<open>
  A full refund with the commission of the payment takes the payment back: after the payment and
  the refund, both new to the books, every account of every shop has the balance it had before.
\<close>

theorem refund_takes_payment_back:
  assumes "\<not> posted FT_PAYMENT ''Order'' i s" and "\<not> posted FT_REFUND ''Refund'' j s"
    and "postPayment i amount c sh ccy s = (Inr t1, s1)" and "postRefund j amount c sh ccy s1 = (Inr t2, s2)"
  shows "account_balance a sh' s2 = account_balance a sh' s"
  using books.post_opposite [where k = "(FT_PAYMENT, ''Order'', i)" and ?k2.0 = "(FT_REFUND, ''Refund'', j)"
      and a = "(a, sh')" and ccy = ccy and s = s and ?s1.0 = s1 and ?s2.0 = s2] assms net_refund
  by (simp add: postPayment_entries postRefund_entries)

theorem refund_takes_payment_back_witness:
  "\<exists>t1 s1 t2 s2. postPayment ''o1'' 1000 100 ''s1'' None demo_db = (Inr t1, s1) \<and>
    postRefund ''r1'' 1000 100 ''s1'' None s1 = (Inr t2, s2) \<and> account_balance VENDOR_PAYABLE (Some ''s1'') s2 = 0"
proof -
  obtain t1 s1 where p: "postPayment ''o1'' 1000 100 ''s1'' None demo_db = (Inr t1, s1)"
    using books.post_returns [where k = "(FT_PAYMENT, ''Order'', ''o1'')" and ccy = None and s = demo_db,
        OF balanced_sale(1) [of 1000 100 "''s1''"]] by (auto simp: postPayment_entries)
  obtain t2 s2 where r: "postRefund ''r1'' 1000 100 ''s1'' None s1 = (Inr t2, s2)"
    using books.post_returns [where k = "(FT_REFUND, ''Refund'', ''r1'')" and ccy = None and s = s1,
        OF balanced_sale(2) [of 1000 100 "''s1''"]] by (auto simp: postRefund_entries)
  from refund_takes_payment_back [OF _ _ p r, of VENDOR_PAYABLE "Some ''s1''"] p r show ?thesis by auto
qed

section \<open>Asking for a payout\<close>

lemma fresh_payout: "prov_inv s \<Longrightarrow> \<not> posted FT_PAYOUT rty (id_supply s (next_id s)) s"
proof -
  assume P: "prov_inv s"
  have "id_supply s (next_id s) \<notin> po_id ` set (payouts s)"
  proof
    assume "id_supply s (next_id s) \<in> po_id ` set (payouts s)"
    then have "id_supply s (next_id s) \<in> id_supply s ` {..<next_id s}"
      using P unfolding prov_inv_def by auto
    moreover have "inj (id_supply s)" using P by (simp add: prov_inv_def)
    ultimately show False by (simp add: inj_image_mem_iff)
  qed
  then show "\<not> posted FT_PAYOUT rty (id_supply s (next_id s)) s"
    using P by (auto simp: prov_inv_def)
qed

lemma deCount_posting:
  assumes "postTransaction ty rty rid ccy es s = (Inr t, s')" and "\<not> posted ty rty rid s"
  shows "deCount sh s' = deCount sh s + count_where (\<lambda>e. fe_shopId e = Some sh \<and> fe_account e = VENDOR_PAYABLE) (map stored_entry es)"
  using postTransaction_ok [OF assms(1)] assms(2) by (simp add: deCount_def add_txn_def new_txn_def)

lemma deCount_frame [simp]:
  "deCount sh (payouts_update f s) = deCount sh s" "deCount sh (ledger_entries_update g s) = deCount sh s"
  "deCount sh (audit_log_update h s) = deCount sh s" "deCount sh (emitted_update k s) = deCount sh s"
  "deCount sh (s\<lparr>next_id := n\<rparr>) = deCount sh s"
  by (simp_all add: deCount_def)

lemma payable_zero: "deCount sh s = 0 \<Longrightarrow> account_balance VENDOR_PAYABLE (Some sh) s = 0"
  by (force simp: deCount_def count_where_zero account_balance_def posted_entries_def net_def intro!: sum_where_none)

lemma requestPayout_effect:
  assumes P: "prov_inv s" and sh: "merchantShop u = Some sh" and run: "requestPayout ab u n nt s = (Inr row, s')"
  shows "0 < n" "n \<le> getAvailableBalance sh s" "payouts s' = payouts s @ [row]"
    "po_shopId row = sh \<and> po_amountCents row = n \<and> po_status row = PO_RESERVED"
    "deCount sh s' = Suc (deCount sh s)"
    "account_balance VENDOR_PAYABLE (Some sh) s' = account_balance VENDOR_PAYABLE (Some sh) s - n"
    "account_balance VENDOR_AVAILABLE (Some sh) s' = account_balance VENDOR_AVAILABLE (Some sh) s + n"
proof -
  have ne: "sh \<noteq> []" using sh by (auto simp: merchantShop_def split: if_splits)
  from run sh have "requestPayoutAtomic ab sh n (Some (sub u)) nt s = (Inr row, s')"
    by (simp add: requestPayout_def ok_simps)
  from requestPayoutAtomic_outcome [OF this] obtain s1 where n: "0 < n"
    and tx: "reservePayout_tx sh n (Some (sub u)) nt s = (Inr row, s1)"
    and s': "s' = emitted_update (\<lambda>t. t @ [(''payout.requested'', po_id row)]) s1" by auto
  from tx obtain b sb l k where le: "n \<le> getAvailableBalance sh s"
    and row: "po_id row = id_supply s (next_id s)" "po_shopId row = sh \<and> po_amountCents row = n \<and> po_status row = PO_RESERVED"
    and b: "postPayoutReserve (po_id row) sh n (payouts_update (\<lambda>t. t @ [row]) (s\<lparr>next_id := Suc (next_id s)\<rparr>)) = (Inr b, sb)"
    and s1: "s1 = audit_log_update l (ledger_entries_update k sb)"
    by (elim reservePayout_tx_okE) auto
  have np: "\<not> posted FT_PAYOUT ''Payout'' (po_id row) (payouts_update (\<lambda>t. t @ [row]) (s\<lparr>next_id := Suc (next_id s)\<rparr>))"
    using fresh_payout [OF P] by (simp add: row)
  note fr = postTransaction_frame [OF b [unfolded postPayoutReserve_def]]
  note ef = reserve_effect(1) [OF b ne np]
  note de = deCount_posting [OF b [unfolded postPayoutReserve_def] np, of sh]
  show "0 < n" "n \<le> getAvailableBalance sh s" by fact+
  show "payouts s' = payouts s @ [row]" by (simp add: s' s1 fr)
  show "po_shopId row = sh \<and> po_amountCents row = n \<and> po_status row = PO_RESERVED" by fact
  show "deCount sh s' = Suc (deCount sh s)" using de ne by (simp add: s' s1)
  show "account_balance VENDOR_PAYABLE (Some sh) s' = account_balance VENDOR_PAYABLE (Some sh) s - n"
    "account_balance VENDOR_AVAILABLE (Some sh) s' = account_balance VENDOR_AVAILABLE (Some sh) s + n"
    by (simp_all add: s' s1 ef)
qed

text \<open>
  C4.  A merchant's payout request never overdraws, where all payouts so far went the provider's path
  (\<open>prov_inv\<close>): when it returns, the amount was positive and available, a reserved payout of that amount was
  added, and the amount stands in the shop's reserved account.  The available balance is lower by exactly the
  amount for a shop that has entries in the double-entry ledger already; for a shop whose earnings are only
  in the older single-entry ledger it is zero, the rest of its earnings is out of reach from then on.  When the
  request throws, nothing has changed, whatever attempts the database aborted.
\<close>

theorem payout_never_overdraws:
  assumes "prov_inv s" and "merchantShop u = Some sh"
    and "requestPayout ab u n nt s = (r, s')"
  shows "case r of Inl e \<Rightarrow> s' = s
    | Inr row \<Rightarrow> 0 < n \<and> n \<le> getAvailableBalance sh s \<and> payouts s' = payouts s @ [row] \<and>
        po_amountCents row = n \<and> po_status row = PO_RESERVED \<and>
        getAvailableBalance sh s' = (if 0 < deCount sh s then getAvailableBalance sh s - n else 0) \<and>
        account_balance VENDOR_AVAILABLE (Some sh) s' = account_balance VENDOR_AVAILABLE (Some sh) s + n"
proof (cases r)
  case (Inl e)
  with assms(2,3) requestPayoutAtomic_outcome [of ab sh n "Some (sub u)" nt s r s'] show ?thesis
    by (simp add: requestPayout_def bindA_def someA_def returnA_def)
next
  case (Inr row)
  note e = requestPayout_effect [OF assms(1,2) assms(3) [unfolded Inr]]
  show ?thesis
  proof (cases "deCount sh s = 0")
    case True
    with e payable_zero [OF True] show ?thesis by (simp add: Inr getAvailableBalance_def vendorPayable_account)
  next
    case False
    with e show ?thesis by (simp add: Inr getAvailableBalance_def vendorPayable_account)
  qed
qed

lemma reservePayout_tx_returns:
  assumes "0 < n" and "n \<le> getAvailableBalance sh s"
  shows "\<exists>row s'. reservePayout_tx sh n u nt s = (Inr row, s')"
proof -
  have "\<exists>t s'. postPayoutReserve i sh n x = (Inr t, s')" for i and x :: "'a fin_db_scheme"
    using books.post_returns [where k = "(FT_PAYOUT, ''Payout'', i)" and ccy = None and s = x, simplified, OF balanced_pair [OF assms(1)]]
    unfolding postPayoutReserve_def by blast
  then show ?thesis
    unfolding reservePayout_tx_def bindA_ok thenA_ok getsA_ok guardA_ok newIdA_ok Let_def createA_ok auditA_ok returnA_ok
    using assms(2) by (fastforce simp: not_less)
qed

lemma requestPayout_run:
  assumes "merchantShop u = Some sh" and "0 < n" and "reservePayout_tx sh n (Some (sub u)) nt s = (Inr row, s1)"
    and "k < maxAttempts" and "\<forall>j < k. \<exists>e. ab j = Some e \<and> retryable e" and "ab k = None"
  shows "requestPayout ab u n nt s = (Inr row, emitted_update (\<lambda>t. t @ [(''payout.requested'', po_id row)]) s1)"
proof -
  have "reserve_attempts ab maxAttempts 0 e (reservePayout_tx sh n (Some (sub u)) nt) s = (Inr row, s1)" for e
    using assms(3-6) by (intro reserve_attempts_returns [of k]) (simp_all add: txA_ok)
  then show ?thesis
    using assms(1,2) by (simp add: requestPayout_def requestPayoutAtomic_def ok_simps)
qed

text \<open>
  A request the shop can afford is not lost to aborted transactions: when the database aborts fewer
  than five attempts in a row, each with an error the loop tries again after, the request returns, with
  the payout and the state of a request that was not disturbed.
\<close>

theorem payout_survives_aborts:
  assumes "merchantShop u = Some sh" and "0 < n" and "n \<le> getAvailableBalance sh s"
    and "k < maxAttempts" and "\<forall>j < k. \<exists>e. ab j = Some e \<and> retryable e" and "ab k = None"
  shows "\<exists>row s'. requestPayout ab u n nt s = (Inr row, s') \<and> requestPayout (\<lambda>_. None) u n nt s = (Inr row, s')"
proof -
  from reservePayout_tx_returns [OF assms(2,3)] obtain row s1 where
    tx: "reservePayout_tx sh n (Some (sub u)) nt s = (Inr row, s1)" by blast
  from requestPayout_run [OF assms(1,2) tx assms(4-6)] requestPayout_run [OF assms(1,2) tx, of 0 "\<lambda>_. None"]
  show ?thesis by (simp add: maxAttempts_def)
qed

definition demo_funds :: rfq_db where
  "demo_funds = snd (postPayment ''o9'' 10000 1000 ''s1'' None demo_db)"

lemma demo_funds_eq:
  "demo_funds = add_txn (new_txn FT_PAYMENT ''Order'' ''o9'' None (sale_entries DEBIT CREDIT 10000 1000 ''s1'') demo_db) demo_db"
  unfolding demo_funds_def postPayment_entries using balanced_sale(1) [of 10000]
  by (simp add: postTransaction_new)

lemma demo_funds_books:
  "prov_inv demo_funds" "deCount ''s1'' demo_funds = 1" "getAvailableBalance ''s1'' demo_funds = 9000"
  "posted FT_PAYOUT x y demo_funds = False"
proof -
  show np: "posted FT_PAYOUT x y demo_funds = False" for x y
    unfolding demo_funds_eq posted_add_txn by simp
  have "payouts demo_funds = []" "id_supply demo_funds = id_supply empty_db"
    by (simp_all add: demo_funds_eq add_txn_def) (simp add: demo_db_def)
  moreover have "account_balance VENDOR_AVAILABLE (Some sh) demo_funds = 0" for sh
    by (simp add: demo_funds_eq account_balance_add sale_entries_def net_def)
  ultimately show "prov_inv demo_funds"
    using inj_runs by (simp add: prov_inv_def np empty_db_def)
  show de: "deCount ''s1'' demo_funds = 1"
    by (simp add: demo_funds_eq add_txn_def new_txn_def deCount_def sale_entries_def cut_commission_def sample_defs)
  have "account_balance VENDOR_PAYABLE (Some ''s1'') demo_funds = 9000"
    using net_sale(1) [of 10000 "''s1''" 1000] by (simp add: demo_funds_eq account_balance_add cut_commission_def)
  with de show "getAvailableBalance ''s1'' demo_funds = 9000"
    by (simp add: getAvailableBalance_def vendorPayable_account)
qed

lemma demo_merchant_shop: "merchantShop demo_merchant = Some ''s1''"
  by (simp add: merchantShop_def demo_merchant_def)

theorem payout_never_overdraws_witness:
  "\<exists>row s'. requestPayout (\<lambda>_. None) demo_merchant 4000 None demo_funds = (Inr row, s') \<and>
    getAvailableBalance ''s1'' s' = 5000"
proof -
  obtain row s' where run: "requestPayout (\<lambda>_. None) demo_merchant 4000 None demo_funds = (Inr row, s')"
    using reservePayout_tx_returns [of 4000 "''s1''" demo_funds "Some (sub demo_merchant)" None] demo_funds_books
      requestPayout_run [OF demo_merchant_shop, of 4000 None demo_funds _ _ 0 "\<lambda>_. None"]
    by (auto simp: maxAttempts_def)
  from payout_never_overdraws [OF demo_funds_books(1) demo_merchant_shop run] demo_funds_books run show ?thesis
    by auto
qed

theorem payout_survives_aborts_witness:
  "\<exists>row s'. requestPayout (\<lambda>j. if j < 4 then Some (PrismaError ''P2034'') else None) demo_merchant 4000 None demo_funds = (Inr row, s') \<and>
    requestPayout (\<lambda>_. None) demo_merchant 4000 None demo_funds = (Inr row, s')"
  by (rule payout_survives_aborts [OF demo_merchant_shop, of _ _ 4])
    (simp_all add: demo_funds_books maxAttempts_def retryable_def)

text \<open>
  C3.  On the provider's path - requests, transfers, completions and failures in any order and number,
  whether they return or throw - a shop's money is conserved: what is payable to it plus its open and
  completed payouts stays what it was, and its reserved account holds exactly the open payouts.
\<close>

theorem payout_path_conserves_funds:
  assumes "prov_inv s"
  shows "funds sh (run_all path_exec ops s) = funds sh s \<and>
    (sh \<noteq> [] \<longrightarrow> account_balance VENDOR_AVAILABLE (Some sh) (run_all path_exec ops s) =
      sum_where (open_payout sh) po_amountCents (payouts (run_all path_exec ops s)))"
proof -
  have "path_ok (\<lambda>sh. funds sh s) s" using assms by (simp add: path_ok_def)
  from provider.history_keeps [OF this, of ops] show ?thesis
    unfolding path_ok_def prov_inv_def by blast
qed

theorem payout_path_conserves_funds_witness:
  "funds ''s1'' (run_all path_exec [AskPayout (\<lambda>_. None) demo_merchant 4000 None, Transfer ''ii'' None, Failed ''ii'' ''x'' None] demo_funds) =
    funds ''s1'' demo_funds"
  using payout_path_conserves_funds [OF demo_funds_books(1)] by blast

section \<open>Where funds go astray\<close>

text \<open>
  The first payout of a shop whose earnings are in the single-entry ledger only switches the balance
  to the double-entry ledger, where the shop has earned nothing: whatever was left of its earnings is
  not available any more.
\<close>

theorem first_payout_hides_legacy_rest:
  assumes "prov_inv s" and "merchantShop u = Some sh" and "deCount sh s = 0"
    and "requestPayout ab u n nt s = (Inr row, s')"
  shows "n \<le> getAvailableBalance sh s \<and> getAvailableBalance sh s' = 0"
  using requestPayout_effect [OF assms(1,2,4)] payable_zero [OF assms(3)]
  by (simp add: getAvailableBalance_def vendorPayable_account)

definition demo_legacy :: rfq_db where
  "demo_legacy = demo_db\<lparr>ledger_entries := [\<lparr>le_shopId = Some ''s1'', le_orderId = None, le_account = LA_VENDOR,
     le_entryType = LE_VENDOR_EARNING, le_amountCents = 1000, le_currency = ''USD'', le_metadata = None\<rparr>]\<rparr>"

lemma demo_legacy_books:
  "prov_inv demo_legacy" "deCount sh demo_legacy = 0" "getAvailableBalance ''s1'' demo_legacy = 1000"
proof -
  have e: "payouts demo_legacy = []" "fin_txns demo_legacy = []" "id_supply demo_legacy = id_supply empty_db"
    by (simp_all add: demo_legacy_def) (simp add: demo_db_def)
  show de: "deCount sh demo_legacy = 0" for sh by (simp add: deCount_def e)
  show "prov_inv demo_legacy"
    using inj_runs
    by (simp add: prov_inv_def e posted_def account_balance_def posted_entries_def net_def empty_db_def)
  show "getAvailableBalance ''s1'' demo_legacy = 1000"
    by (simp add: getAvailableBalance_def de openPayouts_def e) (simp add: demo_legacy_def)
qed

theorem first_payout_hides_legacy_rest_witness:
  "\<exists>row s'. requestPayout (\<lambda>_. None) demo_merchant 400 None demo_legacy = (Inr row, s') \<and>
    getAvailableBalance ''s1'' demo_legacy = 1000 \<and> getAvailableBalance ''s1'' s' = 0"
proof -
  obtain row s' where run: "requestPayout (\<lambda>_. None) demo_merchant 400 None demo_legacy = (Inr row, s')"
    using reservePayout_tx_returns [of 400 "''s1''" demo_legacy "Some (sub demo_merchant)" None] demo_legacy_books
      requestPayout_run [OF demo_merchant_shop, of 400 None demo_legacy _ _ 0 "\<lambda>_. None"]
    by (auto simp: maxAttempts_def)
  from first_payout_hides_legacy_rest [OF demo_legacy_books(1) demo_merchant_shop demo_legacy_books(2) run] run
  show ?thesis by (simp add: demo_legacy_books(3))
qed

text \<open>
  A payout an administrator approved after it was reserved fails without giving the reserve back:
  the failure returns, the payout is FAILED, and no account and no ledger entry has changed.
\<close>

theorem approved_failure_strands_reserve:
  assumes "find_row (\<lambda>p. po_id p = i) (payouts s) = Some row" and "po_status row = PO_APPROVED"
  shows "\<exists>u s'. failPayout i reason by s = (Inr u, s') \<and> po_status u = PO_FAILED \<and>
    (\<forall>a sh. account_balance a sh s' = account_balance a sh s) \<and> ledger_entries s' = ledger_entries s"
  using assms find_row_Some [OF assms(1)]
  by (simp add: failPayout_def failPayout_tx_def bindA_def thenA_def getsA_def someA_def guardA_def returnA_def
      txA_def whenA_def updateRowA_def auditA_def modifyA_def)

definition demo_payout :: "payout_status \<Rightarrow> payout_row" where
  "demo_payout st =
    \<lparr>po_id = ''i'', po_shopId = ''s1'', po_amountCents = 4000, po_status = st, po_note = None, po_adminNote = None,
     po_reservedAt = Some 1, po_processedAt = None, po_completedAt = None, po_failureReason = None,
     po_stripeTransferId = None, po_requestedById = Some ''m1''\<rparr>"

theorem approved_failure_strands_reserve_witness:
  "\<exists>u s'. failPayout ''i'' ''bank'' None (demo_funds\<lparr>payouts := [demo_payout PO_APPROVED]\<rparr>) = (Inr u, s') \<and> po_status u = PO_FAILED"
  using approved_failure_strands_reserve [of "''i''" "demo_funds\<lparr>payouts := [demo_payout PO_APPROVED]\<rparr>"
      "demo_payout PO_APPROVED" "''bank''" None]
  by (auto simp: demo_payout_def)

text \<open>
  The payout is read before the transaction opens.  When a failure read it open, and a completion
  commits in between, the failure still goes through: the payout ends FAILED although it was paid, the
  shop gets the amount back as payable, and the amount leaves the reserved account twice.
\<close>

theorem stale_failure_pays_twice:
  assumes P: "prov_inv s" and row: "row \<in> set (payouts s)" "po_status row \<in> {PO_RESERVED, PO_PROCESSING}"
  shows "\<exists>u s1 v s2. completePayout_tx row t a s = (Inr u, s1) \<and> failPayout_tx row reason b s1 = (Inr v, s2) \<and>
    po_status v = PO_FAILED \<and>
    account_balance VENDOR_PAYABLE (Some (po_shopId row)) s2 =
      account_balance VENDOR_PAYABLE (Some (po_shopId row)) s + po_amountCents row \<and>
    account_balance VENDOR_AVAILABLE (Some (po_shopId row)) s2 =
      account_balance VENDOR_AVAILABLE (Some (po_shopId row)) s - 2 * po_amountCents row"
proof -
  let ?i = "po_id row" and ?sh = "po_shopId row" and ?n = "po_amountCents row"
  have n: "0 < ?n" and sh: "?sh \<noteq> []" and np: "\<not> posted FT_PAYOUT ''PayoutRelease'' ?i s" "\<not> posted FT_PAYOUT ''PayoutComplete'' ?i s"
    using P row unfolding prov_inv_def by blast+
  have st: "\<not> (po_status row = PO_PENDING \<or> po_status row = PO_APPROVED)" "po_status row = PO_RESERVED \<or> po_status row = PO_PROCESSING"
    using row(2) by auto
  have found: "find_row (\<lambda>p. po_id p = ?i) (payouts s) \<noteq> None" using row(1) unfolding find_row_ex by blast
  obtain x sa where b: "postPayoutCompleted ?i ?sh ?n s = (Inr x, sa)"
    using books.post_returns [where k = "(FT_PAYOUT, ''PayoutComplete'', ?i)" and ccy = None and s = s, simplified, OF balanced_pair [OF n]]
    unfolding postPayoutCompleted_def by blast
  note fr = postTransaction_frame [OF b [unfolded postPayoutCompleted_def]]
  note ef = completed_effect [OF b sh np(2)]
  obtain u g l where c: "completePayout_tx row t a s = (Inr u, audit_log_update l (payouts_update (update_where (\<lambda>p. po_id p = ?i) g) sa))"
      "\<And>p. po_id (g p) = po_id p"
    using b found fr(1) st(1)
    by (auto simp: completePayout_tx_def bindA_def thenA_def getsA_def returnA_def whenA_def txA_def updateRowA_def auditA_def modifyA_def
        split: option.splits)
  define s1 where "s1 = audit_log_update l (payouts_update (update_where (\<lambda>p. po_id p = ?i) g) sa)"
  have np1: "\<not> posted FT_PAYOUT ''PayoutRelease'' ?i s1" using ef(2) np by (simp add: s1_def)
  obtain y sb where r: "releasePayoutReserve ?i ?sh ?n s1 = (Inr y, sb)"
    using books.post_returns [where k = "(FT_PAYOUT, ''PayoutRelease'', ?i)" and ccy = None and s = s1, simplified, OF balanced_pair [OF n]]
    unfolding releasePayoutReserve_def by blast
  note fr1 = postTransaction_frame [OF r [unfolded releasePayoutReserve_def]]
  note ef1 = release_effect(1) [OF r sh np1]
  have found1: "find_row (\<lambda>p. po_id p = ?i) (payouts sb) \<noteq> None"
    using found by (simp add: fr1(1) s1_def fr(1) find_row_update_where c(2))
  obtain v k l1 f where v: "failPayout_tx row reason b s1 = (Inr v, audit_log_update l1 (payouts_update f (ledger_entries_update k sb)))"
      "po_status v = PO_FAILED"
    using r found1 st(2)
    by (auto simp: failPayout_tx_def bindA_def thenA_def getsA_def returnA_def whenA_def txA_def updateRowA_def auditA_def modifyA_def createA_def
        split: option.splits)
  show ?thesis
    using c(1) v ef(1) ef1 by (intro exI conjI) (auto simp: s1_def [symmetric], auto simp: s1_def)
qed

lemma demo_requested:
  "\<exists>row s. requestPayout (\<lambda>_. None) demo_merchant 4000 None demo_funds = (Inr row, s) \<and> prov_inv s \<and>
    row \<in> set (payouts s) \<and> po_status row = PO_RESERVED"
proof -
  obtain row s where run: "requestPayout (\<lambda>_. None) demo_merchant 4000 None demo_funds = (Inr row, s)"
    using reservePayout_tx_returns [of 4000 "''s1''" demo_funds "Some (sub demo_merchant)" None] demo_funds_books
      requestPayout_run [OF demo_merchant_shop, of 4000 None demo_funds _ _ 0 "\<lambda>_. None"]
    by (auto simp: maxAttempts_def)
  have "path_ok (\<lambda>sh. funds sh demo_funds) demo_funds" using demo_funds_books by (simp add: path_ok_def)
  from provider.history_keeps [OF this, of "[AskPayout (\<lambda>_. None) demo_merchant 4000 None]"] run
  have "prov_inv s" by (simp add: path_ok_def thenA_def bindA_def returnA_def)
  with run requestPayout_effect [OF demo_funds_books(1) demo_merchant_shop run] show ?thesis by auto
qed

theorem stale_failure_pays_twice_witness:
  "\<exists>(s :: rfq_db) row u s1 v s2. completePayout_tx row None None s = (Inr u, s1) \<and>
    failPayout_tx row ''timeout'' None s1 = (Inr v, s2) \<and>
    account_balance VENDOR_PAYABLE (Some (po_shopId row)) s2 =
      account_balance VENDOR_PAYABLE (Some (po_shopId row)) s + po_amountCents row"
  using demo_requested stale_failure_pays_twice [where t = None and a = None and b = None and reason = "''timeout''"] by blast

text \<open>
  A failed payout can still be approved and then paid: the reserve posted for it before its failure
  counts as the reserve of the new attempt, so the payment takes the amount out of the reserved account
  without moving it there first.
\<close>

theorem failed_payout_paid_without_reserve:
  assumes row: "find_row (\<lambda>p. po_id p = i) (payouts s) = Some row" "po_status row = PO_FAILED"
    and old: "posted FT_PAYOUT ''Payout'' i s" "\<not> posted FT_PAYOUT ''PayoutComplete'' i s"
    and n: "0 < po_amountCents row" "po_amountCents row \<le> getAvailableBalance (po_shopId row) s" "0 < deCount (po_shopId row) s"
    and sh: "po_shopId row \<noteq> []" and admin: "is_admin user"
  shows "\<exists>u1 s1 u2 s2. decidePayout user i D_APPROVED nt s = (Inr u1, s1) \<and> decidePayout user i D_PAID nt s1 = (Inr u2, s2) \<and>
    po_status u2 = PO_COMPLETED \<and>
    account_balance VENDOR_PAYABLE (Some (po_shopId row)) s2 = account_balance VENDOR_PAYABLE (Some (po_shopId row)) s \<and>
    account_balance VENDOR_AVAILABLE (Some (po_shopId row)) s2 =
      account_balance VENDOR_AVAILABLE (Some (po_shopId row)) s - po_amountCents row"
proof -
  let ?sh = "po_shopId row" and ?n = "po_amountCents row"
  define row1 where "row1 = row\<lparr>po_status := PO_APPROVED, po_adminNote := or_else nt None\<rparr>"
  have i: "po_id row = i" using find_row_Some [OF row(1)] by simp
  obtain l where a: "decidePayout user i D_APPROVED nt s = (Inr row1, audit_log_update l (payouts_update
      (update_where (\<lambda>p. po_id p = i) (\<lambda>p. p\<lparr>po_status := PO_APPROVED, po_adminNote := or_else nt None\<rparr>)) s))"
    using admin row by (auto simp: decidePayout_def thenA_def bindA_def guardA_def returnA_def getsA_def someA_def
        updateRowA_def auditA_def modifyA_def row1_def)
  define s1 where "s1 = audit_log_update l (payouts_update
      (update_where (\<lambda>p. po_id p = i) (\<lambda>p. p\<lparr>po_status := PO_APPROVED, po_adminNote := or_else nt None\<rparr>)) s)"
  have f1: "find_row (\<lambda>p. po_id p = i) (payouts s1) = Some row1"
    using row i by (simp add: s1_def find_row_update_where row1_def)
  have r1: "po_id row1 = i" "po_shopId row1 = ?sh" "po_amountCents row1 = ?n" "po_status row1 = PO_APPROVED"
    by (simp_all add: row1_def i)
  have av: "?n \<le> getAvailableBalance ?sh s1"
    using n by (simp add: getAvailableBalance_def vendorPayable_account s1_def)
  have p1: "posted x y z s1 = posted x y z s" for x y z by (simp add: s1_def)
  obtain t where again: "postPayoutReserve i ?sh ?n s1 = (Inr t, s1)"
    using books.post_old [where k = "(FT_PAYOUT, ''Payout'', i)" and ccy = None and s = s1, simplified, OF balanced_pair [OF n(1)]] old(1)
    unfolding postPayoutReserve_def p1 by blast
  obtain x sa where b: "postPayoutCompleted i ?sh ?n s1 = (Inr x, sa)"
    using books.post_returns [where k = "(FT_PAYOUT, ''PayoutComplete'', i)" and ccy = None and s = s1, simplified, OF balanced_pair [OF n(1)]]
    unfolding postPayoutCompleted_def by blast
  note fr = postTransaction_frame [OF b [unfolded postPayoutCompleted_def]]
  have "\<not> posted FT_PAYOUT ''PayoutComplete'' i s1" using old by (simp add: p1)
  note ef = completed_effect [OF b sh this]
  obtain u2 l2 f2 em where c: "decidePayout user i D_PAID nt s1 =
      (Inr u2, emitted_update em (audit_log_update l2 (payouts_update f2 sa)))" "po_status u2 = PO_COMPLETED"
    using admin f1 av again b fr(1) r1
    by (auto simp: decidePayout_def completePayout_def completePayout_tx_def thenA_def bindA_def guardA_def returnA_def
        getsA_def someA_def whenA_def txA_def updateRowA_def auditA_def emitA_def modifyA_def)
  have bal: "account_balance z (Some w) s1 = account_balance z (Some w) s" for z w by (simp add: s1_def)
  show ?thesis
    by (rule exI [of _ row1], rule exI [of _ s1], rule exI [of _ u2],
        rule exI [of _ "emitted_update em (audit_log_update l2 (payouts_update f2 sa))"])
      (use a [folded s1_def] c ef(1) bal in simp)
qed

definition demo_reopened :: rfq_db where
  "demo_reopened = (add_txn (new_txn FT_PAYOUT ''PayoutRelease'' ''i'' None
      [entry VENDOR_AVAILABLE (Some ''s1'') DEBIT 4000, entry VENDOR_PAYABLE (Some ''s1'') CREDIT 4000] demo_funds)
     (add_txn (new_txn FT_PAYOUT ''Payout'' ''i'' None
      [entry VENDOR_PAYABLE (Some ''s1'') DEBIT 4000, entry VENDOR_AVAILABLE (Some ''s1'') CREDIT 4000] demo_funds) demo_funds))
     \<lparr>payouts := [demo_payout PO_FAILED]\<rparr>"

lemma demo_reopened_books:
  "posted FT_PAYOUT ''Payout'' ''i'' demo_reopened" "\<not> posted FT_PAYOUT ''PayoutComplete'' ''i'' demo_reopened"
  "0 < deCount ''s1'' demo_reopened" "getAvailableBalance ''s1'' demo_reopened = 9000"
  "account_balance VENDOR_AVAILABLE (Some ''s1'') demo_reopened = 0"
proof -
  have p: "posted x y z demo_reopened \<longleftrightarrow> posted x y z demo_funds \<or> (x, y, z) = (FT_PAYOUT, ''Payout'', ''i'') \<or>
      (x, y, z) = (FT_PAYOUT, ''PayoutRelease'', ''i'')" for x y z
    by (auto simp: demo_reopened_def posted_add_txn)
  show "posted FT_PAYOUT ''Payout'' ''i'' demo_reopened" "\<not> posted FT_PAYOUT ''PayoutComplete'' ''i'' demo_reopened"
    by (simp_all add: p demo_funds_books)
  have t: "fin_txns demo_reopened = fin_txns demo_funds @
      [new_txn FT_PAYOUT ''Payout'' ''i'' None [entry VENDOR_PAYABLE (Some ''s1'') DEBIT 4000, entry VENDOR_AVAILABLE (Some ''s1'') CREDIT 4000] demo_funds,
       new_txn FT_PAYOUT ''PayoutRelease'' ''i'' None [entry VENDOR_AVAILABLE (Some ''s1'') DEBIT 4000, entry VENDOR_PAYABLE (Some ''s1'') CREDIT 4000] demo_funds]"
    by (simp add: demo_reopened_def add_txn_def)
  have bal: "account_balance a (Some ''s1'') demo_reopened = account_balance a (Some ''s1'') demo_funds" for a
    by (simp add: account_balance_def posted_entries_def t) (simp add: new_txn_def net_def signed_def stored_entry_def)
  show de: "0 < deCount ''s1'' demo_reopened"
    using demo_funds_books(2) by (simp add: deCount_def t)
  show "getAvailableBalance ''s1'' demo_reopened = 9000"
    using demo_funds_books(2,3) de by (simp add: getAvailableBalance_def vendorPayable_account bal)
  show "account_balance VENDOR_AVAILABLE (Some ''s1'') demo_reopened = 0"
    unfolding bal by (simp add: demo_funds_eq account_balance_add sale_entries_def net_def)
qed

theorem failed_payout_paid_without_reserve_witness:
  "\<exists>u1 s1 u2 s2. decidePayout demo_admin ''i'' D_APPROVED None demo_reopened = (Inr u1, s1) \<and>
    decidePayout demo_admin ''i'' D_PAID None s1 = (Inr u2, s2) \<and>
    account_balance VENDOR_AVAILABLE (Some ''s1'') s2 = - 4000"
proof -
  have r: "find_row (\<lambda>p. po_id p = ''i'') (payouts demo_reopened) = Some (demo_payout PO_FAILED)"
    by (simp add: demo_reopened_def demo_payout_def)
  have "is_admin demo_admin" by (simp add: is_admin_def demo_admin_def)
  from failed_payout_paid_without_reserve [OF r _ demo_reopened_books(1,2) _ _ _ _ this, of None] demo_reopened_books
  show ?thesis by (auto simp: demo_payout_def)
qed

end
