(* ===== verification/Orders.thy ===== *)
theory Orders
  imports Inventory Tax
begin

text \<open>
  Cart, checkout, access control, order status and the fulfilment of a confirmed payment:
  \<open>orders/orders.service.ts\<close>, \<open>orders/order-status.machine.ts\<close> and the command handlers.

  Code outside the repository is an argument: \<open>cmp\<close> is \<open>bcrypt.compare\<close>, \<open>mkhash\<close> is
  \<open>bcrypt.hash(_, 10)\<close>.  Random tokens are drawn from the supply of fresh ids.  The tenant of the
  request (\<open>getCurrentTenantId()\<close>) is the argument \<open>ctx\<close>.  The formatted \<open>subtotal\<close> of a cart is not
  modelled.
\<close>

section \<open>order-status.machine.ts\<close>

datatype actor_role = Role role | SYSTEM

definition MERCHANT_TRANSITIONS :: "order_status \<Rightarrow> order_status list" where
  "MERCHANT_TRANSITIONS from' =
    (case from' of
      OS_PAID \<Rightarrow> [OS_PROCESSING]
    | OS_PROCESSING \<Rightarrow> [OS_SHIPPED]
    | _ \<Rightarrow> [])"

definition CUSTOMER_TRANSITIONS :: "order_status \<Rightarrow> order_status list" where
  "CUSTOMER_TRANSITIONS from' =
    (case from' of
      OS_PENDING_PAYMENT \<Rightarrow> [OS_CANCELLED]
    | OS_PAID \<Rightarrow> [OS_CANCELLED, OS_DISPUTED]
    | OS_PROCESSING \<Rightarrow> [OS_DISPUTED]
    | OS_SHIPPED \<Rightarrow> [OS_COMPLETED, OS_DISPUTED]
    | _ \<Rightarrow> [])"

definition ADMIN_TRANSITIONS :: "order_status \<Rightarrow> order_status list" where
  "ADMIN_TRANSITIONS from' =
    (case from' of
      OS_PENDING_PAYMENT \<Rightarrow> [OS_CANCELLED]
    | OS_PAID \<Rightarrow> [OS_PROCESSING, OS_CANCELLED, OS_DISPUTED, OS_REFUNDED]
    | OS_PROCESSING \<Rightarrow> [OS_SHIPPED, OS_CANCELLED, OS_DISPUTED, OS_REFUNDED]
    | OS_SHIPPED \<Rightarrow> [OS_COMPLETED, OS_DISPUTED, OS_REFUNDED]
    | OS_COMPLETED \<Rightarrow> [OS_REFUNDED, OS_PARTIALLY_REFUNDED]
    | OS_DISPUTED \<Rightarrow> [OS_REFUNDED, OS_PARTIALLY_REFUNDED, OS_COMPLETED, OS_CANCELLED]
    | _ \<Rightarrow> [])"

fun allowedTransitions :: "actor_role \<Rightarrow> order_status \<Rightarrow> order_status list" where
  "allowedTransitions SYSTEM from' = (if from' = OS_PENDING_PAYMENT then [OS_PAID] else [])"
| "allowedTransitions (Role MERCHANT) from' = MERCHANT_TRANSITIONS from'"
| "allowedTransitions (Role CUSTOMER) from' = CUSTOMER_TRANSITIONS from'"
| "allowedTransitions (Role ADMIN) from' = ADMIN_TRANSITIONS from'"
| "allowedTransitions (Role SUPER_ADMIN) from' = ADMIN_TRANSITIONS from'"

definition canTransition :: "actor_role \<Rightarrow> order_status \<Rightarrow> order_status \<Rightarrow> bool" where
  "canTransition r from' to' \<longleftrightarrow> to' \<in> set (allowedTransitions r from')"

text \<open>The names of the statuses, as the API spells them.\<close>

definition order_status_names :: "(string \<times> order_status) list" where
  "order_status_names =
    [(''PENDING_PAYMENT'', OS_PENDING_PAYMENT), (''PAID'', OS_PAID), (''PROCESSING'', OS_PROCESSING),
     (''SHIPPED'', OS_SHIPPED), (''COMPLETED'', OS_COMPLETED), (''CANCELLED'', OS_CANCELLED),
     (''DISPUTED'', OS_DISPUTED), (''REFUNDED'', OS_REFUNDED),
     (''PARTIALLY_REFUNDED'', OS_PARTIALLY_REFUNDED)]"

definition order_status_of :: "string \<Rightarrow> order_status option" where
  "order_status_of raw = map_of order_status_names raw"

fun order_status_name :: "order_status \<Rightarrow> string" where
  "order_status_name OS_PENDING_PAYMENT = ''PENDING_PAYMENT''"
| "order_status_name OS_PAID = ''PAID''"
| "order_status_name OS_PROCESSING = ''PROCESSING''"
| "order_status_name OS_SHIPPED = ''SHIPPED''"
| "order_status_name OS_COMPLETED = ''COMPLETED''"
| "order_status_name OS_CANCELLED = ''CANCELLED''"
| "order_status_name OS_DISPUTED = ''DISPUTED''"
| "order_status_name OS_REFUNDED = ''REFUNDED''"
| "order_status_name OS_PARTIALLY_REFUNDED = ''PARTIALLY_REFUNDED''"

section \<open>Cart\<close>

text \<open>\<open>user?.sub\<close>, \<open>user?.sub ?? null\<close>, \<open>user?.email\<close>.\<close>

abbreviation user_sub :: "jwt_payload option \<Rightarrow> string option" where
  "user_sub user \<equiv> map_option sub user"

text \<open>The cart with its items and their products; a foreign key ties an item to its product.\<close>

record cart_view =
  cv_id :: string
  cv_items :: "(cart_item_row \<times> product_row) list"
  cv_subtotalCents :: int
  cv_itemCount :: int

definition with_product :: "product_row list \<Rightarrow> cart_item_row \<Rightarrow> (cart_item_row \<times> product_row) option" where
  "with_product ps i = map_option (Pair i) (find_row (\<lambda>p. p_id p = ci_productId i) ps)"

definition cart_lines :: "string \<Rightarrow> 'z ord_db_scheme \<Rightarrow> (cart_item_row \<times> product_row) list" where
  "cart_lines cid s =
    List.map_filter (with_product (products s)) (filter (\<lambda>i. ci_cartId i = cid) (cart_items s))"

definition find_or_create_cart ::
  "(cart_row \<Rightarrow> bool) \<Rightarrow> string option \<Rightarrow> string option \<Rightarrow> ('z ord_db_scheme, cart_row) act" where
  "find_or_create_cart P userId sessionKey =
    bindA (getsA (\<lambda>s. find_row P (carts s))) (\<lambda>found.
    case found of
      Some c \<Rightarrow> returnA c
    | None \<Rightarrow>
        bindA newIdA (\<lambda>i.
        let c = \<lparr>c_id = i, c_userId = userId, c_sessionKey = sessionKey\<rparr> in
        thenA (createA carts_update c) (returnA c)))"

definition getOrCreateCart :: "jwt_payload option \<Rightarrow> string option \<Rightarrow> ('z ord_db_scheme, cart_row) act" where
  "getOrCreateCart user sessionKey =
    (if truthy (user_sub user) then
       find_or_create_cart (\<lambda>c. c_userId c = user_sub user) (user_sub user) None
     else
       thenA (guardA (truthy sessionKey) (BadRequest ''sessionKey required for guests''))
         (find_or_create_cart (\<lambda>c. c_sessionKey c = sessionKey) None sessionKey))"

definition getCart :: "jwt_payload option \<Rightarrow> string option \<Rightarrow> ('z ord_db_scheme, cart_view) act" where
  "getCart user sessionKey =
    bindA (getOrCreateCart user sessionKey) (\<lambda>cart.
    bindA (getsA (cart_lines (c_id cart))) (\<lambda>items.
    returnA \<lparr>cv_id = c_id cart, cv_items = items,
      cv_subtotalCents = foldl (\<lambda>a (i, p). a + p_priceCents p * ci_quantity i) 0 items,
      cv_itemCount = foldl (\<lambda>a (i, p). a + ci_quantity i) 0 items\<rparr>))"

definition assertProductSellable :: "product_row option \<Rightarrow> ('z ord_db_scheme, product_row) act" where
  "assertProductSellable product =
    bindA (someA product (NotFound ''Product not available'')) (\<lambda>p.
    thenA (guardA (p_status p = PR_ACTIVE) (NotFound ''Product not available''))
    (bindA (getsA (\<lambda>s. find_row (\<lambda>h. sh_id h = p_shopId p) (shops s))) (\<lambda>shop.
     bindA (someA shop (RawError ''TypeError'')) (\<lambda>h.
     thenA (guardA (sh_status h = SH_ACTIVE) (BadRequest ''Shop is not active'')) (returnA p)))))"

definition addItem ::
  "jwt_payload option \<Rightarrow> string option \<Rightarrow> string \<Rightarrow> int \<Rightarrow> ('z ord_db_scheme, cart_view) act" where
  "addItem user sessionKey productId quantity =
    bindA (getOrCreateCart user sessionKey) (\<lambda>cart.
    bindA (getsA (\<lambda>s. find_row (\<lambda>p. p_id p = productId) (products s))) (\<lambda>found.
    bindA (assertProductSellable found) (\<lambda>product.
    bindA (getsA (\<lambda>s. find_row (\<lambda>i. ci_cartId i = c_id cart \<and> ci_productId i = p_id product) (cart_items s)))
      (\<lambda>existing.
    let nextQty = (case existing of None \<Rightarrow> 0 | Some i \<Rightarrow> ci_quantity i) + quantity in
    thenA (guardA (\<not> p_stock product < nextQty) (BadRequest ''Insufficient stock''))
    (thenA
      (case existing of
        Some _ \<Rightarrow> updateA cart_items cart_items_update
          (\<lambda>i. ci_cartId i = c_id cart \<and> ci_productId i = p_id product) (\<lambda>i. i\<lparr>ci_quantity := nextQty\<rparr>)
      | None \<Rightarrow>
          bindA newIdA (\<lambda>iid. createA cart_items_update
            \<lparr>ci_id = iid, ci_cartId = c_id cart, ci_productId = p_id product, ci_quantity = quantity\<rparr>))
      (getCart user sessionKey))))))"

text \<open>\<open>deleteMany\<close>.\<close>

definition delete_where :: "('r \<Rightarrow> bool) \<Rightarrow> 'r list \<Rightarrow> 'r list" where
  "delete_where P xs = filter (\<lambda>r. \<not> P r) xs"

definition updateItem ::
  "jwt_payload option \<Rightarrow> string option \<Rightarrow> string \<Rightarrow> int \<Rightarrow> ('z ord_db_scheme, cart_view) act" where
  "updateItem user sessionKey itemId quantity =
    bindA (getOrCreateCart user sessionKey) (\<lambda>cart.
    bindA (getsA (\<lambda>s. find_row (\<lambda>i. ci_id i = itemId \<and> ci_cartId i = c_id cart) (cart_items s))) (\<lambda>found.
    bindA (someA found (NotFound ''Cart item not found'')) (\<lambda>item.
    if quantity \<le> 0 then
      thenA (modifyA (cart_items_update (delete_where (\<lambda>i. ci_id i = itemId)))) (getCart user sessionKey)
    else
      bindA (getsA (\<lambda>s. find_row (\<lambda>p. p_id p = ci_productId item) (products s))) (\<lambda>foundp.
      bindA (assertProductSellable foundp) (\<lambda>product.
      thenA (guardA (\<not> p_stock product < quantity) (BadRequest ''Insufficient stock''))
      (thenA (updateA cart_items cart_items_update (\<lambda>i. ci_id i = itemId) (\<lambda>i. i\<lparr>ci_quantity := quantity\<rparr>))
        (getCart user sessionKey)))))))"

definition clearCart :: "jwt_payload option \<Rightarrow> string option \<Rightarrow> ('z ord_db_scheme, cart_view) act" where
  "clearCart user sessionKey =
    bindA (getOrCreateCart user sessionKey) (\<lambda>cart.
    thenA (modifyA (cart_items_update (delete_where (\<lambda>i. ci_cartId i = c_id cart))))
      (getCart user sessionKey))"

section \<open>Checkout\<close>

definition COMMISSION_BPS :: int where
  "COMMISSION_BPS = 1000"

definition PAYMENT_TOKEN_TTL_MS :: int where
  "PAYMENT_TOKEN_TTL_MS = 30 * 60 * 1000"

record checkout_shipping =
  cs_rateId :: string
  cs_methodId :: "string option"
  cs_priceCents :: "int option"
  cs_daysMin :: "int option"
  cs_daysMax :: "int option"

record checkout_dto =
  ck_customerName :: "string option"
  ck_customerEmail :: "string option"
  ck_comment :: "string option"
  ck_shipping :: "checkout_shipping option"
  ck_taxCountry :: "string option"

text \<open>\<open>x ?? y\<close>.\<close>

definition if_null :: "'a option \<Rightarrow> 'a option \<Rightarrow> 'a option" where
  "if_null x y = (case x of None \<Rightarrow> y | Some a \<Rightarrow> Some a)"

text \<open>The first loop: every line is for sale and available over all warehouses.\<close>

definition validate_line :: "cart_item_row \<times> product_row \<Rightarrow> ('z ord_db_scheme, unit) act" where
  "validate_line x =
    (let item = fst x in
     bindA (getsA (\<lambda>s. find_row (\<lambda>p. p_id p = ci_productId item) (products s))) (\<lambda>found.
     bindA (assertProductSellable found) (\<lambda>fresh.
     bindA (getsA (totalAvailableForProduct (ci_productId item) (p_stock fresh))) (\<lambda>available.
     guardA (\<not> available < ci_quantity item) (BadRequest ''insufficient stock'')))))"

text \<open>The \<open>Map\<close> from a shop to its lines, in the order in which the shops first appear.\<close>

fun add_to_group :: "string \<Rightarrow> 'x \<Rightarrow> (string \<times> 'x list) list \<Rightarrow> (string \<times> 'x list) list" where
  "add_to_group k x [] = [(k, [x])]"
| "add_to_group k x ((k', xs) # g) = (if k' = k then (k', xs @ [x]) # g else (k', xs) # add_to_group k x g)"

definition byShop :: "(cart_item_row \<times> product_row) list \<Rightarrow> (string \<times> (cart_item_row \<times> product_row) list) list" where
  "byShop items = foldl (\<lambda>g x. add_to_group (p_shopId (snd x)) x g) [] items"

record shipping_choice =
  sc_priceCents :: int
  sc_methodId :: "string option"
  sc_rateId :: "string option"
  sc_daysMin :: "int option"
  sc_daysMax :: "int option"

definition choose_shipping :: "checkout_shipping option \<Rightarrow> ('z ord_db_scheme, shipping_choice) act" where
  "choose_shipping shipping =
    (let none = \<lparr>sc_priceCents = 0, sc_methodId = None, sc_rateId = None, sc_daysMin = None, sc_daysMax = None\<rparr> in
     case shipping of
       None \<Rightarrow> returnA none
     | Some sh \<Rightarrow>
         (case cs_priceCents sh of
           None \<Rightarrow> returnA none
         | Some price \<Rightarrow>
             if cs_rateId sh = [] then returnA none
             else
               bindA (getsA (\<lambda>s. find_row (\<lambda>r. sr_id r = cs_rateId sh) (shipping_rates s))) (\<lambda>found.
               bindA (someA found (BadRequest ''shipping rate unavailable'')) (\<lambda>rate.
               thenA (guardA (sr_isActive rate) (BadRequest ''shipping rate unavailable''))
                 (returnA \<lparr>sc_priceCents = max 0 price,
                   sc_methodId = or_else (cs_methodId sh) (Some (sr_methodId rate)),
                   sc_rateId = Some (sr_id rate),
                   sc_daysMin = if_null (cs_daysMin sh) (sr_daysMin rate),
                   sc_daysMax = if_null (cs_daysMax sh) (sr_daysMax rate)\<rparr>)))))"

text \<open>The cents of the commission: \<open>Math.round((subtotalCents * COMMISSION_BPS) / 10000)\<close>.\<close>

definition commission_of :: "int \<Rightarrow> int" where
  "commission_of subtotalCents = js_round (fl_frac (subtotalCents * COMMISSION_BPS) 10000)"

fun base36 :: "nat \<Rightarrow> string" where
  "base36 n =
    (let c = (\<lambda>d. if d < 10 then char_of (48 + d) else char_of (55 + d)) in
     if n < 36 then [c n] else base36 (n div 36) @ [c (n mod 36)])"

declare base36.simps [simp del]

text \<open>The hex digest of random bytes is a fresh text of the supply.\<close>

definition generateOrderNumber :: "('z core_db_scheme, string) act" where
  "generateOrderNumber =
    bindA (getsA clock) (\<lambda>now.
    bindA newIdA (\<lambda>hex.
    returnA (''MP-'' @ base36 (nat now) @ ''-'' @ js_upper (take 8 hex))))"

definition line_meta ::
  "string \<Rightarrow> cart_item_row \<times> product_row \<Rightarrow> ('z ord_db_scheme, order_item) act" where
  "line_meta shopId x =
    (let i = fst x in
     bindA (getsA (\<lambda>s. find_row (\<lambda>p. p_id p = ci_productId i) (products s))) (\<lambda>found.
     bindA (someA found (NotFound ''product'')) (\<lambda>product.
     bindA (getsA (resolveDefaultWarehouse shopId)) (\<lambda>warehouse.
     bindA (getAvailable (ci_productId i)) (\<lambda>avail.
     thenA (guardA (\<not> av_available avail < ci_quantity i) (BadRequest ''insufficient stock''))
       (returnA \<lparr>oi_productId = Some (ci_productId i), oi_productName = p_name product,
         oi_unitPriceCents = p_priceCents product, oi_quantity = ci_quantity i,
         oi_lineTotalCents = p_priceCents product * ci_quantity i,
         oi_warehouseId = map_option w_id warehouse, oi_taxRateId = None, oi_taxCents = 0\<rparr>))))))"

text \<open>\<open>new Map(items.map((t) => [t.productId, t]))\<close>: the last line of a product counts.\<close>

definition with_tax :: "tax_line list \<Rightarrow> order_item \<Rightarrow> order_item" where
  "with_tax ts line =
    (case find_row (\<lambda>t. Some (tl_productId t) = oi_productId line) (rev ts) of
      None \<Rightarrow> line
    | Some t \<Rightarrow> line\<lparr>oi_taxRateId := tl_taxRateId t, oi_taxCents := tl_taxCents t\<rparr>)"

record checkout_result =
  cr_id :: string
  cr_orderNumber :: string
  cr_totalCents :: int
  cr_currency :: string
  cr_status :: order_status
  cr_shopId :: string
  cr_paymentToken :: string
  cr_shippingPriceCents :: int

text \<open>The holds of an order, one per line.\<close>

definition reserve_line :: "string \<Rightarrow> order_item \<Rightarrow> ('z ord_db_scheme, unit) act" where
  "reserve_line orderId line =
    thenA (reserve (the (oi_productId line)) (oi_quantity line) orderId (oi_warehouseId line)
            (- ((- PAYMENT_TOKEN_TTL_MS) div 60000)))
      (returnA ())"

text \<open>
  The body of the transaction for one shop.  \<open>assigned\<close> is \<open>shippingAssigned\<close>; the result is its new
  value and the order.
\<close>

definition checkout_shop ::
  "(string \<Rightarrow> string) \<Rightarrow> string option \<Rightarrow> jwt_payload option \<Rightarrow> checkout_dto \<Rightarrow> shipping_choice \<Rightarrow> bool \<Rightarrow>
   string \<times> (cart_item_row \<times> product_row) list \<Rightarrow> ('z ord_db_scheme, bool \<times> checkout_result) act" where
  "checkout_shop mkhash ctx user dto ship assigned grp =
    (let shopId = fst grp; items = snd grp;
         subtotalCents = foldl (\<lambda>a (i, p). a + p_priceCents p * ci_quantity i) 0 items;
         commissionCents = commission_of subtotalCents;
         applyShipping = (\<not> assigned \<and> 0 < sc_priceCents ship);
         orderShipping = (if applyShipping then sc_priceCents ship else 0)
     in
     bindA generateOrderNumber (\<lambda>orderNumber.
     bindA newIdA (\<lambda>plainToken.
     bindA (getsA clock) (\<lambda>now.
     bindA (mapA items (line_meta shopId)) (\<lambda>lines0.
     bindA (getsA (calculate (or_else ctx (or_else (Option.bind user user_tenantId) None))
              (map (\<lambda>l. \<lparr>ti_productId = the (oi_productId l), ti_quantity = oi_quantity l,
                ti_priceCents = oi_unitPriceCents l\<rparr>) lines0)
              (case or_else (ck_taxCountry dto) None of None \<Rightarrow> ''RU'' | Some c \<Rightarrow> c))) (\<lambda>taxCalc.
     let lines = map (with_tax (tc_items taxCalc)) lines0;
         totalCents = subtotalCents + tc_taxCents taxCalc + orderShipping
     in
     bindA newIdA (\<lambda>oid.
     let order =
       \<lparr>o_id = oid, o_orderNumber = orderNumber, o_customerId = user_sub user, o_shopId = shopId,
        o_status = OS_PENDING_PAYMENT, o_currency = ''USD'', o_subtotalCents = subtotalCents,
        o_taxCents = tc_taxCents taxCalc, o_commissionCents = commissionCents, o_totalCents = totalCents,
        o_customerEmail = or_else (ck_customerEmail dto) (or_else (map_option email user) None),
        o_customerName = or_else (ck_customerName dto) None,
        o_paymentTokenHash = Some (mkhash plainToken),
        o_paymentTokenExpiresAt = Some (now + PAYMENT_TOKEN_TTL_MS),
        o_shippingMethodId = (if applyShipping then sc_methodId ship else None),
        o_shippingRateId = (if applyShipping then sc_rateId ship else None),
        o_shippingPriceCents = (if applyShipping then orderShipping else 0),
        o_shippingDaysMin = (if applyShipping then sc_daysMin ship else None),
        o_shippingDaysMax = (if applyShipping then sc_daysMax ship else None),
        o_paymentRef = None, o_source = ''CART'', o_rfqId = None, o_offerId = None, o_items = lines\<rparr>
     in
     thenA (createUniqueA orders orders_update (\<lambda>o'. o_orderNumber o' = orderNumber) order)
     (thenA (createA history_update
        \<lparr>h_orderId = oid, h_fromStatus = None, h_toStatus = OS_PENDING_PAYMENT, h_actorId = user_sub user,
         h_reason = Some (case or_else (ck_comment dto) None of
            Some c \<Rightarrow> ''checkout: '' @ take 500 c | None \<Rightarrow> ''checkout'')\<rparr>)
     (thenA (forA lines (reserve_line oid))
       (returnA (assigned \<or> applyShipping,
         \<lparr>cr_id = oid, cr_orderNumber = orderNumber, cr_totalCents = totalCents, cr_currency = ''USD'',
          cr_status = OS_PENDING_PAYMENT, cr_shopId = shopId, cr_paymentToken = plainToken,
          cr_shippingPriceCents = orderShipping\<rparr>)))))))))))"

fun checkout_shops ::
  "(string \<Rightarrow> string) \<Rightarrow> string option \<Rightarrow> jwt_payload option \<Rightarrow> checkout_dto \<Rightarrow> shipping_choice \<Rightarrow> bool \<Rightarrow>
   (string \<times> (cart_item_row \<times> product_row) list) list \<Rightarrow> ('z ord_db_scheme, checkout_result list) act" where
  "checkout_shops mkhash ctx user dto ship assigned [] = returnA []"
| "checkout_shops mkhash ctx user dto ship assigned (g # gs) =
    bindA (checkout_shop mkhash ctx user dto ship assigned g) (\<lambda>(assigned', r).
    bindA (checkout_shops mkhash ctx user dto ship assigned' gs) (\<lambda>rs.
    returnA (r # rs)))"

definition announce_order :: "jwt_payload option \<Rightarrow> checkout_result \<Rightarrow> ('z ord_db_scheme, unit) act" where
  "announce_order user r =
    thenA (auditA (user_sub user) ''CREATE'' ''Order'' (Some (cr_id r)))
      (emitA ''order.created'' (cr_id r))"

definition checkout ::
  "(string \<Rightarrow> string) \<Rightarrow> string option \<Rightarrow> jwt_payload option \<Rightarrow> string option \<Rightarrow> checkout_dto \<Rightarrow>
   ('z ord_db_scheme, checkout_result list) act" where
  "checkout mkhash ctx user sessionKey dto =
    bindA (getCart user sessionKey) (\<lambda>cart.
    thenA (guardA (cv_items cart \<noteq> []) (BadRequest ''Cart is empty''))
    (thenA (forA (cv_items cart) validate_line)
    (bindA (choose_shipping (ck_shipping dto)) (\<lambda>ship.
     bindA (txA
       (bindA (checkout_shops mkhash ctx user dto ship False (byShop (cv_items cart))) (\<lambda>result.
        thenA (modifyA (cart_items_update (delete_where (\<lambda>i. ci_cartId i = cv_id cart))))
          (returnA result)))) (\<lambda>result.
     thenA (forA result (announce_order user)) (returnA result))))))"

section \<open>Access control\<close>

definition assertCanAccessOrder ::
  "(string \<Rightarrow> string \<Rightarrow> bool) \<Rightarrow> jwt_payload option \<Rightarrow> order_row \<Rightarrow> string option \<Rightarrow> ('z core_db_scheme, unit) act" where
  "assertCanAccessOrder cmp user order paymentToken =
    (if (case user of Some u \<Rightarrow> is_admin u | None \<Rightarrow> False) then returnA ()
     else if (case user of
         Some u \<Rightarrow> user_role u = MERCHANT \<and> truthy (user_shopId u) \<and> user_shopId u = Some (o_shopId order)
       | None \<Rightarrow> False) then returnA ()
     else if (case user of
         Some u \<Rightarrow> user_role u = CUSTOMER \<and> truthy (o_customerId order) \<and> o_customerId order = Some (sub u)
       | None \<Rightarrow> False) then returnA ()
     else
       (case (or_else paymentToken None, or_else (o_paymentTokenHash order) None) of
         (Some token, Some hash) \<Rightarrow>
           bindA (getsA clock) (\<lambda>now.
           thenA (guardA (case o_paymentTokenExpiresAt order of Some t \<Rightarrow> \<not> t < now | None \<Rightarrow> True)
                   (Forbidden ''Payment token expired''))
             (guardA (cmp token hash) (Forbidden ''Not allowed to access this order'')))
       | _ \<Rightarrow> throwA (Forbidden ''Not allowed to access this order'')))"

record order_view =
  ov_order :: order_row
  ov_history :: "history_row list"
  ov_payments :: "payment_row list"

definition getOrder ::
  "(string \<Rightarrow> string \<Rightarrow> bool) \<Rightarrow> jwt_payload option \<Rightarrow> string \<Rightarrow> string option \<Rightarrow> ('z pay_db_scheme, order_view) act" where
  "getOrder cmp user i paymentToken =
    bindA (getsA (\<lambda>s. find_row (\<lambda>o'. o_id o' = i) (orders s))) (\<lambda>found.
    bindA (someA found (NotFound ''Order not found'')) (\<lambda>order.
    thenA (assertCanAccessOrder cmp user order paymentToken)
      (getsA (\<lambda>s. \<lparr>ov_order = order\<lparr>o_paymentTokenHash := None\<rparr>,
         ov_history = take 50 (filter (\<lambda>h. h_orderId h = i) (history s)),
         ov_payments = take 10 (rev (filter (\<lambda>p. pay_orderId p = i) (payments s)))\<rparr>))))"

definition assertCanPayOrder ::
  "(string \<Rightarrow> string \<Rightarrow> bool) \<Rightarrow> jwt_payload option \<Rightarrow> string \<Rightarrow> string option \<Rightarrow> ('z ord_db_scheme, order_row) act" where
  "assertCanPayOrder cmp user orderId paymentToken =
    bindA (getsA (\<lambda>s. find_row (\<lambda>o'. o_id o' = orderId) (orders s))) (\<lambda>found.
    bindA (someA found (NotFound ''Order not found'')) (\<lambda>order.
    thenA (guardA (o_status order = OS_PENDING_PAYMENT) (BadRequest ''Order is not awaiting payment''))
    (thenA (assertCanAccessOrder cmp user order paymentToken) (returnA order))))"

record list_opts =
  lo_cursor :: "string option"
  lo_limit :: "nat option"
  lo_status :: "string option"
  lo_search :: "string option"

record order_page =
  og_items :: "order_row list"
  og_nextCursor :: "string option"
  og_hasMore :: bool

definition contains_ci :: "string \<Rightarrow> string option \<Rightarrow> bool" where
  "contains_ci q x = (case x of None \<Rightarrow> False | Some t \<Rightarrow> js_contains (js_lower q) (js_lower t))"

text \<open>The rows the caller may list.\<close>

definition order_scope :: "jwt_payload \<Rightarrow> order_row \<Rightarrow> bool" where
  "order_scope user order =
    (if is_admin user then True
     else if user_role user = MERCHANT then
       o_shopId order = (case user_shopId user of None \<Rightarrow> ''__none__'' | Some sh \<Rightarrow> sh)
     else o_customerId order = Some (sub user))"

definition order_filter :: "list_opts \<Rightarrow> order_row \<Rightarrow> bool" where
  "order_filter opts order =
    ((case lo_status opts of
        None \<Rightarrow> True
      | Some raw \<Rightarrow>
          (case order_status_of (if raw = ''NEW'' then ''PENDING_PAYMENT'' else raw) of
            None \<Rightarrow> True | Some st \<Rightarrow> o_status order = st)) \<and>
     (case or_else (map_option js_trim (lo_search opts)) None of
        None \<Rightarrow> True
      | Some q \<Rightarrow> contains_ci q (Some (o_orderNumber order)) \<or> js_contains q (o_id order) \<or>
          contains_ci q (o_customerEmail order)))"

text \<open>Newest first, from the row after the cursor on.\<close>

definition listOrders :: "jwt_payload \<Rightarrow> list_opts \<Rightarrow> ('z ord_db_scheme, order_page) act" where
  "listOrders user opts =
    (let limit = (case lo_limit opts of None \<Rightarrow> 20 | Some n \<Rightarrow> n) in
     bindA (getsA (\<lambda>s.
       let newest = rev (orders s);
           page = (case or_else (lo_cursor opts) None of
               None \<Rightarrow> filter (\<lambda>o'. order_scope user o' \<and> order_filter opts o') newest
             | Some c \<Rightarrow> drop 1 (filter (\<lambda>o'. order_scope user o' \<and> order_filter opts o')
                 (dropWhile (\<lambda>o'. o_id o' \<noteq> c) newest)))
       in take limit page)) (\<lambda>items.
     if length items = limit \<and> items = [] then throwA (RawError ''TypeError'')
     else
       (let next = (if length items = limit then Some (o_id (last items)) else None) in
        returnA \<lparr>og_items = items, og_nextCursor = next, og_hasMore = truthy next\<rparr>)))"

section \<open>Status changes\<close>

text \<open>The statuses after which a cancellation puts the items back into stock.\<close>

definition paidStatuses :: "order_status list" where
  "paidStatuses = [OS_PAID, OS_PROCESSING, OS_SHIPPED, OS_COMPLETED, OS_DISPUTED]"

definition restock_item :: "order_item \<Rightarrow> ('z ord_db_scheme, unit) act" where
  "restock_item item =
    (case or_else (oi_productId item) None of
      None \<Rightarrow> returnA ()
    | Some pid \<Rightarrow> releaseReservation pid (oi_warehouseId item) (oi_quantity item) True)"

text \<open>The transaction of \<open>updateStatus\<close>, with the order as it was read before.\<close>

definition updateStatus_tx ::
  "jwt_payload \<Rightarrow> order_row \<Rightarrow> order_status \<Rightarrow> string option \<Rightarrow> ('z ord_db_scheme, order_row) act" where
  "updateStatus_tx user order toStatus reason =
    (let i = o_id order in
     txA
      (bindA (getsA (\<lambda>s. find_row (\<lambda>o'. o_id o' = i) (orders s))) (\<lambda>found.
       bindA (someA found (NotFound ''Order not found'')) (\<lambda>full.
       thenA
        (whenA (toStatus = OS_CANCELLED \<or> toStatus = OS_REFUNDED)
          (if o_status order \<notin> set paidStatuses then thenA (releaseOrder i) (returnA ())
           else forA (o_items full) restock_item))
       (bindA (updateRowA orders orders_update (\<lambda>o'. o_id o' = i) (\<lambda>o'. o'\<lparr>o_status := toStatus\<rparr>)) (\<lambda>o'.
        thenA (createA history_update
          \<lparr>h_orderId = i, h_fromStatus = Some (o_status order), h_toStatus = toStatus,
           h_actorId = Some (sub user), h_reason = or_else (map_option js_trim reason) None\<rparr>)
          (returnA o')))))))"

definition may_update :: "jwt_payload \<Rightarrow> order_row \<Rightarrow> bool" where
  "may_update user order =
    (case user_role user of
      MERCHANT \<Rightarrow> user_shopId user = Some (o_shopId order)
    | CUSTOMER \<Rightarrow> o_customerId order = Some (sub user)
    | ADMIN \<Rightarrow> True
    | SUPER_ADMIN \<Rightarrow> True)"

definition updateStatus ::
  "jwt_payload \<Rightarrow> string \<Rightarrow> string \<Rightarrow> string option \<Rightarrow> ('z ord_db_scheme, order_row) act" where
  "updateStatus user i statusRaw reason =
    bindA (getsA (\<lambda>s. find_row (\<lambda>o'. o_id o' = i) (orders s))) (\<lambda>found.
    bindA (someA found (NotFound ''Order not found'')) (\<lambda>order.
    thenA (guardA (may_update user order) (Forbidden ''''))
    (bindA (someA (order_status_of statusRaw) (BadRequest ''Invalid status'')) (\<lambda>toStatus.
     thenA (guardA (canTransition (Role (user_role user)) (o_status order) toStatus) (BadRequest ''Cannot move''))
     (thenA (guardA (\<not> (is_admin user \<and>
          (toStatus = OS_CANCELLED \<or> toStatus = OS_REFUNDED \<or> toStatus = OS_PARTIALLY_REFUNDED) \<and>
          \<not> truthy (map_option js_trim reason))) (BadRequest ''Reason required for admin cancel/refund''))
     (bindA (updateStatus_tx user order toStatus reason) (\<lambda>updated.
      thenA (auditA (Some (sub user)) ''STATUS_CHANGE'' ''Order'' (Some i)) (returnA updated))))))))"

section \<open>Fulfilment after a confirmed payment\<close>

datatype paid_result = PaidOk | NotPaid string

text \<open>The three single entries of a paid order.\<close>

definition paid_entries :: "order_row \<Rightarrow> ledger_row list" where
  "paid_entries order =
    [\<lparr>le_shopId = Some (o_shopId order), le_orderId = Some (o_id order), le_account = LA_VENDOR,
      le_entryType = LE_VENDOR_EARNING, le_amountCents = o_totalCents order - o_commissionCents order,
      le_currency = ''USD'', le_metadata = None\<rparr>,
     \<lparr>le_shopId = Some (o_shopId order), le_orderId = Some (o_id order), le_account = LA_PLATFORM,
      le_entryType = LE_COMMISSION, le_amountCents = o_commissionCents order,
      le_currency = ''USD'', le_metadata = None\<rparr>,
     \<lparr>le_shopId = Some (o_shopId order), le_orderId = Some (o_id order), le_account = LA_EXTERNAL,
      le_entryType = LE_ORDER_PAYMENT, le_amountCents = o_totalCents order,
      le_currency = ''USD'', le_metadata = None\<rparr>]"

definition markPaid_tx :: "order_row \<Rightarrow> string \<Rightarrow> ('z ord_db_scheme, paid_result) act" where
  "markPaid_tx order paymentRef =
    txA
     (thenA (confirm (o_id order))
     (thenA (updateA orders orders_update (\<lambda>o'. o_id o' = o_id order)
              (\<lambda>o'. o'\<lparr>o_status := OS_PAID, o_paymentRef := Some paymentRef\<rparr>))
     (thenA (createA history_update
        \<lparr>h_orderId = o_id order, h_fromStatus = Some OS_PENDING_PAYMENT, h_toStatus = OS_PAID,
         h_actorId = None, h_reason = Some ''payment_provider_webhook''\<rparr>)
     (thenA (modifyA (ledger_entries_update (\<lambda>t. t @ paid_entries order)))
       (returnA PaidOk)))))"

definition markPaidFromPayment :: "string \<Rightarrow> string \<Rightarrow> ('z ord_db_scheme, paid_result) act" where
  "markPaidFromPayment orderId paymentRef =
    bindA (getsA (\<lambda>s. find_row (\<lambda>o'. o_id o' = orderId) (orders s))) (\<lambda>found.
    case found of
      None \<Rightarrow> returnA (NotPaid ''order_not_found'')
    | Some order \<Rightarrow>
        if o_status order = OS_PAID then returnA PaidOk
        else if o_status order \<noteq> OS_PENDING_PAYMENT then
          returnA (NotPaid (''invalid_status_'' @ order_status_name (o_status order)))
        else catchA (markPaid_tx order paymentRef) (\<lambda>e. returnA (NotPaid (exn_message e))))"

section \<open>The command handlers\<close>

text \<open>\<open>customerId\<close> as JSON.\<close>

definition json_opt :: "string option \<Rightarrow> json" where
  "json_opt x = (case x of None \<Rightarrow> JNull | Some t \<Rightarrow> JString t)"

definition CreateOrderHandler ::
  "(string \<Rightarrow> string) \<Rightarrow> string option \<Rightarrow> jwt_payload option \<Rightarrow> string option \<Rightarrow> checkout_dto \<Rightarrow>
   ('z ord_db_scheme, checkout_result list) act" where
  "CreateOrderHandler mkhash ctx user sessionKey dto =
    bindA (checkout mkhash ctx user sessionKey dto) (\<lambda>result.
    thenA (forA result (\<lambda>o'. enqueueA ''OrderCreatedEvent''
      [(''orderId'', JString (cr_id o')), (''customerId'', json_opt (user_sub user)),
       (''totalCents'', JNumber (cr_totalCents o')),
       (''shopIds'', JStrings (if cr_shopId o' = [] then [] else [cr_shopId o'])),
       (''orderNumber'', JString (cr_orderNumber o'))]))
      (returnA result))"

definition ChangeOrderStatusHandler ::
  "jwt_payload \<Rightarrow> string \<Rightarrow> string \<Rightarrow> string option \<Rightarrow> ('z ord_db_scheme, order_row) act" where
  "ChangeOrderStatusHandler user orderId newStatus comment =
    bindA (getsA (\<lambda>s. find_row (\<lambda>o'. o_id o' = orderId) (orders s))) (\<lambda>before.
    let oldStatus = (case before of None \<Rightarrow> ''UNKNOWN'' | Some o' \<Rightarrow> order_status_name (o_status o')) in
    bindA (updateStatus user orderId newStatus comment) (\<lambda>updated.
    thenA (enqueueA ''OrderStatusChangedEvent''
      [(''orderId'', JString orderId), (''oldStatus'', JString oldStatus),
       (''newStatus'', JString (order_status_name (o_status updated))), (''changedBy'', JString (sub user))])
      (returnA updated)))"

end
