(* ===== verification/Order_Claims.thy ===== *)
theory Order_Claims
  imports Stock_Claims Orders
begin

text \<open>
  The properties of orders: the status machine, who may see and change an order, the checkout, and what
  a confirmed payment does to the order and to the stock.
\<close>

section \<open>The status machine\<close>

definition order_change :: "order_status \<Rightarrow> order_status \<Rightarrow> bool" where
  "order_change a b \<longleftrightarrow> (\<exists>r. canTransition r a b)"

definition order_final :: "order_status \<Rightarrow> bool" where
  "order_final a \<longleftrightarrow> a \<in> {OS_CANCELLED, OS_REFUNDED, OS_PARTIALLY_REFUNDED}"

lemma order_final_stuck: "order_final a \<Longrightarrow> \<not> canTransition r a b"
  by (cases "(r, a)" rule: allowedTransitions.cases)
    (auto simp: order_final_def canTransition_def MERCHANT_TRANSITIONS_def CUSTOMER_TRANSITIONS_def ADMIN_TRANSITIONS_def)

interpretation order_machine: status_machine order_change order_final
  by unfold_locales (simp add: order_change_def order_final_stuck)

lemma only_system_pays: "canTransition r a OS_PAID \<longleftrightarrow> r = SYSTEM \<and> a = OS_PENDING_PAYMENT"
  by (cases "(r, a)" rule: allowedTransitions.cases)
    (auto simp: canTransition_def MERCHANT_TRANSITIONS_def CUSTOMER_TRANSITIONS_def ADMIN_TRANSITIONS_def split: order_status.splits)

text \<open>
  No sequence of changes, by whatever actors, leaves a cancelled, refunded or partially refunded
  order.
\<close>

theorem closed_orders_stay_closed:
  assumes "(\<lambda>a b. \<exists>r. canTransition r a b)\<^sup>*\<^sup>* a b" and "a \<in> {OS_CANCELLED, OS_REFUNDED, OS_PARTIALLY_REFUNDED}"
  shows "b = a"
proof -
  have "order_change = (\<lambda>a b. \<exists>r. canTransition r a b)" by (intro ext) (simp add: order_change_def)
  with assms order_machine.final_forever [of a b] show ?thesis by (simp add: order_final_def)
qed

theorem closed_orders_stay_closed_witness:
  "(\<lambda>a b. \<exists>r. canTransition r a b)\<^sup>*\<^sup>* OS_CANCELLED OS_CANCELLED \<and> (OS_CANCELLED :: order_status) = OS_CANCELLED"
  using closed_orders_stay_closed [of OS_CANCELLED OS_CANCELLED] by simp

section \<open>Changing the status\<close>

lemma readonly_state: "getsA g s = (r, s') \<Longrightarrow> s' = s" "guardA b e s = (r', s') \<Longrightarrow> s' = s" "someA x e s = (r'', s') \<Longrightarrow> s' = s"
  by (auto simp: act_defs split: if_splits option.splits)

text \<open>The whole of \<open>updateStatus\<close> on the orders: what a change that returns has checked and written.\<close>

lemma updateStatus_okD:
  assumes "updateStatus user i raw reason s = (Inr o', s')"
  obtains order st s1 where "find_row (\<lambda>o'. o_id o' = i) (orders s) = Some order" "may_update user order"
    "order_status_of raw = Some st" "canTransition (Role (user_role user)) (o_status order) st"
    "is_admin user \<and> st \<in> {OS_CANCELLED, OS_REFUNDED, OS_PARTIALLY_REFUNDED} \<Longrightarrow> truthy (map_option js_trim reason)"
    "updateStatus_tx user order st reason s = (Inr o', s1)"
    "s' = audit_log_update (\<lambda>t. t @ [\<lparr>au_actorId = or_else (Some (sub user)) None, au_action = ''STATUS_CHANGE'',
      au_entityType = ''Order'', au_entityId = or_else (Some i) None\<rparr>]) s1"
  using assms
  unfolding updateStatus_def bindA_ok thenA_ok getsA_ok guardA_ok someA_ok auditA_ok returnA_ok
  by blast

section \<open>What the stock operations leave alone\<close>

text \<open>
  The contract of the stock component towards its callers: a part of the state that does not read the
  tables of the stock (and the supply of ids) is the same after any of its operations.
\<close>

locale stock_frame =
  fixes f :: "'z inv_db_scheme \<Rightarrow> 'x"
  assumes indep: "f (products_update g1 s) = f s" "f (stocks_update g2 s) = f s"
    "f (reservations_update g3 s) = f s" "f (s\<lparr>next_id := n\<rparr>) = f s"
begin

lemma frame_sync: "keeps (\<lambda>s. f s = x) (syncProductStockAggregate p)"
  unfolding syncProductStockAggregate_def by (intro keeps_steps keeps_updateA) (simp add: indep)

lemma frame_commit: "keeps (\<lambda>s. f s = x) (commitReservedStock p w q)"
  unfolding commitReservedStock_def
  by (intro keeps_steps keeps_updateA keeps_updateManyA frame_sync) (simp_all add: indep)

lemma frame_releaseReservation: "keeps (\<lambda>s. f s = x) (releaseReservation p w q b)"
  unfolding releaseReservation_def Let_def
  by (intro keeps_steps keeps_updateA keeps_updateManyA frame_sync) (simp_all add: indep)

lemma frame_confirm: "keeps (\<lambda>s. f s = x) (confirm oid)"
  unfolding confirm_def confirm_run_def confirm_one_def
  by (intro keeps_steps keeps_updateA keeps_updateManyA frame_commit) (simp_all add: indep)

lemma frame_release_one: "keeps (\<lambda>s. f s = x) (release_one st r)"
  unfolding release_one_def
  by (intro keeps_steps keeps_updateA keeps_updateManyA frame_releaseReservation) (simp_all add: indep)

lemma frame_releaseOrder: "keeps (\<lambda>s. f s = x) (releaseOrder oid)"
  unfolding releaseOrder_def releaseOrder_run_def by (intro keeps_steps frame_release_one)

lemma frame_getAvailable: "keeps (\<lambda>s. f s = x) (getAvailable p)"
  unfolding getAvailable_def Let_def by (intro keeps_steps)

lemma frame_reserve: "keeps (\<lambda>s. f s = x) (reserve p q oid w ttl)"
  unfolding reserve_def reserve_run_def reserveStock_def Let_def
  by (intro keeps_steps keeps_updateA keeps_updateManyA keeps_createA keeps_newIdA frame_getAvailable)
    (simp_all add: indep)

end

text \<open>What an order's own tables are: the stock operations never write them.\<close>

definition order_tables :: "'z ord_db_scheme \<Rightarrow> order_row list \<times> history_row list \<times> ledger_row list \<times> cart_item_row list \<times> int" where
  "order_tables s = (orders s, history s, ledger_entries s, cart_items s, clock s)"

interpretation order_frame: stock_frame order_tables
  by unfold_locales (simp_all add: order_tables_def)

lemma confirm_frame: "confirm oid s = (r, s') \<Longrightarrow> order_tables s' = order_tables s"
  by (rule keepsD [OF order_frame.frame_confirm refl])

lemma releaseOrder_frame: "releaseOrder oid s = (r, s') \<Longrightarrow> order_tables s' = order_tables s"
  by (rule keepsD [OF order_frame.frame_releaseOrder refl])

lemma reserve_frame: "reserve p q oid w ttl s = (r, s') \<Longrightarrow> order_tables s' = order_tables s"
  by (rule keepsD [OF order_frame.frame_reserve refl])

lemma restock_frame: "keeps (\<lambda>s. order_tables s = x) (forA items restock_item)"
  unfolding restock_item_def
  by (intro keeps_steps order_frame.frame_releaseReservation)

text \<open>
  C6.  A status change that returns was asked for by someone who may change the order, is allowed to that
  role in the machine, and is never a change to PAID; an administrator gave a reason to cancel or refund.
  It sets the status of that order alone and adds one history row from the old to the new status.  A
  change that throws leaves orders, history, stock and reservations as they were.
\<close>

theorem updateStatus_authorised:
  assumes run: "updateStatus user i raw reason s = (r, s')"
  shows "case r of
      Inl e \<Rightarrow> s' = s
    | Inr o' \<Rightarrow> \<exists>order st. find_row (\<lambda>o'. o_id o' = i) (orders s) = Some order \<and> may_update user order \<and>
        canTransition (Role (user_role user)) (o_status order) st \<and> st \<noteq> OS_PAID \<and>
        (is_admin user \<and> st \<in> {OS_CANCELLED, OS_REFUNDED, OS_PARTIALLY_REFUNDED} \<longrightarrow> truthy (map_option js_trim reason)) \<and>
        orders s' = update_where (\<lambda>o'. o_id o' = i) (\<lambda>o'. o'\<lparr>o_status := st\<rparr>) (orders s) \<and>
        history s' = history s @ [\<lparr>h_orderId = i, h_fromStatus = Some (o_status order), h_toStatus = st,
          h_actorId = Some (sub user), h_reason = or_else (map_option js_trim reason) None\<rparr>]"
proof (cases r)
  case (Inl e)
  have tx: "updateStatus_tx user order st reason s = (Inl e', s1) \<Longrightarrow> s1 = s" for order st e' s1
    unfolding updateStatus_tx_def Let_def by (rule txA_rollback)
  from run Inl show ?thesis
    by (auto simp: updateStatus_def bindA_def thenA_def getsA_def someA_def guardA_def returnA_def throwA_def auditA_def modifyA_def
        dest: tx split: prod.splits sum.splits option.splits if_splits)
next
  case (Inr o')
  from run [unfolded Inr] obtain order st s1 where
    ord: "find_row (\<lambda>o'. o_id o' = i) (orders s) = Some order" "may_update user order"
      "canTransition (Role (user_role user)) (o_status order) st"
    and reas: "is_admin user \<and> st \<in> {OS_CANCELLED, OS_REFUNDED, OS_PARTIALLY_REFUNDED} \<Longrightarrow> truthy (map_option js_trim reason)"
    and tx: "updateStatus_tx user order st reason s = (Inr o', s1)"
    and s': "\<exists>g. s' = audit_log_update g s1"
    by (rule updateStatus_okD) blast
  have oid: "o_id order = i" using find_row_Some [OF ord(1)] by simp
  from tx obtain u s2 where
    m: "whenA (st = OS_CANCELLED \<or> st = OS_REFUNDED)
        (if o_status order \<notin> set paidStatuses then thenA (releaseOrder i) (returnA ()) else forA (o_items order) restock_item) s = (Inr u, s2)"
    and s1: "orders s1 = update_where (\<lambda>o'. o_id o' = i) (\<lambda>o'. o'\<lparr>o_status := st\<rparr>) (orders s2)"
      "history s1 = history s2 @ [\<lparr>h_orderId = i, h_fromStatus = Some (o_status order), h_toStatus = st,
          h_actorId = Some (sub user), h_reason = or_else (map_option js_trim reason) None\<rparr>]"
    using ord(1) oid by (auto simp: updateStatus_tx_def Let_def ok_simps)
  have "keeps (\<lambda>x. order_tables x = order_tables s) (whenA (st = OS_CANCELLED \<or> st = OS_REFUNDED)
        (if o_status order \<notin> set paidStatuses then thenA (releaseOrder i) (returnA ()) else forA (o_items order) restock_item))"
    by (intro keeps_steps order_frame.frame_releaseOrder restock_frame)
  from keepsD [OF this refl m] have "orders s2 = orders s" "history s2 = history s" by (simp_all add: order_tables_def)
  with ord reas s1 s' only_system_pays show ?thesis by (auto simp: Inr)
qed

definition demo_order :: "order_status \<Rightarrow> order_row" where
  "demo_order st =
    \<lparr>o_id = ''o1'', o_orderNumber = ''MP-1'', o_customerId = Some ''u1'', o_shopId = ''s1'', o_status = st,
     o_currency = ''USD'', o_subtotalCents = 2000, o_taxCents = 0, o_commissionCents = 200, o_totalCents = 2000,
     o_customerEmail = None, o_customerName = None, o_paymentTokenHash = Some ''hash'',
     o_paymentTokenExpiresAt = Some 5000, o_shippingMethodId = None, o_shippingRateId = None,
     o_shippingPriceCents = 0, o_shippingDaysMin = None, o_shippingDaysMax = None, o_paymentRef = None,
     o_source = ''CART'', o_rfqId = None, o_offerId = None,
     o_items = [\<lparr>oi_productId = Some ''p1'', oi_productName = ''p1'', oi_unitPriceCents = 1000, oi_quantity = 2,
       oi_lineTotalCents = 2000, oi_warehouseId = Some ''w1'', oi_taxRateId = None, oi_taxCents = 0\<rparr>]\<rparr>"

definition demo_ordered :: "order_status \<Rightarrow> rfq_db" where
  "demo_ordered st = (snd (reserve ''p1'' 2 ''o1'' (Some ''w1'') 30 demo_db))\<lparr>orders := [demo_order st]\<rparr>"

lemma demo_find: "find_row (\<lambda>o'. o_id o' = ''o1'') (orders (demo_ordered st)) = Some (demo_order st)"
  by (simp add: demo_ordered_def demo_order_def)

lemma demo_orders [simp]: "orders (demo_ordered st) = [demo_order st]"
  by (simp add: demo_ordered_def)

lemma demo_processing:
  "\<exists>o' s'. updateStatus demo_merchant ''o1'' ''PROCESSING'' None (demo_ordered OS_PAID) = (Inr o', s')"
  by (simp add: Let_def updateStatus_def updateStatus_tx_def ok_simps order_status_of_def order_status_names_def
      may_update_def canTransition_def MERCHANT_TRANSITIONS_def is_admin_def demo_merchant_def demo_order_def)

theorem updateStatus_authorised_witness:
  "\<exists>o' s'. updateStatus demo_merchant ''o1'' ''PROCESSING'' None (demo_ordered OS_PAID) = (Inr o', s') \<and>
     length (history s') = Suc (length (history (demo_ordered OS_PAID)))"
proof -
  obtain o' s' where "updateStatus demo_merchant ''o1'' ''PROCESSING'' None (demo_ordered OS_PAID) = (Inr o', s')"
    using demo_processing by blast
  with updateStatus_authorised [OF this] show ?thesis by auto
qed

section \<open>Who may see an order\<close>

definition token_ok :: "(string \<Rightarrow> string \<Rightarrow> bool) \<Rightarrow> order_row \<Rightarrow> string option \<Rightarrow> int \<Rightarrow> bool" where
  "token_ok cmp order token now \<longleftrightarrow>
    truthy token \<and> truthy (o_paymentTokenHash order) \<and>
    (\<forall>t. o_paymentTokenExpiresAt order = Some t \<longrightarrow> now \<le> t) \<and> cmp (the token) (the (o_paymentTokenHash order))"

definition may_access :: "(string \<Rightarrow> string \<Rightarrow> bool) \<Rightarrow> jwt_payload option \<Rightarrow> order_row \<Rightarrow> string option \<Rightarrow> int \<Rightarrow> bool" where
  "may_access cmp user order token now \<longleftrightarrow>
    (\<exists>u. user = Some u \<and> (is_admin u \<or>
       user_role u = MERCHANT \<and> truthy (user_shopId u) \<and> user_shopId u = Some (o_shopId order) \<or>
       user_role u = CUSTOMER \<and> truthy (o_customerId order) \<and> o_customerId order = Some (sub u))) \<or>
    token_ok cmp order token now"

lemma or_else_None: "or_else x None = (if truthy x then x else None)"
  by (simp add: or_else_def)

lemma truthy_Some: "truthy x \<longleftrightarrow> (\<exists>t. x = Some t \<and> t \<noteq> [])"
  by (cases x) auto

lemma if_returns:
  "(\<exists>u. (if a then returnA () else m) s = (Inr u, s)) \<longleftrightarrow> a \<or> (\<exists>u. m s = (Inr u, s))"
  by (simp add: returnA_ok)

lemma token_part:
  "(\<exists>u. (case (or_else token None, or_else (o_paymentTokenHash order) None) of
         (Some t, Some hash) \<Rightarrow>
           bindA (getsA clock) (\<lambda>now.
           thenA (guardA (case o_paymentTokenExpiresAt order of Some e \<Rightarrow> \<not> e < now | None \<Rightarrow> True) e1)
             (guardA (cmp t hash) e2))
       | _ \<Rightarrow> throwA e2) s = (Inr u, s)) \<longleftrightarrow> token_ok cmp order token (clock s)"
  by (cases "truthy token"; cases "truthy (o_paymentTokenHash order)"; cases "o_paymentTokenExpiresAt order")
    (auto simp: token_ok_def or_else_None truthy_Some ok_simps not_less)

lemma assertCanAccessOrder_iff:
  "(\<exists>u. assertCanAccessOrder cmp user order token s = (Inr u, s)) \<longleftrightarrow> may_access cmp user order token (clock s)"
  unfolding assertCanAccessOrder_def if_returns token_part may_access_def
  by (cases user) auto

lemma assertCanAccessOrder_state: "assertCanAccessOrder cmp user order token s = (r, s') \<Longrightarrow> s' = s"
  by (auto simp: assertCanAccessOrder_def act_defs split: if_splits option.splits)

text \<open>
  \<open>getOrder\<close> writes nothing.  It returns exactly when the order exists and the caller is an
  administrator, the merchant of its shop, its customer, or shows the payment token of the order before
  it expires; and what it returns never has the hash of that token.
\<close>

theorem getOrder_access:
  "snd (getOrder cmp user i token s) = s \<and>
   ((\<exists>v. fst (getOrder cmp user i token s) = Inr v) \<longleftrightarrow>
     (\<exists>order. find_row (\<lambda>o'. o_id o' = i) (orders s) = Some order \<and> may_access cmp user order token (clock s))) \<and>
   (case fst (getOrder cmp user i token s) of Inl e \<Rightarrow> True
    | Inr v \<Rightarrow> o_paymentTokenHash (ov_order v) = None \<and> o_id (ov_order v) = i)"
proof (cases "find_row (\<lambda>o'. o_id o' = i) (orders s)")
  case None
  then show ?thesis by (simp add: getOrder_def act_defs)
next
  case (Some order)
  have i: "o_id order = i" using find_row_Some [OF Some] by simp
  obtain r s1 where r: "assertCanAccessOrder cmp user order token s = (r, s1)" by fastforce
  have s1: "s1 = s" by (rule assertCanAccessOrder_state [OF r])
  have "(\<exists>u. r = Inr u) \<longleftrightarrow> may_access cmp user order token (clock s)"
    using assertCanAccessOrder_iff [of cmp user order token s] r s1 by simp
  then show ?thesis
    using Some r s1 i by (cases r) (auto simp: getOrder_def bindA_def thenA_def getsA_def someA_def returnA_def)
qed

lemma page_of:
  "set (case c of None \<Rightarrow> filter P xs | Some d \<Rightarrow> drop 1 (filter P (dropWhile (Q d) xs))) \<subseteq> {x \<in> set xs. P x}"
  by (cases c) (auto dest!: in_set_dropD dest: set_dropWhileD)

text \<open>
  A page of orders holds only orders of the caller's scope (all for an administrator, those of the
  own shop for a merchant, the own ones for a customer) that pass the filter, at most \<open>limit\<close> of them, and
  names a next cursor only when it is full.
\<close>

theorem listOrders_scope:
  assumes "listOrders user opts s = (Inr page, s')"
  shows "s' = s \<and> (\<forall>o' \<in> set (og_items page). o' \<in> set (orders s) \<and> order_scope user o' \<and> order_filter opts o') \<and>
    length (og_items page) \<le> (case lo_limit opts of None \<Rightarrow> 20 | Some n \<Rightarrow> n) \<and>
    (og_hasMore page \<longrightarrow> length (og_items page) = (case lo_limit opts of None \<Rightarrow> 20 | Some n \<Rightarrow> n))"
proof -
  let ?limit = "case lo_limit opts of None \<Rightarrow> 20 | Some n \<Rightarrow> n"
  let ?keep = "\<lambda>o'. order_scope user o' \<and> order_filter opts o'"
  let ?rows = "case or_else (lo_cursor opts) None of None \<Rightarrow> filter ?keep (rev (orders s))
      | Some c \<Rightarrow> drop 1 (filter ?keep (dropWhile (\<lambda>o'. o_id o' \<noteq> c) (rev (orders s))))"
  from assms have "s' = s" "og_items page = take ?limit ?rows" "og_hasMore page \<Longrightarrow> length (take ?limit ?rows) = ?limit"
    unfolding listOrders_def Let_def bindA_ok getsA_ok
    by (auto simp: returnA_ok throwA_ok truthy_Some split: if_splits)
  with page_of [where c = "or_else (lo_cursor opts) None" and P = ?keep and xs = "rev (orders s)" and Q = "\<lambda>c o'. o_id o' \<noteq> c"] show ?thesis
    by (auto dest!: in_set_takeD)
qed

theorem listOrders_scope_witness:
  "\<exists>page. listOrders demo_buyer \<lparr>lo_cursor = None, lo_limit = None, lo_status = None, lo_search = None\<rparr> (demo_ordered OS_PAID) =
     (Inr page, demo_ordered OS_PAID) \<and> (\<forall>o' \<in> set (og_items page). o_customerId o' = Some ''u1'')"
proof -
  obtain page where run: "listOrders demo_buyer \<lparr>lo_cursor = None, lo_limit = None, lo_status = None, lo_search = None\<rparr> (demo_ordered OS_PAID) =
     (Inr page, demo_ordered OS_PAID)"
    by (auto simp: listOrders_def Let_def bindA_def getsA_def returnA_def throwA_def or_else_None
        order_scope_def order_filter_def is_admin_def demo_buyer_def demo_order_def)
  from listOrders_scope [OF run] run show ?thesis
    by (auto simp: order_scope_def is_admin_def demo_buyer_def)
qed


section \<open>A confirmed payment\<close>

lemma stored_orders [simp]:
  "stored pid (orders_update f s) = stored pid s" "stored pid (history_update g s) = stored pid s"
  "stored pid (ledger_entries_update h s) = stored pid s"
  by (simp_all add: stored_def)

lemma inv_ok_orders [simp]:
  "inv_ok (orders_update f s) = inv_ok s" "inv_ok (history_update g s) = inv_ok s"
  "inv_ok (ledger_entries_update h s) = inv_ok s"
  by (simp_all add: inv_ok_def wf_inv_def stock_ok_def covered_def held_def cong: option.case_cong)

lemma units_orders [simp]:
  "units pid (orders_update f s) = units pid s" "units pid (history_update g s) = units pid s"
  "units pid (ledger_entries_update h s) = units pid s"
  by (simp_all add: units_def)

lemma paid_order_found:
  "find_row (\<lambda>o'. o_id o' = i) xs = Some order \<Longrightarrow>
   find_row (\<lambda>o'. o_id o' = i) (update_where (\<lambda>o'. o_id o' = i) (\<lambda>o'. o'\<lparr>o_status := st, o_paymentRef := ref\<rparr>) xs) =
     Some (order\<lparr>o_status := st, o_paymentRef := ref\<rparr>)"
  by (induction xs) (auto split: if_splits)

lemma payment_done:
  assumes inv: "inv_ok s" and order: "find_row (\<lambda>o'. o_id o' = i) (orders s) = Some order"
    and pending: "o_status order = OS_PENDING_PAYMENT"
  shows "\<exists>s'. markPaidFromPayment i ref s = (Inr PaidOk, s') \<and>
    orders s' = update_where (\<lambda>o'. o_id o' = i) (\<lambda>o'. o'\<lparr>o_status := OS_PAID, o_paymentRef := Some ref\<rparr>) (orders s) \<and>
    history s' = history s @ [\<lparr>h_orderId = i, h_fromStatus = Some OS_PENDING_PAYMENT, h_toStatus = OS_PAID,
      h_actorId = None, h_reason = Some ''payment_provider_webhook''\<rparr>] \<and>
    ledger_entries s' = ledger_entries s @ paid_entries order \<and>
    (\<forall>pid. units pid s' = units pid s - sum_where (\<lambda>r. open_of i r \<and> r_productId r = pid) r_quantity (reservations s)) \<and>
    count_where (open_of i) (reservations s') = 0 \<and> inv_ok s'"
proof -
  from confirm_total [OF inv, of i] obtain s1 where
    c: "confirm i s = (Inr (count_where (open_of i) (reservations s)), s1)" and inv1: "inv_ok s1"
    and res: "reservations s1 = update_where (open_of i) (\<lambda>x. x\<lparr>r_status := RS_CONFIRMED\<rparr>) (reservations s)"
    and un: "\<forall>pid. units pid s1 = units pid s - sum_where (\<lambda>r. open_of i r \<and> r_productId r = pid) r_quantity (reservations s)"
    by blast
  from confirm_frame [OF c] have fr: "orders s1 = orders s" "history s1 = history s" "ledger_entries s1 = ledger_entries s"
    by (simp_all add: order_tables_def)
  have oid: "o_id order = i" using find_row_Some [OF order] by simp
  let ?s' = "ledger_entries_update (\<lambda>t. t @ paid_entries order)
    (history_update (\<lambda>t. t @ [\<lparr>h_orderId = i, h_fromStatus = Some OS_PENDING_PAYMENT, h_toStatus = OS_PAID,
      h_actorId = None, h_reason = Some ''payment_provider_webhook''\<rparr>])
    (orders_update (update_where (\<lambda>o'. o_id o' = i) (\<lambda>o'. o'\<lparr>o_status := OS_PAID, o_paymentRef := Some ref\<rparr>)) s1))"
  have tx: "markPaid_tx order ref s = (Inr PaidOk, ?s')"
    using order by (simp add: markPaid_tx_def ok_simps oid c fr)
  then have run: "markPaidFromPayment i ref s = (Inr PaidOk, ?s')"
    using order pending by (simp add: markPaidFromPayment_def bindA_gets catchA_def)
  from run inv1 un res show ?thesis
    by (intro exI [of _ ?s']) (simp add: fr count_where_def open_after_close)
qed


lemma paid_again:
  assumes "find_row (\<lambda>o'. o_id o' = i) (orders s) = Some order"
    and "orders s' = update_where (\<lambda>o'. o_id o' = i) (\<lambda>o'. o'\<lparr>o_status := OS_PAID, o_paymentRef := ref\<rparr>) (orders s)"
  shows "markPaidFromPayment i ref2 s' = (Inr PaidOk, s')"
  using paid_order_found [OF assms(1), of ref OS_PAID] assms(2)
  by (simp add: markPaidFromPayment_def bindA_gets returnA_def)


lemma demo_ordered_held:
  "inv_ok (demo_ordered st)" "reservations (demo_ordered st) = reservations demo_held" "units pid (demo_ordered st) = units pid demo_held"
  using demo_held_inv by (simp_all add: demo_ordered_def flip: demo_held_def)


end
