(* ===== verification/Checkout_Claims.thy ===== *)
theory Checkout_Claims
  imports Order_Claims
begin

text \<open>
  The properties of the checkout: it writes everything or nothing, makes one order per shop whose sums
  add up to the cart, charges shipping once, and holds every line of every order.
\<close>

section \<open>Grouping the lines by shop\<close>

definition line_cents :: "cart_item_row \<times> product_row \<Rightarrow> int" where
  "line_cents x = p_priceCents (snd x) * ci_quantity (fst x)"

lemma foldl_cents: "foldl (\<lambda>a (i, p). a + p_priceCents p * ci_quantity i) c xs = c + sum_list (map line_cents xs)"
  by (induction xs arbitrary: c) (auto simp: line_cents_def)

lemma add_to_group_keys: "fst ` set (add_to_group k x g) = insert k (fst ` set g)"
  by (induction k x g rule: add_to_group.induct) auto

lemma add_to_group_distinct: "distinct (map fst g) \<Longrightarrow> distinct (map fst (add_to_group k x g))"
  by (induction k x g rule: add_to_group.induct) (auto simp: add_to_group_keys)

lemma add_to_group_sum:
  "sum_list (map (\<lambda>g. sum_list (map f (snd g))) (add_to_group k x g)) = (f x :: int) + sum_list (map (\<lambda>g. sum_list (map f (snd g))) g)"
  by (induction k x g rule: add_to_group.induct) auto

lemma byShop_distinct: "distinct (map fst (byShop xs))"
proof -
  have "distinct (map fst g) \<Longrightarrow> distinct (map fst (foldl (\<lambda>g x. add_to_group (p_shopId (snd x)) x g) g xs))" for g
    by (induction xs arbitrary: g) (auto intro: add_to_group_distinct)
  then show ?thesis by (simp add: byShop_def)
qed

lemma byShop_shops: "set (map fst (byShop xs)) = p_shopId ` snd ` set xs"
proof -
  have "fst ` set (foldl (\<lambda>g x. add_to_group (p_shopId (snd x)) x g) g xs) = fst ` set g \<union> p_shopId ` snd ` set xs" for g
    by (induction xs arbitrary: g) (auto simp: add_to_group_keys)
  then show ?thesis by (simp add: byShop_def)
qed

lemma byShop_sum:
  "sum_list (map (\<lambda>g. sum_list (map f (snd g))) (byShop xs)) = (sum_list (map f xs) :: int)"
proof -
  have "sum_list (map (\<lambda>g. sum_list (map f (snd g))) (foldl (\<lambda>g x. add_to_group (p_shopId (snd x)) x g) g xs)) =
    sum_list (map (\<lambda>g. sum_list (map f (snd g))) g) + sum_list (map f xs)" for g
    by (induction xs arbitrary: g) (auto simp: add_to_group_sum)
  then show ?thesis by (simp add: byShop_def)
qed

lemma byShop_ne: "xs \<noteq> [] \<Longrightarrow> byShop xs \<noteq> []"
proof -
  have ne: "add_to_group k x g \<noteq> []" for k x and g :: "(string \<times> (cart_item_row \<times> product_row) list) list"
    by (cases "(k, x, g)" rule: add_to_group.cases) auto
  have "g \<noteq> [] \<Longrightarrow> foldl (\<lambda>g x. add_to_group (p_shopId (snd x)) x g) g xs \<noteq> []" for g and xs :: "(cart_item_row \<times> product_row) list"
    by (induction xs arbitrary: g) (auto simp: ne)
  moreover assume "xs \<noteq> []"
  ultimately show ?thesis by (cases xs) (auto simp: byShop_def ne)
qed

section \<open>The steps that only read\<close>

abbreviation (input) unchanged :: "'s \<Rightarrow> 's \<Rightarrow> bool" where
  "unchanged s \<equiv> (\<lambda>s'. s' = s)"

lemma reads_getAvailable: "keeps (unchanged s) (getAvailable p)"
  unfolding getAvailable_def Let_def by (intro keeps_steps)

lemma reads_sellable: "keeps (unchanged s) (assertProductSellable p)"
  unfolding assertProductSellable_def by (intro keeps_steps)

lemma reads_validate: "keeps (unchanged s) (forA items validate_line)"
  unfolding validate_line_def Let_def by (intro keeps_steps reads_sellable)

lemma reads_shipping: "keeps (unchanged s) (choose_shipping sh)"
  unfolding choose_shipping_def Let_def by (intro keeps_steps)

lemma reads_lines: "keeps (unchanged s) (mapA items (line_meta shop))"
  unfolding line_meta_def Let_def by (intro keeps_steps reads_getAvailable)

lemma keeps_reads: "(\<And>s. keeps (unchanged s) m) \<Longrightarrow> keeps I m"
  by (auto simp: keeps_def)

text \<open>Reading the cart may create an empty one.\<close>

definition cart_only :: "'z ord_db_scheme \<Rightarrow> 'z ord_db_scheme \<Rightarrow> bool" where
  "cart_only s s' \<longleftrightarrow> s' = s\<lparr>carts := carts s', next_id := next_id s'\<rparr>"

lemma cart_only_orders: "cart_only s s' \<Longrightarrow> orders s' = orders s"
proof -
  have "s' = s\<lparr>carts := c, next_id := n\<rparr> \<Longrightarrow> orders s' = orders s" for c n by simp
  then show "cart_only s s' \<Longrightarrow> orders s' = orders s" unfolding cart_only_def .
qed

lemma cart_only_refl [simp]: "cart_only s s"
  by (simp add: cart_only_def)

lemma cart_only_steps:
  "cart_only s s' \<Longrightarrow> cart_only s (s'\<lparr>next_id := n\<rparr>)" "cart_only s s' \<Longrightarrow> cart_only s (carts_update f s')"
  by (cases s; cases s'; simp add: cart_only_def)+

lemma reads_getCart: "keeps (cart_only s) (getCart user key)"
  unfolding getCart_def getOrCreateCart_def find_or_create_cart_def Let_def
  by (intro keeps_steps keeps_newIdA keeps_createA cart_only_steps)

lemma announce_returns: "forA rs (announce_order user) s \<noteq> (Inl e, s')"
  by (induction rs arbitrary: s) (simp_all add: announce_order_def auditA_def emitA_def act_defs)

text \<open>
  A computation that leaves the state as it was when it throws: a transaction does, steps that only read
  may come before it, steps that never throw may come after.
\<close>

definition clean :: "('s, 'a) act \<Rightarrow> bool" where
  "clean m \<longleftrightarrow> (\<forall>s e s'. m s = (Inl e, s') \<longrightarrow> s' = s)"

lemma cleanD: "clean m \<Longrightarrow> m s = (Inl e, s') \<Longrightarrow> s' = s"
  by (auto simp: clean_def)

lemma clean_tx: "clean (txA m)"
  by (auto simp: clean_def dest: txA_rollback)

lemma clean_after_read:
  assumes "\<And>s. keeps (unchanged s) m" and "\<And>x. clean (f x)"
  shows "clean (bindA m f)"
  unfolding clean_def
proof (intro allI impI)
  fix s e s'
  assume run: "bindA m f s = (Inl e, s')"
  obtain q s1 where m: "m s = (q, s1)" by fastforce
  have "s1 = s" by (rule keepsD [OF assms(1) refl m])
  with run m show "s' = s" by (cases q) (auto simp: bindA_def dest: cleanD [OF assms(2)])
qed

lemma clean_before_total:
  assumes "clean m" and "\<And>x s e s'. f x s \<noteq> (Inl e, s')"
  shows "clean (bindA m f)"
  using assms by (auto simp: clean_def bindA_def split: prod.splits sum.splits)

lemma checkout_after_cart:
  "clean (thenA (guardA (items \<noteq> []) e)
    (thenA (forA items validate_line)
    (bindA (choose_shipping sh) (\<lambda>ship.
     bindA (txA (m ship)) (\<lambda>result. thenA (forA result (announce_order user)) (returnA result))))))"
  unfolding thenA_def
  by (intro clean_after_read clean_before_total clean_tx keeps_guard reads_validate reads_shipping)
    (auto simp: bindA_def returnA_def announce_returns split: prod.splits sum.splits)

text \<open>The row a cart is created with: the caller's first, in the caller's name or for the key of a guest.\<close>

definition new_cart :: "jwt_payload option \<Rightarrow> string option \<Rightarrow> 'z ord_db_scheme \<Rightarrow> cart_row \<Rightarrow> bool" where
  "new_cart user key s c \<longleftrightarrow> c_id c = id_supply s (next_id s) \<and>
    (if truthy (user_sub user)
     then c_userId c = user_sub user \<and> c_sessionKey c = None \<and> (\<forall>x \<in> set (carts s). c_userId x \<noteq> user_sub user)
     else c_userId c = None \<and> c_sessionKey c = key \<and> truthy key \<and> (\<forall>x \<in> set (carts s). c_sessionKey x \<noteq> key))"

lemma getCart_state:
  fixes s :: "'z ord_db_scheme"
  assumes "getCart user key s = (q, s1)"
  shows "s1 = s \<or> (\<exists>c. new_cart user key s c \<and> s1 = s\<lparr>carts := carts s @ [c], next_id := Suc (next_id s)\<rparr>)"
proof -
  have fc: "s2 = s \<or> (find_row P (carts s) = None \<and> s2 = s\<lparr>carts := carts s @ [\<lparr>c_id = id_supply s (next_id s), c_userId = u,
      c_sessionKey = k\<rparr>], next_id := Suc (next_id s)\<rparr>)" if "find_or_create_cart P u k s = (r, s2)" for P u k r s2
    using that by (auto simp: find_or_create_cart_def act_defs newIdA_def createA_def Let_def split: option.splits)
  obtain r s2 where g: "getOrCreateCart user key s = (r, s2)" by fastforce
  have "s1 = s2" using assms g by (cases r) (auto simp: getCart_def act_defs)
  moreover have "s2 = s \<or> (\<exists>c. new_cart user key s c \<and> s2 = s\<lparr>carts := carts s @ [c], next_id := Suc (next_id s)\<rparr>)"
  proof (cases "truthy (user_sub user)")
    case True
    with g have "find_or_create_cart (\<lambda>c. c_userId c = user_sub user) (user_sub user) None s = (r, s2)"
      by (simp add: getOrCreateCart_def)
    from fc [OF this] show ?thesis
    proof (elim disjE conjE)
      assume "find_row (\<lambda>c. c_userId c = user_sub user) (carts s) = None"
      with True have "new_cart user key s \<lparr>c_id = id_supply s (next_id s), c_userId = user_sub user, c_sessionKey = None\<rparr>"
        by (simp add: new_cart_def find_row_None)
      then show ?thesis if "s2 = s\<lparr>carts := carts s @ [\<lparr>c_id = id_supply s (next_id s), c_userId = user_sub user,
          c_sessionKey = None\<rparr>], next_id := Suc (next_id s)\<rparr>" using that by blast
    qed simp
  next
    case False
    show ?thesis
    proof (cases "truthy key")
      case True
      with g False have "find_or_create_cart (\<lambda>c. c_sessionKey c = key) None key s = (r, s2)"
        by (simp add: getOrCreateCart_def act_defs)
      from fc [OF this] show ?thesis
      proof (elim disjE conjE)
        assume "find_row (\<lambda>c. c_sessionKey c = key) (carts s) = None"
        with True False have "new_cart user key s \<lparr>c_id = id_supply s (next_id s), c_userId = None, c_sessionKey = key\<rparr>"
          by (simp add: new_cart_def find_row_None)
        then show ?thesis if "s2 = s\<lparr>carts := carts s @ [\<lparr>c_id = id_supply s (next_id s), c_userId = None,
            c_sessionKey = key\<rparr>], next_id := Suc (next_id s)\<rparr>" using that by blast
      qed simp
    next
      case False
      with g \<open>\<not> truthy (user_sub user)\<close> show ?thesis by (simp add: getOrCreateCart_def act_defs)
    qed
  qed
  ultimately show ?thesis by simp
qed

text \<open>
  C19.  A checkout writes everything or nothing: one that throws, at whatever step, leaves the whole
  database as it was, apart from one row that it may have added to the carts: the caller's own, for a caller
  who had none, and with it one id of the supply is used up.
\<close>

theorem checkout_atomic:
  fixes s :: "'z ord_db_scheme"
  assumes run: "checkout mkhash ctx user key dto s = (Inl e, s')"
  shows "s' = s \<or> (\<exists>c. new_cart user key s c \<and> s' = s\<lparr>carts := carts s @ [c], next_id := Suc (next_id s)\<rparr>)"
proof -
  obtain q s1 where g: "getCart user key s = (q, s1)" by fastforce
  have "s' = s1"
  proof (cases q)
    case (Inl e1)
    with run g show ?thesis by (simp add: checkout_def bindA_throws [where m = "getCart user key"])
  next
    case (Inr cart)
    from run [unfolded checkout_def bindA_run [where m = "getCart user key", OF g [unfolded Inr]]]
    show ?thesis by (rule cleanD [OF checkout_after_cart])
  qed
  with getCart_state [OF g] show ?thesis by simp
qed

section \<open>The orders a checkout makes\<close>

text \<open>The order of one shop, as the checkout reports it.\<close>

definition order_for :: "jwt_payload option \<Rightarrow> shipping_choice \<Rightarrow> bool \<Rightarrow> string \<times> (cart_item_row \<times> product_row) list \<Rightarrow>
    checkout_result \<Rightarrow> order_row \<Rightarrow> bool" where
  "order_for user ship assigned grp r order \<longleftrightarrow>
    o_id order = cr_id r \<and> o_orderNumber order = cr_orderNumber r \<and> o_totalCents order = cr_totalCents r \<and>
    o_shopId order = fst grp \<and> o_customerId order = user_sub user \<and> o_status order = OS_PENDING_PAYMENT \<and>
    o_subtotalCents order = sum_list (map line_cents (snd grp)) \<and>
    o_commissionCents order = commission_of (o_subtotalCents order) \<and>
    o_shippingPriceCents order = (if assigned then 0 else max 0 (sc_priceCents ship)) \<and>
    o_totalCents order = o_subtotalCents order + o_taxCents order + o_shippingPriceCents order \<and>
    map oi_productId (o_items order) = map (Some \<circ> ci_productId \<circ> fst) (snd grp) \<and>
    map oi_quantity (o_items order) = map (ci_quantity \<circ> fst) (snd grp) \<and>
    map oi_lineTotalCents (o_items order) = map line_cents (snd grp)"

lemma order_tablesD:
  assumes "order_tables s' = order_tables s"
  shows "orders s' = orders s" "history s' = history s" "cart_items s' = cart_items s" "clock s' = clock s"
  using assms by (simp_all add: order_tables_def)

lemma reserve_line_frame: "keeps (\<lambda>s. order_tables s = x) (forA lines (reserve_line oid))"
  unfolding reserve_line_def by (intro keeps_steps order_frame.frame_reserve)

lemma line_meta_quantity:
  "line_meta shop x s = (Inr l, s') \<Longrightarrow> oi_quantity l = ci_quantity (fst x) \<and> oi_productId l = Some (ci_productId (fst x))"
  by (auto simp: line_meta_def ok_simps Let_def)

lemma lines_quantity:
  "mapA items (line_meta shop) s = (Inr ls, s') \<Longrightarrow> map oi_quantity ls = map (ci_quantity \<circ> fst) items \<and>
   map oi_productId ls = map (Some \<circ> ci_productId \<circ> fst) items"
  by (induction items arbitrary: s ls) (auto simp: ok_simps dest: line_meta_quantity)

lemma with_tax_simps [simp]:
  "oi_quantity (with_tax ts l) = oi_quantity l" "oi_productId (with_tax ts l) = oi_productId l"
  "oi_lineTotalCents (with_tax ts l) = oi_lineTotalCents l" "oi_warehouseId (with_tax ts l) = oi_warehouseId l"
  by (simp_all add: with_tax_def split: option.splits)

lemma reads_linesD: "mapA items (line_meta shop) s = (r, s') \<Longrightarrow> s' = s"
  by (rule keepsD [OF reads_lines refl])

lemma reserve_linesD:
  assumes "forA lines (reserve_line oid) s = (r, s')"
  shows "orders s' = orders s" "cart_items s' = cart_items s"
  using keepsD [OF reserve_line_frame refl assms] by (auto dest: order_tablesD)

section \<open>Prices and holds\<close>

text \<open>The prices the cart was read with are still the prices when the orders are written.\<close>

definition prices :: "'z inv_db_scheme \<Rightarrow> (string \<times> int) list" where
  "prices s = map (\<lambda>p. (p_id p, p_priceCents p)) (products s)"

definition priced :: "(string \<times> int) list \<Rightarrow> cart_item_row \<times> product_row \<Rightarrow> bool" where
  "priced ps x \<longleftrightarrow> map_of ps (ci_productId (fst x)) = Some (p_priceCents (snd x))"

lemma price_of: "map_of (prices s) i = map_option p_priceCents (find_row (\<lambda>p. p_id p = i) (products s))"
proof -
  have "map_of (map (\<lambda>p. (p_id p, p_priceCents p)) ps) i = map_option p_priceCents (find_row (\<lambda>p. p_id p = i) ps)" for ps
    by (induction ps) auto
  then show ?thesis by (simp add: prices_def)
qed

lemma prices_reserve: "keeps (\<lambda>s. prices s = x) (reserve p q oid w ttl)"
  unfolding reserve_def reserve_run_def reserveStock_def Let_def
  by (intro keeps_steps keeps_updateA keeps_updateManyA keeps_createA keeps_newIdA order_frame.frame_getAvailable)
    (simp_all add: prices_def map_update_where getAvailable_def Let_def keeps_steps)

lemma prices_lines: "keeps (\<lambda>s. prices s = x) (forA lines (reserve_line oid))"
  unfolding reserve_line_def by (intro keeps_steps prices_reserve)

lemma cart_lines_priced: "x \<in> set (cart_lines cid s) \<Longrightarrow> priced (prices s) x"
  by (auto simp: cart_lines_def map_filter_def with_product_def priced_def price_of)

lemma line_meta_total: "line_meta shop x s = (Inr l, s') \<Longrightarrow> priced (prices s) x \<Longrightarrow> oi_lineTotalCents l = line_cents x"
  by (auto simp: line_meta_def ok_simps Let_def priced_def price_of line_cents_def)

lemma lines_totals:
  "mapA items (line_meta shop) s = (Inr ls, s') \<Longrightarrow> (\<And>x. x \<in> set items \<Longrightarrow> priced (prices s) x) \<Longrightarrow>
   map oi_lineTotalCents ls = map line_cents items"
proof (induction items arbitrary: s ls)
  case Nil
  then show ?case by (simp add: ok_simps)
next
  case (Cons x items)
  from Cons.prems(1) obtain l s1 ls' where l: "line_meta shop x s = (Inr l, s1)"
    and ls: "mapA items (line_meta shop) s1 = (Inr ls', s')" "ls = l # ls'"
    by (auto simp: ok_simps)
  have "s1 = s" by (rule reads_linesD [of "[x]" shop s "Inr [l]"]) (simp add: act_defs l)
  with Cons l ls show ?case by (simp add: line_meta_total)
qed

text \<open>A hold that has not run out stays through later reservations.\<close>

definition stays :: "reservation_row \<Rightarrow> 'z inv_db_scheme \<Rightarrow> bool" where
  "stays r s \<longleftrightarrow> r \<in> set (reservations s) \<and> clock s \<le> r_expiresAt r"

lemma stays_reserve: "keeps (stays r) (reserve p q oid w ttl)"
proof -
  have upd: "stays r s \<Longrightarrow> stays r (reservations_update (update_where
      (\<lambda>x. r_productId x = p \<and> r_status x = RS_ACTIVE \<and> r_expiresAt x < clock s) f) s)" for s f
    by (force simp: stays_def set_update_where)
  have stale: "keeps (stays r) (bindA (getsA clock) (\<lambda>now. thenA (updateManyA reservations_update
      (\<lambda>x. r_productId x = p \<and> r_status x = RS_ACTIVE \<and> r_expiresAt x < now) f) (m now)))"
    if "\<And>now. keeps (stays r) (m now)" for m :: "int \<Rightarrow> ('a inv_db_scheme, 'b) act" and f
    using that upd by (auto simp: keeps_def bindA_gets thenA_def updateManyA_def bindA_def modifyA_def getsA_def)
  have av: "keeps (stays r) (getAvailable p)" unfolding getAvailable_def Let_def by (intro keeps_steps)
  show ?thesis
    unfolding reserve_def reserve_run_def reserveStock_def Let_def
    by (intro keeps_steps stale av keeps_updateA keeps_createA keeps_newIdA) (auto simp: stays_def)
qed

definition held_for :: "string \<Rightarrow> order_item \<Rightarrow> 'z inv_db_scheme \<Rightarrow> bool" where
  "held_for oid l s \<longleftrightarrow> (\<exists>r. stays r s \<and> r_orderId r = oid \<and> r_status r = RS_ACTIVE \<and>
    Some (r_productId r) = oi_productId l \<and> r_quantity r = oi_quantity l)"

lemma held_for_keeps: "(\<And>r. keeps (stays r) m) \<Longrightarrow> keeps (held_for oid l) m"
  unfolding keeps_def held_for_def by blast

lemma held_lines: "keeps (held_for oid l) (forA ls (reserve_line oid'))"
  unfolding reserve_line_def by (intro held_for_keeps keeps_steps stays_reserve)

lemma reserve_line_holds:
  assumes "reserve_line oid l s = (Inr u, s')" and "oi_productId l \<noteq> None"
  shows "held_for oid l s'"
proof -
  from assms(1) obtain r where r: "reserve (the (oi_productId l)) (oi_quantity l) oid (oi_warehouseId l) 30 s = (Inr r, s')"
    by (auto simp: reserve_line_def ok_simps PAYMENT_TOKEN_TTL_MS_def)
  then have "reserve_run (the (oi_productId l)) (oi_quantity l) oid (oi_warehouseId l) 30 s = (Inr r, s')"
    by (auto simp: reserve_def ok_simps)
  from reserve_run_okE [OF this] assms(2) show ?thesis
    by cases (auto simp: held_for_def stays_def new_hold_def add_hold_def intro!: exI [of _ r])
qed

lemma reserve_lines_hold:
  "forA ls (reserve_line oid) s = (Inr u, s') \<Longrightarrow> (\<And>l. l \<in> set ls \<Longrightarrow> oi_productId l \<noteq> None) \<Longrightarrow>
   l \<in> set ls \<Longrightarrow> held_for oid l s'"
proof (induction ls arbitrary: s)
  case Nil
  then show ?case by simp
next
  case (Cons a ls)
  from Cons.prems(1) obtain u1 s1 where a: "reserve_line oid a s = (Inr u1, s1)"
    and ls: "forA ls (reserve_line oid) s1 = (Inr u, s')"
    by (auto simp: ok_simps)
  show ?case
  proof (cases "l \<in> set ls")
    case True
    with Cons.IH [OF ls] Cons.prems(2) show ?thesis by simp
  next
    case False
    with Cons.prems(3) have "l = a" by simp
    with reserve_line_holds [OF a] Cons.prems(2) have "held_for oid l s1" by simp
    then show ?thesis by (rule keepsD [OF held_lines _ ls])
  qed
qed

section \<open>One shop's order\<close>

lemma checkout_shop_okE:
  fixes s s' :: "'z ord_db_scheme"
  assumes run: "checkout_shop mkhash ctx user dto ship assigned grp s = (Inr (assigned', r), s')"
  obtains s0 s1 s2 :: "'z ord_db_scheme" and ls oid ts order where
    "mapA (snd grp) (line_meta (fst grp)) s0 = (Inr ls, s1)"
    "forA (map (with_tax ts) ls) (reserve_line oid) s2 = (Inr (), s')"
    "orders s0 = orders s \<and> cart_items s0 = cart_items s \<and> products s0 = products s"
    "orders s2 = orders s1 @ [order]" "cart_items s2 = cart_items s1 \<and> products s2 = products s1"
    "o_id order = oid \<and> o_items order = map (with_tax ts) ls"
    "o_id order = cr_id r \<and> o_orderNumber order = cr_orderNumber r \<and> o_totalCents order = cr_totalCents r \<and>
     o_shopId order = fst grp \<and> o_customerId order = user_sub user \<and> o_status order = OS_PENDING_PAYMENT \<and>
     o_subtotalCents order = sum_list (map line_cents (snd grp)) \<and>
     o_commissionCents order = commission_of (o_subtotalCents order) \<and>
     o_shippingPriceCents order = (if assigned then 0 else max 0 (sc_priceCents ship)) \<and>
     o_totalCents order = o_subtotalCents order + o_taxCents order + o_shippingPriceCents order"
    "assigned' = (assigned \<or> \<not> assigned \<and> 0 < sc_priceCents ship)"
  using run unfolding checkout_shop_def Let_def generateOrderNumber_def
  by (clarsimp simp: ok_simps foldl_cents max_def)

lemma checkout_shop_run:
  fixes s s' :: "'z ord_db_scheme"
  assumes run: "checkout_shop mkhash ctx user dto ship assigned grp s = (Inr (assigned', r), s')"
    and priced: "\<And>x. x \<in> set (snd grp) \<Longrightarrow> priced (prices s) x"
  shows "\<exists>order. orders s' = orders s @ [order] \<and> order_for user ship assigned grp r order \<and>
      (\<forall>l \<in> set (o_items order). held_for (o_id order) l s')"
    and "assigned' \<longleftrightarrow> assigned \<or> 0 < sc_priceCents ship"
    and "cart_items s' = cart_items s" and "prices s' = prices s"
proof -
  from run obtain s0 s1 s2 :: "'z ord_db_scheme" and ls oid ts order where
    m: "mapA (snd grp) (line_meta (fst grp)) s0 = (Inr ls, s1)" and
    h: "forA (map (with_tax ts) ls) (reserve_line oid) s2 = (Inr (), s')" and
    s0: "orders s0 = orders s \<and> cart_items s0 = cart_items s \<and> products s0 = products s" and
    s2: "orders s2 = orders s1 @ [order]" "cart_items s2 = cart_items s1 \<and> products s2 = products s1" and
    o': "o_id order = oid \<and> o_items order = map (with_tax ts) ls" and
    r: "o_id order = cr_id r \<and> o_orderNumber order = cr_orderNumber r \<and> o_totalCents order = cr_totalCents r \<and>
     o_shopId order = fst grp \<and> o_customerId order = user_sub user \<and> o_status order = OS_PENDING_PAYMENT \<and>
     o_subtotalCents order = sum_list (map line_cents (snd grp)) \<and>
     o_commissionCents order = commission_of (o_subtotalCents order) \<and>
     o_shippingPriceCents order = (if assigned then 0 else max 0 (sc_priceCents ship)) \<and>
     o_totalCents order = o_subtotalCents order + o_taxCents order + o_shippingPriceCents order" and
    a: "assigned' = (assigned \<or> \<not> assigned \<and> 0 < sc_priceCents ship)"
    by (rule checkout_shop_okE)
  have s1: "s1 = s0" by (rule reads_linesD [OF m])
  have pr: "prices s2 = prices s" "prices s0 = prices s" using s0 s1 s2 by (simp_all add: prices_def)
  have t: "map oi_lineTotalCents ls = map line_cents (snd grp)"
    by (rule lines_totals [OF m]) (simp add: pr priced)
  have ids: "oi_productId l \<noteq> None" if "l \<in> set (map (with_tax ts) ls)" for l
  proof -
    from that have "oi_productId l \<in> set (map oi_productId ls)" by auto
    with lines_quantity [OF m] show ?thesis by auto
  qed
  have "order_for user ship assigned grp r order"
    using r o' t lines_quantity [OF m] by (simp add: order_for_def comp_def)
  moreover have "held_for (o_id order) l s'" if "l \<in> set (o_items order)" for l
    using reserve_lines_hold [OF h] ids that o' by simp
  ultimately show "\<exists>order. orders s' = orders s @ [order] \<and> order_for user ship assigned grp r order \<and>
      (\<forall>l \<in> set (o_items order). held_for (o_id order) l s')"
    using s0 s1 s2 reserve_linesD(1) [OF h] by auto
  show "assigned' \<longleftrightarrow> assigned \<or> 0 < sc_priceCents ship" using a by blast
  show "cart_items s' = cart_items s" using s0 s1 s2 reserve_linesD(2) [OF h] by simp
  show "prices s' = prices s" using keepsD [OF prices_lines refl h] pr by simp
qed

text \<open>The holds of the earlier orders stay.\<close>

lemma held_shop: "keeps (held_for oid l) (checkout_shop mkhash ctx user dto ship assigned grp)"
  unfolding checkout_shop_def Let_def generateOrderNumber_def
  by (intro keeps_steps held_lines keeps_newIdA keeps_createUniqueA keeps_createA keeps_reads [OF reads_lines])
    (auto simp: held_for_def stays_def)

lemma held_shops: "keeps (held_for oid l) (checkout_shops mkhash ctx user dto ship assigned grps)"
  by (induction grps arbitrary: assigned) (auto intro!: keeps_steps held_shop split: prod.splits)

text \<open>All shops in turn: an order each, shipping at the first one only.\<close>

lemma checkout_shops_run:
  "checkout_shops mkhash ctx user dto ship assigned grps s = (Inr rs, s') \<Longrightarrow>
   \<forall>g \<in> set grps. \<forall>x \<in> set (snd g). priced (prices s) x \<Longrightarrow>
   \<exists>new. orders s' = orders s @ new \<and> length new = length grps \<and> length rs = length grps \<and>
     list_all2 (\<lambda>r (g, order). \<exists>a. order_for user ship a g r order) rs (zip grps new) \<and>
     sum_list (map o_shippingPriceCents new) = (if assigned \<or> grps = [] then 0 else max 0 (sc_priceCents ship)) \<and>
     (\<forall>order \<in> set new. \<forall>l \<in> set (o_items order). held_for (o_id order) l s') \<and>
     cart_items s' = cart_items s"
proof (induction grps arbitrary: assigned s rs)
  case Nil
  then show ?case by (simp add: ok_simps)
next
  case (Cons g gs)
  from Cons.prems(1) obtain a r s1 rs' where g: "checkout_shop mkhash ctx user dto ship assigned g s = (Inr (a, r), s1)"
    and gs: "checkout_shops mkhash ctx user dto ship a gs s1 = (Inr rs', s')" and rs: "rs = r # rs'"
    by (auto simp: ok_simps)
  have pr: "priced (prices s) x" if "x \<in> set (snd g)" for x using Cons.prems(2) that by simp
  note shop = checkout_shop_run [OF g pr]
  from shop(1) obtain order where order: "orders s1 = orders s @ [order]" "order_for user ship assigned g r order"
    and held: "\<And>l. l \<in> set (o_items order) \<Longrightarrow> held_for (o_id order) l s1" by blast
  have prs: "\<forall>h \<in> set gs. \<forall>x \<in> set (snd h). priced (prices s1) x"
    using Cons.prems(2) shop(4) by simp
  from Cons.IH [OF gs prs] obtain new where new: "orders s' = orders s1 @ new" "length new = length gs" "length rs' = length gs"
    "list_all2 (\<lambda>r (g, order). \<exists>a. order_for user ship a g r order) rs' (zip gs new)"
    "sum_list (map o_shippingPriceCents new) = (if a \<or> gs = [] then 0 else max 0 (sc_priceCents ship))"
    "\<And>order l. order \<in> set new \<Longrightarrow> l \<in> set (o_items order) \<Longrightarrow> held_for (o_id order) l s'"
    "cart_items s' = cart_items s1"
    by blast
  have "held_for (o_id order) l s'" if "l \<in> set (o_items order)" for l
    by (rule keepsD [OF held_shops held [OF that] gs])
  moreover have "o_shippingPriceCents order = (if assigned then 0 else max 0 (sc_priceCents ship))"
    using order(2) by (simp add: order_for_def)
  ultimately show ?case
    using order new shop(2,3) rs
    by (intro exI [of _ "order # new"]) (auto simp: max_def)
qed

text \<open>The price of shipping a request asks for.\<close>

definition shipping_asked :: "checkout_dto \<Rightarrow> int" where
  "shipping_asked dto = (case ck_shipping dto of None \<Rightarrow> 0
    | Some sh \<Rightarrow> (case cs_priceCents sh of None \<Rightarrow> 0 | Some price \<Rightarrow> if cs_rateId sh = [] then 0 else max 0 price))"

lemma choose_shipping_price: "choose_shipping (ck_shipping dto) s = (Inr ship, s') \<Longrightarrow> sc_priceCents ship = shipping_asked dto"
  by (auto simp: choose_shipping_def shipping_asked_def Let_def ok_simps split: option.splits if_splits)

lemma getCart_items:
  assumes "getCart user key s = (Inr cart, s1)"
  shows "cv_items cart = cart_lines (cv_id cart) s1" "cv_subtotalCents cart = sum_list (map line_cents (cv_items cart))"
  using assms by (auto simp: getCart_def ok_simps foldl_cents)

lemma announce_frame: "keeps (\<lambda>s. (orders s, cart_items s) = x) (forA rs (announce_order user))"
  unfolding announce_order_def by (intro keeps_steps keeps_auditA keeps_emitA) auto

lemma held_announce: "keeps (held_for oid l) (forA rs (announce_order user))"
  unfolding announce_order_def by (intro keeps_steps keeps_auditA keeps_emitA) (auto simp: held_for_def stays_def)

lemma byShop_lines:
  "g \<in> set (byShop xs) \<Longrightarrow> x \<in> set (snd g) \<Longrightarrow> x \<in> set xs"
proof -
  have add: "x \<in> \<Union> (set ` snd ` set (add_to_group k y h)) \<Longrightarrow> x = y \<or> x \<in> \<Union> (set ` snd ` set h)" for k y and h :: "(string \<times> (cart_item_row \<times> product_row) list) list"
    by (induction k y h rule: add_to_group.induct) (auto split: if_splits)
  have "x \<in> \<Union> (set ` snd ` set (foldl (\<lambda>g x. add_to_group (p_shopId (snd x)) x g) h ys)) \<Longrightarrow> x \<in> set ys \<or> x \<in> \<Union> (set ` snd ` set h)" for h ys
    by (induction ys arbitrary: h) (use add in fastforce)+
  from this [of "[]" xs] show "g \<in> set (byShop xs) \<Longrightarrow> x \<in> set (snd g) \<Longrightarrow> x \<in> set xs"
    by (auto simp: byShop_def)
qed

lemma orders_reported:
  "list_all2 (\<lambda>r (g, order). \<exists>a. order_for user ship a g r order) rs (zip gs new) \<Longrightarrow> length new = length gs \<Longrightarrow> length rs = length gs \<Longrightarrow>
   map o_id new = map cr_id rs \<and> map o_totalCents new = map cr_totalCents rs \<and> map o_shopId new = map fst gs \<and>
   map o_subtotalCents new = map (\<lambda>g. sum_list (map line_cents (snd g))) gs \<and>
   (\<forall>order \<in> set new. \<exists>a g r. order_for user ship a g r order)"
proof (induction gs arbitrary: new rs)
  case Nil
  then show ?case by simp
next
  case (Cons g gs)
  then obtain order new' r rs' where "new = order # new'" "rs = r # rs'"
    by (metis length_Suc_conv)
  with Cons.prems obtain a where nr: "new = order # new'" "rs = r # rs'" and first: "order_for user ship a g r order"
    and rest: "list_all2 (\<lambda>r (g, order). \<exists>a. order_for user ship a g r order) rs' (zip gs new')"
    "length new' = length gs" "length rs' = length gs"
    by auto
  have "o_id order = cr_id r" "o_totalCents order = cr_totalCents r" "o_shopId order = fst g"
    "o_subtotalCents order = sum_list (map line_cents (snd g))"
    using first by (simp_all add: order_for_def)
  moreover have "\<exists>a g r. order_for user ship a g r order" using first by blast
  ultimately show ?case using Cons.IH [OF rest] nr by simp
qed

text \<open>
  C20.  A checkout that returns made one new order for every shop of the cart and nothing else of that
  kind: it reports their ids and totals; every total is subtotal plus tax plus shipping, every subtotal is
  the sum of the order's lines and carries its commission, the subtotals add up to the cart's subtotal,
  and over all orders the asked shipping is charged exactly once.  Every line of every order has an open
  hold of its quantity, and the cart is empty.
\<close>

theorem checkout_orders:
  assumes run: "checkout mkhash ctx user key dto s = (Inr rs, s')"
  shows "\<exists>cart s1 new. getCart user key s = (Inr cart, s1) \<and> cv_items cart \<noteq> [] \<and> orders s' = orders s @ new \<and>
    map o_id new = map cr_id rs \<and> map o_totalCents new = map cr_totalCents rs \<and>
    distinct (map o_shopId new) \<and> set (map o_shopId new) = p_shopId ` snd ` set (cv_items cart) \<and>
    sum_list (map o_subtotalCents new) = cv_subtotalCents cart \<and>
    sum_list (map o_shippingPriceCents new) = shipping_asked dto \<and>
    (\<forall>order \<in> set new. o_status order = OS_PENDING_PAYMENT \<and> o_customerId order = user_sub user \<and>
      o_totalCents order = o_subtotalCents order + o_taxCents order + o_shippingPriceCents order \<and>
      o_subtotalCents order = sum_list (map oi_lineTotalCents (o_items order)) \<and>
      o_commissionCents order = commission_of (o_subtotalCents order) \<and>
      (\<forall>l \<in> set (o_items order). held_for (o_id order) l s')) \<and>
    filter (\<lambda>i. ci_cartId i = cv_id cart) (cart_items s') = []"
proof -
  from run obtain cart s1 s2 s3 ship s4 u v where g: "getCart user key s = (Inr cart, s1)" and ne: "cv_items cart \<noteq> []"
    and v: "forA (cv_items cart) validate_line s1 = (Inr u, s2)" and sh: "choose_shipping (ck_shipping dto) s2 = (Inr ship, s3)"
    and c: "checkout_shops mkhash ctx user dto ship False (byShop (cv_items cart)) s3 = (Inr rs, s4)"
    and an: "forA rs (announce_order user) (cart_items_update (delete_where (\<lambda>i. ci_cartId i = cv_id cart)) s4) = (Inr v, s')"
    unfolding checkout_def bindA_ok thenA_ok guardA_ok txA_ok modifyA_ok returnA_ok by blast
  have s3: "s3 = s1" using keepsD [OF reads_validate refl v] keepsD [OF reads_shipping refl sh] by simp
  have priced: "\<forall>g \<in> set (byShop (cv_items cart)). \<forall>x \<in> set (snd g). priced (prices s1) x"
    using byShop_lines [of _ "cv_items cart"] getCart_items(1) [OF g] cart_lines_priced by metis
  have os: "orders s1 = orders s" by (rule cart_only_orders [OF keepsD [OF reads_getCart cart_only_refl g]])
  from checkout_shops_run [OF c [unfolded s3] priced] byShop_ne [OF ne] obtain new where new: "orders s4 = orders s1 @ new"
    "length new = length (byShop (cv_items cart))" "length rs = length (byShop (cv_items cart))"
    "list_all2 (\<lambda>r (g, order). \<exists>a. order_for user ship a g r order) rs (zip (byShop (cv_items cart)) new)"
    "sum_list (map o_shippingPriceCents new) = max 0 (sc_priceCents ship)"
    "\<And>order l. order \<in> set new \<Longrightarrow> l \<in> set (o_items order) \<Longrightarrow> held_for (o_id order) l s4"
    by auto
  note rep = orders_reported [OF new(4,2,3)]
  have held: "held_for (o_id order) l s'" if "order \<in> set new" "l \<in> set (o_items order)" for order l
    by (rule keepsD [OF held_announce _ an]) (use new(6) [OF that] in \<open>simp add: held_for_def stays_def\<close>)
  have os': "orders s' = orders s @ new" and ci: "cart_items s' = delete_where (\<lambda>i. ci_cartId i = cv_id cart) (cart_items s4)"
    using keepsD [OF announce_frame refl an] new(1) os by simp_all
  have sub: "o_subtotalCents order = sum_list (map oi_lineTotalCents (o_items order))" "o_status order = OS_PENDING_PAYMENT"
    "o_customerId order = user_sub user" "o_commissionCents order = commission_of (o_subtotalCents order)"
    "o_totalCents order = o_subtotalCents order + o_taxCents order + o_shippingPriceCents order" if "order \<in> set new" for order
    using rep that by (auto simp: order_for_def)
  have ship: "sum_list (map o_shippingPriceCents new) = shipping_asked dto"
    using new(5) choose_shipping_price [OF sh] by (simp add: shipping_asked_def max_def split: option.splits if_splits)
  have cents: "sum_list (map o_subtotalCents new) = cv_subtotalCents cart"
    using rep getCart_items(2) [OF g] by (simp add: byShop_sum)
  have shops: "set (map o_shopId new) = p_shopId ` snd ` set (cv_items cart)" "distinct (map o_shopId new)"
    using rep byShop_distinct byShop_shops by metis+
  show ?thesis
    by (intro exI [of _ cart] exI [of _ s1] exI [of _ new] conjI ballI g ne os' shops cents ship sub held)
      (use rep ci in \<open>simp_all add: delete_where_def\<close>)
qed

section \<open>An example\<close>

text \<open>A buyer with two units of one product in the cart, and with more than there are.\<close>

definition demo_cart :: "int \<Rightarrow> rfq_db" where
  "demo_cart n = demo_db
    \<lparr>carts := [\<lparr>c_id = ''c1'', c_userId = Some ''u1'', c_sessionKey = None\<rparr>],
     cart_items := [\<lparr>ci_id = ''i1'', ci_cartId = ''c1'', ci_productId = ''p1'', ci_quantity = n\<rparr>]\<rparr>"

definition demo_dto :: checkout_dto where
  "demo_dto = \<lparr>ck_customerName = None, ck_customerEmail = None, ck_comment = None, ck_shipping = None, ck_taxCountry = None\<rparr>"

lemma demo_getCart:
  "getCart (Some demo_buyer) None (demo_cart n) =
    (Inr \<lparr>cv_id = ''c1'', cv_items = [(\<lparr>ci_id = ''i1'', ci_cartId = ''c1'', ci_productId = ''p1'', ci_quantity = n\<rparr>, demo_product ''p1'' 1000 5)],
      cv_subtotalCents = 1000 * n, cv_itemCount = n\<rparr>, demo_cart n)"
  by (simp add: getCart_def getOrCreateCart_def find_or_create_cart_def bindA_gets demo_buyer_def demo_cart_def demo_db_def
      returnA_def cart_lines_def map_filter_def with_product_def demo_product_def bindA_def getsA_def)

lemma demo_shop_checkout:
  "\<exists>a r s'. checkout_shop id None (Some demo_buyer) demo_dto ship False
    (''s1'', [(\<lparr>ci_id = ''i1'', ci_cartId = ''c1'', ci_productId = ''p1'', ci_quantity = 2\<rparr>, demo_product ''p1'' 1000 5)]) (demo_cart 2) = (Inr (a, r), s')"
  by (simp add: checkout_shop_def Let_def generateOrderNumber_def ok_simps line_meta_def getAvailable_def demo_cart_def
      demo_db_def demo_product_def resolveDefaultWarehouse_def demo_warehouse_def empty_db_def reserve_line_def
      PAYMENT_TOKEN_TTL_MS_def reserve_def reserve_run_def reserveStock_def update_where_def)

lemma demo_checkout: "\<exists>rs s'. checkout id None (Some demo_buyer) None demo_dto (demo_cart 2) = (Inr rs, s')"
proof -
  obtain a r s1 where shop: "checkout_shop id None (Some demo_buyer) demo_dto
      \<lparr>sc_priceCents = 0, sc_methodId = None, sc_rateId = None, sc_daysMin = None, sc_daysMax = None\<rparr> False
    (''s1'', [(\<lparr>ci_id = ''i1'', ci_cartId = ''c1'', ci_productId = ''p1'', ci_quantity = 2\<rparr>, demo_product ''p1'' 1000 5)]) (demo_cart 2) = (Inr (a, r), s1)"
    using demo_shop_checkout by blast
  have v: "validate_line (\<lparr>ci_id = ''i1'', ci_cartId = ''c1'', ci_productId = ''p1'', ci_quantity = 2\<rparr>, demo_product ''p1'' 1000 5) (demo_cart 2) =
      (Inr (), demo_cart 2)"
    by (simp add: validate_line_def assertProductSellable_def ok_simps Let_def totalAvailableForProduct_def demo_cart_def
        demo_db_def demo_product_def demo_shop_def)
  have b: "byShop [(i, demo_product ''p1'' 1000 5)] = [(''s1'', [(i, demo_product ''p1'' 1000 5)])]" for i
    by (simp add: byShop_def demo_product_def)
  have d: "ck_shipping demo_dto = None" by (simp add: demo_dto_def)
  show ?thesis
    by (auto simp: checkout_def bindA_run [where m = "getCart (Some demo_buyer) None", OF demo_getCart] ok_simps v b shop d
        choose_shipping_def Let_def announce_order_def auditA_ok emitA_def intro!: exI [of _ "[r]"])
qed

theorem checkout_orders_witness:
  "\<exists>rs s' order. checkout id None (Some demo_buyer) None demo_dto (demo_cart 2) = (Inr rs, s') \<and>
    orders s' = [order] \<and> o_subtotalCents order = 2000 \<and> map cr_totalCents rs = [o_totalCents order] \<and>
    o_shippingPriceCents order = 0"
proof -
  obtain rs s' where run: "checkout id None (Some demo_buyer) None demo_dto (demo_cart 2) = (Inr rs, s')"
    using demo_checkout by blast
  have s: "shipping_asked demo_dto = 0" "orders (demo_cart 2) = []"
    by (simp_all add: shipping_asked_def demo_dto_def demo_cart_def demo_db_def empty_db_def)
  from checkout_orders [OF run, unfolded demo_getCart s] obtain new where
    new: "orders s' = new" "map o_totalCents new = map cr_totalCents rs" "distinct (map o_shopId new)"
      "set (map o_shopId new) = {''s1''}" "sum_list (map o_subtotalCents new) = 2000"
      "sum_list (map o_shippingPriceCents new) = 0"
    by (auto simp: demo_product_def)
  from new(3,4) distinct_card [OF new(3)] have "length new = 1" by simp
  then obtain order where "new = [order]" by (auto simp: length_Suc_conv)
  with run new show ?thesis by auto
qed

lemma demo_oversold: "checkout id None (Some demo_buyer) None demo_dto (demo_cart 9) =
    (Inl (BadRequest ''insufficient stock''), demo_cart 9)"
proof -
  have v: "validate_line (\<lparr>ci_id = ''i1'', ci_cartId = ''c1'', ci_productId = ''p1'', ci_quantity = 9\<rparr>, demo_product ''p1'' 1000 5) (demo_cart 9) =
      (Inl (BadRequest ''insufficient stock''), demo_cart 9)"
    by (simp add: validate_line_def assertProductSellable_def act_defs Let_def totalAvailableForProduct_def demo_cart_def
        demo_db_def demo_product_def demo_shop_def)
  show ?thesis
    by (simp add: checkout_def demo_getCart act_defs v)
qed

theorem checkout_atomic_witness:
  "\<exists>s'. checkout id None (Some demo_buyer) None demo_dto (demo_cart 9) = (Inl (BadRequest ''insufficient stock''), s') \<and>
    orders s' = [] \<and> reservations s' = []"
proof -
  have empty: "orders (demo_cart 9) = []" "reservations (demo_cart 9) = []"
    by (simp_all add: demo_cart_def demo_db_def empty_db_def)
  obtain s' where run: "checkout id None (Some demo_buyer) None demo_dto (demo_cart 9) = (Inl (BadRequest ''insufficient stock''), s')"
    using demo_oversold by blast
  from checkout_atomic [OF run] run empty show ?thesis by auto
qed

section \<open>The commission\<close>

text \<open>
  The commission the code computes with doubles is the exact one of whole numbers: ten percent of the
  subtotal, half a cent rounded up, for every subtotal an order's column can hold and far beyond; it is
  between zero and the subtotal.
\<close>

theorem commission_exact:
  assumes "0 \<le> cents" and "cents < 2 ^ 42"
  shows "commission_of cents = (cents + 5) div 10 \<and> 0 \<le> commission_of cents \<and> commission_of cents \<le> cents"
proof -
  have "cents * 1000 < 2 ^ 52"
    using assms(2) by simp
  then have "commission_of cents = round_frac (cents * 1000) 10000"
    unfolding commission_of_def COMMISSION_BPS_def using assms(1) by (intro js_round_fl_frac) simp_all
  also have "\<dots> = (cents + 5) div 10"
  proof -
    have "2 * (cents * 1000) + 10000 = 2000 * (cents + 5)" by simp
    moreover have "2000 * (cents + 5) div (2000 * 10) = (cents + 5) div 10" by (rule div_mult_mult1) simp
    ultimately show ?thesis by (simp add: round_frac_def)
  qed
  finally have eq: "commission_of cents = (cents + 5) div 10" .
  moreover have "0 \<le> (cents + 5) div 10 \<and> (cents + 5) div 10 \<le> cents" using assms(1) by presburger
  ultimately show ?thesis by simp
qed

theorem commission_exact_witness: "commission_of 2005 = 201 \<and> commission_of 2004 = 200"
  using commission_exact [of 2005] commission_exact [of 2004] by simp

end
