(* ===== verification/Refunds.thy ===== *)
theory Refunds
  imports Ledger Orders
begin

text \<open>
  Refunds: \<open>refunds/refund-status.machine.ts\<close> and \<open>refunds/refunds.service.ts\<close>.  A buyer or an
  administrator asks for a refund, an administrator approves it, the provider is asked for it, and
  only the provider's webhook completes it and reverses the money in both ledgers.

  \<open>stripe.refunds.create\<close> is the argument \<open>stripe\<close>: the id of the provider's refund, or the exception
  it throws.  Of the JSON metadata of a ledger entry the model keeps the values, separated by blanks.
\<close>

section \<open>refund-status.machine.ts\<close>

definition TRANSITIONS :: "refund_status \<Rightarrow> refund_status list" where
  "TRANSITIONS from' =
    (case from' of
      RF_REQUESTED \<Rightarrow> [RF_APPROVED, RF_REJECTED]
    | RF_APPROVED \<Rightarrow> [RF_PROVIDER_REQUESTED, RF_REJECTED, RF_FAILED]
    | RF_PROVIDER_REQUESTED \<Rightarrow> [RF_PROVIDER_CONFIRMED, RF_COMPLETED, RF_FAILED]
    | RF_PROVIDER_CONFIRMED \<Rightarrow> [RF_COMPLETED]
    | RF_COMPLETED \<Rightarrow> []
    | RF_REJECTED \<Rightarrow> []
    | RF_FAILED \<Rightarrow> [RF_APPROVED])"

definition canTransitionRefund :: "refund_status \<Rightarrow> refund_status \<Rightarrow> bool" where
  "canTransitionRefund from' to' \<longleftrightarrow> to' \<in> set (TRANSITIONS from')"

definition PROVIDER_CONFIRMABLE :: "refund_status list" where
  "PROVIDER_CONFIRMABLE = [RF_PROVIDER_REQUESTED, RF_APPROVED, RF_PROVIDER_CONFIRMED]"

section \<open>Reading\<close>

text \<open>The refund and its order (a foreign key).\<close>

definition order_of_refund :: "refund_row \<Rightarrow> 'z pay_db_scheme \<Rightarrow> order_row option" where
  "order_of_refund r s = find_row (\<lambda>o'. o_id o' = rf_orderId r) (orders s)"

definition refund_findById :: "string \<Rightarrow> ('z pay_db_scheme, refund_row \<times> order_row) act" where
  "refund_findById i =
    bindA (getsA (\<lambda>s. find_row (\<lambda>r. rf_id r = i) (refunds s))) (\<lambda>found.
    bindA (someA found (NotFound ''Refund not found'')) (\<lambda>refund.
    bindA (getsA (order_of_refund refund)) (\<lambda>o'.
    bindA (someA o' (RawError ''TypeError'')) (\<lambda>order.
    returnA (refund, order)))))"

definition assertCanView :: "jwt_payload \<Rightarrow> order_row \<Rightarrow> ('s, unit) act" where
  "assertCanView user order =
    guardA (is_admin user \<or>
      user_role user = MERCHANT \<and> user_shopId user = Some (o_shopId order) \<or>
      user_role user = CUSTOMER \<and> o_customerId order = Some (sub user)) (Forbidden '''')"

definition getOne :: "jwt_payload \<Rightarrow> string \<Rightarrow> ('z pay_db_scheme, refund_row) act" where
  "getOne user i =
    bindA (refund_findById i) (\<lambda>(refund, order).
    thenA (assertCanView user order) (returnA refund))"

section \<open>requestRefund\<close>

text \<open>The statuses in which a refund counts against the amount paid.\<close>

definition LIVE_REFUNDS :: "refund_status list" where
  "LIVE_REFUNDS = [RF_REQUESTED, RF_APPROVED, RF_PROVIDER_REQUESTED, RF_PROVIDER_CONFIRMED, RF_COMPLETED]"

definition refundedSoFar :: "string \<Rightarrow> 'z pay_db_scheme \<Rightarrow> int" where
  "refundedSoFar orderId s =
    sum_where (\<lambda>r. rf_orderId r = orderId \<and> rf_status r \<in> set LIVE_REFUNDS) rf_amountCents (refunds s)"

definition paidBase :: "order_row \<Rightarrow> 'z pay_db_scheme \<Rightarrow> int" where
  "paidBase order s =
    (let paid = sum_where (\<lambda>p. pay_orderId p = o_id order \<and> pay_status p = PS_SUCCEEDED) pay_amountCents (payments s)
     in if 0 < paid then paid else o_totalCents order)"

definition maxRefundable :: "order_row \<Rightarrow> 'z pay_db_scheme \<Rightarrow> int" where
  "maxRefundable order s = max (paidBase order s - refundedSoFar (o_id order) s) 0"

definition may_request :: "jwt_payload \<Rightarrow> order_row \<Rightarrow> bool" where
  "may_request user order \<longleftrightarrow>
    \<not> (user_role user = CUSTOMER \<and> o_customerId order \<noteq> Some (sub user)) \<and>
    \<not> (user_role user = MERCHANT \<and> user_shopId user \<noteq> Some (o_shopId order) \<and> \<not> is_admin user)"

definition refundable_status :: "order_status \<Rightarrow> bool" where
  "refundable_status st \<longleftrightarrow> st \<in> {OS_PAID, OS_PARTIALLY_REFUNDED, OS_PROCESSING, OS_SHIPPED, OS_COMPLETED}"

definition requestRefund ::
  "jwt_payload \<Rightarrow> string \<Rightarrow> int \<Rightarrow> string option \<Rightarrow> ('z pay_db_scheme, refund_row) act" where
  "requestRefund user orderId amount reason =
    bindA (getsA (\<lambda>s. find_row (\<lambda>o'. o_id o' = orderId) (orders s))) (\<lambda>found.
    bindA (someA found (NotFound ''Order not found'')) (\<lambda>order.
    thenA (guardA (may_request user order) (Forbidden ''''))
    (thenA (guardA (refundable_status (o_status order)) (BadRequest ''Order is not eligible for refund''))
    (bindA (getsA (maxRefundable order)) (\<lambda>maxCents.
     thenA (guardA (\<not> (amount \<le> 0 \<or> maxCents < amount)) (BadRequest ''Invalid refund amount''))
     (bindA newIdA (\<lambda>rid.
      let refund =
        \<lparr>rf_id = rid, rf_orderId = orderId, rf_amountCents = amount,
         rf_currency = (if o_currency order = [] then ''USD'' else o_currency order),
         rf_reason = or_else reason None, rf_status = RF_REQUESTED, rf_adminNote = None,
         rf_requestedById = Some (sub user), rf_approvedById = None, rf_approvedAt = None,
         rf_stripeRefundId = None, rf_providerRequestedAt = None, rf_providerConfirmedAt = None,
         rf_completedAt = None, rf_failureReason = None\<rparr> in
      thenA (createA refunds_update refund)
      (thenA (auditA (Some (sub user)) ''REFUND_REQUESTED'' ''Refund'' (Some rid))
        (returnA refund)))))))))"

section \<open>approveRefund, rejectRefund\<close>

definition approveRefund :: "string \<Rightarrow> string \<Rightarrow> ('z pay_db_scheme, refund_row) act" where
  "approveRefund refundId adminId =
    bindA (refund_findById refundId) (\<lambda>(refund, order).
    thenA (guardA (rf_status refund = RF_REQUESTED) (BadRequest ''Invalid status''))
    (thenA (guardA (canTransitionRefund (rf_status refund) RF_APPROVED) (BadRequest ''Transition not allowed''))
    (bindA (getsA clock) (\<lambda>now.
     bindA (updateRowA refunds refunds_update (\<lambda>r. rf_id r = refundId)
       (\<lambda>r. r\<lparr>rf_status := RF_APPROVED, rf_approvedById := Some adminId, rf_approvedAt := Some now\<rparr>)) (\<lambda>updated.
     thenA (auditA (Some adminId) ''REFUND_APPROVED'' ''Refund'' (Some refundId)) (returnA updated))))))"

definition rejectRefund :: "string \<Rightarrow> string \<Rightarrow> string option \<Rightarrow> ('z pay_db_scheme, refund_row) act" where
  "rejectRefund refundId adminId reason =
    bindA (refund_findById refundId) (\<lambda>(refund, order).
    thenA (guardA (rf_status refund = RF_REQUESTED \<or> rf_status refund = RF_APPROVED) (BadRequest ''Cannot reject''))
    (bindA (getsA clock) (\<lambda>now.
     bindA (updateRowA refunds refunds_update (\<lambda>r. rf_id r = refundId)
       (\<lambda>r. r\<lparr>rf_status := RF_REJECTED, rf_approvedById := Some adminId, rf_approvedAt := Some now,
              rf_adminNote := or_else reason (rf_adminNote refund), rf_failureReason := or_else reason None\<rparr>))
       (\<lambda>updated.
     thenA (auditA (Some adminId) ''REFUND_REJECTED'' ''Refund'' (Some refundId)) (returnA updated)))))"

section \<open>requestProviderRefund\<close>

definition stripe_paid :: "string \<Rightarrow> payment_row \<Rightarrow> bool" where
  "stripe_paid orderId p \<longleftrightarrow>
    pay_orderId p = orderId \<and> pay_provider p = ''stripe'' \<and> pay_status p = PS_SUCCEEDED"

definition set_failed :: "string \<Rightarrow> refund_row \<Rightarrow> refund_row" where
  "set_failed reason r = r\<lparr>rf_status := RF_FAILED, rf_failureReason := Some reason\<rparr>"

definition requestProviderRefund ::
  "bool \<Rightarrow> bool \<Rightarrow> (refund_row \<Rightarrow> exn + string) \<Rightarrow> string \<Rightarrow> string option \<Rightarrow> ('z pay_db_scheme, refund_row) act" where
  "requestProviderRefund isDev hasSecret stripe refundId actorId =
    bindA (getsA (\<lambda>s. find_row (\<lambda>r. rf_id r = refundId) (refunds s))) (\<lambda>found.
    bindA (someA found (NotFound ''Refund not found'')) (\<lambda>refund.
    thenA (guardA (rf_status refund = RF_APPROVED) (BadRequest ''Must be APPROVED''))
    (bindA (getsA (\<lambda>s. find_row (stripe_paid (rf_orderId refund)) (payments s))) (\<lambda>payment.
     if \<not> truthy (Option.bind payment pay_providerPaymentId) then
       (if isDev then
          updateRowA refunds refunds_update (\<lambda>r. rf_id r = refundId)
            (set_failed ''No Stripe payment; use webhook sim or stripe mode'')
        else throwA (BadRequest ''No successful Stripe payment found''))
     else
       thenA (guardA hasSecret (ServiceUnavailable ''STRIPE_SECRET_KEY not configured''))
        (case stripe refund of
          Inl e \<Rightarrow>
            thenA (updateA refunds refunds_update (\<lambda>r. rf_id r = refundId)
                    (set_failed (take 500 (exn_message e))))
              (throwA (BadRequest (''Stripe refund failed: '' @ exn_message e)))
        | Inr stripeId \<Rightarrow>
            bindA (getsA clock) (\<lambda>now.
            bindA (updateRowA refunds refunds_update (\<lambda>r. rf_id r = refundId)
              (\<lambda>r. r\<lparr>rf_status := RF_PROVIDER_REQUESTED, rf_stripeRefundId := Some stripeId,
                     rf_providerRequestedAt := Some now,
                     rf_adminNote := Some (''stripe_refund='' @ stripeId)\<rparr>)) (\<lambda>updated.
            thenA (auditA actorId ''REFUND_PROVIDER_REQUESTED'' ''Refund'' (Some refundId))
              (returnA updated))))))))"

section \<open>confirmProviderRefund\<close>

record confirm_params =
  cp_stripeRefundId :: "string option"
  cp_orderId :: "string option"
  cp_amountCents :: "int option"
  cp_refundIdFromMeta :: "string option"

datatype confirm_result =
    RefundNotFound
  | RefundAlready string
  | RefundInvalidStatus refund_status
  | RefundConfirmed string

text \<open>By the id in the metadata, by the provider's id, by the provider's id in the note.\<close>

definition find_confirmed :: "confirm_params \<Rightarrow> refund_row list \<Rightarrow> refund_row option" where
  "find_confirmed params rs =
    (let byMeta = (case or_else (cp_refundIdFromMeta params) None of
           None \<Rightarrow> None | Some i \<Rightarrow> find_row (\<lambda>r. rf_id r = i) rs);
         byStripe = (case or_else (cp_stripeRefundId params) None of
           None \<Rightarrow> None | Some i \<Rightarrow> find_row (\<lambda>r. rf_stripeRefundId r = Some i) rs);
         byNote = (case or_else (cp_stripeRefundId params) None of
           None \<Rightarrow> None
         | Some i \<Rightarrow> find_row (\<lambda>r. case rf_adminNote r of None \<Rightarrow> False | Some n \<Rightarrow> js_contains i n) rs)
     in case byMeta of Some r \<Rightarrow> Some r
        | None \<Rightarrow> (case byStripe of Some r \<Rightarrow> Some r | None \<Rightarrow> byNote))"

text \<open>A refund made at the provider without a request gets its row now.\<close>

definition create_out_of_band :: "confirm_params \<Rightarrow> string \<Rightarrow> string \<Rightarrow> ('z pay_db_scheme, refund_row) act" where
  "create_out_of_band params orderId stripeId =
    bindA (getsA (\<lambda>s. find_row (\<lambda>o'. o_id o' = orderId) (orders s))) (\<lambda>o'.
    bindA (someA o' (PrismaError ''P2003'')) (\<lambda>_.
    bindA newIdA (\<lambda>rid.
    bindA (getsA clock) (\<lambda>now.
    let refund =
      \<lparr>rf_id = rid, rf_orderId = orderId,
       rf_amountCents = (case cp_amountCents params of None \<Rightarrow> 0 | Some n \<Rightarrow> n),
       rf_currency = ''USD'', rf_reason = Some ''stripe_webhook'', rf_status = RF_PROVIDER_REQUESTED,
       rf_adminNote = Some (''stripe_refund='' @ stripeId), rf_requestedById = None,
       rf_approvedById = None, rf_approvedAt = None, rf_stripeRefundId = Some stripeId,
       rf_providerRequestedAt = Some now, rf_providerConfirmedAt = None, rf_completedAt = None,
       rf_failureReason = None\<rparr> in
    thenA (createA refunds_update refund) (returnA refund)))))"

definition locate_refund :: "confirm_params \<Rightarrow> ('z pay_db_scheme, refund_row option) act" where
  "locate_refund params =
    bindA (getsA (\<lambda>s. find_confirmed params (refunds s))) (\<lambda>found.
    case found of
      Some r \<Rightarrow> returnA (Some r)
    | None \<Rightarrow>
        (case (or_else (cp_orderId params) None, or_else (cp_stripeRefundId params) None) of
          (Some orderId, Some stripeId) \<Rightarrow>
            bindA (create_out_of_band params orderId stripeId) (\<lambda>r. returnA (Some r))
        | _ \<Rightarrow> returnA None))"

text \<open>\<open>Math.round(amount * 0.1)\<close>.\<close>

definition tenth :: "int \<Rightarrow> int" where
  "tenth amount = js_round (fl_mul (dbl_of_int amount) (fl_frac 1 10))"

text \<open>The share of the commission, as the single-entry ledger gets it.\<close>

definition legacy_commission :: "int \<Rightarrow> order_row \<Rightarrow> int" where
  "legacy_commission amount order =
    (if 0 < o_totalCents order then
       js_round (fl_mul (dbl_of_int amount) (fl_frac (o_commissionCents order) (o_totalCents order)))
     else tenth amount)"

text \<open>The share of the commission, as the double-entry ledger gets it.\<close>

definition refund_commission :: "int \<Rightarrow> order_row \<Rightarrow> int" where
  "refund_commission amount order =
    (if 0 < o_totalCents order then
       js_round (fl_frac (amount * o_commissionCents order) (o_totalCents order))
     else tenth amount)"

definition refund_entries :: "refund_row \<Rightarrow> order_row \<Rightarrow> int \<Rightarrow> string option \<Rightarrow> ledger_row list" where
  "refund_entries refund order amount stripeId =
    (let metaKey = ''refund:'' @ rf_id refund;
         cur = (if rf_currency refund \<noteq> [] then rf_currency refund
                else if o_currency order \<noteq> [] then o_currency order else ''USD'');
         commission = legacy_commission amount order
     in [\<lparr>le_shopId = Some (o_shopId order), le_orderId = Some (o_id order), le_account = LA_VENDOR,
          le_entryType = LE_REFUND, le_amountCents = - \<bar>amount\<bar>, le_currency = cur,
          le_metadata = Some (metaKey @ '' '' @ rf_id refund @ '' '' @
            (case stripeId of None \<Rightarrow> ''null'' | Some i \<Rightarrow> i))\<rparr>,
         \<lparr>le_shopId = Some (o_shopId order), le_orderId = Some (o_id order), le_account = LA_PLATFORM,
          le_entryType = LE_REFUND,
          le_amountCents = - \<bar>if commission \<noteq> 0 then commission else tenth amount\<bar>, le_currency = cur,
          le_metadata = Some (metaKey @ '':commission'' @ '' '' @ rf_id refund)\<rparr>])"

definition refunded_status :: "bool \<Rightarrow> order_status" where
  "refunded_status full = (if full then OS_REFUNDED else OS_PARTIALLY_REFUNDED)"

text \<open>The status of the order after a refund.\<close>

definition settle_order :: "order_row \<Rightarrow> bool \<Rightarrow> ('z pay_db_scheme, unit) act" where
  "settle_order order full =
    (if o_status order \<noteq> OS_REFUNDED \<and> o_status order \<noteq> OS_PARTIALLY_REFUNDED then
       updateA orders orders_update (\<lambda>o'. o_id o' = o_id order) (\<lambda>o'. o'\<lparr>o_status := refunded_status full\<rparr>)
     else if \<not> full \<and> o_status order = OS_REFUNDED then returnA ()
     else if full then
       updateA orders orders_update (\<lambda>o'. o_id o' = o_id order) (\<lambda>o'. o'\<lparr>o_status := OS_REFUNDED\<rparr>)
     else returnA ())"

definition complete_refund_tx ::
  "confirm_params \<Rightarrow> refund_row \<Rightarrow> order_row \<Rightarrow> int \<Rightarrow> ('z pay_db_scheme, unit) act" where
  "complete_refund_tx params refund order amount =
    (let full = o_totalCents order \<le> amount in
     txA
      (bindA (getsA clock) (\<lambda>now.
       thenA (updateA refunds refunds_update (\<lambda>r. rf_id r = rf_id refund)
         (\<lambda>r. r\<lparr>rf_status := RF_COMPLETED,
                rf_stripeRefundId := or_else (cp_stripeRefundId params) (rf_stripeRefundId refund),
                rf_providerConfirmedAt := Some now, rf_completedAt := Some now,
                rf_amountCents := amount\<rparr>))
      (thenA (settle_order order full)
      (bindA (getsA (\<lambda>s. find_row (\<lambda>e. le_orderId e = Some (o_id order) \<and> le_entryType e = LE_REFUND \<and>
          (case le_metadata e of None \<Rightarrow> False | Some m \<Rightarrow> js_contains (''refund:'' @ rf_id refund) m))
          (ledger_entries s))) (\<lambda>existing.
       thenA (whenA (existing = None)
         (modifyA (ledger_entries_update (\<lambda>t. t @ refund_entries refund order amount (cp_stripeRefundId params)))))
      (bindA (getsA (\<lambda>s. find_row (\<lambda>o'. o_id o' = o_id order) (orders s))) (\<lambda>o2.
       let comm = (case o2 of None \<Rightarrow> tenth amount | Some ord \<Rightarrow> refund_commission amount ord) in
       thenA (postRefund (rf_id refund) amount comm (o_shopId order)
               (Some (if rf_currency refund \<noteq> [] then rf_currency refund else o_currency order)))
         (returnA ())))))))))"

definition confirmProviderRefund :: "confirm_params \<Rightarrow> ('z pay_db_scheme, confirm_result) act" where
  "confirmProviderRefund params =
    bindA (locate_refund params) (\<lambda>found.
    case found of
      None \<Rightarrow> returnA RefundNotFound
    | Some refund \<Rightarrow>
        if rf_status refund = RF_COMPLETED then returnA (RefundAlready (rf_id refund))
        else if rf_status refund \<notin> set PROVIDER_CONFIRMABLE then
          returnA (RefundInvalidStatus (rf_status refund))
        else
          (let amount = (case cp_amountCents params of
               Some n \<Rightarrow> if 0 < n then n else rf_amountCents refund
             | None \<Rightarrow> rf_amountCents refund) in
           bindA (getsA (order_of_refund refund)) (\<lambda>o'.
           bindA (someA o' (RawError ''TypeError'')) (\<lambda>order.
           thenA (complete_refund_tx params refund order amount)
           (thenA (auditA None ''REFUND_COMPLETED'' ''Refund'' (Some (rf_id refund)))
             (returnA (RefundConfirmed (rf_id refund))))))))"

end
