(* ===== verification/Payments.thy ===== *)
theory Payments
  imports Refunds
begin

text \<open>
  Payments and provider webhooks: \<open>payments/payments.service.ts\<close>, \<open>payments/stripe-connect.service.ts\<close>
  and the development payment of \<open>payments/payments.controller.ts\<close>.

  Stripe is an argument wherever it is called: \<open>constructEvent\<close> is \<open>webhooks.constructEvent\<close> (the event,
  or no event when the signature is wrong), \<open>intent\<close> is \<open>paymentIntents.create\<close>, \<open>account\<close> is
  \<open>accounts.retrieve\<close> and \<open>accounts.create\<close>; \<open>hmac\<close> is the keyed digest.  A configuration value is a
  field of \<open>pay_config\<close>.  The raw payload kept with a payment, metrics and logs are not modelled.
\<close>

section \<open>Configuration and provider objects\<close>

record pay_config =
  pc_provider :: "string option"
  pc_stripeSecret :: "string option"
  pc_webhookSecret :: "string option"
  pc_publishableKey :: "string option"
  pc_nodeEnv :: "string option"
  pc_allowDev :: "string option"
  pc_loopback :: "string option"
  pc_devSecret :: "string option"
  pc_commissionPercent :: "dbl option"

text \<open>\<open>this.provider\<close>, as the constructor sets it.\<close>

definition provider :: "pay_config \<Rightarrow> string" where
  "provider cfg = js_lower (case or_else (pc_provider cfg) None of None \<Rightarrow> ''dev'' | Some p \<Rightarrow> p)"

definition isLocalRuntime :: "string option \<Rightarrow> string option \<Rightarrow> bool" where
  "isLocalRuntime nodeEnv allowLocal =
    (if nodeEnv = Some ''production'' \<or> nodeEnv = Some ''staging'' then False
     else allowLocal = Some ''true'' \<or> allowLocal = Some ''1'')"

definition isDevConfirmEnabled :: "pay_config \<Rightarrow> bool" where
  "isDevConfirmEnabled cfg \<longleftrightarrow> provider cfg = ''dev'' \<and> isLocalRuntime (pc_nodeEnv cfg) (pc_allowDev cfg)"

record stripe_object =
  so_id :: "string option"
  so_amount :: "int option"
  so_amount_received :: "int option"
  so_amount_refunded :: "int option"
  so_currency :: "string option"
  so_metadata :: "(string \<times> string) list"
  so_payment_intent :: "string option"
  so_refunds :: "(string option \<times> int option) list"

record stripe_event =
  se_id :: string
  se_type :: string
  se_object :: stripe_object

text \<open>\<open>metadata.key?.trim() || ''\<close>.\<close>

definition meta :: "string \<Rightarrow> stripe_object \<Rightarrow> string" where
  "meta key obj = (case map_of (so_metadata obj) key of None \<Rightarrow> [] | Some v \<Rightarrow> js_trim v)"

definition some_text :: "string \<Rightarrow> string option" where
  "some_text t = (if t = [] then None else Some t)"

definition by_provider_id :: "string \<Rightarrow> string \<Rightarrow> payment_row \<Rightarrow> bool" where
  "by_provider_id prov i p \<longleftrightarrow> pay_provider p = prov \<and> pay_providerPaymentId p = Some i"

text \<open>The newest pending payment of an order with a provider.\<close>

definition newest_pending :: "string \<Rightarrow> string \<Rightarrow> payment_row list \<Rightarrow> payment_row option" where
  "newest_pending orderId prov ps =
    find_row (\<lambda>p. pay_orderId p = orderId \<and> pay_provider p = prov \<and> pay_status p = PS_PENDING) (rev ps)"

section \<open>Completing a payment\<close>

record pay_result =
  pr_ok :: bool
  pr_already :: bool
  pr_reason :: string
  pr_orderId :: "string option"

abbreviation failed_with :: "string \<Rightarrow> string option \<Rightarrow> pay_result" where
  "failed_with reason i \<equiv> \<lparr>pr_ok = False, pr_already = False, pr_reason = reason, pr_orderId = i\<rparr>"

definition setPaymentFailed :: "string \<Rightarrow> ('z pay_db_scheme, unit) act" where
  "setPaymentFailed pid =
    updateA payments payments_update (\<lambda>p. pay_id p = pid) (\<lambda>p. p\<lparr>pay_status := PS_FAILED\<rparr>)"

record payment_input =
  pi_provider :: string
  pi_providerPaymentId :: string
  pi_orderId :: "string option"
  pi_paymentId :: "string option"
  pi_expectedAmount :: "int option"
  pi_expectedCurrency :: "string option"

definition find_payment :: "payment_input \<Rightarrow> payment_row list \<Rightarrow> payment_row option" where
  "find_payment input ps =
    (let first = (case or_else (pi_paymentId input) None of
           Some i \<Rightarrow> find_row (\<lambda>p. pay_id p = i) ps
         | None \<Rightarrow> find_row (by_provider_id (pi_provider input) (pi_providerPaymentId input)) ps)
     in case first of
          Some p \<Rightarrow> Some p
        | None \<Rightarrow>
            (case or_else (pi_orderId input) None of
              None \<Rightarrow> None
            | Some i \<Rightarrow> newest_pending i (pi_provider input) ps))"

text \<open>The double-entry posting and the event; a failing posting does not take the payment back.\<close>

definition post_and_announce :: "string \<Rightarrow> ('z pay_db_scheme, unit) act" where
  "post_and_announce orderId =
    catchA
     (bindA (getsA (\<lambda>s. find_row (\<lambda>o'. o_id o' = orderId) (orders s))) (\<lambda>found.
      case found of
        None \<Rightarrow> returnA ()
      | Some order \<Rightarrow>
          thenA (postPayment (o_id order) (o_totalCents order) (o_commissionCents order)
                  (o_shopId order) (Some (o_currency order)))
            (emitA ''order.paid'' (o_id order))))
     (\<lambda>e. bindA (getsA (\<lambda>s. find_row (\<lambda>o'. o_id o' = orderId) (orders s))) (\<lambda>found.
      case found of
        None \<Rightarrow> returnA ()
      | Some order \<Rightarrow> emitA ''order.paid'' (o_id order)))"

definition completePayment :: "payment_input \<Rightarrow> ('z pay_db_scheme, pay_result) act" where
  "completePayment input =
    bindA (getsA (\<lambda>s. find_payment input (payments s))) (\<lambda>found.
    case found of
      None \<Rightarrow> returnA (failed_with ''payment_not_found'' None)
    | Some payment \<Rightarrow>
        if pay_status payment = PS_SUCCEEDED then
          returnA \<lparr>pr_ok = True, pr_already = True, pr_reason = [], pr_orderId = None\<rparr>
        else if pi_expectedAmount input \<noteq> None \<and> pi_expectedAmount input \<noteq> Some (pay_amountCents payment) then
          thenA (setPaymentFailed (pay_id payment)) (returnA (failed_with ''amount_mismatch'' None))
        else if truthy (pi_expectedCurrency input) \<and>
            map_option js_lower (pi_expectedCurrency input) \<noteq> Some (js_lower (pay_currency payment)) then
          thenA (setPaymentFailed (pay_id payment)) (returnA (failed_with ''currency_mismatch'' None))
        else if truthy (pi_orderId input) \<and> pi_orderId input \<noteq> Some (pay_orderId payment) then
          thenA (setPaymentFailed (pay_id payment)) (returnA (failed_with ''orderId_mismatch'' None))
        else
          (let orderId = pay_orderId payment in
           bindA (markPaidFromPayment orderId (pi_providerPaymentId input)) (\<lambda>result.
           case result of
             NotPaid reason \<Rightarrow>
               thenA (setPaymentFailed (pay_id payment)) (returnA (failed_with reason None))
           | PaidOk \<Rightarrow>
               bindA (getsA clock) (\<lambda>now.
               thenA (updateA payments payments_update (\<lambda>p. pay_id p = pay_id payment)
                 (\<lambda>p. p\<lparr>pay_status := PS_SUCCEEDED, pay_providerPaymentId := Some (pi_providerPaymentId input),
                        pay_paidAt := Some now\<rparr>))
               (thenA (post_and_announce orderId)
                 (returnA \<lparr>pr_ok = True, pr_already = False, pr_reason = [], pr_orderId = Some orderId\<rparr>))))))"

text \<open>\<open>String(x)\<close> of a value that may be missing.\<close>

definition js_String :: "string option \<Rightarrow> string" where
  "js_String x = (case x of None \<Rightarrow> ''undefined'' | Some t \<Rightarrow> t)"

definition completeStripeSucceeded :: "stripe_object \<Rightarrow> ('z pay_db_scheme, pay_result) act" where
  "completeStripeSucceeded obj =
    (let providerPaymentId = js_String (so_id obj);
         metaOrderId = meta ''orderId'' obj;
         amountReceived = (case so_amount_received obj of Some n \<Rightarrow> Some n | None \<Rightarrow> so_amount obj);
         cur = js_lower (case so_currency obj of None \<Rightarrow> [] | Some c \<Rightarrow> c)
     in
     bindA (getsA (\<lambda>s. case find_row (by_provider_id ''stripe'' providerPaymentId) (payments s) of
         Some p \<Rightarrow> Some p
       | None \<Rightarrow> if metaOrderId = [] then None else newest_pending metaOrderId ''stripe'' (payments s)))
       (\<lambda>found.
     case found of
       None \<Rightarrow> returnA (failed_with ''payment_not_found'' (some_text metaOrderId))
     | Some payment \<Rightarrow>
         if pay_status payment = PS_SUCCEEDED then
           returnA \<lparr>pr_ok = True, pr_already = True, pr_reason = [], pr_orderId = Some (pay_orderId payment)\<rparr>
         else
           (let fail = (\<lambda>reason. thenA (setPaymentFailed (pay_id payment))
                  (returnA (failed_with reason (Some (pay_orderId payment))))) in
            if metaOrderId = [] \<or> metaOrderId \<noteq> pay_orderId payment then fail ''orderId_mismatch''
            else if amountReceived \<noteq> Some (pay_amountCents payment) then fail ''amount_mismatch''
            else if cur \<noteq> js_lower (pay_currency payment) then fail ''currency_mismatch''
            else
              bindA (getsA (\<lambda>s. find_row (\<lambda>o'. o_id o' = pay_orderId payment) (orders s))) (\<lambda>o'.
              case o' of
                None \<Rightarrow> fail ''order_row_mismatch''
              | Some order \<Rightarrow>
                  if o_totalCents order \<noteq> pay_amountCents payment then fail ''order_amount_mismatch''
                  else if js_lower (o_currency order) \<noteq> js_lower (pay_currency payment) then
                    fail ''order_currency_mismatch''
                  else
                    completePayment
                      \<lparr>pi_provider = ''stripe'', pi_providerPaymentId = providerPaymentId,
                       pi_orderId = Some (pay_orderId payment), pi_paymentId = Some (pay_id payment),
                       pi_expectedAmount = Some (pay_amountCents payment),
                       pi_expectedCurrency = Some (pay_currency payment)\<rparr>))))"

section \<open>Payment intents\<close>

record client_payment =
  cl_payment :: payment_row
  cl_mode :: "string option"
  cl_clientSecret :: "string option"
  cl_applicationFeeCents :: "int option"
  cl_destination :: "string option"

definition plain_client :: "payment_row \<Rightarrow> client_payment" where
  "plain_client p = \<lparr>cl_payment = p, cl_mode = None, cl_clientSecret = None,
    cl_applicationFeeCents = None, cl_destination = None\<rparr>"

text \<open>\<open>Math.round(totalCents * (commissionPercent / 100))\<close>, 10 percent by default.\<close>

definition percent_fee :: "pay_config \<Rightarrow> int \<Rightarrow> int" where
  "percent_fee cfg cents =
    (let p = (case pc_commissionPercent cfg of None \<Rightarrow> dbl_of_int 10 | Some d \<Rightarrow> d) in
     js_round (fl_mul (dbl_of_int cents) (fl_frac (fst p) (100 * 2 ^ snd p))))"

definition applicationFee :: "pay_config \<Rightarrow> order_row \<Rightarrow> int" where
  "applicationFee cfg order =
    (if 0 < o_commissionCents order then o_commissionCents order else percent_fee cfg (o_totalCents order))"

definition payment_of ::
  "order_row \<Rightarrow> string \<Rightarrow> string \<Rightarrow> string \<Rightarrow> string \<Rightarrow> payment_row" where
  "payment_of order i prov providerId key =
    \<lparr>pay_id = i, pay_orderId = o_id order, pay_provider = prov, pay_providerPaymentId = Some providerId,
     pay_status = PS_PENDING, pay_amountCents = o_totalCents order, pay_currency = o_currency order,
     pay_idempotencyKey = key, pay_paidAt = None\<rparr>"

definition create_payment :: "payment_row \<Rightarrow> ('z pay_db_scheme, unit) act" where
  "create_payment p =
    createUniqueA payments payments_update (\<lambda>q. pay_idempotencyKey q = pay_idempotencyKey p) p"

definition createStripeIntent ::
  "pay_config \<Rightarrow> (order_row \<Rightarrow> int \<Rightarrow> string \<Rightarrow> string \<Rightarrow> exn + string \<times> string) \<Rightarrow> order_row \<Rightarrow> string \<Rightarrow>
   ('z pay_db_scheme, client_payment) act" where
  "createStripeIntent cfg intent order key =
    thenA (guardA (truthy (pc_stripeSecret cfg)) (ServiceUnavailable ''STRIPE_SECRET_KEY not configured''))
    (bindA (getsA (\<lambda>s. find_row (\<lambda>h. sh_id h = o_shopId order) (shops s))) (\<lambda>found.
     bindA (someA (case found of None \<Rightarrow> None
         | Some h \<Rightarrow> if truthy (sh_stripeAccountId h) \<and> sh_chargesEnabled h then sh_stripeAccountId h else None)
       (BadRequest ''Seller is not ready'')) (\<lambda>destination.
     let fee = applicationFee cfg order in
     case intent order fee destination key of
       Inl e \<Rightarrow> throwA e
     | Inr (intentId, clientSecret) \<Rightarrow>
         bindA newIdA (\<lambda>i.
         let p = payment_of order i ''stripe'' intentId key in
         thenA (create_payment p)
           (returnA \<lparr>cl_payment = p, cl_mode = Some ''stripe'', cl_clientSecret = Some clientSecret,
             cl_applicationFeeCents = Some fee, cl_destination = Some destination\<rparr>)))))"

definition createPaymentIntent ::
  "pay_config \<Rightarrow> (string \<Rightarrow> string \<Rightarrow> bool) \<Rightarrow> (order_row \<Rightarrow> int \<Rightarrow> string \<Rightarrow> string \<Rightarrow> exn + string \<times> string) \<Rightarrow>
   jwt_payload option \<Rightarrow> string \<Rightarrow> string option \<Rightarrow> string option \<Rightarrow> ('z pay_db_scheme, client_payment) act" where
  "createPaymentIntent cfg cmp intent user orderId paymentToken idempotencyKey =
    bindA (assertCanPayOrder cmp user orderId paymentToken) (\<lambda>order.
    bindA (case or_else idempotencyKey None of
        Some k \<Rightarrow> returnA k
      | None \<Rightarrow> bindA newIdA (\<lambda>uuid. returnA (''pi_'' @ orderId @ ''_'' @ uuid))) (\<lambda>key.
    bindA (getsA (\<lambda>s. find_row (\<lambda>p. pay_idempotencyKey p = key) (payments s))) (\<lambda>existing.
    case existing of
      Some p \<Rightarrow> returnA (plain_client p)
    | None \<Rightarrow>
        if provider cfg = ''stripe'' then createStripeIntent cfg intent order key
        else if provider cfg \<noteq> ''dev'' then throwA (ServiceUnavailable ''Unknown PAYMENT_PROVIDER'')
        else
          bindA newIdA (\<lambda>dev.
          bindA newIdA (\<lambda>i.
          let p = payment_of order i ''dev'' (''dev_'' @ dev) key in
          thenA (create_payment p) (returnA ((plain_client p)\<lparr>cl_mode := Some ''dev''\<rparr>)))))))"

section \<open>Stripe Connect\<close>

record account_info =
  ac_id :: string
  ac_disabledReason :: "string option"
  ac_chargesEnabled :: "bool option"
  ac_payoutsEnabled :: "bool option"
  ac_detailsSubmitted :: "bool option"

definition flag :: "bool option \<Rightarrow> bool" where
  "flag b = (case b of None \<Rightarrow> False | Some x \<Rightarrow> x)"

definition account_status :: "account_info \<Rightarrow> string" where
  "account_status a =
    (case or_else (ac_disabledReason a) None of
      Some r \<Rightarrow> r
    | None \<Rightarrow> if flag (ac_chargesEnabled a) then ''enabled'' else ''pending'')"

definition upsertConnected :: "string \<Rightarrow> account_info \<Rightarrow> ('z pay_db_scheme, unit) act" where
  "upsertConnected shopId a =
    bindA (getsA (\<lambda>s. find_row (\<lambda>c. ca_shopId c = shopId) (connected_accounts s))) (\<lambda>existing.
    case existing of
      None \<Rightarrow> createA connected_accounts_update
        \<lparr>ca_shopId = shopId, ca_stripeAccountId = ac_id a, ca_status = account_status a,
         ca_chargesEnabled = flag (ac_chargesEnabled a), ca_payoutsEnabled = flag (ac_payoutsEnabled a),
         ca_detailsSubmitted = flag (ac_detailsSubmitted a)\<rparr>
    | Some _ \<Rightarrow> updateA connected_accounts connected_accounts_update (\<lambda>c. ca_shopId c = shopId)
        (\<lambda>c. c\<lparr>ca_status := account_status a, ca_chargesEnabled := flag (ac_chargesEnabled a),
               ca_payoutsEnabled := flag (ac_payoutsEnabled a),
               ca_detailsSubmitted := flag (ac_detailsSubmitted a)\<rparr>))"

definition createConnectedAccount ::
  "pay_config \<Rightarrow> (string \<Rightarrow> string \<Rightarrow> exn + account_info) \<Rightarrow> string \<Rightarrow> string \<Rightarrow> ('z pay_db_scheme, string \<times> bool) act" where
  "createConnectedAccount cfg create shopId mail =
    bindA (getsA (\<lambda>s. find_row (\<lambda>h. sh_id h = shopId) (shops s))) (\<lambda>found.
    bindA (someA found (BadRequest ''Shop not found'')) (\<lambda>shop.
    case or_else (sh_stripeAccountId shop) None of
      Some acc \<Rightarrow> returnA (acc, True)
    | None \<Rightarrow>
        thenA (guardA (truthy (pc_stripeSecret cfg)) (ServiceUnavailable ''STRIPE_SECRET_KEY not configured''))
        (case create shopId mail of
          Inl e \<Rightarrow> throwA e
        | Inr a \<Rightarrow>
            thenA (updateA shops shops_update (\<lambda>h. sh_id h = shopId)
              (\<lambda>h. h\<lparr>sh_stripeAccountId := Some (ac_id a), sh_stripeAccountStatus := Some (account_status a),
                     sh_detailsSubmitted := flag (ac_detailsSubmitted a),
                     sh_chargesEnabled := flag (ac_chargesEnabled a),
                     sh_payoutsEnabled := flag (ac_payoutsEnabled a)\<rparr>))
            (thenA (upsertConnected shopId a)
            (thenA (auditA None ''STRIPE_CONNECT_CREATE'' ''Shop'' (Some shopId))
              (returnA (ac_id a, False)))))))"

definition syncAccountStatus ::
  "pay_config \<Rightarrow> (string \<Rightarrow> exn + account_info) \<Rightarrow> string \<Rightarrow> ('z pay_db_scheme, shop_row option) act" where
  "syncAccountStatus cfg account shopId =
    bindA (getsA (\<lambda>s. find_row (\<lambda>h. sh_id h = shopId) (shops s))) (\<lambda>found.
    case or_else (Option.bind found sh_stripeAccountId) None of
      None \<Rightarrow> returnA None
    | Some acc \<Rightarrow>
        thenA (guardA (truthy (pc_stripeSecret cfg)) (ServiceUnavailable ''STRIPE_SECRET_KEY not configured''))
        (case account acc of
          Inl e \<Rightarrow> throwA e
        | Inr a \<Rightarrow>
            bindA (getsA clock) (\<lambda>now.
            bindA (updateRowA shops shops_update (\<lambda>h. sh_id h = shopId)
              (\<lambda>h. h\<lparr>sh_chargesEnabled := flag (ac_chargesEnabled a), sh_payoutsEnabled := flag (ac_payoutsEnabled a),
                     sh_detailsSubmitted := flag (ac_detailsSubmitted a),
                     sh_stripeAccountStatus := Some (account_status a),
                     sh_stripeOnboardedAt :=
                       (if flag (ac_detailsSubmitted a) then if_null (sh_stripeOnboardedAt h) (Some now)
                        else sh_stripeOnboardedAt h)\<rparr>)) (\<lambda>updated.
            thenA (upsertConnected shopId a) (returnA (Some updated))))))"

section \<open>Webhook events\<close>

definition handlePaymentIntentFailed :: "stripe_object \<Rightarrow> ('z pay_db_scheme, unit) act" where
  "handlePaymentIntentFailed obj =
    (let providerPaymentId = (case so_id obj of None \<Rightarrow> [] | Some i \<Rightarrow> i);
         orderId = meta ''orderId'' obj
     in if providerPaymentId = [] \<and> orderId = [] then returnA ()
        else
          bindA (getsA (\<lambda>s.
            if providerPaymentId \<noteq> [] then find_row (by_provider_id ''stripe'' providerPaymentId) (payments s)
            else newest_pending orderId ''stripe'' (payments s))) (\<lambda>payment.
          case payment of
            None \<Rightarrow> returnA ()
          | Some p \<Rightarrow> whenA (pay_status p = PS_PENDING) (setPaymentFailed (pay_id p))))"

text \<open>The amount of a refund event: \<open>amount\<close>, else \<open>amount_refunded\<close>, else the first nested refund's.\<close>

definition refund_event_amount :: "stripe_object \<Rightarrow> int option" where
  "refund_event_amount obj =
    (case so_amount obj of
      Some n \<Rightarrow> Some n
    | None \<Rightarrow> (case so_amount_refunded obj of
        Some n \<Rightarrow> Some n
      | None \<Rightarrow> (case so_refunds obj of [] \<Rightarrow> None | (i, n) # _ \<Rightarrow> n)))"

definition refund_event_id :: "string \<Rightarrow> stripe_object \<Rightarrow> string" where
  "refund_event_id ty obj =
    (let own = (case so_id obj of None \<Rightarrow> [] | Some i \<Rightarrow> i) in
     if js_starts ''refund.'' ty then own
     else if ty = ''charge.refunded'' then
       (case so_refunds obj of (Some i, n) # _ \<Rightarrow> if i \<noteq> [] then i else own | _ \<Rightarrow> own)
     else own)"

definition handleStripeRefundEvent :: "string \<Rightarrow> stripe_object \<Rightarrow> ('z pay_db_scheme, unit) act" where
  "handleStripeRefundEvent ty obj =
    (let metaOrderId = meta ''orderId'' obj;
         paymentIntentId = (case so_payment_intent obj of None \<Rightarrow> [] | Some i \<Rightarrow> i)
     in
     bindA (getsA (\<lambda>s.
       if metaOrderId = [] \<and> paymentIntentId \<noteq> [] then
         (case find_row (by_provider_id ''stripe'' paymentIntentId) (payments s) of
           None \<Rightarrow> [] | Some p \<Rightarrow> pay_orderId p)
       else metaOrderId)) (\<lambda>orderId.
     thenA (confirmProviderRefund
       \<lparr>cp_stripeRefundId = some_text (refund_event_id ty obj), cp_orderId = some_text orderId,
        cp_amountCents = refund_event_amount obj, cp_refundIdFromMeta = some_text (meta ''refundId'' obj)\<rparr>)
       (returnA ())))"

definition handleStripeDispute :: "string \<Rightarrow> stripe_object \<Rightarrow> ('z pay_db_scheme, unit) act" where
  "handleStripeDispute ty obj =
    (let paymentIntentId = (case so_payment_intent obj of None \<Rightarrow> [] | Some i \<Rightarrow> i);
         disputeId = (case so_id obj of None \<Rightarrow> [] | Some i \<Rightarrow> i)
     in
     bindA (getsA (\<lambda>s. if paymentIntentId = [] then None
        else map_option pay_orderId (find_row (by_provider_id ''stripe'' paymentIntentId) (payments s)))) (\<lambda>orderId.
     case or_else orderId None of
       None \<Rightarrow> returnA ()
     | Some i \<Rightarrow>
         thenA (updateA orders orders_update (\<lambda>o'. o_id o' = i) (\<lambda>o'. o'\<lparr>o_status := OS_DISPUTED\<rparr>))
         (bindA newIdA (\<lambda>j.
          thenA (createA disputes_update \<lparr>dp_id = j, dp_orderId = i, dp_reason = ''stripe_dispute='' @ disputeId,
              dp_status = DS_OPEN, dp_resolution = None\<rparr>)
            (auditA None ''STATUS_CHANGE'' ''Order'' (Some i))))))"

definition handleConnectAccountUpdated ::
  "pay_config \<Rightarrow> (string \<Rightarrow> exn + account_info) \<Rightarrow> stripe_object \<Rightarrow> ('z pay_db_scheme, unit) act" where
  "handleConnectAccountUpdated cfg account obj =
    (if meta ''shopId'' obj \<noteq> [] then
       thenA (syncAccountStatus cfg account (meta ''shopId'' obj)) (returnA ())
     else
       bindA (getsA (\<lambda>s. find_row (\<lambda>h. sh_stripeAccountId h = so_id obj) (shops s))) (\<lambda>found.
       case found of
         None \<Rightarrow> returnA ()
       | Some shop \<Rightarrow> thenA (syncAccountStatus cfg account (sh_id shop)) (returnA ())))"

text \<open>The status and the order id: ignored, or handled.\<close>

definition processStripeEvent ::
  "pay_config \<Rightarrow> (string \<Rightarrow> exn + account_info) \<Rightarrow> stripe_event \<Rightarrow> ('z pay_db_scheme, bool \<times> string option) act" where
  "processStripeEvent cfg account ev =
    (let ty = se_type ev; obj = se_object ev in
     if ty = ''account.updated'' then
       thenA (handleConnectAccountUpdated cfg account obj) (returnA (True, None))
     else if ty = ''payment_intent.succeeded'' then
       bindA (completeStripeSucceeded obj) (\<lambda>result.
       returnA (True, if meta ''orderId'' obj \<noteq> [] then Some (meta ''orderId'' obj) else pr_orderId result))
     else if ty = ''payment_intent.payment_failed'' then
       thenA (handlePaymentIntentFailed obj) (returnA (True, map_of (so_metadata obj) ''orderId''))
     else if ty \<in> {''charge.refunded'', ''refund.created'', ''refund.updated''} then
       thenA (handleStripeRefundEvent ty obj) (returnA (True, map_of (so_metadata obj) ''orderId''))
     else if ty \<in> {''payout.paid'', ''payout.failed''} then returnA (True, None)
     else if ty \<in> {''charge.dispute.created'', ''charge.dispute.updated''} then
       thenA (handleStripeDispute ty obj) (returnA (True, None))
     else returnA (False, None))"

definition webhook_key :: "string \<Rightarrow> webhook_row \<Rightarrow> bool" where
  "webhook_key i w \<longleftrightarrow> wh_provider w = ''stripe'' \<and> wh_externalId w = i"

definition upsertWebhook :: "stripe_event \<Rightarrow> string option \<Rightarrow> ('z pay_db_scheme, unit) act" where
  "upsertWebhook ev hint =
    bindA (getsA (\<lambda>s. find_row (webhook_key (se_id ev)) (webhook_events s))) (\<lambda>existing.
    case existing of
      None \<Rightarrow> createA webhook_events_update
        \<lparr>wh_provider = ''stripe'', wh_externalId = se_id ev, wh_eventType = se_type ev,
         wh_status = ''received'', wh_orderId = hint, wh_processedAt = None, wh_errorMessage = None\<rparr>
    | Some _ \<Rightarrow> updateA webhook_events webhook_events_update (webhook_key (se_id ev))
        (\<lambda>w. w\<lparr>wh_status := ''received'', wh_errorMessage := None, wh_orderId := if_null hint (wh_orderId w)\<rparr>))"

definition finishWebhook :: "string \<Rightarrow> bool \<Rightarrow> string option \<Rightarrow> ('z pay_db_scheme, unit) act" where
  "finishWebhook i handled orderId =
    bindA (getsA clock) (\<lambda>now.
    updateA webhook_events webhook_events_update (webhook_key i)
      (\<lambda>w. w\<lparr>wh_status := (if handled then ''processed'' else ''ignored''), wh_processedAt := Some now,
             wh_orderId := if_null orderId (wh_orderId w), wh_errorMessage := None\<rparr>))"

definition failWebhook :: "string \<Rightarrow> string \<Rightarrow> ('z pay_db_scheme, unit) act" where
  "failWebhook i message =
    updateA webhook_events webhook_events_update (webhook_key i)
      (\<lambda>w. w\<lparr>wh_status := ''failed'', wh_errorMessage := Some (take 500 message)\<rparr>)"

datatype webhook_result = AlreadyProcessed | Processed | Ignored

definition processVerifiedStripeEvent ::
  "pay_config \<Rightarrow> (string \<Rightarrow> exn + account_info) \<Rightarrow> stripe_event \<Rightarrow> ('z pay_db_scheme, webhook_result) act" where
  "processVerifiedStripeEvent cfg account ev =
    bindA (getsA (\<lambda>s. find_row (webhook_key (se_id ev)) (webhook_events s))) (\<lambda>existing.
    if (case existing of Some w \<Rightarrow> wh_status w = ''processed'' \<or> wh_status w = ''ignored'' | None \<Rightarrow> False) then
      returnA AlreadyProcessed
    else
      (let hint = some_text (meta ''orderId'' (se_object ev)) in
       thenA (upsertWebhook ev hint)
        (catchA
          (bindA (processStripeEvent cfg account ev) (\<lambda>(handled, orderId).
           thenA (finishWebhook (se_id ev) handled (if_null orderId hint))
             (returnA (if handled then Processed else Ignored))))
          (\<lambda>e. thenA (failWebhook (se_id ev) (exn_message e)) (throwA e)))))"

definition handleStripeWebhook ::
  "pay_config \<Rightarrow> (string \<Rightarrow> exn + account_info) \<Rightarrow> (string \<Rightarrow> string \<Rightarrow> string \<Rightarrow> stripe_event option) \<Rightarrow>
   string \<Rightarrow> string option \<Rightarrow> ('z pay_db_scheme, webhook_result) act" where
  "handleStripeWebhook cfg account constructEvent rawBody signature =
    (case (or_else (pc_webhookSecret cfg) None, or_else (pc_stripeSecret cfg) None) of
      (Some secret, Some apiKey) \<Rightarrow>
        thenA (guardA (truthy (map_option js_trim signature)) (BadRequest ''Invalid webhook signature''))
        (bindA (someA (constructEvent rawBody (the signature) secret) (BadRequest ''Invalid webhook signature'')) (\<lambda>ev.
         thenA (guardA (se_id ev \<noteq> []) (BadRequest ''Stripe event missing id''))
           (processVerifiedStripeEvent cfg account ev)))
    | _ \<Rightarrow> throwA (ServiceUnavailable ''Stripe webhook not configured''))"

section \<open>Refund by an administrator, development payments\<close>

definition refundPayment ::
  "pay_config \<Rightarrow> (refund_row \<Rightarrow> exn + string) \<Rightarrow> string \<Rightarrow> int option \<Rightarrow> string option \<Rightarrow> string option \<Rightarrow>
   ('z pay_db_scheme, refund_row) act" where
  "refundPayment cfg stripe orderId amountCents reason actorId =
    bindA (getsA (\<lambda>s. find_row (\<lambda>o'. o_id o' = orderId) (orders s))) (\<lambda>found.
    bindA (someA found (NotFound ''Order not found'')) (\<lambda>order.
    bindA (getsA (\<lambda>s. find_row (stripe_paid orderId) (payments s))) (\<lambda>paid.
    bindA (someA (case paid of None \<Rightarrow> None | Some p \<Rightarrow> if truthy (pay_providerPaymentId p) then Some p else None)
      (BadRequest ''No successful Stripe payment found'')) (\<lambda>payment.
    let amt = (case amountCents of None \<Rightarrow> pay_amountCents payment | Some n \<Rightarrow> n) in
    thenA (guardA (\<not> (amt \<le> 0 \<or> pay_amountCents payment < amt)) (BadRequest ''Invalid refund amount''))
    (bindA (someA (or_else actorId None) (BadRequest ''actorId required for refund flow'')) (\<lambda>actor.
     let user = \<lparr>sub = actor, email = [], user_role = ADMIN, user_shopId = None, user_tenantId = None\<rparr> in
     bindA (requestRefund user orderId amt reason) (\<lambda>requested.
     thenA (approveRefund (rf_id requested) actor)
       (requestProviderRefund (pc_provider cfg = Some ''dev'') (truthy (pc_stripeSecret cfg)) stripe
         (rf_id requested) (Some actor)))))))))"

text \<open>\<open>ip.replace('::ffff:', '')\<close>: the first occurrence.\<close>

fun js_remove_first :: "string \<Rightarrow> string \<Rightarrow> string" where
  "js_remove_first p [] = []"
| "js_remove_first p (c # cs) =
    (if js_starts p (c # cs) then drop (length p) (c # cs) else c # js_remove_first p cs)"

definition devConfirm ::
  "pay_config \<Rightarrow> (string \<Rightarrow> string \<Rightarrow> bool) \<Rightarrow> string \<Rightarrow> string option \<Rightarrow> jwt_payload option \<Rightarrow> string option \<Rightarrow>
   string option \<Rightarrow> string option \<Rightarrow> ('z pay_db_scheme, order_view) act" where
  "devConfirm cfg cmp orderId paymentToken user secretHeader idempotencyKey clientIp =
    thenA (guardA (isDevConfirmEnabled cfg) (NotFound ''''))
    (thenA (guardA (\<not> (pc_loopback cfg = Some ''true'' \<and> truthy clientIp \<and>
        js_remove_first ''::ffff:'' (the clientIp) \<notin> {''127.0.0.1'', ''::1'', ''localhost''}))
      (BadRequest ''Dev confirm only from localhost''))
    (thenA (guardA (truthy (pc_devSecret cfg) \<and> truthy secretHeader) (BadRequest ''Missing dev payment secret''))
    (thenA (guardA (pc_devSecret cfg = secretHeader) (BadRequest ''Invalid dev payment secret''))
    (bindA (getsA (\<lambda>s. find_row (\<lambda>o'. o_id o' = orderId) (orders s))) (\<lambda>found.
     bindA (someA found (BadRequest ''Order not found'')) (\<lambda>existingOrder.
     if o_status existingOrder = OS_PAID then getOrder cmp user orderId paymentToken
     else
       bindA (assertCanPayOrder cmp user orderId paymentToken) (\<lambda>_.
       bindA (case or_else idempotencyKey None of
           Some k \<Rightarrow> returnA k
         | None \<Rightarrow> bindA newIdA (\<lambda>uuid. returnA (''dev_confirm_'' @ orderId @ ''_'' @ uuid))) (\<lambda>key.
       bindA (getsA (\<lambda>s. find_row (\<lambda>p. pay_idempotencyKey p = key) (payments s))) (\<lambda>old.
       bindA (case old of
           Some p \<Rightarrow> returnA p
         | None \<Rightarrow>
             bindA newIdA (\<lambda>dev.
             bindA newIdA (\<lambda>i.
             let p = payment_of existingOrder i ''dev'' (''dev_'' @ dev) key in
             thenA (create_payment p) (returnA p)))) (\<lambda>payment.
       thenA (completePayment
         \<lparr>pi_provider = ''dev'',
          pi_providerPaymentId = (case or_else (pay_providerPaymentId payment) None of
            Some i \<Rightarrow> i | None \<Rightarrow> pay_id payment),
          pi_orderId = Some orderId, pi_paymentId = Some (pay_id payment),
          pi_expectedAmount = Some (o_totalCents existingOrder),
          pi_expectedCurrency = Some (o_currency existingOrder)\<rparr>)
         (getOrder cmp user orderId paymentToken)))))))))))"

definition payDev ::
  "pay_config \<Rightarrow> (string \<Rightarrow> string \<Rightarrow> bool) \<Rightarrow> string \<Rightarrow> string option \<Rightarrow> jwt_payload option \<Rightarrow> string option \<Rightarrow>
   string option \<Rightarrow> ('z pay_db_scheme, order_view) act" where
  "payDev cfg cmp orderId paymentToken user idempotencyKey clientIp =
    thenA (guardA (isDevConfirmEnabled cfg) (NotFound ''''))
      (devConfirm cfg cmp orderId paymentToken user (pc_devSecret cfg) idempotencyKey clientIp)"

definition verifyHmac :: "(string \<Rightarrow> string \<Rightarrow> string) \<Rightarrow> string \<Rightarrow> string \<Rightarrow> string \<Rightarrow> bool" where
  "verifyHmac hmac payload signature secret \<longleftrightarrow> hmac secret payload = signature"

end
