(* ===== verification/Refund_Claims.thy ===== *)
theory Refund_Claims
  imports Payments Order_Claims Money_Claims
begin

text \<open>
  The properties of refunds.  What an operation of the back office (asking, approving, rejecting,
  calling the provider) may do to the table of refunds is the relation \<open>refund_move\<close>; the ceiling of
  the refunds of an order and the path of a refund through its statuses follow from it.  The
  confirmation by the provider is treated after it.
\<close>

section \<open>The status machine\<close>

definition refund_final :: "refund_status \<Rightarrow> bool" where
  "refund_final a \<longleftrightarrow> a = RF_COMPLETED \<or> a = RF_REJECTED"

interpretation refund_machine: status_machine canTransitionRefund refund_final
  by unfold_locales (auto simp: refund_final_def canTransitionRefund_def TRANSITIONS_def)

section \<open>The operations of the back office\<close>

definition same_books :: "'z pay_db_scheme \<Rightarrow> 'z pay_db_scheme \<Rightarrow> bool" where
  "same_books s s' \<longleftrightarrow>
    orders s' = orders s \<and> payments s' = payments s \<and> fin_txns s' = fin_txns s \<and>
    ledger_entries s' = ledger_entries s \<and> id_supply s' = id_supply s \<and> next_id s \<le> next_id s'"

inductive refund_move :: "'z pay_db_scheme \<Rightarrow> 'z pay_db_scheme \<Rightarrow> bool" where
  same: "refunds s' = refunds s \<Longrightarrow> same_books s s' \<Longrightarrow> refund_move s s'"
| ask: "\<lbrakk>o' \<in> set (orders s); rf_orderId r = o_id o'; 0 < rf_amountCents r;
    rf_amountCents r \<le> maxRefundable o' s; rf_status r = RF_REQUESTED; rf_id r = id_supply s (next_id s);
    refunds s' = refunds s @ [r]; next_id s' = Suc (next_id s); same_books s s'\<rbrakk>
    \<Longrightarrow> refund_move s s'"
| move: "\<lbrakk>find_row (\<lambda>r. rf_id r = i) (refunds s) = Some row;
    \<And>r. rf_id (f r) = rf_id r \<and> rf_orderId (f r) = rf_orderId r \<and> rf_amountCents (f r) = rf_amountCents r;
    canTransitionRefund (rf_status row) (rf_status (f row)); rf_status row \<noteq> RF_FAILED;
    rf_status (f row) \<noteq> RF_COMPLETED; refunds s' = update_where (\<lambda>r. rf_id r = i) f (refunds s); same_books s s'\<rbrakk>
    \<Longrightarrow> refund_move s s'"

inductive_cases refund_moveE: "refund_move s s'"

datatype desk_op =
    AskRefund jwt_payload string int "string option"
  | ApproveRefund string string
  | RejectRefund string string "string option"
  | CallProvider bool bool "refund_row \<Rightarrow> exn + string" string "string option"

fun desk_exec :: "desk_op \<Rightarrow> ('z pay_db_scheme, unit) act" where
  "desk_exec (AskRefund u i n reason) = thenA (requestRefund u i n reason) (returnA ())"
| "desk_exec (ApproveRefund i a) = thenA (approveRefund i a) (returnA ())"
| "desk_exec (RejectRefund i a reason) = thenA (rejectRefund i a reason) (returnA ())"
| "desk_exec (CallProvider dev sec stripe i a) = thenA (requestProviderRefund dev sec stripe i a) (returnA ())"

lemma same_books_steps [simp]:
  "same_books s s"
  "same_books s (audit_log_update g s') = same_books s s'"
  "same_books s (refunds_update f s') = same_books s s'"
  "same_books s (s\<lparr>next_id := Suc (next_id s)\<rparr>)"
  by (simp_all add: same_books_def)

lemma findById_cases:
  assumes "refund_findById i s = (r, s')"
  shows "s' = s \<and> (case r of Inl e \<Rightarrow> True
    | Inr (row, order) \<Rightarrow> find_row (\<lambda>r. rf_id r = i) (refunds s) = Some row)"
  using assms by (auto simp: refund_findById_def act_defs split: option.splits)

lemma unmoved: "refund_move s s"
  by (rule refund_move.same) simp_all

text \<open>A refund found by its id, changed by an allowed transition.\<close>

lemma moved:
  assumes "find_row (\<lambda>r. rf_id r = i) (refunds s) = Some row"
    and "canTransitionRefund (rf_status row) (rf_status (f row))" "rf_status row \<noteq> RF_FAILED"
      "rf_status (f row) \<noteq> RF_COMPLETED"
    and "\<And>r. rf_id (f r) = rf_id r \<and> rf_orderId (f r) = rf_orderId r \<and> rf_amountCents (f r) = rf_amountCents r"
  shows "refund_move s (refunds_update (update_where (\<lambda>r. rf_id r = i) f) s)"
    "refund_move s (audit_log_update g (refunds_update (update_where (\<lambda>r. rf_id r = i) f) s))"
  using assms by (auto intro!: refund_move.move [OF assms(1) assms(5) assms(2-4)])

lemma asked:
  assumes "o' \<in> set (orders s)" "rf_orderId r = o_id o'" "0 < rf_amountCents r"
    "rf_amountCents r \<le> maxRefundable o' s" "rf_status r = RF_REQUESTED" "rf_id r = id_supply s (next_id s)"
  shows "refund_move s (audit_log_update g (refunds_update (\<lambda>t. t @ [r]) (s\<lparr>next_id := Suc (next_id s)\<rparr>)))"
  by (rule refund_move.ask [OF assms]) simp_all

lemma ask_move: "requestRefund u i n reason s = (r, s') \<Longrightarrow> refund_move s s'"
  by (auto simp: requestRefund_def Let_def act_defs newIdA_def createA_def auditA_def
      split: option.splits if_splits dest!: find_row_Some intro!: unmoved asked)

lemma approve_move: "approveRefund i a s = (r, s') \<Longrightarrow> refund_move s s'"
  by (cases "refund_findById i s")
    (auto simp: approveRefund_def act_defs updateRowA_def auditA_def canTransitionRefund_def
      dest!: findById_cases split: sum.splits if_splits intro!: unmoved moved)

lemma reject_move: "rejectRefund i a reason s = (r, s') \<Longrightarrow> refund_move s s'"
  by (cases "refund_findById i s")
    (auto simp: rejectRefund_def act_defs updateRowA_def auditA_def canTransitionRefund_def TRANSITIONS_def
      dest!: findById_cases split: sum.splits if_splits intro!: unmoved moved)

lemma provider_move: "requestProviderRefund dev sec stripe i a s = (r, s') \<Longrightarrow> refund_move s s'"
  by (auto simp: requestProviderRefund_def act_defs updateRowA_def updateA_def auditA_def canTransitionRefund_def
      TRANSITIONS_def set_failed_def split: sum.splits if_splits option.splits intro!: unmoved moved)

lemma desk_move: "desk_exec x s = (r, s') \<Longrightarrow> refund_move s s'"
  by (cases x) (auto simp: thenA_def bindA_def returnA_def split: prod.splits sum.splits
      dest: ask_move approve_move reject_move provider_move)


section \<open>The invariant of the table\<close>

definition refund_ids_ok :: "'z pay_db_scheme \<Rightarrow> bool" where
  "refund_ids_ok s \<longleftrightarrow>
    distinct (map rf_id (refunds s)) \<and> inj (id_supply s) \<and>
    (\<forall>r \<in> set (refunds s). rf_id r \<in> id_supply s ` {..<next_id s})"

text \<open>The refunds of an order that count never exceed what was paid for it.\<close>

definition refunds_ok :: "'z pay_db_scheme \<Rightarrow> bool" where
  "refunds_ok s \<longleftrightarrow>
    refund_ids_ok s \<and> distinct (map o_id (orders s)) \<and> (\<forall>r \<in> set (refunds s). 0 \<le> rf_amountCents r) \<and>
    (\<forall>o' \<in> set (orders s). refundedSoFar (o_id o') s \<le> max 0 (paidBase o' s))"

lemma fresh_refund_id: "refund_ids_ok s \<Longrightarrow> id_supply s (next_id s) \<notin> rf_id ` set (refunds s)"
  by (auto simp: refund_ids_ok_def inj_eq image_iff)

lemma ids_append:
  assumes "refund_ids_ok s" "refunds s' = refunds s @ [r]" "rf_id r = id_supply s (next_id s)"
    "id_supply s' = id_supply s" "next_id s < next_id s'"
  shows "refund_ids_ok s'"
proof -
  have "rf_id x \<in> id_supply s ` {..<next_id s'}" if "x \<in> set (refunds s)" for x
    using assms(1,5) that by (force simp: refund_ids_ok_def)
  with assms fresh_refund_id [OF assms(1)] show ?thesis by (auto simp: refund_ids_ok_def)
qed

lemma ids_update:
  assumes "refund_ids_ok s" "refunds s' = update_where P f (refunds s)" "\<And>r. rf_id (f r) = rf_id r"
    "id_supply s' = id_supply s" "next_id s \<le> next_id s'"
  shows "refund_ids_ok s'"
proof -
  have "rf_id x \<in> id_supply s ` {..<next_id s'}" if "x \<in> set (refunds s)" for x
    using assms(1,5) that by (force simp: refund_ids_ok_def)
  with assms show ?thesis by (simp add: refund_ids_ok_def map_update_where ball_update_where)
qed

lemma ids_same:
  "refund_ids_ok s \<Longrightarrow> refunds s' = refunds s \<Longrightarrow> id_supply s' = id_supply s \<Longrightarrow> next_id s \<le> next_id s' \<Longrightarrow> refund_ids_ok s'"
  using ids_update [of s s' "\<lambda>_. False"] by (simp add: update_where_none)

lemma move_ids: "refund_ids_ok s \<Longrightarrow> refund_move s s' \<Longrightarrow> refund_ids_ok s'"
  by (erule refund_moveE) (auto simp: same_books_def intro: ids_same ids_append ids_update)

text \<open>An allowed transition never makes a refund count that did not count before.\<close>

lemma still_live:
  "canTransitionRefund a b \<Longrightarrow> a \<noteq> RF_FAILED \<Longrightarrow> b \<in> set LIVE_REFUNDS \<Longrightarrow> a \<in> set LIVE_REFUNDS"
  by (cases a) (auto simp: canTransitionRefund_def TRANSITIONS_def LIVE_REFUNDS_def)


lemma paidBase_books: "same_books s s' \<Longrightarrow> paidBase o' s' = paidBase o' s"
  by (simp add: paidBase_def same_books_def)

lemma ceiling_ask:
  assumes "distinct (map o_id (orders s))" "o1 \<in> set (orders s)" "o2 \<in> set (orders s)" "rf_orderId r = o_id o1"
    "0 < rf_amountCents r" "rf_amountCents r \<le> maxRefundable o1 s" "refunds s' = refunds s @ [r]"
    "refundedSoFar (o_id o2) s \<le> max 0 (paidBase o2 s)"
  shows "refundedSoFar (o_id o2) s' \<le> max 0 (paidBase o2 s)"
proof (cases "o_id o2 = o_id o1")
  case True
  with assms(1-3) have "o2 = o1" by (metis distinct_key_eq)
  with assms show ?thesis by (auto simp: refundedSoFar_def maxRefundable_def)
next
  case False
  with assms show ?thesis by (simp add: refundedSoFar_def)
qed

lemma ceiling_move:
  assumes ids: "distinct (map rf_id (refunds s))" and row: "find_row (\<lambda>r. rf_id r = i) (refunds s) = Some row"
    and f: "\<And>r. rf_id (f r) = rf_id r \<and> rf_orderId (f r) = rf_orderId r \<and> rf_amountCents (f r) = rf_amountCents r"
    and tr: "canTransitionRefund (rf_status row) (rf_status (f row))" "rf_status row \<noteq> RF_FAILED"
    and nn: "\<forall>r \<in> set (refunds s). 0 \<le> rf_amountCents r"
    and s': "refunds s' = update_where (\<lambda>r. rf_id r = i) f (refunds s)"
  shows "refundedSoFar oid s' \<le> refundedSoFar oid s"
proof -
  have "0 \<le> rf_amountCents row" using find_row_Some [OF row] nn by blast
  with sum_where_update_key [OF ids row, of "\<lambda>r. rf_orderId r = oid \<and> rf_status r \<in> set LIVE_REFUNDS" rf_amountCents f]
    still_live [OF tr] f [of row]
  show ?thesis by (auto simp: refundedSoFar_def s' split: if_splits)
qed

lemma move_refunds_ok:
  assumes ok: "refunds_ok s" and mv: "refund_move s s'"
  shows "refunds_ok s'"
proof -
  have ids: "refund_ids_ok s'" using assms move_ids by (auto simp: refunds_ok_def)
  have books: "same_books s s'" using mv by cases
  then have o': "orders s' = orders s" and base: "paidBase o1 s' = paidBase o1 s" for o1
    by (simp_all add: paidBase_books) (simp add: same_books_def)
  have "(\<forall>r \<in> set (refunds s'). 0 \<le> rf_amountCents r) \<and>
    (\<forall>o1 \<in> set (orders s). refundedSoFar (o_id o1) s' \<le> max 0 (paidBase o1 s))"
    using mv
  proof cases
    case same
    with ok show ?thesis by (simp add: refunds_ok_def refundedSoFar_def)
  next
    case (ask o1 r)
    with ok show ?thesis by (auto simp: refunds_ok_def intro: ceiling_ask)
  next
    case (move i row f)
    have le: "refundedSoFar oid s' \<le> refundedSoFar oid s" for oid
      using ceiling_move [OF _ move(1,2,3,4) _ move(6)] ok by (simp add: refunds_ok_def refund_ids_ok_def)
    have "\<forall>o1 \<in> set (orders s). refundedSoFar (o_id o1) s' \<le> max 0 (paidBase o1 s)"
      using ok order_trans [OF le] by (simp add: refunds_ok_def)
    moreover have "\<forall>r \<in> set (refunds s'). 0 \<le> rf_amountCents r"
      using ok move(2) by (simp add: refunds_ok_def move(6) ball_update_where)
    ultimately show ?thesis by simp
  qed
  with ok ids o' base show ?thesis by (simp add: refunds_ok_def)
qed

interpretation desk: invariant_component desk_exec refunds_ok
  by unfold_locales (auto intro!: keepsI dest: desk_move move_refunds_ok)


lemma same_books_trans: "same_books s s' \<Longrightarrow> same_books s' s'' \<Longrightarrow> same_books s s''"
  by (simp add: same_books_def)

lemma move_books: "refund_move s s' \<Longrightarrow> same_books s s'"
  by (erule refund_moveE)

text \<open>A row changed through its id is the row that was found.\<close>

lemma changed_row:
  assumes "refund_ids_ok s" "find_row (\<lambda>r. rf_id r = i) (refunds s) = Some row"
    "x \<in> set (update_where (\<lambda>r. rf_id r = i) f (refunds s))"
  shows "x \<in> set (refunds s) \<and> rf_id x \<noteq> i \<or> x = f row"
  using assms(3)
proof (cases rule: in_update_whereE)
  case (new y)
  from find_row_Some [OF assms(2)] new assms(1) have "y = row"
    by (auto simp: refund_ids_ok_def dest: distinct_key_eq)
  with new show ?thesis by simp
qed simp

lemma move_completed:
  assumes ids: "refund_ids_ok s" and mv: "refund_move s s'"
    and x: "x \<in> set (refunds s')" "rf_status x = RF_COMPLETED"
  shows "x \<in> set (refunds s)"
  using mv
proof cases
  case (move i row f)
  with changed_row [OF ids move(1), of x f] x show ?thesis by auto
qed (use x in auto)

text \<open>What has not happened since the state \<open>s0\<close>.\<close>

definition desk_safe :: "'z pay_db_scheme \<Rightarrow> 'z pay_db_scheme \<Rightarrow> bool" where
  "desk_safe s0 s \<longleftrightarrow>
    refunds_ok s \<and> same_books s0 s \<and> (\<forall>x \<in> set (refunds s). rf_status x = RF_COMPLETED \<longrightarrow> x \<in> set (refunds s0))"

lemma move_safe:
  assumes "desk_safe s0 s" and mv: "refund_move s s'"
  shows "desk_safe s0 s'"
proof -
  have "refund_ids_ok s" using assms(1) by (simp add: desk_safe_def refunds_ok_def)
  note old = move_completed [OF this mv]
  from assms(1) move_refunds_ok [OF _ mv] same_books_trans [OF _ move_books [OF mv]] show ?thesis
    by (auto simp: desk_safe_def dest: old)
qed

interpretation desk_from: invariant_component desk_exec "desk_safe s0" for s0
  by unfold_locales (auto intro!: keepsI dest: desk_move move_safe)

text \<open>
  C13.  Whatever the back office does with refunds - asks, approvals, rejections and calls of the provider
  in any order, returning or throwing - the refunds of an order that count never exceed what was paid
  for it, no refund becomes COMPLETED, and neither orders nor payments nor ledgers change.
\<close>

theorem refunds_within_paid:
  assumes "refunds_ok s"
  shows "(\<forall>o' \<in> set (orders s). refundedSoFar (o_id o') (run_all desk_exec ops s) \<le> max 0 (paidBase o' s)) \<and>
    (\<forall>x \<in> set (refunds (run_all desk_exec ops s)). rf_status x = RF_COMPLETED \<longrightarrow> x \<in> set (refunds s)) \<and>
    same_books s (run_all desk_exec ops s)"
proof -
  have "desk_safe s s" using assms by (simp add: desk_safe_def)
  from desk_from.history_keeps [OF this, of ops] have h: "desk_safe s (run_all desk_exec ops s)" .
  then have books: "same_books s (run_all desk_exec ops s)" by (simp add: desk_safe_def)
  with h paidBase_books [OF books] show ?thesis by (simp add: desk_safe_def refunds_ok_def) (simp add: same_books_def)
qed


section \<open>The provider's confirmation\<close>

definition completed_row :: "confirm_params \<Rightarrow> refund_row \<Rightarrow> int \<Rightarrow> int \<Rightarrow> refund_row \<Rightarrow> refund_row" where
  "completed_row params refund amount now r =
    r\<lparr>rf_status := RF_COMPLETED,
      rf_stripeRefundId := or_else (cp_stripeRefundId params) (rf_stripeRefundId refund),
      rf_providerConfirmedAt := Some now, rf_completedAt := Some now, rf_amountCents := amount\<rparr>"

lemma completed_row_simps [simp]:
  "rf_id (completed_row p r a n x) = rf_id x" "rf_orderId (completed_row p r a n x) = rf_orderId x"
  "rf_status (completed_row p r a n x) = RF_COMPLETED" "rf_adminNote (completed_row p r a n x) = rf_adminNote x"
  "rf_amountCents (completed_row p r a n x) = a"
  "rf_stripeRefundId (completed_row p r a n x) = or_else (cp_stripeRefundId p) (rf_stripeRefundId r)"
  by (simp_all add: completed_row_def)

lemma postRefund_frame:
  assumes "postRefund i a c sh ccy s = (Inr t, s')"
  shows "refunds s' = refunds s" "orders s' = orders s" "id_supply s' = id_supply s" "next_id s \<le> next_id s'"
    "posted FT_REFUND ''Refund'' i s'"
proof -
  from assms obtain es where es: "postTransaction FT_REFUND ''Refund'' i ccy es s = (Inr t, s')"
    by (auto simp: postRefund_def Let_def)
  from postTransaction_ok [OF es]
  show "refunds s' = refunds s" "orders s' = orders s" "id_supply s' = id_supply s" "next_id s \<le> next_id s'"
    "posted FT_REFUND ''Refund'' i s'"
    by (auto simp: add_txn_def posted_def posting_of_def new_txn_def)
qed

lemma settle_order_frame:
  assumes "settle_order order full s = (Inr u, s')"
  shows "refunds s' = refunds s" "id_supply s' = id_supply s" "next_id s' = next_id s"
  using assms by (auto simp: settle_order_def ok_simps split: if_splits)

lemma complete_tx_okD:
  assumes "complete_refund_tx params refund order amount s = (Inr u, s')"
  shows "refunds s' = update_where (\<lambda>r. rf_id r = rf_id refund) (completed_row params refund amount (clock s)) (refunds s) \<and>
    id_supply s' = id_supply s \<and> next_id s \<le> next_id s' \<and> posted FT_REFUND ''Refund'' (rf_id refund) s'"
proof -
  have f: "completed_row params refund amount (clock s) = (\<lambda>r. r\<lparr>rf_status := RF_COMPLETED,
      rf_stripeRefundId := or_else (cp_stripeRefundId params) (rf_stripeRefundId refund),
      rf_providerConfirmedAt := Some (clock s), rf_completedAt := Some (clock s), rf_amountCents := amount\<rparr>)"
    by (simp add: completed_row_def fun_eq_iff)
  from assms obtain s1 s2 c cur t where
    st: "settle_order order (o_totalCents order \<le> amount)
      (refunds_update (update_where (\<lambda>r. rf_id r = rf_id refund) (completed_row params refund amount (clock s))) s) = (Inr (), s1)"
    and po: "postRefund (rf_id refund) amount c (o_shopId order) cur s2 = (Inr t, s')"
    and le: "refunds s2 = refunds s1 \<and> id_supply s2 = id_supply s1 \<and> next_id s2 = next_id s1"
    unfolding complete_refund_tx_def Let_def txA_ok bindA_ok thenA_ok getsA_ok updateA_ok whenA_ok modifyA_ok returnA_ok f
    by (elim exE conjE) (fastforce split: if_split_asm)
  with settle_order_frame [OF st] postRefund_frame [OF po] show ?thesis by simp
qed

text \<open>Finding the refund, or making its row.\<close>

lemma locate_cases:
  assumes "locate_refund params s = (r, s1)"
  shows "s1 = s \<and> (\<forall>x. r = Inr x \<longrightarrow> x = find_confirmed params (refunds s)) \<or>
    (\<exists>row sid. r = Inr (Some row) \<and> find_confirmed params (refunds s) = None \<and>
      or_else (cp_stripeRefundId params) None = Some sid \<and> rf_stripeRefundId row = Some sid \<and>
      rf_id row = id_supply s (next_id s) \<and>
      s1 = refunds_update (\<lambda>t. t @ [row]) (s\<lparr>next_id := Suc (next_id s)\<rparr>))"
  using assms
  by (auto simp: locate_refund_def create_out_of_band_def Let_def act_defs newIdA_def createA_def
      split: option.splits prod.splits sum.splits if_splits)

lemma find_confirmed_mem: "find_confirmed params rs = Some r \<Longrightarrow> r \<in> set rs"
  by (auto simp: find_confirmed_def Let_def split: option.splits dest: find_row_Some)

lemma locate_mem: "locate_refund params s = (Inr (Some row), s1) \<Longrightarrow> row \<in> set (refunds s1)"
  by (drule locate_cases) (auto dest: find_confirmed_mem [OF sym])

lemma locate_ids:
  assumes "refund_ids_ok s" "locate_refund params s = (r, s1)"
  shows "refund_ids_ok s1"
  using locate_cases [OF assms(2)] assms(1)
  by (auto intro: ids_append)

text \<open>A confirmation stops after the search, or completes the refund it found.\<close>

lemma complete_throws: "complete_refund_tx params refund order amount s = (Inl e, s') \<Longrightarrow> s' = s"
  unfolding complete_refund_tx_def Let_def by (rule txA_rollback)

lemma confirm_cases:
  assumes "confirmProviderRefund params s = (r, s')"
  obtains (stop) x where "locate_refund params s = (x, s')" "r \<noteq> Inr (RefundConfirmed i)"
  | (complete) refund s1 order amount u s2 where "locate_refund params s = (Inr (Some refund), s1)"
      "rf_status refund \<in> set PROVIDER_CONFIRMABLE" "complete_refund_tx params refund order amount s1 = (Inr u, s2)"
      "s' = snd (auditA None ''REFUND_COMPLETED'' ''Refund'' (Some (rf_id refund)) s2)"
      "r = Inr (RefundConfirmed (rf_id refund))"
proof (cases "\<exists>refund s1. locate_refund params s = (Inr (Some refund), s1) \<and> rf_status refund \<in> set PROVIDER_CONFIRMABLE")
  case False
  show thesis
  proof (rule stop)
    show "locate_refund params s = (fst (locate_refund params s), s')" "r \<noteq> Inr (RefundConfirmed i)"
      using assms False
      by (auto simp: confirmProviderRefund_def bindA_def returnA_def split: sum.splits option.splits prod.splits if_splits)
  qed
next
  case True
  then obtain refund s1 where loc: "locate_refund params s = (Inr (Some refund), s1)"
    and st: "rf_status refund \<in> set PROVIDER_CONFIRMABLE" by blast
  have "rf_status refund \<noteq> RF_COMPLETED" using st by (auto simp: PROVIDER_CONFIRMABLE_def)
  with assms loc st obtain amount where run:
    "bindA (getsA (order_of_refund refund)) (\<lambda>o'. bindA (someA o' (RawError ''TypeError'')) (\<lambda>order.
      thenA (complete_refund_tx params refund order amount)
      (thenA (auditA None ''REFUND_COMPLETED'' ''Refund'' (Some (rf_id refund)))
        (returnA (RefundConfirmed (rf_id refund)))))) s1 = (r, s')"
    by (simp add: confirmProviderRefund_def bindA_def [of "locate_refund params"] Let_def)
  show thesis
  proof (cases "\<exists>order u s2. order_of_refund refund s1 = Some order \<and> complete_refund_tx params refund order amount s1 = (Inr u, s2)")
    case False
    with run have "s' = s1 \<and> (\<exists>e. r = Inl e)"
      by (auto simp: bindA_def thenA_def getsA_def someA_def throwA_def returnA_def
          split: option.splits prod.splits sum.splits dest: complete_throws)
    with loc stop show thesis by auto
  next
    case True
    with run loc st complete show thesis
      by (auto simp: bindA_def thenA_def getsA_def someA_def returnA_def auditA_def modifyA_def)
  qed
qed


text \<open>Every refund of the old state is still there, for the same order, further along the machine.\<close>

definition moved_on :: "'z pay_db_scheme \<Rightarrow> 'z pay_db_scheme \<Rightarrow> bool" where
  "moved_on s0 s \<longleftrightarrow> refund_ids_ok s \<and>
    (\<forall>r \<in> set (refunds s0). \<exists>r' \<in> set (refunds s). rf_id r' = rf_id r \<and> rf_orderId r' = rf_orderId r \<and>
      canTransitionRefund\<^sup>*\<^sup>* (rf_status r) (rf_status r'))"

lemma moved_on_same:
  "moved_on s0 s \<Longrightarrow> refund_ids_ok s' \<Longrightarrow> set (refunds s) \<subseteq> set (refunds s') \<Longrightarrow> moved_on s0 s'"
  unfolding moved_on_def by blast

lemma moved_on_update:
  assumes "moved_on s0 s" "find_row (\<lambda>r. rf_id r = i) (refunds s) = Some row"
    and "\<And>r. rf_id (f r) = rf_id r \<and> rf_orderId (f r) = rf_orderId r"
    and tr: "canTransitionRefund\<^sup>*\<^sup>* (rf_status row) (rf_status (f row))"
    and s': "refunds s' = update_where (\<lambda>r. rf_id r = i) f (refunds s)" "refund_ids_ok s'"
  shows "moved_on s0 s'"
  unfolding moved_on_def
proof (intro conjI ballI)
  fix r assume "r \<in> set (refunds s0)"
  then obtain x where x: "x \<in> set (refunds s)" "rf_id x = rf_id r" "rf_orderId x = rf_orderId r"
    "canTransitionRefund\<^sup>*\<^sup>* (rf_status r) (rf_status x)"
    using assms(1) by (auto simp: moved_on_def)
  have ids: "refund_ids_ok s" using assms(1) by (simp add: moved_on_def)
  show "\<exists>r' \<in> set (refunds s'). rf_id r' = rf_id r \<and> rf_orderId r' = rf_orderId r \<and>
      canTransitionRefund\<^sup>*\<^sup>* (rf_status r) (rf_status r')"
  proof (cases "rf_id x = i")
    case True
    with x find_row_Some [OF assms(2)] ids have "x = row"
      by (auto simp: refund_ids_ok_def dest: distinct_key_eq)
    with x True tr assms(3) show ?thesis
      by (intro bexI [of _ "f x"]) (auto simp: s' set_update_where)
  next
    case False
    with x show ?thesis by (intro bexI [of _ x]) (auto simp: s' set_update_where)
  qed
qed (rule s')

lemma moved_on_move:
  assumes on: "moved_on s0 s" and mv: "refund_move s s'"
  shows "moved_on s0 s'"
proof -
  have ids: "refund_ids_ok s'" using on mv move_ids by (auto simp: moved_on_def)
  from mv show ?thesis
  proof cases
    case (move i row f)
    with on ids show ?thesis by (auto intro: moved_on_update)
  qed (auto intro!: moved_on_same [OF on ids])
qed

lemma confirmable_completes: "st \<in> set PROVIDER_CONFIRMABLE \<Longrightarrow> canTransitionRefund\<^sup>*\<^sup>* st RF_COMPLETED"
proof -
  assume st: "st \<in> set PROVIDER_CONFIRMABLE"
  have a: "canTransitionRefund RF_APPROVED RF_PROVIDER_REQUESTED" "canTransitionRefund RF_PROVIDER_REQUESTED RF_COMPLETED"
    "canTransitionRefund RF_PROVIDER_CONFIRMED RF_COMPLETED"
    by (simp_all add: canTransitionRefund_def TRANSITIONS_def)
  then have "canTransitionRefund\<^sup>*\<^sup>* RF_APPROVED RF_COMPLETED" by (meson converse_rtranclp_into_rtranclp rtranclp.rtrancl_refl)
  with st a show ?thesis by (auto simp: PROVIDER_CONFIRMABLE_def)
qed

lemma audited_ids [simp]: "refund_ids_ok (audit_log_update g s) = refund_ids_ok s"
  by (simp add: refund_ids_ok_def)

lemma complete_ids:
  "refund_ids_ok s1 \<Longrightarrow> complete_refund_tx params refund order amount s1 = (Inr u, s2) \<Longrightarrow> refund_ids_ok s2"
  by (drule complete_tx_okD) (auto intro: ids_update)

lemma moved_on_locate:
  assumes "moved_on s0 s" "locate_refund params s = (r, s1)"
  shows "moved_on s0 s1"
proof -
  have "refund_ids_ok s1" using assms locate_ids by (auto simp: moved_on_def)
  with locate_cases [OF assms(2)] show ?thesis by (auto intro!: moved_on_same [OF assms(1)])
qed

lemma moved_on_confirm:
  assumes on: "moved_on s0 s" and run: "confirmProviderRefund params s = (r, s')"
  shows "moved_on s0 s'"
  using run
proof (cases rule: confirm_cases [of _ _ _ _ "''''"])
  case (stop x)
  then show ?thesis using moved_on_locate [OF on] by blast
next
  case (complete refund s1 order amount u s2)
  have on1: "moved_on s0 s1" using moved_on_locate [OF on complete(1)] .
  then have ids1: "refund_ids_ok s1" by (simp add: moved_on_def)
  have row: "find_row (\<lambda>r. rf_id r = rf_id refund) (refunds s1) = Some refund"
    using ids1 locate_mem [OF complete(1)] by (auto simp: refund_ids_ok_def intro: find_row_key)
  from complete_tx_okD [OF complete(3)] complete(2,4) complete_ids [OF ids1 complete(3)] show ?thesis
    by (intro moved_on_update [OF on1 row, of "completed_row params refund amount (clock s1)"])
      (auto simp: confirmable_completes auditA_def modifyA_def)
qed


datatype refund_op = Desk desk_op | ProviderSays confirm_params

fun refund_exec :: "refund_op \<Rightarrow> ('z pay_db_scheme, unit) act" where
  "refund_exec (Desk x) = desk_exec x"
| "refund_exec (ProviderSays params) = thenA (confirmProviderRefund params) (returnA ())"

lemma exec_moved_on: "moved_on s0 s \<Longrightarrow> refund_exec x s = (r, s') \<Longrightarrow> moved_on s0 s'"
  by (cases x) (auto simp: thenA_def bindA_def returnA_def split: prod.splits sum.splits
      dest: desk_move moved_on_move moved_on_confirm)

interpretation refund_path: invariant_component refund_exec "moved_on s0" for s0
  by unfold_locales (auto intro!: keepsI dest: exec_moved_on)

text \<open>What one operation may do to the status of a refund, and the status of a row it adds.\<close>

fun refund_change :: "refund_op \<Rightarrow> refund_row \<Rightarrow> refund_status \<Rightarrow> bool" where
  "refund_change (Desk (AskRefund u i n reason)) r b \<longleftrightarrow> False"
| "refund_change (Desk (ApproveRefund i a)) r b \<longleftrightarrow> rf_id r = i \<and> rf_status r = RF_REQUESTED \<and> b = RF_APPROVED"
| "refund_change (Desk (RejectRefund i a reason)) r b \<longleftrightarrow>
    rf_id r = i \<and> (rf_status r = RF_REQUESTED \<or> rf_status r = RF_APPROVED) \<and> b = RF_REJECTED"
| "refund_change (Desk (CallProvider dev sec stripe i a)) r b \<longleftrightarrow>
    rf_id r = i \<and> rf_status r = RF_APPROVED \<and> (b = RF_PROVIDER_REQUESTED \<or> b = RF_FAILED)"
| "refund_change (ProviderSays params) r b \<longleftrightarrow> rf_status r \<in> set PROVIDER_CONFIRMABLE \<and> b = RF_COMPLETED"

fun refund_birth :: "refund_op \<Rightarrow> refund_status \<Rightarrow> bool" where
  "refund_birth (Desk (AskRefund u i n reason)) b \<longleftrightarrow> b = RF_REQUESTED"
| "refund_birth (ProviderSays params) b \<longleftrightarrow> b = RF_PROVIDER_REQUESTED \<or> b = RF_COMPLETED"
| "refund_birth _ b \<longleftrightarrow> False"

lemma refund_change_machine:
  "refund_change x r b \<Longrightarrow> canTransitionRefund (rf_status r) b \<or> (rf_status r = RF_APPROVED \<and> b = RF_COMPLETED)"
  by (cases "(x, r, b)" rule: refund_change.cases)
    (auto simp: canTransitionRefund_def TRANSITIONS_def PROVIDER_CONFIRMABLE_def)

definition refund_step :: "refund_op \<Rightarrow> refund_row list \<Rightarrow> refund_row list \<Rightarrow> bool" where
  "refund_step x t t' \<longleftrightarrow>
    (\<forall>r \<in> set t. \<exists>r' \<in> set t'. rf_id r' = rf_id r \<and> rf_orderId r' = rf_orderId r \<and> (r' = r \<or> refund_change x r (rf_status r'))) \<and>
    (\<forall>r' \<in> set t'. rf_id r' \<in> rf_id ` set t \<or> refund_birth x (rf_status r'))"

lemma step_same: "refund_step x t t"
  by (auto simp: refund_step_def)

lemma step_add: "refund_birth x (rf_status r) \<Longrightarrow> refund_step x t (t @ [r])"
  by (auto simp: refund_step_def)

lemma step_update:
  assumes d: "distinct (map rf_id t)" and row: "find_row (\<lambda>r. rf_id r = i) t = Some row"
    and f: "\<And>r. rf_id (f r) = rf_id r \<and> rf_orderId (f r) = rf_orderId r" and ch: "refund_change x row (rf_status (f row))"
  shows "refund_step x t (update_where (\<lambda>r. rf_id r = i) f t)"
proof -
  have row': "row \<in> set t" "rf_id row = i" using find_row_Some [OF row] by auto
  have only: "r = row" if "r \<in> set t" "rf_id r = i" for r using distinct_key_eq [OF d that(1) row'(1)] that(2) row'(2) by simp
  have "\<exists>r' \<in> set (update_where (\<lambda>r. rf_id r = i) f t). rf_id r' = rf_id r \<and> rf_orderId r' = rf_orderId r \<and>
      (r' = r \<or> refund_change x r (rf_status r'))" if "r \<in> set t" for r
    by (rule bexI [of _ "if rf_id r = i then f r else r"]) (use only f ch that in \<open>auto simp: set_update_where\<close>)
  moreover have "rf_id ` set (update_where (\<lambda>r. rf_id r = i) f t) = rf_id ` set t"
    by (simp add: image_update_where f)
  ultimately show ?thesis unfolding refund_step_def by blast
qed

text \<open>The same change of one row, as the operations make it.\<close>

definition changed_row :: "refund_op \<Rightarrow> string \<Rightarrow> refund_row list \<Rightarrow> refund_row list \<Rightarrow> bool" where
  "changed_row x i t t' \<longleftrightarrow> (\<exists>row f. find_row (\<lambda>r. rf_id r = i) t = Some row \<and>
    (\<forall>r. rf_id (f r) = rf_id r \<and> rf_orderId (f r) = rf_orderId r) \<and> refund_change x row (rf_status (f row)) \<and>
    t' = update_where (\<lambda>r. rf_id r = i) f t)"

lemma changed_rowI:
  assumes "find_row (\<lambda>r. rf_id r = i) t \<noteq> None" and "\<And>r. rf_id (f r) = rf_id r \<and> rf_orderId (f r) = rf_orderId r"
    and "rf_id (the (find_row (\<lambda>r. rf_id r = i) t)) = i \<Longrightarrow>
      refund_change x (the (find_row (\<lambda>r. rf_id r = i) t)) (rf_status (f (the (find_row (\<lambda>r. rf_id r = i) t))))"
  shows "changed_row x i t (update_where (\<lambda>r. rf_id r = i) f t)"
proof -
  obtain row where row: "find_row (\<lambda>r. rf_id r = i) t = Some row" using assms(1) by auto
  with assms(3) find_row_Some [OF row] have "refund_change x row (rf_status (f row))" by simp
  with row assms(2) show ?thesis unfolding changed_row_def by blast
qed

lemma step_changed: "distinct (map rf_id t) \<Longrightarrow> changed_row x i t t' \<Longrightarrow> refund_step x t t'"
  by (auto simp: changed_row_def intro: step_update)

lemma step_or: "distinct (map rf_id t) \<Longrightarrow> t' = t \<or> changed_row x i t t' \<Longrightarrow> refund_step x t t'"
  by (auto intro: step_same step_changed)

lemma ask_step: "requestRefund u i n reason s = (r, s') \<Longrightarrow> refund_step (Desk (AskRefund u i n reason)) (refunds s) (refunds s')"
  by (auto simp: requestRefund_def Let_def act_defs newIdA_def createA_def auditA_def
      split: option.splits if_splits intro!: step_same step_add)

lemma approve_step:
  "approveRefund i a s = (r, s') \<Longrightarrow> refunds s' = refunds s \<or> changed_row (Desk (ApproveRefund i a)) i (refunds s) (refunds s')"
  by (cases "refund_findById i s")
    (auto simp: approveRefund_def act_defs updateRowA_def auditA_def
      dest!: findById_cases split: sum.splits if_splits intro!: changed_rowI)

lemma reject_step:
  "rejectRefund i a reason s = (r, s') \<Longrightarrow> refunds s' = refunds s \<or> changed_row (Desk (RejectRefund i a reason)) i (refunds s) (refunds s')"
  by (cases "refund_findById i s")
    (auto simp: rejectRefund_def act_defs updateRowA_def auditA_def
      dest!: findById_cases split: sum.splits if_splits intro!: changed_rowI)

lemma provider_step:
  "requestProviderRefund dev sec stripe i a s = (r, s') \<Longrightarrow>
    refunds s' = refunds s \<or> changed_row (Desk (CallProvider dev sec stripe i a)) i (refunds s) (refunds s')"
  by (auto simp: requestProviderRefund_def act_defs updateRowA_def updateA_def auditA_def set_failed_def
      split: sum.splits if_splits option.splits intro!: changed_rowI)

lemma desk_step:
  assumes ids: "refund_ids_ok s" and run: "desk_exec x s = (r, s')"
  shows "refund_step (Desk x) (refunds s) (refunds s')"
proof -
  have d: "distinct (map rf_id (refunds s))" using ids by (simp add: refund_ids_ok_def)
  from run show ?thesis
    by (cases x) (auto simp: thenA_def bindA_def returnA_def split: prod.splits sum.splits
        dest: ask_step step_or [OF d approve_step] step_or [OF d reject_step] step_or [OF d provider_step])
qed

lemma out_of_band_status:
  "locate_refund params s = (Inr (Some row), s1) \<Longrightarrow> find_confirmed params (refunds s) = None \<Longrightarrow> rf_status row = RF_PROVIDER_REQUESTED"
  by (auto simp: locate_refund_def create_out_of_band_def Let_def act_defs newIdA_def createA_def
      split: option.splits prod.splits sum.splits if_splits)

lemma confirm_step:
  assumes ids: "refund_ids_ok s" and run: "confirmProviderRefund params s = (r, s')"
  shows "refund_step (ProviderSays params) (refunds s) (refunds s')"
proof -
  have found: "refunds s1 = refunds s \<or>
      (\<exists>row. refunds s1 = refunds s @ [row] \<and> rf_status row = RF_PROVIDER_REQUESTED \<and> x = Inr (Some row))"
    if "locate_refund params s = (x, s1)" for x s1
    using locate_cases [OF that] out_of_band_status [of params s _ s1] that by auto
  have ids1: "distinct (map rf_id (refunds s1))" if "locate_refund params s = (x, s1)" for x s1
    using locate_ids [OF ids that] by (simp add: refund_ids_ok_def)
  from run show ?thesis
  proof (cases rule: confirm_cases [of _ _ _ _ "''''"])
    case (stop x)
    from found [OF stop(1)] show ?thesis
      by (elim disjE exE conjE) (simp_all add: step_same step_add)
  next
    case (complete refund s1 order amount u s2)
    let ?f = "completed_row params refund amount (clock s1)"
    have mem: "refund \<in> set (refunds s1)" by (rule locate_mem [OF complete(1)])
    have s': "refunds s' = update_where (\<lambda>r. rf_id r = rf_id refund) ?f (refunds s1)"
      using complete_tx_okD [OF complete(3)] complete(4) by (simp add: auditA_def modifyA_def)
    have row: "find_row (\<lambda>r. rf_id r = rf_id refund) (refunds s1) = Some refund"
      by (rule find_row_key [OF ids1 [OF complete(1)] mem])
    have step1: "refund_step (ProviderSays params) (refunds s1) (refunds s')"
      unfolding s' using complete(2) by (intro step_update [OF ids1 [OF complete(1)] row]) (simp_all add: completed_row_def)
    from found [OF complete(1)] show ?thesis
    proof
      assume "refunds s1 = refunds s"
      with step1 show ?thesis by simp
    next
      assume "\<exists>row. refunds s1 = refunds s @ [row] \<and> rf_status row = RF_PROVIDER_REQUESTED \<and> Inr (Some refund) = Inr (Some row)"
      then have s1: "refunds s1 = refunds s @ [refund]" by auto
      with ids1 [OF complete(1)] have "\<forall>x \<in> set (refunds s). rf_id x \<noteq> rf_id refund" by (auto simp: image_iff)
      then have "refunds s' = refunds s @ [?f refund]" by (simp add: s' s1 update_where_none)
      then show ?thesis by (simp add: step_add completed_row_def)
    qed
  qed
qed

lemma exec_step:
  "refund_ids_ok s \<Longrightarrow> refund_step x (refunds s) (refunds (snd (refund_exec x s)))"
proof (cases x)
  case (Desk y)
  then show "refund_ids_ok s \<Longrightarrow> ?thesis" using desk_step [of s y "fst (desk_exec y s)" "snd (desk_exec y s)"] by simp
next
  case (ProviderSays params)
  then show "refund_ids_ok s \<Longrightarrow> ?thesis"
    using confirm_step [of s params "fst (confirmProviderRefund params s)" "snd (confirmProviderRefund params s)"]
    by (auto simp: thenA_def bindA_def returnA_def split: prod.splits sum.splits)
qed

text \<open>
  C14.  Through any sequence of back office operations and provider confirmations (\<open>ops\<close>) every refund stays in
  the table, belongs to the same order, and a completed or rejected refund keeps its status for good.  And the
  operation that follows (\<open>x\<close>) makes at most the change its row of \<open>refund_change\<close> names: an approval takes the
  refund it names from REQUESTED to APPROVED, a rejection from REQUESTED or APPROVED to REJECTED, the call of the
  provider from APPROVED to PROVIDER_REQUESTED or FAILED, the provider's confirmation to COMPLETED from
  APPROVED, PROVIDER_REQUESTED or PROVIDER_CONFIRMED; every other refund is as it was, and a new one is REQUESTED,
  or comes from the provider.  Each of these changes is one transition of the machine, with the exception of
  APPROVED to COMPLETED.
\<close>

theorem refunds_follow_machine:
  assumes "refund_ids_ok s"
  shows "(\<forall>r \<in> set (refunds s). \<exists>r' \<in> set (refunds (run_all refund_exec ops s)). rf_id r' = rf_id r \<and> rf_orderId r' = rf_orderId r \<and>
      (rf_status r \<in> {RF_COMPLETED, RF_REJECTED} \<longrightarrow> rf_status r' = rf_status r)) \<and>
    (\<forall>x. refund_step x (refunds (run_all refund_exec ops s)) (refunds (snd (refund_exec x (run_all refund_exec ops s))))) \<and>
    (\<forall>x r b. refund_change x r b \<longrightarrow> canTransitionRefund (rf_status r) b \<or> (rf_status r = RF_APPROVED \<and> b = RF_COMPLETED))"
proof (intro conjI allI ballI impI)
  have "moved_on s s" using assms(1) by (auto simp: moved_on_def)
  from refund_path.history_keeps [OF this, of ops] have on: "moved_on s (run_all refund_exec ops s)" .
  {
    fix r assume "r \<in> set (refunds s)"
    with on obtain r' where
      r': "r' \<in> set (refunds (run_all refund_exec ops s))" "rf_id r' = rf_id r" "rf_orderId r' = rf_orderId r"
        "canTransitionRefund\<^sup>*\<^sup>* (rf_status r) (rf_status r')"
      by (auto simp: moved_on_def)
    with refund_machine.final_forever [OF r'(4)]
    show "\<exists>r' \<in> set (refunds (run_all refund_exec ops s)). rf_id r' = rf_id r \<and> rf_orderId r' = rf_orderId r \<and>
      (rf_status r \<in> {RF_COMPLETED, RF_REJECTED} \<longrightarrow> rf_status r' = rf_status r)" by (auto simp: refund_final_def)
  }
  show "refund_step x (refunds (run_all refund_exec ops s)) (refunds (snd (refund_exec x (run_all refund_exec ops s))))" for x
    using on by (intro exec_step) (simp add: moved_on_def)
qed (rule refund_change_machine)

text \<open>A changed row that a search stopped at, or that it now matches, is what the search finds.\<close>

lemma find_row_changed:
  assumes "distinct (map key rs)" "row \<in> set rs" "key row = i" "Q (g row)"
    and "find_row Q rs = None \<or> find_row Q rs = Some row"
  shows "find_row Q (update_where (\<lambda>r. key r = i) g rs) = Some (g row)"
  using assms
proof (induction rs)
  case (Cons x rs)
  show ?case
  proof (cases "x = row")
    case False
    with Cons.prems have "key x \<noteq> i" "row \<in> set rs" by (auto simp: rev_image_eqI)
    with Cons False show ?thesis by (auto split: if_splits)
  qed (use Cons.prems in simp)
qed simp

lemma find_confirmed_unfold:
  "find_confirmed params rs =
    (case (case or_else (cp_refundIdFromMeta params) None of None \<Rightarrow> None | Some i \<Rightarrow> find_row (\<lambda>r. rf_id r = i) rs) of
      Some r \<Rightarrow> Some r
    | None \<Rightarrow>
       (case or_else (cp_stripeRefundId params) None of
         None \<Rightarrow> None
       | Some i \<Rightarrow>
          (case find_row (\<lambda>r. rf_stripeRefundId r = Some i) rs of
            Some r \<Rightarrow> Some r
          | None \<Rightarrow> find_row (\<lambda>r. case rf_adminNote r of None \<Rightarrow> False | Some n \<Rightarrow> js_contains i n) rs)))"
  by (simp add: find_confirmed_def Let_def split: option.splits)

lemma or_else_Some: "or_else x None = Some i \<Longrightarrow> or_else x y = Some i"
  by (auto simp: or_else_def split: if_splits)

lemma found_again:
  assumes ids: "distinct (map rf_id rs)" and mem: "row \<in> set rs"
    and found: "find_confirmed params rs = Some row \<or>
      find_confirmed params rs0 = None \<and> rs = rs0 @ [row] \<and> or_else (cp_stripeRefundId params) None = rf_stripeRefundId row \<and>
      rf_stripeRefundId row \<noteq> None"
  shows "find_confirmed params (update_where (\<lambda>r. rf_id r = rf_id row) (completed_row params row a n) rs) =
    Some (completed_row params row a n row)"
proof -
  let ?g = "completed_row params row a n"
  let ?u = "update_where (\<lambda>r. rf_id r = rf_id row) ?g rs"
  have key: "find_row (\<lambda>r. rf_id r = m) ?u = (if m = rf_id row then Some (?g row) else find_row (\<lambda>r. rf_id r = m) rs)" for m
  proof (cases "m = rf_id row")
    case True
    with find_row_key [OF ids mem] show ?thesis by (auto intro: find_row_changed [OF ids mem])
  next
    case False
    have "find_row (\<lambda>r. rf_id r = m) ?u = map_option (\<lambda>r. if rf_id r = rf_id row then ?g r else r) (find_row (\<lambda>r. rf_id r = m) rs)"
      by (rule find_row_update_where) simp
    with False show ?thesis by (cases "find_row (\<lambda>r. rf_id r = m) rs") (auto dest: find_row_Some)
  qed
  have stripe: "find_row (\<lambda>r. rf_stripeRefundId r = Some i) ?u = Some (?g row)"
    if "or_else (cp_stripeRefundId params) None = Some i"
      "find_row (\<lambda>r. rf_stripeRefundId r = Some i) rs = None \<or> find_row (\<lambda>r. rf_stripeRefundId r = Some i) rs = Some row" for i
    using that or_else_Some [OF that(1)] by (intro find_row_changed [OF ids mem]) auto
  have A: "find_row (\<lambda>r. rf_id r = m) rs = None \<or> find_row (\<lambda>r. rf_id r = m) rs = Some row"
    if "or_else (cp_refundIdFromMeta params) None = Some m" for m
    using found that by (auto simp: find_confirmed_unfold find_row_append split: option.splits if_splits)
  have B: "\<exists>sid. or_else (cp_stripeRefundId params) None = Some sid \<and>
      (find_row (\<lambda>r. rf_stripeRefundId r = Some sid) rs = None \<or> find_row (\<lambda>r. rf_stripeRefundId r = Some sid) rs = Some row)"
    if "case or_else (cp_refundIdFromMeta params) None of None \<Rightarrow> True | Some m \<Rightarrow> find_row (\<lambda>r. rf_id r = m) rs = None"
    using found that by (auto simp: find_confirmed_unfold find_row_append split: option.splits if_splits)
  show ?thesis
  proof (cases "or_else (cp_refundIdFromMeta params) None")
    case None
    with B obtain sid where "or_else (cp_stripeRefundId params) None = Some sid"
      "find_row (\<lambda>r. rf_stripeRefundId r = Some sid) ?u = Some (?g row)"
      using stripe by auto
    with None show ?thesis by (simp add: find_confirmed_unfold)
  next
    case (Some m)
    show ?thesis
    proof (cases "m = rf_id row")
      case True
      with Some key show ?thesis by (simp add: find_confirmed_unfold)
    next
      case False
      with A [OF Some] have "find_row (\<lambda>r. rf_id r = m) rs = None" by (auto dest: find_row_Some)
      moreover with B Some obtain sid where "or_else (cp_stripeRefundId params) None = Some sid"
        "find_row (\<lambda>r. rf_stripeRefundId r = Some sid) ?u = Some (?g row)"
        using stripe by auto
      ultimately show ?thesis using Some False key by (simp add: find_confirmed_unfold)
    qed
  qed
qed


text \<open>
  A confirmation that completes a refund posts it to the double-entry ledger; when the provider sends
  the same confirmation again, it finds the same refund, says so and changes nothing.
\<close>

theorem confirmation_idempotent:
  assumes ids: "refund_ids_ok s" and run: "confirmProviderRefund params s = (Inr (RefundConfirmed i), s')"
  shows "posted FT_REFUND ''Refund'' i s' \<and> confirmProviderRefund params s' = (Inr (RefundAlready i), s')"
  using run
proof (cases rule: confirm_cases [of _ _ _ _ i])
  case (complete row s1 order amount u s2)
  let ?g = "completed_row params row amount (clock s1)"
  have ids1: "refund_ids_ok s1" by (rule locate_ids [OF ids complete(1)])
  have "find_confirmed params (update_where (\<lambda>r. rf_id r = rf_id row) ?g (refunds s1)) = Some (?g row)"
  proof (rule found_again)
    show "distinct (map rf_id (refunds s1))" using ids1 by (simp add: refund_ids_ok_def)
    show "row \<in> set (refunds s1)" by (rule locate_mem [OF complete(1)])
    show "find_confirmed params (refunds s1) = Some row \<or>
      find_confirmed params (refunds s) = None \<and> refunds s1 = refunds s @ [row] \<and>
      or_else (cp_stripeRefundId params) None = rf_stripeRefundId row \<and> rf_stripeRefundId row \<noteq> None"
      using locate_cases [OF complete(1)] by auto
  qed
  with complete_tx_okD [OF complete(3)] complete(4) have
    "find_confirmed params (refunds s') = Some (?g row)" "posted FT_REFUND ''Refund'' (rf_id row) s'"
    by (simp_all add: auditA_def modifyA_def posted_def)
  with complete(5) show ?thesis
    by (simp add: confirmProviderRefund_def locate_refund_def bindA_def getsA_def returnA_def)
qed simp

section \<open>Concrete runs\<close>

definition demo_refund :: "refund_status \<Rightarrow> refund_row" where
  "demo_refund st =
    \<lparr>rf_id = ''i'', rf_orderId = ''o1'', rf_amountCents = 500, rf_currency = ''USD'', rf_reason = None,
     rf_status = st, rf_adminNote = None, rf_requestedById = Some ''u1'', rf_approvedById = None,
     rf_approvedAt = None, rf_stripeRefundId = Some ''re_1'', rf_providerRequestedAt = None,
     rf_providerConfirmedAt = None, rf_completedAt = None, rf_failureReason = None\<rparr>"

definition demo_refunded :: "refund_status \<Rightarrow> rfq_db" where
  "demo_refunded st = demo_db\<lparr>next_id := 1, orders := [demo_order OS_PAID], refunds := [demo_refund st]\<rparr>"

definition demo_confirm :: confirm_params where
  "demo_confirm = \<lparr>cp_stripeRefundId = Some ''re_1'', cp_orderId = None, cp_amountCents = None, cp_refundIdFromMeta = None\<rparr>"

lemma demo_refund_simps [simp]:
  "rf_id (demo_refund st) = ''i''" "rf_orderId (demo_refund st) = ''o1''" "rf_amountCents (demo_refund st) = 500"
  "rf_status (demo_refund st) = st" "rf_stripeRefundId (demo_refund st) = Some ''re_1''"
  by (simp_all add: demo_refund_def)

lemma demo_order_simps [simp]:
  "o_id (demo_order st) = ''o1''" "o_totalCents (demo_order st) = 2000" "o_status (demo_order st) = st"
  by (simp_all add: demo_order_def)

lemma demo_refunded_simps [simp]:
  "refunds (demo_refunded st) = [demo_refund st]" "orders (demo_refunded st) = [demo_order OS_PAID]"
  "payments (demo_refunded st) = []" "next_id (demo_refunded st) = 1"
  "id_supply (demo_refunded st) = (\<lambda>n. replicate (Suc n) CHR ''i'')"
  by (simp_all add: demo_refunded_def demo_db_def empty_db_def)

lemma demo_refunds_ok: "refunds_ok (demo_refunded st)"
  using inj_runs [of "CHR ''i''"]
  by (auto simp: refunds_ok_def refund_ids_ok_def refundedSoFar_def paidBase_def)

theorem refunds_within_paid_witness:
  "refundedSoFar ''o1'' (run_all desk_exec [ApproveRefund ''i'' ''a1'', AskRefund demo_admin ''o1'' 5000 None]
    (demo_refunded RF_REQUESTED)) \<le> 2000"
  using refunds_within_paid [OF demo_refunds_ok [of RF_REQUESTED], of "[ApproveRefund ''i'' ''a1'', AskRefund demo_admin ''o1'' 5000 None]"]
  by (simp only: demo_refunded_simps) (simp add: paidBase_def)

theorem refunds_follow_machine_witness:
  "refund_step (ProviderSays demo_confirm) (refunds (run_all refund_exec [Desk (ApproveRefund ''i'' ''a1'')] (demo_refunded RF_REQUESTED)))
    (refunds (snd (refund_exec (ProviderSays demo_confirm) (run_all refund_exec [Desk (ApproveRefund ''i'' ''a1'')] (demo_refunded RF_REQUESTED)))))"
proof -
  have "refund_ids_ok (demo_refunded RF_REQUESTED)" using demo_refunds_ok by (simp only: refunds_ok_def)
  from refunds_follow_machine [OF this, of "[Desk (ApproveRefund ''i'' ''a1'')]"] show ?thesis by blast
qed

text \<open>The provider's confirmation of a positive amount completes a refund it may complete.\<close>

lemma postRefund_returns:
  assumes "0 < a"
  shows "\<exists>t s'. postRefund i a c sh ccy s = (Inr t, s')"
proof -
  have "balanced (sale_entries CREDIT DEBIT a c sh)" by (rule balanced_sale(2) [OF assms])
  from books.post_returns [OF this, where k = "(FT_REFUND, ''Refund'', i)" and s = s and ccy = ccy] show ?thesis
    by (simp add: postRefund_entries)
qed

lemma postRefund_no_throw: "0 < a \<Longrightarrow> postRefund i a c sh ccy s \<noteq> (Inl e, s')"
  using postRefund_returns [of a i c sh ccy s] by auto

lemma settle_order_returns:
  "find_row (\<lambda>o'. o_id o' = o_id order) (orders s) \<noteq> None \<Longrightarrow> \<exists>s'. settle_order order full s = (Inr (), s')"
  by (auto simp: settle_order_def ok_simps)

lemma complete_tx_returns:
  assumes "find_row (\<lambda>r. rf_id r = rf_id row) (refunds s) \<noteq> None" "find_row (\<lambda>o'. o_id o' = o_id order) (orders s) \<noteq> None"
    "0 < amount"
  shows "\<exists>u s'. complete_refund_tx params row order amount s = (Inr u, s')"
proof -
  obtain s1 where u: "updateA refunds refunds_update (\<lambda>r. rf_id r = rf_id row)
      (\<lambda>r. r\<lparr>rf_status := RF_COMPLETED, rf_stripeRefundId := or_else (cp_stripeRefundId params) (rf_stripeRefundId row),
        rf_providerConfirmedAt := Some (clock s), rf_completedAt := Some (clock s), rf_amountCents := amount\<rparr>) s = (Inr (), s1)"
    and o1: "orders s1 = orders s"
    using assms(1) by (auto simp: updateA_def)
  obtain s2 where "settle_order order (o_totalCents order \<le> amount) s1 = (Inr (), s2)"
    using settle_order_returns [of order s1] assms(2) o1 by auto
  with u show ?thesis
    by (auto simp: complete_refund_tx_def Let_def txA_def bindA_def thenA_def getsA_def whenA_def modifyA_def returnA_def
        postRefund_no_throw [OF assms(3)] split: prod.splits sum.splits)
qed

lemma confirm_completes:
  assumes found: "find_confirmed params (refunds s) = Some row" and st: "rf_status row \<in> set PROVIDER_CONFIRMABLE"
    and row: "find_row (\<lambda>r. rf_id r = rf_id row) (refunds s) \<noteq> None"
    and order: "order_of_refund row s = Some order" and pos: "0 < rf_amountCents row"
  shows "\<exists>s'. confirmProviderRefund params s = (Inr (RefundConfirmed (rf_id row)), s')"
proof -
  define amount where "amount = (case cp_amountCents params of Some n \<Rightarrow> if 0 < n then n else rf_amountCents row
    | None \<Rightarrow> rf_amountCents row)"
  have "0 < amount" using pos by (auto simp: amount_def split: option.splits)
  moreover have "find_row (\<lambda>o'. o_id o' = o_id order) (orders s) \<noteq> None"
    using find_row_Some [OF order [unfolded order_of_refund_def]] order by (auto simp: order_of_refund_def)
  ultimately obtain u s' where tx: "complete_refund_tx params row order amount s = (Inr u, s')"
    using complete_tx_returns [OF row] by blast
  have "rf_status row \<noteq> RF_COMPLETED" using st by (auto simp: PROVIDER_CONFIRMABLE_def)
  with found st order tx show ?thesis
    by (simp add: confirmProviderRefund_def locate_refund_def act_defs auditA_def flip: amount_def)
qed

theorem confirmation_idempotent_witness:
  "\<exists>s'. confirmProviderRefund demo_confirm (demo_refunded RF_PROVIDER_REQUESTED) = (Inr (RefundConfirmed ''i''), s') \<and>
     confirmProviderRefund demo_confirm s' = (Inr (RefundAlready ''i''), s')"
proof -
  have "\<exists>s'. confirmProviderRefund demo_confirm (demo_refunded RF_PROVIDER_REQUESTED) =
      (Inr (RefundConfirmed (rf_id (demo_refund RF_PROVIDER_REQUESTED))), s')"
    by (rule confirm_completes)
      (simp_all add: find_confirmed_unfold demo_confirm_def PROVIDER_CONFIRMABLE_def order_of_refund_def)
  then obtain s' where run: "confirmProviderRefund demo_confirm (demo_refunded RF_PROVIDER_REQUESTED) = (Inr (RefundConfirmed ''i''), s')"
    by auto
  have "refund_ids_ok (demo_refunded RF_PROVIDER_REQUESTED)" using demo_refunds_ok by (simp only: refunds_ok_def)
  from confirmation_idempotent [OF this run] run show ?thesis by blast
qed

end
