(* ===== verification/Payment_Claims.thy ===== *)
theory Payment_Claims
  imports Payments Order_Claims Money_Claims
begin

text \<open>
  The properties of payments and webhooks: an order is paid only for its full amount, an event is
  handled once, and what happens to a signature that is wrong or to a key that is used twice.
\<close>

section \<open>What an order's payment may change\<close>

text \<open>The orders after a payment of the order \<open>i\<close>: as before, or that order paid.\<close>

definition paid_at_most :: "string \<Rightarrow> string \<Rightarrow> 'z ord_db_scheme \<Rightarrow> 'z ord_db_scheme \<Rightarrow> bool" where
  "paid_at_most i ref s s' \<longleftrightarrow>
    orders s' = orders s \<or>
    (\<exists>order. find_row (\<lambda>o'. o_id o' = i) (orders s) = Some order \<and> o_status order = OS_PENDING_PAYMENT \<and>
      orders s' = update_where (\<lambda>o'. o_id o' = i) (\<lambda>o'. o'\<lparr>o_status := OS_PAID, o_paymentRef := Some ref\<rparr>) (orders s))"

lemma markPaid_tx_orders:
  assumes "markPaid_tx order ref s = (Inr x, s')"
  shows "orders s' = update_where (\<lambda>o'. o_id o' = o_id order) (\<lambda>o'. o'\<lparr>o_status := OS_PAID, o_paymentRef := Some ref\<rparr>) (orders s)"
proof -
  from assms obtain n s1 where c: "confirm (o_id order) s = (Inr n, s1)"
    and o': "orders s' = update_where (\<lambda>o'. o_id o' = o_id order) (\<lambda>o'. o'\<lparr>o_status := OS_PAID, o_paymentRef := Some ref\<rparr>) (orders s1)"
    by (auto simp: markPaid_tx_def ok_simps)
  from confirm_frame [OF c] o' show ?thesis by (simp add: order_tables_def)
qed

lemma markPaid_orders:
  assumes "markPaidFromPayment i ref s = (r, s')"
  shows "paid_at_most i ref s s'"
proof (cases "find_row (\<lambda>o'. o_id o' = i) (orders s)")
  case None
  with assms show ?thesis by (simp add: markPaidFromPayment_def bindA_def getsA_def returnA_def paid_at_most_def)
next
  case (Some order)
  then have i: "o_id order = i" using find_row_Some by fastforce
  show ?thesis
  proof (cases "markPaid_tx order ref s")
    case (Pair x s1)
    have "x = Inl e \<Longrightarrow> s1 = s" for e
      using Pair unfolding markPaid_tx_def by (auto dest: txA_rollback)
    with Pair Some i assms show ?thesis
      by (cases x) (auto simp: markPaidFromPayment_def bindA_def getsA_def returnA_def catchA_def paid_at_most_def
          dest: markPaid_tx_orders split: if_splits)
  qed
qed

lemma orders_of_postings: "keeps (\<lambda>s. orders s = x) (postTransaction ty rty rid ccy es)"
  unfolding postTransaction_def Let_def assertBalanced_def
  by (intro keeps_steps keeps_newIdA keeps_createA) simp_all

lemma orders_of_announcement: "keeps (\<lambda>s. orders s = x) (post_and_announce i)"
  unfolding post_and_announce_def postPayment_def Let_def
  by (intro keeps_steps keeps_emitA orders_of_postings) simp_all


lemma setFailed_orders: "keeps (\<lambda>s. orders s = x) (setPaymentFailed i)"
  unfolding setPaymentFailed_def by (intro keeps_updateA) simp

lemma failed_orders: "keeps (\<lambda>s. orders s = x) (thenA (setPaymentFailed i) (returnA y))"
  by (intro keeps_steps setFailed_orders)

text \<open>The end of a payment, after the order is paid.\<close>

lemma settled_orders:
  "keeps (\<lambda>s. orders s = x)
    (bindA (getsA clock) (\<lambda>now. thenA (updateA payments payments_update P (f now)) (thenA (post_and_announce i) (returnA y))))"
  by (intro keeps_steps keeps_updateA orders_of_announcement) simp

lemma completePayment_orders:
  assumes run: "completePayment input s = (r, s')"
  shows "orders s' = orders s \<or>
    (\<exists>p. find_payment input (payments s) = Some p \<and>
      (pi_expectedAmount input = None \<or> pi_expectedAmount input = Some (pay_amountCents p)) \<and>
      (truthy (pi_orderId input) \<longrightarrow> pi_orderId input = Some (pay_orderId p)) \<and>
      paid_at_most (pay_orderId p) (pi_providerPaymentId input) s s')"
proof (cases "find_payment input (payments s)")
  case None
  with run show ?thesis by (simp add: completePayment_def bindA_gets returnA_def)
next
  case (Some p)
  have fail: "orders s1 = orders s" if "thenA (setPaymentFailed (pay_id p)) (returnA y) s = (r', s1)" for y r' s1
    by (rule keepsD [OF failed_orders refl that])
  show ?thesis
  proof (cases "pay_status p = PS_SUCCEEDED \<or>
      (pi_expectedAmount input \<noteq> None \<and> pi_expectedAmount input \<noteq> Some (pay_amountCents p)) \<or>
      (truthy (pi_expectedCurrency input) \<and> map_option js_lower (pi_expectedCurrency input) \<noteq> Some (js_lower (pay_currency p))) \<or>
      (truthy (pi_orderId input) \<and> pi_orderId input \<noteq> Some (pay_orderId p))")
    case True
    with run Some have "orders s' = orders s"
      by (auto simp: completePayment_def bindA_gets returnA_ok dest: fail split: if_splits) (simp add: returnA_def)
    then show ?thesis ..
  next
    case False
    obtain q s1 where m: "markPaidFromPayment (pay_orderId p) (pi_providerPaymentId input) s = (q, s1)" by fastforce
    from markPaid_orders [OF m] have pa: "paid_at_most (pay_orderId p) (pi_providerPaymentId input) s s1" .
    have "orders s' = orders s1"
    proof (cases q)
      case (Inl e)
      with run Some False show ?thesis
        by (auto simp: completePayment_def bindA_gets Let_def bindA_throws [where m = "markPaidFromPayment (pay_orderId p) (pi_providerPaymentId input)", OF m [unfolded Inl]])
    next
      case (Inr res)
      show ?thesis
      proof (cases res)
        case (NotPaid reason)
        with run Some False have "thenA (setPaymentFailed (pay_id p)) (returnA (failed_with reason None)) s1 = (r, s')"
          by (auto simp: completePayment_def bindA_gets Let_def bindA_run [where m = "markPaidFromPayment (pay_orderId p) (pi_providerPaymentId input)", OF m [unfolded Inr]])
        then show ?thesis by (rule keepsD [OF failed_orders refl])
      next
        case PaidOk
        with run Some False have
          "bindA (getsA clock) (\<lambda>now. thenA (updateA payments payments_update (\<lambda>q. pay_id q = pay_id p)
             (\<lambda>q. q\<lparr>pay_status := PS_SUCCEEDED, pay_providerPaymentId := Some (pi_providerPaymentId input), pay_paidAt := Some now\<rparr>))
             (thenA (post_and_announce (pay_orderId p))
               (returnA \<lparr>pr_ok = True, pr_already = False, pr_reason = [], pr_orderId = Some (pay_orderId p)\<rparr>))) s1 = (r, s')"
          by (auto simp: completePayment_def bindA_gets Let_def bindA_run [where m = "markPaidFromPayment (pay_orderId p) (pi_providerPaymentId input)", OF m [unfolded Inr]])
        then show ?thesis by (rule keepsD [OF settled_orders refl])
      qed
    qed
    with pa have "paid_at_most (pay_orderId p) (pi_providerPaymentId input) s s'" by (simp add: paid_at_most_def)
    with False Some show ?thesis by auto
  qed
qed


section \<open>A provider's success\<close>

lemma returnA_state: "returnA y s = (r, s') \<Longrightarrow> s' = s"
  by (simp add: returnA_def)

definition received :: "stripe_object \<Rightarrow> int option" where
  "received obj = (case so_amount_received obj of Some n \<Rightarrow> Some n | None \<Rightarrow> so_amount obj)"

text \<open>Where a success gets as far as completing the payment: everything was compared.\<close>

lemma stripe_success_cases:
  assumes run: "completeStripeSucceeded obj s = (r, s')"
  shows "orders s' = orders s \<or>
    (\<exists>(p :: payment_row) order. find_row (\<lambda>o'. o_id o' = pay_orderId p) (orders s) = Some order \<and>
      meta ''orderId'' obj = pay_orderId p \<and> pay_orderId p \<noteq> [] \<and>
      received obj = Some (pay_amountCents p) \<and> o_totalCents order = pay_amountCents p \<and>
      js_lower (case so_currency obj of None \<Rightarrow> [] | Some c \<Rightarrow> c) = js_lower (pay_currency p) \<and>
      js_lower (o_currency order) = js_lower (pay_currency p) \<and>
      completePayment
        \<lparr>pi_provider = ''stripe'', pi_providerPaymentId = js_String (so_id obj),
         pi_orderId = Some (pay_orderId p), pi_paymentId = Some (pay_id p),
         pi_expectedAmount = Some (pay_amountCents p), pi_expectedCurrency = Some (pay_currency p)\<rparr> s = (r, s'))"
proof -
  have fail: "orders s1 = orders s" if "thenA (setPaymentFailed i) (returnA y) s = (r', s1)" for i y r' s1
    by (rule keepsD [OF failed_orders refl that])
  define found where "found = (case find_row (by_provider_id ''stripe'' (js_String (so_id obj))) (payments s) of
      Some p \<Rightarrow> Some p
    | None \<Rightarrow> if meta ''orderId'' obj = [] then None else newest_pending (meta ''orderId'' obj) ''stripe'' (payments s))"
  note step = run [unfolded completeStripeSucceeded_def Let_def bindA_gets, folded found_def received_def]
  show ?thesis
  proof (cases found)
    case None
    with step show ?thesis by (auto dest: returnA_state)
  next
    case (Some p)
    show ?thesis
    proof (cases "orders s' = orders s")
      case False
      then show ?thesis
        using step unfolding Some option.case
        by (intro disjI2 exI [of _ p]) (auto dest: fail returnA_state split: if_split_asm option.split_asm)
    qed simp
  qed
qed


text \<open>
  C16.  A success of the provider changes the orders in one way only: the order its metadata names was
  waiting for payment, the amount received is exactly the total of the order in the order's currency,
  and that order alone becomes PAID.  Anything else leaves every order as it was.
\<close>

theorem stripe_pays_full_amount:
  assumes run: "completeStripeSucceeded obj s = (r, s')" and changed: "orders s' \<noteq> orders s"
  shows "\<exists>order. find_row (\<lambda>o'. o_id o' = meta ''orderId'' obj) (orders s) = Some order \<and>
    o_status order = OS_PENDING_PAYMENT \<and> received obj = Some (o_totalCents order) \<and>
    js_lower (case so_currency obj of None \<Rightarrow> [] | Some c \<Rightarrow> c) = js_lower (o_currency order) \<and>
    orders s' = update_where (\<lambda>o'. o_id o' = meta ''orderId'' obj)
      (\<lambda>o'. o'\<lparr>o_status := OS_PAID, o_paymentRef := Some (js_String (so_id obj))\<rparr>) (orders s)"
proof -
  from stripe_success_cases [OF run] changed obtain p :: payment_row and order where
    o': "find_row (\<lambda>o'. o_id o' = pay_orderId p) (orders s) = Some order" "meta ''orderId'' obj = pay_orderId p"
      "pay_orderId p \<noteq> []" "received obj = Some (pay_amountCents p)" "o_totalCents order = pay_amountCents p"
      "js_lower (case so_currency obj of None \<Rightarrow> [] | Some c \<Rightarrow> c) = js_lower (o_currency order)"
    and c: "completePayment
        \<lparr>pi_provider = ''stripe'', pi_providerPaymentId = js_String (so_id obj),
         pi_orderId = Some (pay_orderId p), pi_paymentId = Some (pay_id p),
         pi_expectedAmount = Some (pay_amountCents p), pi_expectedCurrency = Some (pay_currency p)\<rparr> s = (r, s')"
    by auto
  from completePayment_orders [OF c] changed o'(3) have "paid_at_most (pay_orderId p) (js_String (so_id obj)) s s'"
    by auto
  with changed o' show ?thesis by (auto simp: paid_at_most_def)
qed

definition demo_pay :: payment_row where
  "demo_pay =
    \<lparr>pay_id = ''p'', pay_orderId = ''o1'', pay_provider = ''stripe'', pay_providerPaymentId = Some ''pi_1'',
     pay_status = PS_PENDING, pay_amountCents = 2000, pay_currency = ''USD'', pay_idempotencyKey = ''k'', pay_paidAt = None\<rparr>"

definition demo_paying :: rfq_db where
  "demo_paying = (demo_ordered OS_PENDING_PAYMENT)\<lparr>payments := [demo_pay], webhook_events := []\<rparr>"

definition demo_intent :: stripe_object where
  "demo_intent =
    \<lparr>so_id = Some ''pi_1'', so_amount = Some 2000, so_amount_received = None, so_amount_refunded = None,
     so_currency = Some ''usd'', so_metadata = [(''orderId'', ''o1'')], so_payment_intent = None, so_refunds = []\<rparr>"

lemma demo_paying_simps [simp]:
  "orders demo_paying = [demo_order OS_PENDING_PAYMENT]" "payments demo_paying = [demo_pay]"
  "webhook_events demo_paying = []" "inv_ok demo_paying"
  using demo_ordered_held(1) [of OS_PENDING_PAYMENT]
  by (simp_all add: demo_paying_def inv_ok_def wf_inv_def stock_ok_def covered_def held_def stored_def cong: option.case_cong)

lemma lower_dev: "js_lower ''dev'' = ''dev''"
  by code_simp

lemma lower_usd: "js_lower ''USD'' = ''usd''" "js_lower ''usd'' = ''usd''"
  by code_simp+

lemma demo_success: "\<exists>r s'. completeStripeSucceeded demo_intent demo_paying = (r, s') \<and> orders s' \<noteq> orders demo_paying"
proof -
  have f: "find_row (\<lambda>o'. o_id o' = ''o1'') (orders demo_paying) = Some (demo_order OS_PENDING_PAYMENT)"
    "o_status (demo_order OS_PENDING_PAYMENT) = OS_PENDING_PAYMENT"
    by (simp_all add: demo_order_def)
  from payment_done [OF demo_paying_simps(4) f, of "''pi_1''"] obtain s1 where
    m: "markPaidFromPayment ''o1'' ''pi_1'' demo_paying = (Inr PaidOk, s1)"
    and s1: "orders s1 = update_where (\<lambda>o'. o_id o' = ''o1'') (\<lambda>o'. o'\<lparr>o_status := OS_PAID, o_paymentRef := Some ''pi_1''\<rparr>) (orders demo_paying)"
    by blast
  let ?tail = "bindA (getsA clock) (\<lambda>now. thenA (updateA payments payments_update (\<lambda>q. pay_id q = ''p'')
      (\<lambda>q. q\<lparr>pay_status := PS_SUCCEEDED, pay_providerPaymentId := Some ''pi_1'', pay_paidAt := Some now\<rparr>))
      (thenA (post_and_announce ''o1'') (returnA \<lparr>pr_ok = True, pr_already = False, pr_reason = [], pr_orderId = Some ''o1''\<rparr>)))"
  obtain r s' where tail: "?tail s1 = (r, s')" by fastforce
  have "completeStripeSucceeded demo_intent demo_paying = (r, s')"
    by (simp add: completeStripeSucceeded_def Let_def bindA_gets demo_intent_def demo_pay_def demo_order_def meta_def js_trim_def
        js_space_def js_String_def by_provider_id_def lower_usd completePayment_def find_payment_def
        bindA_run [where m = "markPaidFromPayment ''o1'' ''pi_1''", OF m] tail [unfolded bindA_gets])
  moreover have "orders s' = orders s1" by (rule keepsD [OF settled_orders refl tail])
  ultimately show ?thesis using s1 by (auto simp: demo_order_def)
qed

theorem stripe_pays_full_amount_witness:
  "\<exists>r s'. completeStripeSucceeded demo_intent demo_paying = (r, s') \<and> map o_status (orders s') = [OS_PAID] \<and>
     received demo_intent = Some 2000"
proof -
  obtain r s' where run: "completeStripeSucceeded demo_intent demo_paying = (r, s')" "orders s' \<noteq> orders demo_paying"
    using demo_success by blast
  from stripe_pays_full_amount [OF run] run(1) show ?thesis
    by (intro exI [of _ r] exI [of _ s']) (auto simp: demo_order_def demo_intent_def meta_def js_trim_def js_space_def)
qed


section \<open>Events are handled once\<close>

text \<open>The handlers of the events do not touch the table of events.\<close>

interpretation event_frame: stock_frame webhook_events
  by unfold_locales simp_all

lemma keeps_sum: "(\<And>e. keeps I (f e)) \<Longrightarrow> (\<And>x. keeps I (g x)) \<Longrightarrow> keeps I (case y of Inl e \<Rightarrow> f e | Inr x \<Rightarrow> g x)"
  by (simp split: sum.splits)

lemma keeps_paid: "(\<And>m. keeps I (f m)) \<Longrightarrow> keeps I g \<Longrightarrow> keeps I (case y of PaidOk \<Rightarrow> g | NotPaid m \<Rightarrow> f m)"
  by (simp split: paid_result.splits)

abbreviation same_events :: "webhook_row list \<Rightarrow> 'z pay_db_scheme \<Rightarrow> bool" where
  "same_events x \<equiv> (\<lambda>s. webhook_events s = x)"

lemma events_posting: "keeps (same_events x) (postTransaction ty rty rid ccy es)"
  unfolding postTransaction_def Let_def assertBalanced_def
  by (intro keeps_steps keeps_newIdA keeps_createA) simp_all

lemma events_markPaid: "keeps (same_events x) (markPaidFromPayment i ref)"
  unfolding markPaidFromPayment_def markPaid_tx_def
  by (intro keeps_steps keeps_updateA keeps_createA keeps_modify event_frame.frame_confirm) simp_all

lemma events_completePayment: "keeps (same_events x) (completePayment input)"
  unfolding completePayment_def setPaymentFailed_def Let_def post_and_announce_def postPayment_def
  by (intro keeps_steps keeps_paid keeps_updateA keeps_emitA events_markPaid events_posting) simp_all

lemma events_succeeded: "keeps (same_events x) (completeStripeSucceeded obj)"
  unfolding completeStripeSucceeded_def Let_def setPaymentFailed_def
  by (intro keeps_steps keeps_updateA events_completePayment) simp_all

lemma events_settle: "keeps (same_events x) (settle_order order full)"
  unfolding settle_order_def by (intro keeps_steps keeps_updateA) simp_all

lemma events_refund: "keeps (same_events x) (confirmProviderRefund params)"
proof -
  have loc: "keeps (same_events x) (locate_refund params)"
    unfolding locate_refund_def create_out_of_band_def Let_def
    by (auto intro!: keeps_steps keeps_newIdA keeps_createA split: option.splits prod.splits)
  show ?thesis
    unfolding confirmProviderRefund_def complete_refund_tx_def Let_def postRefund_def
    by (intro keeps_steps loc keeps_updateA keeps_modify keeps_auditA events_posting events_settle) simp_all
qed

lemma events_connect: "keeps (same_events x) (handleConnectAccountUpdated cfg account obj)"
  unfolding handleConnectAccountUpdated_def syncAccountStatus_def upsertConnected_def
  by (intro keeps_steps keeps_sum keeps_updateA keeps_updateRowA keeps_createA) simp_all

lemma events_failed: "keeps (same_events x) (handlePaymentIntentFailed obj)"
  unfolding handlePaymentIntentFailed_def Let_def setPaymentFailed_def
  by (intro keeps_steps keeps_updateA) simp_all

lemma events_dispute: "keeps (same_events x) (handleStripeDispute ty obj)"
  unfolding handleStripeDispute_def Let_def
  by (intro keeps_steps keeps_updateA keeps_createA keeps_auditA keeps_newIdA) simp_all

lemma events_process: "keeps (same_events x) (processStripeEvent cfg account ev)"
  unfolding processStripeEvent_def handleStripeRefundEvent_def Let_def
  by (intro keeps_steps events_connect events_succeeded events_failed events_refund events_dispute)

abbreviation handled_before :: "string \<Rightarrow> 'z pay_db_scheme \<Rightarrow> bool" where
  "handled_before i s \<equiv> (case find_row (webhook_key i) (webhook_events s) of
    Some w \<Rightarrow> wh_status w = ''processed'' \<or> wh_status w = ''ignored'' | None \<Rightarrow> False)"

lemma webhook_key_update [simp]:
  "webhook_key i (w\<lparr>wh_status := a, wh_processedAt := b, wh_orderId := c, wh_errorMessage := d\<rparr>) = webhook_key i w"
  "webhook_key i (w\<lparr>wh_status := a, wh_errorMessage := d, wh_orderId := c\<rparr>) = webhook_key i w"
  "webhook_key i (w\<lparr>wh_status := a, wh_errorMessage := d\<rparr>) = webhook_key i w"
  by (simp_all add: webhook_key_def)

lemma upsert_found:
  obtains s1 w where "upsertWebhook ev hint s = (Inr (), s1)" "find_row (webhook_key (se_id ev)) (webhook_events s1) = Some w"
proof (cases "find_row (webhook_key (se_id ev)) (webhook_events s)")
  case None
  with that show ?thesis
    by (simp add: upsertWebhook_def bindA_gets createA_def modifyA_def find_row_append webhook_key_def)
next
  case (Some w)
  with that show ?thesis
    by (simp add: upsertWebhook_def bindA_gets updateA_def find_row_update_where)
qed

lemma finish_done:
  assumes "find_row (webhook_key i) (webhook_events s) = Some w"
  obtains s' where "finishWebhook i handled orderId s = (Inr (), s')" "handled_before i s'"
  using assms find_row_Some [OF assms] by (simp add: finishWebhook_def bindA_gets updateA_def find_row_update_where)

lemma fail_recorded:
  assumes "find_row (webhook_key i) (webhook_events s) = Some w"
  obtains s' where "failWebhook i message s = (Inr (), s')"
    "find_row (webhook_key i) (webhook_events s') = Some (w\<lparr>wh_status := ''failed'', wh_errorMessage := Some (take 500 message)\<rparr>)"
  using assms find_row_Some [OF assms] by (simp add: failWebhook_def updateA_def find_row_update_where)

text \<open>A delivery of an event that was not handled before: handled now, or recorded as failed.\<close>

lemma fresh_delivery:
  assumes fresh: "\<not> handled_before (se_id ev) s"
  obtains (handled) x s' where "processVerifiedStripeEvent cfg account ev s = (Inr x, s')"
      "x \<noteq> AlreadyProcessed" "handled_before (se_id ev) s'"
    | (failed) e s' w where "processVerifiedStripeEvent cfg account ev s = (Inl e, s')"
      "find_row (webhook_key (se_id ev)) (webhook_events s') = Some w" "wh_status w = ''failed''"
      "wh_errorMessage w = Some (take 500 (exn_message e))"
proof -
  obtain s1 w1 where up: "upsertWebhook ev (some_text (meta ''orderId'' (se_object ev))) s = (Inr (), s1)"
    and w1: "find_row (webhook_key (se_id ev)) (webhook_events s1) = Some w1" by (rule upsert_found)
  obtain q s2 where p: "processStripeEvent cfg account ev s1 = (q, s2)" by fastforce
  have w2: "find_row (webhook_key (se_id ev)) (webhook_events s2) = Some w1"
    using keepsD [OF events_process refl p] w1 by simp
  note steps = processVerifiedStripeEvent_def bindA_gets Let_def thenA_def bindA_run [where m = "upsertWebhook ev (some_text (meta ''orderId'' (se_object ev)))", OF up]
    catchA_def
  show thesis
  proof (cases q)
    case (Inl e)
    obtain s' where f: "failWebhook (se_id ev) (exn_message e) s2 = (Inr (), s')"
      "find_row (webhook_key (se_id ev)) (webhook_events s') =
        Some (w1\<lparr>wh_status := ''failed'', wh_errorMessage := Some (take 500 (exn_message e))\<rparr>)"
      by (rule fail_recorded [OF w2])
    show thesis
      by (rule failed [OF _ f(2)])
        (use fresh f(1) in \<open>simp_all add: steps bindA_throws [where m = "processStripeEvent cfg account ev", OF p [unfolded Inl]]
          bindA_run [where m = "failWebhook (se_id ev) (exn_message e)", OF f(1)] throwA_def\<close>)
  next
    case (Inr y)
    obtain h oid where y: "y = (h, oid)" by fastforce
    let ?oid = "if_null oid (some_text (meta ''orderId'' (se_object ev)))"
    obtain s' where f: "finishWebhook (se_id ev) h ?oid s2 = (Inr (), s')" "handled_before (se_id ev) s'"
      by (rule finish_done [OF w2])
    show thesis
      by (rule handled [of "if h then Processed else Ignored", OF _ _ f(2)])
        (use fresh in \<open>simp_all add: steps bindA_run [where m = "processStripeEvent cfg account ev", OF p [unfolded Inr y]]
          bindA_run [where m = "finishWebhook (se_id ev) h ?oid", OF f(1)] returnA_def\<close>)
  qed
qed

lemma repeated_delivery:
  "handled_before (se_id ev) s \<Longrightarrow> processVerifiedStripeEvent cfg account ev s = (Inr AlreadyProcessed, s)"
  by (simp add: processVerifiedStripeEvent_def bindA_gets returnA_def)

text \<open>
  C17.  An event is handled once.  A delivery that returns leaves the event handled: the next delivery
  is answered as already processed and writes nothing.  A delivery that throws leaves the event marked
  failed with the message of the exception, cut to 500 characters, and the next delivery handles it again.
\<close>

theorem event_handled_once:
  assumes run: "processVerifiedStripeEvent cfg account ev s = (r, s')"
  shows "case r of
      Inr x \<Rightarrow> processVerifiedStripeEvent cfg' account' ev s' = (Inr AlreadyProcessed, s')
    | Inl e \<Rightarrow> (\<exists>w. find_row (webhook_key (se_id ev)) (webhook_events s') = Some w \<and> wh_status w = ''failed'' \<and>
          wh_errorMessage w = Some (take 500 (exn_message e))) \<and>
        fst (processVerifiedStripeEvent cfg' account' ev s') \<noteq> Inr AlreadyProcessed"
proof (cases "handled_before (se_id ev) s")
  case True
  with run have "r = Inr AlreadyProcessed \<and> s' = s" by (simp add: repeated_delivery)
  with True show ?thesis by (simp add: repeated_delivery)
next
  case False
  then show ?thesis
  proof (cases rule: fresh_delivery [where cfg = cfg and account = account])
    case (handled x s1)
    from repeated_delivery [OF handled(3)] handled(1) run show ?thesis by auto
  next
    case (failed e s1 w)
    then have again: "\<not> handled_before (se_id ev) s1" by simp
    then have "fst (processVerifiedStripeEvent cfg' account' ev s1) \<noteq> Inr AlreadyProcessed"
      by (cases rule: fresh_delivery [where cfg = cfg' and account = account']) auto
    with failed run show ?thesis by auto
  qed
qed

definition demo_event :: stripe_event where
  "demo_event = \<lparr>se_id = ''evt_1'', se_type = ''payment_intent.payment_failed'', se_object = demo_intent\<rparr>"

definition demo_config :: pay_config where
  "demo_config =
    \<lparr>pc_provider = Some ''stripe'', pc_stripeSecret = Some ''sk'', pc_webhookSecret = Some ''wh'',
     pc_publishableKey = None, pc_nodeEnv = None, pc_allowDev = None, pc_loopback = None, pc_devSecret = None,
     pc_commissionPercent = None\<rparr>"

lemma demo_delivery:
  "\<exists>s'. processVerifiedStripeEvent cfg account demo_event demo_paying = (Inr Processed, s') \<and>
    map pay_status (payments s') = [PS_FAILED]"
  by (simp add: processVerifiedStripeEvent_def bindA_gets thenA_def demo_event_def Let_def meta_def js_trim_def js_space_def
      upsertWebhook_def createA_def modifyA_def bindA_def catchA_def processStripeEvent_def handlePaymentIntentFailed_def
      by_provider_id_def demo_pay_def whenA_def setPaymentFailed_def updateA_def finishWebhook_def getsA_def returnA_def
      webhook_key_def demo_intent_def some_text_def)

theorem event_handled_once_witness:
  "\<exists>s'. processVerifiedStripeEvent demo_config (\<lambda>i. Inl (RawError i)) demo_event demo_paying = (Inr Processed, s') \<and>
    processVerifiedStripeEvent demo_config (\<lambda>i. Inl (RawError i)) demo_event s' = (Inr AlreadyProcessed, s')"
proof -
  obtain s' where s': "processVerifiedStripeEvent demo_config (\<lambda>i. Inl (RawError i)) demo_event demo_paying = (Inr Processed, s')"
    using demo_delivery by blast
  from event_handled_once [OF s'] s' show ?thesis by auto
qed

section \<open>Webhooks without a valid signature\<close>

text \<open>
  C18.  A webhook writes or returns only when the endpoint has both secrets and the provider's library
  accepted the raw body with the signature under the webhook secret; then it does exactly what the
  accepted event does.  A request without a valid signature throws and leaves the database as it was.
\<close>

theorem webhook_needs_signature:
  assumes run: "handleStripeWebhook cfg account constructEvent body signature s = (r, s')"
  shows "(\<exists>e. r = Inl e \<and> s' = s \<and>
      (\<not> truthy (pc_webhookSecret cfg) \<or> \<not> truthy (pc_stripeSecret cfg) \<or> \<not> truthy (map_option js_trim signature) \<or>
       (case constructEvent body (the signature) (the (pc_webhookSecret cfg)) of None \<Rightarrow> True | Some ev \<Rightarrow> se_id ev = []))) \<or>
    (\<exists>secret sig ev. pc_webhookSecret cfg = Some secret \<and> secret \<noteq> [] \<and> truthy (pc_stripeSecret cfg) \<and>
      signature = Some sig \<and> constructEvent body sig secret = Some ev \<and> se_id ev \<noteq> [] \<and>
      processVerifiedStripeEvent cfg account ev s = (r, s'))"
proof (cases "truthy (pc_webhookSecret cfg) \<and> truthy (pc_stripeSecret cfg)")
  case False
  with run show ?thesis by (auto simp: handleStripeWebhook_def or_else_def throwA_def split: option.splits if_splits)
next
  case True
  then obtain secret key where s: "pc_webhookSecret cfg = Some secret" "secret \<noteq> []" "pc_stripeSecret cfg = Some key" "key \<noteq> []"
    by (auto simp: truthy_def split: option.splits)
  from s run show ?thesis
    by (auto simp: handleStripeWebhook_def or_else_def guardA_def thenA_def bindA_def throwA_def returnA_def someA_def
        truthy_def split: option.splits if_splits)
qed

definition demo_construct :: "string \<Rightarrow> string \<Rightarrow> string \<Rightarrow> stripe_event option" where
  "demo_construct body sig secret = (if sig = secret @ body then Some demo_event else None)"

theorem webhook_needs_signature_witness:
  "\<exists>e. handleStripeWebhook demo_config (\<lambda>i. Inl (RawError i)) demo_construct ''body'' (Some ''forged'') demo_paying =
     (Inl e, demo_paying)"
proof -
  obtain r s' where run: "handleStripeWebhook demo_config (\<lambda>i. Inl (RawError i)) demo_construct ''body'' (Some ''forged'') demo_paying =
     (r, s')" by fastforce
  from webhook_needs_signature [OF run] run show ?thesis
    by (auto simp: demo_construct_def demo_config_def)
qed

section \<open>Idempotency keys of payment intents\<close>

lemma canPay_state: "assertCanPayOrder cmp user i token s = (r, s') \<Longrightarrow> s' = s"
  by (auto simp: assertCanPayOrder_def assertCanAccessOrder_def act_defs split: option.splits if_splits role.splits)

lemma key_reused:
  assumes "assertCanPayOrder cmp user i token s = (Inr order, s)" and "k \<noteq> []"
    and "find_row (\<lambda>p. pay_idempotencyKey p = k) (payments s) = Some p"
  shows "createPaymentIntent cfg cmp intent user i token (Some k) s = (Inr (plain_client p), s)"
  using assms
  by (simp add: createPaymentIntent_def bindA_run [where m = "assertCanPayOrder cmp user i token", OF assms(1)] or_else_def
      bindA_run [where m = "returnA k", OF returnA_def [THEN fun_cong]] bindA_gets) (simp add: returnA_def)

lemma created_key:
  "create_payment p s = (Inr u, s') \<Longrightarrow> find_row (\<lambda>q. pay_idempotencyKey q = pay_idempotencyKey p) (payments s') = Some p"
  by (auto simp: create_payment_def createUniqueA_ok find_row_append dest: find_row_Some split: option.splits)

lemma stripe_intent_kept:
  assumes run: "createStripeIntent cfg intent order k s = (Inr c, s')"
  shows "find_row (\<lambda>p. pay_idempotencyKey p = k) (payments s') = Some (cl_payment c)"
proof -
  from run obtain dest where "(case intent order (applicationFee cfg order) dest k of
       Inl e \<Rightarrow> throwA e
     | Inr (intentId, clientSecret) \<Rightarrow>
         bindA newIdA (\<lambda>i. thenA (create_payment (payment_of order i ''stripe'' intentId k))
           (returnA \<lparr>cl_payment = payment_of order i ''stripe'' intentId k, cl_mode = Some ''stripe'',
             cl_clientSecret = Some clientSecret, cl_applicationFeeCents = Some (applicationFee cfg order),
             cl_destination = Some dest\<rparr>))) s = (Inr c, s')"
    unfolding createStripeIntent_def Let_def by (auto simp: ok_simps)
  then show ?thesis
    by (cases "intent order (applicationFee cfg order) dest k")
      (auto simp: ok_simps payment_of_def dest!: created_key split: prod.splits)
qed

lemma key_kept:
  assumes run: "createPaymentIntent cfg cmp intent user i token (Some k) s = (Inr c, s')" and k: "k \<noteq> []"
  shows "find_row (\<lambda>p. pay_idempotencyKey p = k) (payments s') = Some (cl_payment c)"
  using run k
  by (auto simp: createPaymentIntent_def ok_simps or_else_def Let_def
      payment_of_def plain_client_def dest!: canPay_state created_key stripe_intent_kept
      split: option.splits if_splits sum.splits prod.splits)

text \<open>
  The idempotency key of a payment intent: a second request with the key of an earlier one, by
  anyone for any order they may pay, creates nothing and answers with the payment of the first
  request, also when that payment belongs to another order.
\<close>

theorem payment_key_reused:
  assumes first: "createPaymentIntent cfg cmp intent user i token (Some k) s = (Inr c, s1)" and k: "k \<noteq> []"
    and may: "assertCanPayOrder cmp' user' i' token' s1 = (Inr order', s1)"
  shows "createPaymentIntent cfg cmp' intent' user' i' token' (Some k) s1 = (Inr (plain_client (cl_payment c)), s1)"
  by (rule key_reused [OF may k key_kept [OF first k]])

definition demo_two_orders :: rfq_db where
  "demo_two_orders = demo_db\<lparr>orders := [demo_order OS_PENDING_PAYMENT, (demo_order OS_PENDING_PAYMENT)\<lparr>o_id := ''o2'', o_totalCents := 90000\<rparr>]\<rparr>"

definition demo_dev :: pay_config where
  "demo_dev = demo_config\<lparr>pc_provider := None\<rparr>"

definition demo_paying_o2 :: "(rfq_db, client_payment) act" where
  "demo_paying_o2 = createPaymentIntent demo_dev (=) (\<lambda>a b c d. Inl (RawError d)) (Some demo_buyer) ''o2'' None (Some ''key'')"

lemma demo_first_intent:
  "\<exists>c s1. createPaymentIntent demo_dev (=) (\<lambda>a b c d. Inl (RawError d)) (Some demo_buyer) ''o1'' None (Some ''key'') demo_two_orders = (Inr c, s1) \<and>
    pay_orderId (cl_payment c) = ''o1'' \<and> pay_amountCents (cl_payment c) = 2000 \<and>
    (\<exists>order'. assertCanPayOrder (=) (Some demo_buyer) ''o2'' None s1 = (Inr order', s1))"
  by (auto simp: createPaymentIntent_def assertCanPayOrder_def assertCanAccessOrder_def ok_simps or_else_def Let_def
      demo_two_orders_def demo_order_def demo_buyer_def demo_db_def empty_db_def provider_def demo_dev_def demo_config_def
      is_admin_def create_payment_def payment_of_def plain_client_def lower_dev)

theorem payment_key_reused_witness:
  "\<exists>c s1 c2. createPaymentIntent demo_dev (=) (\<lambda>a b c d. Inl (RawError d)) (Some demo_buyer) ''o1'' None (Some ''key'') demo_two_orders = (Inr c, s1) \<and>
    demo_paying_o2 s1 = (Inr c2, s1) \<and> pay_orderId (cl_payment c2) = ''o1'' \<and> pay_amountCents (cl_payment c2) = 2000"
proof -
  obtain c s1 order' where run: "createPaymentIntent demo_dev (=) (\<lambda>a b c d. Inl (RawError d)) (Some demo_buyer) ''o1'' None (Some ''key'') demo_two_orders = (Inr c, s1)"
    and p: "pay_orderId (cl_payment c) = ''o1''" "pay_amountCents (cl_payment c) = 2000"
    and may: "assertCanPayOrder (=) (Some demo_buyer) ''o2'' None s1 = (Inr order', s1)"
    using demo_first_intent by blast
  from payment_key_reused [OF run _ may] run p show ?thesis
    by (auto simp: demo_paying_o2_def plain_client_def)
qed

end
