(* ===== verification/Rfq.thy ===== *)
theory Rfq
  imports Payments
begin

text \<open>
  Requests for quotation: \<open>rfq/rfq.service.ts\<close>.  A buyer publishes a request, matching shops are
  recorded, merchants offer, the buyer awards one offer, and the award creates an order that waits for
  its payment.

  The year of the clock is the argument \<open>year\<close>.  Descriptions, units, attachments and the texts of an
  offer are not modelled.  The row lock of \<open>award\<close> has no effect here, where an operation runs alone.
\<close>

section \<open>Numbers\<close>

text \<open>\<open>n.toString().padStart(5, '0')\<close>.\<close>

definition padStart :: "nat \<Rightarrow> string \<Rightarrow> string" where
  "padStart w t = replicate (w - length t) CHR ''0'' @ t"

text \<open>
  \<open>nextval\<close> of the sequence, which a rollback does not take back; random digits where the sequence is
  missing (\<open>hasSeq\<close> is false).
\<close>

definition generateRfqNumber :: "bool \<Rightarrow> nat \<Rightarrow> ('z rfq_db_scheme, string) act" where
  "generateRfqNumber hasSeq year =
    (if hasSeq then
       bindA (getsA (\<lambda>s. Suc (rfq_seq s))) (\<lambda>n.
       thenA (modifyA (rfq_seq_update (\<lambda>_. n)))
         (returnA (''RFQ-'' @ dec_nat year @ ''-'' @ padStart 5 (dec_nat n))))
     else
       bindA newIdA (\<lambda>hex. returnA (''RFQ-'' @ dec_nat year @ ''-'' @ js_upper (take 8 hex))))"

section \<open>Reading and access\<close>

record rfq_view =
  rv_rfq :: rfq_row
  rv_matches :: "match_row list"
  rv_offers :: "offer_row list"
  rv_messages :: "message_row list"

definition view_of :: "rfq_row \<Rightarrow> 'z rfq_db_scheme \<Rightarrow> rfq_view" where
  "view_of rfq s =
    \<lparr>rv_rfq = rfq,
     rv_matches = sort_key (\<lambda>m. - ma_score m) (filter (\<lambda>m. ma_rfqId m = rq_id rfq) (matches s)),
     rv_offers = filter (\<lambda>o'. of_rfqId o' = rq_id rfq) (offers s),
     rv_messages = filter (\<lambda>m. ms_rfqId m = rq_id rfq) (messages s)\<rparr>"

definition mayViewRfq :: "jwt_payload \<Rightarrow> rfq_view \<Rightarrow> bool" where
  "mayViewRfq user v \<longleftrightarrow>
    is_admin user \<or>
    user_role user = CUSTOMER \<and> rq_buyerId (rv_rfq v) = sub user \<or>
    user_role user = MERCHANT \<and> truthy (user_shopId user) \<and>
      (list_ex (\<lambda>m. Some (ma_shopId m) = user_shopId user) (rv_matches v) \<or>
       list_ex (\<lambda>o'. Some (of_shopId o') = user_shopId user) (rv_offers v))"

definition assertCanViewRfq :: "rfq_view \<Rightarrow> jwt_payload \<Rightarrow> ('s, unit) act" where
  "assertCanViewRfq v user = guardA (mayViewRfq user v) (Forbidden ''Not allowed to view this RFQ'')"

definition getRfq :: "string \<Rightarrow> jwt_payload \<Rightarrow> ('z rfq_db_scheme, rfq_view) act" where
  "getRfq i user =
    bindA (getsA (\<lambda>s. find_row (\<lambda>r. rq_id r = i) (rfqs s))) (\<lambda>found.
    bindA (someA found (NotFound ''RFQ not found'')) (\<lambda>rfq.
    bindA (getsA (view_of rfq)) (\<lambda>v.
    thenA (assertCanViewRfq v user) (returnA v))))"

section \<open>Matching\<close>

definition match_key :: "string \<Rightarrow> string \<Rightarrow> match_row \<Rightarrow> bool" where
  "match_key rfqId shopId m \<longleftrightarrow> ma_rfqId m = rfqId \<and> ma_shopId m = shopId"

definition upsertMatch :: "match_row \<Rightarrow> (match_row \<Rightarrow> match_row) \<Rightarrow> ('z rfq_db_scheme, match_row) act" where
  "upsertMatch new f =
    (let key = match_key (ma_rfqId new) (ma_shopId new) in
     bindA (getsA (\<lambda>s. find_row key (matches s))) (\<lambda>found.
     case found of
       None \<Rightarrow> thenA (createA matches_update new) (returnA new)
     | Some _ \<Rightarrow> updateRowA matches matches_update key f))"

definition category_ids :: "rfq_row \<Rightarrow> string list" where
  "category_ids rfq = List.map_filter (\<lambda>i. or_else (ri_categoryId i) None) (rq_items rfq)"

definition in_categories :: "string list \<Rightarrow> product_row \<Rightarrow> bool" where
  "in_categories categoryIds p \<longleftrightarrow> (case p_categoryId p of None \<Rightarrow> False | Some c \<Rightarrow> c \<in> set categoryIds)"

definition shop_matches :: "string list \<Rightarrow> product_row list \<Rightarrow> shop_row \<Rightarrow> bool" where
  "shop_matches categoryIds ps shop \<longleftrightarrow>
    sh_status shop = SH_ACTIVE \<and>
    list_ex (\<lambda>p. p_shopId p = sh_id shop \<and> p_status p = PR_ACTIVE \<and>
      (categoryIds \<noteq> [] \<longrightarrow> in_categories categoryIds p)) ps"

definition match_score :: "string list \<Rightarrow> product_row list \<Rightarrow> shop_row \<Rightarrow> int" where
  "match_score categoryIds ps shop =
    10 + (if sh_verified shop then 20 else 0) +
    (if categoryIds \<noteq> [] then
       min 50 (int (count_where (\<lambda>p. p_shopId p = sh_id shop \<and> p_status p = PR_ACTIVE \<and>
         in_categories categoryIds p) ps) * 5)
     else 0)"

definition match_shop :: "string \<Rightarrow> string list \<Rightarrow> shop_row \<Rightarrow> ('z rfq_db_scheme, match_row) act" where
  "match_shop rfqId categoryIds shop =
    bindA (getsA (\<lambda>s. match_score categoryIds (products s) shop)) (\<lambda>score.
    upsertMatch
      \<lparr>ma_rfqId = rfqId, ma_shopId = sh_id shop, ma_score = score,
       ma_reason = (if categoryIds \<noteq> [] then ''category_product_match'' else ''active_shop'')\<rparr>
      (\<lambda>m. m\<lparr>ma_score := score\<rparr>))"

definition matchVendors :: "string \<Rightarrow> ('z rfq_db_scheme, match_row list) act" where
  "matchVendors rfqId =
    bindA (getsA (\<lambda>s. find_row (\<lambda>r. rq_id r = rfqId) (rfqs s))) (\<lambda>found.
    bindA (someA found (NotFound ''RFQ not found'')) (\<lambda>rfq.
    let categoryIds = category_ids rfq in
    bindA (getsA (\<lambda>s. take 50 (filter (shop_matches categoryIds (products s)) (shops s)))) (\<lambda>found_shops.
    mapA found_shops (match_shop rfqId categoryIds))))"

section \<open>create\<close>

record rfq_item_dto =
  rd_name :: string
  rd_quantity :: int
  rd_categoryId :: "string option"

record create_rfq =
  cq_title :: string
  cq_deadline :: "int option"
  cq_items :: "rfq_item_dto list"

definition new_rfq_item :: "rfq_item_dto \<Rightarrow> ('z rfq_db_scheme, rfq_item) act" where
  "new_rfq_item it =
    bindA newIdA (\<lambda>i. returnA
      \<lparr>ri_id = i, ri_name = js_trim (rd_name it), ri_quantity = rd_quantity it, ri_categoryId = rd_categoryId it\<rparr>)"

definition create_row :: "jwt_payload \<Rightarrow> create_rfq \<Rightarrow> string \<Rightarrow> ('z rfq_db_scheme, rfq_row) act" where
  "create_row user dto number =
    bindA newIdA (\<lambda>i.
    bindA (mapA (cq_items dto) new_rfq_item) (\<lambda>items.
    let rfq =
      \<lparr>rq_id = i, rq_number = number, rq_buyerId = sub user, rq_title = js_trim (cq_title dto),
       rq_status = RQ_OPEN, rq_deadline = cq_deadline dto, rq_currency = ''USD'',
       rq_awardedOfferId = None, rq_items = items\<rparr> in
    thenA (createUniqueA rfqs rfqs_update (\<lambda>r. rq_number r = number) rfq) (returnA rfq)))"

text \<open>
  \<open>for (attempt < 3)\<close>: another number after a clash of numbers, nothing else is tried again.  In the
  transaction the sequence must exist: a failed statement would end it.
\<close>

fun create_attempts ::
  "nat \<Rightarrow> nat \<Rightarrow> exn \<Rightarrow> jwt_payload \<Rightarrow> create_rfq \<Rightarrow> ('z rfq_db_scheme, rfq_row) act" where
  "create_attempts year 0 lastErr user dto = throwA lastErr"
| "create_attempts year (Suc n) lastErr user dto =
    bindA (generateRfqNumber True year) (\<lambda>number.
    catchA (txA (create_row user dto number))
      (\<lambda>e. if e = PrismaError ''P2002'' then create_attempts year n e user dto else throwA e))"

definition create_rfq_request :: "nat \<Rightarrow> jwt_payload \<Rightarrow> create_rfq \<Rightarrow> ('z rfq_db_scheme, rfq_view) act" where
  "create_rfq_request year user dto =
    thenA (guardA (\<not> (user_role user \<noteq> CUSTOMER \<and> user_role user \<noteq> ADMIN \<and> user_role user \<noteq> SUPER_ADMIN))
      (Forbidden ''Only buyers can create RFQ''))
    (bindA (create_attempts year 3 (BadRequest ''Failed to create RFQ'') user dto) (\<lambda>created.
     bindA (matchVendors (rq_id created)) (\<lambda>found.
     thenA (updateA rfqs rfqs_update (\<lambda>r. rq_id r = rq_id created)
       (\<lambda>r. r\<lparr>rq_status := (if found \<noteq> [] then RQ_MATCHED else RQ_OPEN)\<rparr>))
     (thenA (auditA (Some (sub user)) ''RFQ_CREATE'' ''Rfq'' (Some (rq_id created)))
     (thenA (emitA ''rfq.created'' (rq_id created))
       (getRfq (rq_id created) user))))))"

section \<open>listForUser\<close>

definition rfq_status_names :: "(string \<times> rfq_status) list" where
  "rfq_status_names =
    [(''DRAFT'', RQ_DRAFT), (''OPEN'', RQ_OPEN), (''MATCHED'', RQ_MATCHED), (''QUOTED'', RQ_QUOTED),
     (''AWARDED'', RQ_AWARDED), (''CLOSED'', RQ_CLOSED), (''CANCELLED'', RQ_CANCELLED)]"

definition status_filter :: "string option \<Rightarrow> rfq_status option" where
  "status_filter raw = (case or_else raw None of None \<Rightarrow> None | Some t \<Rightarrow> map_of rfq_status_names t)"

definition listed :: "jwt_payload \<Rightarrow> rfq_status option \<Rightarrow> match_row list \<Rightarrow> offer_row list \<Rightarrow> rfq_row \<Rightarrow> bool" where
  "listed user st ms os r \<longleftrightarrow>
    (if is_admin user then (case st of None \<Rightarrow> True | Some x \<Rightarrow> rq_status r = x)
     else if user_role user = MERCHANT then
       (list_ex (\<lambda>m. ma_rfqId m = rq_id r \<and> Some (ma_shopId m) = user_shopId user) ms \<or>
        list_ex (\<lambda>o'. of_rfqId o' = rq_id r \<and> Some (of_shopId o') = user_shopId user) os) \<and>
       (case st of None \<Rightarrow> rq_status r \<noteq> RQ_DRAFT \<and> rq_status r \<noteq> RQ_CANCELLED | Some x \<Rightarrow> rq_status r = x)
     else rq_buyerId r = sub user \<and> (case st of None \<Rightarrow> True | Some x \<Rightarrow> rq_status r = x))"

record rfq_page =
  rp_items :: "rfq_row list"
  rp_nextCursor :: "string option"
  rp_hasMore :: bool

definition listForUser :: "jwt_payload \<Rightarrow> list_opts \<Rightarrow> ('z rfq_db_scheme, rfq_page) act" where
  "listForUser user opts =
    (if \<not> is_admin user \<and> user_role user = MERCHANT \<and> \<not> truthy (user_shopId user) then
       returnA \<lparr>rp_items = [], rp_nextCursor = None, rp_hasMore = False\<rparr>
     else
       (let limit = (case lo_limit opts of None \<Rightarrow> 20 | Some n \<Rightarrow> n) in
        bindA (getsA (\<lambda>s.
          let newest = rev (rfqs s);
              keep = listed user (status_filter (lo_status opts)) (matches s) (offers s);
              page = (case or_else (lo_cursor opts) None of
                  None \<Rightarrow> filter keep newest
                | Some c \<Rightarrow> drop 1 (filter keep (dropWhile (\<lambda>r. rq_id r \<noteq> c) newest)))
          in take limit page)) (\<lambda>items.
        if length items = limit \<and> items = [] then throwA (RawError ''TypeError'')
        else
          (let next = (if length items = limit then Some (rq_id (last items)) else None) in
           returnA \<lparr>rp_items = items, rp_nextCursor = next, rp_hasMore = truthy next\<rparr>))))"

section \<open>createOffer\<close>

definition openStatuses :: "rfq_status list" where
  "openStatuses = [RQ_OPEN, RQ_MATCHED, RQ_QUOTED]"

definition offer_total :: "offer_item list \<Rightarrow> int" where
  "offer_total ls = foldl (\<lambda>a l. a + of_unitPriceCents l * of_quantity l) 0 ls"

definition offer_key :: "string \<Rightarrow> string \<Rightarrow> offer_row \<Rightarrow> bool" where
  "offer_key rfqId shopId o' \<longleftrightarrow> of_rfqId o' = rfqId \<and> of_shopId o' = shopId"

text \<open>The upsert of the offer of a shop; a line may occur once (\<open>@@unique([offerId, rfqItemId])\<close>).\<close>

definition upsertOffer ::
  "jwt_payload \<Rightarrow> string \<Rightarrow> string \<Rightarrow> offer_item list \<Rightarrow> ('z rfq_db_scheme, offer_row) act" where
  "upsertOffer user rfqId shopId ls =
    thenA (guardA (distinct (map of_rfqItemId ls)) (PrismaError ''P2002''))
    (bindA (getsA (\<lambda>s. find_row (offer_key rfqId shopId) (offers s))) (\<lambda>found.
     case found of
       None \<Rightarrow>
         bindA newIdA (\<lambda>i.
         let new = \<lparr>of_id = i, of_rfqId = rfqId, of_shopId = shopId, of_vendorId = sub user,
                    of_status = OF_PENDING, of_totalCents = offer_total ls, of_currency = ''USD'',
                    of_items = ls\<rparr> in
         thenA (createA offers_update new) (returnA new))
     | Some _ \<Rightarrow>
         updateRowA offers offers_update (offer_key rfqId shopId)
           (\<lambda>x. x\<lparr>of_totalCents := offer_total ls, of_status := OF_PENDING, of_items := ls\<rparr>)))"

definition createOffer ::
  "jwt_payload \<Rightarrow> string \<Rightarrow> offer_item list \<Rightarrow> ('z rfq_db_scheme, offer_row) act" where
  "createOffer user rfqId ls =
    thenA (guardA (\<not> (user_role user \<noteq> MERCHANT \<or> \<not> truthy (user_shopId user)))
      (Forbidden ''Only merchants can offer''))
    (bindA (getsA (\<lambda>s. find_row (\<lambda>r. rq_id r = rfqId) (rfqs s))) (\<lambda>found.
     bindA (someA found (NotFound ''RFQ not found'')) (\<lambda>rfq.
     thenA (guardA (rq_status rfq \<in> set openStatuses) (BadRequest ''RFQ not open for offers''))
     (bindA (getsA clock) (\<lambda>now.
      thenA (guardA (case rq_deadline rfq of None \<Rightarrow> True | Some d \<Rightarrow> \<not> d < now) (BadRequest ''RFQ deadline passed''))
      (thenA (guardA (list_all (\<lambda>l. of_rfqItemId l \<in> set (map ri_id (rq_items rfq))) ls)
         (BadRequest ''Unknown rfqItemId''))
      (let shopId = the (user_shopId user) in
       bindA (upsertOffer user rfqId shopId ls) (\<lambda>offer.
       thenA (updateA rfqs rfqs_update (\<lambda>r. rq_id r = rfqId) (\<lambda>r. r\<lparr>rq_status := RQ_QUOTED\<rparr>))
       (thenA (upsertMatch
           \<lparr>ma_rfqId = rfqId, ma_shopId = shopId, ma_score = 100, ma_reason = ''submitted_offer''\<rparr>
           (\<lambda>m. m\<lparr>ma_score := 100, ma_reason := ''submitted_offer''\<rparr>))
       (thenA (auditA (Some (sub user)) ''RFQ_OFFER'' ''RfqOffer'' (Some (of_id offer)))
         (returnA offer)))))))))))"

section \<open>comparison\<close>

record cell =
  ce_offerId :: string
  ce_shopId :: string
  ce_unitPriceCents :: "int option"
  ce_quantity :: "int option"
  ce_totalLineCents :: "int option"

record matrix_row =
  mx_itemId :: string
  mx_name :: string
  mx_quantity :: int
  mx_offers :: "cell list"

definition cell_of :: "rfq_item \<Rightarrow> offer_row \<Rightarrow> cell" where
  "cell_of item o' =
    (let line = find_row (\<lambda>l. of_rfqItemId l = ri_id item) (of_items o') in
     \<lparr>ce_offerId = of_id o', ce_shopId = of_shopId o',
      ce_unitPriceCents = map_option of_unitPriceCents line,
      ce_quantity = map_option of_quantity line,
      ce_totalLineCents = map_option (\<lambda>l. of_unitPriceCents l * of_quantity l) line\<rparr>)"

definition comparison :: "string \<Rightarrow> jwt_payload \<Rightarrow> ('z rfq_db_scheme, matrix_row list) act" where
  "comparison rfqId user =
    bindA (getRfq rfqId user) (\<lambda>v.
    returnA (map (\<lambda>item. \<lparr>mx_itemId = ri_id item, mx_name = ri_name item, mx_quantity = ri_quantity item,
      mx_offers = map (cell_of item) (rv_offers v)\<rparr>) (rq_items (rv_rfq v))))"

section \<open>award\<close>

definition plain_line :: "string \<Rightarrow> int \<Rightarrow> int \<Rightarrow> order_item" where
  "plain_line nm price qty =
    \<lparr>oi_productId = None, oi_productName = nm, oi_unitPriceCents = price, oi_quantity = qty,
     oi_lineTotalCents = price * qty, oi_warehouseId = None, oi_taxRateId = None, oi_taxCents = 0\<rparr>"

definition item_name :: "rfq_row \<Rightarrow> string \<Rightarrow> string" where
  "item_name rfq i =
    (case or_else (map_option ri_name (find_row (\<lambda>x. ri_id x = i) (rq_items rfq))) None of
      None \<Rightarrow> ''RFQ item'' | Some n \<Rightarrow> n)"

definition award_lines :: "rfq_row \<Rightarrow> offer_row \<Rightarrow> order_item list" where
  "award_lines rfq offer =
    (if of_items offer \<noteq> [] then
       map (\<lambda>l. plain_line (item_name rfq (of_rfqItemId l)) (of_unitPriceCents l) (of_quantity l)) (of_items offer)
     else [plain_line (rq_title rfq) (of_totalCents offer) 1])"

definition award_order :: "string \<Rightarrow> string \<Rightarrow> rfq_row \<Rightarrow> offer_row \<Rightarrow> order_row" where
  "award_order oid orderNumber rfq offer =
    \<lparr>o_id = oid, o_orderNumber = orderNumber, o_customerId = Some (rq_buyerId rfq),
     o_shopId = of_shopId offer, o_status = OS_PENDING_PAYMENT,
     o_currency = (if of_currency offer \<noteq> [] then of_currency offer
                   else if rq_currency rfq \<noteq> [] then rq_currency rfq else ''USD''),
     o_subtotalCents = of_totalCents offer, o_taxCents = 0,
     o_commissionCents = commission_of (of_totalCents offer), o_totalCents = of_totalCents offer,
     o_customerEmail = None, o_customerName = None, o_paymentTokenHash = None,
     o_paymentTokenExpiresAt = None, o_shippingMethodId = None, o_shippingRateId = None,
     o_shippingPriceCents = 0, o_shippingDaysMin = None, o_shippingDaysMax = None,
     o_paymentRef = None, o_source = ''RFQ'', o_rfqId = Some (rq_id rfq),
     o_offerId = Some (of_id offer), o_items = award_lines rfq offer\<rparr>"

definition may_award :: "jwt_payload \<Rightarrow> rfq_row \<Rightarrow> bool" where
  "may_award user rfq \<longleftrightarrow> \<not> (rq_buyerId rfq \<noteq> sub user \<and> \<not> is_admin user)"

text \<open>The offer accepted, the other pending offers rejected, the request awarded.\<close>

definition settle_offers :: "string \<Rightarrow> string \<Rightarrow> ('z rfq_db_scheme, unit) act" where
  "settle_offers rfqId offerId =
    thenA (updateA offers offers_update (\<lambda>x. of_id x = offerId) (\<lambda>x. x\<lparr>of_status := OF_ACCEPTED\<rparr>))
    (thenA (updateManyA offers_update (\<lambda>x. of_rfqId x = rfqId \<and> of_id x \<noteq> offerId \<and> of_status x = OF_PENDING)
       (\<lambda>x. x\<lparr>of_status := OF_REJECTED\<rparr>))
      (updateA rfqs rfqs_update (\<lambda>r. rq_id r = rfqId)
        (\<lambda>r. r\<lparr>rq_status := RQ_AWARDED, rq_awardedOfferId := Some offerId\<rparr>)))"

definition award_tx :: "string \<Rightarrow> string \<Rightarrow> jwt_payload \<Rightarrow> ('z rfq_db_scheme, order_row) act" where
  "award_tx rfqId offerId user =
    txA
     (bindA (getsA (\<lambda>s. find_row (\<lambda>r. rq_id r = rfqId) (rfqs s))) (\<lambda>found.
      bindA (someA found (NotFound ''RFQ not found'')) (\<lambda>rfq.
      thenA (guardA (may_award user rfq) (Forbidden ''Not your RFQ''))
      (thenA (guardA (rq_status rfq \<noteq> RQ_AWARDED) (Conflict ''RFQ already awarded''))
      (thenA (guardA (rq_status rfq \<in> set openStatuses) (BadRequest ''RFQ is not open for awarding''))
      (bindA (getsA (\<lambda>s. find_row (\<lambda>x. of_rfqId x = rfqId \<and> of_id x = offerId) (offers s))) (\<lambda>foundo.
       bindA (someA foundo (NotFound ''Offer not found'')) (\<lambda>offer.
       thenA (guardA (of_status offer = OF_PENDING) (BadRequest ''Offer is not pending''))
       (thenA (settle_offers rfqId offerId)
       (bindA (getsA clock) (\<lambda>now.
        bindA newIdA (\<lambda>hex.
        let orderNumber = ''ORD-RFQ-'' @ base36 (nat now) @ ''-'' @ js_upper (take 4 hex) in
        bindA newIdA (\<lambda>oid.
        let order = award_order oid orderNumber rfq offer in
        thenA (createUniqueA orders orders_update (\<lambda>x. o_orderNumber x = orderNumber) order)
        (thenA (createA history_update
          \<lparr>h_orderId = oid, h_fromStatus = None, h_toStatus = OS_PENDING_PAYMENT, h_actorId = Some (sub user),
           h_reason = Some (''RFQ award '' @ rq_number rfq @ '' offer '' @ offerId)\<rparr>)
        (thenA (createA audit_log_update
          \<lparr>au_actorId = Some (sub user), au_action = ''RFQ_AWARD'', au_entityType = ''Rfq'',
           au_entityId = Some rfqId\<rparr>)
          (returnA order))))))))))))))))"

definition award :: "string \<Rightarrow> string \<Rightarrow> jwt_payload \<Rightarrow> ('z rfq_db_scheme, order_row) act" where
  "award rfqId offerId user =
    bindA (award_tx rfqId offerId user) (\<lambda>order.
    thenA (emitA ''rfq.awarded'' rfqId) (returnA order))"

section \<open>postMessage\<close>

definition postMessage :: "string \<Rightarrow> jwt_payload \<Rightarrow> string \<Rightarrow> ('z rfq_db_scheme, message_row) act" where
  "postMessage rfqId user body =
    bindA (getsA (\<lambda>s. find_row (\<lambda>r. rq_id r = rfqId) (rfqs s))) (\<lambda>found.
    bindA (someA found (NotFound '''')) (\<lambda>rfq.
    bindA (getsA (view_of rfq)) (\<lambda>v.
    thenA (assertCanViewRfq v user)
    (let m = \<lparr>ms_rfqId = rfqId, ms_authorId = sub user, ms_body = js_trim body\<rparr> in
     thenA (createA messages_update m) (returnA m)))))"

end
