(* ===== verification/Rfq_Commands.thy ===== *)
theory Rfq_Commands
  imports Rfq
begin

text \<open>
  The command handlers over the requests for quotation: \<open>rfq/commands\<close>.  Three wrap an operation of the
  service and put an event into the outbox; closing a request and rejecting an offer are operations of
  their own.
\<close>

text \<open>A text that may be missing: the field is left out of the JSON.\<close>

definition json_field :: "string \<Rightarrow> string option \<Rightarrow> payload" where
  "json_field name x = (case x of None \<Rightarrow> [] | Some t \<Rightarrow> [(name, JString t)])"

definition CreateRfqHandler :: "nat \<Rightarrow> jwt_payload \<Rightarrow> create_rfq \<Rightarrow> ('z rfq_db_scheme, rfq_view) act" where
  "CreateRfqHandler year user dto =
    bindA (create_rfq_request year user dto) (\<lambda>created.
    thenA (enqueueA ''RfqCreatedEvent''
      [(''rfqId'', JString (rq_id (rv_rfq created))), (''buyerId'', JString (sub user)),
       (''title'', JString (rq_title (rv_rfq created))),
       (''categoryIds'', JStrings (category_ids (rv_rfq created))),
       (''shopIds'', JStrings (map ma_shopId (rv_matches created))),
       (''number'', JString (rq_number (rv_rfq created)))])
      (returnA created))"

definition RespondToRfqHandler ::
  "jwt_payload \<Rightarrow> string \<Rightarrow> offer_item list \<Rightarrow> ('z rfq_db_scheme, offer_row) act" where
  "RespondToRfqHandler user rfqId ls =
    bindA (createOffer user rfqId ls) (\<lambda>offer.
    thenA (enqueueA ''RfqResponseCreatedEvent''
      [(''responseId'', JString (of_id offer)), (''rfqId'', JString rfqId),
       (''shopId'', JString (of_shopId offer)), (''merchantId'', JString (sub user)),
       (''totalCents'', JNumber (of_totalCents offer))])
      (returnA offer))"

definition AcceptRfqResponseHandler ::
  "jwt_payload \<Rightarrow> string \<Rightarrow> string \<Rightarrow> ('z rfq_db_scheme, order_row) act" where
  "AcceptRfqResponseHandler user rfqId offerId =
    bindA (getsA (\<lambda>s. find_row (\<lambda>x. of_id x = offerId \<and> of_rfqId x = rfqId) (offers s))) (\<lambda>found.
    bindA (award rfqId offerId user) (\<lambda>order.
    thenA
      (case found of
        None \<Rightarrow> returnA ()
      | Some offer \<Rightarrow> enqueueA ''RfqResponseAcceptedEvent''
          [(''responseId'', JString (of_id offer)), (''rfqId'', JString rfqId),
           (''shopId'', JString (of_shopId offer)), (''buyerId'', JString (sub user)),
           (''totalCents'', JNumber (of_totalCents offer)), (''orderId'', JString (o_id order))])
      (returnA order)))"

definition closable :: "rfq_status list" where
  "closable = [RQ_OPEN, RQ_MATCHED, RQ_QUOTED, RQ_AWARDED]"

definition close_tx :: "jwt_payload \<Rightarrow> string \<Rightarrow> string option \<Rightarrow> ('z rfq_db_scheme, rfq_row) act" where
  "close_tx user rfqId reason =
    txA
     (bindA (updateRowA rfqs rfqs_update (\<lambda>r. rq_id r = rfqId) (\<lambda>r. r\<lparr>rq_status := RQ_CLOSED\<rparr>)) (\<lambda>updated.
      thenA (updateManyA offers_update (\<lambda>x. of_rfqId x = rfqId \<and> of_status x = OF_PENDING)
        (\<lambda>x. x\<lparr>of_status := OF_REJECTED\<rparr>))
      (thenA (enqueueA ''RfqClosedEvent''
        ([(''rfqId'', JString rfqId), (''buyerId'', JString (sub user))] @ json_field ''reason'' reason))
        (returnA updated))))"

definition CloseRfqHandler :: "jwt_payload \<Rightarrow> string \<Rightarrow> string option \<Rightarrow> ('z rfq_db_scheme, rfq_row) act" where
  "CloseRfqHandler user rfqId reason =
    bindA (getsA (\<lambda>s. find_row (\<lambda>r. rq_id r = rfqId) (rfqs s))) (\<lambda>found.
    bindA (someA found (NotFound ''RFQ not found'')) (\<lambda>rfq.
    thenA (guardA (rq_buyerId rfq = sub user \<or> is_admin user) (Forbidden ''Only RFQ owner can close''))
    (thenA (guardA (rq_status rfq \<in> set closable) (BadRequest ''Cannot close RFQ''))
      (close_tx user rfqId reason))))"

text \<open>The foreign key ties the offer to its request.\<close>

definition RejectRfqResponseHandler ::
  "jwt_payload \<Rightarrow> string \<Rightarrow> string \<Rightarrow> string option \<Rightarrow> ('z rfq_db_scheme, offer_row) act" where
  "RejectRfqResponseHandler user rfqId offerId reason =
    bindA (getsA (\<lambda>s. find_row (\<lambda>x. of_id x = offerId \<and> of_rfqId x = rfqId) (offers s))) (\<lambda>found.
    bindA (someA found (NotFound ''Offer not found'')) (\<lambda>offer.
    bindA (getsA (\<lambda>s. find_row (\<lambda>r. rq_id r = of_rfqId offer) (rfqs s))) (\<lambda>rfound.
    bindA (someA rfound (RawError ''TypeError'')) (\<lambda>rfq.
    thenA (guardA (rq_buyerId rfq = sub user \<or> is_admin user) (Forbidden ''Only RFQ owner can reject offers''))
    (thenA (guardA (of_status offer = OF_PENDING) (BadRequest ''Cannot reject offer''))
    (thenA (guardA (rq_status rfq \<notin> {RQ_CLOSED, RQ_CANCELLED}) (BadRequest ''RFQ is closed''))
    (bindA (updateRowA offers offers_update (\<lambda>x. of_id x = of_id offer) (\<lambda>x. x\<lparr>of_status := OF_REJECTED\<rparr>)) (\<lambda>updated.
     thenA (enqueueA ''RfqResponseRejectedEvent''
       ([(''responseId'', JString (of_id offer)), (''rfqId'', JString rfqId),
         (''shopId'', JString (of_shopId offer)), (''buyerId'', JString (sub user))] @ json_field ''reason'' reason))
       (returnA updated)))))))))"

end
