(* ===== verification/Rfq_Claims.thy ===== *)
theory Rfq_Claims
  imports Rfq_Commands Samples
begin

text \<open>
  The properties of requests for quotation: however the buyer and the merchants act, a request is awarded
  at most once, to one offer, with one order for what the offer asked.
\<close>

section \<open>The invariant\<close>

text \<open>What an award leaves: the accepted offer, no other open one, and the one order of the request.\<close>

definition awarded_ok :: "'z rfq_db_scheme \<Rightarrow> rfq_row \<Rightarrow> string \<Rightarrow> bool" where
  "awarded_ok s r i \<longleftrightarrow>
    (\<exists>x order. x \<in> set (offers s) \<and> of_id x = i \<and> of_rfqId x = rq_id r \<and> of_status x = OF_ACCEPTED \<and>
      (\<forall>y \<in> set (offers s). of_rfqId y = rq_id r \<longrightarrow> y \<noteq> x \<longrightarrow> of_status y \<notin> {OF_PENDING, OF_ACCEPTED}) \<and>
      filter (\<lambda>o'. o_rfqId o' = Some (rq_id r)) (orders s) = [order] \<and>
      o_offerId order = Some i \<and> o_totalCents order = of_totalCents x \<and> o_shopId order = of_shopId x \<and>
      o_customerId order = Some (rq_buyerId r))"

definition waiting_ok :: "'z rfq_db_scheme \<Rightarrow> rfq_row \<Rightarrow> bool" where
  "waiting_ok s r \<longleftrightarrow>
    (\<forall>y \<in> set (offers s). of_rfqId y = rq_id r \<longrightarrow> of_status y \<noteq> OF_ACCEPTED) \<and>
    filter (\<lambda>o'. o_rfqId o' = Some (rq_id r)) (orders s) = []"

definition request_ok :: "'z rfq_db_scheme \<Rightarrow> rfq_row \<Rightarrow> bool" where
  "request_ok s r \<longleftrightarrow>
    (case rq_awardedOfferId r of
      None \<Rightarrow> rq_status r \<noteq> RQ_AWARDED \<and> waiting_ok s r
    | Some i \<Rightarrow> rq_status r \<in> {RQ_AWARDED, RQ_CLOSED} \<and> awarded_ok s r i)"

definition rfq_ids_ok :: "'z rfq_db_scheme \<Rightarrow> bool" where
  "rfq_ids_ok s \<longleftrightarrow>
    inj (id_supply s) \<and> distinct (map rq_id (rfqs s)) \<and> distinct (map of_id (offers s)) \<and>
    rq_id ` set (rfqs s) \<union> of_id ` set (offers s) \<subseteq> id_supply s ` {..<next_id s} \<and>
    of_rfqId ` set (offers s) \<subseteq> rq_id ` set (rfqs s) \<and>
    (\<forall>o' \<in> set (orders s). \<forall>i. o_rfqId o' = Some i \<longrightarrow> i \<in> rq_id ` set (rfqs s))"

definition rfq_sound :: "'z rfq_db_scheme \<Rightarrow> bool" where
  "rfq_sound s \<longleftrightarrow> rfq_ids_ok s \<and> (\<forall>r \<in> set (rfqs s). request_ok s r)"

definition open_request :: "string \<Rightarrow> 'z rfq_db_scheme \<Rightarrow> bool" where
  "open_request i s \<longleftrightarrow> i \<in> rq_id ` set (rfqs s) \<and>
    (\<forall>r \<in> set (rfqs s). rq_id r = i \<longrightarrow> rq_status r \<in> set openStatuses)"

lemma request_ok_cong:
  "offers s' = offers s \<Longrightarrow> orders s' = orders s \<Longrightarrow> request_ok s' r = request_ok s r"
  by (simp add: request_ok_def waiting_ok_def awarded_ok_def cong: option.case_cong)

lemma rfq_sound_cong:
  assumes "rfq_sound s" "rfqs s' = rfqs s" "offers s' = offers s" "orders s' = orders s"
    "id_supply s' = id_supply s" "next_id s \<le> next_id s'"
  shows "rfq_sound s'"
proof -
  have "{..<next_id s} \<subseteq> {..<next_id s'}" using assms(6) by auto
  then have "id_supply s ` {..<next_id s} \<subseteq> id_supply s ` {..<next_id s'}" by (rule image_mono)
  with assms show ?thesis
    by (simp add: rfq_sound_def rfq_ids_ok_def request_ok_cong [OF assms(3,4)]) (metis (no_types, lifting) order_trans)
qed

lemma open_waits:
  assumes "rfq_sound s" "open_request i s" "r \<in> set (rfqs s)" "rq_id r = i"
  shows "rq_awardedOfferId r = None" "waiting_ok s r" "rq_status r \<in> set openStatuses"
proof -
  from assms have st: "rq_status r \<in> set openStatuses" and ok: "request_ok s r"
    by (auto simp: open_request_def rfq_sound_def)
  then show "rq_awardedOfferId r = None"
    by (cases "rq_awardedOfferId r") (auto simp: request_ok_def openStatuses_def)
  with ok show "waiting_ok s r" by (simp add: request_ok_def)
  show "rq_status r \<in> set openStatuses" by (rule st)
qed

section \<open>The single writes\<close>

text \<open>A new request.\<close>

lemma sound_new_request:
  assumes ok: "rfq_sound s" and "rfqs s' = rfqs s @ [r]" "offers s' = offers s" "orders s' = orders s"
    "id_supply s' = id_supply s" "n < next_id s'" "next_id s \<le> n" "rq_id r = id_supply s n"
    "rq_awardedOfferId r = None" "rq_status r \<noteq> RQ_AWARDED"
  shows "rfq_sound s'"
proof -
  have fresh: "id_supply s n \<notin> id_supply s ` {..<next_id s}"
    using ok assms(7) by (auto simp: rfq_sound_def rfq_ids_ok_def dest: injD)
  have sub: "id_supply s ` {..<next_id s} \<subseteq> id_supply s ` {..<next_id s'}"
    using assms(6,7) by (intro image_mono) auto
  have n: "id_supply s n \<in> id_supply s ` {..<next_id s'}" using assms(6) by simp
  have known: "rq_id ` set (rfqs s) \<union> of_id ` set (offers s) \<subseteq> id_supply s ` {..<next_id s'}"
    by (rule order_trans [OF _ sub]) (use ok in \<open>simp only: rfq_sound_def rfq_ids_ok_def\<close>)
  have notin: "rq_id r \<notin> rq_id ` set (rfqs s)"
    using ok fresh assms(8) by (auto simp: rfq_sound_def rfq_ids_ok_def)
  have "insert (rq_id r) (rq_id ` set (rfqs s)) \<union> of_id ` set (offers s) \<subseteq> id_supply s ` {..<next_id s'}"
    using known n assms(8) by simp
  with notin have ids: "rfq_ids_ok s'"
    using ok unfolding rfq_sound_def rfq_ids_ok_def assms(2-5) by (elim conjE, intro conjI) (simp_all, blast+)
  have refs: "of_rfqId ` set (offers s) \<subseteq> rq_id ` set (rfqs s)"
    "\<And>o' i. o' \<in> set (orders s) \<Longrightarrow> o_rfqId o' = Some i \<Longrightarrow> i \<in> rq_id ` set (rfqs s)"
    using ok by (auto simp: rfq_sound_def rfq_ids_ok_def)
  have none: "of_rfqId y \<noteq> rq_id r" if "y \<in> set (offers s)" for y
    using that notin refs(1) by (metis imageI subsetD)
  moreover have "o_rfqId o' \<noteq> Some (rq_id r)" if "o' \<in> set (orders s)" for o'
    using refs(2) [OF that] notin by blast
  ultimately have "request_ok s r"
    using assms(9,10) by (auto simp: request_ok_def waiting_ok_def filter_empty_conv)
  with ids ok assms(2) show ?thesis by (auto simp: rfq_sound_def request_ok_cong [OF assms(3,4)])
qed

text \<open>An open request changes its status and stays open.\<close>

lemma sound_open_status:
  assumes ok: "rfq_sound s" and op: "open_request i s" and st: "st \<in> set openStatuses"
    and "rfqs s' = update_where (\<lambda>r. rq_id r = i) (\<lambda>r. r\<lparr>rq_status := st\<rparr>) (rfqs s)"
    "offers s' = offers s" "orders s' = orders s" "id_supply s' = id_supply s" "next_id s' = next_id s"
  shows "rfq_sound s' \<and> open_request i s'"
proof -
  have "request_ok s (if rq_id r = i then r\<lparr>rq_status := st\<rparr> else r)" if "r \<in> set (rfqs s)" for r
  proof (cases "rq_id r = i")
    case True
    from open_waits [OF ok op that True] st True show ?thesis
      by (auto simp: request_ok_def waiting_ok_def openStatuses_def)
  qed (use ok that in \<open>simp add: rfq_sound_def\<close>)
  moreover have "rfq_ids_ok s'"
    using ok assms(4-8) by (auto simp: rfq_sound_def rfq_ids_ok_def map_update_where image_update_where)
  ultimately have "rfq_sound s'"
    using assms(4) by (simp add: rfq_sound_def ball_update_where request_ok_cong [OF assms(5,6)])
  moreover have "open_request i s'"
    using op st assms(4) by (simp add: open_request_def ball_update_where image_update_where)
  ultimately show ?thesis ..
qed

text \<open>A request is judged by its own offers and orders.\<close>

lemma request_ok_own:
  assumes "\<And>x. of_rfqId x = rq_id r \<Longrightarrow> x \<in> set (offers s') \<longleftrightarrow> x \<in> set (offers s)"
    and "filter (\<lambda>o'. o_rfqId o' = Some (rq_id r)) (orders s') = filter (\<lambda>o'. o_rfqId o' = Some (rq_id r)) (orders s)"
  shows "request_ok s' r = request_ok s r"
proof -
  have "awarded_ok s' r i = awarded_ok s r i" for i
    unfolding awarded_ok_def assms(2) using assms(1) by blast
  moreover have "waiting_ok s' r = waiting_ok s r"
    unfolding waiting_ok_def assms(2) using assms(1) by blast
  ultimately show ?thesis by (simp add: request_ok_def cong: option.case_cong)
qed

text \<open>Offers of one request change: the others are judged as before.\<close>

lemma sound_offers:
  assumes ok: "rfq_sound s" and "rfqs s' = rfqs s" "orders s' = orders s" "rfq_ids_ok s'"
    and other: "\<And>x. of_rfqId x \<noteq> i \<Longrightarrow> x \<in> set (offers s') \<longleftrightarrow> x \<in> set (offers s)"
    and own: "\<And>r. r \<in> set (rfqs s) \<Longrightarrow> rq_id r = i \<Longrightarrow> request_ok s r \<Longrightarrow> request_ok s' r"
  shows "rfq_sound s'"
proof -
  have "request_ok s' r" if "r \<in> set (rfqs s)" for r
  proof (cases "rq_id r = i")
    case True
    with own that ok show ?thesis by (simp add: rfq_sound_def)
  next
    case False
    then have "request_ok s' r = request_ok s r"
      by (intro request_ok_own) (use other assms(3) in auto)
    with that ok show ?thesis by (simp add: rfq_sound_def)
  qed
  with assms(2,4) show ?thesis by (simp add: rfq_sound_def)
qed

lemma sound_new_offer:
  assumes ok: "rfq_sound s" and op: "open_request (of_rfqId x) s"
    and "rfqs s' = rfqs s" "offers s' = offers s @ [x]" "orders s' = orders s" "id_supply s' = id_supply s"
    "next_id s' = Suc (next_id s)" "of_id x = id_supply s (next_id s)" "of_status x = OF_PENDING"
  shows "rfq_sound s' \<and> open_request (of_rfqId x) s'"
proof
  note k = ok [unfolded rfq_sound_def rfq_ids_ok_def]
  have "id_supply s (next_id s) \<notin> id_supply s ` {..<next_id s}" using k by (auto dest: injD)
  then have notin: "of_id x \<notin> of_id ` set (offers s)" using k assms(8) by (metis Un_iff subsetD)
  have "rq_id ` set (rfqs s) \<union> of_id ` set (offers s) \<union> {of_id x} \<subseteq> id_supply s ` {..<Suc (next_id s)}"
    using k assms(8) unfolding lessThan_Suc by auto
  with k notin op have ids: "rfq_ids_ok s'"
    unfolding rfq_ids_ok_def open_request_def assms(3-7) by auto
  show "rfq_sound s'"
  proof (rule sound_offers [OF ok assms(3,5) ids, of "of_rfqId x"])
    fix r assume r: "r \<in> set (rfqs s)" "rq_id r = of_rfqId x"
    note w = open_waits [OF ok op r]
    from w assms(4,5,9) show "request_ok s' r"
      by (auto simp: request_ok_def waiting_ok_def openStatuses_def)
  qed (use assms(4) in auto)
  show "open_request (of_rfqId x) s'" using op assms(3) by (simp add: open_request_def)
qed

lemma sound_renew_offer:
  assumes ok: "rfq_sound s" and op: "open_request i s"
    and "rfqs s' = rfqs s" "offers s' = update_where P f (offers s)" "orders s' = orders s" "id_supply s' = id_supply s"
    "next_id s' = next_id s" "\<And>x. P x \<Longrightarrow> of_rfqId x = i" "\<And>x. of_id (f x) = of_id x" "\<And>x. of_rfqId (f x) = of_rfqId x"
    "\<And>x. of_status (f x) = OF_PENDING"
  shows "rfq_sound s' \<and> open_request i s'"
proof
  note k = ok [unfolded rfq_sound_def rfq_ids_ok_def]
  have ids: "rfq_ids_ok s'"
    using k assms(9,10) unfolding rfq_ids_ok_def assms(3-7) by (simp add: map_update_where image_update_where)
  show "rfq_sound s'"
  proof (rule sound_offers [OF ok assms(3,5) ids, of i])
    fix r assume r: "r \<in> set (rfqs s)" "rq_id r = i"
    note w = open_waits [OF ok op r]
    from w assms(4,5,11) show "request_ok s' r"
      by (auto simp: request_ok_def waiting_ok_def openStatuses_def assms(10) set_update_where)
  qed (use assms(4,8,10) in \<open>auto simp: set_update_where\<close>)
  show "open_request i s'" using op assms(3) by (simp add: open_request_def)
qed

text \<open>Pending offers are rejected; a request is closed.\<close>

lemma sound_reject:
  assumes ok: "rfq_sound s" and "rfqs s' = rfqs s"
    and o': "offers s' = update_where P (\<lambda>x. x\<lparr>of_status := OF_REJECTED\<rparr>) (offers s)" and "orders s' = orders s"
    "id_supply s' = id_supply s" "next_id s' = next_id s" and P: "\<And>x. x \<in> set (offers s) \<Longrightarrow> P x \<Longrightarrow> of_status x = OF_PENDING"
  shows "rfq_sound s'"
proof -
  have ids: "rfq_ids_ok s'"
    using ok unfolding rfq_sound_def rfq_ids_ok_def assms(2-6) by (simp add: map_update_where image_update_where)
  have stays: "x \<in> set (offers s')" if "x \<in> set (offers s)" "of_status x = OF_ACCEPTED" for x
    using that P [of x] by (force simp: o' set_update_where)
  have old: "of_status y = OF_REJECTED \<or> y \<in> set (offers s)" if "y \<in> set (offers s')" for y
    using that by (auto simp: o' set_update_where)
  have "request_ok s' r" if r: "r \<in> set (rfqs s)" for r
  proof -
    have "awarded_ok s' r i" if "awarded_ok s r i" for i
    proof -
      from that obtain x order where x: "x \<in> set (offers s)" "of_id x = i" "of_rfqId x = rq_id r" "of_status x = OF_ACCEPTED"
        "\<And>y. y \<in> set (offers s) \<Longrightarrow> of_rfqId y = rq_id r \<Longrightarrow> y \<noteq> x \<Longrightarrow> of_status y \<notin> {OF_PENDING, OF_ACCEPTED}"
        and order: "filter (\<lambda>o'. o_rfqId o' = Some (rq_id r)) (orders s) = [order]" "o_offerId order = Some i"
          "o_totalCents order = of_totalCents x" "o_shopId order = of_shopId x" "o_customerId order = Some (rq_buyerId r)"
        unfolding awarded_ok_def by blast
      have "of_status y \<notin> {OF_PENDING, OF_ACCEPTED}" if "y \<in> set (offers s')" "of_rfqId y = rq_id r" "y \<noteq> x" for y
        using old [OF that(1)] x(5) [of y] that by auto
      with x(2-4) stays [OF x(1,4)] order show ?thesis
        unfolding awarded_ok_def assms(4) by (intro exI [of _ x] exI [of _ order]) simp
    qed
    moreover have "waiting_ok s' r" if "waiting_ok s r"
      using that old unfolding waiting_ok_def assms(4) by fastforce
    ultimately show ?thesis using ok r by (auto simp: rfq_sound_def request_ok_def split: option.splits)
  qed
  with ids assms(2) show ?thesis by (simp add: rfq_sound_def)
qed

lemma sound_close:
  assumes ok: "rfq_sound s" and "rfqs s' = update_where (\<lambda>r. rq_id r = i) (\<lambda>r. r\<lparr>rq_status := RQ_CLOSED\<rparr>) (rfqs s)"
    "offers s' = offers s" "orders s' = orders s" "id_supply s' = id_supply s" "next_id s' = next_id s"
  shows "rfq_sound s'"
proof -
  have ids: "rfq_ids_ok s'"
    using ok unfolding rfq_sound_def rfq_ids_ok_def assms(2-6) by (simp add: map_update_where image_update_where)
  have "request_ok s (r\<lparr>rq_status := RQ_CLOSED\<rparr>)" if "request_ok s r" for r
    using that by (auto simp: request_ok_def waiting_ok_def awarded_ok_def split: option.splits)
  with ok have "\<forall>r \<in> set (rfqs s'). request_ok s r"
    by (auto simp: rfq_sound_def assms(2) ball_update_where)
  with ids show ?thesis by (simp add: rfq_sound_def request_ok_cong [OF assms(3,4)])
qed

text \<open>An award.\<close>

lemma sound_award:
  assumes ok: "rfq_sound s" and r: "r \<in> set (rfqs s)" and st: "rq_status r \<in> set openStatuses"
    and x: "x \<in> set (offers s)" "of_rfqId x = rq_id r" "of_status x = OF_PENDING"
    and rfqs: "rfqs s' = update_where (\<lambda>y. rq_id y = rq_id r)
      (\<lambda>y. y\<lparr>rq_status := RQ_AWARDED, rq_awardedOfferId := Some (of_id x)\<rparr>) (rfqs s)"
    and offers: "offers s' = update_where (\<lambda>y. of_rfqId y = rq_id r \<and> of_id y \<noteq> of_id x \<and> of_status y = OF_PENDING)
      (\<lambda>y. y\<lparr>of_status := OF_REJECTED\<rparr>) (update_where (\<lambda>y. of_id y = of_id x) (\<lambda>y. y\<lparr>of_status := OF_ACCEPTED\<rparr>) (offers s))"
    and orders: "orders s' = orders s @ [order]" and order: "o_rfqId order = Some (rq_id r)" "o_offerId order = Some (of_id x)"
      "o_totalCents order = of_totalCents x" "o_shopId order = of_shopId x" "o_customerId order = Some (rq_buyerId r)"
    and ids0: "id_supply s' = id_supply s" "next_id s \<le> next_id s'"
  shows "rfq_sound s'"
proof -
  note k = ok [unfolded rfq_sound_def rfq_ids_ok_def]
  have same_r: "y = r" if "y \<in> set (rfqs s)" "rq_id y = rq_id r" for y
    using k that r by (blast intro: distinct_key_eq [of rq_id])
  have same_x: "y = x" if "y \<in> set (offers s)" "of_id y = of_id x" for y
    using k that x(1) by (blast intro: distinct_key_eq [of of_id])
  have "open_request (rq_id r) s" using r st same_r by (auto simp: open_request_def)
  note w = open_waits [OF ok this r refl]
  let ?x = "x\<lparr>of_status := OF_ACCEPTED\<rparr>"
  have mem: "y \<in> set (offers s') \<longleftrightarrow> (y = ?x \<or> (\<exists>z \<in> set (offers s). z \<noteq> x \<and>
      y = (if of_rfqId z = rq_id r \<and> of_status z = OF_PENDING then z\<lparr>of_status := OF_REJECTED\<rparr> else z)))" for y
    using x same_x unfolding offers set_update_where by (auto simp: image_iff)
  have sub: "{..<next_id s} \<subseteq> {..<next_id s'}" using ids0(2) by auto
  have "rq_id ` set (rfqs s) \<union> of_id ` set (offers s) \<subseteq> id_supply s ` {..<next_id s'}"
    by (rule order_trans [OF _ image_mono [OF sub]]) (use k in simp)
  then have ids: "rfq_ids_ok s'"
    using k r order(1) unfolding rfq_ids_ok_def rfqs offers orders ids0(1)
    by (simp add: map_update_where image_update_where)
  have "request_ok s' (if rq_id y = rq_id r then y\<lparr>rq_status := RQ_AWARDED, rq_awardedOfferId := Some (of_id x)\<rparr> else y)"
    if y: "y \<in> set (rfqs s)" for y
  proof (cases "rq_id y = rq_id r")
    case True
    have "filter (\<lambda>o'. o_rfqId o' = Some (rq_id r)) (orders s') = [order]"
      using w(2) order(1) by (simp add: waiting_ok_def orders)
    moreover have "z \<in> set (offers s') \<Longrightarrow> of_rfqId z = rq_id r \<Longrightarrow> z \<noteq> ?x \<Longrightarrow> of_status z \<notin> {OF_PENDING, OF_ACCEPTED}" for z
      using w(2) by (auto simp: mem waiting_ok_def split: if_splits dest: arg_cong [of _ _ of_status])
    ultimately have "awarded_ok s' (r\<lparr>rq_status := RQ_AWARDED, rq_awardedOfferId := Some (of_id x)\<rparr>) (of_id x)"
      unfolding awarded_ok_def using mem [of ?x] x order by (intro exI [of _ ?x] exI [of _ order]) auto
    with True same_r [OF y True] show ?thesis by (simp add: request_ok_def)
  next
    case False
    have "z \<in> set (offers s') \<longleftrightarrow> z \<in> set (offers s)" if "of_rfqId z = rq_id y" for z
      using that False x(2) by (auto simp: mem split: if_splits) metis
    then have "request_ok s' y = request_ok s y"
      by (intro request_ok_own) (use False order(1) in \<open>auto simp: orders\<close>)
    with False k y show ?thesis by simp
  qed
  with ids show ?thesis by (simp add: rfq_sound_def rfqs ball_update_where)
qed

section \<open>The operations keep the invariant\<close>

abbreviation sound_open :: "string \<Rightarrow> 'z rfq_db_scheme \<Rightarrow> bool" where
  "sound_open i \<equiv> (\<lambda>s. rfq_sound s \<and> open_request i s)"

text \<open>Writes to other tables.\<close>

lemma sound_other:
  "rfq_sound s \<Longrightarrow> rfq_sound (matches_update f s)" "rfq_sound s \<Longrightarrow> rfq_sound (messages_update g s)"
  "rfq_sound s \<Longrightarrow> rfq_sound (audit_log_update h s)" "rfq_sound s \<Longrightarrow> rfq_sound (emitted_update k s)"
  "rfq_sound s \<Longrightarrow> rfq_sound (outbox_update l s)" "rfq_sound s \<Longrightarrow> rfq_sound (rfq_seq_update m s)"
  by (auto elim!: rfq_sound_cong)

lemma open_other:
  "open_request i (matches_update f s) = open_request i s" "open_request i (messages_update g s) = open_request i s"
  "open_request i (audit_log_update h s) = open_request i s" "open_request i (emitted_update k s) = open_request i s"
  "open_request i (outbox_update l s) = open_request i s" "open_request i (rfq_seq_update m s) = open_request i s"
  "open_request i (s\<lparr>next_id := n\<rparr>) = open_request i s"
  by (simp_all add: open_request_def)

lemma sound_newId: "keeps rfq_sound newIdA"
  by (auto simp: keeps_def newIdA_def elim!: rfq_sound_cong)

lemma sound_enqueue: "keeps rfq_sound (enqueueA e p)"
  unfolding enqueueA_def by (intro keeps_bind sound_newId keeps_createA sound_other)

lemma sound_updateA_open:
  "st \<in> set openStatuses \<Longrightarrow> keeps (sound_open i) (updateA rfqs rfqs_update (\<lambda>r. rq_id r = i) (\<lambda>r. r\<lparr>rq_status := st\<rparr>))"
  by (intro keeps_updateA) (rule sound_open_status, auto)

lemma sound_upsertMatch: "keeps (sound_open i) (upsertMatch new f)"
  unfolding upsertMatch_def Let_def
  by (intro keeps_steps keeps_createA keeps_updateRowA) (auto simp: open_other intro: sound_other)

lemma sound_upsertOffer: "keeps (sound_open i) (upsertOffer user i shop ls)"
proof (rule keepsI)
  fix s r s' assume ok: "sound_open i s" and run: "upsertOffer user i shop ls s = (r, s')"
  show "sound_open i s'"
  proof (cases "find_row (offer_key i shop) (offers s)")
    case None
    let ?x = "\<lparr>of_id = id_supply s (next_id s), of_rfqId = i, of_shopId = shop, of_vendorId = sub user,
      of_status = OF_PENDING, of_totalCents = offer_total ls, of_currency = ''USD'', of_items = ls\<rparr>"
    have "s' = s \<or> s' = offers_update (\<lambda>t. t @ [?x]) (s\<lparr>next_id := Suc (next_id s)\<rparr>)"
      using run None by (auto simp: upsertOffer_def act_defs newIdA_def createA_def Let_def split: if_splits)
    then show ?thesis
    proof
      assume s': "s' = offers_update (\<lambda>t. t @ [?x]) (s\<lparr>next_id := Suc (next_id s)\<rparr>)"
      from ok sound_new_offer [of s ?x s'] show ?thesis by (simp add: s')
    qed (use ok in simp)
  next
    case (Some x)
    let ?f = "\<lambda>x. x\<lparr>of_totalCents := offer_total ls, of_status := OF_PENDING, of_items := ls\<rparr>"
    have "s' = s \<or> s' = offers_update (update_where (offer_key i shop) ?f) s"
      using run Some by (auto simp: upsertOffer_def act_defs updateRowA_def split: if_splits)
    then show ?thesis
    proof
      assume s': "s' = offers_update (update_where (offer_key i shop) ?f) s"
      show ?thesis by (rule sound_renew_offer [of s i s' "offer_key i shop" ?f]) (use ok in \<open>auto simp: s' offer_key_def\<close>)
    qed (use ok in simp)
  qed
qed

lemma createOffer_open: "keeps (sound_open i) (createOffer user i ls)"
  unfolding createOffer_def Let_def
  by (intro keeps_steps sound_upsertOffer sound_updateA_open sound_upsertMatch keeps_auditA)
    (auto simp: openStatuses_def open_other intro: sound_other)

text \<open>An offer for a request that is not open changes nothing.\<close>

lemma createOffer_sound: "keeps rfq_sound (createOffer user i ls)"
proof (rule keepsI)
  fix s r s' assume ok: "rfq_sound s" and run: "createOffer user i ls s = (r, s')"
  show "rfq_sound s'"
  proof (cases "open_request i s")
    case True
    with ok keepsD [OF createOffer_open _ run] show ?thesis by simp
  next
    case False
    have "\<not> rq_status rfq \<in> set openStatuses" if "find_row (\<lambda>r. rq_id r = i) (rfqs s) = Some rfq" for rfq
    proof
      assume st: "rq_status rfq \<in> set openStatuses"
      from find_row_Some [OF that] have "rq_id rfq = i" "rfq \<in> set (rfqs s)" by auto
      with st ok have "open_request i s"
        by (auto simp: open_request_def rfq_sound_def rfq_ids_ok_def dest: distinct_key_eq)
      with False show False ..
    qed
    then have "s' = s"
      using run by (auto simp: createOffer_def act_defs split: if_splits option.splits)
    with ok show ?thesis by simp
  qed
qed

text \<open>A new request.\<close>

lemma new_item_ok: "new_rfq_item it s = (Inr x, s') \<Longrightarrow> s' = s\<lparr>next_id := Suc (next_id s)\<rparr>"
  by (auto simp: ok_simps new_rfq_item_def)

lemma new_items_run: "mapA its new_rfq_item s = (Inr items, s') \<Longrightarrow> s' = s\<lparr>next_id := next_id s + length its\<rparr>"
proof (induction its arbitrary: s items)
  case (Cons it its)
  then obtain its' where "mapA its new_rfq_item (s\<lparr>next_id := Suc (next_id s)\<rparr>) = (Inr its', s')"
    by (auto simp: ok_simps dest!: new_item_ok)
  from Cons.IH [OF this] show ?case by simp
qed (simp add: ok_simps)

lemma create_row_run:
  assumes "create_row user dto number s = (Inr rfq, s')"
  shows "rfqs s' = rfqs s @ [rfq] \<and> offers s' = offers s \<and> orders s' = orders s \<and> id_supply s' = id_supply s \<and>
    next_id s < next_id s' \<and> rq_id rfq = id_supply s (next_id s) \<and> rq_awardedOfferId rfq = None \<and> rq_status rfq = RQ_OPEN"
  using assms by (auto simp: create_row_def ok_simps Let_def dest!: new_items_run)

lemma create_row_sound:
  assumes ok: "rfq_sound s" and run: "create_row user dto number s = (Inr rfq, s')"
  shows "sound_open (rq_id rfq) s'"
proof
  note c = create_row_run [OF run]
  show "rfq_sound s'"
    by (rule sound_new_request [OF ok, of s' rfq "next_id s"]) (use c in auto)
  have "rq_id rfq \<notin> rq_id ` set (rfqs s)"
    using ok c by (auto simp: rfq_sound_def rfq_ids_ok_def dest: injD)
  then have "rq_id y \<noteq> rq_id rfq" if "y \<in> set (rfqs s)" for y
    using that by (metis imageI)
  then show "open_request (rq_id rfq) s'"
    using c by (auto simp: open_request_def openStatuses_def)
qed

lemma number_sound: "keeps rfq_sound (generateRfqNumber b year)"
  unfolding generateRfqNumber_def by (intro keeps_steps sound_newId keeps_modify sound_other)

lemma create_attempts_sound:
  "rfq_sound s \<Longrightarrow> create_attempts year n e user dto s = (r, s') \<Longrightarrow>
   rfq_sound s' \<and> (\<forall>rfq. r = Inr rfq \<longrightarrow> open_request (rq_id rfq) s')"
proof (induction n arbitrary: e s r)
  case 0
  then show ?case by (auto simp: throwA_def)
next
  case (Suc n)
  obtain q s1 where g: "generateRfqNumber True year s = (q, s1)" by fastforce
  have s1: "rfq_sound s1" by (rule keepsD [OF number_sound Suc.prems(1) g])
  show ?case
  proof (cases q)
    case (Inl e1)
    with Suc.prems(2) g s1 show ?thesis by (auto simp: bindA_def)
  next
    case (Inr number)
    obtain q2 s2 where t: "txA (create_row user dto number) s1 = (q2, s2)" by fastforce
    show ?thesis
    proof (cases q2)
      case (Inl e2)
      with t have "s2 = s1" by (auto dest: txA_rollback)
      with Suc.prems(2) g Inr t Inl s1 Suc.IH [OF s1] show ?thesis
        by (auto simp: bindA_def catchA_def throwA_def split: if_splits)
    next
      case (Inr rfq)
      with t have "create_row user dto number s1 = (Inr rfq, s2)" by (simp add: txA_ok)
      from create_row_sound [OF s1 this] Suc.prems(2) g \<open>q = Inr number\<close> t Inr show ?thesis
        by (auto simp: bindA_def catchA_def)
    qed
  qed
qed

lemma matchVendors_open: "keeps (sound_open i) (matchVendors j)"
  unfolding matchVendors_def match_shop_def Let_def by (intro keeps_steps sound_upsertMatch)

lemma create_sound: "keeps rfq_sound (create_rfq_request year user dto)"
proof (rule keepsI)
  fix s r s' assume ok: "rfq_sound s" and run: "create_rfq_request year user dto s = (r, s')"
  let ?rest = "\<lambda>created. bindA (matchVendors (rq_id created)) (\<lambda>found.
     thenA (updateA rfqs rfqs_update (\<lambda>r. rq_id r = rq_id created)
       (\<lambda>r. r\<lparr>rq_status := (if found \<noteq> [] then RQ_MATCHED else RQ_OPEN)\<rparr>))
     (thenA (auditA (Some (sub user)) ''RFQ_CREATE'' ''Rfq'' (Some (rq_id created)))
     (thenA (emitA ''rfq.created'' (rq_id created))
       (getRfq (rq_id created) user))))"
  obtain q s1 where c: "create_attempts year 3 (BadRequest ''Failed to create RFQ'') user dto s = (q, s1)" by fastforce
  note s1 = create_attempts_sound [OF ok c]
  have "s' = s \<or> (\<exists>e. q = Inl e \<and> s' = s1) \<or> (\<exists>created. q = Inr created \<and> ?rest created s1 = (r, s'))"
    using run c unfolding create_rfq_request_def
    by (cases q) (auto simp: thenA_def guardA_def bindA_run [where m = "returnA ()", OF returnA_def [THEN fun_cong]]
        bindA_throws [where m = "throwA e" for e, OF throwA_def [THEN fun_cong]]
        bindA_throws [where m = "create_attempts year 3 (BadRequest ''Failed to create RFQ'') user dto"]
        bindA_run [where m = "create_attempts year 3 (BadRequest ''Failed to create RFQ'') user dto"] split: if_splits)
  then show "rfq_sound s'"
  proof (elim disjE exE conjE)
    fix created assume q: "q = Inr created" and rest: "?rest created s1 = (r, s')"
    have "keeps (sound_open (rq_id created)) (?rest created)"
      unfolding getRfq_def assertCanViewRfq_def
      by (intro keeps_steps matchVendors_open sound_updateA_open keeps_auditA keeps_emitA)
        (auto simp: openStatuses_def open_other intro: sound_other)
    from keepsD [OF this _ rest] s1 q show "rfq_sound s'" by simp
  qed (use ok s1 in auto)
qed

text \<open>An award: what it checked and what it wrote.\<close>

lemma award_tx_run:
  assumes "award_tx i oid user s = (Inr order, s')"
  obtains r x where "r \<in> set (rfqs s)" "rq_id r = i" "may_award user r" "rq_status r \<in> set openStatuses"
    "x \<in> set (offers s)" "of_id x = oid" "of_rfqId x = i" "of_status x = OF_PENDING"
    "rfqs s' = update_where (\<lambda>y. rq_id y = i) (\<lambda>y. y\<lparr>rq_status := RQ_AWARDED, rq_awardedOfferId := Some oid\<rparr>) (rfqs s)"
    "offers s' = update_where (\<lambda>y. of_rfqId y = i \<and> of_id y \<noteq> oid \<and> of_status y = OF_PENDING)
      (\<lambda>y. y\<lparr>of_status := OF_REJECTED\<rparr>) (update_where (\<lambda>y. of_id y = oid) (\<lambda>y. y\<lparr>of_status := OF_ACCEPTED\<rparr>) (offers s))"
    "orders s' = orders s @ [order]" "\<exists>a b. order = award_order a b r x" "id_supply s' = id_supply s" "next_id s \<le> next_id s'"
proof -
  from assms obtain r x a b where rx: "find_row (\<lambda>r. rq_id r = i) (rfqs s) = Some r" "may_award user r"
    "rq_status r \<in> set openStatuses" "find_row (\<lambda>x. of_rfqId x = i \<and> of_id x = oid) (offers s) = Some x"
    "of_status x = OF_PENDING"
    "rfqs s' = update_where (\<lambda>y. rq_id y = i) (\<lambda>y. y\<lparr>rq_status := RQ_AWARDED, rq_awardedOfferId := Some oid\<rparr>) (rfqs s)"
    "offers s' = update_where (\<lambda>y. of_rfqId y = i \<and> of_id y \<noteq> oid \<and> of_status y = OF_PENDING)
      (\<lambda>y. y\<lparr>of_status := OF_REJECTED\<rparr>) (update_where (\<lambda>y. of_id y = oid) (\<lambda>y. y\<lparr>of_status := OF_ACCEPTED\<rparr>) (offers s))"
    "orders s' = orders s @ [order]" "order = award_order a b r x" "id_supply s' = id_supply s" "next_id s \<le> next_id s'"
    unfolding award_tx_def settle_offers_def Let_def by (clarsimp simp: ok_simps)
  from rx(1,4) have "r \<in> set (rfqs s)" "rq_id r = i" "x \<in> set (offers s)" "of_id x = oid" "of_rfqId x = i"
    by (auto dest: find_row_Some)
  with rx that show thesis by blast
qed

lemma award_sound: "keeps rfq_sound (award i oid user)"
proof -
  have "keeps_ok rfq_sound (award_tx i oid user)"
  proof (rule keeps_okI)
    fix s order s' assume ok: "rfq_sound s" and run: "award_tx i oid user s = (Inr order, s')"
    from run show "rfq_sound s'"
    proof (rule award_tx_run)
      fix r x assume rx: "r \<in> set (rfqs s)" "rq_id r = i" "rq_status r \<in> set openStatuses"
        "x \<in> set (offers s)" "of_id x = oid" "of_rfqId x = i" "of_status x = OF_PENDING"
        and w: "rfqs s' = update_where (\<lambda>y. rq_id y = i) (\<lambda>y. y\<lparr>rq_status := RQ_AWARDED, rq_awardedOfferId := Some oid\<rparr>) (rfqs s)"
        "offers s' = update_where (\<lambda>y. of_rfqId y = i \<and> of_id y \<noteq> oid \<and> of_status y = OF_PENDING)
          (\<lambda>y. y\<lparr>of_status := OF_REJECTED\<rparr>) (update_where (\<lambda>y. of_id y = oid) (\<lambda>y. y\<lparr>of_status := OF_ACCEPTED\<rparr>) (offers s))"
        "orders s' = orders s @ [order]" "\<exists>a b. order = award_order a b r x" "id_supply s' = id_supply s" "next_id s \<le> next_id s'"
      show "rfq_sound s'"
        by (rule sound_award [OF ok rx(1,3,4), of s' order]) (use rx w in \<open>auto simp: award_order_def\<close>)
    qed
  qed
  moreover have "award_tx i oid user s = (r, s') \<Longrightarrow> (\<exists>x. r = Inr x) \<or> s' = s" for s s' :: "'z rfq_db_scheme" and r
    by (cases r) (auto simp: award_tx_def dest: txA_rollback)
  ultimately have "keeps rfq_sound (award_tx i oid user)"
    by (intro keepsI) (blast dest: keeps_okD)
  then show ?thesis
    unfolding award_def by (intro keeps_steps keeps_emitA sound_other)
qed

lemma sound_close_write:
  "rfq_sound s \<Longrightarrow> rfq_sound (rfqs_update (update_where (\<lambda>r. rq_id r = i) (\<lambda>r. r\<lparr>rq_status := RQ_CLOSED\<rparr>)) s)"
  by (rule sound_close) simp_all

lemma sound_reject_write:
  "rfq_sound s \<Longrightarrow> rfq_sound (offers_update (update_where (\<lambda>x. of_rfqId x = i \<and> of_status x = OF_PENDING)
     (\<lambda>x. x\<lparr>of_status := OF_REJECTED\<rparr>)) s)"
  by (rule sound_reject [where P = "\<lambda>x. of_rfqId x = i \<and> of_status x = OF_PENDING"]) simp_all

lemma close_sound: "keeps rfq_sound (CloseRfqHandler user i reason)"
  unfolding CloseRfqHandler_def close_tx_def
  by (intro keeps_steps keeps_updateRowA keeps_updateManyA sound_enqueue sound_close_write sound_reject_write)

lemma bind_update_row:
  "bindA (updateRowA sel upd P f) g s =
    (case find_row P (sel s) of None \<Rightarrow> (Inl (PrismaError ''P2025''), s) | Some r \<Rightarrow> g (f r) (upd (update_where P f) s))"
  by (simp add: bindA_def updateRowA_def split: option.splits)

lemma reject_sound: "keeps rfq_sound (RejectRfqResponseHandler user i oid reason)"
proof (rule keepsI)
  fix s r s' assume ok: "rfq_sound s" and run: "RejectRfqResponseHandler user i oid reason s = (r, s')"
  let ?f = "\<lambda>x. x\<lparr>of_status := OF_REJECTED\<rparr>"
  let ?rest = "\<lambda>offer. thenA (enqueueA ''RfqResponseRejectedEvent''
       ([(''responseId'', JString (of_id offer)), (''rfqId'', JString i),
         (''shopId'', JString (of_shopId offer)), (''buyerId'', JString (sub user))] @ json_field ''reason'' reason))
       (returnA (?f offer))"
  have "s' = s \<or> (\<exists>offer. find_row (\<lambda>x. of_id x = oid \<and> of_rfqId x = i) (offers s) = Some offer \<and> of_status offer = OF_PENDING \<and>
      ?rest offer (offers_update (update_where (\<lambda>x. of_id x = of_id offer) ?f) s) = (r, s'))"
  proof (cases "find_row (\<lambda>x. of_id x = oid \<and> of_rfqId x = i) (offers s)")
    case (Some offer)
    then have "find_row (\<lambda>x. of_id x = of_id offer) (offers s) = Some offer"
      using ok find_row_Some [OF Some] by (intro find_row_key) (auto simp: rfq_sound_def rfq_ids_ok_def)
    note known = Some this
    show ?thesis
    proof (cases "find_row (\<lambda>r. rq_id r = of_rfqId offer) (rfqs s)")
      case None
      with known run show ?thesis by (simp add: RejectRfqResponseHandler_def act_laws)
    next
      case (Some rfq)
      with known run show ?thesis
        by (simp add: RejectRfqResponseHandler_def act_laws bind_update_row split: if_split_asm)
    qed
  qed (use run in \<open>simp add: RejectRfqResponseHandler_def act_laws\<close>)
  then show "rfq_sound s'"
  proof (elim disjE exE conjE)
    fix offer assume f: "find_row (\<lambda>x. of_id x = oid \<and> of_rfqId x = i) (offers s) = Some offer" and p: "of_status offer = OF_PENDING"
      and rest: "?rest offer (offers_update (update_where (\<lambda>x. of_id x = of_id offer) ?f) s) = (r, s')"
    have only: "x = offer" if "x \<in> set (offers s)" "of_id x = of_id offer" for x
      using ok that find_row_Some [OF f] by (auto simp: rfq_sound_def rfq_ids_ok_def dest: distinct_key_eq)
    have "rfq_sound (offers_update (update_where (\<lambda>x. of_id x = of_id offer) ?f) s)"
      by (rule sound_reject [OF ok, where P = "\<lambda>x. of_id x = of_id offer"]) (use only p in auto)
    moreover have "keeps rfq_sound (?rest offer)" by (intro keeps_steps sound_enqueue)
    ultimately show "rfq_sound s'" using rest by (auto dest: keepsD)
  qed (use ok in auto)
qed

lemma message_sound: "keeps rfq_sound (postMessage i user body)"
  unfolding postMessage_def assertCanViewRfq_def Let_def by (intro keeps_steps keeps_createA sound_other)

section \<open>Histories\<close>

lemma filter_one:
  assumes "distinct xs" "x \<in> set xs" "P x" "\<And>y. y \<in> set xs \<Longrightarrow> P y \<Longrightarrow> y = x"
  shows "filter P xs = [x]"
proof -
  have "filter P xs = filter ((=) x) xs"
    by (rule filter_cong) (use assms(3,4) in auto)
  also have "\<dots> = [x]"
    using assms(1,2) by (induction xs) (auto simp: filter_empty_conv)
  finally show ?thesis .
qed

datatype rfq_op =
    Create_rfq nat jwt_payload create_rfq
  | Respond jwt_payload string "offer_item list"
  | Accept jwt_payload string string
  | Close jwt_payload string "string option"
  | Reject jwt_payload string string "string option"
  | Post_message jwt_payload string string

fun rfq_exec :: "rfq_op \<Rightarrow> (rfq_db, unit) act" where
  "rfq_exec (Create_rfq year user dto) = thenA (CreateRfqHandler year user dto) (returnA ())"
| "rfq_exec (Respond user i ls) = thenA (RespondToRfqHandler user i ls) (returnA ())"
| "rfq_exec (Accept user i oid) = thenA (AcceptRfqResponseHandler user i oid) (returnA ())"
| "rfq_exec (Close user i reason) = thenA (CloseRfqHandler user i reason) (returnA ())"
| "rfq_exec (Reject user i oid reason) = thenA (RejectRfqResponseHandler user i oid reason) (returnA ())"
| "rfq_exec (Post_message user i body) = thenA (postMessage i user body) (returnA ())"

interpretation rfq_history: invariant_component rfq_exec rfq_sound
proof
  fix x show "keeps rfq_sound (rfq_exec x)"
    unfolding CreateRfqHandler_def RespondToRfqHandler_def AcceptRfqResponseHandler_def
    by (cases x) (auto simp: CreateRfqHandler_def RespondToRfqHandler_def AcceptRfqResponseHandler_def
        intro!: keeps_steps sound_enqueue create_sound createOffer_sound award_sound close_sound reject_sound message_sound)
qed

text \<open>
  C21.  Whatever buyers and merchants do with requests - create, offer, accept, reject, close, write, in any
  order, returning or throwing - an awarded request has exactly one accepted offer, no offer still
  pending, and exactly one order, for that offer's shop, the request's buyer and the offer's total; a
  request still open has no accepted offer and no order.
\<close>

theorem rfq_awarded_once:
  assumes "rfq_sound s" and r: "r \<in> set (rfqs (run_all rfq_exec ops s))"
  shows "(rq_status r = RQ_AWARDED \<longrightarrow>
      (\<exists>x order. filter (\<lambda>y. of_rfqId y = rq_id r \<and> of_status y = OF_ACCEPTED) (offers (run_all rfq_exec ops s)) = [x] \<and>
        rq_awardedOfferId r = Some (of_id x) \<and>
        filter (\<lambda>y. of_rfqId y = rq_id r \<and> of_status y = OF_PENDING) (offers (run_all rfq_exec ops s)) = [] \<and>
        filter (\<lambda>o'. o_rfqId o' = Some (rq_id r)) (orders (run_all rfq_exec ops s)) = [order] \<and>
        o_offerId order = Some (of_id x) \<and> o_totalCents order = of_totalCents x \<and> o_shopId order = of_shopId x \<and>
        o_customerId order = Some (rq_buyerId r))) \<and>
    (rq_status r \<in> set openStatuses \<longrightarrow>
      filter (\<lambda>y. of_rfqId y = rq_id r \<and> of_status y = OF_ACCEPTED) (offers (run_all rfq_exec ops s)) = [] \<and>
      filter (\<lambda>o'. o_rfqId o' = Some (rq_id r)) (orders (run_all rfq_exec ops s)) = [])"
proof -
  let ?s = "run_all rfq_exec ops s"
  have ok: "rfq_sound ?s" by (rule rfq_history.history_keeps [OF assms(1)])
  then have req: "request_ok ?s r" and d: "distinct (map of_id (offers ?s))"
    using r by (auto simp: rfq_sound_def rfq_ids_ok_def)
  show ?thesis
  proof (intro conjI impI)
    assume "rq_status r = RQ_AWARDED"
    with req obtain i where i: "rq_awardedOfferId r = Some i" "awarded_ok ?s r i"
      by (auto simp: request_ok_def split: option.splits)
    then obtain x order where x: "x \<in> set (offers ?s)" "of_id x = i" "of_rfqId x = rq_id r" "of_status x = OF_ACCEPTED"
      and only: "\<And>y. y \<in> set (offers ?s) \<Longrightarrow> of_rfqId y = rq_id r \<Longrightarrow> y \<noteq> x \<Longrightarrow> of_status y \<notin> {OF_PENDING, OF_ACCEPTED}"
      and order: "filter (\<lambda>o'. o_rfqId o' = Some (rq_id r)) (orders ?s) = [order]" "o_offerId order = Some i"
        "o_totalCents order = of_totalCents x" "o_shopId order = of_shopId x" "o_customerId order = Some (rq_buyerId r)"
      unfolding awarded_ok_def by blast
    have "filter (\<lambda>y. of_rfqId y = rq_id r \<and> of_status y = OF_ACCEPTED) (offers ?s) = [x]"
      by (rule filter_one) (use x only d in \<open>auto simp: distinct_map\<close>)
    moreover have "filter (\<lambda>y. of_rfqId y = rq_id r \<and> of_status y = OF_PENDING) (offers ?s) = []"
      using x only by (fastforce simp: filter_empty_conv)
    ultimately show "\<exists>x order. filter (\<lambda>y. of_rfqId y = rq_id r \<and> of_status y = OF_ACCEPTED) (offers ?s) = [x] \<and>
        rq_awardedOfferId r = Some (of_id x) \<and>
        filter (\<lambda>y. of_rfqId y = rq_id r \<and> of_status y = OF_PENDING) (offers ?s) = [] \<and>
        filter (\<lambda>o'. o_rfqId o' = Some (rq_id r)) (orders ?s) = [order] \<and>
        o_offerId order = Some (of_id x) \<and> o_totalCents order = of_totalCents x \<and> o_shopId order = of_shopId x \<and>
        o_customerId order = Some (rq_buyerId r)"
      using i(1) x order by blast
  next
    assume "rq_status r \<in> set openStatuses"
    with req have "waiting_ok ?s r"
      by (auto simp: request_ok_def openStatuses_def split: option.splits)
    then show "filter (\<lambda>y. of_rfqId y = rq_id r \<and> of_status y = OF_ACCEPTED) (offers ?s) = []"
      and "filter (\<lambda>o'. o_rfqId o' = Some (rq_id r)) (orders ?s) = []"
      by (auto simp: waiting_ok_def filter_empty_conv)
  qed
qed

text \<open>An example: one open request with one offer, which the buyer accepts.\<close>

definition demo_rfq :: rfq_row where
  "demo_rfq = \<lparr>rq_id = ''i'', rq_number = ''RFQ-1'', rq_buyerId = ''u1'', rq_title = ''Steel'', rq_status = RQ_QUOTED,
    rq_deadline = None, rq_currency = ''USD'', rq_awardedOfferId = None, rq_items = []\<rparr>"

definition demo_offer :: offer_row where
  "demo_offer = \<lparr>of_id = ''ii'', of_rfqId = ''i'', of_shopId = ''s1'', of_vendorId = ''m1'', of_status = OF_PENDING,
    of_totalCents = 5000, of_currency = ''USD'', of_items = []\<rparr>"

definition demo_quoted :: rfq_db where
  "demo_quoted = demo_db\<lparr>next_id := 2, rfqs := [demo_rfq], offers := [demo_offer]\<rparr>"

lemma demo_quoted_sound: "rfq_sound demo_quoted"
proof -
  have "{..<2::nat} = {0, 1}" by auto
  then show ?thesis
    using inj_runs [of "CHR ''i''"]
    by (simp add: rfq_sound_def rfq_ids_ok_def request_ok_def waiting_ok_def demo_quoted_def demo_rfq_def demo_offer_def
        demo_db_def empty_db_def)
qed

lemma demo_accept: "rfqs (run_all rfq_exec [Accept demo_buyer ''i'' ''ii''] demo_quoted) =
    [demo_rfq\<lparr>rq_status := RQ_AWARDED, rq_awardedOfferId := Some ''ii''\<rparr>]"
  by (simp add: AcceptRfqResponseHandler_def award_def award_tx_def settle_offers_def demo_quoted_def demo_rfq_def demo_offer_def
      demo_db_def empty_db_def act_defs step_defs Let_def may_award_def demo_buyer_def openStatuses_def)

theorem rfq_awarded_once_witness:
  "\<exists>order. filter (\<lambda>o'. o_rfqId o' = Some ''i'') (orders (run_all rfq_exec [Accept demo_buyer ''i'' ''ii''] demo_quoted)) = [order] \<and>
    o_offerId order = Some ''ii'' \<and> o_customerId order = Some ''u1''"
proof -
  let ?r = "demo_rfq\<lparr>rq_status := RQ_AWARDED, rq_awardedOfferId := Some ''ii''\<rparr>"
  have "?r \<in> set (rfqs (run_all rfq_exec [Accept demo_buyer ''i'' ''ii''] demo_quoted))"
    by (simp only: demo_accept) simp
  from rfq_awarded_once [OF demo_quoted_sound this] show ?thesis
    by (auto simp: demo_rfq_def)
qed

end
