(* ===== verification/Outbox.thy ===== *)
theory Outbox
  imports Rfq_Commands
begin

text \<open>
  The outbox dispatcher: \<open>common/outbox/outbox.service.ts\<close> and the events it publishes
  (\<open>common/events\<close>).  The event bus is an argument: \<open>bus ev\<close> is the exception \<open>publish\<close> throws for the
  event, if any; what was published is recorded in the state.
\<close>

section \<open>Events\<close>

text \<open>
  The events, their fields as \<open>rehydrate\<close> passes them: \<open>String\<close> and \<open>Number\<close> of a value are computed, a
  field that is only cast keeps its JSON value (or is missing).
\<close>

datatype bus_event =
    OrderStatusChangedEvent string string string json
  | OrderCreatedEvent string json int "string list" "json option"
  | RfqCreatedEvent string string string "string list" "string list" "json option"
  | RfqResponseCreatedEvent string string string string int
  | RfqResponseAcceptedEvent string string string string int
  | RfqResponseRejectedEvent string string string string "json option"
  | RfqClosedEvent string string "json option"
  | TenantInviteCreatedEvent string string string string string "json option"
  | TenantInviteAcceptedEvent string string string string

record bus_db = rfq_db +
  published :: "bus_event list"

text \<open>\<open>String(x)\<close>: \<open>undefined\<close> and \<open>null\<close> by name, an array with its elements between commas.\<close>

fun join_with :: "string \<Rightarrow> string list \<Rightarrow> string" where
  "join_with sep [] = []"
| "join_with sep [x] = x"
| "join_with sep (x # y # ys) = x @ sep @ join_with sep (y # ys)"

definition json_String :: "json option \<Rightarrow> string" where
  "json_String x = (case x of
      None \<Rightarrow> ''undefined''
    | Some JNull \<Rightarrow> ''null''
    | Some (JString t) \<Rightarrow> t
    | Some (JNumber n) \<Rightarrow> dec n
    | Some (JStrings ts) \<Rightarrow> join_with '','' ts)"

text \<open>\<open>Number(t) || 0\<close> of a text that spells a whole number in decimal; 0 where it is not a number.\<close>

definition digit :: "char \<Rightarrow> bool" where
  "digit c \<longleftrightarrow> (let n = (of_char c :: nat) in 48 \<le> n \<and> n \<le> 57)"

definition undec :: "string \<Rightarrow> int" where
  "undec t = foldl (\<lambda>a c. 10 * a + (int (of_char c) - 48)) 0 t"

definition text_Number :: "string \<Rightarrow> int" where
  "text_Number raw =
    (let t = js_trim raw in
     case t of
       [] \<Rightarrow> 0
     | c # cs \<Rightarrow>
         if c = CHR ''-'' \<and> cs \<noteq> [] \<and> list_all digit cs then - undec cs
         else if c = CHR ''+'' \<and> cs \<noteq> [] \<and> list_all digit cs then undec cs
         else if list_all digit t then undec t else 0)"

text \<open>\<open>Number(x) || 0\<close>.\<close>

definition json_Number :: "json option \<Rightarrow> int" where
  "json_Number x = (case x of
      None \<Rightarrow> 0
    | Some JNull \<Rightarrow> 0
    | Some (JString t) \<Rightarrow> text_Number t
    | Some (JNumber n) \<Rightarrow> n
    | Some (JStrings ts) \<Rightarrow> text_Number (join_with '','' ts))"

text \<open>\<open>Array.isArray(x) ? x : []\<close>, \<open>x ?? null\<close>, \<open>x || ''\<close> before \<open>String\<close>.\<close>

definition json_list :: "json option \<Rightarrow> string list" where
  "json_list x = (case x of Some (JStrings ts) \<Rightarrow> ts | _ \<Rightarrow> [])"

definition json_or_null :: "json option \<Rightarrow> json" where
  "json_or_null x = (case x of None \<Rightarrow> JNull | Some j \<Rightarrow> j)"

definition json_title :: "json option \<Rightarrow> string" where
  "json_title x = (case x of
      None \<Rightarrow> []
    | Some JNull \<Rightarrow> []
    | Some (JNumber n) \<Rightarrow> if n = 0 then [] else dec n
    | Some j \<Rightarrow> json_String (Some j))"

definition rehydrate :: "string \<Rightarrow> payload \<Rightarrow> bus_event option" where
  "rehydrate eventType p =
    (let str = (\<lambda>k. json_String (map_of p k)); num = (\<lambda>k. json_Number (map_of p k)) in
     if eventType = ''OrderStatusChangedEvent'' then
       Some (OrderStatusChangedEvent (str ''orderId'') (str ''oldStatus'') (str ''newStatus'')
         (json_or_null (map_of p ''changedBy'')))
     else if eventType = ''OrderCreatedEvent'' then
       Some (OrderCreatedEvent (str ''orderId'') (json_or_null (map_of p ''customerId'')) (num ''totalCents'')
         (json_list (map_of p ''shopIds'')) (map_of p ''orderNumber''))
     else if eventType = ''RfqCreatedEvent'' then
       Some (RfqCreatedEvent (str ''rfqId'') (str ''buyerId'') (json_title (map_of p ''title''))
         (json_list (map_of p ''categoryIds'')) (json_list (map_of p ''shopIds'')) (map_of p ''number''))
     else if eventType = ''RfqResponseCreatedEvent'' then
       Some (RfqResponseCreatedEvent (str ''responseId'') (str ''rfqId'') (str ''shopId'') (str ''merchantId'')
         (num ''totalCents''))
     else if eventType = ''RfqResponseAcceptedEvent'' then
       Some (RfqResponseAcceptedEvent (str ''responseId'') (str ''rfqId'') (str ''shopId'') (str ''buyerId'')
         (num ''totalCents''))
     else if eventType = ''RfqResponseRejectedEvent'' then
       Some (RfqResponseRejectedEvent (str ''responseId'') (str ''rfqId'') (str ''shopId'') (str ''buyerId'')
         (map_of p ''reason''))
     else if eventType = ''RfqClosedEvent'' then
       Some (RfqClosedEvent (str ''rfqId'') (str ''buyerId'') (map_of p ''reason''))
     else if eventType = ''TenantInviteCreatedEvent'' then
       Some (TenantInviteCreatedEvent (str ''inviteId'') (str ''tenantId'') (str ''email'') (str ''role'') (str ''token'')
         (map_of p ''tenantName''))
     else if eventType = ''TenantInviteAcceptedEvent'' then
       Some (TenantInviteAcceptedEvent (str ''inviteId'') (str ''tenantId'') (str ''userId'') (str ''email''))
     else None)"

section \<open>The dispatcher\<close>

definition publishA :: "(bus_event \<Rightarrow> exn option) \<Rightarrow> bus_event \<Rightarrow> ('z bus_db_scheme, unit) act" where
  "publishA bus ev =
    (case bus ev of
      Some e \<Rightarrow> throwA e
    | None \<Rightarrow> modifyA (published_update (\<lambda>t. t @ [ev])))"

definition dispatch_row :: "(bus_event \<Rightarrow> exn option) \<Rightarrow> outbox_row \<Rightarrow> ('z bus_db_scheme, unit) act" where
  "dispatch_row bus r =
    catchA
     (thenA (updateA outbox outbox_update (\<lambda>x. ob_id x = ob_id r)
        (\<lambda>x. x\<lparr>ob_status := ''PROCESSING'', ob_attempts := ob_attempts x + 1\<rparr>))
     (thenA (case rehydrate (ob_eventType r) (ob_payload r) of
          Some ev \<Rightarrow> publishA bus ev
        | None \<Rightarrow> returnA ())
     (bindA (getsA clock) (\<lambda>now.
      updateA outbox outbox_update (\<lambda>x. ob_id x = ob_id r)
        (\<lambda>x. x\<lparr>ob_status := ''DONE'', ob_processedAt := Some now, ob_lastError := None\<rparr>)))))
     (\<lambda>e.
      updateA outbox outbox_update (\<lambda>x. ob_id x = ob_id r)
        (\<lambda>x. x\<lparr>ob_status := (if 5 \<le> ob_attempts r + 1 then ''FAILED'' else ''PENDING''),
               ob_lastError := Some (take 500 (exn_message e))\<rparr>))"

definition processPending :: "(bus_event \<Rightarrow> exn option) \<Rightarrow> nat \<Rightarrow> ('z bus_db_scheme, nat) act" where
  "processPending bus limit =
    bindA (getsA (\<lambda>s. take limit (filter (\<lambda>r. ob_status r = ''PENDING'') (outbox s)))) (\<lambda>events.
    thenA (forA events (dispatch_row bus)) (returnA (length events)))"

end
