(* ===== verification/Outbox_Claims.thy ===== *)
theory Outbox_Claims
  imports Outbox Samples
begin

text \<open>
  What the dispatcher promises, as one step on the whole table, and that the loop over its rows with its
  two updates per row does exactly that.
\<close>

section \<open>The abstract dispatcher\<close>

text \<open>The event of a row that the bus takes, and the row after its turn.\<close>

definition accepted :: "(bus_event \<Rightarrow> exn option) \<Rightarrow> outbox_row \<Rightarrow> bus_event option" where
  "accepted bus r = (case rehydrate (ob_eventType r) (ob_payload r) of
      None \<Rightarrow> None
    | Some ev \<Rightarrow> (case bus ev of None \<Rightarrow> Some ev | Some e \<Rightarrow> None))"

definition refused :: "(bus_event \<Rightarrow> exn option) \<Rightarrow> outbox_row \<Rightarrow> exn option" where
  "refused bus r = Option.bind (rehydrate (ob_eventType r) (ob_payload r)) bus"

definition after_turn :: "(bus_event \<Rightarrow> exn option) \<Rightarrow> int \<Rightarrow> outbox_row \<Rightarrow> outbox_row" where
  "after_turn bus now r = (case refused bus r of
      None \<Rightarrow> r\<lparr>ob_attempts := ob_attempts r + 1, ob_status := ''DONE'', ob_processedAt := Some now, ob_lastError := None\<rparr>
    | Some e \<Rightarrow> r\<lparr>ob_attempts := ob_attempts r + 1,
        ob_status := (if 5 \<le> ob_attempts r + 1 then ''FAILED'' else ''PENDING''), ob_lastError := Some (take 500 (exn_message e))\<rparr>)"

definition batch :: "nat \<Rightarrow> outbox_row list \<Rightarrow> outbox_row list" where
  "batch limit rows = take limit (filter (\<lambda>r. ob_status r = ''PENDING'') rows)"

definition dispatch :: "(bus_event \<Rightarrow> exn option) \<Rightarrow> nat \<Rightarrow> 'z bus_db_scheme \<Rightarrow> 'z bus_db_scheme" where
  "dispatch bus limit s = s
    \<lparr>outbox := map (\<lambda>r. if r \<in> set (batch limit (outbox s)) then after_turn bus (clock s) r else r) (outbox s),
     published := published s @ List.map_filter (accepted bus) (batch limit (outbox s))\<rparr>"

section \<open>One row\<close>

lemma ob_id_after [simp]: "ob_id (after_turn bus now r) = ob_id r"
  by (simp add: after_turn_def split: option.splits)

text \<open>The table with one row replaced, and what an update by id does.\<close>

definition replace :: "'r \<Rightarrow> 'r \<Rightarrow> 'r list \<Rightarrow> 'r list" where
  "replace r r' rows = map (\<lambda>x. if x = r then r' else x) rows"

lemma replace_twice:
  assumes "distinct (map ob_id rows)" and "r \<in> set rows" and "ob_id r1 = ob_id r"
  shows "replace r1 r2 (replace r r1 rows) = replace r r2 rows"
  using assms unfolding replace_def by (auto dest: distinct_key_eq [of ob_id])

lemma replace_ids: "ob_id r' = ob_id r \<Longrightarrow> map ob_id (replace r r' rows) = map ob_id rows"
  by (auto simp: replace_def)

lemma in_replace: "r \<in> set rows \<Longrightarrow> r' \<in> set (replace r r' rows)"
  by (force simp: replace_def)

lemma update_row:
  fixes s :: "'z bus_db_scheme"
  assumes d: "distinct (map ob_id (outbox s))" and r: "r \<in> set (outbox s)" and i: "ob_id r = i"
  shows "updateA outbox outbox_update (\<lambda>x. ob_id x = i) f s = (Inr (), s\<lparr>outbox := replace r (f r) (outbox s)\<rparr>)"
proof -
  have "update_where (\<lambda>x. ob_id x = ob_id r) f (outbox s) = replace r (f r) (outbox s)"
    unfolding update_where_def replace_def by (intro map_cong) (use d r in \<open>auto dest: distinct_key_eq\<close>)
  moreover have "outbox_update g s = s\<lparr>outbox := g (outbox s)\<rparr>" for g by (cases s) simp
  ultimately show ?thesis using find_row_key [OF d r] i by (simp add: updateA_def)
qed

text \<open>A turn of the loop on a row that is in the table.\<close>

lemma dispatch_row_run:
  fixes s :: "'z bus_db_scheme"
  assumes d: "distinct (map ob_id (outbox s))" and r: "r \<in> set (outbox s)"
  shows "dispatch_row bus r s = (Inr (), s
    \<lparr>outbox := replace r (after_turn bus (clock s) r) (outbox s),
     published := published s @ List.map_filter (accepted bus) [r]\<rparr>)"
proof -
  let ?r1 = "r\<lparr>ob_status := ''PROCESSING'', ob_attempts := ob_attempts r + 1\<rparr>"
  let ?s1 = "s\<lparr>outbox := replace r ?r1 (outbox s)\<rparr>"
  have one: "updateA outbox outbox_update (\<lambda>x. ob_id x = ob_id r)
      (\<lambda>x. x\<lparr>ob_status := ''PROCESSING'', ob_attempts := ob_attempts x + 1\<rparr>) s = (Inr (), ?s1)"
    by (rule update_row [OF d r refl])
  have two: "updateA outbox outbox_update (\<lambda>x. ob_id x = ob_id r) f (?s1\<lparr>published := evs\<rparr>) =
      (Inr (), s\<lparr>outbox := replace r (f ?r1) (outbox s), published := evs\<rparr>)" for f evs
    using update_row [of "?s1\<lparr>published := evs\<rparr>" ?r1 "ob_id r" f]
    by (simp add: d r replace_ids in_replace replace_twice)
  have same: "published_update (\<lambda>t. t @ x) s2 = s2\<lparr>published := published s2 @ x\<rparr>"
    "s2 = s2\<lparr>published := published s2\<rparr>" for x and s2 :: "'z bus_db_scheme" by (cases s2, simp)+
  note steps = dispatch_row_def catchA_def thenA_def bindA_def one returnA_def throwA_def modifyA_def getsA_def publishA_def
  show ?thesis
  proof (cases "refused bus r")
    case None
    then have ev: "accepted bus r = rehydrate (ob_eventType r) (ob_payload r)"
      "rehydrate (ob_eventType r) (ob_payload r) = Some ev \<Longrightarrow> bus ev = None" for ev
      by (auto simp: refused_def accepted_def split: option.splits)
    show ?thesis
    proof (cases "rehydrate (ob_eventType r) (ob_payload r)")
      case None
      with \<open>refused bus r = None\<close> ev two [where evs = "published s"] same(2) [of s] show ?thesis
        by (simp add: steps after_turn_def map_filter_def) 
    next
      case (Some e)
      with \<open>refused bus r = None\<close> ev two [where evs = "published s @ [e]"] show ?thesis
        by (simp add: steps after_turn_def map_filter_def same(1))
    qed
  next
    case (Some e)
    then obtain ev where "rehydrate (ob_eventType r) (ob_payload r) = Some ev" "bus ev = Some e"
      by (auto simp: refused_def split: bind_splits)
    with Some two [where evs = "published s"] show ?thesis
      by (simp add: steps after_turn_def accepted_def map_filter_def)
  qed
qed

lemma dispatch_rows_run:
  "distinct (map ob_id (outbox s)) \<Longrightarrow> distinct (map ob_id xs) \<Longrightarrow> set xs \<subseteq> set (outbox s) \<Longrightarrow>
   forA xs (dispatch_row bus) s = (Inr (), s
    \<lparr>outbox := map (\<lambda>x. if x \<in> set xs then after_turn bus (clock s) x else x) (outbox s),
     published := published s @ List.map_filter (accepted bus) xs\<rparr>)"
proof (induction xs arbitrary: s)
  case Nil
  then show ?case by (simp add: returnA_def map_filter_def)
next
  case (Cons r xs)
  let ?s1 = "s\<lparr>outbox := replace r (after_turn bus (clock s) r) (outbox s),
     published := published s @ List.map_filter (accepted bus) [r]\<rparr>"
  have run: "dispatch_row bus r s = (Inr (), ?s1)"
    by (rule dispatch_row_run) (use Cons.prems in auto)
  have ids: "map ob_id (outbox ?s1) = map ob_id (outbox s)" by (simp add: replace_ids)
  have sub: "set xs \<subseteq> set (outbox ?s1)" using Cons.prems(2,3) by (force simp: replace_def)
  have other: "x \<in> set xs \<Longrightarrow> x \<noteq> r" for x using Cons.prems(2) by auto
  have new: "after_turn bus (clock s) r \<notin> set xs"
  proof
    assume "after_turn bus (clock s) r \<in> set xs"
    then have "ob_id (after_turn bus (clock s) r) \<in> ob_id ` set xs" by (rule imageI)
    then have "ob_id r \<in> ob_id ` set xs" by simp
    with Cons.prems(2) show False by simp
  qed
  have "forA xs (dispatch_row bus) ?s1 = (Inr (), ?s1
    \<lparr>outbox := map (\<lambda>x. if x \<in> set xs then after_turn bus (clock ?s1) x else x) (outbox ?s1),
     published := published ?s1 @ List.map_filter (accepted bus) xs\<rparr>)"
    by (rule Cons.IH) (use Cons.prems(1,2) ids sub in simp_all)
  moreover have "map (\<lambda>x. if x \<in> set xs then after_turn bus (clock s) x else x) (outbox ?s1) =
      map (\<lambda>x. if x \<in> set (r # xs) then after_turn bus (clock s) x else x) (outbox s)"
    using new other by (auto simp: replace_def)
  moreover have "List.map_filter (accepted bus) [r] @ List.map_filter (accepted bus) xs = List.map_filter (accepted bus) (r # xs)"
    by (simp add: map_filter_def)
  ultimately show ?case by (simp add: bindA_run [where m = "dispatch_row bus r", OF run] cong: if_cong)
qed

text \<open>
  C22.  One call of the dispatcher refines one abstract step: it returns, its batch are the oldest pending
  rows, the bus gets exactly the events it takes of these rows, once each and in the order of the outbox,
  their rows become DONE, the row of a refused event counts the attempt and stays pending until the
  fifth, then it is FAILED; no other row changes.
\<close>

theorem processPending_refines:
  assumes "distinct (map ob_id (outbox s))"
  shows "processPending bus limit s = (Inr (length (batch limit (outbox s))), dispatch bus limit s)"
proof -
  have "distinct (map ob_id (filter (\<lambda>r. ob_status r = ''PENDING'') (outbox s)))"
    by (rule distinct_map_filter [OF assms])
  then have d: "distinct (map ob_id (batch limit (outbox s)))" by (simp add: batch_def take_map [symmetric] distinct_take)
  have sub: "set (batch limit (outbox s)) \<subseteq> set (outbox s)"
    by (auto simp: batch_def dest: in_set_takeD)
  have "forA (batch limit (outbox s)) (dispatch_row bus) s = (Inr (), dispatch bus limit s)"
    unfolding dispatch_def by (rule dispatch_rows_run [OF assms d sub])
  then show ?thesis
    unfolding processPending_def batch_def [symmetric]
    by (simp add: bindA_gets thenA_def bindA_run [where m = "forA (batch limit (outbox s)) (dispatch_row bus)"] returnA_def)
qed

section \<open>An example\<close>

text \<open>One event the bus takes, one it refuses for the fifth time, one that is done already.\<close>

definition demo_outbox :: "outbox_row list" where
  "demo_outbox =
    [\<lparr>ob_id = ''a'', ob_eventType = ''RfqClosedEvent'', ob_payload = [(''rfqId'', JString ''r1''), (''buyerId'', JString ''u1'')],
      ob_status = ''PENDING'', ob_attempts = 0, ob_lastError = None, ob_processedAt = None\<rparr>,
     \<lparr>ob_id = ''b'', ob_eventType = ''RfqClosedEvent'', ob_payload = [(''rfqId'', JString ''r2''), (''buyerId'', JString ''u1'')],
      ob_status = ''PENDING'', ob_attempts = 4, ob_lastError = None, ob_processedAt = None\<rparr>,
     \<lparr>ob_id = ''c'', ob_eventType = ''RfqClosedEvent'', ob_payload = [], ob_status = ''DONE'', ob_attempts = 1,
      ob_lastError = None, ob_processedAt = None\<rparr>]"

definition demo_bus :: "bus_event \<Rightarrow> exn option" where
  "demo_bus ev = (if ev = RfqClosedEvent ''r2'' ''u1'' None then Some (RawError ''down'') else None)"

definition demo_bus_db :: bus_db where
  "demo_bus_db = rfq_db.extend (demo_db\<lparr>outbox := demo_outbox\<rparr>) (bus_db.fields [])"

lemma demo_bus_outbox: "outbox demo_bus_db = demo_outbox" "published demo_bus_db = []"
  by (simp_all add: demo_bus_db_def rfq_db.defs bus_db.defs)

theorem processPending_refines_witness:
  "\<exists>s'. processPending demo_bus 20 demo_bus_db = (Inr 2, s') \<and>
    published s' = [RfqClosedEvent ''r1'' ''u1'' None] \<and>
    map ob_status (outbox s') = [''DONE'', ''FAILED'', ''DONE''] \<and> map ob_attempts (outbox s') = [1, 5, 1]"
proof -
  have d: "distinct (map ob_id (outbox demo_bus_db))" by (simp add: demo_bus_outbox demo_outbox_def)
  show ?thesis
    by (simp add: processPending_refines [OF d] dispatch_def demo_bus_outbox batch_def)
      (simp add: demo_outbox_def after_turn_def refused_def accepted_def rehydrate_def json_String_def demo_bus_def map_filter_def)
qed

end
