(* ===== verification/Shipping.thy ===== *)
theory Shipping
  imports Orders
begin

text \<open>
  Shipping: the command handlers of \<open>shipping/commands\<close> and what \<open>shipping/shipping.controller.ts\<close> passes
  to them.  Weights are doubles; a row comes with its method, zone and warehouse, which foreign keys
  guarantee.
\<close>

section \<open>Doubles\<close>

definition dbl_le :: "dbl \<Rightarrow> dbl \<Rightarrow> bool" where
  "dbl_le x y \<longleftrightarrow> fst x * 2 ^ snd y \<le> fst y * 2 ^ snd x"

text \<open>\<open>Math.ceil\<close>.\<close>

definition js_ceil :: "dbl \<Rightarrow> int" where
  "js_ceil x = - ((- fst x) div 2 ^ snd x)"

section \<open>Creating methods, zones and rates\<close>

text \<open>\<open>getCurrentTenantId() || user?.tenantId || null\<close>.\<close>

definition resolveTenantId :: "string option \<Rightarrow> jwt_payload option \<Rightarrow> string option" where
  "resolveTenantId ctx user = or_else ctx (or_else (Option.bind user user_tenantId) None)"

record method_dto =
  md_name :: string
  md_code :: "string option"
  md_description :: "string option"
  md_isActive :: "bool option"
  md_merchantId :: "string option"

definition CreateShippingMethodHandler ::
  "string option \<Rightarrow> string option \<Rightarrow> method_dto \<Rightarrow> ('z ord_db_scheme, shipping_method_row) act" where
  "CreateShippingMethodHandler tenantId merchantId dto =
    thenA (guardA (js_trim (md_name dto) \<noteq> []) (BadRequest ''name''))
    (bindA newIdA (\<lambda>i.
     let row = \<lparr>sm_id = i, sm_tenantId = tenantId, sm_merchantId = merchantId, sm_name = js_trim (md_name dto),
       sm_code = trim_or_null (md_code dto), sm_description = trim_or_null (md_description dto),
       sm_isActive = (case md_isActive dto of None \<Rightarrow> True | Some b \<Rightarrow> b)\<rparr> in
     thenA (createA shipping_methods_update row) (returnA row)))"

definition createMethod ::
  "string option \<Rightarrow> jwt_payload \<Rightarrow> method_dto \<Rightarrow> ('z ord_db_scheme, shipping_method_row) act" where
  "createMethod ctx user dto =
    CreateShippingMethodHandler (resolveTenantId ctx (Some user))
      (if user_role user = MERCHANT then user_shopId user
       else or_else (md_merchantId dto) (or_else (user_shopId user) None)) dto"

record zone_dto =
  zd_name :: string
  zd_countries :: "string list"
  zd_regions :: "string list"

definition CreateShippingZoneHandler ::
  "string option \<Rightarrow> zone_dto \<Rightarrow> ('z ord_db_scheme, shipping_zone_row) act" where
  "CreateShippingZoneHandler tenantId dto =
    thenA (guardA (js_trim (zd_name dto) \<noteq> []) (BadRequest ''name''))
    (let countries = filter (\<lambda>c. c \<noteq> []) (map (\<lambda>c. js_upper (js_trim c)) (zd_countries dto)) in
     thenA (guardA (countries \<noteq> []) (BadRequest ''countries''))
     (bindA newIdA (\<lambda>i.
      let row = \<lparr>sz_id = i, sz_tenantId = tenantId, sz_name = js_trim (zd_name dto), sz_countries = countries,
        sz_regions = filter (\<lambda>r. r \<noteq> []) (map js_trim (zd_regions dto))\<rparr> in
      thenA (createA shipping_zones_update row) (returnA row))))"

record rate_dto =
  rt_methodId :: string
  rt_zoneId :: string
  rt_warehouseId :: "string option"
  rt_minWeightKg :: "dbl option"
  rt_maxWeightKg :: "dbl option"
  rt_priceCents :: "int option"
  rt_pricePerKgCents :: "int option"
  rt_daysMin :: "int option"
  rt_daysMax :: "int option"

definition CreateShippingRateHandler :: "rate_dto \<Rightarrow> ('z ord_db_scheme, shipping_rate_row) act" where
  "CreateShippingRateHandler dto =
    thenA (guardA (rt_methodId dto \<noteq> [] \<and> rt_zoneId dto \<noteq> []) (BadRequest ''method, zone''))
    (bindA (someA (rt_priceCents dto) (BadRequest ''priceCents >= 0'')) (\<lambda>price.
     thenA (guardA (\<not> price < 0) (BadRequest ''priceCents >= 0''))
     (bindA (getsA (\<lambda>s. find_row (\<lambda>m. sm_id m = rt_methodId dto) (shipping_methods s))) (\<lambda>m.
      bindA (someA m (NotFound ''method'')) (\<lambda>_.
      bindA (getsA (\<lambda>s. find_row (\<lambda>z. sz_id z = rt_zoneId dto) (shipping_zones s))) (\<lambda>z.
      bindA (someA z (NotFound ''zone'')) (\<lambda>_.
      bindA newIdA (\<lambda>i.
      let row = \<lparr>sr_id = i, sr_methodId = rt_methodId dto, sr_zoneId = rt_zoneId dto,
        sr_warehouseId = or_else (rt_warehouseId dto) None,
        sr_minWeightKg = Some (case rt_minWeightKg dto of None \<Rightarrow> (0, 0) | Some w \<Rightarrow> w),
        sr_maxWeightKg = rt_maxWeightKg dto, sr_priceCents = price, sr_pricePerKgCents = rt_pricePerKgCents dto,
        sr_isActive = True, sr_daysMin = rt_daysMin dto, sr_daysMax = rt_daysMax dto\<rparr> in
      thenA (createA shipping_rates_update row) (returnA row)))))))))"

section \<open>Calculating the options\<close>

record shipping_query =
  sq_warehouseId :: "string option"
  sq_country :: "string option"
  sq_region :: "string option"
  sq_weightKg :: dbl
  sq_merchantId :: "string option"

record shipping_option =
  so_rateId :: string
  so_methodId :: string
  so_methodName :: string
  so_methodCode :: "string option"
  so_zoneName :: string
  so_warehouseName :: "string option"
  so_warehouseId :: "string option"
  so_priceCents :: int
  so_daysMin :: "int option"
  so_daysMax :: "int option"

text \<open>\<open>{ OR: [{ tenantId }, { tenantId: null }] }\<close> when there is a tenant, no condition otherwise.\<close>

definition own_or_null :: "string option \<Rightarrow> string option \<Rightarrow> bool" where
  "own_or_null key x \<longleftrightarrow> (truthy key \<longrightarrow> x = key \<or> x = None)"

definition zone_matches :: "string option \<Rightarrow> string \<Rightarrow> string option \<Rightarrow> shipping_zone_row \<Rightarrow> bool" where
  "zone_matches tenantId country region z \<longleftrightarrow>
    country \<in> set (sz_countries z) \<and> own_or_null tenantId (sz_tenantId z) \<and>
    (truthy (map_option js_trim region) \<longrightarrow> sz_regions z = [] \<or> js_trim (the region) \<in> set (sz_regions z))"

definition method_matches :: "string option \<Rightarrow> string option \<Rightarrow> shipping_method_row \<Rightarrow> bool" where
  "method_matches tenantId merchantId m \<longleftrightarrow>
    sm_isActive m \<and> own_or_null tenantId (sm_tenantId m) \<and> own_or_null merchantId (sm_merchantId m)"

definition rate_matches :: "string list \<Rightarrow> dbl \<Rightarrow> string option \<Rightarrow> shipping_rate_row \<Rightarrow> bool" where
  "rate_matches zoneIds weight warehouseId r \<longleftrightarrow>
    sr_isActive r \<and> sr_zoneId r \<in> set zoneIds \<and> own_or_null warehouseId (sr_warehouseId r) \<and>
    (case sr_minWeightKg r of None \<Rightarrow> True | Some w \<Rightarrow> dbl_le w weight) \<and>
    (case sr_maxWeightKg r of None \<Rightarrow> True | Some w \<Rightarrow> dbl_le weight w)"

definition rate_total :: "dbl \<Rightarrow> shipping_rate_row \<Rightarrow> int" where
  "rate_total weight r =
    (case sr_pricePerKgCents r of
      None \<Rightarrow> sr_priceCents r
    | Some perKg \<Rightarrow> if perKg \<noteq> 0 \<and> 0 < fst weight then sr_priceCents r + js_ceil weight * perKg else sr_priceCents r)"

definition option_of ::
  "dbl \<Rightarrow> 'z ord_db_scheme \<Rightarrow> shipping_method_row \<Rightarrow> shipping_zone_row \<Rightarrow> shipping_rate_row \<Rightarrow> shipping_option" where
  "option_of weight s m z r =
    (let w = (case sr_warehouseId r of None \<Rightarrow> None | Some i \<Rightarrow> find_row (\<lambda>w. w_id w = i) (warehouses s)) in
     \<lparr>so_rateId = sr_id r, so_methodId = sr_methodId r, so_methodName = sm_name m, so_methodCode = sm_code m,
      so_zoneName = sz_name z, so_warehouseName = map_option w_name w, so_warehouseId = sr_warehouseId r,
      so_priceCents = rate_total weight r, so_daysMin = sr_daysMin r, so_daysMax = sr_daysMax r\<rparr>)"

text \<open>A rate with its method and zone, where the method is one the query accepts.\<close>

definition rate_option ::
  "string option \<Rightarrow> string option \<Rightarrow> dbl \<Rightarrow> 'z ord_db_scheme \<Rightarrow> shipping_rate_row \<Rightarrow> shipping_option option" where
  "rate_option tenantId merchantId weight s r =
    (case (find_row (\<lambda>m. sm_id m = sr_methodId r) (shipping_methods s), find_row (\<lambda>z. sz_id z = sr_zoneId r) (shipping_zones s)) of
      (Some m, Some z) \<Rightarrow> if method_matches tenantId merchantId m then Some (option_of weight s m z r) else None
    | _ \<Rightarrow> None)"

definition ratesForZones ::
  "string list \<Rightarrow> dbl \<Rightarrow> string option \<Rightarrow> string option \<Rightarrow> string option \<Rightarrow> 'z ord_db_scheme \<Rightarrow> shipping_option list" where
  "ratesForZones zoneIds weight warehouseId merchantId tenantId s =
    List.map_filter (rate_option tenantId merchantId weight s)
      (sort_key sr_priceCents (filter (rate_matches zoneIds weight warehouseId) (shipping_rates s)))"

definition CalculateShippingHandler ::
  "string option \<Rightarrow> shipping_query \<Rightarrow> ('z ord_db_scheme, shipping_option list) act" where
  "CalculateShippingHandler tenantId q =
    thenA (guardA (truthy (map_option js_trim (sq_country q))) (BadRequest ''country''))
    (let country = js_upper (js_trim (the (sq_country q))) in
     bindA (getsA (\<lambda>s. filter (zone_matches tenantId country (sq_region q)) (shipping_zones s))) (\<lambda>zones.
     bindA (getsA (\<lambda>s. filter (zone_matches tenantId country None) (shipping_zones s))) (\<lambda>fallback.
     getsA (\<lambda>s.
       if zones \<noteq> [] then
         ratesForZones (map sz_id zones) (sq_weightKg q) (sq_warehouseId q) (sq_merchantId q) tenantId s
       else if fallback = [] then []
       else
         ratesForZones (map sz_id fallback) (sq_weightKg q) (sq_warehouseId q) (sq_merchantId q) tenantId s))))"

end
