(* ===== verification/Shipping_Claims.thy ===== *)
theory Shipping_Claims
  imports Shipping Tax_Claims Samples
begin

text \<open>What a buyer is offered as shipping: exactly the rates that fit, at the price of the rate and the weight.\<close>

lemma js_ceil_real: "js_ceil w = \<lceil>dval w\<rceil>"
proof -
  have "\<lfloor>real_of_int (- fst w) / real_of_int (2 ^ snd w)\<rfloor> = (- fst w) div 2 ^ snd w"
    by (rule floor_divide_of_int_eq)
  then show ?thesis by (simp add: js_ceil_def dval_def ceiling_def)
qed

lemma dbl_le_real: "dbl_le x y \<longleftrightarrow> dval x \<le> dval y"
proof -
  have "dval x \<le> dval y \<longleftrightarrow> real_of_int (fst x) * 2 ^ snd y \<le> real_of_int (fst y) * 2 ^ snd x"
    by (simp add: dval_def field_simps)
  also have "\<dots> \<longleftrightarrow> real_of_int (fst x * 2 ^ snd y) \<le> real_of_int (fst y * 2 ^ snd x)" by simp
  finally show ?thesis unfolding dbl_le_def of_int_le_iff by simp
qed

lemma positive_real: "0 < fst w \<longleftrightarrow> 0 < dval w"
  by (simp add: dval_def zero_less_divide_iff)

lemma in_map_filter: "y \<in> set (List.map_filter f xs) \<longleftrightarrow> (\<exists>x \<in> set xs. f x = Some y)"
  by (auto simp: map_filter_def intro!: image_eqI)

lemma rate_option_Some:
  "rate_option ten mid w s r = Some opt \<longleftrightarrow>
    (\<exists>m z. find_row (\<lambda>m. sm_id m = sr_methodId r) (shipping_methods s) = Some m \<and>
      find_row (\<lambda>z. sz_id z = sr_zoneId r) (shipping_zones s) = Some z \<and>
      method_matches ten mid m \<and> opt = option_of w s m z r)"
  by (auto simp: rate_option_def split: option.splits)

lemma rates_member:
  "opt \<in> set (ratesForZones zs weight wid mid ten s) \<longleftrightarrow>
    (\<exists>r m z. r \<in> set (shipping_rates s) \<and> rate_matches zs weight wid r \<and>
      find_row (\<lambda>m. sm_id m = sr_methodId r) (shipping_methods s) = Some m \<and>
      find_row (\<lambda>z. sz_id z = sr_zoneId r) (shipping_zones s) = Some z \<and>
      method_matches ten mid m \<and> opt = option_of weight s m z r)"
  by (auto simp: ratesForZones_def in_map_filter rate_option_Some)

text \<open>The zones a query is served from: those with the region, all of the country where none has it.\<close>

definition serving_zones :: "string option \<Rightarrow> shipping_query \<Rightarrow> 'z ord_db_scheme \<Rightarrow> shipping_zone_row list" where
  "serving_zones tenantId q s =
    (let country = js_upper (js_trim (the (sq_country q)));
         zones = filter (zone_matches tenantId country (sq_region q)) (shipping_zones s)
     in if zones \<noteq> [] then zones else filter (zone_matches tenantId country None) (shipping_zones s))"

lemma calculate_run:
  assumes "CalculateShippingHandler tenantId q s = (Inr opts, s')"
  shows "s' = s" "opts = ratesForZones (map sz_id (serving_zones tenantId q s)) (sq_weightKg q) (sq_warehouseId q)
    (sq_merchantId q) tenantId s"
proof -
  have none: "ratesForZones [] w wid mid ten s = []" for w wid mid ten
    by (simp add: ratesForZones_def rate_matches_def map_filter_def)
  show "s' = s" "opts = ratesForZones (map sz_id (serving_zones tenantId q s)) (sq_weightKg q) (sq_warehouseId q)
    (sq_merchantId q) tenantId s"
    using assms by (auto simp: CalculateShippingHandler_def ok_simps Let_def serving_zones_def none)
qed

text \<open>
  A calculation of shipping writes nothing and offers exactly the rates that fit: active, in a zone that
  serves the country for this tenant or the platform, with an active method of the tenant or the platform
  and of the merchant or nobody, for the warehouse or any, and within the limits of weight; each at its
  base price plus, where the rate has a price per kilogram, that price for every kilogram begun.
\<close>

theorem shipping_options_exact:
  assumes run: "CalculateShippingHandler tenantId q s = (Inr opts, s')"
  shows "s' = s \<and>
    (\<forall>opt. opt \<in> set opts \<longleftrightarrow>
      (\<exists>r m z. r \<in> set (shipping_rates s) \<and> sr_isActive r \<and>
        sr_zoneId r \<in> sz_id ` set (serving_zones tenantId q s) \<and>
        find_row (\<lambda>m. sm_id m = sr_methodId r) (shipping_methods s) = Some m \<and>
        find_row (\<lambda>z. sz_id z = sr_zoneId r) (shipping_zones s) = Some z \<and>
        method_matches tenantId (sq_merchantId q) m \<and> own_or_null (sq_warehouseId q) (sr_warehouseId r) \<and>
        (\<forall>w. sr_minWeightKg r = Some w \<longrightarrow> dval w \<le> dval (sq_weightKg q)) \<and>
        (\<forall>w. sr_maxWeightKg r = Some w \<longrightarrow> dval (sq_weightKg q) \<le> dval w) \<and>
        opt = option_of (sq_weightKg q) s m z r \<and>
        so_priceCents opt = sr_priceCents r +
          (if 0 < dval (sq_weightKg q) then \<lceil>dval (sq_weightKg q)\<rceil> * (case sr_pricePerKgCents r of None \<Rightarrow> 0 | Some p \<Rightarrow> p) else 0)))"
proof (intro conjI allI)
  show "s' = s" by (rule calculate_run(1) [OF run])
  fix opt
  have price: "so_priceCents (option_of w s m z r) = sr_priceCents r +
      (if 0 < dval w then \<lceil>dval w\<rceil> * (case sr_pricePerKgCents r of None \<Rightarrow> 0 | Some p \<Rightarrow> p) else 0)" for w m z r
    by (simp add: option_of_def Let_def rate_total_def positive_real js_ceil_real split: option.splits)
  have weights: "(case x of None \<Rightarrow> True | Some w \<Rightarrow> P w) = (\<forall>w. x = Some w \<longrightarrow> P w)" for x :: "dbl option" and P
    by (cases x) auto
  show "(opt \<in> set opts) =
    (\<exists>r m z. r \<in> set (shipping_rates s) \<and> sr_isActive r \<and>
      sr_zoneId r \<in> sz_id ` set (serving_zones tenantId q s) \<and>
      find_row (\<lambda>m. sm_id m = sr_methodId r) (shipping_methods s) = Some m \<and>
      find_row (\<lambda>z. sz_id z = sr_zoneId r) (shipping_zones s) = Some z \<and>
      method_matches tenantId (sq_merchantId q) m \<and> own_or_null (sq_warehouseId q) (sr_warehouseId r) \<and>
      (\<forall>w. sr_minWeightKg r = Some w \<longrightarrow> dval w \<le> dval (sq_weightKg q)) \<and>
      (\<forall>w. sr_maxWeightKg r = Some w \<longrightarrow> dval (sq_weightKg q) \<le> dval w) \<and>
      opt = option_of (sq_weightKg q) s m z r \<and>
      so_priceCents opt = sr_priceCents r +
        (if 0 < dval (sq_weightKg q) then \<lceil>dval (sq_weightKg q)\<rceil> * (case sr_pricePerKgCents r of None \<Rightarrow> 0 | Some p \<Rightarrow> p) else 0))"
    unfolding calculate_run(2) [OF run] rates_member rate_matches_def weights dbl_le_real
    by (auto simp: price)
qed

definition demo_shipping :: rfq_db where
  "demo_shipping = demo_db
    \<lparr>shipping_methods := [\<lparr>sm_id = ''m'', sm_tenantId = None, sm_merchantId = None, sm_name = ''Truck'', sm_code = None,
       sm_description = None, sm_isActive = True\<rparr>],
     shipping_zones := [\<lparr>sz_id = ''z'', sz_tenantId = None, sz_name = ''RU'', sz_countries = [''RU''], sz_regions = []\<rparr>],
     shipping_rates := [\<lparr>sr_id = ''r'', sr_methodId = ''m'', sr_zoneId = ''z'', sr_warehouseId = None,
       sr_minWeightKg = Some (0, 0), sr_maxWeightKg = Some (10, 0), sr_priceCents = 500, sr_pricePerKgCents = Some 100,
       sr_isActive = True, sr_daysMin = None, sr_daysMax = None\<rparr>]\<rparr>"

definition demo_query :: shipping_query where
  "demo_query = \<lparr>sq_warehouseId = None, sq_country = Some ''RU'', sq_region = None, sq_weightKg = (5, 1), sq_merchantId = None\<rparr>"

theorem shipping_options_exact_witness:
  "\<exists>opts. CalculateShippingHandler None demo_query demo_shipping = (Inr opts, demo_shipping) \<and> map so_priceCents opts = [800]"
proof -
  have u: "js_upper ''RU'' = ''RU''" by code_simp
  have getsA_run: "getsA g t = (Inr (g t), t)" for g :: "rfq_db \<Rightarrow> 'x" and t by (simp add: getsA_def)
  have tables:
    "shipping_methods demo_shipping = [\<lparr>sm_id = ''m'', sm_tenantId = None, sm_merchantId = None, sm_name = ''Truck'',
       sm_code = None, sm_description = None, sm_isActive = True\<rparr>]"
    "shipping_zones demo_shipping = [\<lparr>sz_id = ''z'', sz_tenantId = None, sz_name = ''RU'', sz_countries = [''RU''], sz_regions = []\<rparr>]"
    "shipping_rates demo_shipping = [\<lparr>sr_id = ''r'', sr_methodId = ''m'', sr_zoneId = ''z'', sr_warehouseId = None,
       sr_minWeightKg = Some (0, 0), sr_maxWeightKg = Some (10, 0), sr_priceCents = 500, sr_pricePerKgCents = Some 100,
       sr_isActive = True, sr_daysMin = None, sr_daysMax = None\<rparr>]"
    by (simp_all add: demo_shipping_def)
  have run: "\<exists>opt. CalculateShippingHandler None demo_query demo_shipping = (Inr [opt], demo_shipping)"
    by (simp add: CalculateShippingHandler_def demo_query_def act_laws Let_def js_trim_def js_space_def u zone_matches_def
        own_or_null_def ratesForZones_def rate_matches_def dbl_le_def map_filter_def rate_option_def method_matches_def
        getsA_run tables)
  then obtain opt where opt: "CalculateShippingHandler None demo_query demo_shipping = (Inr [opt], demo_shipping)" by blast
  have "\<lceil>dval (5, 1)\<rceil> = 3" by (simp add: dval_def ceiling_eq_iff)
  with shipping_options_exact [OF opt] opt show ?thesis
    by (auto simp: demo_query_def tables dval_def)
qed

end
