(* ===== verification/Totp.thy ===== *)
theory Totp
  imports JsNumber "HOL-Library.Word"
begin

unbundle bit_operations_syntax

text \<open>
  One-time codes: \<open>auth/totp.util.ts\<close>.  Bytes are 8-bit words, the strings of binary digits are lists of
  bits, the 31-bit code is assembled on 32-bit words as JavaScript's operators do.  The keyed hash
  (\<open>createHmac('sha1', key)\<close>) is an argument, the bytes of \<open>randomBytes\<close> and the time are arguments too.
\<close>

type_synonym bytes = "8 word list"

section \<open>Bits and base 32\<close>

text \<open>\<open>n.toString(2).padStart(w, '0')\<close> for a number of at most \<open>w\<close> bits, and \<open>parseInt(bits, 2)\<close>.\<close>

fun bits_of :: "nat \<Rightarrow> nat \<Rightarrow> bool list" where
  "bits_of 0 n = []"
| "bits_of (Suc w) n = bits_of w (n div 2) @ [odd n]"

definition bits_val :: "bool list \<Rightarrow> nat" where
  "bits_val bs = foldl (\<lambda>a b. 2 * a + (if b then 1 else 0)) 0 bs"

text \<open>\<open>for (let i = 0; i + k <= bits.length; i += k) ... bits.slice(i, i + k)\<close>.\<close>

function groups :: "nat \<Rightarrow> 'a list \<Rightarrow> 'a list list" where
  "groups k xs = (if k = 0 \<or> length xs < k then [] else take k xs # groups k (drop k xs))"
  by pat_completeness auto
termination by (relation "measure (length \<circ> snd)") auto

declare groups.simps [simp del]

definition BASE32 :: string where
  "BASE32 = ''ABCDEFGHIJKLMNOPQRSTUVWXYZ234567''"

fun index_of :: "char \<Rightarrow> string \<Rightarrow> nat option" where
  "index_of c [] = None"
| "index_of c (x # xs) = (if c = x then Some 0 else map_option Suc (index_of c xs))"

definition generateTotpSecret :: "bytes \<Rightarrow> string" where
  "generateTotpSecret buf =
    map (\<lambda>g. BASE32 ! bits_val g) (groups 5 (concat (map (\<lambda>b. bits_of 8 (unat b)) buf)))"

definition base32_clean :: "string \<Rightarrow> string" where
  "base32_clean secret = js_upper (rev (dropWhile (\<lambda>c. c = CHR ''='') (rev secret)))"

definition base32ToBuffer :: "string \<Rightarrow> bytes" where
  "base32ToBuffer secret =
    map (\<lambda>g. word_of_nat (bits_val g))
      (groups 8 (concat (List.map_filter (\<lambda>c. map_option (bits_of 5) (index_of c BASE32)) (base32_clean secret))))"

section \<open>Codes\<close>

text \<open>A byte of the digest; outside of it JavaScript reads \<open>undefined\<close>, which \<open>&\<close> takes for 0.\<close>

definition byte_at :: "bytes \<Rightarrow> nat \<Rightarrow> 32 word" where
  "byte_at d i = (if i < length d then ucast (d ! i) else 0)"

text \<open>\<open>writeBigUInt64BE\<close>: eight bytes, the highest first; out of range it throws.\<close>

definition counter_bytes :: "nat \<Rightarrow> bytes" where
  "counter_bytes n = map (\<lambda>i. word_of_nat (n div 256 ^ i)) (rev [0..<8])"

text \<open>\<open>String(n).padStart(6, '0')\<close>, and JavaScript's remainder of a signed number.\<close>

definition pad6 :: "string \<Rightarrow> string" where
  "pad6 t = replicate (6 - length t) CHR ''0'' @ t"

definition js_rem :: "int \<Rightarrow> int \<Rightarrow> int" where
  "js_rem a b = sgn a * (\<bar>a\<bar> mod \<bar>b\<bar>)"

definition digest_code :: "bytes \<Rightarrow> 32 word" where
  "digest_code d =
    (let off = unat (byte_at d (length d - 1) AND 0xF) in
     push_bit 24 (byte_at d off AND 0x7F) OR push_bit 16 (byte_at d (off + 1) AND 0xFF)
       OR push_bit 8 (byte_at d (off + 2) AND 0xFF) OR (byte_at d (off + 3) AND 0xFF))"

definition hotp :: "(bytes \<Rightarrow> bytes \<Rightarrow> bytes) \<Rightarrow> string \<Rightarrow> int \<Rightarrow> exn + string" where
  "hotp hmac secret counter =
    (if counter < 0 \<or> 2 ^ 64 \<le> counter then Inl (RawError ''RangeError'')
     else Inr (pad6 (dec (js_rem (sint (digest_code (hmac (base32ToBuffer secret) (counter_bytes (nat counter))))) 1000000))))"

text \<open>The loop over the window: stops at the first code that matches.\<close>

fun try_counters :: "(bytes \<Rightarrow> bytes \<Rightarrow> bytes) \<Rightarrow> string \<Rightarrow> string \<Rightarrow> int list \<Rightarrow> exn + bool" where
  "try_counters hmac secret clean [] = Inr False"
| "try_counters hmac secret clean (c # cs) =
    (case hotp hmac secret c of
      Inl e \<Rightarrow> Inl e
    | Inr code \<Rightarrow> if code = clean then Inr True else try_counters hmac secret clean cs)"

definition is_digit :: "char \<Rightarrow> bool" where
  "is_digit c \<longleftrightarrow> (let n = (of_char c :: nat) in 48 \<le> n \<and> n \<le> 57)"

definition six_digits :: "string \<Rightarrow> bool" where
  "six_digits t \<longleftrightarrow> length t = 6 \<and> list_all is_digit t"

definition verifyTotp :: "(bytes \<Rightarrow> bytes \<Rightarrow> bytes) \<Rightarrow> int \<Rightarrow> string \<Rightarrow> string \<Rightarrow> exn + bool" where
  "verifyTotp hmac now secret token =
    (let clean = filter (\<lambda>c. \<not> js_space c) token in
     if \<not> six_digits clean then Inr False
     else let counter = now div 1000 div 30 in
       try_counters hmac secret clean (map (\<lambda>w. counter + w) [-1, 0, 1]))"

section \<open>The address for the authenticator\<close>

text \<open>\<open>encodeURIComponent\<close> of ASCII text.\<close>

definition uri_plain :: "char \<Rightarrow> bool" where
  "uri_plain c \<longleftrightarrow>
    (let n = (of_char c :: nat) in 48 \<le> n \<and> n \<le> 57 \<or> 65 \<le> n \<and> n \<le> 90 \<or> 97 \<le> n \<and> n \<le> 122) \<or> c \<in> set ''-_.!~*()'' \<or> c = CHR 0x27"

definition hex_digit :: "nat \<Rightarrow> char" where
  "hex_digit n = ''0123456789ABCDEF'' ! n"

definition encodeURIComponent :: "string \<Rightarrow> string" where
  "encodeURIComponent t =
    concat (map (\<lambda>c. if uri_plain c then [c]
      else [CHR ''%'', hex_digit (of_char c div 16), hex_digit (of_char c mod 16)]) t)"

definition totpOtpauthUrl :: "string \<Rightarrow> string \<Rightarrow> string" where
  "totpOtpauthUrl secret account =
    ''otpauth://totp/'' @ encodeURIComponent (''Mplace:'' @ account) @ ''?secret='' @ secret @
    ''&issuer='' @ encodeURIComponent ''Mplace'' @ ''&digits=6&period=30''"

end
