(* ===== verification/Totp_Claims.thy ===== *)
theory Totp_Claims
  imports Totp
begin

unbundle bit_operations_syntax

text \<open>The secret survives its text form, and the codes are those of RFC 4226 and RFC 6238.\<close>

section \<open>Groups and bits\<close>

lemma groups_append: "length x = k \<Longrightarrow> 0 < k \<Longrightarrow> groups k (x @ ys) = x # groups k ys"
  by (subst groups.simps) simp

lemma groups_concat:
  assumes "\<And>x. x \<in> set xs \<Longrightarrow> length x = k" and "0 < k"
  shows "groups k (concat xs) = xs"
  using assms
proof (induction xs)
  case Nil
  then show ?case by (subst groups.simps) simp
next
  case (Cons x xs)
  then show ?case by (simp add: groups_append)
qed

lemma groups_length: "g \<in> set (groups k xs) \<Longrightarrow> length g = k"
  by (induction k xs rule: groups.induct) (subst (asm) (2) groups.simps, auto split: if_splits)

lemma concat_groups: "0 < k \<Longrightarrow> k dvd length xs \<Longrightarrow> concat (groups k xs) = xs"
proof (induction k xs rule: groups.induct)
  case (1 k xs)
  show ?case
  proof (cases "length xs < k")
    case True
    with 1 have "xs = []" by (auto dest: dvd_imp_le)
    with 1 show ?thesis by (subst groups.simps) simp
  next
    case False
    with 1 have "k dvd length (drop k xs)" by (simp add: dvd_diff_nat)
    with 1 False show ?thesis by (subst groups.simps) simp
  qed
qed

lemma length_bits_of [simp]: "length (bits_of w n) = w"
  by (induction w n rule: bits_of.induct) auto

lemma bits_val_Nil [simp]: "bits_val [] = 0"
  by (simp add: bits_val_def)

lemma bits_val_snoc [simp]: "bits_val (bs @ [b]) = 2 * bits_val bs + (if b then 1 else 0)"
  by (simp add: bits_val_def)

lemma bits_val_of: "n < 2 ^ w \<Longrightarrow> bits_val (bits_of w n) = n"
proof (induction w n rule: bits_of.induct)
  case (1 n)
  then show ?case by simp
next
  case (2 w n)
  from 2(2) have "n div 2 < 2 ^ w" by (simp add: less_mult_imp_div_less)
  with 2(1) show ?case by simp
qed

lemma bits_of_val: "bits_of (length bs) (bits_val bs) = bs"
  by (induction bs rule: rev_induct) auto

lemma bits_val_less: "bits_val bs < 2 ^ length bs"
  by (induction bs rule: rev_induct) auto

lemma byte_bits: "bits_val (bits_of 8 (unat b)) = unat b" for b :: "8 word"
  using unsigned_less [of b, where 'a = nat] by (intro bits_val_of) simp

section \<open>The alphabet\<close>

lemma BASE32_length [simp]: "length BASE32 = 32"
  by (simp add: BASE32_def)

lemma index_of_nth: "distinct xs \<Longrightarrow> i < length xs \<Longrightarrow> index_of (xs ! i) xs = Some i"
proof (induction xs arbitrary: i)
  case Nil
  then show ?case by simp
next
  case (Cons x xs)
  then show ?case by (cases i) (auto simp: nth_Cons)
qed

lemma BASE32_distinct: "distinct BASE32"
  by (simp add: BASE32_def)

lemma BASE32_upper: "c \<in> set BASE32 \<Longrightarrow> js_upper_char c = c \<and> c \<noteq> CHR ''=''"
proof -
  have "list_all (\<lambda>c. js_upper_char c = c \<and> c \<noteq> CHR ''='') BASE32" by code_simp
  then show "c \<in> set BASE32 \<Longrightarrow> js_upper_char c = c \<and> c \<noteq> CHR ''=''" by (auto simp: list_all_iff)
qed

lemma clean_alphabet: "set t \<subseteq> set BASE32 \<Longrightarrow> base32_clean t = t"
proof -
  assume t: "set t \<subseteq> set BASE32"
  have "dropWhile (\<lambda>c. c = CHR ''='') (rev t) = rev t"
    using t BASE32_upper by (cases "rev t") (auto simp: set_rev [of t, symmetric] simp del: set_rev)
  with t BASE32_upper show "base32_clean t = t"
    by (simp add: base32_clean_def js_upper_def map_idI subset_iff)
qed

lemma map_filter_some: "(\<And>x. x \<in> set xs \<Longrightarrow> f x = Some (g x)) \<Longrightarrow> List.map_filter f xs = map g xs"
  by (induction xs) (auto simp: map_filter_def)

lemma map_filter_map: "List.map_filter f (map g xs) = List.map_filter (\<lambda>x. f (g x)) xs"
  by (simp add: map_filter_def filter_map o_def)

text \<open>
  The text form of a secret loses nothing: decoding what \<open>generateTotpSecret\<close> makes of the
  random bytes gives these bytes back, for every number of bytes that fills whole characters (the code
  draws 20).
\<close>

theorem secret_roundtrip:
  assumes len: "5 dvd length buf"
  shows "base32ToBuffer (generateTotpSecret buf) = buf"
proof -
  define bits where "bits = concat (map (\<lambda>b. bits_of 8 (unat b)) buf)"
  define gs where "gs = groups 5 bits"
  have "length bits = 8 * length buf"
    by (simp add: bits_def length_concat o_def sum_list_triv)
  with len have cg: "concat gs = bits"
    unfolding gs_def by (intro concat_groups) auto
  have g5: "length g = 5" if "g \<in> set gs" for g
    using that by (simp add: gs_def groups_length)
  have small: "bits_val g < 32" if "g \<in> set gs" for g
    using bits_val_less [of g] g5 [OF that] by simp
  have sec: "generateTotpSecret buf = map (\<lambda>g. BASE32 ! bits_val g) gs"
    by (simp add: generateTotpSecret_def gs_def bits_def)
  have "base32_clean (generateTotpSecret buf) = generateTotpSecret buf"
    using small by (intro clean_alphabet) (auto simp: sec)
  then have dec: "List.map_filter (\<lambda>c. map_option (bits_of 5) (index_of c BASE32)) (base32_clean (generateTotpSecret buf)) =
      map (\<lambda>g. bits_of 5 (bits_val g)) gs"
    by (simp only: sec map_filter_map) (rule map_filter_some, simp add: index_of_nth BASE32_distinct small)
  have id5: "bits_of 5 (bits_val g) = g" if "g \<in> set gs" for g
    using bits_of_val [of g] g5 [OF that] by simp
  have "groups 8 bits = map (\<lambda>b. bits_of 8 (unat b)) buf"
    unfolding bits_def by (rule groups_concat) auto
  then show ?thesis
    by (simp add: base32ToBuffer_def dec id5 cg byte_bits o_def cong: map_cong)
qed

theorem secret_roundtrip_witness:
  "base32ToBuffer (generateTotpSecret [0x48, 0x65, 0x6C, 0x6C, 0x6F]) = [0x48, 0x65, 0x6C, 0x6C, 0x6F]"
  by (rule secret_roundtrip) (intro dvdI [of _ _ 1], simp)

section \<open>The truncated code\<close>

lemma or_shift:
  assumes "0 \<le> b" and "b < 2 ^ n"
  shows "push_bit n a OR b = a * 2 ^ n + (b :: int)"
proof -
  have b: "take_bit n b = b" using assms by (rule take_bit_int_eq_self)
  have "push_bit n a AND take_bit n b = 0"
    by (intro bit_eqI) (auto simp: bit_simps)
  with b have "push_bit n a OR b = push_bit n a + b"
    by (simp add: disjunctive_add_eq_or)
  then show ?thesis by (simp add: push_bit_eq_mult)
qed

lemma uint_byte: "uint (ucast b :: 32 word) = uint b" for b :: "8 word"
  by (simp add: unsigned_ucast_eq take_bit_int_eq_self unsigned_less [of b, THEN order_less_trans])

lemma and_masks: "x AND 255 = x mod 256" "x AND 127 = x mod 128" for x :: int
  using take_bit_eq_mask [of 8 x] take_bit_eq_mask [of 7 x]
  by (simp_all add: mask_eq_exp_minus_1 take_bit_eq_mod)

lemma byte_less: "uint b < 256" for b :: "8 word"
  using unsigned_less [of b, where 'a = int] by simp

lemma masked_byte:
  "uint (ucast b AND 0xFF :: 32 word) = uint b" "uint (ucast b AND 0x7F :: 32 word) = uint b mod 128" for b :: "8 word"
  using byte_less [of b] by (simp_all add: unsigned_and_eq uint_byte and_masks)

lemma uint_push:
  assumes "uint w * 2 ^ n < 2 ^ 32"
  shows "uint (push_bit n w) = push_bit n (uint (w :: 32 word))"
  unfolding unsigned_push_bit_eq using assms by (intro take_bit_int_eq_self) (simp_all add: push_bit_eq_mult)

lemma uint_digest_code:
  fixes b0 b1 b2 b3 :: "8 word"
  defines "v \<equiv> push_bit 24 (ucast b0 AND 0x7F) OR push_bit 16 (ucast b1 AND 0xFF) OR push_bit 8 (ucast b2 AND 0xFF) OR (ucast b3 AND 0xFF :: 32 word)"
  shows "uint v = (uint b0 mod 128) * 2 ^ 24 + uint b1 * 2 ^ 16 + uint b2 * 2 ^ 8 + uint b3"
proof -
  have less: "uint b0 mod 128 < 128" "uint b1 < 256" "uint b2 < 256" "uint b3 < 256"
    by (simp_all add: byte_less)
  have "uint v = push_bit 24 (uint b0 mod 128) OR (push_bit 16 (uint b1) OR (push_bit 8 (uint b2) OR uint b3))"
  proof -
    have "uint (push_bit 24 (ucast b0 AND 0x7F :: 32 word)) = push_bit 24 (uint b0 mod 128)"
      using less by (subst uint_push) (simp_all only: masked_byte, simp)
    moreover have "uint (push_bit 16 (ucast b1 AND 0xFF :: 32 word)) = push_bit 16 (uint b1)"
      using less by (subst uint_push) (simp_all only: masked_byte, simp)
    moreover have "uint (push_bit 8 (ucast b2 AND 0xFF :: 32 word)) = push_bit 8 (uint b2)"
      using less by (subst uint_push) (simp_all only: masked_byte, simp)
    ultimately show ?thesis unfolding v_def unsigned_or_eq by (simp only: masked_byte or.assoc)
  qed
  also have "push_bit 8 (uint b2) OR uint b3 = uint b2 * 2 ^ 8 + uint b3"
    using less by (intro or_shift) simp_all
  also have "push_bit 16 (uint b1) OR (uint b2 * 2 ^ 8 + uint b3) = uint b1 * 2 ^ 16 + (uint b2 * 2 ^ 8 + uint b3)"
    using less by (intro or_shift) simp_all
  also have "push_bit 24 (uint b0 mod 128) OR (uint b1 * 2 ^ 16 + (uint b2 * 2 ^ 8 + uint b3)) =
      (uint b0 mod 128) * 2 ^ 24 + (uint b1 * 2 ^ 16 + (uint b2 * 2 ^ 8 + uint b3))"
    using less by (intro or_shift) simp_all
  finally show ?thesis by simp
qed

lemma nibble: "unat (ucast b AND 0xF :: 32 word) = nat (uint b mod 16)" for b :: "8 word"
proof -
  have "uint (ucast b AND 0xF :: 32 word) = uint b AND 15" by (simp only: unsigned_and_eq uint_byte) simp
  also have "\<dots> = uint b mod 16" using take_bit_eq_mask [of 4 "uint b"] by (simp add: mask_eq_exp_minus_1 take_bit_eq_mod)
  finally show ?thesis by (simp only: unat_eq_nat_uint)
qed

section \<open>The code of the standard\<close>

text \<open>The digits of a number, and the code RFC 4226 makes of a digest of 20 bytes.\<close>

fun digits :: "nat \<Rightarrow> nat \<Rightarrow> string" where
  "digits 0 n = []"
| "digits (Suc k) n = digits k (n div 10) @ [char_of (48 + n mod 10)]"

definition rfc_truncate :: "bytes \<Rightarrow> int" where
  "rfc_truncate d =
    (let off = nat (uint (d ! 19) mod 16) in
     (foldl (\<lambda>a b. 256 * a + uint b) 0 (take 4 (drop off d))) mod 2 ^ 31)"

definition rfc_code :: "(bytes \<Rightarrow> bytes \<Rightarrow> bytes) \<Rightarrow> string \<Rightarrow> int \<Rightarrow> string" where
  "rfc_code hmac secret c =
    digits 6 (nat (rfc_truncate (hmac (base32ToBuffer secret) (counter_bytes (nat c))) mod 10 ^ 6))"

lemma digits_small: "n < 10 \<Longrightarrow> digits (Suc k) n = replicate k CHR ''0'' @ [char_of (48 + n)]"
proof (induction k)
  case 0
  then show ?case by simp
next
  case (Suc k)
  have zero: "char_of (48 :: nat) = CHR ''0''" by code_simp
  have "digits (Suc k) 0 = replicate k CHR ''0'' @ [char_of (48 :: nat)]"
    by (induction k) (simp_all add: zero replicate_append_same)
  with Suc.prems show ?case by (simp add: zero replicate_append_same)
qed

lemma pad_digits: "n < 10 ^ Suc k \<Longrightarrow> replicate (Suc k - length (dec_nat n)) CHR ''0'' @ dec_nat n = digits (Suc k) n"
proof (induction k arbitrary: n)
  case 0
  then show ?case by (subst (1 2) dec_nat.simps) simp
next
  case (Suc k)
  show ?case
  proof (cases "n < 10")
    case True
    then show ?thesis by (subst (1 2) dec_nat.simps) (simp add: digits_small del: digits.simps)
  next
    case False
    have "n div 10 < 10 ^ Suc k" using Suc.prems by (simp add: less_mult_imp_div_less)
    with Suc.IH [of "n div 10"] False show ?thesis
      by (subst (1 2) dec_nat.simps) simp
  qed
qed

lemma sint_small: "uint (w :: 32 word) < 2 ^ 31 \<Longrightarrow> sint w = uint w"
  unfolding sint_uint by (rule signed_take_bit_int_eq_self) (simp_all add: order_trans [OF _ unsigned_greater_eq])

lemma byte_at_nth: "i < length d \<Longrightarrow> byte_at d i = ucast (d ! i)"
  by (simp add: byte_at_def)

lemma digest_code_rfc:
  assumes len: "length d = 20"
  shows "sint (digest_code d) = rfc_truncate d"
proof -
  define off where "off = nat (uint (d ! 19) mod 16)"
  have off: "unat (byte_at d (length d - 1) AND 0xF) = off"
    by (simp add: byte_at_nth len nibble off_def)
  have o16: "off < 16" by (simp add: off_def nat_less_iff)
  have four: "take 4 (drop off d) = [d ! off, d ! (off + 1), d ! (off + 2), d ! (off + 3)]"
    using o16 len by (simp add: take_Suc_conv_app_nth numeral_eq_Suc add.commute nth_append)
  have u: "uint (digest_code d) = (uint (d ! off) mod 128) * 2 ^ 24 + uint (d ! (off + 1)) * 2 ^ 16 + uint (d ! (off + 2)) * 2 ^ 8 + uint (d ! (off + 3))"
    using o16 len unfolding digest_code_def Let_def off by (simp only: byte_at_nth uint_digest_code)
  have b: "uint (d ! off) mod 128 < 128" "uint (d ! (off + 1)) < 256" "uint (d ! (off + 2)) < 256" "uint (d ! (off + 3)) < 256"
    "0 \<le> uint (d ! (off + 1))" "0 \<le> uint (d ! (off + 2))" "0 \<le> uint (d ! (off + 3))"
    by (simp_all add: byte_less)
  have r: "rfc_truncate d = (2 ^ 24 * uint (d ! off) + (uint (d ! (off + 1)) * 2 ^ 16 + uint (d ! (off + 2)) * 2 ^ 8 + uint (d ! (off + 3)))) mod 2 ^ 31"
    unfolding rfc_truncate_def Let_def off_def [symmetric] four by (simp add: algebra_simps)
  have "(2 ^ 24 * x + y) mod 2 ^ 31 = 2 ^ 24 * (x mod 128) + y" if "0 \<le> y" "y < 2 ^ 24" for x y :: int
  proof -
    have split: "2 ^ 24 * x + y = (2 ^ 24 * (x mod 128) + y) + 2 ^ 31 * (x div 128)"
    proof -
      have "2 ^ 24 * (128 * q + r) = 2 ^ 24 * r + 2 ^ 31 * q" for q r :: int by simp
      from this [of "x div 128" "x mod 128"] show ?thesis by (simp only: mod_mult_div_eq mult_div_mod_eq ac_simps)
    qed
    have "0 \<le> x mod 128" "x mod 128 < 128" by simp_all
    with that show ?thesis unfolding split mod_mult_self2 by (intro mod_pos_pos_trivial) simp_all
  qed
  with b have "uint (digest_code d) = rfc_truncate d" unfolding u r by simp
  moreover have "rfc_truncate d < 2 ^ 31" by (simp add: rfc_truncate_def Let_def)
  ultimately show ?thesis by (simp add: sint_small)
qed

lemma hotp_rfc:
  assumes c: "0 \<le> c" "c < 2 ^ 64" and len: "\<forall>k m. length (hmac k m) = 20"
  shows "hotp hmac secret c = Inr (rfc_code hmac secret c)"
proof -
  define d where "d = hmac (base32ToBuffer secret) (counter_bytes (nat c))"
  define v where "v = rfc_truncate d mod 10 ^ 6"
  have code: "sint (digest_code d) = rfc_truncate d" using len by (simp add: d_def digest_code_rfc)
  have "0 \<le> rfc_truncate d" by (simp add: rfc_truncate_def Let_def)
  then have rem: "js_rem (sint (digest_code d)) 1000000 = v"
    by (cases "rfc_truncate d = 0") (simp_all add: js_rem_def code v_def)
  have v: "0 \<le> v" "v < 10 ^ 6" by (simp_all add: v_def)
  then have six: "nat v < 10 ^ Suc 5" by simp
  have "pad6 (dec v) = digits (Suc 5) (nat v)"
    using pad_digits [OF six] v(1) by (simp add: pad6_def dec_def del: digits.simps)
  then have "pad6 (dec v) = rfc_code hmac secret c"
    by (simp add: rfc_code_def d_def [symmetric] v_def del: digits.simps)
  with c rem show ?thesis by (simp add: hotp_def d_def [symmetric])
qed

lemma try_counters_any:
  assumes "\<forall>c \<in> set cs. hotp hmac secret c = Inr (code c)"
  shows "try_counters hmac secret clean cs = Inr (clean \<in> code ` set cs)"
  using assms by (induction cs) auto

text \<open>
  C12.  The code check is that of RFC 6238 with a window of one step: a token is accepted exactly when,
  white space removed, it is the six-digit code of the standard for the current period of 30 seconds, the
  one before or the one after.  The digest is that of SHA-1, 20 bytes, and the clock is past the first
  period.
\<close>

theorem totp_follows_rfc:
  assumes len: "\<forall>k m. length (hmac k m) = 20" and now: "30000 \<le> now" "now < 2 ^ 64"
  shows "verifyTotp hmac now secret token =
    Inr (\<exists>w \<in> {-1, 0, 1}. filter (\<lambda>c. \<not> js_space c) token = rfc_code hmac secret (now div 30000 + w))"
proof -
  define clean where "clean = filter (\<lambda>c. \<not> js_space c) token"
  have T: "now div 1000 div 30 = now div 30000" by (simp add: zdiv_zmult2_eq [symmetric])
  have "now < 18446744073709551616" using now(2) by simp
  with now(1) have T1: "1 \<le> now div 30000" "now div 30000 + 1 < 18446744073709551616" by linarith+
  show ?thesis
  proof (cases "six_digits clean")
    case True
    have "\<forall>c \<in> set (map (\<lambda>w. now div 30000 + w) [-1, 0, 1]). hotp hmac secret c = Inr (rfc_code hmac secret c)"
      using T1 by (intro ballI hotp_rfc len) (auto simp del: digits.simps)
    from try_counters_any [OF this, of clean] True show ?thesis
      by (auto simp: verifyTotp_def Let_def T clean_def [symmetric])
  next
    case False
    have dd: "length (digits k n) = k \<and> list_all is_digit (digits k n)" for k n
    proof (induction k arbitrary: n)
      case 0
      then show ?case by simp
    next
      case (Suc k)
      then show ?case by (simp add: is_digit_def Let_def)
    qed
    then have "six_digits (rfc_code hmac secret c)" for c by (simp add: rfc_code_def six_digits_def)
    with False show ?thesis by (auto simp: verifyTotp_def Let_def clean_def [symmetric])
  qed
qed

theorem totp_follows_rfc_witness:
  "verifyTotp (\<lambda>k m. replicate 20 0) 30000 ''A'' ''000 000'' = Inr True"
proof -
  have "rfc_code (\<lambda>k m. replicate 20 0) ''A'' 1 = ''000000''"
  proof -
    have "rfc_truncate (replicate 20 0) = 0" by (simp add: rfc_truncate_def Let_def numeral_eq_Suc)
    moreover have "digits 6 0 = ''000000''" by code_simp
    ultimately show ?thesis by (simp add: rfc_code_def)
  qed
  moreover have "filter (\<lambda>c. \<not> js_space c) ''000 000'' = ''000000''" by code_simp
  ultimately show ?thesis by (subst totp_follows_rfc) simp_all
qed

end
