(* ===== verification/Slugs.thy ===== *)
theory Slugs
  imports Prelude
begin

text \<open>
  Slugs: the text made of a name (\<open>slugify\<close> of \<open>auth.service.ts\<close> and of
  \<open>merchant-products.service.ts\<close>) and the loop that numbers it until it is free.
\<close>

definition slug_char :: "char \<Rightarrow> bool" where
  "slug_char c \<longleftrightarrow> (let n = (of_char c :: nat) in 97 \<le> n \<and> n \<le> 122 \<or> 48 \<le> n \<and> n \<le> 57)"

text \<open>\<open>.replace(/[^a-z0-9]+/g, '-')\<close>; the flag says whether the run has its dash already.\<close>

fun dash_runs :: "bool \<Rightarrow> string \<Rightarrow> string" where
  "dash_runs dashed [] = []"
| "dash_runs dashed (c # cs) =
    (if slug_char c then c # dash_runs False cs
     else if dashed then dash_runs True cs
     else CHR ''-'' # dash_runs True cs)"

text \<open>\<open>.replace(/^-|-$/g, '')\<close>.\<close>

definition strip_dashes :: "string \<Rightarrow> string" where
  "strip_dashes t =
    (let u = (if t \<noteq> [] \<and> hd t = CHR ''-'' then tl t else t) in
     if u \<noteq> [] \<and> last u = CHR ''-'' then butlast u else u)"

definition slugify :: "nat \<Rightarrow> string \<Rightarrow> string" where
  "slugify n input = take n (strip_dashes (dash_runs False (js_trim (js_lower input))))"

text \<open>The text of the number \<open>i\<close> after the base, from 1 on.\<close>

definition numbered :: "string \<Rightarrow> nat \<Rightarrow> string" where
  "numbered base i = (if i = 0 then base else base @ ''-'' @ dec_nat i)"

section \<open>Decimal texts\<close>

lemma dec_nat_value: "foldl (\<lambda>a c. 10 * a + (of_char c - 48)) (0 :: nat) (dec_nat n) = n"
proof (induction n rule: dec_nat.induct)
  case (1 n)
  then show ?case by (subst dec_nat.simps) simp
qed

lemma inj_dec_nat: "inj dec_nat"
  by (rule inj_on_inverseI [where g = "foldl (\<lambda>a c. 10 * a + (of_char c - 48)) (0 :: nat)"]) (rule dec_nat_value)

lemma inj_numbered: "inj (numbered base)"
  by (rule injI) (auto simp: numbered_def dest: injD [OF inj_dec_nat] split: if_splits)

lemma dec_nat_nonempty [simp]: "dec_nat n \<noteq> []"
  by (subst dec_nat.simps) simp

section \<open>The loop\<close>

text \<open>
  \<open>while (taken(slug)) slug = `${slugBase}-${i++}`\<close>, started at number 0 for the base itself.  It ends,
  because every round finds another one of finitely many taken slugs.
\<close>

definition taken_from :: "string list \<Rightarrow> string \<Rightarrow> nat \<Rightarrow> nat set" where
  "taken_from taken base i = {j. i \<le> j \<and> numbered base j \<in> set taken}"

lemma finite_taken_from: "finite (taken_from taken base i)"
proof -
  have "finite (numbered base -` set taken)" by (intro finite_vimageI inj_numbered) simp
  then show ?thesis by (rule rev_finite_subset) (auto simp: taken_from_def)
qed

function free_slug :: "string list \<Rightarrow> string \<Rightarrow> nat \<Rightarrow> string" where
  "free_slug taken base i =
    (if numbered base i \<in> set taken then free_slug taken base (Suc i) else numbered base i)"
  by pat_completeness auto
termination
proof (relation "measure (\<lambda>(taken, base, i). card (taken_from taken base i))")
  fix taken base i
  assume t: "numbered base i \<in> set taken"
  have "taken_from taken base (Suc i) \<subset> taken_from taken base i"
  proof
    show "taken_from taken base (Suc i) \<subseteq> taken_from taken base i" by (auto simp: taken_from_def)
    have "i \<in> taken_from taken base i" "i \<notin> taken_from taken base (Suc i)" using t by (auto simp: taken_from_def)
    then show "taken_from taken base (Suc i) \<noteq> taken_from taken base i" by blast
  qed
  then have "card (taken_from taken base (Suc i)) < card (taken_from taken base i)"
    by (rule psubset_card_mono [OF finite_taken_from])
  then show "((taken, base, Suc i), taken, base, i) \<in> measure (\<lambda>(taken, base, i). card (taken_from taken base i))"
    by simp
qed simp

declare free_slug.simps [simp del]

lemma free_slug_free: "free_slug taken base i \<notin> set taken"
  by (induction taken base i rule: free_slug.induct) (subst free_slug.simps, simp)

lemma free_slug_number: "\<exists>j \<ge> i. free_slug taken base i = numbered base j \<and> (\<forall>k. i \<le> k \<and> k < j \<longrightarrow> numbered base k \<in> set taken)"
proof (induction taken base i rule: free_slug.induct)
  case (1 taken base i)
  show ?case
  proof (cases "numbered base i \<in> set taken")
    case True
    with 1 obtain j where "j \<ge> Suc i" "free_slug taken base (Suc i) = numbered base j"
      "\<forall>k. Suc i \<le> k \<and> k < j \<longrightarrow> numbered base k \<in> set taken" by blast
    with True show ?thesis
      by (subst free_slug.simps) (metis Suc_leD Suc_leI le_neq_implies_less)
  next
    case False
    then show ?thesis by (subst free_slug.simps) auto
  qed
qed

section \<open>Shape of a slug\<close>

lemma dash_runs_chars: "c \<in> set (dash_runs d t) \<Longrightarrow> slug_char c \<or> c = CHR ''-''"
  by (induction d t rule: dash_runs.induct) (auto split: if_splits)

lemma set_strip_dashes: "set (strip_dashes t) \<subseteq> set t"
  by (auto simp: strip_dashes_def Let_def dest: in_set_butlastD list.set_sel(2) split: if_splits)

lemma slugify_chars: "c \<in> set (slugify n t) \<Longrightarrow> slug_char c \<or> c = CHR ''-''"
  unfolding slugify_def by (blast dest: in_set_takeD set_strip_dashes [THEN subsetD] dash_runs_chars)

lemma slugify_length: "length (slugify n t) \<le> n"
  by (simp add: slugify_def)

end
