(* ===== verification/Auth.thy ===== *)
theory Auth
  imports Outbox Slugs Totp
begin

text \<open>
  Accounts and sessions: \<open>auth/auth.service.ts\<close> and \<open>auth/jwt.strategy.ts\<close>.  bcrypt, SHA-256, the keyed
  hash and the signed tokens of \<open>@nestjs/jwt\<close> are fields of \<open>auth_env\<close>, with the configuration the
  service reads.  A random text (\<open>randomBytes(...).toString('hex')\<close>, \<open>randomUUID()\<close>, a salt) is a fresh
  value of the id supply.  A signed token is a text that carries its claims and its expiry.
\<close>

section \<open>Tables\<close>

datatype user_status = US_ACTIVE | US_INACTIVE | US_SUSPENDED | US_PENDING_VERIFICATION

record user_row =
  us_id :: string
  us_email :: string
  us_phone :: "string option"
  us_passwordHash :: string
  us_name :: string
  us_company :: "string option"
  us_role :: role
  us_status :: user_status
  us_emailVerifiedAt :: "int option"
  us_phoneVerifiedAt :: "int option"
  us_emailVerifyToken :: "string option"
  us_emailVerifyExpires :: "int option"
  us_passwordResetToken :: "string option"
  us_passwordResetExpires :: "int option"
  us_failedLoginAttempts :: int
  us_lockedUntil :: "int option"
  us_twoFactorEnabled :: bool
  us_twoFactorSecret :: "string option"
  us_totpVerifiedAt :: "int option"
  us_shopId :: "string option"
  us_tenantId :: "string option"

record refresh_row =
  rt_id :: string
  rt_userId :: string
  rt_familyId :: string
  rt_tokenHash :: string
  rt_expiresAt :: int
  rt_revokedAt :: "int option"
  rt_replacedBy :: "string option"

record auth_db = bus_db +
  users :: "user_row list"
  refresh_tokens :: "refresh_row list"

section \<open>What the service is given\<close>

record jwt_claims =
  cl_sub :: string
  cl_email :: "string option"
  cl_role :: "role option"
  cl_shopId :: "string option"
  cl_purpose :: "string option"
  cl_mfa :: bool

record auth_env =
  ev_sha256 :: "string \<Rightarrow> string"
  ev_bcrypt :: "string \<Rightarrow> string \<Rightarrow> string"
  ev_compare :: "string \<Rightarrow> string \<Rightarrow> bool"
  ev_hmac :: "bytes \<Rightarrow> bytes \<Rightarrow> bytes"
  ev_sign :: "jwt_claims \<Rightarrow> int \<Rightarrow> string"
  ev_verify :: "string \<Rightarrow> int \<Rightarrow> jwt_claims option"
  ev_accessTtl :: int
  ev_nodeEnv :: "string option"
  ev_allowDemo :: "string option"
  ev_refreshDays :: "string option"

definition MAX_FAILED :: int where "MAX_FAILED = 5"
definition LOCK_MS :: int where "LOCK_MS = 15 * 60 * 1000"
definition DAY_MS :: int where "DAY_MS = 24 * 60 * 60 * 1000"

definition isProd :: "auth_env \<Rightarrow> bool" where
  "isProd env \<longleftrightarrow> ev_nodeEnv env = Some ''production''"

text \<open>\<open>REFRESH_TOKEN_DAYS\<close> in decimal digits.\<close>

definition refreshTtlDays :: "auth_env \<Rightarrow> int" where
  "refreshTtlDays env =
    (let n = (case or_else (ev_refreshDays env) None of None \<Rightarrow> 30 | Some t \<Rightarrow> text_Number t) in
     if 0 < n then n else 30)"

definition refreshExpiresAt :: "auth_env \<Rightarrow> int \<Rightarrow> int" where
  "refreshExpiresAt env now = now + refreshTtlDays env * DAY_MS"

definition auth_audit :: "string option \<Rightarrow> string \<Rightarrow> string \<Rightarrow> string option \<Rightarrow> ('z core_db_scheme, unit) act" where
  "auth_audit actor action ety eid =
    createA audit_log_update \<lparr>au_actorId = actor, au_action = action, au_entityType = ety, au_entityId = eid\<rparr>"

text \<open>The result of a pure function that may throw.\<close>

definition sumA :: "exn + 'a \<Rightarrow> ('s, 'a) act" where
  "sumA r = (case r of Inl e \<Rightarrow> throwA e | Inr x \<Rightarrow> returnA x)"

definition norm_email :: "string \<Rightarrow> string" where
  "norm_email t = js_lower (js_trim t)"

definition user_by :: "(user_row \<Rightarrow> bool) \<Rightarrow> ('z auth_db_scheme, user_row option) act" where
  "user_by P = getsA (\<lambda>s. find_row P (users s))"

definition update_user :: "string \<Rightarrow> (user_row \<Rightarrow> user_row) \<Rightarrow> ('z auth_db_scheme, unit) act" where
  "update_user i f = updateA users users_update (\<lambda>u. us_id u = i) f"

text \<open>The key, \<open>email\<close>, \<open>phone\<close> and \<open>shopId\<close> are unique columns; null is not compared.\<close>

definition user_taken :: "user_row \<Rightarrow> user_row \<Rightarrow> bool" where
  "user_taken new u \<longleftrightarrow>
    us_id u = us_id new \<or> us_email u = us_email new \<or> (us_phone new \<noteq> None \<and> us_phone u = us_phone new) \<or>
    (us_shopId new \<noteq> None \<and> us_shopId u = us_shopId new)"

definition create_user :: "user_row \<Rightarrow> ('z auth_db_scheme, unit) act" where
  "create_user u = createUniqueA users users_update (user_taken u) u"

section \<open>Sessions\<close>

record user_view =
  uv_id :: string
  uv_email :: string
  uv_phone :: "string option"
  uv_name :: string
  uv_role :: role
  uv_shopId :: "string option"
  uv_twoFactorEnabled :: bool
  uv_emailVerified :: bool

record session =
  se_accessToken :: string
  se_refreshToken :: string
  se_user :: user_view

definition user_view_of :: "user_row \<Rightarrow> user_view" where
  "user_view_of u =
    \<lparr>uv_id = us_id u, uv_email = us_email u, uv_phone = us_phone u, uv_name = us_name u, uv_role = us_role u,
     uv_shopId = us_shopId u, uv_twoFactorEnabled = us_twoFactorEnabled u,
     uv_emailVerified = (us_emailVerifiedAt u \<noteq> None)\<rparr>"

definition access_claims :: "user_row \<Rightarrow> jwt_claims" where
  "access_claims u =
    \<lparr>cl_sub = us_id u, cl_email = Some (us_email u), cl_role = Some (us_role u), cl_shopId = us_shopId u,
     cl_purpose = None, cl_mfa = False\<rparr>"

definition create_refresh :: "refresh_row \<Rightarrow> ('z auth_db_scheme, unit) act" where
  "create_refresh r = createUniqueA refresh_tokens refresh_tokens_update 
    (\<lambda>x. rt_id x = rt_id r \<or> rt_tokenHash x = rt_tokenHash r) r"

definition revoke_where :: "(refresh_row \<Rightarrow> bool) \<Rightarrow> ('z auth_db_scheme, unit) act" where
  "revoke_where P =
    bindA (getsA clock) (\<lambda>now.
    updateManyA refresh_tokens_update (\<lambda>r. P r \<and> rt_revokedAt r = None) (\<lambda>r. r\<lparr>rt_revokedAt := Some now\<rparr>))"

definition issueTokens :: "auth_env \<Rightarrow> user_row \<Rightarrow> ('z auth_db_scheme, session) act" where
  "issueTokens env user =
    bindA (getsA clock) (\<lambda>now.
    bindA newIdA (\<lambda>familyId.
    bindA newIdA (\<lambda>refreshRaw.
    bindA newIdA (\<lambda>i.
    thenA (create_refresh
      \<lparr>rt_id = i, rt_userId = us_id user, rt_familyId = familyId, rt_tokenHash = ev_sha256 env refreshRaw,
       rt_expiresAt = refreshExpiresAt env now, rt_revokedAt = None, rt_replacedBy = None\<rparr>)
      (returnA \<lparr>se_accessToken = ev_sign env (access_claims user) (now + ev_accessTtl env),
        se_refreshToken = refreshRaw, se_user = user_view_of user\<rparr>)))))"

text \<open>\<open>refresh\<close> up to the last check, and the rotation it then makes.\<close>

definition refresh_checks :: "auth_env \<Rightarrow> string \<Rightarrow> ('z auth_db_scheme, refresh_row \<times> user_row) act" where
  "refresh_checks env refreshToken =
    thenA (guardA (js_trim refreshToken \<noteq> []) (Unauthorized ''No refresh token''))
    (bindA (getsA (\<lambda>s. find_row (\<lambda>r. rt_tokenHash r = ev_sha256 env refreshToken) (refresh_tokens s))) (\<lambda>found.
     bindA (someA found (Unauthorized ''Invalid refresh token'')) (\<lambda>existing.
     bindA (user_by (\<lambda>u. us_id u = rt_userId existing)) (\<lambda>ufound.
     bindA (getsA clock) (\<lambda>now.
     if rt_revokedAt existing \<noteq> None then
       thenA (revoke_where (\<lambda>r. rt_familyId r = rt_familyId existing))
       (thenA (auth_audit (Some (rt_userId existing)) ''REFRESH_REUSE_DETECTED'' ''RefreshToken'' (Some (rt_id existing)))
         (throwA (Unauthorized ''Refresh token reuse detected'')))
     else if rt_expiresAt existing < now then
       thenA (updateA refresh_tokens refresh_tokens_update (\<lambda>r. rt_id r = rt_id existing) (\<lambda>r. r\<lparr>rt_revokedAt := Some now\<rparr>))
         (throwA (Unauthorized ''Refresh token expired''))
     else
       bindA (someA ufound (RawError ''TypeError'')) (\<lambda>user.
       if us_status user = US_SUSPENDED \<or> us_status user = US_INACTIVE then
         thenA (revoke_where (\<lambda>r. rt_familyId r = rt_familyId existing)) (throwA (Forbidden ''Account suspended''))
       else returnA (existing, user)))))))"

definition refresh_rotate ::
  "auth_env \<Rightarrow> refresh_row \<Rightarrow> user_row \<Rightarrow> ('z auth_db_scheme, string \<times> string) act" where
  "refresh_rotate env existing user =
    bindA (getsA clock) (\<lambda>now.
    bindA newIdA (\<lambda>newRefreshRaw.
    bindA newIdA (\<lambda>i.
    thenA (create_refresh
      \<lparr>rt_id = i, rt_userId = rt_userId existing, rt_familyId = rt_familyId existing,
       rt_tokenHash = ev_sha256 env newRefreshRaw, rt_expiresAt = refreshExpiresAt env now,
       rt_revokedAt = None, rt_replacedBy = None\<rparr>)
    (thenA (updateA refresh_tokens refresh_tokens_update (\<lambda>r. rt_id r = rt_id existing)
      (\<lambda>r. r\<lparr>rt_revokedAt := Some now, rt_replacedBy := Some i\<rparr>))
    (thenA (auth_audit (Some (us_id user)) ''REFRESH_ROTATED'' ''RefreshToken'' (Some i))
      (returnA (ev_sign env (access_claims user) (now + ev_accessTtl env), newRefreshRaw)))))))"

definition refresh :: "auth_env \<Rightarrow> string \<Rightarrow> ('z auth_db_scheme, string \<times> string) act" where
  "refresh env refreshToken =
    bindA (refresh_checks env refreshToken) (\<lambda>(existing, user). refresh_rotate env existing user)"

definition revokeToken :: "auth_env \<Rightarrow> string \<Rightarrow> ('z auth_db_scheme, unit) act" where
  "revokeToken env refreshToken = revoke_where (\<lambda>r. rt_tokenHash r = ev_sha256 env refreshToken)"

definition logout :: "auth_env \<Rightarrow> string option \<Rightarrow> string option \<Rightarrow> ('z auth_db_scheme, unit) act" where
  "logout env refreshToken userId =
    (if truthy refreshToken then revokeToken env (the refreshToken)
     else if truthy userId then revoke_where (\<lambda>r. rt_userId r = the userId)
     else returnA ())"

section \<open>Registration\<close>

record register_customer =
  rc_email :: "string option"
  rc_phone :: "string option"
  rc_password :: string
  rc_name :: string

record register_merchant =
  rm_email :: string
  rm_phone :: "string option"
  rm_password :: string
  rm_name :: string
  rm_shopName :: string
  rm_shopSlug :: "string option"

text \<open>\<open>bcrypt.hash\<close> draws its salt.\<close>

definition hash_password :: "auth_env \<Rightarrow> string \<Rightarrow> ('z auth_db_scheme, string) act" where
  "hash_password env pw = bindA newIdA (\<lambda>salt. returnA (ev_bcrypt env pw salt))"

definition free_email :: "string option \<Rightarrow> ('z auth_db_scheme, unit) act" where
  "free_email e =
    (case e of
      None \<Rightarrow> returnA ()
    | Some x \<Rightarrow> bindA (user_by (\<lambda>u. us_email u = x)) (\<lambda>found. guardA (found = None) (Conflict ''Email already registered'')))"

definition free_phone :: "string option \<Rightarrow> ('z auth_db_scheme, unit) act" where
  "free_phone p =
    (case p of
      None \<Rightarrow> returnA ()
    | Some x \<Rightarrow> bindA (user_by (\<lambda>u. us_phone u = Some x)) (\<lambda>found. guardA (found = None) (Conflict ''Phone already registered'')))"

text \<open>
  The verification token is drawn only with an email.  The result is the session and the token, which is
  given back outside of production.
\<close>

definition registerCustomer :: "auth_env \<Rightarrow> register_customer \<Rightarrow> ('z auth_db_scheme, session \<times> string option) act" where
  "registerCustomer env dto =
    (let email = or_else (map_option norm_email (rc_email dto)) None;
         phone = or_else (map_option js_trim (rc_phone dto)) None in
     thenA (guardA (email \<noteq> None \<or> phone \<noteq> None) (BadRequest ''Email or phone required''))
     (thenA (free_email email)
     (thenA (free_phone phone)
     (bindA (hash_password env (rc_password dto)) (\<lambda>passwordHash.
      bindA (if email = None then returnA None else bindA newIdA (\<lambda>t. returnA (Some t))) (\<lambda>verifyToken.
      bindA newIdA (\<lambda>i.
      bindA (getsA clock) (\<lambda>now.
      let user =
        \<lparr>us_id = i, us_email = (case email of Some e \<Rightarrow> e | None \<Rightarrow> ''phone_'' @ the phone @ ''@mplace.local''),
         us_phone = phone, us_passwordHash = passwordHash, us_name = js_trim (rc_name dto), us_company = None,
         us_role = CUSTOMER, us_status = (if email \<noteq> None then US_PENDING_VERIFICATION else US_ACTIVE),
         us_emailVerifiedAt = (if email \<noteq> None then None else Some now),
         us_phoneVerifiedAt = (if phone \<noteq> None \<and> email = None then Some now else None),
         us_emailVerifyToken = map_option (ev_sha256 env) verifyToken,
         us_emailVerifyExpires = map_option (\<lambda>_. now + DAY_MS) verifyToken,
         us_passwordResetToken = None, us_passwordResetExpires = None, us_failedLoginAttempts = 0,
         us_lockedUntil = None, us_twoFactorEnabled = False, us_twoFactorSecret = None,
         us_totpVerifiedAt = None, us_shopId = None, us_tenantId = None\<rparr> in
      thenA (create_user user)
      (thenA (auth_audit (Some i) ''AUTH_REGISTER'' ''User'' (Some i))
      (bindA (issueTokens env user) (\<lambda>tokens.
       returnA (tokens, if isProd env then None else verifyToken))))))))))))"

text \<open>The shop is written before the user and outside of a transaction.\<close>

definition registerMerchant :: "auth_env \<Rightarrow> register_merchant \<Rightarrow> ('z auth_db_scheme, session \<times> string option) act" where
  "registerMerchant env dto =
    (let email = norm_email (rm_email dto) in
     thenA (free_email (Some email))
     (bindA (getsA (\<lambda>s. map sh_slug (shops s))) (\<lambda>taken.
      let base = (case or_else (map_option js_trim (rm_shopSlug dto)) None of Some t \<Rightarrow> t | None \<Rightarrow> slugify 60 (rm_shopName dto));
          slug = free_slug taken base 0 in
      bindA (hash_password env (rm_password dto)) (\<lambda>passwordHash.
      bindA newIdA (\<lambda>verifyToken.
      bindA newIdA (\<lambda>shopId.
      thenA (createUniqueA shops shops_update (\<lambda>x. sh_id x = shopId \<or> sh_slug x = slug)
        \<lparr>sh_id = shopId, sh_name = js_trim (rm_shopName dto), sh_slug = slug, sh_status = SH_PENDING, sh_verified = False,
         sh_tenantId = None, sh_stripeAccountId = None, sh_stripeAccountStatus = None, sh_chargesEnabled = False,
         sh_payoutsEnabled = False, sh_detailsSubmitted = False, sh_stripeOnboardedAt = None, sh_kycNotes = None,
         sh_rejectionReason = None, sh_description = None,
         sh_legalName = None, sh_taxId = None, sh_country = None, sh_address = None, sh_payoutDetails = None\<rparr>)
      (bindA newIdA (\<lambda>i.
       bindA (getsA clock) (\<lambda>now.
       let user =
         \<lparr>us_id = i, us_email = email, us_phone = or_else (map_option js_trim (rm_phone dto)) None,
          us_passwordHash = passwordHash, us_name = js_trim (rm_name dto), us_company = None, us_role = MERCHANT,
          us_status = US_PENDING_VERIFICATION, us_emailVerifiedAt = None, us_phoneVerifiedAt = None,
          us_emailVerifyToken = Some (ev_sha256 env verifyToken), us_emailVerifyExpires = Some (now + DAY_MS),
          us_passwordResetToken = None, us_passwordResetExpires = None, us_failedLoginAttempts = 0,
          us_lockedUntil = None, us_twoFactorEnabled = False, us_twoFactorSecret = None,
          us_totpVerifiedAt = None, us_shopId = Some shopId, us_tenantId = None\<rparr> in
       thenA (create_user user)
       (thenA (auth_audit (Some i) ''AUTH_REGISTER_MERCHANT'' ''Shop'' (Some shopId))
       (bindA (issueTokens env user) (\<lambda>tokens.
        returnA (tokens, if isProd env then None else Some verifyToken)))))))))))))"

section \<open>Login\<close>

record login_dto =
  lg_email :: "string option"
  lg_phone :: "string option"
  lg_password :: string
  lg_totpCode :: "string option"

datatype login_result = LoggedIn session | MfaRequired bool string

text \<open>The check of a code against the user's secret, as every caller of \<open>verifyTotp\<close> makes it.\<close>

definition totp_ok :: "auth_env \<Rightarrow> user_row \<Rightarrow> string \<Rightarrow> ('z auth_db_scheme, bool) act" where
  "totp_ok env user code =
    (case or_else (us_twoFactorSecret user) None of
      None \<Rightarrow> returnA False
    | Some secret \<Rightarrow> bindA (getsA clock) (\<lambda>now. sumA (verifyTotp (ev_hmac env) now secret code)))"

definition mfa_claims :: "string \<Rightarrow> string \<Rightarrow> jwt_claims" where
  "mfa_claims userId purpose =
    \<lparr>cl_sub = userId, cl_email = None, cl_role = None, cl_shopId = None, cl_purpose = Some purpose, cl_mfa = True\<rparr>"

definition signMfaTempToken :: "auth_env \<Rightarrow> string \<Rightarrow> string \<Rightarrow> ('z auth_db_scheme, string) act" where
  "signMfaTempToken env userId purpose =
    bindA (getsA clock) (\<lambda>now. returnA (ev_sign env (mfa_claims userId purpose) (now + 5 * 60 * 1000)))"

definition verifyMfaTempToken :: "auth_env \<Rightarrow> string \<Rightarrow> string list \<Rightarrow> ('z auth_db_scheme, string) act" where
  "verifyMfaTempToken env tempToken allowed =
    bindA (getsA clock) (\<lambda>now.
    bindA (someA (ev_verify env tempToken now) (Unauthorized ''Invalid or expired MFA token'')) (\<lambda>payload.
    thenA (guardA (cl_sub payload \<noteq> [] \<and> truthy (cl_purpose payload) \<and> the (cl_purpose payload) \<in> set allowed)
        (Unauthorized ''Invalid MFA token purpose''))
      (returnA (cl_sub payload))))"

definition finalizeLogin :: "auth_env \<Rightarrow> user_row \<Rightarrow> ('z auth_db_scheme, session) act" where
  "finalizeLogin env user =
    thenA (update_user (us_id user) (\<lambda>u. u\<lparr>us_failedLoginAttempts := 0, us_lockedUntil := None\<rparr>))
    (thenA (auth_audit (Some (us_id user)) ''LOGIN_SUCCESS'' ''User'' (Some (us_id user)))
      (issueTokens env user))"

definition skipAdminMfaEnroll :: "auth_env \<Rightarrow> bool" where
  "skipAdminMfaEnroll env \<longleftrightarrow>
    (let demo = js_trim (js_lower (case ev_allowDemo env of None \<Rightarrow> [] | Some t \<Rightarrow> t));
         nodeEnv = js_lower (case ev_nodeEnv env of None \<Rightarrow> [] | Some t \<Rightarrow> t) in
     demo \<in> {''true'', ''1'', ''yes''} \<and> nodeEnv \<noteq> ''production'' \<and> nodeEnv \<noteq> ''staging'')"

text \<open>The wrong password: the counter, and the lock at the fifth failure.\<close>

definition failed_password :: "user_row \<Rightarrow> ('z auth_db_scheme, 'a) act" where
  "failed_password user =
    bindA (getsA clock) (\<lambda>now.
    let attempts = us_failedLoginAttempts user + 1; locks = (MAX_FAILED \<le> attempts) in
    thenA (update_user (us_id user) (\<lambda>u.
      if locks then u\<lparr>us_failedLoginAttempts := 0, us_lockedUntil := Some (now + LOCK_MS)\<rparr>
      else u\<lparr>us_failedLoginAttempts := attempts\<rparr>))
    (thenA (auth_audit (Some (us_id user)) ''LOGIN_FAIL'' [] None)
      (throwA (Unauthorized (if locks then ''Too many failed attempts'' else ''Invalid credentials'')))))"

text \<open>The second factor with the code of the request, or the token to give it with.\<close>

definition second_factor :: "auth_env \<Rightarrow> user_row \<Rightarrow> string option \<Rightarrow> ('z auth_db_scheme, login_result) act" where
  "second_factor env user totpCode =
    (if \<not> truthy totpCode then
       bindA (signMfaTempToken env (us_id user) ''mfa'') (\<lambda>t. returnA (MfaRequired False t))
     else
       bindA (totp_ok env user (the totpCode)) (\<lambda>ok.
       if \<not> ok then
         thenA (auth_audit (Some (us_id user)) ''LOGIN_2FA_FAIL'' [] None) (throwA (Unauthorized ''Invalid 2FA code''))
       else bindA (finalizeLogin env user) (\<lambda>x. returnA (LoggedIn x))))"

definition login :: "auth_env \<Rightarrow> login_dto \<Rightarrow> ('z auth_db_scheme, login_result) act" where
  "login env dto =
    (let email = or_else (map_option norm_email (lg_email dto)) None;
         phone = or_else (map_option js_trim (lg_phone dto)) None in
     thenA (guardA (email \<noteq> None \<or> phone \<noteq> None) (BadRequest ''Email or phone required''))
     (bindA (user_by (\<lambda>u. if email \<noteq> None then us_email u = the email else us_phone u = phone)) (\<lambda>found.
      bindA (getsA clock) (\<lambda>now.
      case found of
        None \<Rightarrow> thenA (auth_audit None ''LOGIN_FAIL'' [] None) (throwA (Unauthorized ''Invalid credentials''))
      | Some user \<Rightarrow>
          if (case us_lockedUntil user of None \<Rightarrow> False | Some t \<Rightarrow> now < t) then
            thenA (auth_audit (Some (us_id user)) ''LOGIN_LOCKED'' [] None) (throwA (Forbidden ''Account locked''))
          else if us_status user = US_SUSPENDED \<or> us_status user = US_INACTIVE then
            throwA (Forbidden ''Account suspended'')
          else if \<not> ev_compare env (lg_password dto) (us_passwordHash user) then failed_password user
          else
            let admin = (us_role user = ADMIN \<or> us_role user = SUPER_ADMIN) in
            if admin \<and> \<not> (skipAdminMfaEnroll env \<and> \<not> us_twoFactorEnabled user) then
              if \<not> us_twoFactorEnabled user then
                bindA (signMfaTempToken env (us_id user) ''mfa_enroll'') (\<lambda>t.
                thenA (auth_audit (Some (us_id user)) ''LOGIN_MFA_ENROLL_REQUIRED'' [] None)
                  (returnA (MfaRequired True t)))
              else second_factor env user (lg_totpCode dto)
            else if us_twoFactorEnabled user then second_factor env user (lg_totpCode dto)
            else bindA (finalizeLogin env user) (\<lambda>x. returnA (LoggedIn x))))))"

section \<open>Two-factor setup\<close>

definition verifyMfa :: "auth_env \<Rightarrow> string \<Rightarrow> string \<Rightarrow> ('z auth_db_scheme, session) act" where
  "verifyMfa env tempToken code =
    bindA (verifyMfaTempToken env tempToken [''mfa'', ''2fa'']) (\<lambda>userId.
    bindA (user_by (\<lambda>u. us_id u = userId)) (\<lambda>found.
    bindA (someA found (PrismaError ''P2025'')) (\<lambda>user.
    thenA (guardA (us_twoFactorEnabled user \<and> truthy (us_twoFactorSecret user)) (BadRequest ''TOTP not enabled''))
    (bindA (totp_ok env user code) (\<lambda>ok.
     if \<not> ok then
       thenA (auth_audit (Some (us_id user)) ''LOGIN_2FA_FAIL'' [] None) (throwA (Unauthorized ''Invalid TOTP code''))
     else finalizeLogin env user)))))"

text \<open>The 20 random bytes are an argument.  The result is the secret and the address; the picture of it is left out.\<close>

definition setup2fa :: "bytes \<Rightarrow> string \<Rightarrow> ('z auth_db_scheme, string \<times> string) act" where
  "setup2fa random userId =
    (let secret = generateTotpSecret random in
     bindA (updateRowA users users_update (\<lambda>u. us_id u = userId)
       (\<lambda>u. u\<lparr>us_twoFactorSecret := Some secret, us_twoFactorEnabled := False, us_totpVerifiedAt := None\<rparr>)) (\<lambda>user.
     returnA (secret, totpOtpauthUrl secret (us_email user))))"

definition enable2fa :: "auth_env \<Rightarrow> string \<Rightarrow> string \<Rightarrow> ('z auth_db_scheme, unit) act" where
  "enable2fa env userId code =
    bindA (user_by (\<lambda>u. us_id u = userId)) (\<lambda>found.
    bindA (someA found (PrismaError ''P2025'')) (\<lambda>user.
    thenA (guardA (truthy (us_twoFactorSecret user)) (BadRequest ''Call /auth/2fa/setup first''))
    (bindA (totp_ok env user code) (\<lambda>ok.
     thenA (guardA ok (Unauthorized ''Invalid TOTP code''))
     (bindA (getsA clock) (\<lambda>now.
      thenA (update_user userId (\<lambda>u. u\<lparr>us_twoFactorEnabled := True, us_totpVerifiedAt := Some now\<rparr>))
        (auth_audit (Some userId) ''2FA_ENABLED'' [] None)))))))"

definition disable2fa :: "auth_env \<Rightarrow> string \<Rightarrow> string \<Rightarrow> ('z auth_db_scheme, unit) act" where
  "disable2fa env userId code =
    bindA (user_by (\<lambda>u. us_id u = userId)) (\<lambda>found.
    bindA (someA found (PrismaError ''P2025'')) (\<lambda>user.
    thenA (guardA (\<not> (us_role user = ADMIN \<or> us_role user = SUPER_ADMIN)) (Forbidden ''MFA is mandatory''))
    (bindA (if us_twoFactorEnabled user then totp_ok env user code else returnA True) (\<lambda>ok.
     thenA (guardA ok (Unauthorized ''Invalid TOTP code''))
     (thenA (update_user userId (\<lambda>u. u\<lparr>us_twoFactorEnabled := False, us_twoFactorSecret := None, us_totpVerifiedAt := None\<rparr>))
       (auth_audit (Some userId) ''2FA_DISABLED'' [] None))))))"

definition setupTotpWithTemp :: "auth_env \<Rightarrow> bytes \<Rightarrow> string \<Rightarrow> ('z auth_db_scheme, string \<times> string) act" where
  "setupTotpWithTemp env random tempToken =
    bindA (verifyMfaTempToken env tempToken [''mfa_enroll'', ''mfa'', ''2fa'']) (setup2fa random)"

definition enableTotpWithTemp :: "auth_env \<Rightarrow> string \<Rightarrow> string \<Rightarrow> ('z auth_db_scheme, unit) act" where
  "enableTotpWithTemp env tempToken code =
    bindA (verifyMfaTempToken env tempToken [''mfa_enroll'', ''mfa'', ''2fa'']) (\<lambda>userId. enable2fa env userId code)"

definition validateTotp :: "auth_env \<Rightarrow> string \<Rightarrow> string \<Rightarrow> ('z auth_db_scheme, bool) act" where
  "validateTotp env userId code =
    bindA (user_by (\<lambda>u. us_id u = userId)) (\<lambda>found.
    bindA (someA found (PrismaError ''P2025'')) (\<lambda>user.
    if \<not> us_twoFactorEnabled user then returnA False else totp_ok env user code))"

section \<open>Email, password, profile\<close>

definition verifyEmail :: "auth_env \<Rightarrow> string \<Rightarrow> ('z auth_db_scheme, unit) act" where
  "verifyEmail env token =
    bindA (getsA clock) (\<lambda>now.
    bindA (user_by (\<lambda>u. us_emailVerifyToken u = Some (ev_sha256 env token) \<and>
      (case us_emailVerifyExpires u of None \<Rightarrow> False | Some t \<Rightarrow> now < t))) (\<lambda>found.
    bindA (someA found (BadRequest ''Invalid or expired token'')) (\<lambda>user.
    thenA (update_user (us_id user) (\<lambda>u. u\<lparr>us_emailVerifiedAt := Some now, us_emailVerifyToken := None,
        us_emailVerifyExpires := None,
        us_status := (if us_status user = US_PENDING_VERIFICATION then US_ACTIVE else us_status user)\<rparr>))
      (auth_audit (Some (us_id user)) ''EMAIL_VERIFIED'' ''User'' (Some (us_id user))))))"

text \<open>The token is given back outside of production; an unknown address gives the same answer without one.\<close>

definition requestPasswordReset :: "auth_env \<Rightarrow> string \<Rightarrow> ('z auth_db_scheme, string option) act" where
  "requestPasswordReset env rawEmail =
    (let email = norm_email rawEmail in
     bindA (user_by (\<lambda>u. us_email u = email)) (\<lambda>found.
     case found of
       None \<Rightarrow> returnA None
     | Some user \<Rightarrow>
         bindA newIdA (\<lambda>token.
         bindA (getsA clock) (\<lambda>now.
         thenA (update_user (us_id user) (\<lambda>u. u\<lparr>us_passwordResetToken := Some (ev_sha256 env token),
           us_passwordResetExpires := Some (now + 60 * 60 * 1000)\<rparr>))
         (thenA (auth_audit (Some (us_id user)) ''PASSWORD_RESET_REQUEST'' [] None)
           (returnA (if isProd env then None else Some token)))))))"

definition confirmPasswordReset :: "auth_env \<Rightarrow> string \<Rightarrow> string \<Rightarrow> ('z auth_db_scheme, unit) act" where
  "confirmPasswordReset env token password =
    bindA (getsA clock) (\<lambda>now.
    bindA (user_by (\<lambda>u. us_passwordResetToken u = Some (ev_sha256 env token) \<and>
      (case us_passwordResetExpires u of None \<Rightarrow> False | Some t \<Rightarrow> now < t))) (\<lambda>found.
    bindA (someA found (BadRequest ''Invalid or expired token'')) (\<lambda>user.
    bindA (hash_password env password) (\<lambda>passwordHash.
    thenA (update_user (us_id user) (\<lambda>u. u\<lparr>us_passwordHash := passwordHash, us_passwordResetToken := None,
      us_passwordResetExpires := None, us_failedLoginAttempts := 0, us_lockedUntil := None\<rparr>))
    (thenA (revoke_where (\<lambda>r. rt_userId r = us_id user))
      (auth_audit (Some (us_id user)) ''PASSWORD_RESET_DONE'' [] None))))))"

definition me :: "string \<Rightarrow> ('z auth_db_scheme, user_row \<times> shop_row option) act" where
  "me userId =
    bindA (user_by (\<lambda>u. us_id u = userId)) (\<lambda>found.
    bindA (someA found (Unauthorized [])) (\<lambda>user.
    bindA (getsA (\<lambda>s. find_row (\<lambda>x. Some (sh_id x) = us_shopId user) (shops s))) (\<lambda>shop.
    returnA (user, shop))))"

text \<open>\<open>undefined\<close> is \<open>None\<close>, \<open>null\<close> is \<open>Some None\<close>; a missing name and a name \<open>null\<close> are treated alike.\<close>

record profile_dto =
  pf_name :: "string option"
  pf_phone :: "string option option"
  pf_company :: "string option option"

definition trimmed :: "string option \<Rightarrow> string option" where
  "trimmed x = or_else (map_option js_trim x) None"

definition updateProfile :: "string \<Rightarrow> profile_dto \<Rightarrow> ('z auth_db_scheme, user_row \<times> shop_row option) act" where
  "updateProfile userId dto =
    (let name = map_option js_trim (pf_name dto); phone = map_option trimmed (pf_phone dto);
         company = map_option trimmed (pf_company dto) in
     thenA (guardA (name \<noteq> Some []) (BadRequest ''Name cannot be empty''))
     (thenA (case phone of
         Some (Some p) \<Rightarrow>
           bindA (user_by (\<lambda>u. us_phone u = Some p \<and> us_id u \<noteq> userId)) (\<lambda>taken.
           guardA (taken = None) (Conflict ''Phone already in use''))
       | _ \<Rightarrow> returnA ())
     (thenA (guardA (name \<noteq> None \<or> phone \<noteq> None \<or> company \<noteq> None) (BadRequest ''No profile fields to update''))
     (thenA (update_user userId (\<lambda>u. u\<lparr>us_name := (case name of None \<Rightarrow> us_name u | Some t \<Rightarrow> t),
         us_phone := (case phone of None \<Rightarrow> us_phone u | Some p \<Rightarrow> p),
         us_company := (case company of None \<Rightarrow> us_company u | Some c \<Rightarrow> c)\<rparr>))
     (thenA (auth_audit (Some userId) ''PROFILE_UPDATE'' ''User'' (Some userId))
       (me userId))))))"

section \<open>The bearer token of a request\<close>

text \<open>
  \<open>JwtStrategy\<close>: passport verifies the token with the service's secret and its expiry, \<open>validate\<close> loads the
  user of the claim \<open>sub\<close>.
\<close>

definition jwt_validate :: "jwt_claims \<Rightarrow> ('z auth_db_scheme, jwt_payload) act" where
  "jwt_validate payload =
    bindA (user_by (\<lambda>u. us_id u = cl_sub payload)) (\<lambda>found.
    case found of
      None \<Rightarrow> throwA (Unauthorized ''User inactive or not found'')
    | Some user \<Rightarrow>
        if us_status user \<noteq> US_ACTIVE then throwA (Unauthorized ''User inactive or not found'')
        else returnA \<lparr>sub = us_id user, email = us_email user, user_role = us_role user,
          user_shopId = us_shopId user, user_tenantId = us_tenantId user\<rparr>)"

definition bearer :: "auth_env \<Rightarrow> string \<Rightarrow> ('z auth_db_scheme, jwt_payload) act" where
  "bearer env token =
    bindA (getsA clock) (\<lambda>now.
    bindA (someA (ev_verify env token now) (Unauthorized [])) jwt_validate)"

end
