(* ===== verification/Auth_Facts.thy ===== *)
theory Auth_Facts
  imports Auth
begin

text \<open>
  The typing of the account tables (keys, unique columns, references) and the state of the refresh tokens
  (one live token per family), with one rule per step of the service that says it keeps both.
\<close>

section \<open>What is kept\<close>

definition unique_col :: "('r \<Rightarrow> string option) \<Rightarrow> 'r list \<Rightarrow> bool" where
  "unique_col g xs \<longleftrightarrow> distinct (List.map_filter g xs)"

definition accounts_typed :: "user_row list \<Rightarrow> shop_row list \<Rightarrow> bool" where
  "accounts_typed us shs \<longleftrightarrow>
    distinct (map us_id us) \<and> distinct (map us_email us) \<and> unique_col us_phone us \<and> unique_col us_shopId us \<and>
    distinct (map sh_id shs) \<and> distinct (map sh_slug shs) \<and>
    set (List.map_filter us_shopId us) \<subseteq> sh_id ` set shs"

definition live :: "refresh_row \<Rightarrow> bool" where
  "live r \<longleftrightarrow> rt_revokedAt r = None"

definition one_live :: "refresh_row list \<Rightarrow> bool" where
  "one_live ts \<longleftrightarrow>
    (\<forall>a \<in> set ts. \<forall>b \<in> set ts. live a \<longrightarrow> live b \<longrightarrow> rt_familyId a = rt_familyId b \<longrightarrow> a = b)"

definition tokens_sound :: "'z auth_db_scheme \<Rightarrow> bool" where
  "tokens_sound s \<longleftrightarrow>
    distinct (map rt_id (refresh_tokens s)) \<and> distinct (map rt_tokenHash (refresh_tokens s)) \<and>
    inj (id_supply s) \<and>
    (\<forall>r \<in> set (refresh_tokens s). rt_userId r \<in> us_id ` set (users s) \<and> rt_familyId r \<in> id_supply s ` {..<next_id s}) \<and>
    one_live (refresh_tokens s)"

text \<open>With the users and the shops a computation has already found.\<close>

definition auth_inv :: "string set \<Rightarrow> string set \<Rightarrow> 'z auth_db_scheme \<Rightarrow> bool" where
  "auth_inv X Y s \<longleftrightarrow>
    accounts_typed (users s) (shops s) \<and> tokens_sound s \<and> X \<subseteq> us_id ` set (users s) \<and> Y \<subseteq> sh_id ` set (shops s)"

named_theorems auth_keeps \<open>steps that keep the account invariant\<close>

section \<open>Columns\<close>

lemma map_filter_Nil [simp]: "List.map_filter g [] = []"
  by (simp add: map_filter_def)

lemma map_filter_Cons:
  "List.map_filter g (x # xs) = (case g x of None \<Rightarrow> List.map_filter g xs | Some y \<Rightarrow> y # List.map_filter g xs)"
  by (simp add: map_filter_def split: option.splits)

lemma map_filter_snoc:
  "List.map_filter g (xs @ [x]) = List.map_filter g xs @ (case g x of None \<Rightarrow> [] | Some y \<Rightarrow> [y])"
  by (simp add: map_filter_def split: option.splits)

lemma set_map_filter: "set (List.map_filter g xs) = {y. \<exists>x \<in> set xs. g x = Some y}"
  by (auto simp: map_filter_def intro!: image_eqI)

lemma map_filter_update_same:
  "(\<And>x. g (f x) = g x) \<Longrightarrow> List.map_filter g (update_where P f xs) = List.map_filter g xs"
  by (induction xs) (auto simp: map_filter_Cons split: option.splits)

lemma unique_col_snoc:
  "unique_col g (xs @ [x]) \<longleftrightarrow> unique_col g xs \<and> (\<forall>y \<in> set xs. g x \<noteq> None \<longrightarrow> g y \<noteq> g x)"
  by (cases "g x") (auto simp: unique_col_def map_filter_snoc set_map_filter)

lemma unique_col_update:
  assumes "unique_col g xs" and "distinct (map key xs)" and "\<forall>x. key (f x) = key x"
    and "\<forall>x \<in> set xs. key x = i \<longrightarrow> (\<forall>y \<in> set xs. key y \<noteq> i \<longrightarrow> g (f x) \<noteq> None \<longrightarrow> g y \<noteq> g (f x))"
  shows "unique_col g (update_where (\<lambda>x. key x = i) f xs)"
  using assms
proof (induction xs)
  case Nil
  then show ?case by simp
next
  case (Cons x xs)
  have tail: "unique_col g xs" "distinct (map key xs)"
    using Cons.prems(1,2) by (auto simp: unique_col_def map_filter_Cons split: option.splits)
  have IH: "unique_col g (update_where (\<lambda>x. key x = i) f xs)"
    by (rule Cons.IH [OF tail Cons.prems(3)]) (use Cons.prems(4) in auto)
  show ?case
  proof (cases "key x = i")
    case True
    with Cons.prems(2) have rest: "update_where (\<lambda>x. key x = i) f xs = xs"
      by (intro update_where_none) (auto simp: rev_image_eqI)
    have "\<forall>y \<in> set xs. key y \<noteq> i" using True Cons.prems(2) by (auto simp: rev_image_eqI)
    with True Cons.prems(4) have "\<forall>y \<in> set xs. g (f x) \<noteq> None \<longrightarrow> g y \<noteq> g (f x)" by auto
    with True rest tail show ?thesis
      by (auto simp: unique_col_def map_filter_Cons set_map_filter split: option.splits)
  next
    case False
    have "g x \<noteq> None \<longrightarrow> (\<forall>y \<in> set (update_where (\<lambda>x. key x = i) f xs). g y \<noteq> g x)"
      using Cons.prems(1,4) False
      by (auto simp: unique_col_def map_filter_Cons set_map_filter set_update_where split: option.splits if_splits)
    with False IH show ?thesis
      by (auto simp: unique_col_def map_filter_Cons set_map_filter split: option.splits)
  qed
qed

section \<open>The steps\<close>

lemma auth_inv_cong:
  assumes "auth_inv X Y s" "users s' = users s" "shops s' = shops s" "refresh_tokens s' = refresh_tokens s"
    "id_supply s' = id_supply s" "next_id s \<le> next_id s'"
  shows "auth_inv X Y s'"
proof -
  have "{..<next_id s} \<subseteq> {..<next_id s'}" using assms(6) by auto
  then have "id_supply s ` {..<next_id s} \<subseteq> id_supply s ` {..<next_id s'}" by (rule image_mono)
  with assms show ?thesis by (auto simp: auth_inv_def tokens_sound_def)
qed

lemma keeps_auth_audit [auth_keeps]: "keeps (auth_inv X Y) (auth_audit a b c d)"
  unfolding auth_audit_def by (rule keeps_createA) (erule auth_inv_cong; simp)

lemma keeps_auth_newId [auth_keeps]: "keeps (auth_inv X Y) newIdA"
  by (auto simp: keeps_def newIdA_def elim: auth_inv_cong)

lemma keeps_hash_password [auth_keeps]: "keeps (auth_inv X Y) (hash_password env pw)"
  unfolding hash_password_def by (intro keeps_bind keeps_auth_newId keeps_return)

lemma keeps_sumA [auth_keeps]: "keeps I (sumA r)"
  by (simp add: sumA_def keeps_return keeps_throw split: sum.splits)

text \<open>An update that leaves the key and the unique columns.\<close>

lemma keeps_update_user [auth_keeps]:
  assumes "\<And>u. us_id (f u) = us_id u" "\<And>u. us_email (f u) = us_email u" "\<And>u. us_phone (f u) = us_phone u"
    "\<And>u. us_shopId (f u) = us_shopId u"
  shows "keeps (auth_inv X Y) (update_user i f)"
  unfolding update_user_def
  by (rule keeps_updateA)
    (simp add: auth_inv_def accounts_typed_def tokens_sound_def unique_col_def assms map_update_where image_update_where
      map_filter_update_same)

lemma one_live_update:
  assumes "one_live ts" "\<And>r. \<not> live (f r)"
  shows "one_live (update_where P f ts)"
  using assms unfolding one_live_def set_update_where by (auto split: if_splits)

lemma one_live_snoc:
  assumes "one_live ts" "\<And>a. a \<in> set ts \<Longrightarrow> rt_familyId a = rt_familyId row \<Longrightarrow> \<not> live a"
  shows "one_live (ts @ [row])"
  using assms unfolding one_live_def by auto

lemma revoked_not_live [simp]: "\<not> live (r\<lparr>rt_revokedAt := Some t\<rparr>)"
  by (simp add: live_def)

lemma keeps_revoke [auth_keeps]: "keeps (auth_inv X Y) (revoke_where P)"
  unfolding revoke_where_def
proof (intro keeps_bind keeps_gets keeps_updateManyA)
  fix now and s :: "'a auth_db_scheme"
  assume inv: "auth_inv X Y s"
  let ?P = "\<lambda>r. P r \<and> rt_revokedAt r = None" and ?f = "\<lambda>r :: refresh_row. r\<lparr>rt_revokedAt := Some now\<rparr>"
  show "auth_inv X Y (refresh_tokens_update (update_where ?P ?f) s)"
    using inv by (auto simp: auth_inv_def tokens_sound_def map_update_where ball_update_where one_live_update)
qed

text \<open>The user a computation looks up is one of the table.\<close>

lemma keeps_user_by:
  assumes "keeps (auth_inv X Y) (f None)" and "\<And>u. keeps (auth_inv (insert (us_id u) X) Y) (f (Some u))"
  shows "keeps (auth_inv X Y) (bindA (user_by P) f)"
proof (rule keepsI)
  fix s r and s' :: "'a auth_db_scheme"
  assume inv: "auth_inv X Y s" and run: "bindA (user_by P) f s = (r, s')"
  from run have run: "f (find_row P (users s)) s = (r, s')" by (simp add: user_by_def bindA_gets)
  show "auth_inv X Y s'"
  proof (cases "find_row P (users s)")
    case None
    with run assms(1) inv show ?thesis by (auto dest: keepsD)
  next
    case (Some u)
    with inv have "auth_inv (insert (us_id u) X) Y s" by (auto simp: auth_inv_def dest: find_row_Some)
    with run Some assms(2) [of u] have "auth_inv (insert (us_id u) X) Y s'" by (auto dest: keepsD)
    then show ?thesis by (simp add: auth_inv_def)
  qed
qed

lemma keeps_userE: "keeps (auth_inv X Y) m \<Longrightarrow> X' \<subseteq> X \<Longrightarrow> auth_inv X Y s \<Longrightarrow> m s = (r, s') \<Longrightarrow> auth_inv X' Y s'"
  by (drule (2) keepsD) (auto simp: auth_inv_def)

lemma tokens_sound_more:
  assumes "tokens_sound s" "refresh_tokens s' = refresh_tokens s" "id_supply s' = id_supply s" "next_id s \<le> next_id s'"
    "us_id ` set (users s) \<subseteq> us_id ` set (users s')"
  shows "tokens_sound s'"
proof -
  have "{..<next_id s} \<subseteq> {..<next_id s'}" using assms(4) by auto
  then have "id_supply s ` {..<next_id s} \<subseteq> id_supply s ` {..<next_id s'}" by (rule image_mono)
  with assms show ?thesis unfolding tokens_sound_def by (simp add: subset_iff)
qed

lemma accounts_typed_user:
  assumes t: "accounts_typed us shs" and new: "\<forall>x \<in> set us. \<not> user_taken u x"
    and shop: "\<forall>x. us_shopId u = Some x \<longrightarrow> x \<in> sh_id ` set shs"
  shows "accounts_typed (us @ [u]) shs"
proof -
  have new: "\<forall>x \<in> set us. us_id x \<noteq> us_id u" "\<forall>x \<in> set us. us_email x \<noteq> us_email u"
    "\<forall>x \<in> set us. us_phone u \<noteq> None \<longrightarrow> us_phone x \<noteq> us_phone u" "\<forall>x \<in> set us. us_shopId u \<noteq> None \<longrightarrow> us_shopId x \<noteq> us_shopId u"
    using new by (auto simp: user_taken_def)
  have "us_id u \<notin> us_id ` set us" "us_email u \<notin> us_email ` set us" using new(1,2) by (metis imageE)+
  moreover have "set (List.map_filter us_shopId (us @ [u])) \<subseteq> sh_id ` set shs"
    using t shop by (cases "us_shopId u") (simp_all add: accounts_typed_def map_filter_snoc)
  moreover have "unique_col us_phone (us @ [u])" "unique_col us_shopId (us @ [u])"
    using t new(3,4) unfolding unique_col_snoc accounts_typed_def by blast+
  ultimately show ?thesis using t unfolding accounts_typed_def by simp
qed

lemma accounts_typed_shop:
  assumes t: "accounts_typed us shs" and new: "\<forall>y \<in> set shs. \<not> (sh_id y = sh_id x \<or> sh_slug y = sh_slug x)"
  shows "accounts_typed us (shs @ [x])"
proof -
  have "sh_id x \<notin> sh_id ` set shs" "sh_slug x \<notin> sh_slug ` set shs" using new by (metis imageE)+
  moreover have "set (List.map_filter us_shopId us) \<subseteq> sh_id ` set (shs @ [x])"
    using t by (rule_tac order_trans [of _ "sh_id ` set shs"]) (simp_all add: accounts_typed_def subset_insertI)
  ultimately show ?thesis using t unfolding accounts_typed_def by simp
qed

text \<open>Rows that are added: the unique columns are checked, the references hold.\<close>

lemma keeps_create_user:
  assumes shop: "\<forall>x. us_shopId u = Some x \<longrightarrow> x \<in> Y" and rest: "keeps (auth_inv (insert (us_id u) X) Y) m"
  shows "keeps (auth_inv X Y) (thenA (create_user u) m)"
proof (rule keepsI)
  fix s r and s' :: "'a auth_db_scheme"
  assume inv: "auth_inv X Y s" and run: "thenA (create_user u) m s = (r, s')"
  show "auth_inv X Y s'"
  proof (cases "list_ex (user_taken u) (users s)")
    case True
    with run inv show ?thesis by (auto simp: create_user_def createUniqueA_def act_defs)
  next
    case False
    let ?s = "users_update (\<lambda>t. t @ [u]) s"
    have next_run: "m ?s = (r, s')" using False run by (simp add: create_user_def createUniqueA_def createA_def act_defs)
    have "accounts_typed (users s @ [u]) (shops s)"
    proof (rule accounts_typed_user)
      show "accounts_typed (users s) (shops s)" "\<forall>x. us_shopId u = Some x \<longrightarrow> x \<in> sh_id ` set (shops s)"
        using inv shop by (auto simp: auth_inv_def)
      show "\<forall>x \<in> set (users s). \<not> user_taken u x" using False by (simp add: list_ex_iff)
    qed
    moreover have "tokens_sound ?s" using inv by (rule_tac tokens_sound_more [of s]) (simp_all add: auth_inv_def, (simp add: subset_insertI)?)
    moreover have "insert (us_id u) X \<subseteq> us_id ` set (users ?s)" "Y \<subseteq> sh_id ` set (shops s)"
      using inv by (auto simp: auth_inv_def)
    ultimately have "auth_inv (insert (us_id u) X) Y ?s" by (simp add: auth_inv_def)
    from keepsD [OF rest this next_run] show ?thesis by (simp add: auth_inv_def)
  qed
qed

lemma keeps_create_shop:
  assumes rest: "keeps (auth_inv X (insert (sh_id x) Y)) m"
  shows "keeps (auth_inv X Y) (thenA (createUniqueA shops shops_update (\<lambda>y. sh_id y = sh_id x \<or> sh_slug y = sh_slug x) x) m)"
proof (rule keepsI)
  fix s r and s' :: "'a auth_db_scheme"
  assume inv: "auth_inv X Y s"
    and run: "thenA (createUniqueA shops shops_update (\<lambda>y. sh_id y = sh_id x \<or> sh_slug y = sh_slug x) x) m s = (r, s')"
  show "auth_inv X Y s'"
  proof (cases "list_ex (\<lambda>y. sh_id y = sh_id x \<or> sh_slug y = sh_slug x) (shops s)")
    case True
    with run inv show ?thesis by (auto simp: createUniqueA_def act_defs)
  next
    case False
    let ?s = "shops_update (\<lambda>t. t @ [x]) s"
    have next_run: "m ?s = (r, s')" using False run by (simp add: createUniqueA_def createA_def act_defs)
    have "accounts_typed (users s) (shops s @ [x])"
      using inv False by (intro accounts_typed_shop) (simp_all add: auth_inv_def list_ex_iff)
    moreover have "tokens_sound ?s" using inv by (rule_tac tokens_sound_more [of s]) (simp_all add: auth_inv_def, (simp add: subset_insertI)?)
    moreover have "insert (sh_id x) Y \<subseteq> sh_id ` set (shops ?s)" "X \<subseteq> us_id ` set (users s)"
      using inv by (auto simp: auth_inv_def)
    ultimately have "auth_inv X (insert (sh_id x) Y) ?s" by (simp add: auth_inv_def)
    from keepsD [OF rest this next_run] show ?thesis by (simp add: auth_inv_def)
  qed
qed

lemma keeps_issueTokens:
  assumes user: "us_id user \<in> X"
  shows "keeps (auth_inv X Y) (issueTokens env user)"
proof (rule keepsI)
  fix s r and s' :: "'a auth_db_scheme"
  assume inv: "auth_inv X Y s" and run: "issueTokens env user s = (r, s')"
  define fam raw i where "fam = id_supply s (next_id s)" and "raw = id_supply s (Suc (next_id s))"
    and "i = id_supply s (Suc (Suc (next_id s)))"
  define row where "row = \<lparr>rt_id = i, rt_userId = us_id user, rt_familyId = fam, rt_tokenHash = ev_sha256 env raw,
    rt_expiresAt = refreshExpiresAt env (clock s), rt_revokedAt = None, rt_replacedBy = None\<rparr>"
  let ?s = "s\<lparr>next_id := Suc (Suc (Suc (next_id s)))\<rparr>"
  have inv3: "auth_inv X Y ?s" by (rule auth_inv_cong [OF inv]) simp_all
  show "auth_inv X Y s'"
  proof (cases "list_ex (\<lambda>x. rt_id x = i \<or> rt_tokenHash x = ev_sha256 env raw) (refresh_tokens s)")
    case True
    with run have "s' = ?s"
      by (auto simp: issueTokens_def create_refresh_def createUniqueA_def newIdA_def act_defs fam_def raw_def i_def)
    with inv3 show ?thesis by simp
  next
    case False
    with run have s': "s' = refresh_tokens_update (\<lambda>t. t @ [row]) ?s"
      by (auto simp: issueTokens_def create_refresh_def createUniqueA_def createA_def newIdA_def act_defs fam_def raw_def i_def row_def)
    have new: "rt_familyId a \<noteq> fam" if "a \<in> set (refresh_tokens s)" for a
    proof -
      have "rt_familyId a \<in> id_supply s ` {..<next_id s}" "inj (id_supply s)"
        using inv that by (auto simp: auth_inv_def tokens_sound_def)
      then show ?thesis by (auto simp: fam_def dest: injD)
    qed
    have "us_id user \<in> us_id ` set (users s)" using inv user by (auto simp: auth_inv_def)
    moreover have "fam \<in> id_supply s ` {..<Suc (Suc (Suc (next_id s)))}" by (simp add: fam_def)
    ultimately show ?thesis
      using inv3 False new unfolding s'
      by (auto simp: auth_inv_def tokens_sound_def row_def list_ex_iff intro!: one_live_snoc)
  qed
qed

lemma keeps_finalizeLogin: "us_id user \<in> X \<Longrightarrow> keeps (auth_inv X Y) (finalizeLogin env user)"
  unfolding finalizeLogin_def by (intro keeps_then keeps_issueTokens auth_keeps) simp_all

section \<open>Refresh\<close>

text \<open>The checks that pass leave the state as it was and give the live row of the token and its user.\<close>

lemma refresh_checks_ok:
  assumes "refresh_checks env tok s = (Inr (existing, user), s')"
  shows "s' = s" "existing \<in> set (refresh_tokens s)" "live existing" "rt_tokenHash existing = ev_sha256 env tok"
    "clock s \<le> rt_expiresAt existing" "user \<in> set (users s)" "us_id user = rt_userId existing"
    "us_status user \<notin> {US_SUSPENDED, US_INACTIVE}"
  using assms
  by (auto simp: refresh_checks_def ok_simps user_by_def live_def split: if_splits dest!: find_row_Some)

lemma keeps_refresh_checks: "keeps (auth_inv X Y) (refresh_checks env tok)"
proof -
  have expire: "keeps (auth_inv X Y) (updateA refresh_tokens refresh_tokens_update (\<lambda>r. rt_id r = i) (\<lambda>r. r\<lparr>rt_revokedAt := Some now\<rparr>))"
    for X i now
    by (rule keeps_updateA) (auto simp: auth_inv_def tokens_sound_def map_update_where ball_update_where one_live_update)
  show ?thesis
    unfolding refresh_checks_def
    by (intro keeps_user_by keeps_steps auth_keeps expire)
qed

lemma keeps_refresh_rotate:
  assumes inv: "auth_inv X Y s" and row: "existing \<in> set (refresh_tokens s)" "live existing"
    and run: "refresh_rotate env existing user s = (r, s')"
  shows "auth_inv X Y s'"
proof -
  define raw i where "raw = id_supply s (next_id s)" and "i = id_supply s (Suc (next_id s))"
  define row where "row = \<lparr>rt_id = i, rt_userId = rt_userId existing, rt_familyId = rt_familyId existing,
    rt_tokenHash = ev_sha256 env raw, rt_expiresAt = refreshExpiresAt env (clock s), rt_revokedAt = None, rt_replacedBy = None\<rparr>"
  define f where "f = (\<lambda>r :: refresh_row. r\<lparr>rt_revokedAt := Some (clock s), rt_replacedBy := Some i\<rparr>)"
  let ?s = "s\<lparr>next_id := Suc (Suc (next_id s))\<rparr>"
  have inv2: "auth_inv X Y ?s" by (rule auth_inv_cong [OF inv]) simp_all
  show ?thesis
  proof (cases "list_ex (\<lambda>x. rt_id x = i \<or> rt_tokenHash x = ev_sha256 env raw) (refresh_tokens s)")
    case True
    with run have "s' = ?s"
      by (auto simp: refresh_rotate_def create_refresh_def createUniqueA_def newIdA_def act_defs raw_def i_def)
    with inv2 show ?thesis by simp
  next
    case False
    then have new: "rt_id a \<noteq> i" "rt_tokenHash a \<noteq> ev_sha256 env raw" if "a \<in> set (refresh_tokens s)" for a
      using that by (auto simp: list_ex_iff)
    have found: "find_row (\<lambda>r. rt_id r = rt_id existing) (refresh_tokens s @ [row]) \<noteq> None"
      using row unfolding find_row_ex by auto
    have ri: "rt_id row \<noteq> rt_id existing" using new(1) [OF row(1)] by (simp add: row_def)
    let ?t = "refresh_tokens_update (\<lambda>t. update_where (\<lambda>r. rt_id r = rt_id existing) f t @ [row]) ?s"
    have "users s' = users ?t" "shops s' = shops ?t" "refresh_tokens s' = refresh_tokens ?t" "id_supply s' = id_supply ?t"
      "next_id s' = next_id ?t"
      using run False found ri
      by (auto simp: refresh_rotate_def create_refresh_def createUniqueA_def createA_def updateA_def newIdA_def auth_audit_def
          act_defs raw_def i_def row_def f_def)
    moreover have "auth_inv X Y ?t"
    proof -
      have ts: "tokens_sound ?s" and dist: "distinct (map rt_id (refresh_tokens s))"
        using inv2 by (auto simp: auth_inv_def tokens_sound_def)
      have only: "\<not> live a" if "a \<in> set (update_where (\<lambda>r. rt_id r = rt_id existing) f (refresh_tokens s))"
        "rt_familyId a = rt_familyId existing" for a
        using that(1)
      proof (cases rule: in_update_whereE)
        case old
        have "\<forall>a \<in> set (refresh_tokens s). \<forall>b \<in> set (refresh_tokens s). live a \<longrightarrow> live b \<longrightarrow> rt_familyId a = rt_familyId b \<longrightarrow> a = b"
          using inv by (simp add: auth_inv_def tokens_sound_def one_live_def)
        with old that(2) row show ?thesis by blast
      next
        case (new x)
        then show ?thesis by (simp add: f_def live_def)
      qed
      have keys: "map rt_id (update_where (\<lambda>r. rt_id r = rt_id existing) f (refresh_tokens s)) = map rt_id (refresh_tokens s)"
        "map rt_tokenHash (update_where (\<lambda>r. rt_id r = rt_id existing) f (refresh_tokens s)) = map rt_tokenHash (refresh_tokens s)"
        by (simp_all add: map_update_where f_def)
      have rows: "\<forall>a \<in> set (update_where (\<lambda>r. rt_id r = rt_id existing) f (refresh_tokens s)).
          rt_userId a \<in> us_id ` set (users s) \<and> rt_familyId a \<in> id_supply s ` {..<Suc (Suc (next_id s))}"
        using ts by (auto simp: ball_update_where tokens_sound_def f_def)
      have mine: "rt_userId existing \<in> us_id ` set (users s)" "rt_familyId existing \<in> id_supply s ` {..<Suc (Suc (next_id s))}"
        using ts row(1) by (auto simp: tokens_sound_def)
      have new_keys: "rt_id row \<notin> set (map rt_id (refresh_tokens s))" "rt_tokenHash row \<notin> set (map rt_tokenHash (refresh_tokens s))"
        using new by (auto simp: row_def) metis
      have "tokens_sound ?t"
        unfolding tokens_sound_def
      proof (intro conjI)
        show "distinct (map rt_id (refresh_tokens ?t))" using ts new_keys by (simp add: keys tokens_sound_def)
        show "distinct (map rt_tokenHash (refresh_tokens ?t))" using ts new_keys by (simp add: keys tokens_sound_def)
        show "inj (id_supply ?t)" using ts by (simp add: tokens_sound_def)
        show "\<forall>r \<in> set (refresh_tokens ?t). rt_userId r \<in> us_id ` set (users ?t) \<and> rt_familyId r \<in> id_supply ?t ` {..<next_id ?t}"
          using rows mine by (auto simp: row_def)
        have "one_live (update_where (\<lambda>r. rt_id r = rt_id existing) f (refresh_tokens s))"
          using ts by (intro one_live_update) (simp_all add: tokens_sound_def f_def live_def)
        then show "one_live (refresh_tokens ?t)" using only by (auto intro: one_live_snoc simp: row_def)
      qed
      with inv show ?thesis by (simp add: auth_inv_def)
    qed
    ultimately show ?thesis by (auto elim: auth_inv_cong)
  qed
qed

lemma keeps_refresh: "keeps (auth_inv X Y) (refresh env tok)"
proof (rule keepsI)
  fix s r and s' :: "'a auth_db_scheme"
  assume inv: "auth_inv X Y s" and run: "refresh env tok s = (r, s')"
  show "auth_inv X Y s'"
  proof (cases "refresh_checks env tok s" rule: prod.exhaust)
    case (Pair x t)
    show ?thesis
    proof (cases x)
      case (Inl e)
      with run Pair keepsD [OF keeps_refresh_checks inv Pair] show ?thesis by (simp add: refresh_def bindA_def)
    next
      case (Inr eu)
      obtain existing user where eu: "eu = (existing, user)" by (cases eu)
      with Pair Inr have ok: "refresh_checks env tok s = (Inr (existing, user), t)" by simp
      with run have "refresh_rotate env existing user s = (r, s')"
        using refresh_checks_ok(1) [OF ok] by (simp add: refresh_def bindA_def)
      with inv refresh_checks_ok(2,3) [OF ok] show ?thesis by (metis keeps_refresh_rotate)
    qed
  qed
qed

section \<open>Every operation\<close>

text \<open>What a client, or the passing of time, can do to the accounts.\<close>

datatype auth_op =
    RegisterCustomer register_customer
  | RegisterMerchant register_merchant
  | Login login_dto
  | VerifyMfa string string
  | SetupTemp bytes string
  | EnableTemp string string
  | Refresh string
  | Logout "string option" "string option"
  | VerifyEmail string
  | RequestReset string
  | ConfirmReset string string
  | Setup2fa bytes string
  | Enable2fa string string
  | Disable2fa string string
  | UpdateProfile string profile_dto
  | Wait nat

definition ignoreA :: "('s, 'a) act \<Rightarrow> ('s, unit) act" where
  "ignoreA m = bindA m (\<lambda>_. returnA ())"

fun auth_exec :: "auth_env \<Rightarrow> auth_op \<Rightarrow> ('z auth_db_scheme, unit) act" where
  "auth_exec env (RegisterCustomer dto) = ignoreA (registerCustomer env dto)"
| "auth_exec env (RegisterMerchant dto) = ignoreA (registerMerchant env dto)"
| "auth_exec env (Login dto) = ignoreA (login env dto)"
| "auth_exec env (VerifyMfa t c) = ignoreA (verifyMfa env t c)"
| "auth_exec env (SetupTemp b t) = ignoreA (setupTotpWithTemp env b t)"
| "auth_exec env (EnableTemp t c) = enableTotpWithTemp env t c"
| "auth_exec env (Refresh t) = ignoreA (refresh env t)"
| "auth_exec env (Logout t u) = logout env t u"
| "auth_exec env (VerifyEmail t) = verifyEmail env t"
| "auth_exec env (RequestReset e) = ignoreA (requestPasswordReset env e)"
| "auth_exec env (ConfirmReset t p) = confirmPasswordReset env t p"
| "auth_exec env (Setup2fa b u) = ignoreA (setup2fa b u)"
| "auth_exec env (Enable2fa u c) = enable2fa env u c"
| "auth_exec env (Disable2fa u c) = disable2fa env u c"
| "auth_exec env (UpdateProfile u dto) = ignoreA (updateProfile u dto)"
| "auth_exec env (Wait n) = modifyA (\<lambda>s. s\<lparr>clock := clock s + int n\<rparr>)"

lemma keeps_ignore: "keeps I m \<Longrightarrow> keeps I (ignoreA m)"
  unfolding ignoreA_def by (intro keeps_bind keeps_return)

lemma keeps_known:
  "keeps I m \<Longrightarrow> keeps I (case None of None \<Rightarrow> m | Some x \<Rightarrow> f x)"
  "keeps I (f y) \<Longrightarrow> keeps I (case Some y of None \<Rightarrow> m | Some x \<Rightarrow> f x)"
  "keeps I (f y) \<Longrightarrow> keeps I (bindA (someA (Some y) e) f)"
  "keeps I (bindA (someA None e) f)"
  by (simp_all add: act_laws keeps_throw)

lemma keeps_totp_ok [auth_keeps]: "keeps (auth_inv X Y) (totp_ok env user code)"
  unfolding totp_ok_def by (intro keeps_steps auth_keeps)

lemma keeps_verifyMfaTempToken [auth_keeps]: "keeps (auth_inv X Y) (verifyMfaTempToken env t allowed)"
  unfolding verifyMfaTempToken_def by (intro keeps_steps)

lemma keeps_signMfaTempToken [auth_keeps]: "keeps (auth_inv X Y) (signMfaTempToken env u p)"
  unfolding signMfaTempToken_def by (intro keeps_steps)

lemma keeps_free_email [auth_keeps]: "keeps (auth_inv X Y) (free_email e)"
  unfolding free_email_def user_by_def by (intro keeps_steps)

lemma keeps_free_phone [auth_keeps]: "keeps (auth_inv X Y) (free_phone e)"
  unfolding free_phone_def user_by_def by (intro keeps_steps)

text \<open>The shop of the registration, with the conditions of its insertion as the code has them.\<close>

lemma keeps_create_shop':
  assumes "sh_id x = i" "sh_slug x = slug" "keeps (auth_inv X (insert i Y)) m"
  shows "keeps (auth_inv X Y) (thenA (createUniqueA shops shops_update (\<lambda>y. sh_id y = i \<or> sh_slug y = slug) x) m)"
  using keeps_create_shop [of X x Y m] assms by simp

lemma keeps_registerCustomer: "keeps (auth_inv X Y) (registerCustomer env dto)"
  unfolding registerCustomer_def Let_def
  by (rule keeps_create_user keeps_create_shop keeps_user_by keeps_issueTokens keeps_finalizeLogin auth_keeps keeps_known keeps_steps | simp)+

lemma keeps_registerMerchant: "keeps (auth_inv X Y) (registerMerchant env dto)"
  unfolding registerMerchant_def Let_def
  by (rule keeps_create_user keeps_create_shop' keeps_user_by keeps_issueTokens keeps_finalizeLogin auth_keeps keeps_known keeps_steps | simp)+

lemma keeps_second_factor [auth_keeps]: "us_id user \<in> X \<Longrightarrow> keeps (auth_inv X Y) (second_factor env user c)"
  unfolding second_factor_def
  by (rule keeps_create_user keeps_user_by keeps_issueTokens keeps_finalizeLogin auth_keeps keeps_known keeps_steps | simp)+

lemma keeps_failed_password [auth_keeps]: "keeps (auth_inv X Y) (failed_password user)"
  unfolding failed_password_def Let_def
  by (rule keeps_create_user keeps_user_by keeps_issueTokens keeps_finalizeLogin auth_keeps keeps_known keeps_steps | simp)+

lemma keeps_login: "keeps (auth_inv X Y) (login env dto)"
  unfolding login_def Let_def
  by (rule keeps_create_user keeps_user_by keeps_issueTokens keeps_finalizeLogin auth_keeps keeps_known keeps_steps | simp)+


lemma keeps_verifyMfa: "keeps (auth_inv X Y) (verifyMfa env t c)"
  unfolding verifyMfa_def
  by (rule keeps_user_by keeps_finalizeLogin auth_keeps keeps_known keeps_steps | simp)+

lemma keeps_setup2fa: "keeps (auth_inv X Y) (setup2fa b u)"
  unfolding setup2fa_def Let_def
  by (intro keeps_bind keeps_return keeps_updateRowA)
    (simp add: auth_inv_def accounts_typed_def tokens_sound_def unique_col_def map_update_where image_update_where
      map_filter_update_same)

lemma keeps_enable2fa: "keeps (auth_inv X Y) (enable2fa env u c)"
  unfolding enable2fa_def
  by (rule keeps_user_by auth_keeps keeps_known keeps_steps | simp)+

lemma keeps_disable2fa: "keeps (auth_inv X Y) (disable2fa env u c)"
  unfolding disable2fa_def
  by (rule keeps_user_by auth_keeps keeps_known keeps_steps | simp)+

lemma keeps_verifyEmail: "keeps (auth_inv X Y) (verifyEmail env t)"
  unfolding verifyEmail_def
  by (rule keeps_user_by auth_keeps keeps_known keeps_steps | simp)+

lemma keeps_requestPasswordReset: "keeps (auth_inv X Y) (requestPasswordReset env e)"
  unfolding requestPasswordReset_def Let_def
  by (rule keeps_user_by auth_keeps keeps_known keeps_steps | simp)+

lemma keeps_confirmPasswordReset: "keeps (auth_inv X Y) (confirmPasswordReset env t p)"
  unfolding confirmPasswordReset_def
  by (rule keeps_user_by auth_keeps keeps_known keeps_steps | simp)+

lemma keeps_me: "keeps (auth_inv X Y) (me u)"
  unfolding me_def
  by (rule keeps_user_by auth_keeps keeps_known keeps_steps | simp)+

text \<open>A new phone number: the service has looked that nobody else has it.\<close>

lemma keeps_updateProfile: "keeps (auth_inv X Y) (updateProfile i dto)"
proof (rule keepsI)
  fix s r and s' :: "'a auth_db_scheme"
  assume inv: "auth_inv X Y s" and run: "updateProfile i dto s = (r, s')"
  define name phone company where "name = map_option js_trim (pf_name dto)" and "phone = map_option trimmed (pf_phone dto)"
    and "company = map_option trimmed (pf_company dto)"
  define f where "f = (\<lambda>u :: user_row. u\<lparr>us_name := (case name of None \<Rightarrow> us_name u | Some t \<Rightarrow> t),
         us_phone := (case phone of None \<Rightarrow> us_phone u | Some p \<Rightarrow> p),
         us_company := (case company of None \<Rightarrow> us_company u | Some c \<Rightarrow> c)\<rparr>)"
  define check where "check = (case phone of
         Some (Some p) \<Rightarrow>
           bindA (user_by (\<lambda>u. us_phone u = Some p \<and> us_id u \<noteq> i)) (\<lambda>taken.
           guardA (taken = None) (Conflict ''Phone already in use''))
       | _ \<Rightarrow> (returnA () :: ('a auth_db_scheme, unit) act))"
  define rest where "rest = (thenA (auth_audit (Some i) ''PROFILE_UPDATE'' ''User'' (Some i)) (me i) :: ('a auth_db_scheme, user_row \<times> shop_row option) act)"
  have whole: "updateProfile i dto = thenA (guardA (name \<noteq> Some []) (BadRequest ''Name cannot be empty''))
     (thenA check (thenA (guardA (name \<noteq> None \<or> phone \<noteq> None \<or> company \<noteq> None) (BadRequest ''No profile fields to update''))
     (thenA (update_user i f) rest)))"
    by (simp only: updateProfile_def Let_def name_def phone_def company_def f_def check_def rest_def)
  have rest: "keeps (auth_inv X Y) rest"
    unfolding rest_def by (intro keeps_then keeps_auth_audit keeps_me)
  have check: "snd (check s) = s" for s
    by (simp add: check_def user_by_def act_defs split: option.splits)
  show "auth_inv X Y s'"
  proof (cases "\<exists>p. phone = Some (Some p) \<and> (\<exists>u \<in> set (users s). us_phone u = Some p \<and> us_id u \<noteq> i)")
    case True
    then obtain p where p: "phone = Some (Some p)" and "find_row (\<lambda>u. us_phone u = Some p \<and> us_id u \<noteq> i) (users s) \<noteq> None"
      unfolding find_row_ex by blast
    then have "\<exists>e. fst (check s) = Inl e" by (auto simp: check_def user_by_def act_defs)
    then obtain e where "check s = (Inl e, s)" using check [of s] by (metis prod.collapse)
    with run whole inv show ?thesis by (auto simp: act_defs split: if_splits)
  next
    case False
    have "auth_inv X Y (users_update (update_where (\<lambda>u. us_id u = i) f) s)"
    proof -
      have typed: "accounts_typed (users s) (shops s)" using inv by (simp add: auth_inv_def)
      have same: "us_id (f u) = us_id u" "us_email (f u) = us_email u" "us_shopId (f u) = us_shopId u" for u
        by (simp_all add: f_def)
      have ph: "us_phone (f u) = (case phone of None \<Rightarrow> us_phone u | Some p \<Rightarrow> p)" for u by (simp add: f_def)
      have other: "us_phone y \<noteq> us_phone x" if "x \<in> set (users s)" "y \<in> set (users s)" "us_id x \<noteq> us_id y" "us_phone x \<noteq> None" for x y
      proof
        assume eq: "us_phone y = us_phone x"
        have "distinct (List.map_filter us_phone (users s))" using typed by (simp add: accounts_typed_def unique_col_def)
        moreover have "List.map_filter us_phone (users s) = map (the \<circ> us_phone) (filter (\<lambda>u. us_phone u \<noteq> None) (users s))"
          by (simp add: map_filter_def)
        ultimately have "inj_on (the \<circ> us_phone) (set (filter (\<lambda>u. us_phone u \<noteq> None) (users s)))" by (simp add: distinct_map)
        then have "x = y" by (rule inj_onD) (use that eq in auto)
        with that(3) show False by simp
      qed
      have col: "unique_col us_phone (update_where (\<lambda>u. us_id u = i) f (users s))"
      proof (rule unique_col_update)
        show "unique_col us_phone (users s)" "distinct (map us_id (users s))" using typed by (simp_all add: accounts_typed_def)
        show "\<forall>x. us_id (f x) = us_id x" by (simp add: same)
        show "\<forall>x \<in> set (users s). us_id x = i \<longrightarrow> (\<forall>y \<in> set (users s). us_id y \<noteq> i \<longrightarrow>
            us_phone (f x) \<noteq> None \<longrightarrow> us_phone y \<noteq> us_phone (f x))"
        proof (intro ballI impI)
          fix x y assume xy: "x \<in> set (users s)" "us_id x = i" "y \<in> set (users s)" "us_id y \<noteq> i" "us_phone (f x) \<noteq> None"
          show "us_phone y \<noteq> us_phone (f x)"
          proof (cases phone)
            case None
            with xy other [of x y] show ?thesis by (simp add: ph)
          next
            case (Some a)
            with xy False show ?thesis by (auto simp: ph)
          qed
        qed
      qed
      have "unique_col us_shopId (update_where (\<lambda>u. us_id u = i) f (users s)) = unique_col us_shopId (users s)"
        "List.map_filter us_shopId (update_where (\<lambda>u. us_id u = i) f (users s)) = List.map_filter us_shopId (users s)"
        by (simp_all add: unique_col_def map_filter_update_same same)
      with col typed inv show ?thesis
        by (simp add: auth_inv_def accounts_typed_def tokens_sound_def map_update_where image_update_where same)
    qed
    note updated = keepsD [OF rest this]
    obtain cs where cs: "check s = (cs, s)" using check [of s] by (metis prod.collapse)
    show ?thesis
    proof (cases "find_row (\<lambda>u. us_id u = i) (users s)")
      case None
      with run whole inv cs show ?thesis
        by (cases cs) (auto simp: act_defs update_user_def updateA_def split: if_splits)
    next
      case (Some u)
      with run whole inv cs updated show ?thesis
        by (cases cs) (auto simp: act_defs update_user_def updateA_def split: if_splits)
    qed
  qed
qed

lemma auth_exec_keeps: "keeps (auth_inv X Y) (auth_exec env x)"
proof (cases x)
  case (SetupTemp b t)
  then show ?thesis
    by (simp add: setupTotpWithTemp_def) (intro keeps_ignore keeps_bind keeps_setup2fa auth_keeps)
next
  case (EnableTemp t c)
  then show ?thesis
    by (simp add: enableTotpWithTemp_def) (intro keeps_bind keeps_enable2fa auth_keeps)
next
  case (Logout t u)
  then show ?thesis
    by (simp add: logout_def revokeToken_def) (intro conjI impI auth_keeps keeps_return)
next
  case (Wait n)
  have "keeps (auth_inv X Y) (modifyA (\<lambda>s. s\<lparr>clock := clock s + int n\<rparr>))"
    by (rule keeps_modify) (erule auth_inv_cong; simp)
  with Wait show ?thesis by simp
qed (simp_all add: keeps_ignore keeps_registerCustomer keeps_registerMerchant keeps_login keeps_verifyMfa keeps_refresh
  keeps_verifyEmail keeps_requestPasswordReset keeps_confirmPasswordReset keeps_setup2fa keeps_enable2fa keeps_disable2fa
  keeps_updateProfile)

interpretation accounts: invariant_component "auth_exec env" "auth_inv {} {}" for env
  by unfold_locales (rule auth_exec_keeps)

end
