(* ===== verification/Auth_Claims.thy ===== *)
theory Auth_Claims
  imports Auth_Facts Samples
begin

text \<open>What the accounts promise: sessions rotate and die together, and a login needs what it should.\<close>

section \<open>Contents for the examples\<close>

definition demo_user :: user_row where
  "demo_user =
    \<lparr>us_id = ''u1'', us_email = ''u1@x'', us_phone = None, us_passwordHash = ''secret'', us_name = ''U'', us_company = None,
     us_role = CUSTOMER, us_status = US_ACTIVE, us_emailVerifiedAt = None, us_phoneVerifiedAt = None,
     us_emailVerifyToken = None, us_emailVerifyExpires = None, us_passwordResetToken = None,
     us_passwordResetExpires = None, us_failedLoginAttempts = 0, us_lockedUntil = None, us_twoFactorEnabled = False,
     us_twoFactorSecret = None, us_totpVerifiedAt = None, us_shopId = None, us_tenantId = None\<rparr>"

definition demo_token :: refresh_row where
  "demo_token = \<lparr>rt_id = ''t1'', rt_userId = ''u1'', rt_familyId = ''i'', rt_tokenHash = ''tok'', rt_expiresAt = 5000,
     rt_revokedAt = None, rt_replacedBy = None\<rparr>"

text \<open>
  Plain texts in place of the hashes.  A signed token for the second factor is the length of its purpose in
  runs of a letter, its purpose and its subject; other tokens do not verify.
\<close>

definition demo_sign :: "jwt_claims \<Rightarrow> string" where
  "demo_sign c =
    (case cl_purpose c of
      None \<Rightarrow> CHR ''x'' # cl_sub c
    | Some p \<Rightarrow> replicate (length p) CHR ''a'' @ CHR ''b'' # p @ cl_sub c)"

definition demo_verify :: "string \<Rightarrow> jwt_claims option" where
  "demo_verify t =
    (let n = length (takeWhile (\<lambda>c. c = CHR ''a'') t); rest = drop n t in
     case rest of
       [] \<Rightarrow> None
     | c # cs \<Rightarrow> if c = CHR ''b'' then Some (mfa_claims (drop n cs) (take n cs)) else None)"

lemma demo_verify_sign: "demo_verify (demo_sign (mfa_claims uid p)) = Some (mfa_claims uid p)"
proof -
  have "takeWhile (\<lambda>c. c = CHR ''a'') (replicate n CHR ''a'' @ CHR ''b'' # xs) = replicate n CHR ''a''" for n xs
    by (induction n) auto
  then show ?thesis by (simp add: demo_verify_def demo_sign_def mfa_claims_def Let_def)
qed

definition demo_env :: auth_env where
  "demo_env =
    \<lparr>ev_sha256 = (\<lambda>t. t), ev_bcrypt = (\<lambda>p salt. p), ev_compare = (\<lambda>p h. p = h), ev_hmac = (\<lambda>k m. replicate 20 0),
     ev_sign = (\<lambda>c e. demo_sign c), ev_verify = (\<lambda>t now. demo_verify t),
     ev_accessTtl = 900000, ev_nodeEnv = None, ev_allowDemo = None, ev_refreshDays = None\<rparr>"

definition demo_accounts :: "user_row list \<Rightarrow> refresh_row list \<Rightarrow> auth_db" where
  "demo_accounts us ts = bus_db.extend (rfq_db.extend (demo_db\<lparr>shops := []\<rparr>) (bus_db.fields [])) (auth_db.fields us ts)\<lparr>next_id := 1\<rparr>"

lemma demo_accounts_fields [simp]:
  "users (demo_accounts us ts) = us" "refresh_tokens (demo_accounts us ts) = ts" "clock (demo_accounts us ts) = 1000"
  "shops (demo_accounts us ts) = []" "id_supply (demo_accounts us ts) = (\<lambda>n. replicate (Suc n) CHR ''i'')"
  "next_id (demo_accounts us ts) = 1"
  by (simp_all add: demo_accounts_def bus_db.defs rfq_db.defs auth_db.defs demo_db_def empty_db_def)

lemma demo_inj: "inj (\<lambda>n. CHR ''i'' # replicate n CHR ''i'')"
  using inj_runs [of "CHR ''i''"] by simp

lemma demo_typed: "accounts_typed [demo_user] []"
  by (simp add: accounts_typed_def unique_col_def map_filter_Cons demo_user_def)

section \<open>Histories\<close>

lemma history_inv:
  assumes "accounts_typed (users s) (shops s)" "tokens_sound s"
  shows "auth_inv {} {} (run_all (auth_exec env) ops s)"
  using assms by (intro accounts.history_keeps) (simp add: auth_inv_def)

text \<open>
  C10.  Over every sequence of registrations, logins, refreshes, logouts, resets and changes of the second
  factor, returned or refused, every family of refresh tokens (one login, one device) keeps at most one
  token that is not revoked: the rotation never leaves two.
\<close>

theorem one_live_token_per_family:
  assumes start: "accounts_typed (users s) (shops s)" "refresh_tokens s = []" "inj (id_supply s)"
  shows "one_live (refresh_tokens (run_all (auth_exec env) ops s))"
proof -
  have "tokens_sound s" using start by (simp add: tokens_sound_def one_live_def)
  with start have "auth_inv {} {} (run_all (auth_exec env) ops s)" by (intro history_inv)
  then show ?thesis by (simp add: auth_inv_def tokens_sound_def)
qed

theorem one_live_token_per_family_witness:
  "one_live (refresh_tokens (run_all (auth_exec demo_env) [RequestReset ''u1@x'', Refresh ''x''] (demo_accounts [demo_user] [])))"
  by (rule one_live_token_per_family) (simp_all add: demo_typed demo_inj)

text \<open>
  What the checks of a registration do, on any table: a taken address or number is refused before anything
  is written; the slug of a new shop is the first free one of its base.
\<close>

definition customer_email :: "register_customer \<Rightarrow> string option" where
  "customer_email dto = or_else (map_option norm_email (rc_email dto)) None"

definition customer_phone :: "register_customer \<Rightarrow> string option" where
  "customer_phone dto = or_else (map_option js_trim (rc_phone dto)) None"

definition slug_base :: "register_merchant \<Rightarrow> string" where
  "slug_base dto = (case or_else (map_option js_trim (rm_shopSlug dto)) None of Some t \<Rightarrow> t | None \<Rightarrow> slugify 60 (rm_shopName dto))"

lemma find_taken: "x \<in> g ` set ts \<Longrightarrow> \<exists>y. find_row (\<lambda>u. g u = x) ts = Some y"
  by (metis (mono_tags, lifting) find_row_None imageE not_Some_eq)

lemma find_free: "x \<notin> g ` set ts \<Longrightarrow> find_row (\<lambda>u. g u = x) ts = None"
  by (auto simp: find_row_None)

definition registrations_refuse :: "auth_env \<Rightarrow> 'z auth_db_scheme \<Rightarrow> bool" where
  "registrations_refuse env s \<longleftrightarrow>
    (\<forall>(dto :: register_customer) e. customer_email dto = Some e \<longrightarrow> e \<in> us_email ` set (users s) \<longrightarrow>
      registerCustomer env dto s = (Inl (Conflict ''Email already registered''), s)) \<and>
    (\<forall>(dto :: register_customer) p. (\<forall>e. customer_email dto = Some e \<longrightarrow> e \<notin> us_email ` set (users s)) \<longrightarrow> customer_phone dto = Some p \<longrightarrow>
      Some p \<in> us_phone ` set (users s) \<longrightarrow> registerCustomer env dto s = (Inl (Conflict ''Phone already registered''), s)) \<and>
    (\<forall>dto :: register_merchant. norm_email (rm_email dto) \<in> us_email ` set (users s) \<longrightarrow>
      registerMerchant env dto s = (Inl (Conflict ''Email already registered''), s))"

lemma registrations_refuse: "registrations_refuse env s"
  unfolding registrations_refuse_def
proof (intro conjI allI impI)
  fix dto :: register_customer and e assume e: "customer_email dto = Some e" "e \<in> us_email ` set (users s)"
  from find_taken [OF e(2)] obtain u where "find_row (\<lambda>u. us_email u = e) (users s) = Some u" by blast
  with e(1) show "registerCustomer env dto s = (Inl (Conflict ''Email already registered''), s)"
    by (simp add: registerCustomer_def customer_email_def Let_def free_email_def user_by_def act_defs)
next
  fix dto :: register_customer and p assume e: "\<forall>e. customer_email dto = Some e \<longrightarrow> e \<notin> us_email ` set (users s)"
    and p: "customer_phone dto = Some p" "Some p \<in> us_phone ` set (users s)"
  from find_taken [OF p(2)] obtain u where u: "find_row (\<lambda>u. us_phone u = Some p) (users s) = Some u" by blast
  have "free_email (customer_email dto) s = (Inr (), s)"
    using e by (auto simp: free_email_def user_by_def act_defs find_free split: option.splits)
  with u p(1) show "registerCustomer env dto s = (Inl (Conflict ''Phone already registered''), s)"
    by (simp add: registerCustomer_def customer_email_def customer_phone_def Let_def free_phone_def user_by_def act_defs)
next
  fix dto :: register_merchant assume "norm_email (rm_email dto) \<in> us_email ` set (users s)"
  from find_taken [OF this] obtain u where "find_row (\<lambda>u. us_email u = norm_email (rm_email dto)) (users s) = Some u" by blast
  then show "registerMerchant env dto s = (Inl (Conflict ''Email already registered''), s)"
    by (simp add: registerMerchant_def Let_def free_email_def user_by_def act_defs)
qed

definition new_shop_slug :: "auth_env \<Rightarrow> 'z auth_db_scheme \<Rightarrow> bool" where
  "new_shop_slug env s \<longleftrightarrow>
    (\<forall>dto :: register_merchant. norm_email (rm_email dto) \<notin> us_email ` set (users s) \<longrightarrow>
      id_supply s (Suc (Suc (next_id s))) \<notin> sh_id ` set (shops s) \<longrightarrow>
      (\<exists>x k. shops (snd (registerMerchant env dto s)) = shops s @ [x] \<and> sh_slug x = numbered (slug_base dto) k \<and>
        sh_slug x \<notin> sh_slug ` set (shops s) \<and> (\<forall>j < k. numbered (slug_base dto) j \<in> sh_slug ` set (shops s))))"

lemma issueTokens_shops: "shops (snd (issueTokens env u s)) = shops s"
  by (simp add: issueTokens_def create_refresh_def createUniqueA_def createA_def newIdA_def act_defs)

lemma new_shop_slug: "new_shop_slug env s"
  unfolding new_shop_slug_def
proof (intro allI impI)
  fix dto :: register_merchant assume email: "norm_email (rm_email dto) \<notin> us_email ` set (users s)"
    and fresh: "id_supply s (Suc (Suc (next_id s))) \<notin> sh_id ` set (shops s)"
  let ?slug = "free_slug (map sh_slug (shops s)) (slug_base dto) 0"
  have free: "free_email (Some (norm_email (rm_email dto))) s = (Inr (), s)"
    using email by (simp add: free_email_def user_by_def act_defs find_free)
  have none: "\<not> list_ex (\<lambda>y. sh_id y = id_supply s (Suc (Suc (next_id s))) \<or> sh_slug y = ?slug) (shops s)"
    unfolding list_ex_iff using fresh free_slug_free [of "map sh_slug (shops s)" "slug_base dto" 0]
    by (metis image_eqI list.set_map)
  have "\<exists>x. shops (snd (registerMerchant env dto s)) = shops s @ [x] \<and> sh_slug x = ?slug"
    using free none
    by (simp add: registerMerchant_def Let_def slug_base_def hash_password_def newIdA_def create_user_def createUniqueA_def
        createA_def auth_audit_def issueTokens_def create_refresh_def act_defs)
  then obtain x where x: "shops (snd (registerMerchant env dto s)) = shops s @ [x]" "sh_slug x = ?slug" by blast
  moreover obtain k where "?slug = numbered (slug_base dto) k" "\<forall>j. j < k \<longrightarrow> numbered (slug_base dto) j \<in> set (map sh_slug (shops s))"
    using free_slug_number [of 0 "map sh_slug (shops s)" "slug_base dto"] by auto
  moreover have "?slug \<notin> set (map sh_slug (shops s))" by (rule free_slug_free)
  ultimately show "\<exists>x k. shops (snd (registerMerchant env dto s)) = shops s @ [x] \<and> sh_slug x = numbered (slug_base dto) k \<and>
        sh_slug x \<notin> sh_slug ` set (shops s) \<and> (\<forall>j < k. numbered (slug_base dto) j \<in> sh_slug ` set (shops s))"
    by (intro exI [of _ x] exI [of _ k]) auto
qed

text \<open>
  C11.  The tables stay typed: after any sequence of the operations the keys of users and shops are unique, so
  are email addresses, phone numbers, slugs and the shop of an owner; the shop an account belongs to and the
  account of a session exist.  And it is the service that sees to it, not the error of a unique constraint: in
  every such state a registration with an email address that is taken, and a customer's with a number that is
  taken, is answered with its conflict and writes nothing (\<open>registrations_refuse\<close>), and the new shop of a
  merchant gets the first of the numbered addresses of its base that is free (\<open>new_shop_slug\<close>).
\<close>

theorem accounts_stay_typed:
  assumes start: "accounts_typed (users s) (shops s)" "tokens_sound s" and run: "run_all (auth_exec env) ops s = s'"
  shows "distinct (map us_email (users s')) \<and> accounts_typed (users s') (shops s') \<and>
    (\<forall>u \<in> set (users s'). \<forall>i. us_shopId u = Some i \<longrightarrow> i \<in> sh_id ` set (shops s')) \<and>
    (\<forall>r \<in> set (refresh_tokens s'). \<exists>u \<in> set (users s'). us_id u = rt_userId r) \<and>
    registrations_refuse env s' \<and> new_shop_slug env s'"
proof -
  have "auth_inv {} {} s'" using history_inv [OF start, of env ops] run by simp
  then have "distinct (map us_email (users s')) \<and> accounts_typed (users s') (shops s') \<and>
    (\<forall>r \<in> set (refresh_tokens s'). \<exists>u \<in> set (users s'). us_id u = rt_userId r)"
    by (force simp: auth_inv_def tokens_sound_def accounts_typed_def)
  moreover from this have "\<forall>u \<in> set (users s'). \<forall>i. us_shopId u = Some i \<longrightarrow> i \<in> sh_id ` set (shops s')"
    by (auto simp: accounts_typed_def set_map_filter)
  ultimately show ?thesis by (simp add: registrations_refuse new_shop_slug)
qed

theorem accounts_stay_typed_witness:
  "distinct (map us_email (users (run_all (auth_exec demo_env) [Setup2fa [] ''u1'', Refresh ''tok''] (demo_accounts [demo_user] [demo_token]))))"
proof -
  have "tokens_sound (demo_accounts [demo_user] [demo_token])"
    using rangeI by (simp add: tokens_sound_def one_live_def demo_inj demo_user_def demo_token_def)
  then show ?thesis
    using accounts_stay_typed [of "demo_accounts [demo_user] [demo_token]" demo_env "[Setup2fa [] ''u1'', Refresh ''tok'']", OF _ _ refl]
    by (simp only: demo_accounts_fields demo_typed)
qed

section \<open>Rotation\<close>

lemma rotate_ok:
  assumes "refresh_rotate env existing user s = (Inr (acc, new), s')"
  obtains row where "refresh_tokens s' = update_where (\<lambda>r. rt_id r = rt_id existing)
      (\<lambda>r. r\<lparr>rt_revokedAt := Some (clock s), rt_replacedBy := Some (rt_id row)\<rparr>) (refresh_tokens s @ [row])"
    "rt_tokenHash row = ev_sha256 env new" "rt_familyId row = rt_familyId existing" "live row" "rt_userId row = rt_userId existing"
    "\<forall>r \<in> set (refresh_tokens s). rt_id r \<noteq> rt_id row \<and> rt_tokenHash r \<noteq> rt_tokenHash row"
    "users s' = users s" "clock s' = clock s"
proof -
  let ?row = "\<lparr>rt_id = id_supply s (Suc (next_id s)), rt_userId = rt_userId existing, rt_familyId = rt_familyId existing,
    rt_tokenHash = ev_sha256 env new, rt_expiresAt = refreshExpiresAt env (clock s), rt_revokedAt = None, rt_replacedBy = None\<rparr>"
  show ?thesis
    by (rule that [of ?row]) (use assms in \<open>auto simp: refresh_rotate_def ok_simps create_refresh_def auth_audit_def live_def\<close>)
qed

lemma refresh_trim: "refresh env tok s = (Inr x, s') \<Longrightarrow> js_trim tok \<noteq> []"
  by (auto simp: refresh_def refresh_checks_def ok_simps)

lemma reuse_run:
  assumes "js_trim tok \<noteq> []" "find_row (\<lambda>r. rt_tokenHash r = ev_sha256 env tok) (refresh_tokens s) = Some x" "\<not> live x"
  obtains s' where "refresh env tok s = (Inl (Unauthorized ''Refresh token reuse detected''), s')"
    "refresh_tokens s' = update_where (\<lambda>r. rt_familyId r = rt_familyId x \<and> rt_revokedAt r = None)
      (\<lambda>r. r\<lparr>rt_revokedAt := Some (clock s)\<rparr>) (refresh_tokens s)"
proof (cases "refresh env tok s")
  case (Pair r s')
  with assms show ?thesis
    by (intro that [of s'])
      (auto simp: refresh_def refresh_checks_def revoke_where_def auth_audit_def user_by_def live_def createA_def updateManyA_def act_defs)
qed

lemma revoked_family_dead:
  assumes "r \<in> set (update_where (\<lambda>r. rt_familyId r = fam \<and> rt_revokedAt r = None) (\<lambda>r. r\<lparr>rt_revokedAt := Some t\<rparr>) ts)"
    and "rt_familyId r = fam"
  shows "\<not> live r"
  using assms(1) by (cases rule: in_update_whereE) (use assms(2) in \<open>auto simp: live_def\<close>)

section \<open>Families that have ended\<close>

text \<open>
  What every operation keeps: the spent tokens of \<open>H\<close> (a hash and its family) stay in the table, revoked, and the
  families of \<open>F\<close> have no live token.
\<close>

definition ended :: "(string \<times> string) set \<Rightarrow> string set \<Rightarrow> 'z auth_db_scheme \<Rightarrow> bool" where
  "ended H F s \<longleftrightarrow> inj (id_supply s) \<and> F \<subseteq> id_supply s ` {..<next_id s} \<and>
    (\<forall>r \<in> set (refresh_tokens s). rt_familyId r \<in> F \<longrightarrow> \<not> live r) \<and>
    (\<forall>(h, fam) \<in> H. \<exists>r \<in> set (refresh_tokens s). rt_tokenHash r = h \<and> rt_familyId r = fam \<and> \<not> live r)"

named_theorems ended_keeps \<open>steps that revive no token\<close>

lemma ended_cong:
  assumes "ended H F s" "refresh_tokens s' = refresh_tokens s" "id_supply s' = id_supply s" "next_id s \<le> next_id s'"
  shows "ended H F s'"
proof -
  have "id_supply s ` {..<next_id s} \<subseteq> id_supply s ` {..<next_id s'}" using assms(4) by (intro image_mono) auto
  with assms show ?thesis by (auto simp: ended_def)
qed

lemma ended_update:
  assumes inv: "ended H F s" and f: "\<And>r. rt_tokenHash (f r) = rt_tokenHash r \<and> rt_familyId (f r) = rt_familyId r \<and> \<not> live (f r)"
  shows "ended H F (refresh_tokens_update (update_where P f) s)"
proof -
  have "\<exists>r \<in> set (update_where P f (refresh_tokens s)). rt_tokenHash r = h \<and> rt_familyId r = fam \<and> \<not> live r"
    if hf: "(h, fam) \<in> H" for h fam
  proof -
    from inv hf obtain r where r: "r \<in> set (refresh_tokens s)" "rt_tokenHash r = h" "rt_familyId r = fam" "\<not> live r"
      unfolding ended_def by fastforce
    then have "(if P r then f r else r) \<in> set (update_where P f (refresh_tokens s))" by (simp add: set_update_where)
    then show ?thesis by (rule rev_bexI) (use r f [of r] in auto)
  qed
  with inv f show ?thesis by (auto simp: ended_def ball_update_where)
qed

lemma ended_add:
  "ended H F s \<Longrightarrow> rt_familyId row \<notin> F \<Longrightarrow> ended H F (refresh_tokens_update (\<lambda>t. t @ [row]) s)"
  unfolding ended_def by fastforce

lemma ended_same:
  "ended H F (users_update f s) = ended H F s" "ended H F (shops_update g s) = ended H F s"
  "ended H F (audit_log_update k s) = ended H F s" "ended H F (clock_update c s) = ended H F s"
  by (simp_all add: ended_def)

lemma ended_audit [ended_keeps]: "keeps (ended H F) (auth_audit a b c d)"
  unfolding auth_audit_def by (rule keeps_createA) (simp add: ended_same)

lemma ended_newId [ended_keeps]: "keeps (ended H F) newIdA"
  by (auto simp: keeps_def newIdA_def elim: ended_cong)

lemma ended_hash_password [ended_keeps]: "keeps (ended H F) (hash_password env pw)"
  unfolding hash_password_def by (intro keeps_bind ended_newId keeps_return)

lemma ended_update_user [ended_keeps]: "keeps (ended H F) (update_user i f)"
  unfolding update_user_def by (rule keeps_updateA) (simp add: ended_same)

lemma ended_user_by [ended_keeps]: "keeps I (user_by P)"
  by (simp add: user_by_def keeps_gets)

lemma ended_create_user [ended_keeps]: "keeps (ended H F) (create_user u)"
  unfolding create_user_def by (rule keeps_createUniqueA) (simp add: ended_same)

lemma ended_create_shop [ended_keeps]: "keeps (ended H F) (createUniqueA shops shops_update P x)"
  by (rule keeps_createUniqueA) (simp add: ended_same)

lemma ended_revoke [ended_keeps]: "keeps (ended H F) (revoke_where P)"
  unfolding revoke_where_def by (intro keeps_bind keeps_gets keeps_updateManyA ended_update) (simp_all add: live_def)

lemma ended_issueTokens [ended_keeps]: "keeps (ended H F) (issueTokens env user)"
proof (rule keepsI)
  fix s r and s' :: "'a auth_db_scheme"
  assume inv: "ended H F s" and run: "issueTokens env user s = (r, s')"
  let ?s = "s\<lparr>next_id := Suc (Suc (Suc (next_id s)))\<rparr>"
  have inv3: "ended H F ?s" by (rule ended_cong [OF inv]) simp_all
  have new: "id_supply s (next_id s) \<notin> F"
    using inv by (auto simp: ended_def dest: injD)
  from run have "s' = ?s \<or> (\<exists>row. s' = refresh_tokens_update (\<lambda>t. t @ [row]) ?s \<and> rt_familyId row = id_supply s (next_id s))"
    by (auto simp: issueTokens_def create_refresh_def createUniqueA_def createA_def newIdA_def act_defs split: if_splits)
  with inv3 new show "ended H F s'" by (auto intro: ended_add)
qed

lemma ended_finalizeLogin [ended_keeps]: "keeps (ended H F) (finalizeLogin env user)"
  unfolding finalizeLogin_def by (intro keeps_then ended_keeps)

lemma ended_refresh [ended_keeps]: "keeps (ended H F) (refresh env tok)"
proof -
  have checks: "keeps (ended H F) (refresh_checks env tok)"
    unfolding refresh_checks_def
    by (intro keeps_steps ended_keeps keeps_updateA ended_update) (simp_all add: live_def)
  have rotate: "ended H F s'" if inv: "ended H F s" and row: "existing \<in> set (refresh_tokens s)" "live existing"
    and run: "refresh_rotate env existing user s = (r, s')" for existing user s r and s' :: "'a auth_db_scheme"
  proof -
    let ?s = "s\<lparr>next_id := Suc (Suc (next_id s))\<rparr>"
    have inv2: "ended H F ?s" by (rule ended_cong [OF inv]) simp_all
    have fam: "rt_familyId existing \<notin> F" using inv row by (auto simp: ended_def)
    have rest: "keeps (ended H F) (thenA (updateA refresh_tokens refresh_tokens_update (\<lambda>r. rt_id r = rt_id existing)
        (\<lambda>r. r\<lparr>rt_revokedAt := Some (clock s), rt_replacedBy := Some i\<rparr>))
      (thenA (auth_audit (Some (us_id user)) ''REFRESH_ROTATED'' ''RefreshToken'' (Some i)) (returnA x)))" for i x
      by (intro keeps_steps ended_keeps keeps_updateA ended_update) (simp_all add: live_def)
    define row where "row = \<lparr>rt_id = id_supply s (Suc (next_id s)), rt_userId = rt_userId existing, rt_familyId = rt_familyId existing,
      rt_tokenHash = ev_sha256 env (id_supply s (next_id s)), rt_expiresAt = refreshExpiresAt env (clock s), rt_revokedAt = None,
      rt_replacedBy = None\<rparr>"
    let ?rest = "\<lambda>i x. thenA (updateA refresh_tokens refresh_tokens_update (\<lambda>r. rt_id r = rt_id existing)
        (\<lambda>r. r\<lparr>rt_revokedAt := Some (clock s), rt_replacedBy := Some i\<rparr>))
      (thenA (auth_audit (Some (us_id user)) ''REFRESH_ROTATED'' ''RefreshToken'' (Some i)) (returnA x))"
    have "\<exists>i x. refresh_rotate env existing user s = thenA (create_refresh row) (?rest i x) ?s"
      by (intro exI) (simp add: refresh_rotate_def bindA_def getsA_def newIdA_def row_def)
    then obtain i x where "refresh_rotate env existing user s = thenA (create_refresh row) (?rest i x) ?s" by blast
    with run have "thenA (create_refresh row) (?rest i x) ?s = (r, s')" by simp
    then have out: "s' = ?s \<or> ?rest i x (refresh_tokens_update (\<lambda>t. t @ [row]) ?s) = (r, s')"
      unfolding create_refresh_def createUniqueA_def createA_def thenA_def [of "thenA _ _"] thenA_def [of "createUniqueA _ _ _ _"]
      by (auto simp: act_defs split: if_splits)
    have add: "ended H F (refresh_tokens_update (\<lambda>t. t @ [row]) ?s)" by (rule ended_add [OF inv2]) (simp add: row_def fam)
    from out show ?thesis
    proof
      assume "s' = ?s"
      with inv2 show ?thesis by simp
    next
      assume "?rest i x (refresh_tokens_update (\<lambda>t. t @ [row]) ?s) = (r, s')"
      with add show ?thesis by (rule keepsD [OF rest])
    qed
  qed
  show ?thesis
  proof (rule keepsI)
    fix s r and s' :: "'a auth_db_scheme"
    assume inv: "ended H F s" and run: "refresh env tok s = (r, s')"
    show "ended H F s'"
    proof (rule act_cases [of "refresh_checks env tok" s])
      fix e t assume throws: "refresh_checks env tok s = (Inl e, t)"
      with run keepsD [OF checks inv throws] show ?thesis by (simp add: refresh_def bindA_def)
    next
      fix eu t assume returns: "refresh_checks env tok s = (Inr eu, t)"
      obtain existing user where eu: "eu = (existing, user)" by (cases eu)
      note ok = refresh_checks_ok [OF returns [unfolded eu]]
      from run returns eu ok(1) have "refresh_rotate env existing user s = (r, s')" by (simp add: refresh_def bindA_def)
      with inv ok(2,3) show ?thesis by (rule rotate)
    qed
  qed
qed

lemma ended_parts [ended_keeps]:
  "keeps (ended H F) (sumA r)" "keeps (ended H F) (totp_ok env user code)" "keeps (ended H F) (verifyMfaTempToken env t allowed)"
  "keeps (ended H F) (signMfaTempToken env u q)" "keeps (ended H F) (free_email e)" "keeps (ended H F) (free_phone e')"
  unfolding totp_ok_def verifyMfaTempToken_def signMfaTempToken_def free_email_def free_phone_def
  by (intro keeps_sumA keeps_steps ended_keeps)+

lemma ended_second_factor [ended_keeps]: "keeps (ended H F) (second_factor env user c)"
  unfolding second_factor_def by (rule ended_keeps keeps_known keeps_steps | simp)+

lemma ended_failed_password [ended_keeps]: "keeps (ended H F) (failed_password user)"
  unfolding failed_password_def Let_def by (rule ended_keeps keeps_known keeps_steps | simp)+

lemma ended_setup2fa [ended_keeps]: "keeps (ended H F) (setup2fa b u)"
  unfolding setup2fa_def Let_def by (rule ended_keeps keeps_steps keeps_updateRowA | simp add: ended_same)+

lemma ended_enable2fa [ended_keeps]: "keeps (ended H F) (enable2fa env u c)"
  unfolding enable2fa_def by (rule ended_keeps keeps_known keeps_steps | simp)+

lemma ended_registrations [ended_keeps]:
  "keeps (ended H F) (registerCustomer env d)" "keeps (ended H F) (registerMerchant env m)"
  unfolding registerCustomer_def registerMerchant_def Let_def by (rule ended_keeps keeps_known keeps_steps | simp)+

lemma ended_logins [ended_keeps]: "keeps (ended H F) (login env l)" "keeps (ended H F) (verifyMfa env t c)"
  unfolding login_def verifyMfa_def Let_def by (rule ended_keeps keeps_known keeps_steps | simp)+

lemma ended_settings [ended_keeps]:
  "keeps (ended H F) (disable2fa env u c)" "keeps (ended H F) (verifyEmail env t)" "keeps (ended H F) (requestPasswordReset env e)"
  "keeps (ended H F) (confirmPasswordReset env t p)" "keeps (ended H F) (updateProfile u dto)"
  unfolding disable2fa_def verifyEmail_def requestPasswordReset_def confirmPasswordReset_def updateProfile_def me_def Let_def
  by (rule ended_keeps keeps_known keeps_steps | simp)+

lemma ended_exec: "keeps (ended H F) (auth_exec env x)"
proof (cases x)
  case (Wait n)
  have "keeps (ended H F) (modifyA (\<lambda>s. s\<lparr>clock := clock s + int n\<rparr>))"
    by (rule keeps_modify) (erule ended_cong; simp)
  with Wait show ?thesis by simp
qed (simp_all add: keeps_ignore ended_keeps setupTotpWithTemp_def enableTotpWithTemp_def logout_def revokeToken_def keeps_bind keeps_return)

interpretation ended: invariant_component "auth_exec env" "ended H F" for env H F
  by unfold_locales (rule ended_exec)

text \<open>A token of an ended family, or one that is not in the table, is refused.\<close>

lemma ended_refused:
  assumes "ended H F s" "r \<in> set (refresh_tokens s)" "rt_familyId r \<in> F" "rt_tokenHash r = ev_sha256 env t"
    and d: "distinct (map rt_tokenHash (refresh_tokens s))"
  shows "\<exists>m s'. refresh env t s = (Inl (Unauthorized m), s')"
proof (cases "js_trim t = []")
  case True
  then show ?thesis by (auto simp: refresh_def refresh_checks_def act_defs)
next
  case False
  have "find_row (\<lambda>r. rt_tokenHash r = ev_sha256 env t) (refresh_tokens s) = Some r"
    using find_row_key [OF d assms(2)] assms(4) by simp
  moreover have "\<not> live r" using assms(1-3) by (auto simp: ended_def)
  ultimately show ?thesis by (rule reuse_run [OF False]) blast
qed

lemma reuse_afterwards:
  assumes inv: "auth_inv {} {} s" and old: "ended {(ev_sha256 env tok, fam)} {} s" and tok: "js_trim tok \<noteq> []"
  shows "\<exists>s'. refresh env tok s = (Inl (Unauthorized ''Refresh token reuse detected''), s') \<and> auth_inv {} {} s' \<and> ended {} {fam} s'"
proof -
  from old obtain x where x: "x \<in> set (refresh_tokens s)" "rt_tokenHash x = ev_sha256 env tok" "rt_familyId x = fam" "\<not> live x"
    by (auto simp: ended_def)
  have sound: "distinct (map rt_tokenHash (refresh_tokens s))" "fam \<in> id_supply s ` {..<next_id s}" "inj (id_supply s)"
    using inv x(1,3) by (auto simp: auth_inv_def tokens_sound_def)
  from find_row_key [OF sound(1) x(1)] x(2) have "find_row (\<lambda>r. rt_tokenHash r = ev_sha256 env tok) (refresh_tokens s) = Some x" by simp
  from reuse_run [OF tok this x(4)] obtain s' where run: "refresh env tok s = (Inl (Unauthorized ''Refresh token reuse detected''), s')"
    and ts: "refresh_tokens s' = update_where (\<lambda>r. rt_familyId r = rt_familyId x \<and> rt_revokedAt r = None)
      (\<lambda>r. r\<lparr>rt_revokedAt := Some (clock s)\<rparr>) (refresh_tokens s)" by blast
  have inv': "auth_inv {} {} s'" by (rule keepsD [OF keeps_refresh inv run])
  have "x \<in> set (refresh_tokens s')" using x(1,4) by (auto simp: ts set_update_where live_def image_iff)
  with inv' x(3) have "fam \<in> id_supply s' ` {..<next_id s'}" by (auto simp: auth_inv_def tokens_sound_def)
  moreover have "\<forall>r \<in> set (refresh_tokens s'). rt_familyId r = fam \<longrightarrow> \<not> live r"
  proof (intro ballI impI)
    fix r assume "r \<in> set (refresh_tokens s')" "rt_familyId r = fam"
    with x(3) show "\<not> live r"
      by (intro revoked_family_dead [where fam = "rt_familyId x" and t = "clock s" and ts = "refresh_tokens s"]) (simp_all add: ts)
  qed
  ultimately have "ended {} {fam} s'" using inv' by (auto simp: ended_def auth_inv_def tokens_sound_def)
  with run inv' show ?thesis by blast
qed

text \<open>
  C9.  A refresh token works once, and showing it again ends its family for good.  After a refresh that
  exchanged a token for a new one of the same family, and after any operations that follow (further refreshes of
  the new tokens too), the old token is refused as reused; from then on, whatever operations follow, every token of
  the family is revoked and none of them is accepted.
\<close>

theorem reuse_ends_family:
  assumes sound: "accounts_typed (users s) (shops s)" "tokens_sound s"
    and run: "refresh env tok s = (Inr (acc, new), s1)"
  shows "\<exists>fam. (\<exists>r \<in> set (refresh_tokens s). rt_tokenHash r = ev_sha256 env tok \<and> rt_familyId r = fam) \<and>
    (\<exists>r \<in> set (refresh_tokens s1). rt_tokenHash r = ev_sha256 env new \<and> rt_familyId r = fam) \<and>
    (\<forall>ops. \<exists>s3. refresh env tok (run_all (auth_exec env) ops s1) = (Inl (Unauthorized ''Refresh token reuse detected''), s3) \<and>
      (\<forall>later. \<forall>r \<in> set (refresh_tokens (run_all (auth_exec env) later s3)). rt_familyId r = fam \<longrightarrow>
        rt_revokedAt r \<noteq> None \<and>
        (\<forall>t. ev_sha256 env t = rt_tokenHash r \<longrightarrow>
          (\<exists>m s4. refresh env t (run_all (auth_exec env) later s3) = (Inl (Unauthorized m), s4)))))"
proof -
  have inv: "auth_inv {} {} s" using sound by (simp add: auth_inv_def)
  from run obtain existing user where checks: "refresh_checks env tok s = (Inr (existing, user), s)"
    and rot: "refresh_rotate env existing user s = (Inr (acc, new), s1)"
    by (auto simp: refresh_def ok_simps dest: refresh_checks_ok(1))
  note ok = refresh_checks_ok [OF checks]
  from rotate_ok [OF rot] obtain row where
    ts1: "refresh_tokens s1 = update_where (\<lambda>r. rt_id r = rt_id existing)
      (\<lambda>r. r\<lparr>rt_revokedAt := Some (clock s), rt_replacedBy := Some (rt_id row)\<rparr>) (refresh_tokens s @ [row])"
    and row: "rt_tokenHash row = ev_sha256 env new" "rt_familyId row = rt_familyId existing"
    and other: "rt_id existing \<noteq> rt_id row" by (metis ok(2))
  define fam where "fam = rt_familyId existing"
  let ?old = "existing\<lparr>rt_revokedAt := Some (clock s), rt_replacedBy := Some (rt_id row)\<rparr>"
  have inv1: "auth_inv {} {} s1" by (rule keepsD [OF keeps_refresh inv run])
  have "?old \<in> set (refresh_tokens s1)" and row1: "row \<in> set (refresh_tokens s1)"
    using ok(2) other by (auto simp: ts1 set_update_where)
  moreover have "rt_tokenHash ?old = ev_sha256 env tok" "rt_familyId ?old = fam" "\<not> live ?old"
    by (simp_all add: ok(4) fam_def live_def)
  moreover have "inj (id_supply s1)" using inv1 by (simp add: auth_inv_def tokens_sound_def)
  ultimately have spent: "ended {(ev_sha256 env tok, fam)} {} s1" unfolding ended_def by blast
  have "\<exists>s3. refresh env tok (run_all (auth_exec env) ops s1) = (Inl (Unauthorized ''Refresh token reuse detected''), s3) \<and>
      (\<forall>later. \<forall>r \<in> set (refresh_tokens (run_all (auth_exec env) later s3)). rt_familyId r = fam \<longrightarrow>
        rt_revokedAt r \<noteq> None \<and>
        (\<forall>t. ev_sha256 env t = rt_tokenHash r \<longrightarrow>
          (\<exists>m s4. refresh env t (run_all (auth_exec env) later s3) = (Inl (Unauthorized m), s4))))" for ops
  proof -
    from reuse_afterwards [OF accounts.history_keeps [OF inv1] ended.history_keeps [OF spent] refresh_trim [OF run]]
    obtain s3 where s3: "refresh env tok (run_all (auth_exec env) ops s1) = (Inl (Unauthorized ''Refresh token reuse detected''), s3)"
        "auth_inv {} {} s3" "ended {} {fam} s3" by blast
    have "rt_revokedAt r \<noteq> None \<and> (\<forall>t. ev_sha256 env t = rt_tokenHash r \<longrightarrow>
          (\<exists>m s4. refresh env t (run_all (auth_exec env) later s3) = (Inl (Unauthorized m), s4)))"
      if r: "r \<in> set (refresh_tokens (run_all (auth_exec env) later s3))" "rt_familyId r = fam" for r later
    proof -
      have e: "ended {} {fam} (run_all (auth_exec env) later s3)" by (rule ended.history_keeps [OF s3(3)])
      have "distinct (map rt_tokenHash (refresh_tokens (run_all (auth_exec env) later s3)))"
        using accounts.history_keeps [OF s3(2)] by (simp add: auth_inv_def tokens_sound_def)
      with e r ended_refused [OF e r(1)] show ?thesis by (auto simp: ended_def live_def)
    qed
    with s3(1) show ?thesis by blast
  qed
  with ok(2,4) row row1 show ?thesis unfolding fam_def by blast
qed

theorem reuse_ends_family_witness:
  "\<exists>acc new s1 s3. refresh demo_env ''tok'' (demo_accounts [demo_user] [demo_token]) = (Inr (acc, new), s1) \<and>
    refresh demo_env ''tok'' (run_all (auth_exec demo_env) [Refresh new] s1) = (Inl (Unauthorized ''Refresh token reuse detected''), s3)"
proof -
  have sound: "tokens_sound (demo_accounts [demo_user] [demo_token])"
    by (simp add: tokens_sound_def one_live_def demo_inj demo_user_def demo_token_def)
  have "js_trim ''tok'' = ''tok''" by code_simp
  then have "\<exists>acc new s1. refresh demo_env ''tok'' (demo_accounts [demo_user] [demo_token]) = (Inr (acc, new), s1)"
    by (simp add: refresh_def refresh_checks_def refresh_rotate_def user_by_def create_refresh_def createUniqueA_def createA_def
        newIdA_def updateA_def auth_audit_def act_defs demo_env_def demo_token_def demo_user_def)
  then obtain acc new s1 where run: "refresh demo_env ''tok'' (demo_accounts [demo_user] [demo_token]) = (Inr (acc, new), s1)" by blast
  have "accounts_typed (users (demo_accounts [demo_user] [demo_token])) (shops (demo_accounts [demo_user] [demo_token]))"
    by (simp add: demo_typed)
  from reuse_ends_family [OF this sound run]
  have "\<exists>s3. refresh demo_env ''tok'' (run_all (auth_exec demo_env) [Refresh new] s1) = (Inl (Unauthorized ''Refresh token reuse detected''), s3)"
    by blast
  with run show ?thesis by blast
qed

text \<open>
  Two refreshes of one token that overlap both succeed: when both have passed the checks before either
  has rotated, both give a new token, and the family then has two tokens that work.  The detection of
  reuse sees nothing.
\<close>

theorem overlapping_refreshes_fork:
  assumes sound: "tokens_sound s"
    and checks: "refresh_checks env tok s = (Inr (existing, user), s0)" "refresh_checks env tok s0 = (Inr (existing', user'), s1)"
    and rotates: "refresh_rotate env existing user s1 = (Inr (acc, new), s2)" "refresh_rotate env existing' user' s2 = (Inr (acc', new'), s3)"
  shows "\<exists>a \<in> set (refresh_tokens s3). \<exists>b \<in> set (refresh_tokens s3). a \<noteq> b \<and> rt_familyId a = rt_familyId b \<and>
    rt_revokedAt a = None \<and> rt_revokedAt b = None \<and>
    rt_tokenHash a = ev_sha256 env new \<and> rt_tokenHash b = ev_sha256 env new'"
proof -
  note ok = refresh_checks_ok [OF checks(1)] and ok' = refresh_checks_ok [OF checks(2)]
  have "existing' = existing"
    using sound ok(2,4) ok'(2,4) unfolding ok(1) by (metis distinct_key_eq tokens_sound_def)
  from rotate_ok [OF rotates(1)] obtain a where
    a: "refresh_tokens s2 = update_where (\<lambda>r. rt_id r = rt_id existing)
      (\<lambda>r. r\<lparr>rt_revokedAt := Some (clock s1), rt_replacedBy := Some (rt_id a)\<rparr>) (refresh_tokens s1 @ [a])"
    "rt_tokenHash a = ev_sha256 env new" "rt_familyId a = rt_familyId existing" "live a"
    "\<forall>r \<in> set (refresh_tokens s1). rt_id r \<noteq> rt_id a \<and> rt_tokenHash r \<noteq> rt_tokenHash a" by metis
  from rotate_ok [OF rotates(2)] obtain b where
    b: "refresh_tokens s3 = update_where (\<lambda>r. rt_id r = rt_id existing')
      (\<lambda>r. r\<lparr>rt_revokedAt := Some (clock s2), rt_replacedBy := Some (rt_id b)\<rparr>) (refresh_tokens s2 @ [b])"
    "rt_tokenHash b = ev_sha256 env new'" "rt_familyId b = rt_familyId existing'" "live b"
    "\<forall>r \<in> set (refresh_tokens s2). rt_id r \<noteq> rt_id b \<and> rt_tokenHash r \<noteq> rt_tokenHash b" by metis
  have mem: "existing \<in> set (refresh_tokens s1)" using ok(1,2) ok'(1) by simp
  have a2: "a \<in> set (refresh_tokens s2)" using a(1,5) mem by (auto simp: set_update_where)
  have ids: "rt_id a \<noteq> rt_id existing" using a(5) mem by auto
  have e2: "rt_id existing \<in> rt_id ` set (refresh_tokens s2)"
    using mem by (simp add: a(1) image_update_where)
  have bid: "rt_id b \<noteq> rt_id existing" using b(5) e2 by auto
  have "a \<in> set (refresh_tokens s3)" "b \<in> set (refresh_tokens s3)"
    using a2 ids bid \<open>existing' = existing\<close> by (auto simp: b(1) set_update_where)
  moreover have "a \<noteq> b" using a2 b(5) by auto
  ultimately show ?thesis
    using a(2-4) b(2-4) \<open>existing' = existing\<close> unfolding live_def by (intro bexI [of _ a] bexI [of _ b]) simp_all
qed

theorem overlapping_refreshes_fork_witness:
  "\<exists>s3. (\<exists>ex us s2 p q. refresh_checks demo_env ''tok'' (demo_accounts [demo_user] [demo_token]) = (Inr (ex, us), demo_accounts [demo_user] [demo_token]) \<and>
      refresh_rotate demo_env ex us (demo_accounts [demo_user] [demo_token]) = (Inr p, s2) \<and>
      refresh_rotate demo_env ex us s2 = (Inr q, s3)) \<and>
    (\<exists>a \<in> set (refresh_tokens s3). \<exists>b \<in> set (refresh_tokens s3). a \<noteq> b \<and> rt_familyId a = rt_familyId b \<and>
      rt_revokedAt a = None \<and> rt_revokedAt b = None)"
proof -
  let ?s = "demo_accounts [demo_user] [demo_token]"
  have t: "js_trim ''tok'' = ''tok''" by code_simp
  have c: "refresh_checks demo_env ''tok'' ?s = (Inr (demo_token, demo_user), ?s)"
    by (simp add: refresh_checks_def t user_by_def act_defs demo_env_def demo_token_def demo_user_def)
  have "\<exists>acc new s2. refresh_rotate demo_env demo_token demo_user ?s = (Inr (acc, new), s2) \<and>
    (\<exists>acc' new' s3. refresh_rotate demo_env demo_token demo_user s2 = (Inr (acc', new'), s3))"
    by (simp add: refresh_rotate_def create_refresh_def createUniqueA_def createA_def
        newIdA_def updateA_def auth_audit_def act_defs demo_env_def demo_token_def)
  then obtain acc new s2 acc' new' s3 where r: "refresh_rotate demo_env demo_token demo_user ?s = (Inr (acc, new), s2)"
    "refresh_rotate demo_env demo_token demo_user s2 = (Inr (acc', new'), s3)" by blast
  have sound: "tokens_sound ?s"
    by (simp add: tokens_sound_def one_live_def demo_inj demo_user_def demo_token_def)
  from overlapping_refreshes_fork [OF sound c c r] c r show ?thesis by blast
qed

section \<open>Login\<close>

lemma issueTokens_ok:
  assumes "issueTokens env u s = (Inr se, s')"
  shows "users s' = users s" "se_user se = user_view_of u"
    "\<exists>r \<in> set (refresh_tokens s'). rt_tokenHash r = ev_sha256 env (se_refreshToken se) \<and> rt_userId r = us_id u \<and> rt_revokedAt r = None"
  using assms by (auto simp: issueTokens_def create_refresh_def ok_simps)

lemma finalizeLogin_ok:
  assumes "finalizeLogin env u s = (Inr se, s')"
  shows "se_user se = user_view_of u"
    "\<exists>r \<in> set (refresh_tokens s'). rt_tokenHash r = ev_sha256 env (se_refreshToken se) \<and> rt_userId r = us_id u \<and> rt_revokedAt r = None"
  using assms by (auto simp: finalizeLogin_def ok_simps dest: issueTokens_ok)

lemma sumA_ok: "sumA r s = (Inr y, s') \<longleftrightarrow> r = Inr y \<and> s' = s"
  by (auto simp: sumA_def ok_simps split: sum.splits)

lemma totp_ok_True:
  "totp_ok env u code s = (Inr True, s') \<longleftrightarrow>
    s' = s \<and> (\<exists>secret. us_twoFactorSecret u = Some secret \<and> secret \<noteq> [] \<and> verifyTotp (ev_hmac env) (clock s) secret code = Inr True)"
  by (auto simp: totp_ok_def ok_simps sumA_ok or_else_def split: option.splits if_splits)

lemma second_factor_ok:
  assumes "second_factor env u c s = (Inr x, s')"
  shows "\<not> truthy c \<and> x = MfaRequired False (ev_sign env (mfa_claims (us_id u) ''mfa'') (clock s + 5 * 60 * 1000)) \<and> s' = s \<or>
    (\<exists>code se. c = Some code \<and> x = LoggedIn se \<and> finalizeLogin env u s = (Inr se, s') \<and> totp_ok env u code s = (Inr True, s))"
  using assms
  by (cases c) (auto simp: second_factor_def ok_simps signMfaTempToken_def totp_ok_True split: if_splits)

text \<open>The account a login asks for.\<close>

definition login_names :: "login_dto \<Rightarrow> user_row \<Rightarrow> bool" where
  "login_names dto u \<longleftrightarrow>
    (let email = or_else (map_option norm_email (lg_email dto)) None in
     if email \<noteq> None then us_email u = the email else us_phone u = or_else (map_option js_trim (lg_phone dto)) None)"

definition unlocked :: "int \<Rightarrow> user_row \<Rightarrow> bool" where
  "unlocked now u \<longleftrightarrow> (\<forall>t. us_lockedUntil u = Some t \<longrightarrow> t \<le> now)"

lemma login_ok:
  assumes run: "login env dto s = (Inr x, s')"
  obtains u where "u \<in> set (users s)" "login_names dto u" "unlocked (clock s) u" "us_status u \<notin> {US_SUSPENDED, US_INACTIVE}"
    "ev_compare env (lg_password dto) (us_passwordHash u)"
    "(us_twoFactorEnabled u \<and> second_factor env u (lg_totpCode dto) s = (Inr x, s')) \<or>
     (\<not> us_twoFactorEnabled u \<and> (us_role u \<in> {ADMIN, SUPER_ADMIN} \<longrightarrow> skipAdminMfaEnroll env) \<and>
       (\<exists>se. x = LoggedIn se \<and> finalizeLogin env u s = (Inr se, s'))) \<or>
     (\<not> us_twoFactorEnabled u \<and> us_role u \<in> {ADMIN, SUPER_ADMIN} \<and> users s' = users s \<and> clock s' = clock s \<and>
       x = MfaRequired True (ev_sign env (mfa_claims (us_id u) ''mfa_enroll'') (clock s + 5 * 60 * 1000)))"
proof -
  from run obtain u where u: "find_row (\<lambda>u. if or_else (map_option norm_email (lg_email dto)) None \<noteq> None
      then us_email u = the (or_else (map_option norm_email (lg_email dto)) None)
      else us_phone u = or_else (map_option js_trim (lg_phone dto)) None) (users s) = Some u"
    by (auto simp: login_def Let_def user_by_def ok_simps split: option.splits)
  have names: "u \<in> set (users s)" "login_names dto u"
    using find_row_Some [OF u] by (simp_all add: login_names_def Let_def)
  have failed: "failed_password v t \<noteq> (Inr y, t')" for v y and t t' :: "'a auth_db_scheme"
    by (simp add: failed_password_def Let_def ok_simps)
  from run u have "unlocked (clock s) u" "us_status u \<notin> {US_SUSPENDED, US_INACTIVE}"
    "ev_compare env (lg_password dto) (us_passwordHash u)"
    by (auto simp: login_def Let_def user_by_def ok_simps failed unlocked_def split: if_splits option.splits)
  moreover from run u have "(us_twoFactorEnabled u \<and> second_factor env u (lg_totpCode dto) s = (Inr x, s')) \<or>
     (\<not> us_twoFactorEnabled u \<and> (us_role u \<in> {ADMIN, SUPER_ADMIN} \<longrightarrow> skipAdminMfaEnroll env) \<and>
       (\<exists>se. x = LoggedIn se \<and> finalizeLogin env u s = (Inr se, s'))) \<or>
     (\<not> us_twoFactorEnabled u \<and> us_role u \<in> {ADMIN, SUPER_ADMIN} \<and> users s' = users s \<and> clock s' = clock s \<and>
       x = MfaRequired True (ev_sign env (mfa_claims (us_id u) ''mfa_enroll'') (clock s + 5 * 60 * 1000)))"
    by (auto simp: login_def Let_def user_by_def ok_simps failed signMfaTempToken_def auth_audit_def split: if_splits option.splits)
  ultimately show ?thesis using that names by blast
qed

text \<open>
  C8.  A login that gives a session has seen all it needs: the account named by the email (or the phone when
  there is no email) exists, is not locked, suspended or inactive, the password matches its hash, and if it
  has a second factor the code of the request was right at that time.  An administrator without a second
  factor gets in only where the configuration allows demo logins.  The session is the account's.
\<close>

theorem login_needs_credentials:
  assumes run: "login env dto s = (Inr (LoggedIn se), s')"
  shows "\<exists>u \<in> set (users s). login_names dto u \<and> unlocked (clock s) u \<and> us_status u \<in> {US_ACTIVE, US_PENDING_VERIFICATION} \<and>
    ev_compare env (lg_password dto) (us_passwordHash u) \<and>
    (us_twoFactorEnabled u \<longrightarrow> (\<exists>secret code. us_twoFactorSecret u = Some secret \<and> lg_totpCode dto = Some code \<and>
      verifyTotp (ev_hmac env) (clock s) secret code = Inr True)) \<and>
    (us_role u \<in> {ADMIN, SUPER_ADMIN} \<and> \<not> us_twoFactorEnabled u \<longrightarrow> skipAdminMfaEnroll env) \<and>
    se_user se = user_view_of u \<and>
    (\<exists>r \<in> set (refresh_tokens s'). rt_tokenHash r = ev_sha256 env (se_refreshToken se) \<and> rt_userId r = us_id u \<and> rt_revokedAt r = None)"
proof -
  from login_ok [OF run] obtain u where u: "u \<in> set (users s)" "login_names dto u" "unlocked (clock s) u"
    "us_status u \<notin> {US_SUSPENDED, US_INACTIVE}" "ev_compare env (lg_password dto) (us_passwordHash u)"
    and way: "(us_twoFactorEnabled u \<and> second_factor env u (lg_totpCode dto) s = (Inr (LoggedIn se), s')) \<or>
     (\<not> us_twoFactorEnabled u \<and> (us_role u \<in> {ADMIN, SUPER_ADMIN} \<longrightarrow> skipAdminMfaEnroll env) \<and>
       finalizeLogin env u s = (Inr se, s'))" by auto
  have st: "us_status u \<in> {US_ACTIVE, US_PENDING_VERIFICATION}" using u(4) by (cases "us_status u") auto
  have fin: "finalizeLogin env u s = (Inr se, s')"
    and two: "us_twoFactorEnabled u \<longrightarrow> (\<exists>secret code. us_twoFactorSecret u = Some secret \<and> lg_totpCode dto = Some code \<and>
      verifyTotp (ev_hmac env) (clock s) secret code = Inr True)"
    and adm: "us_role u \<in> {ADMIN, SUPER_ADMIN} \<and> \<not> us_twoFactorEnabled u \<longrightarrow> skipAdminMfaEnroll env"
    using way by (auto dest!: second_factor_ok simp: totp_ok_True)
  show ?thesis using u st two adm finalizeLogin_ok [OF fin] by blast
qed

definition demo_login :: login_dto where
  "demo_login = \<lparr>lg_email = Some ''u1@x'', lg_phone = None, lg_password = ''secret'', lg_totpCode = None\<rparr>"

lemma demo_email: "norm_email ''u1@x'' = ''u1@x''"
  by code_simp

theorem login_needs_credentials_witness:
  "\<exists>se s'. login demo_env demo_login (demo_accounts [demo_user] []) = (Inr (LoggedIn se), s') \<and> uv_id (se_user se) = ''u1''"
proof -
  have "\<exists>se s'. login demo_env demo_login (demo_accounts [demo_user] []) = (Inr (LoggedIn se), s')"
    by (simp add: login_def demo_login_def Let_def or_else_def demo_email user_by_def failed_password_def finalizeLogin_def update_user_def issueTokens_def
        create_refresh_def createUniqueA_def createA_def newIdA_def updateA_def auth_audit_def act_defs demo_env_def demo_user_def)
  then obtain se s' where run: "login demo_env demo_login (demo_accounts [demo_user] []) = (Inr (LoggedIn se), s')" by blast
  from login_needs_credentials [OF run] run show ?thesis by (auto simp: user_view_of_def demo_user_def)
qed

text \<open>
  The second factor does not hold the API.  Where a login asks for the code (or for enrolment) it hands out
  a temporary token, signed with the same secret as access tokens; the guard of every route takes it, because
  nothing looks at its purpose, and gives the caller the account's full identity and role.  So the password
  alone opens the account.
\<close>

theorem mfa_token_opens_the_api:
  assumes typed: "accounts_typed (users s) (shops s)"
    and jwt: "\<forall>uid p. ev_verify env (ev_sign env (mfa_claims uid p) (clock s + 5 * 60 * 1000)) (clock s) = Some (mfa_claims uid p)"
    and run: "login env dto s = (Inr (MfaRequired enrol t), s')"
  shows "\<exists>u \<in> set (users s). login_names dto u \<and> ev_compare env (lg_password dto) (us_passwordHash u) \<and>
    (us_status u = US_ACTIVE \<longrightarrow>
      bearer env t s' = (Inr \<lparr>sub = us_id u, email = us_email u, user_role = us_role u, user_shopId = us_shopId u,
        user_tenantId = us_tenantId u\<rparr>, s'))"
proof -
  from login_ok [OF run] obtain u where u: "u \<in> set (users s)" "login_names dto u"
    "ev_compare env (lg_password dto) (us_passwordHash u)"
    and way: "second_factor env u (lg_totpCode dto) s = (Inr (MfaRequired enrol t), s') \<or>
     (users s' = users s \<and> clock s' = clock s \<and> t = ev_sign env (mfa_claims (us_id u) ''mfa_enroll'') (clock s + 5 * 60 * 1000))"
    by auto
  from way obtain p where t: "t = ev_sign env (mfa_claims (us_id u) p) (clock s + 5 * 60 * 1000)"
    and same: "users s' = users s" "clock s' = clock s"
    by (auto dest!: second_factor_ok)
  have "distinct (map us_id (users s))" using typed by (simp add: accounts_typed_def)
  then have "find_row (\<lambda>v. us_id v = us_id u) (users s') = Some u" using u(1) by (simp add: same find_row_key)
  then have "us_status u = US_ACTIVE \<longrightarrow>
      bearer env t s' = (Inr \<lparr>sub = us_id u, email = us_email u, user_role = us_role u, user_shopId = us_shopId u,
        user_tenantId = us_tenantId u\<rparr>, s')"
    using jwt by (simp add: bearer_def jwt_validate_def user_by_def act_laws same t mfa_claims_def)
  with u show ?thesis by blast
qed

definition demo_totp_user :: user_row where
  "demo_totp_user = demo_user\<lparr>us_role := ADMIN, us_twoFactorEnabled := True, us_twoFactorSecret := Some ''A''\<rparr>"

theorem mfa_token_opens_the_api_witness:
  "\<exists>t s' p. login demo_env demo_login (demo_accounts [demo_totp_user] []) = (Inr (MfaRequired False t), s') \<and>
    bearer demo_env t s' = (Inr p, s') \<and> user_role p = ADMIN"
proof -
  let ?s = "demo_accounts [demo_totp_user] []"
  have "accounts_typed (users ?s) (shops ?s)"
    by (simp add: accounts_typed_def unique_col_def map_filter_Cons demo_totp_user_def demo_user_def)
  moreover have "\<forall>uid p. ev_verify demo_env (ev_sign demo_env (mfa_claims uid p) (clock ?s + 5 * 60 * 1000)) (clock ?s) = Some (mfa_claims uid p)"
    by (simp add: demo_env_def demo_verify_sign)
  moreover have "\<exists>t. login demo_env demo_login ?s = (Inr (MfaRequired False t), ?s)"
    by (simp add: login_def demo_login_def Let_def or_else_def demo_email user_by_def second_factor_def signMfaTempToken_def
        act_defs demo_env_def demo_totp_user_def demo_user_def)
  ultimately show ?thesis
    using mfa_token_opens_the_api [of ?s demo_env demo_login False _ ?s] by (fastforce simp: demo_totp_user_def demo_user_def)
qed

text \<open>
  The same token also replaces the second factor: \<open>setupTotpWithTemp\<close> accepts the purpose \<open>mfa\<close> of an account
  whose second factor is on, writes a new secret and turns the factor off.
\<close>

lemma temp_token_replaces_secret:
  assumes jwt: "ev_verify env t (clock s) = Some (mfa_claims (us_id u) ''mfa'')"
    and user: "distinct (map us_id (users s))" "u \<in> set (users s)" "us_id u \<noteq> []"
  shows "\<exists>url s'. setupTotpWithTemp env random t s = (Inr (generateTotpSecret random, url), s') \<and>
    find_row (\<lambda>v. us_id v = us_id u) (users s') =
      Some (u\<lparr>us_twoFactorSecret := Some (generateTotpSecret random), us_twoFactorEnabled := False, us_totpVerifiedAt := None\<rparr>)"
  using assms find_row_key [OF user(1,2)]
  by (simp add: setupTotpWithTemp_def verifyMfaTempToken_def setup2fa_def Let_def updateRowA_def act_defs mfa_claims_def
      find_row_update_where)

section \<open>Password reset\<close>

text \<open>
  A password reset that succeeds ends every session of the account: its token was issued for the account
  and had not expired, the row gets the new hash and loses the token and the lock, and no refresh token the
  account had before can be used any more.
\<close>

theorem reset_ends_sessions:
  assumes sound: "accounts_typed (users s) (shops s)" "tokens_sound s"
    and run: "confirmPasswordReset env token pw s = (Inr x, s')"
  shows "\<exists>u \<in> set (users s). us_passwordResetToken u = Some (ev_sha256 env token) \<and>
    (\<exists>t. us_passwordResetExpires u = Some t \<and> clock s < t) \<and>
    (\<exists>salt. find_row (\<lambda>v. us_id v = us_id u) (users s') =
      Some (u\<lparr>us_passwordHash := ev_bcrypt env pw salt, us_passwordResetToken := None, us_passwordResetExpires := None,
        us_failedLoginAttempts := 0, us_lockedUntil := None\<rparr>)) \<and>
    (\<forall>r \<in> set (refresh_tokens s'). rt_userId r = us_id u \<longrightarrow> rt_revokedAt r \<noteq> None) \<and>
    (\<forall>tok r. r \<in> set (refresh_tokens s) \<and> rt_userId r = us_id u \<and> rt_tokenHash r = ev_sha256 env tok \<longrightarrow>
      (\<exists>e s2. refresh env tok s' = (Inl e, s2)))"
proof -
  from run obtain u where find: "find_row (\<lambda>u. us_passwordResetToken u = Some (ev_sha256 env token) \<and>
      (case us_passwordResetExpires u of None \<Rightarrow> False | Some t \<Rightarrow> clock s < t)) (users s) = Some u"
    by (auto simp: confirmPasswordReset_def user_by_def ok_simps)
  define f salt where "f = (\<lambda>v :: user_row. v\<lparr>us_passwordHash := ev_bcrypt env pw (id_supply s (next_id s)), us_passwordResetToken := None,
      us_passwordResetExpires := None, us_failedLoginAttempts := 0, us_lockedUntil := None\<rparr>)" and "salt = id_supply s (next_id s)"
  let ?P = "\<lambda>r. rt_userId r = us_id u \<and> rt_revokedAt r = None"
  have s': "users s' = update_where (\<lambda>v. us_id v = us_id u) f (users s)"
    "refresh_tokens s' = update_where ?P (\<lambda>r. r\<lparr>rt_revokedAt := Some (clock s)\<rparr>) (refresh_tokens s)"
    using run find by (auto simp: confirmPasswordReset_def user_by_def ok_simps hash_password_def update_user_def revoke_where_def auth_audit_def f_def)
  have u: "u \<in> set (users s)" "us_passwordResetToken u = Some (ev_sha256 env token)" "\<exists>t. us_passwordResetExpires u = Some t \<and> clock s < t"
    using find_row_Some [OF find] by (auto split: option.splits)
  have row: "find_row (\<lambda>v. us_id v = us_id u) (users s') = Some (f u)"
    using find_row_key [of us_id "users s" u] u(1) sound(1) by (simp add: s' find_row_update_where accounts_typed_def f_def)
  have dead: "\<forall>r \<in> set (refresh_tokens s'). rt_userId r = us_id u \<longrightarrow> rt_revokedAt r \<noteq> None"
    unfolding s' ball_update_where by simp
  have "\<exists>e s2. refresh env tok s' = (Inl e, s2)" if r: "r \<in> set (refresh_tokens s)" "rt_userId r = us_id u" "rt_tokenHash r = ev_sha256 env tok"
    for tok and r
  proof (cases "refresh env tok s'")
    case (Pair y s2)
    show ?thesis
    proof (cases y)
      case (Inr z)
      with Pair obtain ex us where ok: "refresh_checks env tok s' = (Inr (ex, us), s')"
        by (auto simp: refresh_def ok_simps dest: refresh_checks_ok(1))
      from refresh_checks_ok [OF ok] have ex: "ex \<in> set (refresh_tokens s')" "live ex" "rt_tokenHash ex = ev_sha256 env tok" by auto
      from ex(1) obtain e0 where e0: "e0 \<in> set (refresh_tokens s)" "rt_tokenHash e0 = rt_tokenHash ex" "rt_userId ex = rt_userId e0"
        by (auto simp: s' set_update_where)
      have "distinct (map rt_tokenHash (refresh_tokens s))" using sound(2) by (simp add: tokens_sound_def)
      then have "e0 = r" using r e0 ex(3) by (intro distinct_key_eq [of rt_tokenHash]) simp_all
      with e0 ex dead r(2) show ?thesis by (auto simp: live_def)
    qed (use Pair in simp)
  qed
  with u row dead show ?thesis unfolding f_def by blast
qed

theorem reset_ends_sessions_witness:
  "\<exists>x s' e s2. confirmPasswordReset demo_env ''r'' ''new'' (demo_accounts
      [demo_user\<lparr>us_passwordResetToken := Some ''r'', us_passwordResetExpires := Some 2000\<rparr>] [demo_token]) = (Inr x, s') \<and>
    refresh demo_env ''tok'' s' = (Inl e, s2)"
proof -
  define s where "s = demo_accounts [demo_user\<lparr>us_passwordResetToken := Some ''r'', us_passwordResetExpires := Some 2000\<rparr>] [demo_token]"
  have typed: "accounts_typed (users s) (shops s)"
    by (simp add: s_def accounts_typed_def unique_col_def map_filter_Cons demo_user_def)
  have sound: "tokens_sound s" by (simp add: s_def tokens_sound_def one_live_def demo_inj demo_user_def demo_token_def)
  have "\<exists>x s'. confirmPasswordReset demo_env ''r'' ''new'' s = (Inr x, s')"
    by (simp add: s_def confirmPasswordReset_def user_by_def hash_password_def newIdA_def update_user_def updateA_def revoke_where_def
        updateManyA_def auth_audit_def createA_def act_defs demo_env_def demo_user_def)
  then obtain x s' where run: "confirmPasswordReset demo_env ''r'' ''new'' s = (Inr x, s')" by blast
  from reset_ends_sessions [OF typed sound run] obtain u where u: "u \<in> set (users s)"
    and all: "\<forall>tok r. r \<in> set (refresh_tokens s) \<and> rt_userId r = us_id u \<and> rt_tokenHash r = ev_sha256 demo_env tok \<longrightarrow>
      (\<exists>e s2. refresh demo_env tok s' = (Inl e, s2))" by blast
  have "\<exists>e s2. refresh demo_env ''tok'' s' = (Inl e, s2)"
    using u by (intro all [rule_format, of demo_token]) (auto simp: s_def demo_token_def demo_user_def demo_env_def)
  with run show ?thesis unfolding s_def by blast
qed

section \<open>Registration of a merchant\<close>

text \<open>
  A phone number that belongs to somebody else is found only by the database, after the shop has been written:
  the registration fails and its shop stays, pending and without an owner.
\<close>

lemma merchant_phone_leaves_shop:
  assumes email: "norm_email (rm_email dto) \<notin> us_email ` set (users s)"
    and phone: "or_else (map_option js_trim (rm_phone dto)) None = Some p" "Some p \<in> us_phone ` set (users s)"
    and fresh: "id_supply s (Suc (Suc (next_id s))) \<notin> sh_id ` set (shops s)"
  shows "\<exists>s' x. registerMerchant env dto s = (Inl (PrismaError ''P2002''), s') \<and> shops s' = shops s @ [x] \<and>
    sh_status x = SH_PENDING \<and> users s' = users s"
proof -
  have "find_row (\<lambda>u. us_email u = norm_email (rm_email dto)) (users s) = None"
    unfolding find_row_None using email by (metis image_eqI)
  moreover have "\<not> list_ex (\<lambda>y. sh_id y = id_supply s (Suc (Suc (next_id s))) \<or> sh_slug y = free_slug (map sh_slug (shops s)) base 0) (shops s)" for base
  proof -
    have slug: "free_slug (map sh_slug (shops s)) base 0 \<notin> sh_slug ` set (shops s)"
      using free_slug_free [of "map sh_slug (shops s)" base 0] by simp
    show ?thesis unfolding list_ex_iff using fresh slug by (metis image_eqI)
  qed
  moreover have "list_ex (user_taken u) (users s)" if "us_phone u = Some p" for u
    using phone(2) that by (auto simp: list_ex_iff user_taken_def)
  ultimately show ?thesis
    using phone(1)
    by (simp add: registerMerchant_def Let_def free_email_def user_by_def hash_password_def newIdA_def create_user_def createUniqueA_def
        createA_def act_defs)
qed

end
