(* ===== verification/Requests.thy ===== *)
theory Requests
  imports Auth
begin

text \<open>
  What happens to a request before its handler: the role and permission guards (\<open>common/guards\<close>,
  \<open>auth/guards\<close>), the resolution of the tenant (\<open>common/tenant/tenant.middleware.ts\<close>), its check against the
  caller (\<open>tenant-isolation.interceptor.ts\<close>, \<open>tenant.guard.ts\<close>) and the rewriting of the database queries
  under a tenant (\<open>prisma-tenant.extension.ts\<close>).
\<close>

section \<open>Guards\<close>

datatype permission =
    users_read | users_write | shops_read | shops_verify | shops_suspend | orders_read | orders_refund
  | payments_read | payments_refund | payouts_read | payouts_approve | kyc_read | kyc_approve
  | disputes_read | disputes_resolve | audit_read

definition RolesGuard :: "role list \<Rightarrow> jwt_payload option \<Rightarrow> exn + bool" where
  "RolesGuard required user =
    (if required = [] then Inr True
     else case user of
       None \<Rightarrow> Inl (Forbidden ''Insufficient role'')
     | Some u \<Rightarrow>
         if user_role u = SUPER_ADMIN then Inr True
         else if user_role u \<notin> set required then Inl (Forbidden ''Insufficient role'')
         else Inr True)"

text \<open>The table \<open>rolePermission\<close> as the list of its pairs.\<close>

definition PermissionsGuard :: "permission list \<Rightarrow> (role \<times> permission) list \<Rightarrow> jwt_payload option \<Rightarrow> exn + bool" where
  "PermissionsGuard required rolePermission user =
    (if required = [] then Inr True
     else case user of
       None \<Rightarrow> Inl (Forbidden ''Authentication required'')
     | Some u \<Rightarrow>
         if user_role u = SUPER_ADMIN then Inr True
         else if user_role u \<noteq> ADMIN then Inl (Forbidden ''Insufficient permissions'')
         else
           let granted = map snd (filter (\<lambda>(r, p). r = user_role u) rolePermission) in
           if \<not> list_all (\<lambda>p. p \<in> set granted) required then Inl (Forbidden ''Insufficient permissions: need'')
           else Inr True)"

section \<open>The tenant of a request\<close>

record tenant_row =
  tn_id :: string
  tn_name :: string
  tn_slug :: string
  tn_domain :: "string option"
  tn_logoUrl :: "string option"
  tn_faviconUrl :: "string option"
  tn_primaryColor :: "string option"
  tn_secondaryColor :: "string option"
  tn_accentColor :: "string option"
  tn_emailFromName :: "string option"
  tn_emailFromAddress :: "string option"
  tn_status :: string
  tn_plan :: string

record tenant_ctx =
  tc_tenantId :: "string option"
  tc_tenantSlug :: "string option"
  tc_isSuperAdmin :: bool

text \<open>\<open>t.split(c)\<close>.\<close>

fun split_on :: "char \<Rightarrow> string \<Rightarrow> string list" where
  "split_on c [] = [[]]"
| "split_on c (x # xs) =
    (if x = c then [] # split_on c xs
     else case split_on c xs of [] \<Rightarrow> [[x]] | y # ys \<Rightarrow> (x # y) # ys)"

text \<open>The header \<open>x-tenant-id\<close>, then the subdomain, then the domain; the caller is usually not known yet.\<close>

definition TenantMiddleware ::
  "tenant_row list \<Rightarrow> string option \<Rightarrow> string option \<Rightarrow> role option \<Rightarrow> tenant_ctx" where
  "TenantMiddleware ts header hostHeader callerRole =
    (let host = hd (split_on CHR '':'' (case hostHeader of None \<Rightarrow> [] | Some h \<Rightarrow> h));
         parts = split_on CHR ''.'' host;
         subdomain = (if 3 \<le> length parts then hd parts else []);
         bySub =
           (if or_else header None = None \<and> subdomain \<noteq> [] \<and> subdomain \<notin> {''www'', ''api'', ''localhost''}
            then find_row (\<lambda>t. tn_slug t = subdomain) ts else None);
         byDomain =
           (if or_else header (map_option tn_id bySub) = None \<and> host \<noteq> [] \<and> host \<noteq> ''localhost''
            then find_row (\<lambda>t. tn_domain t = Some host) ts else None);
         found = (case byDomain of Some t \<Rightarrow> Some t | None \<Rightarrow> bySub);
         tenantId = (case found of Some t \<Rightarrow> Some (tn_id t) | None \<Rightarrow> or_else header None)
     in \<lparr>tc_tenantId = or_else tenantId None, tc_tenantSlug = map_option tn_slug found,
         tc_isSuperAdmin = (callerRole = Some SUPER_ADMIN)\<rparr>)"

text \<open>The context the handler runs in.\<close>

definition TenantIsolationInterceptor :: "tenant_ctx \<Rightarrow> jwt_payload option \<Rightarrow> exn + tenant_ctx" where
  "TenantIsolationInterceptor ctx user =
    (case user of
      None \<Rightarrow> Inr ctx
    | Some u \<Rightarrow>
        if user_role u = SUPER_ADMIN \<or> (user_role u = ADMIN \<and> \<not> truthy (user_tenantId u)) then Inr ctx
        else
          let resolved = tc_tenantId ctx; own = user_tenantId u in
          if truthy resolved \<and> truthy own \<and> resolved \<noteq> own then Inl (Forbidden ''foreign tenant'')
          else
            let ctx' = (if \<not> truthy resolved \<and> truthy own then ctx\<lparr>tc_tenantId := own\<rparr> else ctx) in
            if \<not> truthy (tc_tenantId ctx') then Inl (Forbidden ''no tenant'') else Inr ctx')"

definition TenantGuard :: "tenant_ctx \<Rightarrow> jwt_payload option \<Rightarrow> exn + bool" where
  "TenantGuard ctx user =
    (if map_option user_role user = Some SUPER_ADMIN then Inr True
     else if \<not> truthy (tc_tenantId ctx) then
       (if user = None then Inr True else Inl (Forbidden ''no tenant''))
     else case user of
       None \<Rightarrow> Inr True
     | Some u \<Rightarrow>
         if truthy (user_tenantId u) \<and> user_tenantId u \<noteq> tc_tenantId ctx then Inl (Forbidden ''foreign tenant'')
         else Inr True)"

section \<open>Queries under a tenant\<close>

text \<open>
  A query of any model.  A row, and the data of a write, are lists of columns.  A condition is a list of
  clauses, each with the key it stands under in Prisma's \<open>where\<close> (a column, \<open>OR\<close>, a relation) and its test on a
  row: an equality, a range, a disjunction, a test of related rows.  \<open>Aggregate\<close> is the one kind of query on a
  model that the program makes and the extension does not extend; queries in raw SQL pass it as well.
\<close>

type_synonym where_clauses = "(string \<times> (payload \<Rightarrow> bool)) list"

definition equals :: "string \<Rightarrow> json \<Rightarrow> payload \<Rightarrow> bool" where
  "equals k v r \<longleftrightarrow> map_of r k = Some v"

datatype query =
    FindMany where_clauses
  | FindFirst where_clauses
  | FindUnique where_clauses
  | FindUniqueOrThrow where_clauses
  | Count where_clauses
  | Aggregate where_clauses
  | Create payload
  | CreateMany "payload list"
  | Update where_clauses payload
  | UpdateMany where_clauses payload
  | Delete where_clauses
  | DeleteMany where_clauses
  | Upsert where_clauses payload payload

definition MODELS_WITH_TENANT :: "string list" where
  "MODELS_WITH_TENANT =
    [''Document'', ''Notification'', ''TaxRate'', ''TenantInvite'', ''User'', ''Shop'', ''Warehouse'', ''ShippingMethod'',
     ''ShippingZone'', ''Product'', ''RfqRequest'', ''Order'']"

definition hasTenantField :: "string \<Rightarrow> bool" where
  "hasTenantField model \<longleftrightarrow> model \<in> set MODELS_WITH_TENANT"

text \<open>\<open>{ ...xs, key: v }\<close>.\<close>

definition with_key :: "string \<Rightarrow> 'v \<Rightarrow> (string \<times> 'v) list \<Rightarrow> (string \<times> 'v) list" where
  "with_key k v xs = filter (\<lambda>(k', _). k' \<noteq> k) xs @ [(k, v)]"

text \<open>\<open>withTenantWhere\<close> and \<open>withTenantUniqueWhere\<close>.\<close>

definition withTenantWhere :: "string option \<Rightarrow> string \<Rightarrow> where_clauses \<Rightarrow> where_clauses" where
  "withTenantWhere tenantId model w =
    (if truthy tenantId \<and> hasTenantField model
     then with_key ''tenantId'' (equals ''tenantId'' (JString (the tenantId))) w else w)"

text \<open>\<open>withTenantCreateData\<close> and \<open>withTenantUpdateData\<close>.\<close>

definition withTenant :: "string option \<Rightarrow> string \<Rightarrow> payload \<Rightarrow> payload" where
  "withTenant tenantId model xs =
    (if truthy tenantId \<and> hasTenantField model then with_key ''tenantId'' (JString (the tenantId)) xs else xs)"

fun extend_query :: "string option \<Rightarrow> string \<Rightarrow> query \<Rightarrow> query" where
  "extend_query t m (FindMany w) = FindMany (withTenantWhere t m w)"
| "extend_query t m (FindFirst w) = FindFirst (withTenantWhere t m w)"
| "extend_query t m (FindUnique w) = FindUnique (withTenantWhere t m w)"
| "extend_query t m (FindUniqueOrThrow w) = FindUniqueOrThrow (withTenantWhere t m w)"
| "extend_query t m (Count w) = Count (withTenantWhere t m w)"
| "extend_query t m (Aggregate w) = Aggregate w"
| "extend_query t m (Create d) = Create (withTenant t m d)"
| "extend_query t m (CreateMany ds) = CreateMany (map (withTenant t m) ds)"
| "extend_query t m (Update w d) = Update (withTenantWhere t m w) (withTenant t m d)"
| "extend_query t m (UpdateMany w d) = UpdateMany (withTenantWhere t m w) (withTenant t m d)"
| "extend_query t m (Delete w) = Delete (withTenantWhere t m w)"
| "extend_query t m (DeleteMany w) = DeleteMany (withTenantWhere t m w)"
| "extend_query t m (Upsert w c d) = Upsert (withTenantWhere t m w) (withTenant t m c) (withTenant t m d)"

text \<open>
  What the client does with a query: the rows it reads, the number of them, or the rows it computes sums
  over, and the table it leaves.
\<close>

definition row_matches :: "where_clauses \<Rightarrow> payload \<Rightarrow> bool" where
  "row_matches w r \<longleftrightarrow> list_all (\<lambda>(k, test). test r) w"

definition write_row :: "payload \<Rightarrow> payload \<Rightarrow> payload" where
  "write_row d r = foldl (\<lambda>r (k, v). with_key k v r) r d"

datatype answer = Rows "payload list" | Number nat | SumsOver "payload list" | Failed

fun first_where :: "('a \<Rightarrow> bool) \<Rightarrow> ('a \<Rightarrow> 'a) \<Rightarrow> 'a list \<Rightarrow> 'a list" where
  "first_where P f [] = []"
| "first_where P f (x # xs) = (if P x then f x # xs else x # first_where P f xs)"

fun drop_first :: "('a \<Rightarrow> bool) \<Rightarrow> 'a list \<Rightarrow> 'a list" where
  "drop_first P [] = []"
| "drop_first P (x # xs) = (if P x then xs else x # drop_first P xs)"

definition one_row :: "payload option \<Rightarrow> payload list" where
  "one_row r = (case r of None \<Rightarrow> [] | Some x \<Rightarrow> [x])"

fun run_query :: "query \<Rightarrow> payload list \<Rightarrow> answer \<times> payload list" where
  "run_query (FindMany w) t = (Rows (filter (row_matches w) t), t)"
| "run_query (FindFirst w) t = (Rows (one_row (find_row (row_matches w) t)), t)"
| "run_query (FindUnique w) t = (Rows (one_row (find_row (row_matches w) t)), t)"
| "run_query (FindUniqueOrThrow w) t =
    ((case find_row (row_matches w) t of None \<Rightarrow> Failed | Some r \<Rightarrow> Rows [r]), t)"
| "run_query (Count w) t = (Number (count_where (row_matches w) t), t)"
| "run_query (Aggregate w) t = (SumsOver (filter (row_matches w) t), t)"
| "run_query (Create d) t = (Rows [d], t @ [d])"
| "run_query (CreateMany ds) t = (Number (length ds), t @ ds)"
| "run_query (Update w d) t =
    (case find_row (row_matches w) t of
      None \<Rightarrow> (Failed, t)
    | Some r \<Rightarrow> (Rows [write_row d r], first_where (row_matches w) (write_row d) t))"
| "run_query (UpdateMany w d) t =
    (Number (count_where (row_matches w) t), update_where (row_matches w) (write_row d) t)"
| "run_query (Delete w) t =
    (case find_row (row_matches w) t of
      None \<Rightarrow> (Failed, t)
    | Some r \<Rightarrow> (Rows [r], drop_first (row_matches w) t))"
| "run_query (DeleteMany w) t =
    (Number (count_where (row_matches w) t), filter (\<lambda>r. \<not> row_matches w r) t)"
| "run_query (Upsert w c d) t =
    (case find_row (row_matches w) t of
      None \<Rightarrow> (Rows [c], t @ [c])
    | Some r \<Rightarrow> (Rows [write_row d r], first_where (row_matches w) (write_row d) t))"

definition scoped_query :: "string option \<Rightarrow> string \<Rightarrow> query \<Rightarrow> payload list \<Rightarrow> answer \<times> payload list" where
  "scoped_query tenantId model q t = run_query (extend_query tenantId model q) t"

end
