(* ===== verification/Tenants.thy ===== *)
theory Tenants
  imports Requests
begin

text \<open>
  Tenants: the command handlers of \<open>tenant/commands\<close> and the routes of \<open>tenant.controller.ts\<close>.  The upload of a
  logo or an icon is an argument (\<open>upload asImage file folder\<close>, the address of the stored file
  or a failure, for \<open>uploadImage\<close> and \<open>uploadFile\<close> of \<open>storage.service.ts\<close>).
\<close>

record invite_row =
  in_id :: string
  in_tenantId :: string
  in_email :: string
  in_role :: role
  in_token :: string
  in_expiresAt :: int
  in_acceptedAt :: "int option"
  in_invitedById :: string

record tenant_db = auth_db +
  tenants :: "tenant_row list"
  invites :: "invite_row list"

section \<open>Creating a tenant\<close>

record create_tenant =
  ct_name :: string
  ct_slug :: string
  ct_ownerEmail :: string
  ct_ownerPassword :: string
  ct_ownerName :: "string option"
  ct_plan :: "string option"

text \<open>\<open>/^[a-z0-9]([a-z0-9-]{0,61}[a-z0-9])?$/\<close>.\<close>

definition subdomain_safe :: "string \<Rightarrow> bool" where
  "subdomain_safe t \<longleftrightarrow>
    t \<noteq> [] \<and> length t \<le> 63 \<and> slug_char (hd t) \<and> slug_char (last t) \<and> list_all (\<lambda>c. slug_char c \<or> c = CHR ''-'') t"

text \<open>An account a tenant creates: active, with no token of its own.\<close>

definition tenant_user ::
  "string \<Rightarrow> string \<Rightarrow> string \<Rightarrow> string \<Rightarrow> role \<Rightarrow> string \<Rightarrow> int option \<Rightarrow> user_row" where
  "tenant_user i mail passwordHash name rol tenantId verifiedAt =
    \<lparr>us_id = i, us_email = mail, us_phone = None, us_passwordHash = passwordHash, us_name = name, us_company = None,
     us_role = rol, us_status = US_ACTIVE, us_emailVerifiedAt = verifiedAt, us_phoneVerifiedAt = None,
     us_emailVerifyToken = None, us_emailVerifyExpires = None, us_passwordResetToken = None,
     us_passwordResetExpires = None, us_failedLoginAttempts = 0, us_lockedUntil = None, us_twoFactorEnabled = False,
     us_twoFactorSecret = None, us_totpVerifiedAt = None, us_shopId = None, us_tenantId = Some tenantId\<rparr>"

definition create_tenant_tx :: "create_tenant \<Rightarrow> string \<Rightarrow> string \<Rightarrow> string \<Rightarrow> ('z tenant_db_scheme, tenant_row \<times> user_row) act" where
  "create_tenant_tx cmd slug mail passwordHash =
    txA
     (bindA newIdA (\<lambda>tenantId.
      let tenant =
        \<lparr>tn_id = tenantId, tn_name = js_trim (ct_name cmd), tn_slug = slug, tn_domain = None, tn_logoUrl = None,
         tn_faviconUrl = None, tn_primaryColor = Some ''#f59e0b'', tn_secondaryColor = Some ''#0f172a'', tn_accentColor = None,
         tn_emailFromName = None, tn_emailFromAddress = None, tn_status = ''ACTIVE'',
         tn_plan = (case or_else (ct_plan cmd) None of Some p \<Rightarrow> p | None \<Rightarrow> ''STARTER'')\<rparr> in
      thenA (createUniqueA tenants tenants_update (\<lambda>t. tn_id t = tenantId \<or> tn_slug t = slug) tenant)
      (bindA newIdA (\<lambda>i.
       let owner = tenant_user i mail passwordHash
         (case or_else (map_option js_trim (ct_ownerName cmd)) None of Some n \<Rightarrow> n | None \<Rightarrow> js_trim (ct_name cmd))
         ADMIN tenantId None in
       thenA (create_user owner) (returnA (tenant, owner))))))"

definition CreateTenantHandler :: "auth_env \<Rightarrow> create_tenant \<Rightarrow> ('z tenant_db_scheme, tenant_row \<times> user_row) act" where
  "CreateTenantHandler env cmd =
    (let slug = js_trim (js_lower (ct_slug cmd)); mail = js_trim (js_lower (ct_ownerEmail cmd)) in
     thenA (guardA (js_trim (ct_name cmd) \<noteq> [] \<and> js_trim (ct_slug cmd) \<noteq> []) (BadRequest ''name and slug required''))
     (thenA (guardA (js_trim (ct_ownerEmail cmd) \<noteq> [] \<and> 6 \<le> length (ct_ownerPassword cmd))
        (BadRequest ''owner email and password required''))
     (thenA (guardA (subdomain_safe slug) (BadRequest ''slug''))
     (bindA (getsA (\<lambda>s. find_row (\<lambda>t. tn_slug t = slug) (tenants s))) (\<lambda>existingSlug.
      thenA (guardA (existingSlug = None) (Conflict ''slug taken''))
      (bindA (user_by (\<lambda>u. us_email u = mail)) (\<lambda>existingUser.
       thenA (guardA (existingUser = None) (Conflict ''email taken''))
       (bindA (hash_password env (ct_ownerPassword cmd)) (create_tenant_tx cmd slug mail)))))))))"

section \<open>Invites\<close>

definition mapInviteRole :: "string \<Rightarrow> exn + role" where
  "mapInviteRole t =
    (let r = js_upper t in
     if r = ''BUYER'' \<or> r = ''CUSTOMER'' then Inr CUSTOMER
     else if r = ''MERCHANT'' then Inr MERCHANT
     else if r = ''TENANT_ADMIN'' \<or> r = ''ADMIN'' then Inr ADMIN
     else Inl (BadRequest ''role''))"

definition role_text :: "role \<Rightarrow> string" where
  "role_text r = (case r of SUPER_ADMIN \<Rightarrow> ''SUPER_ADMIN'' | ADMIN \<Rightarrow> ''ADMIN'' | MERCHANT \<Rightarrow> ''MERCHANT'' | CUSTOMER \<Rightarrow> ''CUSTOMER'')"

definition invite_tx ::
  "string \<Rightarrow> string \<Rightarrow> role \<Rightarrow> string \<Rightarrow> int \<Rightarrow> string \<Rightarrow> string \<Rightarrow> ('z tenant_db_scheme, invite_row) act" where
  "invite_tx tenantId mail rol token expiresAt invitedById tenantName =
    txA
     (bindA (getsA clock) (\<lambda>now.
      bindA (getsA (\<lambda>s. find_row (\<lambda>i. in_tenantId i = tenantId \<and> in_email i = mail \<and> in_acceptedAt i = None \<and> now < in_expiresAt i)
        (invites s))) (\<lambda>existing.
      thenA (guardA (existing = None) (BadRequest ''already invited''))
      (bindA (getsA (\<lambda>s. find_row (\<lambda>i. in_tenantId i = tenantId \<and> in_email i = mail) (invites s))) (\<lambda>prev.
       thenA (case prev of
           None \<Rightarrow> returnA ()
         | Some p \<Rightarrow> modifyA (invites_update (filter (\<lambda>i. in_id i \<noteq> in_id p))))
       (bindA newIdA (\<lambda>i.
        let created = \<lparr>in_id = i, in_tenantId = tenantId, in_email = mail, in_role = rol, in_token = token,
          in_expiresAt = expiresAt, in_acceptedAt = None, in_invitedById = invitedById\<rparr> in
        thenA (createUniqueA invites invites_update
          (\<lambda>x. in_id x = i \<or> in_token x = token \<or> (in_tenantId x = tenantId \<and> in_email x = mail)) created)
        (thenA (enqueueA ''TenantInviteCreatedEvent''
          [(''inviteId'', JString i), (''tenantId'', JString tenantId), (''email'', JString mail),
           (''role'', JString (role_text rol)), (''token'', JString token), (''tenantName'', JString tenantName)])
          (returnA created)))))))))"

definition CreateInviteHandler ::
  "string \<Rightarrow> string \<Rightarrow> string \<Rightarrow> string \<Rightarrow> ('z tenant_db_scheme, invite_row) act" where
  "CreateInviteHandler tenantId rawEmail roleInput invitedById =
    (let mail = norm_email rawEmail in
     thenA (guardA (js_contains ''@'' mail) (BadRequest ''email''))
     (bindA (getsA (\<lambda>s. find_row (\<lambda>t. tn_id t = tenantId) (tenants s))) (\<lambda>tfound.
      bindA (someA tfound (NotFound ''Tenant'')) (\<lambda>tenant.
      bindA (user_by (\<lambda>u. us_id u = invitedById)) (\<lambda>ifound.
      bindA (someA ifound (BadRequest ''inviter not found'')) (\<lambda>inviter.
      thenA (guardA (us_role inviter = SUPER_ADMIN \<or> us_tenantId inviter = Some tenantId) (Forbidden ''foreign tenant''))
      (bindA (sumA (mapInviteRole roleInput)) (\<lambda>rol.
       bindA newIdA (\<lambda>token.
       bindA (getsA clock) (\<lambda>now.
       bindA (user_by (\<lambda>u. us_email u = mail)) (\<lambda>existingUser.
       thenA (guardA (existingUser = None) (BadRequest ''email taken''))
         (invite_tx tenantId mail rol token (now + 7 * DAY_MS) invitedById (tn_name tenant)))))))))))))"

record accept_invite =
  ac_token :: string
  ac_password :: string
  ac_firstName :: "string option"
  ac_lastName :: "string option"

definition invite_open :: "int \<Rightarrow> invite_row \<Rightarrow> bool" where
  "invite_open now i \<longleftrightarrow> in_acceptedAt i = None \<and> \<not> in_expiresAt i < now"

definition AcceptInviteHandler :: "auth_env \<Rightarrow> accept_invite \<Rightarrow> ('z tenant_db_scheme, user_row \<times> tenant_row) act" where
  "AcceptInviteHandler env cmd =
    thenA (guardA (8 \<le> length (ac_password cmd)) (BadRequest ''password''))
    (txA
     (bindA (getsA clock) (\<lambda>now.
      bindA (getsA (\<lambda>s. find_row (\<lambda>i. in_token i = ac_token cmd) (invites s))) (\<lambda>found.
      bindA (someA found (BadRequest ''invite'')) (\<lambda>invite.
      thenA (guardA (invite_open now invite) (BadRequest ''invite''))
      (bindA (getsA (\<lambda>s. find_row (\<lambda>t. tn_id t = in_tenantId invite) (tenants s))) (\<lambda>tfound.
       bindA (user_by (\<lambda>u. us_email u = in_email invite)) (\<lambda>existing.
       thenA (guardA (existing = None) (Conflict ''email taken''))
       (bindA (hash_password env (ac_password cmd)) (\<lambda>passwordHash.
        let nameParts = map the (filter truthy [ac_firstName cmd, ac_lastName cmd]);
            name = (if nameParts \<noteq> [] then js_trim (join_with '' '' nameParts) else hd (split_on CHR ''@'' (in_email invite))) in
        bindA newIdA (\<lambda>i.
        let user = tenant_user i (in_email invite) passwordHash name (in_role invite) (in_tenantId invite) (Some now) in
        thenA (create_user user)
        (thenA (updateA invites invites_update (\<lambda>x. in_id x = in_id invite) (\<lambda>x. x\<lparr>in_acceptedAt := Some now\<rparr>))
        (thenA (enqueueA ''TenantInviteAcceptedEvent''
          [(''inviteId'', JString (in_id invite)), (''tenantId'', JString (in_tenantId invite)),
           (''userId'', JString i), (''email'', JString (in_email invite))])
        (bindA (someA tfound (RawError ''TypeError'')) (\<lambda>tenant. returnA (user, tenant))))))))))))))))"

section \<open>Branding\<close>

record upload_file =
  uf_originalname :: string
  uf_mimetype :: string
  uf_buffer :: string
  uf_size :: int

record branding =
  br_name :: "string option"
  br_logoUrl :: "string option option"
  br_faviconUrl :: "string option option"
  br_primaryColor :: "string option"
  br_secondaryColor :: "string option"
  br_accentColor :: "string option option"
  br_emailFromName :: "string option option"
  br_emailFromAddress :: "string option option"
  br_domain :: "string option option"

definition LOGO_MIME :: "string list" where
  "LOGO_MIME = [''image/png'', ''image/jpeg'', ''image/jpg'', ''image/svg+xml'', ''image/webp'']"

definition FAVICON_MIME :: "string list" where
  "FAVICON_MIME = [''image/png'', ''image/x-icon'', ''image/vnd.microsoft.icon'', ''image/svg+xml'', ''image/webp'', ''image/jpeg'']"

text \<open>A file: its type is allowed, its size within the limit, then it is stored.\<close>

definition favicon_as_image :: "string \<Rightarrow> bool" where
  "favicon_as_image mime \<longleftrightarrow> mime \<notin> {''image/svg+xml'', ''image/x-icon'', ''image/vnd.microsoft.icon''}"

definition stored_file ::
  "(bool \<Rightarrow> upload_file \<Rightarrow> string \<Rightarrow> exn + string) \<Rightarrow> (string \<Rightarrow> bool) \<Rightarrow> string list \<Rightarrow> int \<Rightarrow> string \<Rightarrow> upload_file option \<Rightarrow> string option option \<Rightarrow>
   ('z tenant_db_scheme, string option option) act" where
  "stored_file upload asImage allowed limit folder file given =
    (case file of
      None \<Rightarrow> returnA given
    | Some f \<Rightarrow>
        thenA (guardA (js_lower (uf_mimetype f) \<in> set allowed) (BadRequest ''type''))
        (thenA (guardA (uf_size f \<le> limit) (BadRequest ''size''))
        (bindA (sumA (upload (asImage (uf_mimetype f)) f folder)) (\<lambda>url. returnA (Some (Some url))))))"

definition brand :: "branding \<Rightarrow> string option option \<Rightarrow> string option option \<Rightarrow> tenant_row \<Rightarrow> tenant_row" where
  "brand d logo favicon t = t\<lparr>
    tn_name := (case br_name d of None \<Rightarrow> tn_name t | Some n \<Rightarrow> js_trim n),
    tn_domain := (case br_domain d of None \<Rightarrow> tn_domain t | Some x \<Rightarrow> map_option norm_email (or_else x None)),
    tn_logoUrl := (case logo of None \<Rightarrow> tn_logoUrl t | Some x \<Rightarrow> x),
    tn_faviconUrl := (case favicon of None \<Rightarrow> tn_faviconUrl t | Some x \<Rightarrow> x),
    tn_primaryColor := (case br_primaryColor d of None \<Rightarrow> tn_primaryColor t | Some x \<Rightarrow> Some x),
    tn_secondaryColor := (case br_secondaryColor d of None \<Rightarrow> tn_secondaryColor t | Some x \<Rightarrow> Some x),
    tn_accentColor := (case br_accentColor d of None \<Rightarrow> tn_accentColor t | Some x \<Rightarrow> x),
    tn_emailFromName := (case br_emailFromName d of None \<Rightarrow> tn_emailFromName t | Some x \<Rightarrow> x),
    tn_emailFromAddress := (case br_emailFromAddress d of None \<Rightarrow> tn_emailFromAddress t | Some x \<Rightarrow> x)\<rparr>"

text \<open>The domain column is unique; the check before the write looks for it too.\<close>

definition UpdateTenantBrandingHandler ::
  "(bool \<Rightarrow> upload_file \<Rightarrow> string \<Rightarrow> exn + string) \<Rightarrow> string option \<Rightarrow> string \<Rightarrow> branding \<Rightarrow> role option \<Rightarrow> string option \<Rightarrow>
   upload_file option \<Rightarrow> upload_file option \<Rightarrow> ('z tenant_db_scheme, tenant_row) act" where
  "UpdateTenantBrandingHandler upload currentTenantId tenantId d actorRole actorTenantId logoFile faviconFile =
    (let folder = ''tenants/'' @ tenantId @ ''/branding'' in
     thenA (guardA (actorRole = Some SUPER_ADMIN \<or>
         ((truthy currentTenantId \<longrightarrow> currentTenantId = Some tenantId) \<and> (truthy actorTenantId \<longrightarrow> actorTenantId = Some tenantId)))
       (Forbidden ''foreign tenant''))
     (bindA (getsA (\<lambda>s. find_row (\<lambda>t. tn_id t = tenantId) (tenants s))) (\<lambda>found.
      thenA (guardA (found \<noteq> None) (NotFound ''Tenant''))
      (bindA (stored_file upload (\<lambda>_. True) LOGO_MIME (2 * 1024 * 1024) folder logoFile (br_logoUrl d)) (\<lambda>logo.
       bindA (stored_file upload favicon_as_image FAVICON_MIME (512 * 1024) folder faviconFile (br_faviconUrl d)) (\<lambda>favicon.
       thenA (case br_domain d of
           Some (Some raw) \<Rightarrow>
             if raw = [] then returnA ()
             else bindA (getsA (\<lambda>s. find_row (\<lambda>t. tn_domain t = Some (norm_email raw) \<and> tn_id t \<noteq> tenantId) (tenants s)))
               (\<lambda>existing. guardA (existing = None) (Conflict ''domain taken''))
         | _ \<Rightarrow> returnA ())
       (updateRowA tenants tenants_update (\<lambda>t. tn_id t = tenantId) (brand d logo favicon))))))))"

section \<open>Routes\<close>

definition branded_tenant :: "string option \<Rightarrow> jwt_payload \<Rightarrow> string option \<Rightarrow> exn + string" where
  "branded_tenant currentTenantId user explicit =
    (case or_else explicit (or_else currentTenantId (or_else (user_tenantId user) None)) of
      None \<Rightarrow> Inl (BadRequest ''no tenant'')
    | Some i \<Rightarrow> Inr i)"

definition updateCurrentBranding ::
  "(bool \<Rightarrow> upload_file \<Rightarrow> string \<Rightarrow> exn + string) \<Rightarrow> string option \<Rightarrow> jwt_payload \<Rightarrow> string option \<Rightarrow> branding \<Rightarrow>
   upload_file option \<Rightarrow> upload_file option \<Rightarrow> ('z tenant_db_scheme, tenant_row) act" where
  "updateCurrentBranding upload currentTenantId user explicit d logoFile faviconFile =
    bindA (sumA (branded_tenant currentTenantId user explicit)) (\<lambda>tenantId.
    UpdateTenantBrandingHandler upload currentTenantId tenantId d (Some (user_role user)) (user_tenantId user) logoFile faviconFile)"

definition createInvite :: "string option \<Rightarrow> jwt_payload \<Rightarrow> string \<Rightarrow> string \<Rightarrow> ('z tenant_db_scheme, invite_row) act" where
  "createInvite currentTenantId user mail roleInput =
    bindA (sumA (branded_tenant currentTenantId user None)) (\<lambda>tenantId.
    CreateInviteHandler tenantId mail roleInput (sub user))"

definition listInvites :: "string option \<Rightarrow> jwt_payload \<Rightarrow> ('z tenant_db_scheme, invite_row list) act" where
  "listInvites currentTenantId user =
    bindA (sumA (branded_tenant currentTenantId user None)) (\<lambda>tenantId.
    getsA (\<lambda>s. rev (filter (\<lambda>i. in_tenantId i = tenantId) (invites s))))"

definition previewInvite :: "string \<Rightarrow> ('z tenant_db_scheme, invite_row option) act" where
  "previewInvite token =
    (\<lambda>s. (Inr (case find_row (\<lambda>i. in_token i = token) (invites s) of
        None \<Rightarrow> None
      | Some i \<Rightarrow> if invite_open (clock s) i then Some i else None), s))"

definition getTenant :: "jwt_payload \<Rightarrow> string \<Rightarrow> ('z tenant_db_scheme, tenant_row option) act" where
  "getTenant user i =
    (if user_role user \<noteq> SUPER_ADMIN \<and> truthy (user_tenantId user) \<and> user_tenantId user \<noteq> Some i then returnA None
     else getsA (\<lambda>s. find_row (\<lambda>t. tn_id t = i) (tenants s)))"

text \<open>The readings of a tenant; the public ones select the columns of \<open>brandingSelect\<close>.\<close>

definition getCurrentTenant :: "string option \<Rightarrow> ('z tenant_db_scheme, tenant_row option) act" where
  "getCurrentTenant currentTenantId =
    (if \<not> truthy currentTenantId then returnA None
     else getsA (\<lambda>s. find_row (\<lambda>t. Some (tn_id t) = currentTenantId) (tenants s)))"

definition getBySlug :: "string \<Rightarrow> ('z tenant_db_scheme, tenant_row option) act" where
  "getBySlug slug = getsA (\<lambda>s. find_row (\<lambda>t. tn_slug t = js_lower slug) (tenants s))"

definition getMine :: "string option \<Rightarrow> jwt_payload \<Rightarrow> ('z tenant_db_scheme, tenant_row option) act" where
  "getMine currentTenantId user = getCurrentTenant (or_else currentTenantId (user_tenantId user))"

definition list_tenants :: "('z tenant_db_scheme, tenant_row list) act" where
  "list_tenants = getsA (\<lambda>s. rev (tenants s))"

end
