(* ===== verification/Tenant_Claims.thy ===== *)
theory Tenant_Claims
  imports Tenants Samples Auth_Claims
begin

text \<open>A tenant works on a database of its own; a caller with a tenant stays inside it; an invite is used once.\<close>

section \<open>Conditions that name the tenant\<close>

definition own :: "string \<Rightarrow> payload \<Rightarrow> bool" where
  "own t r \<longleftrightarrow> map_of r ''tenantId'' = Some (JString t)"

lemma map_of_with_key: "map_of (with_key k v xs) k' = (if k' = k then Some v else map_of xs k')"
proof -
  have "map_of (filter (\<lambda>(k', _). k' \<noteq> k) xs) k' = (if k' = k then None else map_of xs k')"
    by (induction xs) auto
  then show ?thesis by (simp add: with_key_def map_add_def split: option.splits)
qed

lemma own_with_key: "own t (with_key ''tenantId'' (JString t) xs)"
  by (simp add: own_def map_of_with_key)

lemma scoped_matches: "row_matches (with_key ''tenantId'' (equals ''tenantId'' (JString t)) w) r \<Longrightarrow> own t r"
  by (simp add: row_matches_def with_key_def equals_def own_def)

lemma scoped_write: "own t (write_row (with_key ''tenantId'' (JString t) d) r)"
  by (simp add: write_row_def with_key_def [of _ _ d] own_with_key)

section \<open>Tables cut to the rows of a condition\<close>

lemma find_row_filter: "(\<And>x. P x \<Longrightarrow> Q x) \<Longrightarrow> find_row P (filter Q xs) = find_row P xs"
  by (induction xs) auto

lemma count_where_filter: "(\<And>x. P x \<Longrightarrow> Q x) \<Longrightarrow> count_where P (filter Q xs) = count_where P xs"
  by (induction xs) auto

lemma filter_first_where:
  assumes "\<And>x. P x \<Longrightarrow> Q x" "\<And>x. P x \<Longrightarrow> Q (f x)"
  shows "filter Q (first_where P f xs) = first_where P f (filter Q xs)"
    "filter (\<lambda>x. \<not> Q x) (first_where P f xs) = filter (\<lambda>x. \<not> Q x) xs"
  using assms by (induction xs) auto

lemma filter_drop_first:
  assumes "\<And>x. P x \<Longrightarrow> Q x"
  shows "filter Q (drop_first P xs) = drop_first P (filter Q xs)"
    "filter (\<lambda>x. \<not> Q x) (drop_first P xs) = filter (\<lambda>x. \<not> Q x) xs"
  using assms by (induction xs) auto

lemma filter_update_where:
  assumes "\<And>x. P x \<Longrightarrow> Q x" "\<And>x. P x \<Longrightarrow> Q (f x)"
  shows "filter Q (update_where P f xs) = update_where P f (filter Q xs)"
    "filter (\<lambda>x. \<not> Q x) (update_where P f xs) = filter (\<lambda>x. \<not> Q x) xs"
  using assms by (induction xs) auto

section \<open>Isolation\<close>

text \<open>The kinds of queries the extension extends.\<close>

fun extended :: "query \<Rightarrow> bool" where
  "extended (Aggregate w) = False"
| "extended _ = True"

text \<open>
  One query under a tenant, on the whole table and on the tenant's rows alone: the same answer, the same
  change, and the other rows as they were.
\<close>

lemma scoped_query_own:
  assumes m: "hasTenantField model" and t: "t \<noteq> []" and q: "extended q"
    and run: "scoped_query (Some t) model q rows = (ans, rows')"
  shows "scoped_query (Some t) model q (filter (own t) rows) = (ans, filter (own t) rows')"
    "filter (\<lambda>r. \<not> own t r) rows' = filter (\<lambda>r. \<not> own t r) rows"
proof -
  have w: "withTenant (Some t) model xs = with_key ''tenantId'' (JString t) xs"
    "withTenantWhere (Some t) model w = with_key ''tenantId'' (equals ''tenantId'' (JString t)) w" for xs w
    using m t by (simp_all add: withTenant_def withTenantWhere_def)
  let ?w = "with_key ''tenantId'' (equals ''tenantId'' (JString t))"
  let ?k = "with_key ''tenantId'' (JString t)"
  have mo: "row_matches (?w w) x \<Longrightarrow> own t x" for w x by (rule scoped_matches)
  have wo: "row_matches (?w w) x \<Longrightarrow> own t (write_row (?k d) x)" for w x d by (rule scoped_write)
  have keep: "filter (\<lambda>x. own t x \<and> \<not> row_matches (?w w) x) xs = filter (\<lambda>x. \<not> row_matches (?w w) x \<and> own t x) xs" for w xs
    by (simp add: conj_commute)
  have lost: "filter (\<lambda>x. \<not> row_matches (?w w) x \<and> \<not> own t x) xs = filter (\<lambda>x. \<not> own t x) xs" for w xs
    by (rule filter_cong) (use mo in auto)
  have all: "filter (own t) (map ?k ds) = map ?k ds" "filter (\<lambda>r. \<not> own t r) (map ?k ds) = []" for ds
    by (simp_all add: filter_id_conv filter_empty_conv own_with_key)
  have part: "filter (\<lambda>x. own t x \<and> row_matches (?w w) x) xs = filter (row_matches (?w w)) xs" for w xs
    by (rule filter_cong) (use mo in auto)
  have first: "filter (own t) (first_where (row_matches (?w w)) (write_row (?k d)) xs) = first_where (row_matches (?w w)) (write_row (?k d)) (filter (own t) xs)"
    "filter (\<lambda>r. \<not> own t r) (first_where (row_matches (?w w)) (write_row (?k d)) xs) = filter (\<lambda>r. \<not> own t r) xs"
    "filter (own t) (update_where (row_matches (?w w)) (write_row (?k d)) xs) = update_where (row_matches (?w w)) (write_row (?k d)) (filter (own t) xs)"
    "filter (\<lambda>r. \<not> own t r) (update_where (row_matches (?w w)) (write_row (?k d)) xs) = filter (\<lambda>r. \<not> own t r) xs"
    "filter (own t) (drop_first (row_matches (?w w)) xs) = drop_first (row_matches (?w w)) (filter (own t) xs)"
    "filter (\<lambda>r. \<not> own t r) (drop_first (row_matches (?w w)) xs) = filter (\<lambda>r. \<not> own t r) xs"
    "find_row (row_matches (?w w)) (filter (own t) xs) = find_row (row_matches (?w w)) xs"
    "count_where (row_matches (?w w)) (filter (own t) xs) = count_where (row_matches (?w w)) xs" for w d xs
    by (simp_all add: filter_first_where filter_update_where filter_drop_first find_row_filter count_where_filter mo wo)
  note facts = first keep lost all part own_with_key
  show "scoped_query (Some t) model q (filter (own t) rows) = (ans, filter (own t) rows')"
    using run q by (cases q) (auto simp: scoped_query_def w facts split: option.splits)
  show "filter (\<lambda>r. \<not> own t r) rows' = filter (\<lambda>r. \<not> own t r) rows"
    using run q by (cases q) (auto simp: scoped_query_def w facts split: option.splits)
qed

text \<open>The queries of a handler, one after the other.\<close>

fun run_queries :: "string option \<Rightarrow> string \<Rightarrow> query list \<Rightarrow> payload list \<Rightarrow> answer list \<times> payload list" where
  "run_queries t m [] rows = ([], rows)"
| "run_queries t m (q # qs) rows =
    (let (a, rows1) = scoped_query t m q rows; (as, rows2) = run_queries t m qs rows1 in (a # as, rows2))"

lemma run_queries_own:
  assumes m: "hasTenantField model" and t: "t \<noteq> []"
  shows "list_all extended qs \<Longrightarrow> run_queries (Some t) model qs rows = (as, rows') \<Longrightarrow>
    run_queries (Some t) model qs (filter (own t) rows) = (as, filter (own t) rows') \<and>
    filter (\<lambda>r. \<not> own t r) rows' = filter (\<lambda>r. \<not> own t r) rows"
proof (induction qs arbitrary: rows as)
  case Nil
  then show ?case by simp
next
  case (Cons q qs)
  obtain a rows1 where q: "scoped_query (Some t) model q rows = (a, rows1)" by (cases "scoped_query (Some t) model q rows")
  obtain as2 rows2 where qs: "run_queries (Some t) model qs rows1 = (as2, rows2)" by (cases "run_queries (Some t) model qs rows1")
  from Cons.prems(2) q qs have "as = a # as2" "rows' = rows2" by simp_all
  with Cons.IH [of rows1 as2] Cons.prems(1) qs scoped_query_own [OF m t _ q] show ?case by simp
qed


definition demo_member :: jwt_payload where
  "demo_member = demo_buyer\<lparr>user_tenantId := Some ''A''\<rparr>"

definition demo_rows :: "payload list" where
  "demo_rows = [[(''tenantId'', JString ''A''), (''id'', JString ''1'')], [(''tenantId'', JString ''B''), (''id'', JString ''2'')]]"


text \<open>The sums of an aggregate run over the rows of all tenants, whoever asks.\<close>

lemma aggregate_crosses_tenants:
  "scoped_query (Some t) model (Aggregate w) rows = (SumsOver (filter (row_matches w) rows), rows)"
  "r \<in> set rows \<Longrightarrow> \<not> own t r \<Longrightarrow> row_matches w r \<Longrightarrow>
    \<exists>xs. fst (scoped_query (Some t) model (Aggregate w) rows) = SumsOver xs \<and> r \<in> set xs"
  by (simp_all add: scoped_query_def)

text \<open>
  A caller without a tenant is held by nothing: with a header it works in the tenant it names, without one
  (and without a tenant's host) every authenticated request is refused.
\<close>

lemma tenantless_caller:
  assumes "user_role u \<in> {CUSTOMER, MERCHANT}" "user_tenantId u = None"
  shows "t \<noteq> [] \<Longrightarrow> \<exists>ctx. TenantIsolationInterceptor (TenantMiddleware ts (Some t) host r) (Some u) = Inr ctx \<and> tc_tenantId ctx = Some t"
    "\<exists>e. TenantIsolationInterceptor (TenantMiddleware ts None None r) (Some u) = Inl e"
  using assms by (auto simp: TenantIsolationInterceptor_def TenantMiddleware_def Let_def or_else_def)

section \<open>Invites\<close>

text \<open>
  C24.  An invite is accepted once.  Accepting needs an invite with the token that is neither accepted nor
  expired, and adds exactly one account: active, with the email, the role and the tenant of the invite.  From
  then on the token is refused, whatever the second caller sends, and changes nothing.
\<close>

theorem invite_accepted_once:
  assumes run: "AcceptInviteHandler env cmd s = (Inr (user, tenant), s')"
    and again: "ac_token cmd' = ac_token cmd"
  shows "\<exists>i \<in> set (invites s). in_token i = ac_token cmd \<and> in_acceptedAt i = None \<and> clock s \<le> in_expiresAt i \<and>
    users s' = users s @ [user] \<and> us_email user = in_email i \<and> us_role user = in_role i \<and>
    us_tenantId user = Some (in_tenantId i) \<and> us_status user = US_ACTIVE \<and> tn_id tenant = in_tenantId i \<and>
    (\<exists>m. AcceptInviteHandler env' cmd' s' = (Inl (BadRequest m), s'))"
proof -
  from run obtain i now where i: "find_row (\<lambda>x. in_token x = ac_token cmd) (invites s) = Some i" "invite_open (clock s) i"
    and u: "users s' = users s @ [user]" "us_email user = in_email i" "us_role user = in_role i"
      "us_tenantId user = Some (in_tenantId i)" "us_status user = US_ACTIVE" "tn_id tenant = in_tenantId i"
    and inv: "invites s' = update_where (\<lambda>x. in_id x = in_id i) (\<lambda>x. x\<lparr>in_acceptedAt := Some now\<rparr>) (invites s)"
    by (auto simp: AcceptInviteHandler_def Let_def ok_simps user_by_def hash_password_def create_user_def enqueueA_def
        tenant_user_def dest: find_row_Some)
  have "find_row (\<lambda>x. in_token x = ac_token cmd') (invites s') = Some (i\<lparr>in_acceptedAt := Some now\<rparr>)"
    using i(1) again by (simp add: inv find_row_update_where)
  then have "\<exists>m. AcceptInviteHandler env' cmd' s' = (Inl (BadRequest m), s')"
    by (simp add: AcceptInviteHandler_def act_defs invite_open_def)
  with i u find_row_Some [OF i(1)] show ?thesis by (auto simp: invite_open_def)
qed

definition demo_tenant :: tenant_row where
  "demo_tenant = \<lparr>tn_id = ''A'', tn_name = ''Acme'', tn_slug = ''acme'', tn_domain = None, tn_logoUrl = None, tn_faviconUrl = None,
     tn_primaryColor = None, tn_secondaryColor = None, tn_accentColor = None, tn_emailFromName = None,
     tn_emailFromAddress = None, tn_status = ''ACTIVE'', tn_plan = ''STARTER''\<rparr>"

definition demo_invite :: invite_row where
  "demo_invite = \<lparr>in_id = ''i1'', in_tenantId = ''A'', in_email = ''new@x'', in_role = MERCHANT, in_token = ''tok'',
     in_expiresAt = 5000, in_acceptedAt = None, in_invitedById = ''u1''\<rparr>"

definition demo_tenants :: tenant_db where
  "demo_tenants = auth_db.extend (demo_accounts [demo_user] []) (tenant_db.fields [demo_tenant] [demo_invite])"

definition demo_accept :: accept_invite where
  "demo_accept = \<lparr>ac_token = ''tok'', ac_password = ''12345678'', ac_firstName = Some ''New'', ac_lastName = None\<rparr>"

lemma demo_tenants_fields:
  "tenants demo_tenants = [demo_tenant]" "invites demo_tenants = [demo_invite]" "users demo_tenants = [demo_user]" "clock demo_tenants = 1000"
  "id_supply demo_tenants = (\<lambda>n. replicate (Suc n) CHR ''i'')" "next_id demo_tenants = 1"
  by (simp_all add: demo_tenants_def demo_accounts_def demo_db_def empty_db_def auth_db.defs tenant_db.defs bus_db.defs rfq_db.defs)

theorem invite_accepted_once_witness:
  "\<exists>user tenant s' m. AcceptInviteHandler demo_env demo_accept demo_tenants = (Inr (user, tenant), s') \<and> us_role user = MERCHANT \<and>
    AcceptInviteHandler demo_env demo_accept s' = (Inl (BadRequest m), s')"
proof -
  have "\<exists>user tenant s'. AcceptInviteHandler demo_env demo_accept demo_tenants = (Inr (user, tenant), s')"
    by (simp add: AcceptInviteHandler_def Let_def demo_accept_def act_defs demo_tenants_fields user_by_def hash_password_def newIdA_def
        create_user_def createUniqueA_def createA_def updateA_def enqueueA_def invite_open_def user_taken_def tenant_user_def demo_invite_def
        demo_tenant_def demo_user_def)
  then obtain user tenant s' where run: "AcceptInviteHandler demo_env demo_accept demo_tenants = (Inr (user, tenant), s')" by blast
  from invite_accepted_once [OF run refl, of demo_env] run show ?thesis by (auto simp: demo_tenants_fields demo_invite_def)
qed

end
