(* ===== verification/Idempotency.thy ===== *)
theory Idempotency
  imports Orders
begin

text \<open>
  Idempotency keys: \<open>common/idempotency/idempotency.service.ts\<close> and the two routes of \<open>orders.controller.ts\<close>
  that use them.  The table of keys stands beside the state of the handlers; a stored response is the JSON
  of what a route returned.
\<close>

datatype idem_status = IK_PROCESSING | IK_COMPLETED | IK_FAILED

datatype response = CheckoutResponse "checkout_result list" | StatusResponse order_row

record idem_row =
  ik_key :: string
  ik_userId :: "string option"
  ik_endpoint :: string
  ik_requestHash :: "string option"
  ik_response :: "response option"
  ik_status :: idem_status
  ik_expiresAt :: int

type_synonym 'z keyed = "idem_row list \<times> 'z ord_db_scheme"

definition TTL_MS :: int where "TTL_MS = 24 * 60 * 60 * 1000"

definition key_used :: "string option \<Rightarrow> bool" where
  "key_used key \<longleftrightarrow> (case key of None \<Rightarrow> False | Some k \<Rightarrow> 8 \<le> length k)"

datatype start_result = IsNew bool | ExistingResponse response

definition keysA :: "(idem_row list \<Rightarrow> idem_row list) \<Rightarrow> ('z keyed, unit) act" where
  "keysA f = modifyA (\<lambda>(t, s). (f t, s))"

text \<open>\<open>IsNew True\<close> is a new request without a usable key (\<open>skipped\<close>).\<close>

definition start_key ::
  "(string \<Rightarrow> string) \<Rightarrow> string option \<Rightarrow> string \<Rightarrow> string option \<Rightarrow> string option \<Rightarrow> ('z keyed, start_result) act" where
  "start_key sha256 key endpoint userId body =
    (if \<not> key_used key then returnA (IsNew True)
     else
       let k = the key in
       bindA (getsA (\<lambda>(t, s). find_row (\<lambda>r. ik_key r = k) t)) (\<lambda>existing.
       bindA (getsA (\<lambda>(t, s). clock s)) (\<lambda>now.
       let fresh =
         thenA (bindA (getsA fst) (\<lambda>t. guardA (\<not> list_ex (\<lambda>r. ik_key r = k) t) (PrismaError ''P2002'')))
         (thenA (keysA (\<lambda>t. t @
           [\<lparr>ik_key = k, ik_userId = userId, ik_endpoint = endpoint, ik_requestHash = map_option sha256 body,
             ik_response = None, ik_status = IK_PROCESSING, ik_expiresAt = now + TTL_MS\<rparr>]))
           (returnA (IsNew False))) in
       case existing of
         None \<Rightarrow> fresh
       | Some r \<Rightarrow>
           if ik_status r = IK_COMPLETED \<and> ik_response r \<noteq> None then returnA (ExistingResponse (the (ik_response r)))
           else if ik_status r = IK_PROCESSING then
             throwA (Conflict ''Request with this Idempotency-Key is already processing'')
           else thenA (keysA (filter (\<lambda>x. ik_key x \<noteq> k))) fresh)))"

text \<open>A missing row is caught and logged.\<close>

definition complete_key :: "string option \<Rightarrow> response \<Rightarrow> ('z keyed, unit) act" where
  "complete_key key r =
    (if \<not> key_used key then returnA ()
     else keysA (update_where (\<lambda>x. ik_key x = the key) (\<lambda>x. x\<lparr>ik_status := IK_COMPLETED, ik_response := Some r\<rparr>)))"

definition fail_key :: "string option \<Rightarrow> ('z keyed, unit) act" where
  "fail_key key =
    (if \<not> key_used key then returnA ()
     else keysA (update_where (\<lambda>x. ik_key x = the key) (\<lambda>x. x\<lparr>ik_status := IK_FAILED\<rparr>)))"

definition cleanup_keys :: "('z keyed, unit) act" where
  "cleanup_keys = bindA (getsA (\<lambda>(t, s). clock s)) (\<lambda>now. keysA (filter (\<lambda>r. \<not> ik_expiresAt r < now)))"

text \<open>\<open>header\<close> reads a header of the request.\<close>

definition IdempotencyKey :: "(string \<Rightarrow> string option) \<Rightarrow> string option" where
  "IdempotencyKey header = or_else (header ''idempotency-key'') (header ''x-idempotency-key'')"

section \<open>The routes\<close>

text \<open>A computation on the handlers' state.\<close>

definition handlerA :: "('z ord_db_scheme, 'a) act \<Rightarrow> ('z keyed, 'a) act" where
  "handlerA m = (\<lambda>(t, s). case m s of (r, s') \<Rightarrow> (r, (t, s')))"

text \<open>The common body of the routes: look the key up, run the handler, store its response or its failure.\<close>

definition with_key_of ::
  "(string \<Rightarrow> string) \<Rightarrow> string option \<Rightarrow> string \<Rightarrow> string option \<Rightarrow> string option \<Rightarrow> ('z ord_db_scheme, response) act \<Rightarrow>
   ('z keyed, response) act" where
  "with_key_of sha256 key endpoint userId body handler =
    bindA (start_key sha256 key endpoint userId body) (\<lambda>st.
    case st of
      ExistingResponse r \<Rightarrow> returnA r
    | IsNew skipped \<Rightarrow>
        catchA
         (bindA (handlerA handler) (\<lambda>r. thenA (whenA (\<not> skipped) (complete_key key r)) (returnA r)))
         (\<lambda>e. thenA (whenA (\<not> skipped) (fail_key key)) (throwA e)))"

definition checkout_route ::
  "(string \<Rightarrow> string) \<Rightarrow> (checkout_dto \<Rightarrow> string) \<Rightarrow> string option \<Rightarrow> jwt_payload option \<Rightarrow> string option \<Rightarrow> checkout_dto \<Rightarrow>
   string option \<Rightarrow> ('z keyed, response) act" where
  "checkout_route sha256 stringify ctx user sessionKey dto idempotencyKey =
    with_key_of sha256 idempotencyKey ''POST /api/checkout'' (user_sub user) (Some (stringify dto))
      (bindA (CreateOrderHandler sha256 ctx user sessionKey dto) (\<lambda>r. returnA (CheckoutResponse r)))"

definition status_route ::
  "(string \<Rightarrow> string) \<Rightarrow> (string \<times> string option \<Rightarrow> string) \<Rightarrow> jwt_payload \<Rightarrow> string \<Rightarrow> string \<Rightarrow> string option \<Rightarrow>
   string option \<Rightarrow> ('z keyed, response) act" where
  "status_route sha256 stringify user i status reason idempotencyKey =
    (let key = (if truthy idempotencyKey then Some (the idempotencyKey @ '':'' @ i @ '':'' @ status) else None) in
     with_key_of sha256 key (''PATCH /api/orders/'' @ i @ ''/status'') (Some (sub user)) (Some (stringify (status, reason)))
       (bindA (ChangeOrderStatusHandler user i status reason) (\<lambda>r. returnA (StatusResponse r))))"

end
