(* ===== verification/Idempotency_Claims.thy ===== *)
theory Idempotency_Claims
  imports Idempotency Checkout_Claims
begin

text \<open>What the keys promise: a request with a key takes effect once.\<close>

lemma handlerA_run: "handlerA m (t, s) = (r, (t', s')) \<longleftrightarrow> m s = (r, s') \<and> t' = t"
  by (auto simp: handlerA_def split: prod.splits)

lemma keysA_run [simp]: "keysA f (t, s) = (Inr (), (f t, s))"
  by (simp add: keysA_def act_defs)

definition completed :: "string \<Rightarrow> response \<Rightarrow> idem_row list \<Rightarrow> bool" where
  "completed k r t \<longleftrightarrow> (\<exists>row. find_row (\<lambda>x. ik_key x = k) t = Some row \<and> ik_status row = IK_COMPLETED \<and> ik_response row = Some r)"

lemma start_completed:
  assumes "completed k r t" "8 \<le> length k"
  shows "start_key sha256 (Some k) e u b (t, s) = (Inr (ExistingResponse r), (t, s))"
  using assms by (auto simp: start_key_def completed_def key_used_def Let_def act_defs)

lemma with_key_completed:
  assumes "completed k r t" "8 \<le> length k"
  shows "with_key_of sha256 (Some k) e u b m (t, s) = (Inr r, (t, s))"
  by (simp add: with_key_of_def act_defs start_completed [OF assms])

lemma start_new:
  assumes "start_key sha256 (Some k) e u b (t, s) = (Inr (IsNew sk), (t', s'))" "8 \<le> length k"
  shows "\<not> sk" "s' = s" "find_row (\<lambda>x. ik_key x = k) t' \<noteq> None"
  using assms
  by (auto simp: start_key_def key_used_def Let_def act_defs find_row_append list_ex_iff find_row_None split: option.splits if_splits)

lemma start_existing:
  assumes "start_key sha256 (Some k) e u b (t, s) = (Inr (ExistingResponse r), st)" "8 \<le> length k"
  shows "completed k r t \<and> st = (t, s)"
  using assms
  by (auto simp: start_key_def key_used_def Let_def act_defs completed_def split: option.splits if_splits)

lemma with_key_ok:
  assumes run: "with_key_of sha256 (Some k) e u b m (t, s) = (Inr r, (t', s'))" and len: "8 \<le> length k"
  shows "completed k r t'" "(completed k r t \<and> t' = t \<and> s' = s) \<or> m s = (Inr r, s')"
proof -
  from run obtain st t1 s1 where st: "start_key sha256 (Some k) e u b (t, s) = (Inr st, (t1, s1))"
    and rest: "(case st of ExistingResponse r \<Rightarrow> returnA r
      | IsNew skipped \<Rightarrow> catchA (bindA (handlerA m) (\<lambda>r. thenA (whenA (\<not> skipped) (complete_key (Some k) r)) (returnA r)))
          (\<lambda>e. thenA (whenA (\<not> skipped) (fail_key (Some k))) (throwA e))) (t1, s1) = (Inr r, (t', s'))"
    by (auto simp: with_key_of_def ok_simps)
  have both: "completed k r t' \<and> ((completed k r t \<and> t' = t \<and> s' = s) \<or> m s = (Inr r, s'))"
  proof (cases st)
    case (ExistingResponse x)
    with rest start_existing [OF st [unfolded ExistingResponse] len] show ?thesis by (auto simp: act_defs)
  next
    case (IsNew sk)
    note new = start_new [OF st [unfolded IsNew] len]
    have key: "key_used (Some k)" using len by (simp add: key_used_def)
    obtain row where row: "find_row (\<lambda>x. ik_key x = k) t1 = Some row" using new(3) by auto
    obtain y s2 where m: "m s = (y, s2)" by (cases "m s")
    have "y = Inr r \<and> s' = s2 \<and> t' = update_where (\<lambda>x. ik_key x = k) (\<lambda>x. x\<lparr>ik_status := IK_COMPLETED, ik_response := Some r\<rparr>) t1"
      using rest IsNew new(1,2) m key
      by (cases y) (auto simp: act_defs handlerA_def complete_key_def fail_key_def)
    with m row find_row_Some [OF row] show ?thesis by (auto simp: completed_def find_row_update_where)
  qed
  then show "completed k r t'" "(completed k r t \<and> t' = t \<and> s' = s) \<or> m s = (Inr r, s')" by simp_all
qed

text \<open>
  C25.  A checkout with an idempotency key places its orders once: when it has returned, every further request
  with the key, any number of them and whatever they ask for, gets the same response and changes nothing,
  neither an order nor the table of keys.  The orders returned are those this checkout placed, unless the
  response was stored before.
\<close>

theorem checkout_key_once:
  assumes run: "checkout_route sha256 stringify ctx user sessionKey dto (Some k) (t, s) = (Inr r, (t', s'))"
    and len: "8 \<le> length k"
  shows "run_all (\<lambda>(u, key, d). checkout_route sha256 stringify ctx u key d (Some k)) requests (t', s') = (t', s') \<and>
    fst (checkout_route sha256 stringify ctx user' sessionKey' dto' (Some k) (t', s')) = Inr r \<and>
    ((t', s') = (t, s) \<or> (\<exists>placed. CreateOrderHandler sha256 ctx user sessionKey dto s = (Inr placed, s') \<and> r = CheckoutResponse placed))"
proof -
  note ok = with_key_ok [OF run [unfolded checkout_route_def] len]
  have again: "checkout_route sha256 stringify ctx u key d (Some k) (t', s') = (Inr r, (t', s'))" for u key d
    unfolding checkout_route_def by (rule with_key_completed [OF ok(1) len])
  have "run_all (\<lambda>(u, key, d). checkout_route sha256 stringify ctx u key d (Some k)) requests (t', s') = (t', s')"
    by (induction requests) (auto simp: again)
  moreover have "(t', s') = (t, s) \<or> (\<exists>placed. CreateOrderHandler sha256 ctx user sessionKey dto s = (Inr placed, s') \<and> r = CheckoutResponse placed)"
    using ok(2) by (auto simp: ok_simps)
  ultimately show ?thesis by (simp add: again)
qed

lemma enqueue_all: "\<exists>s'. forA xs (\<lambda>x. enqueueA n (p x)) s = (Inr (), s')"
proof (induction xs arbitrary: s)
  case Nil
  show ?case by (simp add: act_defs)
next
  case (Cons x xs)
  have "\<exists>s1. enqueueA n (p x) s = (Inr (), s1)" by (simp add: enqueueA_def newIdA_def createA_def act_defs)
  with Cons show ?case by (auto simp: act_defs)
qed

theorem checkout_key_once_witness:
  "\<exists>r t' s'. checkout_route id (\<lambda>d. []) None (Some demo_buyer) None demo_dto (Some ''key-0001'') ([], demo_cart 2) = (Inr r, (t', s')) \<and>
    run_all (\<lambda>(u, key, d). checkout_route id (\<lambda>d. []) None u key d (Some ''key-0001''))
      [(Some demo_buyer, None, demo_dto), (None, Some ''x'', demo_dto)] (t', s') = (t', s')"
proof -
  obtain rs s1 where c: "checkout id None (Some demo_buyer) None demo_dto (demo_cart 2) = (Inr rs, s1)"
    using demo_checkout by blast
  obtain s2 where "forA rs (\<lambda>o'. enqueueA ''OrderCreatedEvent''
      [(''orderId'', JString (cr_id o')), (''customerId'', json_opt (user_sub (Some demo_buyer))),
       (''totalCents'', JNumber (cr_totalCents o')), (''shopIds'', JStrings (if cr_shopId o' = [] then [] else [cr_shopId o'])),
       (''orderNumber'', JString (cr_orderNumber o'))]) s1 = (Inr (), s2)"
    using enqueue_all [where n = "''OrderCreatedEvent''" and s = s1 and xs = rs and p = "\<lambda>o' :: checkout_result.
      [(''orderId'', JString (cr_id o')), (''customerId'', json_opt (user_sub (Some demo_buyer))),
       (''totalCents'', JNumber (cr_totalCents o')), (''shopIds'', JStrings (if cr_shopId o' = [] then [] else [cr_shopId o'])),
       (''orderNumber'', JString (cr_orderNumber o'))]"] by blast
  with c have h: "CreateOrderHandler id None (Some demo_buyer) None demo_dto (demo_cart 2) = (Inr rs, s2)"
    by (simp add: CreateOrderHandler_def act_defs)
  have key: "key_used (Some ''key-0001'')" by (simp add: key_used_def)
  have "\<exists>r t' s'. checkout_route id (\<lambda>d. []) None (Some demo_buyer) None demo_dto (Some ''key-0001'') ([], demo_cart 2) = (Inr r, (t', s'))"
    by (simp add: checkout_route_def with_key_of_def start_key_def complete_key_def key Let_def act_defs handlerA_def h keysA_def)
  then obtain r t' s' where run:
    "checkout_route id (\<lambda>d. []) None (Some demo_buyer) None demo_dto (Some ''key-0001'') ([], demo_cart 2) = (Inr r, (t', s'))" by blast
  have len: "8 \<le> length ''key-0001''" by simp
  from checkout_key_once [OF run len] run show ?thesis by blast
qed

end
