(* ===== verification/Catalog.thy ===== *)
theory Catalog
  imports Tenants Tax
begin

text \<open>
  The catalogue: categories and products as \<open>catalog/catalog.service.ts\<close> reads and edits them, the cache in
  front of the public list, the list served while the database is down (\<open>fallback-catalog.ts\<close>), documents of
  products.  The search engine, the queue in front of it and the storage of files are seen through the calls
  that reach them; Redis is a map from keys to values with an expiry.  The free form \<open>attributes\<close> of a product
  are left out.
\<close>

section \<open>State\<close>

record category_row =
  cg_id :: string
  cg_name :: string
  cg_slug :: string
  cg_parentId :: "string option"

record document_row =
  pd_id :: string
  pd_productId :: string
  pd_name :: string
  pd_filePath :: string
  pd_docType :: string

datatype search_action = SA_index | SA_remove

datatype search_call = Enqueued search_action string | IndexProduct string | RemoveProduct string

record category_view =
  cv_category :: category_row
  cv_parent :: "(string \<times> string) option"
  cv_products :: nat

record product_page =
  pg_items :: "product_row list"
  pg_nextCursor :: "string option"
  pg_hasMore :: bool

datatype cached = CachedCategories "category_view list" | CachedPage product_page

record catalog_db = tenant_db +
  categories :: "category_row list"
  product_documents :: "document_row list"
  redis :: "string \<rightharpoonup> cached \<times> int"
  search_calls :: "search_call list"
  deleted_files :: "string list"

text \<open>
  What the service is given: the tenant of the request, whether Redis is there, whether a search job is taken
  by the queue, the failure of the database if it is down, the check of an uploaded file (its type and a safe
  name) and the storage.
\<close>

record catalog_env =
  ce_tenant :: "string option"
  ce_redis :: bool
  ce_queued :: "search_action \<Rightarrow> string \<Rightarrow> bool"
  ce_down :: "exn option"
  ce_assertSafe :: "string \<Rightarrow> upload_file \<Rightarrow> exn + string \<times> string"
  ce_upload :: "bool \<Rightarrow> upload_file \<Rightarrow> string \<Rightarrow> exn + string"

text \<open>A product a query finds under the tenant of the request.\<close>

definition in_tenant :: "string option \<Rightarrow> product_row \<Rightarrow> bool" where
  "in_tenant ctx p \<longleftrightarrow> (truthy ctx \<longrightarrow> p_tenantId p = ctx)"

definition product_by :: "string option \<Rightarrow> (product_row \<Rightarrow> bool) \<Rightarrow> ('z inv_db_scheme, product_row option) act" where
  "product_by ctx P = getsA (\<lambda>s. find_row (\<lambda>p. in_tenant ctx p \<and> P p) (products s))"

definition shop_by_id :: "string option \<Rightarrow> string \<Rightarrow> ('z inv_db_scheme, shop_row option) act" where
  "shop_by_id ctx i = getsA (\<lambda>s. find_row (\<lambda>sh. (truthy ctx \<longrightarrow> sh_tenantId sh = ctx) \<and> sh_id sh = i) (shops s))"

section \<open>Cache and search\<close>

definition cache_get :: "catalog_env \<Rightarrow> string \<Rightarrow> ('z catalog_db_scheme, cached option) act" where
  "cache_get env k =
    getsA (\<lambda>s. if \<not> ce_redis env then None
      else case redis s k of Some (v, expires) \<Rightarrow> if clock s < expires then Some v else None | None \<Rightarrow> None)"

definition cache_set :: "catalog_env \<Rightarrow> string \<Rightarrow> cached \<Rightarrow> int \<Rightarrow> ('z catalog_db_scheme, unit) act" where
  "cache_set env k v ttlSeconds =
    whenA (ce_redis env) (modifyA (\<lambda>s. redis_update (\<lambda>m. m(k \<mapsto> (v, clock s + 1000 * ttlSeconds))) s))"

text \<open>The patterns the code deletes end in a star.\<close>

definition cache_delByPrefix :: "catalog_env \<Rightarrow> string \<Rightarrow> ('z catalog_db_scheme, unit) act" where
  "cache_delByPrefix env pre =
    whenA (ce_redis env) (modifyA (redis_update (\<lambda>m k. if js_starts pre k then None else m k)))"

definition invalidateCatalogCache :: "catalog_env \<Rightarrow> ('z catalog_db_scheme, unit) act" where
  "invalidateCatalogCache env = thenA (cache_delByPrefix env ''categories:'') (cache_delByPrefix env ''products:'')"

definition searchA :: "search_call \<Rightarrow> ('z catalog_db_scheme, unit) act" where
  "searchA c = modifyA (search_calls_update (\<lambda>t. t @ [c]))"

text \<open>\<open>inline\<close>: the product is at hand.\<close>

definition scheduleSearchIndex :: "catalog_env \<Rightarrow> string \<Rightarrow> search_action \<Rightarrow> bool \<Rightarrow> ('z catalog_db_scheme, unit) act" where
  "scheduleSearchIndex env productId action inline =
    (if ce_queued env action productId then searchA (Enqueued action productId)
     else if action = SA_remove then searchA (RemoveProduct productId)
     else whenA inline (searchA (IndexProduct productId)))"

text \<open>\<open>storage.deleteImage\<close>, which never throws.\<close>

definition deleteImage :: "string \<Rightarrow> ('z catalog_db_scheme, unit) act" where
  "deleteImage url = whenA (url \<noteq> []) (modifyA (deleted_files_update (\<lambda>t. t @ [url])))"

section \<open>The list for a database that is down\<close>

definition utf8 :: "nat list \<Rightarrow> string" where "utf8 ns = map char_of ns"

definition FALLBACK_CATEGORIES :: "category_view list" where
  "FALLBACK_CATEGORIES = [
    \<lparr>cv_category = \<lparr>cg_id = ''drilling-equipment'',
       cg_name = utf8 [208, 145, 209, 131, 209, 128, 208, 190, 208, 178, 208, 190, 208, 181, 32, 208, 190, 208, 177,
        208, 190, 209, 128, 209, 131, 208, 180, 208, 190, 208, 178, 208, 176, 208, 189, 208, 184, 208, 181],
       cg_slug = ''drilling-equipment'', cg_parentId = None\<rparr>, cv_parent = None, cv_products = 2\<rparr>,
    \<lparr>cv_category = \<lparr>cg_id = ''pipeline-valves'',
       cg_name = utf8 [208, 162, 209, 128, 209, 131, 208, 177, 208, 190, 208, 191, 209, 128, 208, 190, 208, 178, 208,
        190, 208, 180, 209, 139, 32, 208, 184, 32, 208, 176, 209, 128, 208, 188, 208, 176, 209, 130, 209, 131, 209,
        128, 208, 176],
       cg_slug = ''pipeline-valves'', cg_parentId = None\<rparr>, cv_parent = None, cv_products = 3\<rparr>,
    \<lparr>cv_category = \<lparr>cg_id = ''ppe-hse'',
       cg_name = utf8 [208, 161, 208, 152, 208, 151, 32, 208, 184, 32] @ ''HSE'',
       cg_slug = ''ppe-hse'', cg_parentId = None\<rparr>, cv_parent = None, cv_products = 4\<rparr>,
    \<lparr>cv_category = \<lparr>cg_id = ''pumps-compressors'',
       cg_name = utf8 [208, 157, 208, 176, 209, 129, 208, 190, 209, 129, 209, 139, 32, 208, 184, 32, 208, 186, 208,
        190, 208, 188, 208, 191, 209, 128, 208, 181, 209, 129, 209, 129, 208, 190, 209, 128, 209, 139],
       cg_slug = ''pumps-compressors'', cg_parentId = None\<rparr>, cv_parent = None, cv_products = 1\<rparr>,
    \<lparr>cv_category = \<lparr>cg_id = ''instrumentation'',
       cg_name = utf8 [208, 154, 208, 152, 208, 159, 208, 184, 208, 144],
       cg_slug = ''instrumentation'', cg_parentId = None\<rparr>, cv_parent = None, cv_products = 1\<rparr>,
    \<lparr>cv_category = \<lparr>cg_id = ''chemicals-fluids'',
       cg_name = utf8 [208, 165, 208, 184, 208, 188, 208, 184, 209, 143, 32, 208, 184, 32, 208, 182, 208, 184, 208,
        180, 208, 186, 208, 190, 209, 129, 209, 130, 208, 184],
       cg_slug = ''chemicals-fluids'', cg_parentId = None\<rparr>, cv_parent = None, cv_products = 1\<rparr>]"

definition fallback_row :: "string \<Rightarrow> string \<Rightarrow> string \<Rightarrow> int \<Rightarrow> int \<Rightarrow> string \<Rightarrow> string \<Rightarrow> string \<Rightarrow> product_row" where
  "fallback_row i name sku cents stock img cat shop =
    \<lparr>p_id = i, p_shopId = shop, p_categoryId = Some cat, p_name = name, p_priceCents = cents, p_stock = stock,
     p_reservedStock = 0, p_status = PR_ACTIVE, p_slug = i, p_description = None,
     p_imageUrl = Some (''/assets/img/photos/'' @ img @ ''.jpg''), p_sku = Some sku, p_gtin = None, p_brand = None,
     p_moq = 1, p_currency = ''RUB'', p_tenantId = None\<rparr>"

definition FALLBACK_PRODUCTS :: "product_row list" where
  "FALLBACK_PRODUCTS = [
    fallback_row ''mud-motor-6-75'' (''Mud Motor 6-3/4'' @ utf8 [34] @ '' 5:6'') ''DTS-DRL-001''
      485000000 3 ''mud-motor'' ''drilling-equipment'' ''drilltech-supply'',
    fallback_row ''pdc-drill-bit-8-5'' (''PDC Drill Bit 8-1/2'' @ utf8 [34]) ''DTS-DRL-002''
      192000000 5 ''drill-bit'' ''drilling-equipment'' ''drilltech-supply'',
    fallback_row ''centrifugal-pump-4x3'' (''Centrifugal Process Pump 4x3-10'') ''DTS-PMP-001''
      143520000 2 ''pump'' ''pumps-compressors'' ''drilltech-supply'',
    fallback_row ''drilling-fluid-pack-1t'' (''Drilling Fluid Additive Pack (1 t)'') ''DTS-CHM-001''
      19320000 20 ''chemicals'' ''chemicals-fluids'' ''drilltech-supply'',
    fallback_row ''h2s-escape-kit'' (''H2S Escape Respirator Kit'') ''FSP-PPE-001''
      2944000 40 ''respirator'' ''ppe-hse'' ''fieldsafe-ppe'',
    fallback_row ''fr-coverall-cat2'' (''FR Coverall CAT2'') ''FSP-PPE-002''
      1738800 80 ''coverall-fr'' ''ppe-hse'' ''fieldsafe-ppe'',
    fallback_row ''chemical-gloves-class-b'' (''Chemical Gloves Class B'') ''FSP-PPE-003''
      490000 200 ''gloves'' ''ppe-hse'' ''fieldsafe-ppe'',
    fallback_row ''safety-harness-en361'' (''Safety Harness EN 361'') ''FSP-PPE-004''
      1275000 35 ''harness'' ''ppe-hse'' ''fieldsafe-ppe'',
    fallback_row ''pt-0-100bar'' (''Pressure Transmitter 0'' @ utf8 [226, 128, 147] @ ''100 bar'') ''PVC-INS-001''
      8050000 15 ''transmitter'' ''instrumentation'' ''pipe-valve-co'',
    fallback_row ''wn-flange-8-sch40'' (''Weld Neck Flange 8'' @ utf8 [34] @ '' Sch 40'') ''PVC-VLV-001''
      4620000 25 ''flange'' ''pipeline-valves'' ''pipe-valve-co'',
    fallback_row ''ball-valve-4-fb'' (''Ball Valve 4'' @ utf8 [34]) ''PVC-VLV-002''
      6380000 18 ''ball-valve'' ''pipeline-valves'' ''pipe-valve-co'',
    fallback_row ''gate-valve-6-cl600'' (''Gate Valve 6'' @ utf8 [34]) ''PVC-VLV-003''
      9140000 12 ''gate-valve'' ''pipeline-valves'' ''pipe-valve-co'']"

definition fallbackProductList :: "int \<Rightarrow> product_page" where
  "fallbackProductList limit =
    \<lparr>pg_items = take (nat (max 1 (min limit (int (length FALLBACK_PRODUCTS))))) FALLBACK_PRODUCTS,
     pg_nextCursor = None, pg_hasMore = False\<rparr>"

definition findFallbackProduct :: "string \<Rightarrow> product_row option" where
  "findFallbackProduct i =
    (let key = js_trim i in find_row (\<lambda>p. p_id p = key \<or> p_slug p = key \<or> p_sku p = Some key) FALLBACK_PRODUCTS)"

definition isTransientDbError :: "exn \<Rightarrow> bool" where
  "isTransientDbError e \<longleftrightarrow>
    list_ex (\<lambda>t. js_contains (js_lower t) (js_lower (exn_message e)))
      [''Can'' @ [CHR 0x27] @ ''t reach database'', ''P1001'', ''P1017'', ''P2024'', ''Connection reset'', ''ECONNRESET'',
       ''ETIMEDOUT'', ''ECONNREFUSED'', ''the database system is starting'', ''Server has closed'', ''connect E'',
       ''Connection terminated'']"

text \<open>A failure of the database in front of a reading.\<close>

definition unless_down :: "catalog_env \<Rightarrow> ('z catalog_db_scheme, 'a) act \<Rightarrow> ('z catalog_db_scheme, 'a) act" where
  "unless_down env m = (case ce_down env of None \<Rightarrow> m | Some e \<Rightarrow> throwA e)"

section \<open>Categories\<close>

definition category_view_of :: "'z catalog_db_scheme \<Rightarrow> category_row \<Rightarrow> category_view" where
  "category_view_of s c =
    \<lparr>cv_category = c,
     cv_parent = Option.bind (cg_parentId c) (\<lambda>i. map_option (\<lambda>p. (cg_id p, cg_name p)) (find_row (\<lambda>p. cg_id p = i) (categories s))),
     cv_products = count_where (\<lambda>p. p_categoryId p = Some (cg_id c)) (products s)\<rparr>"

definition listCategories :: "catalog_env \<Rightarrow> ('z catalog_db_scheme, category_view list) act" where
  "listCategories env =
    catchA
     (bindA (cache_get env ''categories:all'') (\<lambda>hit.
      case hit of
        Some (CachedCategories cs) \<Rightarrow> returnA cs
      | _ \<Rightarrow>
          bindA (unless_down env (getsA (\<lambda>s.
            map (category_view_of s) (sort_by (\<lambda>a b. cg_name a < cg_name b) (categories s))))) (\<lambda>cs.
          if cs = [] then returnA FALLBACK_CATEGORIES
          else thenA (cache_set env ''categories:all'' (CachedCategories cs) 600) (returnA cs))))
     (\<lambda>e. returnA FALLBACK_CATEGORIES)"

text \<open>\<open>slug\<close> is a unique column, \<open>parentId\<close> a foreign key.\<close>

definition createCategory ::
  "catalog_env \<Rightarrow> string \<Rightarrow> string option \<Rightarrow> string option \<Rightarrow> ('z catalog_db_scheme, category_row) act" where
  "createCategory env name slug parentId =
    bindA newIdA (\<lambda>i.
    bindA (getsA categories) (\<lambda>cs.
    let row = \<lparr>cg_id = i, cg_name = js_trim name,
      cg_slug = (case or_else (map_option js_trim slug) None of Some t \<Rightarrow> t | None \<Rightarrow> slugify 80 name),
      cg_parentId = or_else parentId None\<rparr> in
    thenA (guardA (\<not> list_ex (\<lambda>c. cg_id c = i \<or> cg_slug c = cg_slug row) cs) (PrismaError ''P2002''))
    (thenA (guardA (case cg_parentId row of None \<Rightarrow> True | Some p \<Rightarrow> list_ex (\<lambda>c. cg_id c = p) cs) (PrismaError ''P2003''))
    (thenA (createA categories_update row)
    (thenA (invalidateCatalogCache env) (returnA row))))))"

section \<open>Reading products\<close>

record list_products =
  lp_cursor :: "string option"
  lp_limit :: "int option"
  lp_categoryId :: "string option"
  lp_search :: "string option"
  lp_status :: "string option"

definition product_status_of :: "string \<Rightarrow> product_status option" where
  "product_status_of t =
    map_of [(''DRAFT'', PR_DRAFT), (''ACTIVE'', PR_ACTIVE), (''ARCHIVED'', PR_ARCHIVED)] t"

definition is_guest :: "jwt_payload option \<Rightarrow> bool" where
  "is_guest user \<longleftrightarrow> (case user of None \<Rightarrow> True | Some u \<Rightarrow> user_role u \<notin> {MERCHANT, ADMIN, SUPER_ADMIN})"

text \<open>The condition of the query; the tenant of the request is added to it by the client.\<close>

definition list_where :: "string option \<Rightarrow> jwt_payload option \<Rightarrow> list_products \<Rightarrow> shop_row list \<Rightarrow> product_row \<Rightarrow> bool" where
  "list_where ctx user dto shs p \<longleftrightarrow>
    in_tenant ctx p \<and>
    (case user of Some u \<Rightarrow> user_role u = MERCHANT \<longrightarrow> Some (p_shopId p) = user_shopId u | None \<Rightarrow> True) \<and>
    (case Option.bind (or_else (lp_status dto) None) product_status_of of
       Some st \<Rightarrow> p_status p = st
     | None \<Rightarrow> is_guest user \<longrightarrow> p_status p = PR_ACTIVE) \<and>
    (truthy (lp_categoryId dto) \<longrightarrow> p_categoryId p = lp_categoryId dto) \<and>
    (case or_else (map_option js_trim (lp_search dto)) None of
       None \<Rightarrow> True
     | Some q \<Rightarrow> contains_ci q (Some (p_name p)) \<or> contains_ci q (p_description p) \<or> contains_ci q (p_sku p)) \<and>
    (is_guest user \<longrightarrow> list_ex (\<lambda>sh. sh_id sh = p_shopId p \<and> sh_status sh = SH_ACTIVE) shs)"

definition id_before :: "product_row \<Rightarrow> product_row \<Rightarrow> bool" where
  "id_before a b \<longleftrightarrow> p_id a < p_id b"

text \<open>
  \<open>take\<close> rows of the query in the order of their ids; with a cursor, of those from the row of the cursor on,
  without the first, and none when there is no such row.
\<close>

definition page_rows :: "(product_row \<Rightarrow> bool) \<Rightarrow> string option \<Rightarrow> nat \<Rightarrow> product_row list \<Rightarrow> product_row list" where
  "page_rows P cursor n ps =
    (case or_else cursor None of
      None \<Rightarrow> take n (sort_by id_before (filter P ps))
    | Some c \<Rightarrow>
        if list_ex (\<lambda>p. p_id p = c) ps
        then take n (drop 1 (sort_by id_before (filter (\<lambda>p. P p \<and> c \<le> p_id p) ps)))
        else [])"

definition public_key :: "jwt_payload option \<Rightarrow> list_products \<Rightarrow> string option" where
  "public_key user dto =
    (if is_guest user \<and> \<not> truthy (lp_cursor dto) \<and> \<not> truthy (lp_search dto) \<and> \<not> truthy (lp_categoryId dto) \<and>
        \<not> truthy (lp_status dto)
     then Some (''products:public:active:l'' @ dec (case lp_limit dto of None \<Rightarrow> 20 | Some n \<Rightarrow> n)) else None)"

definition empty_page :: product_page where
  "empty_page = \<lparr>pg_items = [], pg_nextCursor = None, pg_hasMore = False\<rparr>"

text \<open>The limit is a positive number (\<open>list-products.dto.ts\<close>).\<close>

definition listProductsFromDb :: "catalog_env \<Rightarrow> jwt_payload option \<Rightarrow> list_products \<Rightarrow> ('z catalog_db_scheme, product_page) act" where
  "listProductsFromDb env user dto =
    (let limit = (case lp_limit dto of None \<Rightarrow> 20 | Some n \<Rightarrow> n); key = public_key user dto in
     bindA (case key of None \<Rightarrow> returnA None | Some k \<Rightarrow> cache_get env k) (\<lambda>hit.
     case hit of
       Some (CachedPage pg) \<Rightarrow> returnA pg
     | _ \<Rightarrow>
         if (case user of Some u \<Rightarrow> user_role u = MERCHANT \<and> \<not> truthy (user_shopId u) | None \<Rightarrow> False)
         then returnA empty_page
         else
           bindA (unless_down env (getsA (\<lambda>s.
             page_rows (list_where (ce_tenant env) user dto (shops s)) (lp_cursor dto) (nat limit) (products s)))) (\<lambda>items.
           let next = (if int (length items) = limit then Some (p_id (last items)) else None);
               pg = \<lparr>pg_items = items, pg_nextCursor = next, pg_hasMore = truthy next\<rparr> in
           thenA (case key of None \<Rightarrow> returnA () | Some k \<Rightarrow> whenA (items \<noteq> []) (cache_set env k (CachedPage pg) 300))
             (returnA pg))))"

definition listProducts :: "catalog_env \<Rightarrow> jwt_payload option \<Rightarrow> list_products \<Rightarrow> ('z catalog_db_scheme, product_page) act" where
  "listProducts env user dto =
    (let limit = (case lp_limit dto of None \<Rightarrow> 100 | Some n \<Rightarrow> n) in
     catchA
      (bindA (listProductsFromDb env user dto) (\<lambda>pg.
       if is_guest user \<and> pg_items pg = [] then returnA (fallbackProductList limit) else returnA pg))
      (\<lambda>e. if \<not> isTransientDbError e \<and> user \<noteq> None \<and> \<not> is_guest user then throwA e
           else returnA (fallbackProductList limit)))"

section \<open>One product\<close>

record product_view =
  pv_product :: product_row
  pv_available :: int

definition assertCanRead :: "string \<Rightarrow> product_status \<Rightarrow> jwt_payload option \<Rightarrow> ('z, unit) act" where
  "assertCanRead shopId st user =
    (if st = PR_ACTIVE then returnA ()
     else case user of
       None \<Rightarrow> throwA (NotFound ''Product not found'')
     | Some u \<Rightarrow>
         if is_admin u then returnA ()
         else if user_role u = MERCHANT \<and> user_shopId u = Some shopId then returnA ()
         else throwA (NotFound ''Product not found''))"

definition assertCanWriteShop :: "jwt_payload \<Rightarrow> string \<Rightarrow> ('z, unit) act" where
  "assertCanWriteShop user shopId =
    (if is_admin user then returnA ()
     else if user_role user = MERCHANT \<and> user_shopId user = Some shopId then returnA ()
     else throwA (Forbidden ''Not your shop''))"

definition resolveShopIdForWrite :: "jwt_payload \<Rightarrow> string option \<Rightarrow> exn + string" where
  "resolveShopIdForWrite user bodyShopId =
    (if user_role user = MERCHANT then
       (if truthy (user_shopId user) then Inr (the (user_shopId user)) else Inl (Forbidden ''Merchant has no shop''))
     else if is_admin user then
       (if truthy bodyShopId then Inr (the bodyShopId) else Inl (Forbidden ''Admin must pass shopId''))
     else Inl (Forbidden ''Cannot create products''))"

text \<open>What can be sold: the free units of all stock rows, or the aggregate where there is no row.\<close>

definition available_stock :: "product_row \<Rightarrow> stock_row list \<Rightarrow> int" where
  "available_stock p rows =
    (if filter (\<lambda>r. ps_productId r = p_id p) rows = [] then p_stock p
     else sum_where (\<lambda>r. ps_productId r = p_id p) (\<lambda>r. max 0 (ps_quantity r - ps_reserved r)) rows)"

definition getProductFromDb :: "catalog_env \<Rightarrow> string \<Rightarrow> jwt_payload option \<Rightarrow> ('z catalog_db_scheme, product_view) act" where
  "getProductFromDb env i user =
    bindA (unless_down env (product_by (ce_tenant env) (\<lambda>p. p_id p = i))) (\<lambda>found.
    bindA (someA found (NotFound ''Product not found'')) (\<lambda>p.
    thenA (assertCanRead (p_shopId p) (p_status p) user)
    (bindA (getsA (\<lambda>s. available_stock p (stocks s))) (\<lambda>n.
     returnA \<lparr>pv_product = p\<lparr>p_stock := n\<rparr>, pv_available = n\<rparr>))))"

definition getProduct :: "catalog_env \<Rightarrow> string \<Rightarrow> jwt_payload option \<Rightarrow> ('z catalog_db_scheme, product_view) act" where
  "getProduct env i user =
    catchA (getProductFromDb env i user)
      (\<lambda>e. case findFallbackProduct i of
         Some p \<Rightarrow> returnA \<lparr>pv_product = p, pv_available = p_stock p\<rparr>
       | None \<Rightarrow> throwA e)"

definition getProductStocks :: "catalog_env \<Rightarrow> jwt_payload \<Rightarrow> string \<Rightarrow> ('z catalog_db_scheme, (stock_row \<times> warehouse_row option) list) act" where
  "getProductStocks env user productId =
    bindA (product_by (ce_tenant env) (\<lambda>p. p_id p = productId)) (\<lambda>found.
    bindA (someA found (NotFound ''Product not found'')) (\<lambda>p.
    thenA (assertCanWriteShop user (p_shopId p))
      (getsA (\<lambda>s. sort_by (\<lambda>a b. (case (snd a, snd b) of (Some v, Some w) \<Rightarrow> w_name v < w_name w | _ \<Rightarrow> False))
        (map (\<lambda>r. (r, find_row (\<lambda>w. w_id w = ps_warehouseId r) (warehouses s)))
          (filter (\<lambda>r. ps_productId r = productId) (stocks s)))))))"

section \<open>Editing products\<close>

record create_product =
  cp_name :: string
  cp_slug :: "string option"
  cp_description :: "string option"
  cp_sku :: "string option"
  cp_gtin :: "string option"
  cp_price :: "dbl option"
  cp_priceCents :: "int option"
  cp_currency :: "string option"
  cp_stock :: "int option"
  cp_categoryId :: "string option"
  cp_shopId :: "string option"
  cp_imageUrl :: "string option"
  cp_brand :: "string option"
  cp_moq :: "int option"
  cp_status :: "product_status option"

text \<open>In an update a missing field is \<open>None\<close>; where \<open>null\<close> has a meaning of its own it is \<open>Some None\<close>.\<close>

record update_product =
  up_name :: "string option"
  up_slug :: "string option"
  up_description :: "string option option"
  up_sku :: "string option option"
  up_gtin :: "string option option"
  up_price :: "dbl option option"
  up_priceCents :: "int option option"
  up_currency :: "string option"
  up_stock :: "int option"
  up_categoryId :: "string option option"
  up_imageUrl :: "string option option"
  up_brand :: "string option option"
  up_moq :: "int option"
  up_status :: "product_status option"

definition resolvePriceCents :: "dbl option \<Rightarrow> int option \<Rightarrow> int" where
  "resolvePriceCents price priceCents =
    (case priceCents of
      Some c \<Rightarrow> c
    | None \<Rightarrow> (case price of Some p \<Rightarrow> js_round (fl_mul p (dbl_of_int 100)) | None \<Rightarrow> 0))"

text \<open>The key and the pair of shop and slug are unique, the category is a foreign key.\<close>

definition product_clash :: "product_row \<Rightarrow> product_row \<Rightarrow> bool" where
  "product_clash p q \<longleftrightarrow> p_id q = p_id p \<or> (p_shopId q = p_shopId p \<and> p_slug q = p_slug p)"

definition category_known :: "string option \<Rightarrow> 'z catalog_db_scheme \<Rightarrow> bool" where
  "category_known c s \<longleftrightarrow> (case c of None \<Rightarrow> True | Some i \<Rightarrow> list_ex (\<lambda>r. cg_id r = i) (categories s))"

definition insert_product :: "product_row \<Rightarrow> ('z catalog_db_scheme, unit) act" where
  "insert_product p =
    bindA (getsA (\<lambda>s. (list_ex (product_clash p) (products s), category_known (p_categoryId p) s))) (\<lambda>(clash, known).
    thenA (guardA (\<not> clash) (PrismaError ''P2002''))
    (thenA (guardA known (PrismaError ''P2003''))
      (createA products_update p)))"

definition write_product :: "string option \<Rightarrow> string \<Rightarrow> (product_row \<Rightarrow> product_row) \<Rightarrow> ('z catalog_db_scheme, product_row) act" where
  "write_product ctx i f =
    bindA (product_by ctx (\<lambda>p. p_id p = i)) (\<lambda>found.
    bindA (someA found (PrismaError ''P2025'')) (\<lambda>p.
    bindA (getsA (\<lambda>s. (list_ex (\<lambda>q. p_id q \<noteq> i \<and> product_clash (f p) q) (products s), category_known (p_categoryId (f p)) s)))
      (\<lambda>(clash, known).
    thenA (guardA (\<not> clash) (PrismaError ''P2002''))
    (thenA (guardA known (PrismaError ''P2003''))
    (thenA (modifyA (products_update (update_where (\<lambda>q. p_id q = i) f)))
      (returnA (f p)))))))"

definition new_product :: "string option \<Rightarrow> string \<Rightarrow> string \<Rightarrow> string \<Rightarrow> product_status \<Rightarrow> create_product \<Rightarrow> string option \<Rightarrow> product_row" where
  "new_product ctx i shopId slug st dto sku =
    \<lparr>p_id = i, p_shopId = shopId, p_categoryId = or_else (cp_categoryId dto) None, p_name = js_trim (cp_name dto),
     p_priceCents = resolvePriceCents (cp_price dto) (cp_priceCents dto),
     p_stock = max 0 (case cp_stock dto of None \<Rightarrow> 0 | Some n \<Rightarrow> n), p_reservedStock = 0, p_status = st, p_slug = slug,
     p_description = cp_description dto, p_imageUrl = trim_or_null (cp_imageUrl dto), p_sku = sku,
     p_gtin = cp_gtin dto, p_brand = trim_or_null (cp_brand dto),
     p_moq = (case cp_moq dto of None \<Rightarrow> 1 | Some n \<Rightarrow> max 1 n),
     p_currency = (case cp_currency dto of None \<Rightarrow> ''USD'' | Some c \<Rightarrow> c),
     p_tenantId = or_else ctx None\<rparr>"

definition createProduct :: "catalog_env \<Rightarrow> jwt_payload \<Rightarrow> create_product \<Rightarrow> ('z catalog_db_scheme, product_row) act" where
  "createProduct env user dto =
    bindA (sumA (resolveShopIdForWrite user (cp_shopId dto))) (\<lambda>shopId.
    bindA (shop_by_id (ce_tenant env) shopId) (\<lambda>found.
    bindA (someA found (NotFound ''Shop not found'')) (\<lambda>shop.
    let st0 = (case cp_status dto of None \<Rightarrow> PR_DRAFT | Some x \<Rightarrow> x);
        st = (if st0 = PR_ACTIVE \<and> sh_status shop \<noteq> SH_ACTIVE \<and> user_role user = MERCHANT then PR_DRAFT else st0);
        slug = (case trim_or_null (cp_slug dto) of Some t \<Rightarrow> t | None \<Rightarrow> slugify 80 (cp_name dto)) in
    thenA (guardA (0 \<le> resolvePriceCents (cp_price dto) (cp_priceCents dto)) (Forbidden ''Invalid price''))
    (bindA newIdA (\<lambda>i.
     let p = new_product (ce_tenant env) i shopId slug st dto (cp_sku dto) in
     thenA (insert_product p)
     (thenA (auditA (Some (sub user)) ''CREATE'' ''Product'' (Some i))
     (thenA (invalidateCatalogCache env)
     (thenA (whenA (p_status p = PR_ACTIVE) (scheduleSearchIndex env i SA_index True))
     (thenA (emitA ''product.created'' i) (returnA p))))))))))"

text \<open>\<open>Some x\<close> replaces the column.\<close>

definition upd :: "'a option \<Rightarrow> 'a \<Rightarrow> 'a" where
  "upd x y = (case x of None \<Rightarrow> y | Some z \<Rightarrow> z)"

definition new_price :: "update_product \<Rightarrow> product_row \<Rightarrow> int" where
  "new_price dto p =
    (if up_price dto \<noteq> None \<or> up_priceCents dto \<noteq> None
     then resolvePriceCents (upd (up_price dto) None) (upd (up_priceCents dto) None) else p_priceCents p)"

definition product_patch :: "update_product \<Rightarrow> product_row \<Rightarrow> product_row" where
  "product_patch dto p = p\<lparr>
    p_name := (case up_name dto of None \<Rightarrow> p_name p | Some n \<Rightarrow> js_trim n),
    p_slug := (case up_slug dto of None \<Rightarrow> p_slug p | Some t \<Rightarrow> js_trim t),
    p_description := upd (up_description dto) (p_description p),
    p_sku := upd (up_sku dto) (p_sku p),
    p_gtin := upd (up_gtin dto) (p_gtin p),
    p_currency := upd (up_currency dto) (p_currency p),
    p_stock := upd (up_stock dto) (p_stock p),
    p_categoryId := (case up_categoryId dto of None \<Rightarrow> p_categoryId p | Some c \<Rightarrow> or_else c None),
    p_status := upd (up_status dto) (p_status p),
    p_priceCents := new_price dto p,
    p_imageUrl := (case up_imageUrl dto of None \<Rightarrow> p_imageUrl p | Some u \<Rightarrow> trim_or_null u),
    p_brand := (case up_brand dto of None \<Rightarrow> p_brand p | Some b \<Rightarrow> trim_or_null b),
    p_moq := (case up_moq dto of None \<Rightarrow> p_moq p | Some n \<Rightarrow> max 1 n)\<rparr>"

definition updateProduct :: "catalog_env \<Rightarrow> jwt_payload \<Rightarrow> string \<Rightarrow> update_product \<Rightarrow> ('z catalog_db_scheme, product_row) act" where
  "updateProduct env user i dto =
    bindA (product_by (ce_tenant env) (\<lambda>p. p_id p = i)) (\<lambda>found.
    bindA (someA found (NotFound ''Product not found'')) (\<lambda>existing.
    thenA (assertCanWriteShop user (p_shopId existing))
    (thenA (whenA (up_imageUrl dto \<noteq> None \<and> truthy (p_imageUrl existing) \<and>
          p_imageUrl existing \<noteq> trim_or_null (upd (up_imageUrl dto) None))
        (deleteImage (the (p_imageUrl existing))))
    (bindA (write_product (ce_tenant env) i (product_patch dto)) (\<lambda>p.
     thenA (auditA (Some (sub user)) (if up_status dto \<noteq> None then ''STATUS_CHANGE'' else ''UPDATE'') ''Product'' (Some i))
     (thenA (invalidateCatalogCache env)
     (thenA (scheduleSearchIndex env i (if p_status p = PR_ACTIVE then SA_index else SA_remove) True)
     (thenA (emitA ''product.updated'' i) (returnA p)))))))))"

definition deleteProduct :: "catalog_env \<Rightarrow> jwt_payload \<Rightarrow> string \<Rightarrow> ('z catalog_db_scheme, unit) act" where
  "deleteProduct env user i =
    bindA (product_by (ce_tenant env) (\<lambda>p. p_id p = i)) (\<lambda>found.
    bindA (someA found (NotFound ''Product not found'')) (\<lambda>existing.
    thenA (assertCanWriteShop user (p_shopId existing))
    (bindA (write_product (ce_tenant env) i (\<lambda>p. p\<lparr>p_status := PR_ARCHIVED\<rparr>)) (\<lambda>p.
     thenA (auditA (Some (sub user)) ''DELETE'' ''Product'' (Some i))
     (thenA (invalidateCatalogCache env)
     (thenA (scheduleSearchIndex env i SA_remove False)
     (thenA (emitA ''product.deleted'' i)
       (case p_imageUrl existing of None \<Rightarrow> returnA () | Some u \<Rightarrow> deleteImage u))))))))"

definition reindexAllProducts :: "catalog_env \<Rightarrow> ('z catalog_db_scheme, nat) act" where
  "reindexAllProducts env =
    bindA (getsA (\<lambda>s. filter (\<lambda>p. in_tenant (ce_tenant env) p \<and> p_status p = PR_ACTIVE) (products s))) (\<lambda>ps.
    thenA (forA ps (\<lambda>p. searchA (IndexProduct (p_id p)))) (returnA (length ps)))"

section \<open>Documents of a product\<close>

definition uploadProductImage :: "catalog_env \<Rightarrow> upload_file \<Rightarrow> ('z catalog_db_scheme, string) act" where
  "uploadProductImage env file =
    bindA (sumA (ce_assertSafe env ''image'' file)) (\<lambda>(mime, name).
    sumA (ce_upload env True (file\<lparr>uf_mimetype := mime\<rparr>) ''products''))"

definition addProductDocument ::
  "catalog_env \<Rightarrow> string \<Rightarrow> jwt_payload \<Rightarrow> upload_file \<Rightarrow> string option \<Rightarrow> string \<Rightarrow> ('z catalog_db_scheme, document_row) act" where
  "addProductDocument env productId user file name docType =
    bindA (product_by (ce_tenant env) (\<lambda>p. p_id p = productId)) (\<lambda>found.
    bindA (someA found (NotFound ''Product not found'')) (\<lambda>p.
    thenA (assertCanWriteShop user (p_shopId p))
    (bindA (sumA (ce_assertSafe env ''document'' file)) (\<lambda>(mime, safeName).
     bindA (sumA (ce_upload env (js_starts ''image/'' mime) (file\<lparr>uf_mimetype := mime\<rparr>) ''documents'')) (\<lambda>path.
     bindA newIdA (\<lambda>i.
     let doc = \<lparr>pd_id = i, pd_productId = productId,
       pd_name = take 200 (case trim_or_null name of Some n \<Rightarrow> n | None \<Rightarrow> if safeName \<noteq> [] then safeName else ''document''),
       pd_filePath = path, pd_docType = take 80 (if docType \<noteq> [] then docType else ''certificate'')\<rparr> in
     thenA (createA product_documents_update doc)
     (thenA (auditA (Some (sub user)) ''CREATE'' ''ProductDocument'' (Some i)) (returnA doc))))))))"

definition getProductDocuments :: "catalog_env \<Rightarrow> string \<Rightarrow> ('z catalog_db_scheme, document_row list) act" where
  "getProductDocuments env productId =
    bindA (product_by (ce_tenant env) (\<lambda>p. p_id p = productId)) (\<lambda>found.
    bindA (someA found (NotFound ''Product not found'')) (\<lambda>p.
    getsA (\<lambda>s. rev (filter (\<lambda>d. pd_productId d = productId) (product_documents s)))))"

definition deleteProductDocument :: "catalog_env \<Rightarrow> string \<Rightarrow> string \<Rightarrow> jwt_payload \<Rightarrow> ('z catalog_db_scheme, unit) act" where
  "deleteProductDocument env productId docId user =
    bindA (product_by (ce_tenant env) (\<lambda>p. p_id p = productId)) (\<lambda>found.
    bindA (someA found (NotFound ''Product not found'')) (\<lambda>p.
    thenA (assertCanWriteShop user (p_shopId p))
    (bindA (getsA (\<lambda>s. find_row (\<lambda>d. pd_id d = docId \<and> pd_productId d = productId) (product_documents s))) (\<lambda>dfound.
     bindA (someA dfound (NotFound ''Document not found'')) (\<lambda>doc.
     thenA (deleteImage (pd_filePath doc))
     (thenA (modifyA (product_documents_update (filter (\<lambda>d. pd_id d \<noteq> docId))))
       (auditA (Some (sub user)) ''DELETE'' ''ProductDocument'' (Some docId))))))))"

end
