(* ===== verification/Csv.thy ===== *)
theory Csv
  imports Catalog
begin

text \<open>
  The import file of a merchant (\<open>parseAndValidateCsv\<close> and \<open>splitCsvLine\<close> of
  \<open>merchant/merchant-products.service.ts\<close>) with the readings of numbers it uses.  Texts are the bytes of their
  UTF-8 form, so the Cyrillic names of columns are there, but only ASCII letters change case.
\<close>

section \<open>Numbers in texts\<close>

text \<open>\<open>parseInt(t, 10)\<close>; \<open>None\<close> is \<open>NaN\<close>.\<close>

definition js_parseInt :: "string \<Rightarrow> int option" where
  "js_parseInt t =
    (let u = dropWhile js_space t;
         neg = (u \<noteq> [] \<and> hd u = CHR ''-'');
         v = (if u \<noteq> [] \<and> hd u \<in> {CHR ''-'', CHR ''+''} then tl u else u);
         ds = takeWhile digit v
     in if ds = [] then None else Some (if neg then - undec ds else undec ds))"

text \<open>
  \<open>Number(t)\<close>: a decimal literal, \<open>Infinity\<close>, or a whole number in base 16, 8 or 2.  The double nearest to the
  literal is exact arithmetic below \<open>2 ^ 53\<close>.
\<close>

datatype js_number = NaN | Infinite bool | Finite dbl

fun digit_value :: "char \<Rightarrow> nat" where
  "digit_value c =
    (let n = (of_char (js_lower_char c) :: nat) in
     if 48 \<le> n \<and> n \<le> 57 then n - 48 else if 97 \<le> n \<and> n \<le> 122 then n - 87 else 99)"

definition radix_number :: "nat \<Rightarrow> string \<Rightarrow> js_number" where
  "radix_number r ds =
    (if ds = [] \<or> \<not> list_all (\<lambda>c. digit_value c < r) ds then NaN
     else Finite (foldl (\<lambda>a c. int r * a + int (digit_value c)) 0 ds, 0))"

definition decimal_number :: "bool \<Rightarrow> int \<Rightarrow> int \<Rightarrow> js_number" where
  "decimal_number neg m e =
    (let num = m * 10 ^ nat e; den = 10 ^ nat (- e) in
     if 2 ^ 1024 * den \<le> num then Infinite neg else Finite (fl_frac (if neg then - num else num) den))"

definition exponent_of :: "string \<Rightarrow> int option" where
  "exponent_of t =
    (if t = [] then Some 0
     else if hd t \<in> {CHR ''e'', CHR ''E''} then
       (let v = tl t; ds = (if v \<noteq> [] \<and> hd v \<in> {CHR ''-'', CHR ''+''} then tl v else v) in
        if ds = [] \<or> \<not> list_all digit ds then None
        else Some (if hd v = CHR ''-'' then - undec ds else undec ds))
     else None)"

definition unsigned_number :: "bool \<Rightarrow> string \<Rightarrow> js_number" where
  "unsigned_number neg t =
    (if t = ''Infinity'' then Infinite neg
     else
       let ip = takeWhile digit t; r = dropWhile digit t;
           fp = (if r \<noteq> [] \<and> hd r = CHR ''.'' then takeWhile digit (tl r) else []);
           q = (if r \<noteq> [] \<and> hd r = CHR ''.'' then dropWhile digit (tl r) else r)
       in if ip @ fp = [] then NaN
          else case exponent_of q of
            None \<Rightarrow> NaN
          | Some e \<Rightarrow> decimal_number neg (undec (ip @ fp)) (e - int (length fp)))"

definition js_Number :: "string \<Rightarrow> js_number" where
  "js_Number raw =
    (let t = js_trim raw; pre = js_lower (take 2 t); rest = drop 2 t in
     if t = [] then Finite (0, 0)
     else if pre = ''0x'' then radix_number 16 rest
     else if pre = ''0o'' then radix_number 8 rest
     else if pre = ''0b'' then radix_number 2 rest
     else if hd t = CHR ''-'' then unsigned_number True (tl t)
     else if hd t = CHR ''+'' then unsigned_number False (tl t)
     else unsigned_number False t)"

definition is_integer :: "dbl \<Rightarrow> bool" where
  "is_integer x \<longleftrightarrow> fst x mod 2 ^ snd x = 0"

definition dbl_less_int :: "dbl \<Rightarrow> int \<Rightarrow> bool" where
  "dbl_less_int x n \<longleftrightarrow> fst x < n * 2 ^ snd x"

section \<open>Lines\<close>

abbreviation (input) quote :: char where "quote \<equiv> CHR 0x22"

text \<open>The scanner: inside quotes or not, the field so far, the rest of the line.\<close>

function split_csv :: "bool \<Rightarrow> string \<Rightarrow> string \<Rightarrow> string list" where
  "split_csv inQuotes cur [] = [cur]"
| "split_csv inQuotes cur (c # cs) =
    (if c = quote then
       (if inQuotes \<and> cs \<noteq> [] \<and> hd cs = quote then split_csv inQuotes (cur @ [quote]) (tl cs)
        else split_csv (\<not> inQuotes) cur cs)
     else if (c = CHR '','' \<or> c = CHR '';'') \<and> \<not> inQuotes then cur # split_csv inQuotes [] cs
     else split_csv inQuotes (cur @ [c]) cs)"
  by pat_completeness auto
termination by (relation "measure (\<lambda>(q, cur, t). length t)") auto

definition splitCsvLine :: "string \<Rightarrow> string list" where
  "splitCsvLine line = split_csv False [] line"

text \<open>\<open>.replace(/^\uFEFF/, '').split(/\r?\n/)\<close> without the blank lines.\<close>

definition drop_bom :: "string \<Rightarrow> string" where
  "drop_bom t = (if js_starts (utf8 [239, 187, 191]) t then drop 3 t else t)"

definition drop_cr :: "string \<Rightarrow> string" where
  "drop_cr t = (if t \<noteq> [] \<and> last t = CHR 0x0D then butlast t else t)"

definition csv_lines :: "string \<Rightarrow> string list" where
  "csv_lines text =
    (let ls = split_on CHR 0x0A (drop_bom text) in
     filter (\<lambda>l. js_trim l \<noteq> []) (map drop_cr (butlast ls) @ [last ls]))"

section \<open>Columns\<close>

record csv_columns =
  ix_sku :: "nat option"
  ix_name :: "nat option"
  ix_desc :: "nat option"
  ix_cat :: "nat option"
  ix_catId :: "nat option"
  ix_price :: "nat option"
  ix_cur :: "nat option"
  ix_stock :: "nat option"
  ix_moq :: "nat option"
  ix_weight :: "nat option"
  ix_vat :: "nat option"
  ix_img :: "nat option"

definition header_of :: "string \<Rightarrow> string" where
  "header_of h = filter (\<lambda>c. \<not> js_space c) (js_lower (js_trim h))"

fun position :: "string \<Rightarrow> string list \<Rightarrow> nat option" where
  "position x [] = None"
| "position x (y # ys) = (if x = y then Some 0 else map_option Suc (position x ys))"

text \<open>The column of the first name that is there.\<close>

fun column_of :: "string list \<Rightarrow> string list \<Rightarrow> nat option" where
  "column_of headers [] = None"
| "column_of headers (n # ns) = (case position n headers of Some i \<Rightarrow> Some i | None \<Rightarrow> column_of headers ns)"

definition csv_columns_of :: "string list \<Rightarrow> csv_columns" where
  "csv_columns_of headers =
    (let ix = column_of headers in
     \<lparr>ix_sku = ix [''sku'', utf8 [208, 176, 209, 128, 209, 130, 208, 184, 208, 186, 209, 131, 208, 187]],
      ix_name = ix [''name'', ''title'', utf8 [208, 189, 208, 176, 208, 183, 208, 178, 208, 176, 208, 189, 208, 184, 208, 181], utf8 [208, 189, 208, 176, 208, 184, 208, 188, 208, 181, 208, 189, 208, 190, 208, 178, 208, 176, 208, 189, 208, 184, 208, 181]],
      ix_desc = ix [''description'', ''desc'', utf8 [208, 190, 208, 191, 208, 184, 209, 129, 208, 176, 208, 189, 208, 184, 208, 181]],
      ix_cat = ix [''category'', ''categoryname'', utf8 [208, 186, 208, 176, 209, 130, 208, 181, 208, 179, 208, 190, 209, 128, 208, 184, 209, 143]],
      ix_catId = ix [''categoryid''],
      ix_price = ix [''price'', ''pricecents'', utf8 [209, 134, 208, 181, 208, 189, 208, 176]],
      ix_cur = ix [''currency'', utf8 [208, 178, 208, 176, 208, 187, 209, 142, 209, 130, 208, 176]],
      ix_stock = ix [''stock'', ''qty'', ''quantity'', utf8 [208, 190, 209, 129, 209, 130, 208, 176, 209, 130, 208, 190, 208, 186]],
      ix_moq = ix [''moq''],
      ix_weight = ix [''weight'', utf8 [208, 178, 208, 181, 209, 129]],
      ix_vat = ix [''vat'', ''nds'', utf8 [208, 189, 208, 180, 209, 129]],
      ix_img = ix [''image'', ''imageurl'', ''images'', utf8 [209, 132, 208, 190, 209, 130, 208, 190]]\<rparr>)"

section \<open>Rows\<close>

record import_error =
  ie_row :: nat
  ie_field :: string
  ie_message :: string

record import_row =
  ir_row :: nat
  ir_sku :: "string option"
  ir_name :: string
  ir_description :: "string option"
  ir_category :: "string option"
  ir_categoryId :: "string option"
  ir_priceCents :: int
  ir_currency :: string
  ir_stock :: int
  ir_moq :: "int option"
  ir_weight :: "string option"
  ir_vat :: "string option"
  ir_imageUrl :: "string option"
  ir_valid :: bool

definition csv_get :: "string list \<Rightarrow> nat option \<Rightarrow> string" where
  "csv_get cols i = (case i of Some k \<Rightarrow> if k < length cols then js_trim (cols ! k) else [] | None \<Rightarrow> [])"

definition non_empty :: "string \<Rightarrow> string option" where
  "non_empty t = (if t = [] then None else Some t)"

fun replace_first :: "char \<Rightarrow> char \<Rightarrow> string \<Rightarrow> string" where
  "replace_first a b [] = []"
| "replace_first a b (c # cs) = (if c = a then b # cs else c # replace_first a b cs)"

text \<open>The cents of a price and the message where it is refused; \<open>isCents\<close>: the column is called \<open>pricecents\<close>.\<close>

definition csv_price :: "bool \<Rightarrow> string \<Rightarrow> int \<times> string option" where
  "csv_price isCents raw =
    (if raw = [] then (0, Some ''required'')
     else case js_Number (replace_first CHR '','' CHR ''.'' raw) of
       Finite n \<Rightarrow>
         if dbl_less_int n 0 then (0, Some ''must be positive number'')
         else
           let major = js_round (fl_mul n (dbl_of_int 100)); dot = CHR ''.'' \<in> set raw; comma = CHR '','' \<in> set raw in
           if isCents \<or> (is_integer n \<and> \<not> dbl_less_int n 100 \<and> \<not> dot) then
             ((if dot \<or> comma then major else if isCents then js_round n else major), None)
           else (major, None)
     | _ \<Rightarrow> (0, Some ''must be positive number''))"

definition csv_description :: "string option \<Rightarrow> int option \<Rightarrow> string option \<Rightarrow> string option \<Rightarrow> string option" where
  "csv_description desc moq weight vat =
    or_else (Some (join_with [CHR 0x0A] (filter (\<lambda>t. t \<noteq> [])
      [(case desc of Some d \<Rightarrow> d | None \<Rightarrow> []),
       (case moq of Some m \<Rightarrow> if m = 0 then [] else ''MOQ: '' @ dec m | None \<Rightarrow> []),
       (case weight of Some w \<Rightarrow> ''Weight: '' @ w | None \<Rightarrow> []),
       (case vat of Some v \<Rightarrow> ''VAT: '' @ v | None \<Rightarrow> [])]))) None"

text \<open>One line: the row and its errors, given the SKUs of the shop and of the lines before.\<close>

definition parse_row :: "csv_columns \<Rightarrow> bool \<Rightarrow> string list \<Rightarrow> nat \<Rightarrow> string \<Rightarrow> import_row \<times> import_error list" where
  "parse_row ix isCents skus rowNum line =
    (let get = csv_get (splitCsvLine line);
         sku = non_empty (get (ix_sku ix));
         name = (if get (ix_name ix) \<noteq> [] then get (ix_name ix) else case sku of Some k \<Rightarrow> k | None \<Rightarrow> []);
         stockRaw = (if get (ix_stock ix) \<noteq> [] then get (ix_stock ix) else ''0'');
         moqRaw = get (ix_moq ix);
         moq = (if moqRaw = [] then None else js_parseInt moqRaw);
         weight = non_empty (get (ix_weight ix));
         vat = non_empty (get (ix_vat ix));
         imageUrl = non_empty (js_trim (takeWhile (\<lambda>c. c \<noteq> CHR '','' \<and> c \<noteq> CHR '';'') (get (ix_img ix))));
         (priceCents, priceError) = csv_price isCents (get (ix_price ix));
         stock = max 0 (case js_parseInt stockRaw of Some n \<Rightarrow> n | None \<Rightarrow> 0);
         err = (\<lambda>f m. \<lparr>ie_row = rowNum, ie_field = f, ie_message = m\<rparr>);
         errors =
           (if name = [] then [err ''name'' ''required''] else []) @
           (case priceError of Some m \<Rightarrow> [err ''price'' m] | None \<Rightarrow> []) @
           (if js_parseInt stockRaw = None then [err ''stock'' ''must be integer''] else []) @
           (case sku of Some k \<Rightarrow> if k \<in> set skus then [err ''sku'' ''duplicate SKU''] else [] | None \<Rightarrow> [])
     in (\<lparr>ir_row = rowNum, ir_sku = sku, ir_name = name,
          ir_description = csv_description (non_empty (get (ix_desc ix))) moq weight vat,
          ir_category = non_empty (get (ix_cat ix)), ir_categoryId = non_empty (get (ix_catId ix)),
          ir_priceCents = priceCents,
          ir_currency = js_upper (if get (ix_cur ix) \<noteq> [] then get (ix_cur ix) else ''USD''),
          ir_stock = stock, ir_moq = moq, ir_weight = weight, ir_vat = vat, ir_imageUrl = imageUrl,
          ir_valid = (errors = [])\<rparr>, errors))"

fun parse_rows ::
  "csv_columns \<Rightarrow> bool \<Rightarrow> string list \<Rightarrow> nat \<Rightarrow> string list \<Rightarrow> import_row list \<times> import_error list" where
  "parse_rows ix isCents skus rowNum [] = ([], [])"
| "parse_rows ix isCents skus rowNum (l # ls) =
    (let (r, es) = parse_row ix isCents skus rowNum l;
         (rs, es') = parse_rows ix isCents (case ir_sku r of Some k \<Rightarrow> k # skus | None \<Rightarrow> skus) (Suc rowNum) ls
     in (r # rs, es @ es'))"

definition parse_csv :: "string list \<Rightarrow> string \<Rightarrow> import_row list \<times> import_error list" where
  "parse_csv existingSkus text =
    (case csv_lines text of
      head # l # ls \<Rightarrow>
        let headers = map header_of (splitCsvLine head); ix = csv_columns_of headers;
            isCents = (case ix_price ix of Some i \<Rightarrow> headers ! i = ''pricecents'' | None \<Rightarrow> False) in
        if ix_name ix = None \<and> ix_sku ix = None then
          ([], [\<lparr>ie_row = 1, ie_field = ''header'', ie_message = ''CSV must have name or sku column''\<rparr>])
        else parse_rows ix isCents existingSkus 2 (l # ls)
    | _ \<Rightarrow> ([], [\<lparr>ie_row = 0, ie_field = ''file'', ie_message = ''CSV has no data rows''\<rparr>]))"

end
