(* ===== verification/Products.thy ===== *)
theory Products
  imports Csv
begin

text \<open>
  A merchant's own products: \<open>merchant/merchant-products.service.ts\<close>, with the import of a file in three
  requests (upload, preview, confirm) and the worker that makes the products
  (\<open>jobs/processors/import.processor.ts\<close> calls it without a tenant).  The disk is a map from storage keys to
  texts.
\<close>

record import_job =
  ij_id :: string
  ij_shopId :: string
  ij_fileName :: string
  ij_storageKey :: string
  ij_status :: string
  ij_totalRows :: "nat option"
  ij_validRows :: "nat option"
  ij_errorRows :: "nat option"
  ij_errors :: "import_error list"
  ij_preview :: "import_row list"
  ij_completedAt :: "int option"

record product_db = catalog_db +
  import_jobs :: "import_job list"
  disk :: "string \<rightharpoonup> string"

text \<open>A checked upload: its text, the safe original name and the name made for the storage.\<close>

record csv_upload =
  cu_text :: string
  cu_safeName :: string
  cu_storageName :: string

definition merchant_shop :: "jwt_payload \<Rightarrow> exn + string" where
  "merchant_shop user =
    (if user_role user \<noteq> MERCHANT \<or> \<not> truthy (user_shopId user) then Inl (Forbidden ''Merchant shop required'')
     else Inr (the (user_shopId user)))"

definition assertOwnProduct :: "string option \<Rightarrow> string \<Rightarrow> string \<Rightarrow> ('z inv_db_scheme, product_row) act" where
  "assertOwnProduct ctx shopId productId =
    bindA (product_by ctx (\<lambda>p. p_id p = productId \<and> p_shopId p = shopId)) (\<lambda>p.
    someA p (NotFound ''Product not found''))"

section \<open>Slugs\<close>

text \<open>Up to twenty candidates, the base and the base with a number.\<close>

fun free_candidate :: "(string \<Rightarrow> bool) \<Rightarrow> string \<Rightarrow> nat \<Rightarrow> nat \<Rightarrow> string option" where
  "free_candidate taken base i 0 = None"
| "free_candidate taken base i (Suc n) =
    (if taken (numbered base i) then free_candidate taken base (Suc i) n else Some (numbered base i))"

definition uniqueSlug :: "string option \<Rightarrow> string \<Rightarrow> string \<Rightarrow> string option \<Rightarrow> ('z inv_db_scheme, string) act" where
  "uniqueSlug ctx shopId base excludeId =
    bindA (if base \<noteq> [] then returnA base else bindA newIdA (\<lambda>u. returnA (''product-'' @ take 8 u))) (\<lambda>slug.
    bindA (getsA (\<lambda>s. free_candidate (\<lambda>c. list_ex (\<lambda>p. in_tenant ctx p \<and> p_shopId p = shopId \<and> p_slug p = c \<and>
        (truthy excludeId \<longrightarrow> Some (p_id p) \<noteq> excludeId)) (products s)) slug 0 20)) (\<lambda>r.
    case r of
      Some c \<Rightarrow> returnA c
    | None \<Rightarrow> bindA newIdA (\<lambda>u. returnA (slug @ ''-'' @ take 6 u))))"

section \<open>Lists\<close>

record own_list =
  ol_status :: "string option"
  ol_search :: "string option"
  ol_cursor :: "string option"
  ol_limit :: "int option"

definition own_where :: "string option \<Rightarrow> string \<Rightarrow> own_list \<Rightarrow> product_row \<Rightarrow> bool" where
  "own_where ctx shopId q p \<longleftrightarrow>
    in_tenant ctx p \<and> p_shopId p = shopId \<and>
    (case Option.bind (or_else (ol_status q) None) product_status_of of Some st \<Rightarrow> p_status p = st | None \<Rightarrow> True) \<and>
    (case or_else (map_option js_trim (ol_search q)) None of
       None \<Rightarrow> True
     | Some t \<Rightarrow> contains_ci t (Some (p_name p)) \<or> contains_ci t (p_sku p) \<or> contains_ci t (p_description p)) \<and>
    (case or_else (ol_cursor q) None of None \<Rightarrow> True | Some c \<Rightarrow> p_id p < c)"

definition list_own :: "string option \<Rightarrow> jwt_payload \<Rightarrow> own_list \<Rightarrow> ('z catalog_db_scheme, product_page) act" where
  "list_own ctx user q =
    bindA (sumA (merchant_shop user)) (\<lambda>shopId.
    let limit = nat (min (max (case ol_limit q of None \<Rightarrow> 20 | Some n \<Rightarrow> n) 1) 100) in
    bindA (getsA (\<lambda>s. take (limit + 1) (sort_by (\<lambda>a b. id_before b a) (filter (own_where ctx shopId q) (products s))))) (\<lambda>items.
    let hasMore = limit < length items; page = (if hasMore then take limit items else items) in
    returnA \<lparr>pg_items = page, pg_nextCursor = (if hasMore then Some (p_id (last page)) else None), pg_hasMore = hasMore\<rparr>))"

definition getOwn :: "string option \<Rightarrow> jwt_payload \<Rightarrow> string \<Rightarrow> ('z catalog_db_scheme, product_row \<times> stock_row list) act" where
  "getOwn ctx user i =
    bindA (sumA (merchant_shop user)) (\<lambda>shopId.
    bindA (assertOwnProduct ctx shopId i) (\<lambda>p.
    getsA (\<lambda>s. (p, filter (\<lambda>r. ps_productId r = i) (stocks s)))))"

section \<open>Edits\<close>

definition sku_taken :: "string option \<Rightarrow> string \<Rightarrow> string \<Rightarrow> string option \<Rightarrow> 'z inv_db_scheme \<Rightarrow> bool" where
  "sku_taken ctx shopId sku excludeId s \<longleftrightarrow>
    list_ex (\<lambda>p. in_tenant ctx p \<and> p_shopId p = shopId \<and> p_sku p = Some sku \<and> Some (p_id p) \<noteq> excludeId) (products s)"

definition create_own :: "catalog_env \<Rightarrow> jwt_payload \<Rightarrow> create_product \<Rightarrow> ('z catalog_db_scheme, product_row) act" where
  "create_own env user dto =
    bindA (sumA (merchant_shop user)) (\<lambda>shopId.
    bindA (shop_by_id (ce_tenant env) shopId) (\<lambda>found.
    bindA (someA found (NotFound ''Shop not found'')) (\<lambda>shop.
    let st0 = (case cp_status dto of None \<Rightarrow> PR_DRAFT | Some x \<Rightarrow> x);
        st = (if st0 = PR_ACTIVE \<and> sh_status shop \<noteq> SH_ACTIVE then PR_DRAFT else st0) in
    bindA (uniqueSlug (ce_tenant env) shopId
        (case trim_or_null (cp_slug dto) of Some t \<Rightarrow> t | None \<Rightarrow> slugify 80 (cp_name dto)) None) (\<lambda>slug.
    thenA (guardA (0 \<le> resolvePriceCents (cp_price dto) (cp_priceCents dto)) (BadRequest ''Invalid price''))
    (thenA (if truthy (cp_sku dto)
       then bindA (getsA (sku_taken (ce_tenant env) shopId (js_trim (the (cp_sku dto))) None)) (\<lambda>dup.
         guardA (\<not> dup) (BadRequest ''SKU already exists''))
       else returnA ())
    (bindA newIdA (\<lambda>i.
     let p = new_product (ce_tenant env) i shopId slug st dto (trim_or_null (cp_sku dto)) in
     thenA (insert_product p)
     (thenA (auditA (Some (sub user)) ''CREATE'' ''Product'' (Some i))
     (thenA (whenA (p_status p = PR_ACTIVE) (scheduleSearchIndex env i SA_index True))
       (returnA p))))))))))"

definition own_patch :: "string option \<Rightarrow> update_product \<Rightarrow> product_row \<Rightarrow> product_row" where
  "own_patch slug dto p = p\<lparr>
    p_name := (case up_name dto of None \<Rightarrow> p_name p | Some n \<Rightarrow> js_trim n),
    p_slug := upd slug (p_slug p),
    p_description := upd (up_description dto) (p_description p),
    p_sku := (case up_sku dto of None \<Rightarrow> p_sku p | Some k \<Rightarrow> trim_or_null k),
    p_gtin := upd (up_gtin dto) (p_gtin p),
    p_currency := upd (up_currency dto) (p_currency p),
    p_stock := (case up_stock dto of None \<Rightarrow> p_stock p | Some n \<Rightarrow> max 0 n),
    p_categoryId := (case up_categoryId dto of None \<Rightarrow> p_categoryId p | Some c \<Rightarrow> or_else c None),
    p_status := upd (up_status dto) (p_status p),
    p_imageUrl := (case up_imageUrl dto of None \<Rightarrow> p_imageUrl p | Some u \<Rightarrow> trim_or_null u),
    p_priceCents := new_price dto p,
    p_brand := (case up_brand dto of None \<Rightarrow> p_brand p | Some b \<Rightarrow> trim_or_null b),
    p_moq := (case up_moq dto of None \<Rightarrow> p_moq p | Some n \<Rightarrow> max 1 n)\<rparr>"

definition update_own :: "catalog_env \<Rightarrow> jwt_payload \<Rightarrow> string \<Rightarrow> update_product \<Rightarrow> ('z catalog_db_scheme, product_row) act" where
  "update_own env user i dto =
    bindA (sumA (merchant_shop user)) (\<lambda>shopId.
    bindA (assertOwnProduct (ce_tenant env) shopId i) (\<lambda>existing.
    bindA (case up_slug dto of
        None \<Rightarrow> returnA None
      | Some t \<Rightarrow> bindA (uniqueSlug (ce_tenant env) shopId (js_trim t) (Some i)) (\<lambda>c. returnA (Some c))) (\<lambda>slug.
    thenA (case trim_or_null (upd (up_sku dto) None) of
        None \<Rightarrow> returnA ()
      | Some k \<Rightarrow> bindA (getsA (sku_taken (ce_tenant env) shopId k (Some i))) (\<lambda>dup. guardA (\<not> dup) (BadRequest ''SKU already exists'')))
    (bindA (write_product (ce_tenant env) i (own_patch slug dto)) (\<lambda>p.
     thenA (auditA (Some (sub user)) ''UPDATE'' ''Product'' (Some i))
     (thenA (scheduleSearchIndex env i (if p_status p = PR_ACTIVE then SA_index else SA_remove) True)
       (returnA p)))))))"

definition duplicate_own :: "catalog_env \<Rightarrow> jwt_payload \<Rightarrow> string \<Rightarrow> ('z catalog_db_scheme, product_row) act" where
  "duplicate_own env user i =
    bindA (sumA (merchant_shop user)) (\<lambda>shopId.
    bindA (assertOwnProduct (ce_tenant env) shopId i) (\<lambda>src.
    bindA (uniqueSlug (ce_tenant env) shopId (p_slug src @ ''-copy'') None) (\<lambda>slug.
    bindA (if truthy (p_sku src) then bindA newIdA (\<lambda>u. returnA (Some (the (p_sku src) @ ''-COPY-'' @ take 4 u))) else returnA None) (\<lambda>sku.
    bindA newIdA (\<lambda>j.
    let p = src\<lparr>p_id := j, p_shopId := shopId, p_name := p_name src @ '' (copy)'', p_slug := slug, p_sku := sku,
      p_reservedStock := 0, p_brand := None, p_moq := 1, p_status := PR_DRAFT, p_tenantId := or_else (ce_tenant env) None\<rparr> in
    thenA (insert_product p)
    (thenA (auditA (Some (sub user)) ''CREATE'' ''Product'' (Some j)) (returnA p)))))))"

definition archive_own :: "catalog_env \<Rightarrow> jwt_payload \<Rightarrow> string \<Rightarrow> ('z catalog_db_scheme, product_row) act" where
  "archive_own env user i =
    bindA (sumA (merchant_shop user)) (\<lambda>shopId.
    bindA (assertOwnProduct (ce_tenant env) shopId i) (\<lambda>existing.
    bindA (write_product (ce_tenant env) i (\<lambda>p. p\<lparr>p_status := PR_ARCHIVED\<rparr>)) (\<lambda>p.
    thenA (scheduleSearchIndex env i SA_remove False)
    (thenA (auditA (Some (sub user)) ''STATUS_CHANGE'' ''Product'' (Some i)) (returnA p)))))"

record bulk_data =
  bd_status :: "product_status option"
  bd_categoryId :: "string option option"
  bd_priceCents :: "int option"
  bd_stock :: "int option"

definition bulk_patch :: "bulk_data \<Rightarrow> product_row \<Rightarrow> product_row" where
  "bulk_patch d p = p\<lparr>
    p_status := upd (bd_status d) (p_status p),
    p_categoryId := upd (bd_categoryId d) (p_categoryId p),
    p_priceCents := upd (bd_priceCents d) (p_priceCents p),
    p_stock := (case bd_stock d of None \<Rightarrow> p_stock p | Some n \<Rightarrow> max 0 n)\<rparr>"

definition bulk_index :: "catalog_env \<Rightarrow> bulk_data \<Rightarrow> string list \<Rightarrow> ('z catalog_db_scheme, unit) act" where
  "bulk_index env d ids =
    (if bd_status d = Some PR_ARCHIVED then forA ids (\<lambda>i. scheduleSearchIndex env i SA_remove False)
     else if bd_status d = Some PR_ACTIVE \<or> bd_priceCents d \<noteq> None \<or> bd_stock d \<noteq> None \<or> bd_categoryId d \<noteq> None
     then forA ids (\<lambda>i. scheduleSearchIndex env i SA_index False)
     else returnA ())"

text \<open>The number of changed rows and their ids.\<close>

definition bulkUpdate :: "catalog_env \<Rightarrow> jwt_payload \<Rightarrow> string list \<Rightarrow> bulk_data \<Rightarrow> ('z catalog_db_scheme, nat \<times> string list) act" where
  "bulkUpdate env user ids d =
    bindA (sumA (merchant_shop user)) (\<lambda>shopId.
    thenA (guardA (ids \<noteq> []) (BadRequest ''ids required''))
    (thenA (guardA (length ids \<le> 200) (BadRequest ''Max 200 ids''))
    (bindA (getsA (\<lambda>s. map p_id (filter (\<lambda>p. in_tenant (ce_tenant env) p \<and> p_shopId p = shopId \<and> p_id p \<in> set ids) (products s)))) (\<lambda>ownedIds.
     if ownedIds = [] then returnA (0, [])
     else
       thenA (guardA (case bd_priceCents d of Some c \<Rightarrow> 0 \<le> c | None \<Rightarrow> True) (BadRequest ''Invalid price''))
       (thenA (guardA (bd_status d \<noteq> None \<or> bd_categoryId d \<noteq> None \<or> bd_priceCents d \<noteq> None \<or> bd_stock d \<noteq> None)
          (BadRequest ''No fields to update''))
       (thenA (bindA (getsA (category_known (upd (bd_categoryId d) None))) (\<lambda>known. guardA known (PrismaError ''P2003'')))
       (bindA (getsA (\<lambda>s. count_where (\<lambda>p. in_tenant (ce_tenant env) p \<and> p_shopId p = shopId \<and> p_id p \<in> set ownedIds) (products s))) (\<lambda>n.
        thenA (updateManyA products_update (\<lambda>p. in_tenant (ce_tenant env) p \<and> p_shopId p = shopId \<and> p_id p \<in> set ownedIds) (bulk_patch d))
        (thenA (auditA (Some (sub user)) ''UPDATE'' ''Product'' (Some (hd ownedIds)))
        (thenA (bulk_index env d ownedIds) (returnA (n, ownedIds))))))))))))"

section \<open>Import\<close>

definition own_job :: "string \<Rightarrow> string \<Rightarrow> ('z product_db_scheme, import_job) act" where
  "own_job shopId jobId =
    bindA (getsA (\<lambda>s. find_row (\<lambda>j. ij_id j = jobId \<and> ij_shopId j = shopId) (import_jobs s))) (\<lambda>found.
    someA found (NotFound ''Import job not found''))"

definition update_job :: "string \<Rightarrow> (import_job \<Rightarrow> import_job) \<Rightarrow> ('z product_db_scheme, unit) act" where
  "update_job jobId f = updateA import_jobs import_jobs_update (\<lambda>j. ij_id j = jobId) f"

text \<open>\<open>parseAndValidateCsv\<close>: the SKUs of the shop are read from the database.\<close>

definition parseAndValidateCsv ::
  "string option \<Rightarrow> string \<Rightarrow> string \<Rightarrow> ('z inv_db_scheme, import_row list \<times> import_error list) act" where
  "parseAndValidateCsv ctx shopId text =
    getsA (\<lambda>s. parse_csv (List.map_filter p_sku (filter (\<lambda>p. in_tenant ctx p \<and> p_shopId p = shopId \<and> truthy (p_sku p)) (products s))) text)"

record import_preview =
  iv_jobId :: string
  iv_total :: nat
  iv_valid :: nat
  iv_errors :: "import_error list"
  iv_preview :: "import_row list"

definition previewImport :: "string option \<Rightarrow> jwt_payload \<Rightarrow> string \<Rightarrow> ('z product_db_scheme, import_preview) act" where
  "previewImport ctx user jobId =
    bindA (sumA (merchant_shop user)) (\<lambda>shopId.
    bindA (own_job shopId jobId) (\<lambda>job.
    bindA (getsA (\<lambda>s. disk s (ij_storageKey job))) (\<lambda>file.
    bindA (someA file (BadRequest ''Import file missing on disk'')) (\<lambda>text.
    bindA (parseAndValidateCsv ctx shopId text) (\<lambda>(rows, errors).
    let valid = length (filter ir_valid rows) in
    thenA (update_job jobId (\<lambda>j. j\<lparr>ij_status := ''validated'', ij_totalRows := Some (length rows),
        ij_validRows := Some valid, ij_errorRows := Some (length errors), ij_errors := errors,
        ij_preview := take 20 rows\<rparr>))
      (returnA \<lparr>iv_jobId = jobId, iv_total = length rows, iv_valid = valid, iv_errors = errors,
        iv_preview = take 20 rows\<rparr>))))))"

text \<open>\<open>safe\<close> is the result of the check of the file.\<close>

definition ends_with :: "string \<Rightarrow> string \<Rightarrow> bool" where
  "ends_with suf t \<longleftrightarrow> js_starts (rev suf) (rev t)"

definition uploadImport :: "string option \<Rightarrow> jwt_payload \<Rightarrow> exn + csv_upload \<Rightarrow> ('z product_db_scheme, import_preview) act" where
  "uploadImport ctx user safe =
    bindA (sumA (merchant_shop user)) (\<lambda>shopId.
    bindA (sumA safe) (\<lambda>f.
    bindA (if ends_with ''.csv'' (cu_storageName f) \<or> ends_with ''.txt'' (cu_storageName f) then returnA (cu_storageName f)
           else bindA newIdA (\<lambda>u. returnA (u @ ''.csv''))) (\<lambda>name.
    let storageKey = ''imports/'' @ shopId @ ''/'' @ name in
    thenA (modifyA (disk_update (\<lambda>d. d(storageKey \<mapsto> cu_text f))))
    (bindA newIdA (\<lambda>i.
     thenA (createUniqueA import_jobs import_jobs_update (\<lambda>j. ij_id j = i)
       \<lparr>ij_id = i, ij_shopId = shopId, ij_fileName = cu_safeName f, ij_storageKey = storageKey, ij_status = ''uploaded'',
        ij_totalRows = None, ij_validRows = None, ij_errorRows = None, ij_errors = [], ij_preview = [],
        ij_completedAt = None\<rparr>)
       (previewImport ctx user i))))))"

text \<open>The category a row names, by id or by its name or slug.\<close>

definition row_category :: "import_row \<Rightarrow> 'z catalog_db_scheme \<Rightarrow> string option" where
  "row_category row s =
    (if truthy (ir_categoryId row) then ir_categoryId row
     else case or_else (ir_category row) None of
       None \<Rightarrow> None
     | Some t \<Rightarrow> map_option cg_id
         (find_row (\<lambda>c. js_lower (cg_name c) = js_lower t \<or> cg_slug c = slugify 80 t) (categories s)))"

definition import_one :: "catalog_env \<Rightarrow> string \<Rightarrow> import_row \<Rightarrow> ('z catalog_db_scheme, string) act" where
  "import_one env shopId row =
    bindA (getsA (row_category row)) (\<lambda>categoryId.
    bindA (uniqueSlug (ce_tenant env) shopId
        (slugify 80 (if ir_name row \<noteq> [] then ir_name row
          else case or_else (ir_sku row) None of Some k \<Rightarrow> k | None \<Rightarrow> ''import-'' @ dec (int (ir_row row)))) None) (\<lambda>slug.
    bindA newIdA (\<lambda>i.
    let p = \<lparr>p_id = i, p_shopId = shopId, p_categoryId = categoryId, p_name = ir_name row, p_priceCents = ir_priceCents row,
      p_stock = ir_stock row, p_reservedStock = 0, p_status = PR_ACTIVE, p_slug = slug,
      p_description = or_else (ir_description row) None, p_imageUrl = or_else (ir_imageUrl row) None,
      p_sku = or_else (ir_sku row) None, p_gtin = None, p_brand = None, p_moq = 1,
      p_currency = (if ir_currency row \<noteq> [] then ir_currency row else ''USD''), p_tenantId = or_else (ce_tenant env) None\<rparr> in
    thenA (insert_product p)
    (thenA (scheduleSearchIndex env i SA_index True) (returnA i)))))"

text \<open>The loop over the valid rows: a row that fails is reported and skipped.\<close>

fun import_all :: "catalog_env \<Rightarrow> string \<Rightarrow> import_row list \<Rightarrow> ('z catalog_db_scheme, string list \<times> import_error list) act" where
  "import_all env shopId [] = returnA ([], [])"
| "import_all env shopId (r # rs) =
    bindA (catchA (bindA (import_one env shopId r) (\<lambda>i. returnA ([i], [])))
        (\<lambda>e. returnA ([], [\<lparr>ie_row = ir_row r, ie_field = ''_create'', ie_message = exn_message e\<rparr>]))) (\<lambda>(ids, errs).
    bindA (import_all env shopId rs) (\<lambda>(ids', errs').
    returnA (ids @ ids', errs @ errs')))"

record import_result =
  im_status :: string
  im_created :: nat
  im_skipped :: nat
  im_errors :: "import_error list"
  im_productIds :: "string list"

definition process_file :: "catalog_env \<Rightarrow> import_job \<Rightarrow> string option \<Rightarrow> ('z product_db_scheme, import_result) act" where
  "process_file env job actorId =
    bindA (getsA (\<lambda>s. disk s (ij_storageKey job))) (\<lambda>file.
    case file of
      None \<Rightarrow>
        thenA (update_job (ij_id job) (\<lambda>j. j\<lparr>ij_status := ''failed'',
          ij_errors := [\<lparr>ie_row = 0, ie_field = ''file'', ie_message = ''Import file missing on disk''\<rparr>]\<rparr>))
          (throwA (BadRequest ''Import file missing on disk''))
    | Some text \<Rightarrow>
        bindA (parseAndValidateCsv (ce_tenant env) (ij_shopId job) text) (\<lambda>(rows, errors).
        thenA (update_job (ij_id job) (\<lambda>j. j\<lparr>ij_status := ''processing''\<rparr>))
        (bindA (import_all env (ij_shopId job) (filter ir_valid rows)) (\<lambda>(ids, errs).
         bindA (getsA clock) (\<lambda>now.
         thenA (update_job (ij_id job) (\<lambda>j. j\<lparr>ij_status := ''completed'', ij_completedAt := Some now,
           ij_totalRows := Some (length rows), ij_validRows := Some (length (filter ir_valid rows)),
           ij_errorRows := Some (length (errors @ errs)), ij_errors := errors @ errs\<rparr>))
         (thenA (auditA actorId ''CREATE'' ''ProductImportJob'' (Some (ij_id job)))
           (returnA \<lparr>im_status = ''completed'', im_created = length ids, im_skipped = length rows - length ids,
             im_errors = errors @ errs, im_productIds = ids\<rparr>)))))))"

definition nothing_imported :: import_result where
  "nothing_imported = \<lparr>im_status = ''completed'', im_created = 0, im_skipped = 0, im_errors = [], im_productIds = []\<rparr>"

definition processImportJob :: "catalog_env \<Rightarrow> string \<Rightarrow> string option \<Rightarrow> ('z product_db_scheme, import_result) act" where
  "processImportJob env jobId actorId =
    bindA (getsA (\<lambda>s. find_row (\<lambda>j. ij_id j = jobId) (import_jobs s))) (\<lambda>found.
    bindA (someA found (NotFound ''Import job not found'')) (\<lambda>job.
    if ij_status job = ''completed'' then returnA nothing_imported else process_file env job actorId))"

datatype import_reply = Imported import_result | ImportRunning | ImportQueued string

text \<open>\<open>importQueue\<close>: the id of the queued job, or nothing when the queue is offline.\<close>

definition confirmImport ::
  "catalog_env \<Rightarrow> (string \<Rightarrow> string option) \<Rightarrow> jwt_payload \<Rightarrow> string \<Rightarrow> ('z product_db_scheme, import_reply) act" where
  "confirmImport env importQueue user jobId =
    bindA (sumA (merchant_shop user)) (\<lambda>shopId.
    bindA (own_job shopId jobId) (\<lambda>job.
    if ij_status job = ''completed'' then
      returnA (Imported nothing_imported)
    else if ij_status job = ''processing'' then returnA ImportRunning
    else
      thenA (guardA (ij_status job = ''validated'' \<or> ij_status job = ''uploaded'') (BadRequest ''Import job cannot be confirmed''))
      (thenA (update_job jobId (\<lambda>j. j\<lparr>ij_status := ''queued''\<rparr>))
      (case importQueue jobId of
        Some q \<Rightarrow> returnA (ImportQueued q)
      | None \<Rightarrow> bindA (processImportJob env jobId (Some (sub user))) (\<lambda>r. returnA (Imported r))))))"

definition getImportJob :: "jwt_payload \<Rightarrow> string \<Rightarrow> ('z product_db_scheme, import_job) act" where
  "getImportJob user jobId = bindA (sumA (merchant_shop user)) (\<lambda>shopId. own_job shopId jobId)"

end
