(* ===== verification/Product_Facts.thy ===== *)
theory Product_Facts
  imports Products
begin

text \<open>
  What every operation on products keeps: ids and the pair of shop and slug stay unique, import jobs keep
  their ids, and a merchant's operations leave the products of all other shops alone.
\<close>

definition shelf :: "string \<Rightarrow> product_row list \<Rightarrow> 'z product_db_scheme \<Rightarrow> bool" where
  "shelf sh others s \<longleftrightarrow>
    distinct (map p_id (products s)) \<and> distinct (map (\<lambda>p. (p_shopId p, p_slug p)) (products s)) \<and>
    distinct (map ij_id (import_jobs s)) \<and> filter (\<lambda>p. p_shopId p \<noteq> sh) (products s) = others"

lemma shelf_cong:
  "products s' = products s \<Longrightarrow> import_jobs s' = import_jobs s \<Longrightarrow> shelf sh R s \<Longrightarrow> shelf sh R s'"
  by (simp add: shelf_def)

section \<open>The stock an editor writes\<close>

text \<open>
  The three editors of a product leave its stock or write a number that is not negative; the older route
  relies on the validation of its body (\<open>Min(0)\<close> of the DTO).  This is the step \<open>EditStock\<close> of
  \<open>Inventory_Facts\<close>.
\<close>

lemma nat_written: "(0::int) \<le> k \<Longrightarrow> \<exists>n. k = int n"
  by (rule exI [of _ "nat k"]) simp

lemma own_patch_stock:
  "p_stock (own_patch slug dto p) = p_stock p \<or> (\<exists>n. p_stock (own_patch slug dto p) = int n)"
  by (cases "up_stock dto") (simp_all add: own_patch_def nat_written)

lemma bulk_patch_stock: "p_stock (bulk_patch d p) = p_stock p \<or> (\<exists>n. p_stock (bulk_patch d p) = int n)"
  by (cases "bd_stock d") (simp_all add: bulk_patch_def nat_written)

lemma product_patch_stock:
  "(\<And>k. up_stock dto = Some k \<Longrightarrow> 0 \<le> k) \<Longrightarrow>
    p_stock (product_patch dto p) = p_stock p \<or> (\<exists>n. p_stock (product_patch dto p) = int n)"
  by (cases "up_stock dto") (simp_all add: product_patch_def upd_def nat_written)

section \<open>Steps that do not touch products\<close>

named_theorems shelf_steps \<open>steps of the catalogue that keep the shelf\<close>

lemma shelf_newId [shelf_steps]: "keeps (shelf sh R) newIdA"
  by (auto simp: keeps_def newIdA_def shelf_def)

lemma shelf_audit [shelf_steps]: "keeps (shelf sh R) (auditA a b c d)"
  by (auto simp: keeps_def auditA_def act_defs shelf_def)

lemma shelf_emit [shelf_steps]: "keeps (shelf sh R) (emitA a b)"
  by (auto simp: keeps_def emitA_def act_defs shelf_def)

lemma shelf_sum [shelf_steps]: "keeps I (sumA r)"
  by (auto simp: keeps_def sumA_def act_defs split: sum.splits)

lemma shelf_search [shelf_steps]: "keeps (shelf sh R) (scheduleSearchIndex env i a b)"
  by (auto simp: keeps_def scheduleSearchIndex_def searchA_def act_defs shelf_def)

lemma shelf_cache [shelf_steps]: "keeps (shelf sh R) (invalidateCatalogCache env)"
  by (auto simp: keeps_def invalidateCatalogCache_def cache_delByPrefix_def act_defs shelf_def)

lemma shelf_deleteImage [shelf_steps]: "keeps (shelf sh R) (deleteImage u)"
  by (auto simp: keeps_def deleteImage_def act_defs shelf_def)

lemma shelf_product_by [shelf_steps]: "keeps I (product_by ctx P)"
  by (simp add: product_by_def keeps_gets)

lemma shelf_own [shelf_steps]: "keeps I (assertOwnProduct ctx shopId i)"
  unfolding assertOwnProduct_def by (intro keeps_bind keeps_some shelf_product_by)

lemma shelf_shop_by [shelf_steps]: "keeps I (shop_by_id ctx i)"
  by (simp add: shop_by_id_def keeps_gets)

lemma shelf_assertWrite [shelf_steps]: "keeps I (assertCanWriteShop u i)"
  by (auto simp: keeps_def assertCanWriteShop_def act_defs)

lemma shelf_slug [shelf_steps]: "keeps (shelf sh R) (uniqueSlug ctx shopId base x)"
  unfolding uniqueSlug_def by (intro keeps_bind keeps_if keeps_option keeps_return keeps_gets shelf_newId)

lemma shelf_own_job [shelf_steps]: "keeps I (own_job sh i)"
  unfolding own_job_def by (intro keeps_bind keeps_some keeps_gets)

lemma shelf_parse [shelf_steps]: "keeps I (parseAndValidateCsv ctx sh t)"
  by (simp add: parseAndValidateCsv_def keeps_gets)

lemma shelf_update_job [shelf_steps]: "(\<And>j. ij_id (f j) = ij_id j) \<Longrightarrow> keeps (shelf sh R) (update_job i f)"
  by (auto simp: keeps_def update_job_def updateA_def shelf_def map_update_where)

lemma shelf_document [shelf_steps]: "keeps (shelf sh R) (createA product_documents_update d)"
  by (auto simp: keeps_def createA_def act_defs shelf_def)

lemma shelf_drop_document [shelf_steps]: "keeps (shelf sh R) (modifyA (product_documents_update f))"
  by (auto simp: keeps_def act_defs shelf_def)

lemma shelf_store [shelf_steps]: "keeps (shelf sh R) (modifyA (disk_update f))"
  by (auto simp: keeps_def act_defs shelf_def)

lemma shelf_new_job [shelf_steps]: "ij_id j = i \<Longrightarrow> keeps (shelf sh R) (createUniqueA import_jobs import_jobs_update (\<lambda>x. ij_id x = i) j)"
  by (auto simp: keeps_def createUniqueA_def createA_def act_defs shelf_def list_ex_iff)

section \<open>Writes of products\<close>

lemma filter_update_other:
  assumes "\<And>x. x \<in> set xs \<Longrightarrow> P x \<Longrightarrow> \<not> Q x \<and> \<not> Q (f x)"
  shows "filter Q (update_where P f xs) = filter Q xs"
  using assms by (induction xs) auto

lemma shelf_insert [shelf_steps]: "p_shopId p = sh \<Longrightarrow> keeps (shelf sh R) (insert_product p)"
  by (auto simp: keeps_def insert_product_def createA_def act_defs shelf_def list_ex_iff product_clash_def image_iff)

lemma distinct_map_update:
  assumes "distinct (map k xs)" "distinct (map (\<lambda>x. i x) xs)"
    and "\<And>x y. x \<in> set xs \<Longrightarrow> P x \<Longrightarrow> y \<in> set xs \<Longrightarrow> \<not> P y \<Longrightarrow> k (f x) \<noteq> k y"
    and "\<And>x y. x \<in> set xs \<Longrightarrow> P x \<Longrightarrow> y \<in> set xs \<Longrightarrow> P y \<Longrightarrow> k (f x) = k (f y) \<Longrightarrow> x = y"
  shows "distinct (map k (update_where P f xs))"
  using assms
proof (induction xs)
  case Nil
  then show ?case by simp
next
  case (Cons a xs)
  have "distinct (map k (update_where P f xs))" using Cons by auto
  moreover have "k (if P a then f a else a) \<notin> k ` set (update_where P f xs)"
  proof
    assume "k (if P a then f a else a) \<in> k ` set (update_where P f xs)"
    then obtain b where b: "b \<in> set xs" "k (if P a then f a else a) = k (if P b then f b else b)"
      by (auto simp: set_update_where)
    have "a \<noteq> b" using b(1) Cons.prems(2) by auto
    have m: "a \<in> set (a # xs)" "b \<in> set (a # xs)" using b(1) by auto
    have "k a \<noteq> k b" using Cons.prems(1) b(1) by auto
    then show False
      using b(2) \<open>a \<noteq> b\<close> Cons.prems(3) [OF m(1) _ m(2)] Cons.prems(3) [OF m(2) _ m(1)] Cons.prems(4) [OF m(1) _ m(2)]
      by (cases "P a"; cases "P b") force+
  qed
  ultimately show ?case by simp
qed

text \<open>
  The write of one row.  An id that is no other shop's is known to be so after the row was found in the shop,
  whatever happens before the write.
\<close>

lemma shelf_own_id:
  assumes "shelf sh R s" "p \<in> set (products s)" "p_shopId p = sh"
  shows "p_id p \<notin> p_id ` set R"
proof
  assume "p_id p \<in> p_id ` set R"
  with assms obtain q where "q \<in> set (products s)" "p_shopId q \<noteq> sh" "p_id q = p_id p"
    by (auto simp: shelf_def)
  with assms distinct_key_eq [of p_id "products s" q p] show False by (auto simp: shelf_def)
qed

lemma shelf_own_row: "shelf sh R s \<Longrightarrow> i \<notin> p_id ` set R \<Longrightarrow> p \<in> set (products s) \<Longrightarrow> p_id p = i \<Longrightarrow> p_shopId p = sh"
  by (auto simp: shelf_def)

lemma shelf_write [shelf_steps]:
  assumes other: "i \<notin> p_id ` set R" and f: "\<And>p. p_id (f p) = p_id p" "\<And>p. p_shopId (f p) = p_shopId p"
  shows "keeps (shelf sh R) (write_product ctx i f)"
proof (rule keepsI)
  fix s r s'
  assume sh: "shelf sh R s" and w: "write_product ctx i f s = (r, s')"
  from sh have d: "distinct (map p_id (products s))" "distinct (map (\<lambda>p. (p_shopId p, p_slug p)) (products s))"
    by (simp_all add: shelf_def)
  show "shelf sh R s'"
  proof (cases r)
    case (Inl e)
    with w sh show ?thesis
      by (auto simp: write_product_def product_by_def act_defs split: option.splits if_splits prod.splits)
  next
    case (Inr q)
    with w obtain p where found: "find_row (\<lambda>p. in_tenant ctx p \<and> p_id p = i) (products s) = Some p"
      and s': "s' = products_update (update_where (\<lambda>q. p_id q = i) f) s"
      and free: "\<not> list_ex (\<lambda>q. p_id q \<noteq> i \<and> product_clash (f p) q) (products s)"
      by (auto simp: write_product_def product_by_def ok_simps)
    have p: "p \<in> set (products s)" "p_id p = i" using find_row_Some [OF found] by auto
    have one: "x = p" if "x \<in> set (products s)" "p_id x = i" for x
      using distinct_key_eq [OF d(1) that(1) p(1)] that(2) p(2) by simp
    have own: "p_shopId p = sh" by (rule shelf_own_row [OF sh other p])
    have "filter (\<lambda>p. p_shopId p \<noteq> sh) (update_where (\<lambda>q. p_id q = i) f (products s)) = filter (\<lambda>p. p_shopId p \<noteq> sh) (products s)"
      by (rule filter_update_other) (use one own f in auto)
    moreover have "distinct (map (\<lambda>p. (p_shopId p, p_slug p)) (update_where (\<lambda>q. p_id q = i) f (products s)))"
      by (rule distinct_map_update [OF d(2) d(1)])
        (use one free f p in \<open>auto simp: list_ex_iff product_clash_def\<close>)
    moreover have "map p_id (update_where (\<lambda>q. p_id q = i) f (products s)) = map p_id (products s)"
      by (rule map_update_where) (rule f)
    ultimately show ?thesis using sh by (simp add: shelf_def s')
  qed
qed

lemma shelf_update_many [shelf_steps]:
  assumes f: "\<And>p. p_id (f p) = p_id p" "\<And>p. p_shopId (f p) = p_shopId p" "\<And>p. p_slug (f p) = p_slug p"
  shows "keeps (shelf sh R) (updateManyA products_update (\<lambda>p. P p \<and> p_shopId p = sh \<and> Q p) f)"
proof -
  have "filter (\<lambda>p. p_shopId p \<noteq> sh) (update_where (\<lambda>p. P p \<and> p_shopId p = sh \<and> Q p) f ps) = filter (\<lambda>p. p_shopId p \<noteq> sh) ps" for ps
    by (rule filter_update_other) (use f in auto)
  then show ?thesis
    using map_update_where [where k = p_id and f = f] map_update_where [where k = "\<lambda>p. (p_shopId p, p_slug p)" and f = f] f
    by (simp add: keeps_def updateManyA_def act_defs shelf_def)
qed

section \<open>Operations\<close>

lemma shelf_assertOwn:
  assumes "\<And>p. i \<notin> p_id ` set R \<Longrightarrow> keeps (shelf sh R) (f p)"
  shows "keeps (shelf sh R) (bindA (assertOwnProduct ctx sh i) f)"
proof (rule keepsI)
  fix s r s'
  assume sh: "shelf sh R s" and run: "bindA (assertOwnProduct ctx sh i) f s = (r, s')"
  show "shelf sh R s'"
  proof (cases "find_row (\<lambda>p. in_tenant ctx p \<and> p_id p = i \<and> p_shopId p = sh) (products s)")
    case None
    with run sh show ?thesis by (auto simp: assertOwnProduct_def product_by_def act_defs)
  next
    case (Some p)
    from find_row_Some [OF Some] have "i \<notin> p_id ` set R" using shelf_own_id [OF sh, of p] by auto
    moreover from run Some have "f p s = (r, s')" by (auto simp: assertOwnProduct_def product_by_def act_defs)
    ultimately show ?thesis using assms sh by (metis keepsD)
  qed
qed

lemma shelf_may_write:
  assumes u: "user_role u = MERCHANT" "user_shopId u = Some sh"
    and m: "\<And>p. i \<notin> p_id ` set R \<Longrightarrow> keeps (shelf sh R) (m p)"
  shows "keeps (shelf sh R) (bindA (product_by ctx (\<lambda>p. p_id p = i)) (\<lambda>found.
    bindA (someA found e) (\<lambda>p. thenA (assertCanWriteShop u (p_shopId p)) (m p))))"
proof (rule keepsI)
  fix s r s'
  assume sh: "shelf sh R s" and run: "bindA (product_by ctx (\<lambda>p. p_id p = i)) (\<lambda>found.
    bindA (someA found e) (\<lambda>p. thenA (assertCanWriteShop u (p_shopId p)) (m p))) s = (r, s')"
  show "shelf sh R s'"
  proof (cases "find_row (\<lambda>p. in_tenant ctx p \<and> p_id p = i) (products s)")
    case None
    with run sh show ?thesis by (auto simp: product_by_def act_defs)
  next
    case (Some p)
    show ?thesis
    proof (cases "p_shopId p = sh")
      case True
      from find_row_Some [OF Some] have "i \<notin> p_id ` set R" using True shelf_own_id [OF sh, of p] by auto
      moreover from run Some True u have "m p s = (r, s')"
        by (auto simp: product_by_def assertCanWriteShop_def is_admin_def act_defs)
      ultimately show ?thesis using m sh by (metis keepsD)
    next
      case False
      with run Some u sh show ?thesis by (auto simp: product_by_def assertCanWriteShop_def is_admin_def act_defs)
    qed
  qed
qed

text \<open>The merchant's own routes take the shop from the caller.\<close>

lemma shelf_merchant:
  assumes "user_shopId u = Some sh" "keeps (shelf sh R) (f sh)"
  shows "keeps (shelf sh R) (bindA (sumA (merchant_shop u)) f)"
  using assms by (auto simp: merchant_shop_def sumA_def act_laws keeps_throw)

lemma shelf_create_own:
  assumes "user_shopId u = Some sh"
  shows "keeps (shelf sh R) (create_own env u dto)"
  unfolding create_own_def Let_def
  by (rule shelf_merchant [OF assms]) (rule shelf_steps keeps_steps | simp add: new_product_def)+

lemma shelf_update_own:
  assumes "user_shopId u = Some sh"
  shows "keeps (shelf sh R) (update_own env u i dto)"
  unfolding update_own_def Let_def
  by (rule shelf_merchant [OF assms], rule shelf_assertOwn) (rule shelf_steps keeps_steps | simp add: own_patch_def)+

lemma shelf_duplicate_own:
  assumes "user_shopId u = Some sh"
  shows "keeps (shelf sh R) (duplicate_own env u i)"
  unfolding duplicate_own_def Let_def
  by (rule shelf_merchant [OF assms]) (rule shelf_steps keeps_steps | simp)+

lemma shelf_archive_own:
  assumes "user_shopId u = Some sh"
  shows "keeps (shelf sh R) (archive_own env u i)"
  unfolding archive_own_def
  by (rule shelf_merchant [OF assms], rule shelf_assertOwn) (rule shelf_steps keeps_steps | simp)+

lemma shelf_bulk:
  assumes "user_shopId u = Some sh"
  shows "keeps (shelf sh R) (bulkUpdate env u ids d)"
  unfolding bulkUpdate_def bulk_index_def Let_def
  by (rule shelf_merchant [OF assms]) (rule shelf_steps keeps_steps | simp add: bulk_patch_def)+

lemma shelf_import_one [shelf_steps]: "keeps (shelf sh R) (import_one env sh r)"
  unfolding import_one_def Let_def by (rule shelf_steps keeps_steps | simp)+

lemma keeps_prod: "(\<And>a b. keeps I (f a b)) \<Longrightarrow> keeps I (case x of (a, b) \<Rightarrow> f a b)"
  by (cases x) simp

lemma shelf_import_all [shelf_steps]: "keeps (shelf sh R) (import_all env sh rs)"
  by (induction rs) (rule keeps_prod shelf_steps keeps_steps | simp)+

lemma shelf_preview [shelf_steps]:
  assumes "user_shopId u = Some sh"
  shows "keeps (shelf sh R) (previewImport ctx u i)"
  unfolding previewImport_def Let_def
  by (rule shelf_merchant [OF assms]) (rule keeps_prod shelf_steps keeps_steps | simp)+

lemma shelf_upload:
  assumes "user_shopId u = Some sh"
  shows "keeps (shelf sh R) (uploadImport ctx u f)"
  unfolding uploadImport_def Let_def
  by (rule shelf_merchant [OF assms]) (rule shelf_preview [OF assms] shelf_steps keeps_steps | simp)+

lemma shelf_updateProduct:
  assumes "user_role u = MERCHANT" "user_shopId u = Some sh"
  shows "keeps (shelf sh R) (updateProduct env u i dto)"
  unfolding updateProduct_def
  by (rule shelf_may_write [OF assms]) (rule shelf_steps keeps_steps | simp add: product_patch_def)+

lemma shelf_deleteProduct:
  assumes "user_role u = MERCHANT" "user_shopId u = Some sh"
  shows "keeps (shelf sh R) (deleteProduct env u i)"
  unfolding deleteProduct_def
  by (rule shelf_may_write [OF assms]) (rule shelf_steps keeps_steps | simp)+

lemma shelf_createProduct:
  assumes "user_role u = MERCHANT" "user_shopId u = Some sh"
  shows "keeps (shelf sh R) (createProduct env u dto)"
proof -
  have "resolveShopIdForWrite u x \<in> {Inr sh, Inl (Forbidden ''Merchant has no shop'')}" for x
    using assms by (auto simp: resolveShopIdForWrite_def)
  then consider "resolveShopIdForWrite u (cp_shopId dto) = Inr sh"
    | "resolveShopIdForWrite u (cp_shopId dto) = Inl (Forbidden ''Merchant has no shop'')" by auto
  then show ?thesis
  proof cases
    case 1
    show ?thesis unfolding createProduct_def Let_def 1
      by (simp add: sumA_def act_laws, (rule shelf_steps keeps_steps | simp add: new_product_def)+)
  next
    case 2
    show ?thesis unfolding createProduct_def 2 by (simp add: sumA_def act_laws keeps_throw)
  qed
qed

lemma shelf_add_document:
  assumes "user_role u = MERCHANT" "user_shopId u = Some sh"
  shows "keeps (shelf sh R) (addProductDocument env i u f n d)"
  unfolding addProductDocument_def Let_def
  by (rule shelf_may_write [OF assms]) (rule keeps_prod shelf_steps keeps_steps | simp)+

lemma shelf_delete_document:
  assumes "user_role u = MERCHANT" "user_shopId u = Some sh"
  shows "keeps (shelf sh R) (deleteProductDocument env i d u)"
  unfolding deleteProductDocument_def
  by (rule shelf_may_write [OF assms]) (rule shelf_steps keeps_steps | simp)+

section \<open>The confirmation of an import\<close>

text \<open>The worker takes the shop from the job.\<close>

lemma shelf_process_file: "ij_shopId j = sh \<Longrightarrow> keeps (shelf sh R) (process_file env j a)"
  unfolding process_file_def by (rule keeps_prod shelf_steps keeps_steps | simp)+

lemma shelf_process:
  assumes sh: "shelf sh R s" and own: "\<And>j. j \<in> set (import_jobs s) \<Longrightarrow> ij_id j = i \<Longrightarrow> ij_shopId j = sh"
    and run: "processImportJob env i a s = (r, s')"
  shows "shelf sh R s'"
proof (cases "find_row (\<lambda>j. ij_id j = i) (import_jobs s)")
  case None
  with run sh show ?thesis by (simp add: processImportJob_def act_defs)
next
  case (Some j)
  from find_row_Some [OF Some] own have j: "ij_shopId j = sh" by auto
  have "processImportJob env i a s = (if ij_status j = ''completed'' then (Inr nothing_imported, s) else process_file env j a s)"
    by (simp add: processImportJob_def act_defs Some)
  with run sh keepsD [OF shelf_process_file [OF j] sh] show ?thesis by (auto split: if_splits)
qed

lemma bind_return_state: "bindA m (\<lambda>x. returnA (g x)) s = (r, s') \<Longrightarrow> \<exists>r0. m s = (r0, s')"
  by (auto simp: bindA_def returnA_def split: prod.splits sum.splits)

lemma own_job_found:
  "find_row (\<lambda>j. ij_id j = i \<and> ij_shopId j = sh) (import_jobs s) = Some j \<Longrightarrow> bindA (own_job sh i) f s = f j s"
  by (simp add: own_job_def act_defs)

lemma shelf_confirm:
  assumes u: "user_shopId u = Some sh"
  shows "keeps (shelf sh R) (confirmImport env q u i)"
  unfolding confirmImport_def
proof (rule shelf_merchant [OF u], rule keepsI, goal_cases)
  case (1 s r s')
  show ?case
  proof (cases "find_row (\<lambda>j. ij_id j = i \<and> ij_shopId j = sh) (import_jobs s)")
    case None
    with 1 show ?thesis by (simp add: own_job_def act_defs)
  next
    case (Some j)
    from find_row_Some [OF Some] have j: "j \<in> set (import_jobs s)" "ij_id j = i" "ij_shopId j = sh" by auto
    define s1 where "s1 = import_jobs_update (update_where (\<lambda>j. ij_id j = i) (\<lambda>j. j\<lparr>ij_status := ''queued''\<rparr>)) s"
    have upd: "update_job i (\<lambda>j. j\<lparr>ij_status := ''queued''\<rparr>) s = (Inr (), s1)"
      using j by (auto simp: update_job_def updateA_def s1_def find_row_None)
    have s1: "shelf sh R s1" using 1(1) by (simp add: shelf_def s1_def map_update_where)
    have own: "ij_shopId x = sh" if "x \<in> set (import_jobs s1)" "ij_id x = i" for x
    proof -
      from that(1) obtain y where y: "y \<in> set (import_jobs s)" and x: "x = (if ij_id y = i then y\<lparr>ij_status := ''queued''\<rparr> else y)"
        unfolding s1_def by (auto simp: set_update_where)
      have "ij_id y = i" "ij_shopId x = ij_shopId y" using that(2) x by (simp_all split: if_splits)
      with y 1(1) j distinct_key_eq [of ij_id "import_jobs s" y j] show ?thesis by (simp add: shelf_def)
    qed
    have queued: "thenA (update_job i (\<lambda>j. j\<lparr>ij_status := ''queued''\<rparr>)) m s = m s1" for m :: "('a product_db_scheme, import_reply) act"
      using upd by (simp add: thenA_def bindA_run)
    note run = 1(2) [unfolded own_job_found [OF Some]]
    have "s' \<in> {s, s1} \<or> (\<exists>r. processImportJob env i (Some (sub u)) s1 = (r, s'))"
    proof (cases "ij_status j = ''completed'' \<or> ij_status j = ''processing'' \<or> ij_status j \<notin> {''validated'', ''uploaded''}")
      case True
      with run show ?thesis by (elim disjE) (simp_all add: act_laws split: if_splits)
    next
      case False
      with run have "thenA (update_job i (\<lambda>j. j\<lparr>ij_status := ''queued''\<rparr>)) (case q i of
          None \<Rightarrow> bindA (processImportJob env i (Some (sub u))) (\<lambda>r. returnA (Imported r))
        | Some q \<Rightarrow> returnA (ImportQueued q)) s = (r, s')"
        by (simp add: act_laws)
      then show ?thesis unfolding queued by (cases "q i") (auto simp: act_laws dest: bind_return_state)
    qed
    with 1(1) s1 shelf_process [OF s1 own] show ?thesis by blast
  qed
qed

section \<open>A merchant's requests\<close>

datatype merchant_op =
    Own_create create_product
  | Own_update string update_product
  | Own_duplicate string
  | Own_archive string
  | Own_bulk "string list" bulk_data
  | Own_upload "exn + csv_upload"
  | Own_preview string
  | Own_confirm string
  | Catalog_create create_product
  | Catalog_update string update_product
  | Catalog_delete string
  | Catalog_add_document string upload_file "string option" string
  | Catalog_delete_document string string

text \<open>The requests of the merchant \<open>u\<close>; the results are not looked at.\<close>

fun merchant_exec ::
  "catalog_env \<Rightarrow> (string \<Rightarrow> string option) \<Rightarrow> jwt_payload \<Rightarrow> merchant_op \<Rightarrow> ('z product_db_scheme, unit) act" where
  "merchant_exec env q u (Own_create d) = thenA (create_own env u d) (returnA ())"
| "merchant_exec env q u (Own_update i d) = thenA (update_own env u i d) (returnA ())"
| "merchant_exec env q u (Own_duplicate i) = thenA (duplicate_own env u i) (returnA ())"
| "merchant_exec env q u (Own_archive i) = thenA (archive_own env u i) (returnA ())"
| "merchant_exec env q u (Own_bulk is d) = thenA (bulkUpdate env u is d) (returnA ())"
| "merchant_exec env q u (Own_upload f) = thenA (uploadImport (ce_tenant env) u f) (returnA ())"
| "merchant_exec env q u (Own_preview i) = thenA (previewImport (ce_tenant env) u i) (returnA ())"
| "merchant_exec env q u (Own_confirm i) = thenA (confirmImport env q u i) (returnA ())"
| "merchant_exec env q u (Catalog_create d) = thenA (createProduct env u d) (returnA ())"
| "merchant_exec env q u (Catalog_update i d) = thenA (updateProduct env u i d) (returnA ())"
| "merchant_exec env q u (Catalog_delete i) = thenA (deleteProduct env u i) (returnA ())"
| "merchant_exec env q u (Catalog_add_document i f n d) = thenA (addProductDocument env i u f n d) (returnA ())"
| "merchant_exec env q u (Catalog_delete_document i d) = thenA (deleteProductDocument env i d u) (returnA ())"

definition merchant_of :: "jwt_payload \<Rightarrow> string \<Rightarrow> jwt_payload" where
  "merchant_of u sh = u\<lparr>user_role := MERCHANT, user_shopId := Some sh\<rparr>"

lemma merchant_exec_keeps: "keeps (shelf sh R) (merchant_exec env q (merchant_of u sh) x)"
proof -
  have m: "user_role (merchant_of u sh) = MERCHANT" "user_shopId (merchant_of u sh) = Some sh"
    by (simp_all add: merchant_of_def)
  note merchant = shelf_create_own [OF m(2)] shelf_update_own [OF m(2)] shelf_duplicate_own [OF m(2)] shelf_archive_own [OF m(2)]
    shelf_bulk [OF m(2)] shelf_upload [OF m(2)] shelf_preview [OF m(2)] shelf_confirm [OF m(2)] shelf_createProduct [OF m]
    shelf_updateProduct [OF m] shelf_deleteProduct [OF m] shelf_add_document [OF m] shelf_delete_document [OF m]
  show ?thesis by (cases x) (simp_all add: keeps_then [OF _ keeps_return] merchant)
qed

interpretation merchant_shelf: invariant_component "merchant_exec env q (merchant_of u sh)" "shelf sh R" for env q u sh R
  by unfold_locales (rule merchant_exec_keeps)

end
