(* ===== verification/Product_Claims.thy ===== *)
theory Product_Claims
  imports Product_Facts Samples "HOL-Library.Sublist"
begin

text \<open>
  Properties of the catalogue and of a merchant's products: who may change what, the pages of a list, the
  cache in front of it, the lines of an import file and what an import makes of them.
\<close>

section \<open>A merchant's reach\<close>

text \<open>
  C26.  A merchant reaches only the products of the own shop.  Whatever requests of the two services a
  merchant sends, in any order, with whatever ids, returning or throwing: the products of all other shops are
  as they were, and ids, and slugs within a shop, stay unique.
\<close>

theorem merchant_edits_own_shop:
  assumes ids: "distinct (map p_id (products s))" "distinct (map (\<lambda>p. (p_shopId p, p_slug p)) (products s))"
      "distinct (map ij_id (import_jobs s))"
    and run: "run_all (merchant_exec env q (merchant_of u sh)) ops s = s'"
  shows "filter (\<lambda>p. p_shopId p \<noteq> sh) (products s') = filter (\<lambda>p. p_shopId p \<noteq> sh) (products s) \<and>
    distinct (map p_id (products s')) \<and> distinct (map (\<lambda>p. (p_shopId p, p_slug p)) (products s'))"
proof -
  have "shelf sh (filter (\<lambda>p. p_shopId p \<noteq> sh) (products s)) s" using ids by (simp add: shelf_def)
  from merchant_shelf.history_keeps [OF this, of env q u ops] run show ?thesis by (simp add: shelf_def)
qed

section \<open>Lines of a file\<close>

fun escape :: "string \<Rightarrow> string" where
  "escape [] = []"
| "escape (c # cs) = (if c = quote then quote # quote # escape cs else c # escape cs)"

definition quoted :: "string \<Rightarrow> string" where
  "quoted f = quote # escape f @ [quote]"

text \<open>How a field may be written: between quotes, or as it is where it has no separator and no quote.\<close>

definition spells :: "string \<Rightarrow> string \<Rightarrow> bool" where
  "spells w f \<longleftrightarrow> w = quoted f \<or> (w = f \<and> set f \<inter> {CHR '','', CHR '';'', quote} = {})"

lemma split_quoted:
  "rest = [] \<or> hd rest \<noteq> quote \<Longrightarrow> split_csv True cur (escape f @ quote # rest) = split_csv False (cur @ f) rest"
  by (induction f arbitrary: cur) auto

lemma split_plain:
  "set f \<inter> {CHR '','', CHR '';'', quote} = {} \<Longrightarrow> split_csv False cur (f @ rest) = split_csv False (cur @ f) rest"
  by (induction f arbitrary: cur) auto

lemma split_field:
  "spells w f \<Longrightarrow> rest = [] \<or> hd rest \<noteq> quote \<Longrightarrow> split_csv False [] (w @ rest) = split_csv False f rest"
  using split_plain [of f "[]" rest] split_quoted [of rest "[]" f] by (auto simp: spells_def quoted_def)

text \<open>
  C27.  The scanner of the import reads back what a spreadsheet writes: fields joined with commas or with
  semicolons, each plain or between quotes with its own quotes doubled, are split into exactly these fields.
\<close>

theorem csv_line_roundtrip:
  assumes "fs \<noteq> []" and "list_all2 spells ws fs" and sep: "sep = CHR '','' \<or> sep = CHR '';''"
  shows "splitCsvLine (join_with [sep] ws) = fs"
  using assms(2,1)
proof (induction ws fs rule: list_all2_induct)
  case Nil
  then show ?case by simp
next
  case (Cons w ws f fs)
  show ?case
  proof (cases ws)
    case Nil
    with Cons have "fs = []" by simp
    with Nil Cons(1) split_field [of w f "[]"] show ?thesis by (simp add: splitCsvLine_def)
  next
    case (Cons w2 ws2)
    with Cons.hyps(2) have "fs \<noteq> []" by auto
    have "splitCsvLine (join_with [sep] (w # ws)) = split_csv False [] (w @ sep # join_with [sep] ws)"
      by (simp add: Cons splitCsvLine_def)
    also have "\<dots> = split_csv False f (sep # join_with [sep] ws)"
      by (rule split_field) (use Cons.hyps(1) sep in auto)
    also have "\<dots> = f # splitCsvLine (join_with [sep] ws)"
      using sep by (auto simp: splitCsvLine_def)
    also have "\<dots> = f # fs" using Cons.IH \<open>fs \<noteq> []\<close> by simp
    finally show ?thesis .
  qed
qed

theorem csv_line_roundtrip_witness:
  "splitCsvLine (join_with [CHR '';''] [''A-1'', quoted (''Valve 4'' @ [quote] @ ''; steel'')]) = [''A-1'', (''Valve 4'' @ [quote] @ ''; steel'')]"
  by (rule csv_line_roundtrip) (auto simp: spells_def)

section \<open>Walking a list\<close>

lemma sort_by_id: "sort_by id_before xs = sort_key p_id xs"
proof -
  have "insert_by id_before x ys = insort_key p_id x ys" for x ys
    by (induction ys) (auto simp: id_before_def)
  then show ?thesis by (induction xs) auto
qed

text \<open>The rows of a list in their order; their ids ascend strictly.\<close>

definition in_list :: "(product_row \<Rightarrow> bool) \<Rightarrow> product_row list \<Rightarrow> product_row list" where
  "in_list P ps = sort_by id_before (filter P ps)"

lemma distinct_map_filter': "distinct (map f xs) \<Longrightarrow> distinct (map f (filter P xs))"
  by (induction xs) auto

lemma in_list_sorted:
  assumes "distinct (map p_id ps)"
  shows "sorted (map p_id (in_list P ps))" "distinct (map p_id (in_list P ps))" "set (in_list P ps) = {p \<in> set ps. P p}"
proof -
  from distinct_map_filter' [OF assms] show "distinct (map p_id (in_list P ps))"
    by (simp add: in_list_def sort_by_id distinct_map)
qed (auto simp: in_list_def sort_by_id)

lemma filter_from:
  assumes "sorted (map f xs)" "distinct (map f xs)" "k < length xs"
  shows "filter (\<lambda>x. f (xs ! k) \<le> f x) xs = drop k xs"
proof -
  have s: "f (xs ! i) < f (xs ! j)" if "i < j" "j < length xs" for i j
  proof -
    have "f (xs ! i) \<le> f (xs ! j)" using sorted_nth_mono [OF assms(1), of i j] that by simp
    moreover have "f (xs ! i) \<noteq> f (xs ! j)" using nth_eq_iff_index_eq [OF assms(2), of i j] that by simp
    ultimately show ?thesis by simp
  qed
  have "filter (\<lambda>x. f (xs ! k) \<le> f x) (take k xs) = []"
    using s assms(3) by (auto simp: filter_empty_conv in_set_conv_nth linorder_not_le)
  moreover have "filter (\<lambda>x. f (xs ! k) \<le> f x) (drop k xs) = drop k xs"
  proof (rule filter_True, rule ballI)
    fix x assume "x \<in> set (drop k xs)"
    then obtain j where "j < length xs - k" and x: "x = xs ! (k + j)" by (auto simp: in_set_conv_nth)
    then have "k + j < length xs" by linarith
    with x show "f (xs ! k) \<le> f x" using s [of k "k + j"] by (cases "j = 0") auto
  qed
  ultimately show ?thesis using filter_append [of "\<lambda>x. f (xs ! k) \<le> f x" "take k xs" "drop k xs"] by simp
qed

lemma in_list_from:
  assumes "distinct (map p_id ps)" "k < length (in_list P ps)"
  shows "sort_by id_before (filter (\<lambda>p. P p \<and> p_id (in_list P ps ! k) \<le> p_id p) ps) = drop k (in_list P ps)"
proof -
  have "filter (\<lambda>p. P p \<and> c \<le> p_id p) ps = filter (\<lambda>p. c \<le> p_id p) (filter P ps)" for c
    by (simp add: conj_commute)
  then have "sort_by id_before (filter (\<lambda>p. P p \<and> c \<le> p_id p) ps) = filter (\<lambda>p. c \<le> p_id p) (in_list P ps)" for c
    by (simp only: sort_by_id in_list_def filter_sort)
  then show ?thesis using filter_from [OF in_list_sorted(1,2) [OF assms(1)] assms(2)] by simp
qed

text \<open>The cursor that stands before position \<open>k\<close>.\<close>

definition cursor_at :: "product_row list \<Rightarrow> nat \<Rightarrow> string option" where
  "cursor_at ms k = (if k = 0 then None else Some (p_id (ms ! (k - 1))))"

lemma page_rows_at:
  assumes "distinct (map p_id ps)" "[] \<notin> p_id ` set ps" "k \<le> length (in_list P ps)"
  shows "page_rows P (cursor_at (in_list P ps) k) n ps = take n (drop k (in_list P ps))"
proof (cases k)
  case 0
  then show ?thesis by (simp add: page_rows_def cursor_at_def in_list_def)
next
  case (Suc j)
  let ?c = "p_id (in_list P ps ! j)"
  have j: "j < length (in_list P ps)" using assms(3) Suc by simp
  have m: "in_list P ps ! j \<in> set ps" using nth_mem [OF j] in_list_sorted(3) [OF assms(1), of P] by auto
  then have "?c \<noteq> []" using assms(2) by (metis image_eqI)
  moreover have "list_ex (\<lambda>p. p_id p = ?c) ps" using m by (auto simp: list_ex_iff)
  ultimately show ?thesis
    by (simp add: page_rows_def cursor_at_def Suc or_else_def in_list_from [OF assms(1) j])
qed

text \<open>A client that follows the cursors; the first number bounds the pages it asks for.\<close>

fun walk :: "nat \<Rightarrow> (string option \<Rightarrow> product_page) \<Rightarrow> string option \<Rightarrow> product_row list" where
  "walk 0 f c = []"
| "walk (Suc n) f c = pg_items (f c) @ (case pg_nextCursor (f c) of None \<Rightarrow> [] | Some c' \<Rightarrow> walk n f (Some c'))"

definition page_at :: "catalog_env \<Rightarrow> jwt_payload option \<Rightarrow> list_products \<Rightarrow> 'z catalog_db_scheme \<Rightarrow> string option \<Rightarrow> product_page" where
  "page_at env user dto s c = (case fst (listProducts env user (dto\<lparr>lp_cursor := c\<rparr>) s) of Inr pg \<Rightarrow> pg | Inl e \<Rightarrow> empty_page)"

definition shopless :: "jwt_payload option \<Rightarrow> bool" where
  "shopless user \<longleftrightarrow> (case user of Some u \<Rightarrow> user_role u = MERCHANT \<and> \<not> truthy (user_shopId u) | None \<Rightarrow> False)"

lemma page_at_eq:
  assumes "\<not> ce_redis env" "ce_down env = None" "\<not> shopless user" "lp_limit dto = Some l"
  defines "items c s \<equiv> page_rows (list_where (ce_tenant env) user (dto\<lparr>lp_cursor := c\<rparr>) (shops s)) c (nat l) (products s)"
  shows "page_at env user dto s c =
    (if is_guest user \<and> items c s = [] then fallbackProductList l
     else \<lparr>pg_items = items c s,
       pg_nextCursor = (if int (length (items c s)) = l then Some (p_id (last (items c s))) else None),
       pg_hasMore = truthy (if int (length (items c s)) = l then Some (p_id (last (items c s))) else None)\<rparr>)"
  using assms
  by (auto simp: page_at_def listProducts_def listProductsFromDb_def Let_def catchA_def bindA_def returnA_def getsA_def thenA_def
      whenA_def cache_get_def cache_set_def unless_down_def shopless_def split: option.splits)

lemma list_where_cursor: "list_where ctx user (dto\<lparr>lp_cursor := c\<rparr>) = list_where ctx user dto"
  by (simp add: fun_eq_iff list_where_def)

lemma walk_from:
  assumes env: "\<not> ce_redis env" "ce_down env = None" "\<not> shopless user" "lp_limit dto = Some (int l)" and l: "0 < l"
    and ids: "distinct (map p_id (products s))" "[] \<notin> p_id ` set (products s)"
    and k: "k \<le> length (in_list (list_where (ce_tenant env) user dto (shops s)) (products s))"
      "length (in_list (list_where (ce_tenant env) user dto (shops s)) (products s)) - k < n"
  shows "walk n (page_at env user dto s) (cursor_at (in_list (list_where (ce_tenant env) user dto (shops s)) (products s)) k) =
    drop k (in_list (list_where (ce_tenant env) user dto (shops s)) (products s)) @
    (if is_guest user \<and> l dvd length (in_list (list_where (ce_tenant env) user dto (shops s)) (products s)) - k
     then pg_items (fallbackProductList (int l)) else [])"
  using k
proof (induction n arbitrary: k)
  case 0
  then show ?case by simp
next
  case (Suc n)
  define ms where "ms = in_list (list_where (ce_tenant env) user dto (shops s)) (products s)"
  let ?items = "take l (drop k ms)"
  have page: "page_at env user dto s (cursor_at ms k) =
    (if is_guest user \<and> ?items = [] then fallbackProductList (int l)
     else \<lparr>pg_items = ?items, pg_nextCursor = (if length ?items = l then Some (p_id (last ?items)) else None),
       pg_hasMore = truthy (if length ?items = l then Some (p_id (last ?items)) else None)\<rparr>)"
    unfolding page_at_eq [OF env] list_where_cursor nat_int of_nat_eq_iff ms_def page_rows_at [OF ids Suc.prems(1)]
    by (rule refl)
  consider (over) "k = length ms" | (full) "k + l \<le> length ms" | (part) "k < length ms" "length ms < k + l"
    using Suc.prems(1) unfolding ms_def by linarith
  then show ?case
  proof cases
    case over
    then show ?thesis using l page by (simp add: fallbackProductList_def flip: ms_def)
  next
    case full
    define c where "c = p_id (last ?items)"
    have "last ?items = ms ! (k + l - 1)" using full l by (simp add: last_conv_nth)
    then have c: "cursor_at ms (k + l) = Some c" using l by (simp add: cursor_at_def c_def)
    have rest: "walk n (page_at env user dto s) (Some c) = drop (k + l) ms @
      (if is_guest user \<and> l dvd length ms - (k + l) then pg_items (fallbackProductList (int l)) else [])"
      unfolding c [symmetric] ms_def by (rule Suc.IH) (use full Suc.prems(2) l in \<open>simp_all flip: ms_def\<close>)
    have d: "l dvd length ms - k \<longleftrightarrow> l dvd length ms - (k + l)"
    proof -
      have "length ms - k = length ms - (k + l) + l" using full by simp
      then show ?thesis by (metis dvd_add_left_iff dvd_refl)
    qed
    have split: "drop k ms = ?items @ drop (k + l) ms" by (metis append_take_drop_id drop_drop add.commute)
    have "?items \<noteq> []" "length ?items = l" using full l by auto
    then have "walk (Suc n) (page_at env user dto s) (cursor_at ms k) = ?items @ walk n (page_at env user dto s) (Some c)"
      by (simp add: page c_def)
    also have "\<dots> = drop k ms @ (if is_guest user \<and> l dvd length ms - k then pg_items (fallbackProductList (int l)) else [])"
      unfolding rest d by (simp only: append_assoc [symmetric] split [symmetric])
    finally show ?thesis unfolding ms_def .
  next
    case part
    from part have "\<not> l dvd length ms - k" by (auto dest: dvd_imp_le)
    moreover have "length ms - k \<noteq> l" using part by linarith
    ultimately show ?thesis using part page by (simp flip: ms_def)
  qed
qed

text \<open>
  C28.  Where Redis is off and the database answers, following the cursors of a list that stays as it is gives
  every product the caller may list exactly once, in the order of the ids, and ends (with the cache the first
  page may be another tenant's, \<open>public_page_crosses_tenants\<close>).  But a guest's walk ends with products that
  do not exist wherever the number of matches is a multiple of the page size (zero included): the last, empty
  page is replaced by the list kept for a database that is down.
\<close>

theorem catalog_walk:
  assumes env: "\<not> ce_redis env" "ce_down env = None" "\<not> shopless user" "lp_limit dto = Some (int l)" "0 < l"
    and ids: "distinct (map p_id (products s))" "[] \<notin> p_id ` set (products s)"
    and ms: "ms = in_list (list_where (ce_tenant env) user dto (shops s)) (products s)" "length ms < n"
  shows "walk n (page_at env user dto s) None =
      ms @ (if is_guest user \<and> l dvd length ms then pg_items (fallbackProductList (int l)) else []) \<and>
    sorted (map p_id ms) \<and> distinct (map p_id ms) \<and>
    set ms = {p \<in> set (products s). list_where (ce_tenant env) user dto (shops s) p}"
  using walk_from [OF env ids, of 0 n] ms in_list_sorted [OF ids(1)] by (simp add: cursor_at_def)

section \<open>The cache in front of the list\<close>

text \<open>
  The page of the public list that is put into the cache is one of the tenant that asked first, and until
  it expires every guest of every tenant is given it: the key does not name the tenant.
\<close>

theorem public_page_crosses_tenants:
  assumes env: "ce_redis env" "ce_down env = None" "truthy (ce_tenant env)" and env': "ce_redis env'"
    and key: "public_key u dto = Some k" "public_key u' dto' = Some k" and cold: "redis s k = None"
    and limit: "lp_limit dto = Some l" "1 \<le> l"
    and some: "p \<in> set (products s)" "list_where (ce_tenant env) u dto (shops s) p"
    and first: "listProducts env u dto s = (r, s1)"
    and later: "redis s2 = redis s1" "clock s2 < clock s + 300000"
  shows "\<exists>pg. r = Inr pg \<and> pg_items pg \<noteq> [] \<and> (\<forall>p \<in> set (pg_items pg). p_tenantId p = ce_tenant env) \<and>
    listProducts env' u' dto' s2 = (Inr pg, s2)"
proof -
  define items where "items = take (nat l) (sort_by id_before (filter (list_where (ce_tenant env) u dto (shops s)) (products s)))"
  define pg where "pg = \<lparr>pg_items = items, pg_nextCursor = (if int (length items) = l then Some (p_id (last items)) else None),
    pg_hasMore = truthy (if int (length items) = l then Some (p_id (last items)) else None)\<rparr>"
  have u: "is_guest u" "is_guest u'" "or_else (lp_cursor dto) None = None"
    using key by (auto simp: public_key_def or_else_def split: if_splits)
  have rows: "page_rows (list_where (ce_tenant env) u dto (shops s)) (lp_cursor dto) (nat l) (products s) = items"
    by (simp add: page_rows_def u items_def)
  have "p \<in> set (sort_by id_before (filter (list_where (ce_tenant env) u dto (shops s)) (products s)))"
    using some by (simp add: sort_by_id)
  then have ne: "items \<noteq> []" using limit(2) by (auto simp: items_def)
  have shop: "\<not> (case u of Some u \<Rightarrow> user_role u = MERCHANT \<and> \<not> truthy (user_shopId u) | None \<Rightarrow> False)"
    using u(1) by (auto simp: is_guest_def split: option.splits)
  have "listProducts env u dto s = (Inr pg, redis_update (\<lambda>m. m(k \<mapsto> (CachedPage pg, clock s + 300000))) s)"
    using ne shop rows
    by (simp add: listProducts_def listProductsFromDb_def Let_def key(1) limit(1) cache_get_def cold env unless_down_def cache_set_def
        act_defs pg_def)
  with first have r: "r = Inr pg" "redis s1 k = Some (CachedPage pg, clock s + 300000)" by auto
  have "set items \<subseteq> {p. list_where (ce_tenant env) u dto (shops s) p}"
    by (auto simp: items_def sort_by_id dest: in_set_takeD)
  then have "\<forall>p \<in> set (pg_items pg). p_tenantId p = ce_tenant env"
    using env(3) by (auto simp: pg_def list_where_def in_tenant_def)
  moreover have "listProducts env' u' dto' s2 = (Inr pg, s2)"
    using ne r(2) later by (simp add: listProducts_def listProductsFromDb_def Let_def key(2) cache_get_def env' act_defs pg_def)
  ultimately show ?thesis using r(1) ne by (auto simp: pg_def)
qed

section \<open>What an import makes\<close>

lemma round_even_nonneg: "0 \<le> n \<Longrightarrow> 0 < d \<Longrightarrow> 0 \<le> round_even n d"
  by (simp add: round_even_def Let_def pos_imp_zdiv_nonneg_iff add_nonneg_nonneg)

lemma fl_frac_nonneg: "0 \<le> n \<Longrightarrow> 0 < d \<Longrightarrow> 0 \<le> fst (fl_frac n d)"
  by (auto simp: fl_frac_def fl_pos_def Let_def intro!: round_even_nonneg)

lemma js_round_nonneg: "0 \<le> fst x \<Longrightarrow> 0 \<le> js_round x"
  by (simp add: js_round_def pos_imp_zdiv_nonneg_iff)

lemma csv_price_nonneg: "0 \<le> fst (csv_price isCents raw)"
  by (auto simp: csv_price_def Let_def dbl_less_int_def fl_mul_def dbl_of_int_def
      intro!: js_round_nonneg fl_frac_nonneg split: js_number.splits)

lemma parse_row_row:
  "0 \<le> ir_priceCents (fst (parse_row ix c skus n l))" "0 \<le> ir_stock (fst (parse_row ix c skus n l))"
  "ir_valid (fst (parse_row ix c skus n l)) \<Longrightarrow> ir_sku (fst (parse_row ix c skus n l)) = Some k \<Longrightarrow> k \<notin> set skus"
  using csv_price_nonneg [of c "csv_get (splitCsvLine l) (ix_price ix)"]
  by (auto simp: parse_row_def Let_def case_prod_beta split: option.splits)

text \<open>The valid rows of a file carry SKUs that are new to the shop and to each other.\<close>

definition fresh_rows :: "string list \<Rightarrow> import_row list \<Rightarrow> bool" where
  "fresh_rows skus rows \<longleftrightarrow>
    (\<forall>r \<in> set rows. 0 \<le> ir_priceCents r \<and> 0 \<le> ir_stock r) \<and>
    (\<forall>r \<in> set rows. \<forall>k. ir_sku r = Some k \<longrightarrow> k \<notin> set skus) \<and> distinct (List.map_filter ir_sku rows)"

lemma map_filter_simps':
  "List.map_filter f [] = []"
  "List.map_filter f (x # xs) = (case f x of None \<Rightarrow> List.map_filter f xs | Some y \<Rightarrow> y # List.map_filter f xs)"
  by (auto simp: List.map_filter_def split: option.splits)

lemma in_map_filter': "y \<in> set (List.map_filter f xs) \<longleftrightarrow> (\<exists>x \<in> set xs. f x = Some y)"
  by (force simp: List.map_filter_def)

lemma parse_rows_fresh: "fresh_rows skus (filter ir_valid (fst (parse_rows ix c skus n ls)))"
proof (induction ls arbitrary: skus n)
  case Nil
  then show ?case by (simp add: fresh_rows_def map_filter_simps')
next
  case (Cons l ls)
  define r where "r = fst (parse_row ix c skus n l)"
  define skus' where "skus' = (case ir_sku r of Some k \<Rightarrow> k # skus | None \<Rightarrow> skus)"
  define rs where "rs = filter ir_valid (fst (parse_rows ix c skus' (Suc n) ls))"
  have rows: "filter ir_valid (fst (parse_rows ix c skus n (l # ls))) = (if ir_valid r then r # rs else rs)"
    by (simp add: case_prod_beta Let_def rs_def skus'_def r_def)
  have rs: "fresh_rows skus' rs" unfolding rs_def by (rule Cons.IH)
  then have "fresh_rows skus rs" by (auto simp: fresh_rows_def skus'_def split: option.splits)
  moreover have "fresh_rows skus (r # rs)" if "ir_valid r"
    using \<open>fresh_rows skus rs\<close> rs that parse_row_row [of ix c skus n l]
    by (auto simp: fresh_rows_def map_filter_simps' in_map_filter' skus'_def simp flip: r_def split: option.splits)
  ultimately show ?case unfolding rows by simp
qed

lemma parse_csv_fresh: "fresh_rows skus (filter ir_valid (fst (parse_csv skus text)))"
proof -
  have "fresh_rows skus []" by (simp add: fresh_rows_def map_filter_simps')
  then show ?thesis
    by (auto simp: parse_csv_def Let_def parse_rows_fresh simp del: parse_rows.simps split: list.splits option.splits)
qed

text \<open>The product a row becomes.\<close>

definition made_from :: "catalog_env \<Rightarrow> string \<Rightarrow> 'z catalog_db_scheme \<Rightarrow> import_row \<Rightarrow> product_row \<Rightarrow> bool" where
  "made_from env sh s r p \<longleftrightarrow> p_shopId p = sh \<and> p_status p = PR_ACTIVE \<and> p_name p = ir_name r \<and> p_priceCents p = ir_priceCents r \<and>
    p_stock p = ir_stock r \<and> p_reservedStock p = 0 \<and> p_sku p = or_else (ir_sku r) None \<and> p_categoryId p = row_category r s \<and>
    p_currency p = (if ir_currency r \<noteq> [] then ir_currency r else ''USD'') \<and> p_description p = or_else (ir_description r) None \<and>
    p_imageUrl p = or_else (ir_imageUrl r) None \<and> p_tenantId p = or_else (ce_tenant env) None"

text \<open>
  The only reasons for which the database refuses the product of a row: its category does not exist, an id
  of the supply is in use, the shop has a product of another tenant, or all twenty addresses that are
  tried for some base are taken.
\<close>

definition row_refused :: "catalog_env \<Rightarrow> string \<Rightarrow> 'z catalog_db_scheme \<Rightarrow> product_row list \<Rightarrow> import_row \<Rightarrow> bool" where
  "row_refused env sh s t r \<longleftrightarrow> \<not> category_known (row_category r s) s \<or>
    \<not> inj (id_supply s) \<or> (\<exists>n \<ge> next_id s. id_supply s n \<in> p_id ` set (products s)) \<or>
    (\<exists>q \<in> set t. p_shopId q = sh \<and> \<not> in_tenant (ce_tenant env) q) \<or>
    (\<exists>b. \<forall>k < 20. \<exists>q \<in> set t. p_shopId q = sh \<and> p_slug q = numbered b k)"

lemma row_refused_mono: "row_refused env sh s t r \<Longrightarrow> set t \<subseteq> set t' \<Longrightarrow> row_refused env sh s t' r"
  unfolding row_refused_def by (elim disjE) blast+

text \<open>What has been written since the import began.\<close>

definition grown :: "'z catalog_db_scheme \<Rightarrow> 'z catalog_db_scheme \<Rightarrow> bool" where
  "grown s0 s \<longleftrightarrow> id_supply s = id_supply s0 \<and> categories s = categories s0 \<and> next_id s0 \<le> next_id s \<and>
    (\<forall>q \<in> set (products s). q \<in> set (products s0) \<or> (\<exists>n. n < next_id s \<and> p_id q = id_supply s0 n))"

lemma free_candidate_taken: "free_candidate taken b i n = None \<Longrightarrow> k < n \<Longrightarrow> taken (numbered b (i + k))"
proof (induction taken b i n arbitrary: k rule: free_candidate.induct)
  case (2 taken base i n)
  then show ?case by (cases k) (auto split: if_splits)
qed simp

lemma free_candidate_free: "free_candidate taken b i n = Some c \<Longrightarrow> \<not> taken c"
  by (induction taken b i n rule: free_candidate.induct) (auto split: if_splits)

lemma uniqueSlug_run:
  fixes s :: "'z catalog_db_scheme"
  assumes "uniqueSlug ctx sh base None s = (x, s')"
  shows "\<exists>slug k. x = Inr slug \<and> s' = s\<lparr>next_id := next_id s + k\<rparr> \<and>
    (list_ex (\<lambda>q. in_tenant ctx q \<and> p_shopId q = sh \<and> p_slug q = slug) (products s) \<longrightarrow>
      (\<exists>b. \<forall>k < 20. list_ex (\<lambda>q. in_tenant ctx q \<and> p_shopId q = sh \<and> p_slug q = numbered b k) (products s)))"
proof -
  let ?taken = "\<lambda>c. list_ex (\<lambda>q. in_tenant ctx q \<and> p_shopId q = sh \<and> p_slug q = c) (products s)"
  obtain b k where b: "uniqueSlug ctx sh base None s = (case free_candidate ?taken b 0 20 of
      Some c \<Rightarrow> (Inr c, s\<lparr>next_id := next_id s + k\<rparr>)
    | None \<Rightarrow> (Inr (b @ ''-'' @ take 6 (id_supply s (next_id s + k))), s\<lparr>next_id := next_id s + Suc k\<rparr>))"
  proof (cases "base = []")
    case True
    then have "uniqueSlug ctx sh base None s = (case free_candidate ?taken (''product-'' @ take 8 (id_supply s (next_id s))) 0 20 of
        Some c \<Rightarrow> (Inr c, s\<lparr>next_id := next_id s + 1\<rparr>)
      | None \<Rightarrow> (Inr ((''product-'' @ take 8 (id_supply s (next_id s))) @ ''-'' @ take 6 (id_supply s (next_id s + 1))),
          s\<lparr>next_id := next_id s + Suc 1\<rparr>))"
      by (simp add: uniqueSlug_def act_defs newIdA_def truthy_def split: option.splits)
    then show ?thesis by (rule that)
  next
    case False
    then have "uniqueSlug ctx sh base None s = (case free_candidate ?taken base 0 20 of
        Some c \<Rightarrow> (Inr c, s\<lparr>next_id := next_id s + 0\<rparr>)
      | None \<Rightarrow> (Inr (base @ ''-'' @ take 6 (id_supply s (next_id s + 0))), s\<lparr>next_id := next_id s + Suc 0\<rparr>))"
      by (simp add: uniqueSlug_def act_defs newIdA_def truthy_def split: option.splits)
    then show ?thesis by (rule that)
  qed
  show ?thesis
  proof (cases "free_candidate ?taken b 0 20")
    case None
    have "\<forall>k < 20. ?taken (numbered b k)" using free_candidate_taken [OF None] by simp
    moreover from None b assms have "x = Inr (b @ ''-'' @ take 6 (id_supply s (next_id s + k)))" "s' = s\<lparr>next_id := next_id s + Suc k\<rparr>"
      by simp_all
    ultimately show ?thesis by blast
  next
    case (Some c)
    with b assms have "x = Inr c" "s' = s\<lparr>next_id := next_id s + k\<rparr>" by simp_all
    with free_candidate_free [OF Some] show ?thesis by blast
  qed
qed

lemma row_category_cong: "categories s' = categories s \<Longrightarrow> row_category r s' = row_category r s"
  by (simp add: row_category_def cong: option.case_cong)

lemma category_known_cong: "categories s' = categories s \<Longrightarrow> category_known c s' = category_known c s"
  by (simp add: category_known_def cong: option.case_cong)

lemma import_one_run:
  fixes s0 s :: "'z catalog_db_scheme"
  assumes run: "import_one env sh r s = (res, s')" and g: "grown s0 s"
  shows "grown s0 s' \<and> (case res of
      Inl e \<Rightarrow> products s' = products s \<and> row_refused env sh s0 (products s) r
    | Inr i \<Rightarrow> \<exists>p. products s' = products s @ [p] \<and> p_id p = i \<and> made_from env sh s0 r p)"
proof -
  define base where "base = slugify 80 (if ir_name r \<noteq> [] then ir_name r
    else case or_else (ir_sku r) None of Some k \<Rightarrow> k | None \<Rightarrow> ''import-'' @ dec (int (ir_row r)))"
  have same: "id_supply s = id_supply s0" "categories s = categories s0" "next_id s0 \<le> next_id s" using g by (auto simp: grown_def)
  obtain x s1 where u: "uniqueSlug (ce_tenant env) sh base None s = (x, s1)" by fastforce
  from uniqueSlug_run [OF u] obtain slug k where x: "x = Inr slug" "s1 = s\<lparr>next_id := next_id s + k\<rparr>"
    and taken: "list_ex (\<lambda>q. in_tenant (ce_tenant env) q \<and> p_shopId q = sh \<and> p_slug q = slug) (products s) \<Longrightarrow>
      \<exists>b. \<forall>k < 20. list_ex (\<lambda>q. in_tenant (ce_tenant env) q \<and> p_shopId q = sh \<and> p_slug q = numbered b k) (products s)" by blast
  define n where "n = next_id s + k"
  define p where "p = \<lparr>p_id = id_supply s0 n, p_shopId = sh, p_categoryId = row_category r s0, p_name = ir_name r,
      p_priceCents = ir_priceCents r, p_stock = ir_stock r, p_reservedStock = 0, p_status = PR_ACTIVE, p_slug = slug,
      p_description = or_else (ir_description r) None, p_imageUrl = or_else (ir_imageUrl r) None,
      p_sku = or_else (ir_sku r) None, p_gtin = None, p_brand = None, p_moq = 1,
      p_currency = (if ir_currency r \<noteq> [] then ir_currency r else ''USD''), p_tenantId = or_else (ce_tenant env) None\<rparr>"
  define s2 where "s2 = s\<lparr>next_id := Suc n\<rparr>"
  have cat: "row_category r s = row_category r s0" by (rule row_category_cong [OF same(2)])
  have new: "newIdA s1 = (Inr (id_supply s0 n), s2)"
    by (simp add: newIdA_def act_defs x(2) s2_def n_def same(1))
  have rest: "(res, s') = thenA (insert_product p) (thenA (scheduleSearchIndex env (id_supply s0 n) SA_index True) (returnA (id_supply s0 n))) s2"
    using run unfolding import_one_def bindA_gets cat base_def [symmetric] bindA_run [where m = "uniqueSlug (ce_tenant env) sh base None", OF u [unfolded x(1)]]
      bindA_run [where m = newIdA, OF new] Let_def
    by (simp only: p_def)
  have known: "category_known c s2 = category_known c s0" for c
    by (rule category_known_cong) (simp add: s2_def same(2))
  have sel: "products s2 = products s" "id_supply s2 = id_supply s" "categories s2 = categories s" "next_id s2 = Suc n"
    by (simp_all add: s2_def)
  have "m < next_id s \<Longrightarrow> m < Suc n" for m by (simp add: n_def)
  moreover have "next_id s0 \<le> Suc n" using same(3) by (simp add: n_def)
  ultimately have "grown s0 s2" using g unfolding grown_def sel by blast
  with sel have s2: "products s2 = products s" "grown s0 s2" by simp_all
  have cases: "(list_ex (product_clash p) (products s) \<or> \<not> category_known (p_categoryId p) s0) \<and> (\<exists>e. res = Inl e) \<and> s' = s2 \<or>
      (\<exists>c. res = Inr (id_supply s0 n) \<and> s' = search_calls_update c (products_update (\<lambda>t. t @ [p]) s2))"
    using rest s2(1) known by (auto simp: insert_product_def act_defs createA_def scheduleSearchIndex_def searchA_def split: if_splits)
  from cases consider (refuse) e where
      "list_ex (product_clash p) (products s) \<or> \<not> category_known (p_categoryId p) s0" "res = Inl e" "s' = s2"
    | (added) c where "res = Inr (id_supply s0 n)" "s' = search_calls_update c (products_update (\<lambda>t. t @ [p]) s2)"
    by blast
  then show ?thesis
  proof cases
    case refuse
    note no = refuse(1) and e = refuse(2,3)
    have "row_refused env sh s0 (products s) r"
      using no
    proof
      assume "\<not> category_known (p_categoryId p) s0"
      then show ?thesis by (simp add: p_def row_refused_def)
    next
      assume "list_ex (product_clash p) (products s)"
      then obtain q where q: "q \<in> set (products s)" "p_id q = id_supply s0 n \<or> p_shopId q = sh \<and> p_slug q = slug"
        by (auto simp: list_ex_iff product_clash_def p_def)
      show ?thesis
        using q(2)
      proof
        assume qid: "p_id q = id_supply s0 n"
        from g q(1) have "q \<in> set (products s0) \<or> (\<exists>m. m < next_id s \<and> p_id q = id_supply s0 m)" by (simp add: grown_def)
        moreover have "next_id s0 \<le> n" using same(3) by (simp add: n_def)
        moreover have "id_supply s0 n \<in> p_id ` set (products s0)" if "q \<in> set (products s0)" using that qid by force
        moreover have "\<not> inj (id_supply s0)" if "m < next_id s" "p_id q = id_supply s0 m" for m
          using that qid by (auto simp: n_def dest: injD)
        ultimately show ?thesis unfolding row_refused_def by blast
      next
        assume ps: "p_shopId q = sh \<and> p_slug q = slug"
        show ?thesis
        proof (cases "in_tenant (ce_tenant env) q")
          case True
          with ps q(1) have "list_ex (\<lambda>q. in_tenant (ce_tenant env) q \<and> p_shopId q = sh \<and> p_slug q = slug) (products s)"
            by (auto simp: list_ex_iff)
          from taken [OF this] show ?thesis unfolding row_refused_def list_ex_iff by blast
        next
          case False
          with ps q(1) show ?thesis unfolding row_refused_def by blast
        qed
      qed
    qed
    with e s2 show ?thesis by simp
  next
    case added
    note e = added
    have "grown s0 s'" using s2(2) unfolding grown_def by (auto simp: e s2_def p_def)
    moreover have "made_from env sh s0 r p" by (simp add: made_from_def p_def)
    ultimately show ?thesis using s2(1) by (simp add: e) (simp add: p_def)
  qed
qed

text \<open>The rows that were kept, and the reports of the others.\<close>

definition kept :: "import_row list \<Rightarrow> exn option list \<Rightarrow> import_row list" where
  "kept rows es = map fst (filter (\<lambda>(r, e). e = None) (zip rows es))"

definition reports :: "import_row list \<Rightarrow> exn option list \<Rightarrow> import_error list" where
  "reports rows es = concat (map (\<lambda>(r, e). case e of None \<Rightarrow> []
    | Some x \<Rightarrow> [\<lparr>ie_row = ir_row r, ie_field = ''_create'', ie_message = exn_message x\<rparr>]) (zip rows es))"

lemma import_all_run:
  fixes s0 s :: "'z catalog_db_scheme"
  shows "import_all env sh rs s = (res, s') \<Longrightarrow> grown s0 s \<Longrightarrow>
    \<exists>es new. length es = length rs \<and> res = Inr (map p_id new, reports rs es) \<and> products s' = products s @ new \<and>
      list_all2 (made_from env sh s0) (kept rs es) new \<and>
      (\<forall>(r, e) \<in> set (zip rs es). e \<noteq> None \<longrightarrow> row_refused env sh s0 (products s') r)"
proof (induction rs arbitrary: s res s')
  case Nil
  then show ?case by (auto simp: act_defs kept_def reports_def)
next
  case (Cons r rs)
  obtain x s1 where one: "import_one env sh r s = (x, s1)" by fastforce
  obtain y s2 where rest: "import_all env sh rs s1 = (y, s2)" by fastforce
  note step = import_one_run [OF one Cons.prems(2)]
  then have g: "grown s0 s1" by blast
  from Cons.IH [OF rest g] obtain es new where ih: "length es = length rs" "y = Inr (map p_id new, reports rs es)"
    "products s2 = products s1 @ new" "list_all2 (made_from env sh s0) (kept rs es) new"
    "\<forall>(r, e) \<in> set (zip rs es). e \<noteq> None \<longrightarrow> row_refused env sh s0 (products s2) r" by blast
  show ?case
  proof (cases x)
    case (Inl e)
    with step have s1: "products s1 = products s" and ref: "row_refused env sh s0 (products s) r" by auto
    from one rest ih(2) Inl Cons.prems(1) have "res = Inr (map p_id new, reports (r # rs) (Some e # es))" "s' = s2"
      by (auto simp: act_defs reports_def)
    moreover have "row_refused env sh s0 (products s2) r" by (rule row_refused_mono [OF ref]) (simp add: ih(3) s1)
    moreover have "kept (r # rs) (Some e # es) = kept rs es" by (simp add: kept_def)
    ultimately show ?thesis using ih s1 by (intro exI [of _ "Some e # es"] exI [of _ new]) auto
  next
    case (Inr i)
    with step obtain p where p: "products s1 = products s @ [p]" "p_id p = i" "made_from env sh s0 r p" by auto
    from one rest ih(2) Inr Cons.prems(1) p(2) have "res = Inr (map p_id (p # new), reports (r # rs) (None # es))" "s' = s2"
      by (auto simp: act_defs reports_def)
    moreover have "kept (r # rs) (None # es) = r # kept rs es" by (simp add: kept_def)
    ultimately show ?thesis using ih p by (intro exI [of _ "None # es"] exI [of _ "p # new"]) auto
  qed
qed

lemma kept_subseq: "subseq (kept rs es) rs"
  unfolding kept_def by (induction rs es rule: list_induct2') (auto split: if_splits)

lemma fresh_rows_sub: "fresh_rows skus rows \<Longrightarrow> subseq rs rows \<Longrightarrow> fresh_rows skus rs"
proof -
  assume f: "fresh_rows skus rows" and s: "subseq rs rows"
  have "subseq (List.map_filter ir_sku rs) (List.map_filter ir_sku rows)"
    using s by (induction rs rows rule: list_emb.induct) (auto simp: map_filter_simps' split: option.splits)
  with f s show ?thesis
    unfolding fresh_rows_def subseq_conv_nths by (auto dest: in_set_nthsD intro: distinct_nthsI)
qed

lemma made_skus: "list_all2 (made_from env sh s0) rs new \<Longrightarrow> List.map_filter p_sku new = filter (\<lambda>k. k \<noteq> []) (List.map_filter ir_sku rs)"
  by (induction rule: list_all2_induct) (auto simp: map_filter_simps' made_from_def or_else_def truthy_def split: option.splits)

lemma made_ball:
  assumes "list_all2 (made_from env sh s0) rs new" "fresh_rows skus rs" "p \<in> set new"
  shows "p_shopId p = sh" "p_status p = PR_ACTIVE" "0 \<le> p_priceCents p" "0 \<le> p_stock p"
    "p_sku p = Some k \<Longrightarrow> k \<notin> set skus"
proof -
  from assms obtain r where r: "r \<in> set rs" "made_from env sh s0 r p"
    by (metis in_set_conv_nth list_all2_conv_all_nth)
  with assms(2) show "p_shopId p = sh" "p_status p = PR_ACTIVE" "0 \<le> p_priceCents p" "0 \<le> p_stock p"
    by (auto simp: made_from_def fresh_rows_def)
  assume "p_sku p = Some k"
  with r have "ir_sku r = Some k" by (auto simp: made_from_def or_else_def split: if_splits)
  with r(1) assms(2) show "k \<notin> set skus" by (auto simp: fresh_rows_def)
qed

text \<open>
  C29.  An import that runs gives a verdict on every valid row of the file (\<open>es\<close>, a row is written or an
  error is raised), and adds exactly one active product of the job's shop for each row that was written, in
  the order of the file, with that row's name, price, stock, SKU, category and texts (\<open>made_from\<close>).  Prices and
  stocks are not negative, the SKUs are new to the shop and differ.  A valid row is left out only where the
  database refuses its product (\<open>row_refused\<close>), it is reported with its number and the error, and all reports come
  after those of the file's own faults.  Running the job again adds nothing.
\<close>

theorem import_outcome:
  assumes run: "processImportJob env i a s = (Inr r, s')"
    and job: "find_row (\<lambda>j. ij_id j = i) (import_jobs s) = Some j" "ij_status j \<noteq> ''completed''"
    and content: "(rows, faults) = parse_csv (List.map_filter p_sku
      (filter (\<lambda>p. in_tenant (ce_tenant env) p \<and> p_shopId p = ij_shopId j \<and> truthy (p_sku p)) (products s)))
      (the (disk s (ij_storageKey j)))"
  shows "\<exists>new es. products s' = products s @ new \<and> length es = length (filter ir_valid rows) \<and>
    list_all2 (made_from env (ij_shopId j) s) (kept (filter ir_valid rows) es) new \<and>
    (\<forall>(x, e) \<in> set (zip (filter ir_valid rows) es). e \<noteq> None \<longrightarrow> row_refused env (ij_shopId j) s (products s') x) \<and>
    im_productIds r = map p_id new \<and> im_errors r = faults @ reports (filter ir_valid rows) es \<and>
    im_created r = length new \<and> im_created r + im_skipped r = length rows \<and>
    (\<forall>p \<in> set new. p_shopId p = ij_shopId j \<and> p_status p = PR_ACTIVE \<and> 0 \<le> p_priceCents p \<and> 0 \<le> p_stock p) \<and>
    (\<forall>p \<in> set new. truthy (p_sku p) \<longrightarrow>
      (\<forall>q \<in> set (products s). in_tenant (ce_tenant env) q \<and> p_shopId q = ij_shopId j \<longrightarrow> p_sku q \<noteq> p_sku p)) \<and>
    distinct (List.map_filter p_sku new) \<and>
    processImportJob env' i a' s' = (Inr nothing_imported, s')"
proof -
  define skus where "skus = List.map_filter p_sku
    (filter (\<lambda>p. in_tenant (ce_tenant env) p \<and> p_shopId p = ij_shopId j \<and> truthy (p_sku p)) (products s))"
  from job have i: "ij_id j = i" by (auto dest: find_row_Some)
  from run job have run': "process_file env j a s = (Inr r, s')" by (simp add: processImportJob_def act_defs)
  then obtain csv where csv: "disk s (ij_storageKey j) = Some csv"
    by (auto simp: process_file_def ok_simps split: option.splits)
  have pc: "parse_csv skus csv = (rows, faults)" using content csv by (simp add: skus_def)
  define s1 where "s1 = import_jobs_update (update_where (\<lambda>j. ij_id j = i) (\<lambda>j. j\<lparr>ij_status := ''processing''\<rparr>)) s"
  have s1: "products s1 = products s" and g: "grown s s1" by (simp_all add: s1_def grown_def)
  obtain res s2 where all': "import_all env (ij_shopId j) (filter ir_valid rows) s1 = (res, s2)" by fastforce
  from import_all_run [OF all' g] obtain es new where all: "import_all env (ij_shopId j) (filter ir_valid rows) s1 =
        (Inr (map p_id new, reports (filter ir_valid rows) es), s2)"
    and new: "length es = length (filter ir_valid rows)" "products s2 = products s1 @ new"
      "list_all2 (made_from env (ij_shopId j) s) (kept (filter ir_valid rows) es) new"
      "\<forall>(x, e) \<in> set (zip (filter ir_valid rows) es). e \<noteq> None \<longrightarrow> row_refused env (ij_shopId j) s (products s2) x"
    using all' by blast
  have parse: "parseAndValidateCsv (ce_tenant env) (ij_shopId j) csv s = (Inr (rows, faults), s)"
    by (simp add: parseAndValidateCsv_def act_defs skus_def [symmetric] pc)
  have upd: "update_job i (\<lambda>j. j\<lparr>ij_status := ''processing''\<rparr>) s = (Inr (), s1)"
    using job by (simp add: update_job_def updateA_def s1_def)
  from run' have r: "im_created r = length new" "im_skipped r = length rows - length new" "im_productIds r = map p_id new"
      "im_errors r = faults @ reports (filter ir_valid rows) es" and s': "products s' = products s2"
    and fin: "\<exists>x. find_row (\<lambda>j. ij_id j = i) (import_jobs s') = Some x \<and> ij_status x = ''completed''"
    using parse upd all
    by (auto simp: process_file_def csv i bindA_run thenA_def act_laws ok_simps case_prod_beta update_job_def updateA_def
        find_row_update_where dest: find_row_Some split: if_splits)
  have fresh: "fresh_rows skus (kept (filter ir_valid rows) es)"
    by (rule fresh_rows_sub [OF _ kept_subseq]) (use parse_csv_fresh [of skus csv] pc in simp)
  have "length new = length (kept (filter ir_valid rows) es)" using new(3) by (auto dest: list_all2_lengthD)
  also have "\<dots> \<le> length rows" using list_emb_length [OF kept_subseq, of "filter ir_valid rows" es] length_filter_le [of ir_valid rows] by linarith
  finally have "im_created r + im_skipped r = length rows" by (simp add: r)
  moreover have "processImportJob env' i a' s' = (Inr nothing_imported, s')"
  proof -
    from fin obtain x where "find_row (\<lambda>j. ij_id j = i) (import_jobs s') = Some x" "ij_status x = ''completed''" by blast
    then show ?thesis by (simp add: processImportJob_def act_defs)
  qed
  moreover have "distinct (List.map_filter p_sku new)"
    using fresh by (simp add: made_skus [OF new(3)] fresh_rows_def)
  moreover have "p_sku q \<noteq> p_sku p"
    if "p \<in> set new" "truthy (p_sku p)" "q \<in> set (products s)" "in_tenant (ce_tenant env) q" "p_shopId q = ij_shopId j" for p q
  proof
    assume eq: "p_sku q = p_sku p"
    from that(2) have "p_sku p \<noteq> None" by (auto simp: truthy_def split: option.splits)
    then obtain k where k: "p_sku p = Some k" by blast
    have "k \<in> set skus" using that(2-5) eq k by (auto simp: skus_def in_map_filter')
    with made_ball(5) [OF new(3) fresh that(1) k] show False ..
  qed
  moreover have "\<forall>p \<in> set new. p_shopId p = ij_shopId j \<and> p_status p = PR_ACTIVE \<and> 0 \<le> p_priceCents p \<and> 0 \<le> p_stock p"
    using made_ball [OF new(3) fresh] by blast
  moreover have "products s' = products s @ new" using s' s1 new(2) by simp
  ultimately show ?thesis using new r s' by (intro exI [of _ new] exI [of _ es]) auto
qed

section \<open>Examples\<close>

definition demo_catalog :: catalog_env where
  "demo_catalog = \<lparr>ce_tenant = Some ''A'', ce_redis = False, ce_queued = (\<lambda>a i. False), ce_down = None,
    ce_assertSafe = (\<lambda>k f. Inr (uf_mimetype f, ''f'')), ce_upload = (\<lambda>b f d. Inr d)\<rparr>"

definition demo_item :: "string \<Rightarrow> string \<Rightarrow> product_row" where
  "demo_item i sh = (demo_product i 100 5)\<lparr>p_shopId := sh, p_tenantId := Some ''A''\<rparr>"

definition demo_job :: import_job where
  "demo_job = \<lparr>ij_id = ''j'', ij_shopId = ''s1'', ij_fileName = ''f.csv'', ij_storageKey = ''k'', ij_status = ''queued'',
    ij_totalRows = None, ij_validRows = None, ij_errorRows = None, ij_errors = [], ij_preview = [], ij_completedAt = None\<rparr>"

definition demo_shelf :: product_db where
  "demo_shelf = catalog_db.extend (tenant_db.extend (auth_db.extend (bus_db.extend (rfq_db.extend
      (demo_db\<lparr>products := [demo_item ''p1'' ''s1'', demo_item ''p2'' ''s1'', demo_item ''q1'' ''s2'']\<rparr>)
      (bus_db.fields [])) (auth_db.fields [] [])) (tenant_db.fields [] [])) (catalog_db.fields [] [] Map.empty [] []))
    (product_db.fields [demo_job] [''k'' \<mapsto> ''name,price'' @ [CHR 0x0A] @ ''Pump,12.5''])"

lemma demo_shelf_fields:
  "products demo_shelf = [demo_item ''p1'' ''s1'', demo_item ''p2'' ''s1'', demo_item ''q1'' ''s2'']"
  "shops demo_shelf = [demo_shop]" "import_jobs demo_shelf = [demo_job]" "redis demo_shelf = Map.empty" "clock demo_shelf = 1000"
  "disk demo_shelf = [''k'' \<mapsto> ''name,price'' @ [CHR 0x0A] @ ''Pump,12.5'']"
  by (simp_all add: demo_shelf_def rfq_db.defs bus_db.defs auth_db.defs tenant_db.defs catalog_db.defs product_db.defs
      demo_db_def empty_db_def)

lemma demo_item_fields [simp]:
  "p_id (demo_item i sh) = i" "p_shopId (demo_item i sh) = sh" "p_slug (demo_item i sh) = i" "p_status (demo_item i sh) = PR_ACTIVE"
  "p_tenantId (demo_item i sh) = Some ''A''"
  by (simp_all add: demo_item_def demo_product_def)

text \<open>A merchant of \<open>s1\<close> tries to archive a product of \<open>s2\<close> and deletes one of its own.\<close>

theorem merchant_edits_own_shop_witness:
  "\<exists>s'. run_all (merchant_exec demo_catalog (\<lambda>_. None) (merchant_of demo_merchant ''s1''))
      [Own_archive ''q1'', Catalog_delete ''p1'', Own_confirm ''j''] demo_shelf = s' \<and>
    filter (\<lambda>p. p_shopId p \<noteq> ''s1'') (products s') = [demo_item ''q1'' ''s2''] \<and> distinct (map p_id (products s'))"
  using merchant_edits_own_shop [of demo_shelf demo_catalog "\<lambda>_. None" demo_merchant "''s1''"
      "[Own_archive ''q1'', Catalog_delete ''p1'', Own_confirm ''j'']", OF _ _ _ refl]
  by (simp add: demo_shelf_fields del: run_all.simps)

text \<open>Two products, pages of one: the guest gets both and then one that does not exist.\<close>

theorem catalog_walk_witness:
  "walk 3 (page_at demo_catalog None \<lparr>lp_cursor = None, lp_limit = Some 1, lp_categoryId = None, lp_search = None, lp_status = None\<rparr>
      demo_shelf) None = [demo_item ''p1'' ''s1'', demo_item ''p2'' ''s1'', hd FALLBACK_PRODUCTS]"
proof -
  let ?d = "\<lparr>lp_cursor = None, lp_limit = Some 1, lp_categoryId = None, lp_search = None, lp_status = None\<rparr>"
  have ms: "[demo_item ''p1'' ''s1'', demo_item ''p2'' ''s1''] =
    in_list (list_where (ce_tenant demo_catalog) None ?d (shops demo_shelf)) (products demo_shelf)"
    by (simp add: in_list_def demo_shelf_fields list_where_def in_tenant_def demo_catalog_def is_guest_def demo_shop_def id_before_def)
  have "pg_items (fallbackProductList 1) = [hd FALLBACK_PRODUCTS]"
    by (simp add: fallbackProductList_def FALLBACK_PRODUCTS_def)
  with catalog_walk [OF _ _ _ _ _ _ _ ms, of 1 3] show ?thesis
    by (simp add: demo_catalog_def shopless_def demo_shelf_fields is_guest_def)
qed

theorem public_page_crosses_tenants_witness:
  "\<exists>pg s1. listProducts (demo_catalog\<lparr>ce_redis := True\<rparr>) None \<lparr>lp_cursor = None, lp_limit = Some 1, lp_categoryId = None, lp_search = None, lp_status = None\<rparr>
      demo_shelf = (Inr pg, s1) \<and> pg_items pg \<noteq> [] \<and>
    listProducts (demo_catalog\<lparr>ce_redis := True, ce_tenant := Some ''B''\<rparr>) None
      \<lparr>lp_cursor = None, lp_limit = Some 1, lp_categoryId = None, lp_search = None, lp_status = None\<rparr> s1 = (Inr pg, s1)"
proof -
  let ?d = "\<lparr>lp_cursor = None, lp_limit = Some 1, lp_categoryId = None, lp_search = None, lp_status = None\<rparr>"
  let ?e = "demo_catalog\<lparr>ce_redis := True\<rparr>"
  obtain r s1 where first: "listProducts ?e None ?d demo_shelf = (r, s1)" by fastforce
  have clock: "clock s1 = 1000"
    using first
    by (auto simp: listProducts_def listProductsFromDb_def Let_def cache_get_def cache_set_def unless_down_def act_defs demo_shelf_fields
        demo_catalog_def split: option.splits if_splits prod.splits)
  have key: "public_key None ?d = Some (''products:public:active:l'' @ dec 1)"
    by (simp add: public_key_def is_guest_def)
  have p: "list_where (ce_tenant ?e) None ?d (shops demo_shelf) (demo_item ''p1'' ''s1'')"
    by (simp add: demo_shelf_fields list_where_def in_tenant_def demo_catalog_def is_guest_def demo_shop_def)
  from public_page_crosses_tenants [OF _ _ _ _ key key _ _ _ _ p first refl, of "demo_catalog\<lparr>ce_redis := True, ce_tenant := Some ''B''\<rparr>" 1]
  show ?thesis using clock first by (auto simp: demo_catalog_def demo_shelf_fields)
qed

lemma import_all_jobs:
  fixes s :: "'z product_db_scheme"
  shows "import_all env sh rs s = (res, s') \<Longrightarrow> import_jobs s' = import_jobs s"
proof (induction rs arbitrary: s res s')
  case Nil
  then show ?case by (auto simp: act_defs)
next
  case (Cons r rs)
  have one: "import_jobs s1 = import_jobs s" if "import_one env sh r s = (x, s1)" for x s1
    using that
    by (auto simp: import_one_def uniqueSlug_def act_defs Let_def newIdA_def insert_product_def createA_def scheduleSearchIndex_def
        searchA_def split: if_splits prod.splits option.splits sum.splits)
  obtain x s1 where x: "import_one env sh r s = (x, s1)" by fastforce
  obtain y s2 where y: "import_all env sh rs s1 = (y, s2)" by fastforce
  have "s' = s2" using Cons.prems x y by (auto simp: act_defs split: sum.splits)
  then show ?case using Cons.IH [OF y] one [OF x] by simp
qed

lemma process_returns:
  assumes "find_row (\<lambda>j. ij_id j = i) (import_jobs s) = Some j" "ij_status j \<noteq> ''completed''" "disk s (ij_storageKey j) = Some csv"
  shows "\<exists>r s'. processImportJob env i a s = (Inr r, s')"
proof -
  have i: "ij_id j = i" using find_row_Some [OF assms(1)] by simp
  define skus where "skus = List.map_filter p_sku
    (filter (\<lambda>p. in_tenant (ce_tenant env) p \<and> p_shopId p = ij_shopId j \<and> truthy (p_sku p)) (products s))"
  define s1 where "s1 = import_jobs_update (update_where (\<lambda>j. ij_id j = i) (\<lambda>j. j\<lparr>ij_status := ''processing''\<rparr>)) s"
  have g: "grown s s1" by (simp add: s1_def grown_def)
  obtain res s2 where run: "import_all env (ij_shopId j) (filter ir_valid (fst (parse_csv skus csv))) s1 = (res, s2)" by fastforce
  with import_all_run [OF run g] obtain ids errs
    where all: "import_all env (ij_shopId j) (filter ir_valid (fst (parse_csv skus csv))) s1 = (Inr (ids, errs), s2)" by blast
  have parse: "parseAndValidateCsv (ce_tenant env) (ij_shopId j) csv s = (Inr (parse_csv skus csv), s)"
    by (simp add: parseAndValidateCsv_def act_defs skus_def)
  have upd: "update_job i (\<lambda>j. j\<lparr>ij_status := ''processing''\<rparr>) s = (Inr (), s1)"
    using assms(1) by (simp add: update_job_def updateA_def s1_def)
  have upd2: "update_job i f s2 = (Inr (), import_jobs_update (update_where (\<lambda>j. ij_id j = i) f) s2)" for f
    using assms(1) by (simp add: update_job_def updateA_def import_all_jobs [OF all] s1_def find_row_update_where)
  have "\<exists>r s'. process_file env j a s = (Inr r, s')"
    by (simp add: process_file_def i assms(3) act_defs parse upd all upd2 auditA_def case_prod_beta)
  then show ?thesis using assms(1,2) by (simp add: processImportJob_def act_defs)
qed

theorem import_outcome_witness:
  "\<exists>r s' new es rows. processImportJob demo_catalog ''j'' None demo_shelf = (Inr r, s') \<and> products s' = products demo_shelf @ new \<and>
    list_all2 (made_from demo_catalog ''s1'' demo_shelf) (kept rows es) new \<and>
    length new = im_created r \<and> processImportJob demo_catalog ''j'' None s' = (Inr nothing_imported, s')"
proof -
  have job: "find_row (\<lambda>j. ij_id j = ''j'') (import_jobs demo_shelf) = Some demo_job" "ij_status demo_job \<noteq> ''completed''"
    "ij_shopId demo_job = ''s1''"
    by (simp_all add: demo_shelf_fields demo_job_def)
  have "disk demo_shelf (ij_storageKey demo_job) = Some (''name,price'' @ [CHR 0x0A] @ ''Pump,12.5'')"
    by (simp add: demo_shelf_fields demo_job_def)
  from process_returns [OF job(1,2) this] obtain r s' where run: "processImportJob demo_catalog ''j'' None demo_shelf = (Inr r, s')" by blast
  obtain rows faults where "(rows, faults) = parse_csv (List.map_filter p_sku
      (filter (\<lambda>p. in_tenant (ce_tenant demo_catalog) p \<and> p_shopId p = ij_shopId demo_job \<and> truthy (p_sku p)) (products demo_shelf)))
      (the (disk demo_shelf (ij_storageKey demo_job)))" by (metis prod.collapse)
  from import_outcome [OF run job(1,2) this, of demo_catalog None] run job(3) show ?thesis by metis
qed

text \<open>
  Looking at the preview of an import opens it again: whatever its status was, completed or running, it can be
  confirmed once more, and rows without a SKU are imported a second time.
\<close>

lemma preview_reopens:
  assumes run: "previewImport ctx u i s = (Inr v, s')"
  shows "\<exists>j. find_row (\<lambda>j. ij_id j = i) (import_jobs s') = Some j \<and> ij_status j = ''validated''"
proof -
  from run obtain shopId where sh: "merchant_shop u = Inr shopId" by (auto simp: previewImport_def ok_simps sumA_def act_defs split: sum.splits)
  then obtain job where job: "find_row (\<lambda>j. ij_id j = i \<and> ij_shopId j = shopId) (import_jobs s) = Some job"
    using run by (auto simp: previewImport_def ok_simps sumA_def act_defs own_job_def split: sum.splits option.splits)
  then have "find_row (\<lambda>j. ij_id j = i) (import_jobs s) \<noteq> None" by (auto simp: find_row_None dest: find_row_Some)
  from run sh job obtain csv where csv: "disk s (ij_storageKey job) = Some csv"
    by (auto simp: previewImport_def sumA_def own_job_def someA_def act_defs split: option.splits)
  define rows where "rows = parse_csv (List.map_filter p_sku
    (filter (\<lambda>p. in_tenant ctx p \<and> p_shopId p = shopId \<and> truthy (p_sku p)) (products s))) csv"
  from run sh job csv have "import_jobs s' = update_where (\<lambda>j. ij_id j = i)
      (\<lambda>j. j\<lparr>ij_status := ''validated'', ij_totalRows := Some (length (fst rows)),
        ij_validRows := Some (length (filter ir_valid (fst rows))), ij_errorRows := Some (length (snd rows)), ij_errors := snd rows,
        ij_preview := take 20 (fst rows)\<rparr>) (import_jobs s)"
    by (auto simp: previewImport_def sumA_def own_job_def act_defs parseAndValidateCsv_def update_job_def updateA_def
        case_prod_beta Let_def rows_def [symmetric] split: option.splits if_splits)
  moreover obtain y where y: "find_row (\<lambda>j. ij_id j = i) (import_jobs s) = Some y"
    using \<open>find_row (\<lambda>j. ij_id j = i) (import_jobs s) \<noteq> None\<close> by blast
  moreover have "ij_id y = i" using find_row_Some [OF y] by simp
  ultimately show ?thesis by (simp add: find_row_update_where)
qed

text \<open>The scanner splits at commas and at semicolons, so a semicolon file with decimal commas loses the decimals.\<close>

lemma decimal_comma_lost: "splitCsvLine ''Pump;12,50;3'' = [''Pump'', ''12'', ''50'', ''3'']"
  by (simp add: splitCsvLine_def)

end
