(* ===== verification/Uploads.thy ===== *)
theory Uploads
  imports Catalog
begin

text \<open>
  The check of an uploaded file: \<open>common/upload/file-security.ts\<close>, \<open>virus-scan.service.ts\<close> and
  \<open>file-security.service.ts\<close>.  A file is its client's name, declared type, bytes and size.  The package that
  recognises types from content (\<open>file-type\<close>) and the virus scanner are arguments; the random part of a
  storage name too.  Names are the bytes of their UTF-8 form.
\<close>

section \<open>Names\<close>

datatype upload_kind = UK_image | UK_document | UK_kyc | UK_csv | UK_media

fun allowedMimesFor :: "upload_kind \<Rightarrow> string list" where
  "allowedMimesFor UK_image = [''image/jpeg'', ''image/png'', ''image/webp'', ''image/gif'']"
| "allowedMimesFor UK_document = [''application/pdf'', ''image/jpeg'', ''image/png'', ''image/webp'']"
| "allowedMimesFor UK_kyc = [''application/pdf'', ''image/jpeg'', ''image/png'', ''image/webp'']"
| "allowedMimesFor UK_csv = [''text/csv'', ''application/csv'', ''application/vnd.ms-excel'', ''text/plain'',
    ''application/octet-stream'']"
| "allowedMimesFor UK_media = [''image/jpeg'', ''image/png'', ''image/webp'', ''image/gif'', ''application/pdf'']"

fun MAX_SIZES :: "upload_kind \<Rightarrow> int" where
  "MAX_SIZES UK_image = 5 * 1024 * 1024"
| "MAX_SIZES UK_document = 10 * 1024 * 1024"
| "MAX_SIZES UK_kyc = 10 * 1024 * 1024"
| "MAX_SIZES UK_csv = 20 * 1024 * 1024"
| "MAX_SIZES UK_media = 10 * 1024 * 1024"

definition EXT_MIME :: "(string \<times> string list) list" where
  "EXT_MIME = [(''.jpg'', [''image/jpeg'']), (''.jpeg'', [''image/jpeg'']), (''.png'', [''image/png'']),
    (''.webp'', [''image/webp'']), (''.gif'', [''image/gif'']), (''.pdf'', [''application/pdf'']),
    (''.csv'', [''text/csv'', ''text/plain'', ''application/csv'', ''application/vnd.ms-excel'',
       ''application/octet-stream'']),
    (''.txt'', [''text/plain'', ''text/csv''])]"

definition DANGEROUS_EXT :: "string list" where
  "DANGEROUS_EXT = [''.exe'', ''.dll'', ''.bat'', ''.cmd'', ''.com'', ''.msi'', ''.scr'', ''.ps1'', ''.sh'', ''.php'',
    ''.phtml'', ''.asp'', ''.aspx'', ''.jsp'', ''.cgi'', ''.html'', ''.htm'', ''.js'', ''.mjs'', ''.cjs'', ''.ts'',
    ''.jsx'', ''.tsx'', ''.svg'', ''.xml'', ''.xhtml'', ''.jar'', ''.war'', ''.py'', ''.rb'', ''.pl'', ''.vbs'',
    ''.wsf'', ''.hta'']"

text \<open>The last component of a path, and \<open>path.extname\<close> of POSIX paths.\<close>

definition last_part :: "string \<Rightarrow> string" where
  "last_part t = rev (takeWhile (\<lambda>c. c \<noteq> CHR ''/'') (rev t))"

definition extname :: "string \<Rightarrow> string" where
  "extname path =
    (let base = last_part (rev (dropWhile (\<lambda>c. c = CHR ''/'') (rev path)));
         after = rev (takeWhile (\<lambda>c. c \<noteq> CHR ''.'') (rev base));
         stem = take (length base - length after - 1) base
     in if CHR ''.'' \<notin> set base \<or> stem = [] \<or> base = ''..'' then [] else CHR ''.'' # after)"

definition backslashes :: "string \<Rightarrow> string" where
  "backslashes t = map (\<lambda>c. if c = CHR 0x5C then CHR ''/'' else c) t"

definition control_char :: "char \<Rightarrow> bool" where
  "control_char c \<longleftrightarrow> (of_char c :: nat) < 32 \<or> (of_char c :: nat) = 127"

text \<open>A run of dots becomes one dot.\<close>

fun collapse_dots :: "string \<Rightarrow> string" where
  "collapse_dots (c # d # cs) =
    (if c = CHR ''.'' \<and> d = CHR ''.'' then collapse_dots (d # cs) else c # collapse_dots (d # cs))"
| "collapse_dots cs = cs"

definition alnum :: "char \<Rightarrow> bool" where
  "alnum c \<longleftrightarrow> (let n = (of_char c :: nat) in
    (48 \<le> n \<and> n \<le> 57) \<or> (65 \<le> n \<and> n \<le> 90) \<or> (97 \<le> n \<and> n \<le> 122))"

definition name_char :: "char \<Rightarrow> bool" where
  "name_char c \<longleftrightarrow> alnum c \<or> c \<in> set (''._- ()[]'')"

text \<open>A run of other characters becomes one underscore.\<close>

fun mask :: "bool \<Rightarrow> string \<Rightarrow> string" where
  "mask inRun [] = []"
| "mask inRun (c # cs) =
    (if name_char c then c # mask False cs
     else if inRun then mask True cs else CHR ''_'' # mask True cs)"

definition non_empty_or :: "string \<Rightarrow> string \<Rightarrow> string" where
  "non_empty_or t d = (if t = [] then d else t)"

definition normalizeFilename :: "string \<Rightarrow> string" where
  "normalizeFilename original =
    (let name1 = non_empty_or (last_part (backslashes (non_empty_or original ''file''))) ''file'';
         name2 = mask False (collapse_dots (filter (\<lambda>c. \<not> control_char c) name1));
         name3 = non_empty_or (js_trim (dropWhile (\<lambda>c. c = CHR ''.'') name2)) ''file''
     in if 180 < length name3
        then (let ext = take 20 (extname name3) in take (160 - length ext) name3 @ ext)
        else name3)"

definition safeExtension :: "string \<Rightarrow> exn + string" where
  "safeExtension original =
    (let ext = js_lower (extname (normalizeFilename original)) in
     if ext = [] \<or> 10 < length ext then Inr []
     else if ext \<in> set DANGEROUS_EXT then Inl (BadRequest ''File extension not allowed'')
     else Inr ext)"

definition randomStorageFileName :: "string \<Rightarrow> string \<Rightarrow> string" where
  "randomStorageFileName uuid ext =
    (let e = (if ext \<noteq> [] \<and> hd ext = CHR ''.'' then js_lower ext else if ext \<noteq> [] then CHR ''.'' # ext else [])
     in uuid @ (if map_of EXT_MIME e \<noteq> None then e else []))"

section \<open>Content\<close>

text \<open>At least \<open>n\<close> bytes, with these bytes at these places.\<close>

definition has_bytes :: "nat \<Rightarrow> (nat \<times> nat) list \<Rightarrow> string \<Rightarrow> bool" where
  "has_bytes n ps buf \<longleftrightarrow> n \<le> length buf \<and> list_all (\<lambda>(i, b). (of_char (buf ! i) :: nat) = b) ps"

definition detectMagicMime :: "string \<Rightarrow> string option" where
  "detectMagicMime buf =
    (if has_bytes 3 [(0, 0xff), (1, 0xd8), (2, 0xff)] buf then Some ''image/jpeg''
     else if has_bytes 8 [(0, 0x89), (1, 0x50), (2, 0x4e), (3, 0x47)] buf then Some ''image/png''
     else if has_bytes 6 [(0, 0x47), (1, 0x49), (2, 0x46), (3, 0x38)] buf then Some ''image/gif''
     else if has_bytes 12 [(0, 0x52), (1, 0x49), (2, 0x46), (3, 0x46), (8, 0x57), (9, 0x45), (10, 0x42), (11, 0x50)] buf
       then Some ''image/webp''
     else if has_bytes 5 [(0, 0x25), (1, 0x50), (2, 0x44), (3, 0x46)] buf then Some ''application/pdf''
     else if has_bytes 2 [(0, 0x4d), (1, 0x5a)] buf then Some ''application/x-msdownload''
     else if has_bytes 4 [(0, 0x7f), (1, 0x45), (2, 0x4c), (3, 0x46)] buf then Some ''application/x-executable''
     else None)"

text \<open>The quotient is compared with 0.9 exactly: both are at most 4096, so no rounding reaches the bound.\<close>

definition printable :: "char \<Rightarrow> bool" where
  "printable c \<longleftrightarrow> (let n = (of_char c :: nat) in n = 9 \<or> n = 10 \<or> n = 13 \<or> (32 \<le> n \<and> n \<le> 126) \<or> 128 \<le> n)"

definition looksLikeTextCsv :: "string \<Rightarrow> bool" where
  "looksLikeTextCsv buf =
    (let sample = take 4096 buf in
     CHR 0x00 \<notin> set sample \<and> 9 * length sample < 10 * length (filter printable sample))"

definition mimeToExt :: "string \<Rightarrow> string" where
  "mimeToExt mime =
    (if mime = ''image/jpeg'' \<or> mime = ''image/jpg'' then ''.jpg''
     else if mime = ''image/png'' then ''.png''
     else if mime = ''image/webp'' then ''.webp''
     else if mime = ''image/gif'' then ''.gif''
     else if mime = ''application/pdf'' then ''.pdf''
     else if mime = ''text/csv'' \<or> mime = ''text/plain'' then ''.csv''
     else [])"

section \<open>The check\<close>

record safe_file =
  sf_safeOriginalName :: string
  sf_storageKeyName :: string
  sf_ext :: string
  sf_declaredMime :: string
  sf_mimeType :: string
  sf_sizeBytes :: int
  sf_buffer :: string
  sf_kind :: upload_kind

text \<open>The extensions a kind takes; none may stay none.\<close>

fun kind_exts :: "upload_kind \<Rightarrow> string list" where
  "kind_exts UK_image = [''.jpg'', ''.jpeg'', ''.png'', ''.webp'', ''.gif'']"
| "kind_exts UK_csv = [''.csv'', ''.txt'']"
| "kind_exts UK_document = [''.pdf'', ''.jpg'', ''.jpeg'', ''.png'', ''.webp'']"
| "kind_exts UK_kyc = [''.pdf'', ''.jpg'', ''.jpeg'', ''.png'', ''.webp'']"
| "kind_exts UK_media = [''.pdf'', ''.jpg'', ''.jpeg'', ''.png'', ''.webp'', ''.gif'']"

definition checked_ext :: "upload_kind \<Rightarrow> string \<Rightarrow> exn + string" where
  "checked_ext kind ext =
    (if ext \<noteq> [] \<and> ext \<notin> set (kind_exts kind) then Inl (BadRequest ''extension not allowed'')
     else if kind = UK_csv \<and> ext = [] then Inr ''.csv'' else Inr ext)"

text \<open>The type the content shows: the package's answer, else the own table.\<close>

definition detected_mime :: "(string \<Rightarrow> exn + string option) \<Rightarrow> string \<Rightarrow> string option" where
  "detected_mime fileType buf =
    (case fileType buf of
      Inr (Some m) \<Rightarrow> if m \<noteq> [] then Some (js_lower m) else detectMagicMime buf
    | _ \<Rightarrow> detectMagicMime buf)"

definition content_mime :: "upload_kind \<Rightarrow> string option \<Rightarrow> string \<Rightarrow> exn + string" where
  "content_mime kind detected buf =
    (if kind = UK_csv then
       (case detected of
          Some m \<Rightarrow>
            if \<not> js_starts ''text/'' m \<and> m \<noteq> ''application/csv'' \<and>
               (js_starts ''image/'' m \<or> m = ''application/pdf'' \<or> js_contains ''executable'' m \<or> js_contains ''msdownload'' m)
            then Inl (BadRequest ''File content does not match CSV'')
            else if \<not> looksLikeTextCsv buf then Inl (BadRequest ''File content is not valid text/CSV'')
            else Inr m
        | None \<Rightarrow> if \<not> looksLikeTextCsv buf then Inl (BadRequest ''File content is not valid text/CSV'') else Inr ''text/csv'')
     else
       (case detected of
          None \<Rightarrow> Inl (BadRequest ''Unable to detect file type from content'')
        | Some m \<Rightarrow>
            if js_contains ''executable'' m \<or> js_contains ''msdownload'' m \<or> m = ''application/x-dosexec''
            then Inl (BadRequest ''Executable files are not allowed'')
            else
              let normalized = (if m = ''image/jpg'' then ''image/jpeg'' else m) in
              if normalized \<notin> set (allowedMimesFor kind) then Inl (BadRequest ''File content type not allowed'')
              else Inr normalized))"

text \<open>An extension that contradicts the content is replaced by the content's, a missing one filled in.\<close>

definition final_ext :: "upload_kind \<Rightarrow> string \<Rightarrow> string \<Rightarrow> exn + string" where
  "final_ext kind ext mime =
    (let crossed =
       (case map_of EXT_MIME ext of
          Some ms \<Rightarrow>
            if ext \<noteq> [] \<and> kind \<noteq> UK_csv \<and>
               \<not> list_ex (\<lambda>m. m = mime \<or> (m = ''image/jpeg'' \<and> mime = ''image/jpg'')) ms \<and>
               ''application/octet-stream'' \<notin> set ms
            then (if mimeToExt mime \<noteq> [] then Inr (mimeToExt mime)
                  else Inl (BadRequest ''File extension does not match content type''))
            else Inr ext
        | None \<Rightarrow> Inr ext)
     in case crossed of Inl e \<Rightarrow> Inl e | Inr x \<Rightarrow> Inr (if x = [] then mimeToExt mime else x))"

definition declared_mime :: "string \<Rightarrow> string" where
  "declared_mime t = js_trim (hd (split_on CHR '';'' (js_lower t)))"

definition declared_dangerous :: "upload_kind \<Rightarrow> string \<Rightarrow> string \<Rightarrow> bool" where
  "declared_dangerous kind declared mime \<longleftrightarrow>
    declared \<noteq> [] \<and> declared \<noteq> ''application/octet-stream'' \<and> kind \<noteq> UK_csv \<and> mime \<noteq> [] \<and> declared \<noteq> mime \<and>
    \<not> (declared = ''image/jpg'' \<and> mime = ''image/jpeg'') \<and>
    (js_contains ''javascript'' declared \<or> js_contains ''html'' declared \<or> js_contains ''executable'' declared)"

definition validateUploadedFile ::
  "(string \<Rightarrow> exn + string option) \<Rightarrow> string \<Rightarrow> upload_file option \<Rightarrow> upload_kind \<Rightarrow> int option \<Rightarrow> exn + safe_file" where
  "validateUploadedFile fileType uuid file kind maxSize =
    (case file of
      None \<Rightarrow> Inl (BadRequest ''File is required'')
    | Some f \<Rightarrow>
        let limit = (case maxSize of Some n \<Rightarrow> n | None \<Rightarrow> MAX_SIZES kind);
            size = (if uf_size f \<noteq> 0 then uf_size f else int (length (uf_buffer f)));
            declared = declared_mime (uf_mimetype f) in
        if uf_buffer f = [] then Inl (BadRequest ''File is required'')
        else if limit < size then Inl (BadRequest ''File too large'')
        else if size = 0 then Inl (BadRequest ''Empty file'')
        else case safeExtension (uf_originalname f) of Inl e \<Rightarrow> Inl e | Inr ext0 \<Rightarrow>
        if js_lower (extname (uf_originalname f)) \<in> set DANGEROUS_EXT then Inl (BadRequest ''File type not allowed'')
        else case checked_ext kind ext0 of Inl e \<Rightarrow> Inl e | Inr ext1 \<Rightarrow>
        case content_mime kind (detected_mime fileType (uf_buffer f)) (uf_buffer f) of Inl e \<Rightarrow> Inl e | Inr mime \<Rightarrow>
        case final_ext kind ext1 mime of Inl e \<Rightarrow> Inl e | Inr ext \<Rightarrow>
        if declared_dangerous kind declared mime then Inl (BadRequest ''Declared MIME not allowed'')
        else Inr \<lparr>sf_safeOriginalName = normalizeFilename (uf_originalname f),
          sf_storageKeyName = randomStorageFileName uuid ext, sf_ext = ext, sf_declaredMime = declared,
          sf_mimeType = (if kind = UK_csv then ''text/csv'' else mime), sf_sizeBytes = size,
          sf_buffer = uf_buffer f, sf_kind = kind\<rparr>)"

section \<open>Viruses\<close>

text \<open>\<open>None\<close>: the scanner is switched off.  An answer of the scanner is its raw reply, or a failure.\<close>

definition scanBuffer :: "(string \<Rightarrow> exn + string) option \<Rightarrow> string \<Rightarrow> exn + unit" where
  "scanBuffer clamd buffer =
    (case clamd of
      None \<Rightarrow> Inr ()
    | Some scan \<Rightarrow>
        if buffer = [] then Inl (BadRequest ''Empty file'')
        else if 25 * 1024 * 1024 < length buffer then Inl (PayloadTooLarge ''File too large for virus scan'')
        else case scan buffer of
          Inl e \<Rightarrow> Inl (BadRequest ''Virus scan unavailable'')
        | Inr raw \<Rightarrow>
            if js_contains ''found'' (js_lower raw) then Inl (BadRequest ''File failed virus scan'')
            else if \<not> js_contains ''ok'' (js_lower raw) then Inl (BadRequest ''Virus scan failed'')
            else Inr ())"

record upload_env =
  ue_fileType :: "string \<Rightarrow> exn + string option"
  ue_clamd :: "(string \<Rightarrow> exn + string) option"

definition assertSafe ::
  "upload_env \<Rightarrow> upload_file option \<Rightarrow> upload_kind \<Rightarrow> int option \<Rightarrow> bool \<Rightarrow> ('z core_db_scheme, safe_file) act" where
  "assertSafe env file kind maxSize skipVirus =
    bindA (getsA (\<lambda>s. validateUploadedFile (ue_fileType env) (id_supply s (next_id s)) file kind maxSize)) (\<lambda>checked.
    bindA (sumA checked) (\<lambda>result.
    bindA newIdA (\<lambda>uuid.
    thenA (if skipVirus then returnA () else sumA (scanBuffer (ue_clamd env) (sf_buffer result)))
      (returnA result))))"

definition applySafeMeta :: "upload_file \<Rightarrow> safe_file \<Rightarrow> upload_file" where
  "applySafeMeta file safe = file\<lparr>uf_originalname := sf_safeOriginalName safe, uf_mimetype := sf_mimeType safe\<rparr>"

end
