(* ===== verification/Upload_Claims.thy ===== *)
theory Upload_Claims
  imports Uploads Samples
begin

text \<open>What a file that passes the check is worth.\<close>

section \<open>Names\<close>

lemma name_char_mask: "c \<in> set (mask b t) \<Longrightarrow> name_char c"
proof (induction b t rule: mask.induct)
  case (2 b c cs)
  have "name_char CHR ''_''" by (simp add: name_char_def)
  with 2 show ?case by (auto split: if_splits)
qed simp

lemma set_js_trim: "set (js_trim t) \<subseteq> set t"
  by (auto simp: js_trim_def dest!: set_dropWhileD)

lemma set_last_part: "set (last_part t) \<subseteq> set t"
  by (auto simp: last_part_def dest!: set_takeWhileD)

lemma set_extname: "set (extname t) \<subseteq> insert CHR ''.'' (set t)"
proof -
  have *: "c \<in> set t" if "c \<in> set (takeWhile (\<lambda>c. c \<noteq> CHR ''.'') (rev (last_part (rev (dropWhile P (rev t))))))" for c P
  proof -
    have "c \<in> set (last_part (rev (dropWhile P (rev t))))" using set_takeWhileD [OF that] by simp
    then have "c \<in> set (dropWhile P (rev t))" using set_last_part by fastforce
    then show ?thesis using set_dropWhileD by fastforce
  qed
  show ?thesis using * by (auto simp: extname_def Let_def)
qed

lemma normalize_safe:
  "set (normalizeFilename t) \<subseteq> Collect name_char \<and> normalizeFilename t \<noteq> [] \<and> length (normalizeFilename t) \<le> 180"
proof -
  define n2 where "n2 = mask False (collapse_dots (filter (\<lambda>c. \<not> control_char c)
    (non_empty_or (last_part (backslashes (non_empty_or t ''file''))) ''file'')))"
  define n3 where "n3 = non_empty_or (js_trim (dropWhile (\<lambda>c. c = CHR ''.'') n2)) ''file''"
  have fallback: "set ''file'' \<subseteq> Collect name_char" by (simp add: name_char_def alnum_def)
  have "set (js_trim (dropWhile (\<lambda>c. c = CHR ''.'') n2)) \<subseteq> set n2"
    using set_js_trim set_dropWhileD by fastforce
  also have "\<dots> \<subseteq> Collect name_char" by (auto simp: n2_def name_char_mask)
  finally have n3: "set n3 \<subseteq> Collect name_char" "n3 \<noteq> []"
    using fallback by (auto simp: n3_def non_empty_or_def)
  have eq: "normalizeFilename t =
      (if 180 < length n3 then take (160 - length (take 20 (extname n3))) n3 @ take 20 (extname n3) else n3)"
    by (simp add: normalizeFilename_def n3_def n2_def Let_def)
  have "set (take 20 (extname n3)) \<subseteq> Collect name_char"
    using set_take_subset [of 20 "extname n3"] set_extname [of n3] n3(1) by (auto simp: name_char_def)
  moreover have "set (take k n3) \<subseteq> Collect name_char" for k using set_take_subset [of k n3] n3(1) by blast
  ultimately show ?thesis using n3 by (auto simp: eq)
qed

section \<open>Types\<close>

text \<open>The extensions the table knows, and what they stand for.\<close>

definition stands_for :: "string \<Rightarrow> string \<Rightarrow> bool" where
  "stands_for ext mime \<longleftrightarrow> (case map_of EXT_MIME ext of Some ms \<Rightarrow> mime \<in> set ms | None \<Rightarrow> False)"

lemma ext_table:
  "list_all (\<lambda>(e, ms). e \<notin> set DANGEROUS_EXT \<and> e \<noteq> [] \<and> hd e = CHR ''.'' \<and> js_lower e = e) EXT_MIME"
  by code_simp

lemma stands_for_known:
  assumes "stands_for ext mime"
  shows "map_of EXT_MIME ext \<noteq> None \<and> ext \<notin> set DANGEROUS_EXT \<and> ext \<noteq> [] \<and> hd ext = CHR ''.'' \<and> js_lower ext = ext"
proof -
  from assms obtain ms where ms: "map_of EXT_MIME ext = Some ms" by (auto simp: stands_for_def split: option.splits)
  from map_of_SomeD [OF this] ext_table show ?thesis using ms by (auto simp: list_all_iff)
qed

lemma kind_tables:
  "list_all (\<lambda>kind.
     (kind \<noteq> UK_csv \<longrightarrow> list_all (\<lambda>m. stands_for (mimeToExt m) m \<and> m \<noteq> ''image/jpg'') (allowedMimesFor kind)) \<and>
     list_all (\<lambda>e. case map_of EXT_MIME e of
        None \<Rightarrow> False
      | Some ms \<Rightarrow> if kind = UK_csv then ''text/csv'' \<in> set ms else ''application/octet-stream'' \<notin> set ms)
       (kind_exts kind))
   [UK_image, UK_document, UK_kyc, UK_csv, UK_media]"
  by code_simp

lemma kind_in: "kind \<in> set [UK_image, UK_document, UK_kyc, UK_csv, UK_media]"
  by (cases kind) simp_all

lemmas kind_facts = bspec [OF kind_tables [unfolded list_all_iff] kind_in]

lemma allowed_ext:
  "m \<in> set (allowedMimesFor kind) \<Longrightarrow> kind \<noteq> UK_csv \<Longrightarrow> stands_for (mimeToExt m) m \<and> m \<noteq> ''image/jpg''"
  using kind_facts [of kind] by blast

lemma kind_ext_known:
  assumes "e \<in> set (kind_exts kind)"
  obtains ms where "map_of EXT_MIME e = Some ms"
    "if kind = UK_csv then ''text/csv'' \<in> set ms else ''application/octet-stream'' \<notin> set ms"
  using kind_facts [of kind] assms by (fastforce split: option.splits if_splits)

lemma csv_ext: "e \<in> set (kind_exts UK_csv) \<Longrightarrow> stands_for e ''text/csv''"
  by (erule kind_ext_known) (simp add: stands_for_def)

lemma final_ext_stands:
  assumes fin: "final_ext kind e mime = Inr ext" and e: "e = [] \<or> e \<in> set (kind_exts kind)"
    and mime: "kind \<noteq> UK_csv" "mime \<in> set (allowedMimesFor kind)"
  shows "stands_for ext mime"
proof -
  have jpg: "mime \<noteq> ''image/jpg''" and own: "stands_for (mimeToExt mime) mime"
    using allowed_ext [OF mime(2,1)] by auto
  show ?thesis
  proof (cases "e = []")
    case True
    then have "map_of EXT_MIME e = None" by (simp add: EXT_MIME_def)
    then show ?thesis using fin own True by (simp add: final_ext_def)
  next
    case False
    with e have "e \<in> set (kind_exts kind)" by simp
    then obtain ms where ms: "map_of EXT_MIME e = Some ms" and octet: "''application/octet-stream'' \<notin> set ms"
      using mime(1) by (auto elim!: kind_ext_known)
    show ?thesis
    proof (cases "mime \<in> set ms")
      case True
      then have "list_ex (\<lambda>m. m = mime \<or> (m = ''image/jpeg'' \<and> mime = ''image/jpg'')) ms" by (auto simp: list_ex_iff)
      then have "ext = e" using fin ms False mime(1) by (simp add: final_ext_def)
      then show ?thesis using True ms by (simp add: stands_for_def)
    next
      case out: False
      then have "\<not> list_ex (\<lambda>m. m = mime \<or> (m = ''image/jpeg'' \<and> mime = ''image/jpg'')) ms" using jpg by (auto simp: list_ex_iff)
      then have "ext = mimeToExt mime"
        using fin ms False mime octet by (auto simp: final_ext_def split: if_splits)
      then show ?thesis using own by simp
    qed
  qed
qed

lemma stored_name: "stands_for ext mime \<Longrightarrow> randomStorageFileName uuid ext = uuid @ ext"
  using stands_for_known by (auto simp: randomStorageFileName_def Let_def)

lemma checked_ext_in: "checked_ext kind e = Inr x \<Longrightarrow> x = [] \<or> x \<in> set (kind_exts kind)"
  by (auto simp: checked_ext_def split: if_splits)

text \<open>What the bytes are taken for.\<close>

definition content_of :: "(string \<Rightarrow> exn + string option) \<Rightarrow> string \<Rightarrow> string option" where
  "content_of fileType buf = map_option (\<lambda>m. if m = ''image/jpg'' then ''image/jpeg'' else m) (detected_mime fileType buf)"

lemma validated:
  assumes "validateUploadedFile fileType uuid (Some f) kind maxSize = Inr r"
  shows "sf_buffer r = uf_buffer f \<and> sf_buffer r \<noteq> [] \<and> sf_sizeBytes r \<le> (case maxSize of Some n \<Rightarrow> n | None \<Rightarrow> MAX_SIZES kind) \<and>
    sf_safeOriginalName r = normalizeFilename (uf_originalname f) \<and>
    stands_for (sf_ext r) (sf_mimeType r) \<and> sf_storageKeyName r = uuid @ sf_ext r \<and>
    (if kind = UK_csv then sf_mimeType r = ''text/csv'' \<and> looksLikeTextCsv (uf_buffer f)
     else sf_mimeType r \<in> set (allowedMimesFor kind) \<and> content_of fileType (uf_buffer f) = Some (sf_mimeType r))"
proof -
  obtain e0 e1 mime ext where steps: "uf_buffer f \<noteq> []" "checked_ext kind e0 = Inr e1"
      "content_mime kind (detected_mime fileType (uf_buffer f)) (uf_buffer f) = Inr mime" "final_ext kind e1 mime = Inr ext"
    and size: "(if uf_size f \<noteq> 0 then uf_size f else int (length (uf_buffer f))) \<le> (case maxSize of Some n \<Rightarrow> n | None \<Rightarrow> MAX_SIZES kind)"
    and r: "r = \<lparr>sf_safeOriginalName = normalizeFilename (uf_originalname f),
          sf_storageKeyName = randomStorageFileName uuid ext, sf_ext = ext, sf_declaredMime = declared_mime (uf_mimetype f),
          sf_mimeType = (if kind = UK_csv then ''text/csv'' else mime),
          sf_sizeBytes = (if uf_size f \<noteq> 0 then uf_size f else int (length (uf_buffer f))),
          sf_buffer = uf_buffer f, sf_kind = kind\<rparr>"
    using assms by (auto simp: validateUploadedFile_def Let_def not_less split: if_splits sum.splits)
  note e1 = checked_ext_in [OF steps(2)]
  have *: "stands_for ext (if kind = UK_csv then ''text/csv'' else mime) \<and>
    (if kind = UK_csv then looksLikeTextCsv (uf_buffer f)
     else mime \<in> set (allowedMimesFor kind) \<and> content_of fileType (uf_buffer f) = Some mime)"
  proof (cases "kind = UK_csv")
    case True
    have "e1 \<in> set (kind_exts UK_csv)" using steps(2) True by (auto simp: checked_ext_def split: if_splits)
    moreover from this have "ext = e1" using steps(4) True by (auto simp: final_ext_def EXT_MIME_def)
    ultimately show ?thesis
      using True steps(3) csv_ext by (auto simp: content_mime_def split: option.splits if_splits)
  next
    case False
    then have m: "mime \<in> set (allowedMimesFor kind)" "content_of fileType (uf_buffer f) = Some mime"
      using steps(3) by (auto simp: content_mime_def content_of_def Let_def split: option.splits if_splits)
    show ?thesis using final_ext_stands [OF steps(4) e1 False m(1)] m False by simp
  qed
  show ?thesis using * steps(1) size stored_name [of ext _ uuid] by (auto simp: r split: if_splits)
qed

text \<open>
  C30.  A file that passes the check.  Its content was recognised (a CSV file: is text) as one of the types of
  its kind, it is not larger than allowed, it is stored under the next id of the random supply, which is used up,
  followed by an extension that stands for that type and is never a dangerous one (nothing of the client's name
  is in the key), it is shown under a name of at most 180 harmless characters with no
  separator of paths, and a scanner that is switched on has passed its bytes.
\<close>

theorem accepted_upload:
  assumes run: "assertSafe env file kind maxSize skip s = (Inr r, s')"
  shows "\<exists>f. file = Some f \<and> sf_buffer r = uf_buffer f \<and> uf_buffer f \<noteq> [] \<and>
    sf_sizeBytes r \<le> (case maxSize of Some n \<Rightarrow> n | None \<Rightarrow> MAX_SIZES kind) \<and>
    (if kind = UK_csv then sf_mimeType r = ''text/csv'' \<and> looksLikeTextCsv (uf_buffer f)
     else sf_mimeType r \<in> set (allowedMimesFor kind) \<and> content_of (ue_fileType env) (uf_buffer f) = Some (sf_mimeType r)) \<and>
    sf_storageKeyName r = id_supply s (next_id s) @ sf_ext r \<and> s' = s\<lparr>next_id := Suc (next_id s)\<rparr> \<and>
    stands_for (sf_ext r) (sf_mimeType r) \<and> sf_ext r \<notin> set DANGEROUS_EXT \<and>
    sf_safeOriginalName r = normalizeFilename (uf_originalname f) \<and>
    set (sf_safeOriginalName r) \<subseteq> Collect name_char \<and> sf_safeOriginalName r \<noteq> [] \<and> length (sf_safeOriginalName r) \<le> 180 \<and>
    CHR ''/'' \<notin> set (sf_safeOriginalName r) \<and>
    (skip \<or> scanBuffer (ue_clamd env) (uf_buffer f) = Inr ())"
proof -
  obtain f where f: "file = Some f"
    and v: "validateUploadedFile (ue_fileType env) (id_supply s (next_id s)) (Some f) kind maxSize = Inr r"
    and scan: "skip \<or> scanBuffer (ue_clamd env) (sf_buffer r) = Inr ()" and s': "s' = s\<lparr>next_id := Suc (next_id s)\<rparr>"
    using run by (cases "file")
      (auto simp: assertSafe_def ok_simps sumA_def validateUploadedFile_def newIdA_def split: sum.splits if_splits)
  have slash: "\<not> name_char CHR ''/''" by (simp add: name_char_def alnum_def)
  note r = validated [OF v]
  show ?thesis
    using r scan slash s' normalize_safe [of "uf_originalname f"] stands_for_known [of "sf_ext r" "sf_mimeType r"]
    by (intro exI [of _ f]) (auto simp: f)
qed

text \<open>A small PNG picture.\<close>

definition demo_png :: upload_file where
  "demo_png = \<lparr>uf_originalname = ''../a b.png'', uf_mimetype = ''image/png'',
    uf_buffer = map char_of [0x89, 0x50, 0x4e, 0x47, 13, 10, 26, 10 :: nat], uf_size = 8\<rparr>"

lemma demo_png_accepted:
  "validateUploadedFile (\<lambda>b. Inr None) u (Some demo_png) UK_image None =
    Inr \<lparr>sf_safeOriginalName = ''a b.png'', sf_storageKeyName = u @ ''.png'', sf_ext = ''.png'',
      sf_declaredMime = ''image/png'', sf_mimeType = ''image/png'', sf_sizeBytes = 8,
      sf_buffer = uf_buffer demo_png, sf_kind = UK_image\<rparr>"
proof -
  have "safeExtension (uf_originalname demo_png) = Inr ''.png'' \<and> js_lower (extname (uf_originalname demo_png)) = ''.png'' \<and>
      normalizeFilename (uf_originalname demo_png) = ''a b.png'' \<and> declared_mime (uf_mimetype demo_png) = ''image/png'' \<and>
      detectMagicMime (uf_buffer demo_png) = Some ''image/png'' \<and> ''.png'' \<notin> set DANGEROUS_EXT \<and>
      final_ext UK_image ''.png'' ''image/png'' = Inr ''.png'' \<and> uf_buffer demo_png \<noteq> [] \<and> uf_size demo_png = 8 \<and>
      checked_ext UK_image ''.png'' = Inr ''.png'' \<and> \<not> declared_dangerous UK_image ''image/png'' ''image/png'' \<and>
      content_mime UK_image (Some ''image/png'') (uf_buffer demo_png) = Inr ''image/png''"
    by code_simp
  moreover have "stands_for ''.png'' ''image/png''" by (simp add: stands_for_def EXT_MIME_def)
  ultimately show ?thesis by (simp add: validateUploadedFile_def detected_mime_def stored_name Let_def)
qed

theorem accepted_upload_witness:
  "\<exists>r s'. assertSafe \<lparr>ue_fileType = (\<lambda>b. Inr None), ue_clamd = Some (\<lambda>b. Inr ''stream: OK'')\<rparr> (Some demo_png) UK_image None False
      demo_db = (Inr r, s') \<and>
    stands_for (sf_ext r) (sf_mimeType r) \<and> sf_mimeType r \<in> set (allowedMimesFor UK_image) \<and>
    sf_ext r \<notin> set DANGEROUS_EXT \<and> length (sf_safeOriginalName r) \<le> 180"
proof -
  have "scanBuffer (Some (\<lambda>b. Inr ''stream: OK'')) (uf_buffer demo_png) = Inr ()"
  proof -
    have "js_contains ''ok'' (js_lower ''stream: OK'') \<and> \<not> js_contains ''found'' (js_lower ''stream: OK'')" by code_simp
    then show ?thesis by (simp add: scanBuffer_def demo_png_def)
  qed
  then obtain r s' where run: "assertSafe \<lparr>ue_fileType = (\<lambda>b. Inr None), ue_clamd = Some (\<lambda>b. Inr ''stream: OK'')\<rparr>
      (Some demo_png) UK_image None False demo_db = (Inr r, s')"
    by (simp add: assertSafe_def ok_simps sumA_def demo_png_accepted)
  from accepted_upload [OF this] run show ?thesis by auto
qed

text \<open>Two things the clean-up of names promises and does not do: a leading dot survives a space, two dots a cut.\<close>

lemma hidden_name: "normalizeFilename '' .profile'' = ''.profile''"
  by code_simp

end
