(* ===== verification/Storage.thy ===== *)
theory Storage
  imports Uploads Products
begin

text \<open>
  Where files are kept: \<open>storage/storage.service.ts\<close>.  A file on the local disk has a path, the list of the
  names from the root of the disk; an object of the bucket has a key.  The bucket, the conversion of images,
  the reading of URLs, keyed hashes and presigned URLs are arguments.  The root of the uploads is an absolute
  path, and paths are those of POSIX.
\<close>

section \<open>State\<close>

record store_db = product_db +
  files :: "string list \<rightharpoonup> string"
  objects :: "string \<rightharpoonup> string"

record storage_env =
  st_localRoot :: "string list"
  st_s3 :: bool
  st_bucket :: string
  st_publicUrl :: string
  st_endpoint :: string
  st_sharp :: "nat \<Rightarrow> nat \<Rightarrow> string \<Rightarrow> exn + string"
  st_putObject :: "string \<Rightarrow> exn option"
  st_pathname :: "string \<Rightarrow> string option"
  st_hmac :: "string \<Rightarrow> string"
  st_presign :: "string \<Rightarrow> int \<Rightarrow> string"
  st_numberText :: "dbl \<Rightarrow> string"

section \<open>Keys and paths\<close>

definition PRIVATE_STORAGE_PREFIX :: string where "PRIVATE_STORAGE_PREFIX = ''private/''"

definition drop_slash :: "string \<Rightarrow> string" where
  "drop_slash t = (if js_starts ''/'' t then tl t else t)"

definition extractKeyFromUrl :: "storage_env \<Rightarrow> string \<Rightarrow> string" where
  "extractKeyFromUrl env u =
    (if u = [] then []
     else if js_starts ''http'' u then
       (case st_pathname env u of
          None \<Rightarrow> u
        | Some path \<Rightarrow>
            let key = drop_slash path in
            backslashes (if st_bucket env \<noteq> [] \<and> js_starts (st_bucket env @ ''/'') key
              then drop (length (st_bucket env) + 1) key else key))
     else if js_starts ''/uploads/'' u then backslashes (drop 9 u)
     else if js_starts ''uploads/'' u then backslashes (drop 8 u)
     else backslashes u)"

definition isPrivateKey :: "storage_env \<Rightarrow> string \<Rightarrow> bool" where
  "isPrivateKey env key \<longleftrightarrow>
    (let k = extractKeyFromUrl env key in
     js_starts PRIVATE_STORAGE_PREFIX k \<or> js_starts ''kyc/'' k \<or> js_contains ''/kyc/'' k)"

text \<open>The address of an object of the bucket.\<close>

definition object_url :: "storage_env \<Rightarrow> string \<Rightarrow> string" where
  "object_url env key =
    (if st_publicUrl env \<noteq> [] then st_publicUrl env @ ''/'' @ key
     else st_endpoint env @ ''/'' @ st_bucket env @ ''/'' @ key)"

definition toPublicUrl :: "storage_env \<Rightarrow> string \<Rightarrow> string option" where
  "toPublicUrl env key =
    (let k = drop_slash (backslashes key) in
     if isPrivateKey env k then None
     else if st_s3 env then Some (object_url env k)
     else Some (''/uploads/'' @ k))"

text \<open>\<open>path.join\<close> of an absolute path with a relative text, and the text of a path.\<close>

fun walk_path :: "string list \<Rightarrow> string list \<Rightarrow> string list" where
  "walk_path dir [] = dir"
| "walk_path dir (x # xs) =
    (if x = [] \<or> x = ''.'' then walk_path dir xs
     else if x = ''..'' then walk_path (butlast dir) xs
     else walk_path (dir @ [x]) xs)"

definition join_path :: "string list \<Rightarrow> string \<Rightarrow> string list" where
  "join_path dir key = walk_path dir (split_on CHR ''/'' key)"

definition path_text :: "string list \<Rightarrow> string" where
  "path_text p = concat (map (\<lambda>x. CHR ''/'' # x) p)"

definition resolveLocalPath :: "storage_env \<Rightarrow> string \<Rightarrow> exn + string list" where
  "resolveLocalPath env storageKey =
    (let full = join_path (st_localRoot env) (extractKeyFromUrl env storageKey);
         inside = path_text (st_localRoot env) @ ''/'' in
     if \<not> js_starts inside (path_text full) \<and> path_text full \<noteq> path_text (st_localRoot env)
     then Inl (Forbidden ''Invalid storage path'') else Inr full)"

section \<open>Writing\<close>

definition putLocal :: "storage_env \<Rightarrow> string \<Rightarrow> string \<Rightarrow> ('z store_db_scheme, string) act" where
  "putLocal env key body =
    thenA (modifyA (files_update (\<lambda>m. m(join_path (st_localRoot env) key \<mapsto> body))))
      (returnA (if isPrivateKey env key then backslashes key else ''/uploads/'' @ backslashes key))"

definition putObject :: "storage_env \<Rightarrow> string \<Rightarrow> string \<Rightarrow> ('z store_db_scheme, unit) act" where
  "putObject env key body =
    (case st_putObject env key of
      Some e \<Rightarrow> throwA e
    | None \<Rightarrow> modifyA (objects_update (\<lambda>m. m(key \<mapsto> body))))"

text \<open>On the local disk or into the bucket; the address it has there.\<close>

definition put_public :: "storage_env \<Rightarrow> string \<Rightarrow> string \<Rightarrow> ('z store_db_scheme, string) act" where
  "put_public env key body =
    (if \<not> st_s3 env then putLocal env key body
     else thenA (putObject env key body) (returnA (object_url env key)))"

definition strip_slashes :: "string \<Rightarrow> string" where
  "strip_slashes t = rev (dropWhile (\<lambda>c. c = CHR ''/'') (rev (dropWhile (\<lambda>c. c = CHR ''/'') t)))"

definition strip_last_slash :: "string \<Rightarrow> string" where
  "strip_last_slash t = (if t \<noteq> [] \<and> last t = CHR ''/'' then butlast t else t)"

definition raw_ext :: "string \<Rightarrow> string" where
  "raw_ext name = filter (\<lambda>c. alnum c \<or> c = CHR ''_'' \<or> c = CHR ''.'') (js_lower (extname name))"

definition ext_of_mime :: "string \<Rightarrow> string" where
  "ext_of_mime m =
    (if m = ''application/pdf'' then ''.pdf'' else if m = ''image/jpeg'' then ''.jpg''
     else if m = ''image/png'' then ''.png'' else if m = ''image/webp'' then ''.webp'' else [])"

record stored =
  so_storageKey :: string
  so_mimeType :: string
  so_sizeBytes :: int

definition uploadPrivate :: "storage_env \<Rightarrow> upload_file \<Rightarrow> string \<Rightarrow> bool \<Rightarrow> ('z store_db_scheme, stored) act" where
  "uploadPrivate env file keyPrefix asImage =
    thenA (guardA (uf_buffer file \<noteq> []) (BadRequest ''Empty file''))
    (let prefix = strip_slashes (backslashes keyPrefix);
         privatePrefix = (if js_starts PRIVATE_STORAGE_PREFIX prefix then prefix else PRIVATE_STORAGE_PREFIX @ prefix);
         image = (asImage \<or> js_starts ''image/'' (uf_mimetype file));
         mime = (if image then ''image/webp'' else non_empty_or (uf_mimetype file) ''application/octet-stream'');
         raw = raw_ext (uf_originalname file);
         ext = (if image then ''.webp'' else non_empty_or (ext_of_mime mime) (if length raw \<le> 8 then raw else [])) in
     bindA (if image then sumA (st_sharp env 1200 80 (uf_buffer file)) else returnA (uf_buffer file)) (\<lambda>body.
     bindA newIdA (\<lambda>uuid.
     let key = privatePrefix @ ''/'' @ uuid @ ext in
     thenA (if \<not> st_s3 env then thenA (putLocal env key body) (returnA ()) else putObject env key body)
       (returnA \<lparr>so_storageKey = key, so_mimeType = mime, so_sizeBytes = int (length body)\<rparr>))))"

definition public_folder :: "string \<Rightarrow> ('z, unit) act" where
  "public_folder folder =
    guardA (\<not> js_contains ''kyc'' (js_lower (backslashes folder))) (BadRequest ''KYC files must use private storage'')"

definition uploadImage :: "storage_env \<Rightarrow> upload_file \<Rightarrow> string \<Rightarrow> ('z store_db_scheme, string) act" where
  "uploadImage env file folder =
    thenA (guardA (uf_buffer file \<noteq> []) (BadRequest ''Empty file''))
    (thenA (public_folder folder)
    (bindA newIdA (\<lambda>uuid.
     let key = strip_last_slash folder @ ''/'' @ uuid @ ''.webp'' in
     bindA (sumA (st_sharp env 1200 80 (uf_buffer file))) (\<lambda>body.
     put_public env key body))))"

definition uploadFile :: "storage_env \<Rightarrow> upload_file \<Rightarrow> string \<Rightarrow> ('z store_db_scheme, string) act" where
  "uploadFile env file folder =
    thenA (guardA (uf_buffer file \<noteq> []) (BadRequest ''Empty file''))
    (thenA (public_folder folder)
    (let contentType = non_empty_or (uf_mimetype file) ''application/octet-stream'';
         raw = raw_ext (uf_originalname file);
         ext = (if contentType = ''application/pdf'' then ''.pdf''
           else if raw \<in> {''.pdf'', ''.jpg'', ''.jpeg'', ''.png'', ''.webp'', ''.gif'', ''.csv'', ''.txt''} then raw else []) in
     bindA newIdA (\<lambda>uuid. put_public env (strip_last_slash folder @ ''/'' @ uuid @ ext) (uf_buffer file))))"

definition uploadThumbnail :: "storage_env \<Rightarrow> upload_file \<Rightarrow> string \<Rightarrow> ('z store_db_scheme, string) act" where
  "uploadThumbnail env file folder =
    thenA (guardA (st_s3 env) (ServiceUnavailable ''Storage is not configured''))
    (bindA newIdA (\<lambda>uuid.
     let key = strip_last_slash folder @ ''/'' @ uuid @ ''.webp'' in
     bindA (sumA (st_sharp env 400 75 (uf_buffer file))) (\<lambda>body.
     thenA (putObject env key body) (returnA (object_url env key)))))"

text \<open>The upload address, the key and the public address.\<close>

definition getPresignedUploadUrl :: "storage_env \<Rightarrow> string \<Rightarrow> int \<Rightarrow> ('z store_db_scheme, string \<times> string \<times> string) act" where
  "getPresignedUploadUrl env folder expiresIn =
    bindA newIdA (\<lambda>uuid.
    let key = strip_last_slash folder @ ''/'' @ uuid @ ''.webp'' in
    returnA (if \<not> st_s3 env then (''/api/media/upload'', key, ''/uploads/'' @ key)
      else (st_presign env key expiresIn, key, object_url env key)))"

section \<open>Reading\<close>

text \<open>An address of the bucket, or key, time and signature of the route that streams local files.\<close>

datatype signed_url = Presigned string | LocalSigned string int string

definition signLocal :: "storage_env \<Rightarrow> string \<Rightarrow> string \<Rightarrow> string" where
  "signLocal env key expires = st_hmac env (key @ '':'' @ expires)"

definition getSignedUrl :: "storage_env \<Rightarrow> string \<Rightarrow> int \<Rightarrow> ('z core_db_scheme, signed_url) act" where
  "getSignedUrl env storageKey expiresIn =
    (let key = extractKeyFromUrl env storageKey in
     thenA (guardA (key \<noteq> []) (BadRequest ''Invalid storage key''))
     (if st_s3 env then returnA (Presigned (st_presign env key expiresIn))
      else bindA (getsA clock) (\<lambda>now.
        let expires = now div 1000 + expiresIn in returnA (LocalSigned key expires (signLocal env key (dec expires))))))"

text \<open>The text of a number: whole numbers in full below \<open>10 ^ 21\<close>.\<close>

definition number_text :: "storage_env \<Rightarrow> dbl \<Rightarrow> string" where
  "number_text env x =
    (if is_integer x \<and> \<bar>fst x div 2 ^ snd x\<bar> < 10 ^ 21 then dec (fst x div 2 ^ snd x) else st_numberText env x)"

definition verifyLocalSignedUrl :: "storage_env \<Rightarrow> int \<Rightarrow> string \<Rightarrow> string \<Rightarrow> string \<Rightarrow> exn + string" where
  "verifyLocalSignedUrl env now key expRaw sig =
    (let storageKey = extractKeyFromUrl env key in
     if storageKey = [] \<or> sig = [] \<or> expRaw = [] then Inl (Forbidden ''Invalid signed URL'')
     else case js_Number expRaw of
       Finite expires \<Rightarrow>
         if dbl_less_int expires (now div 1000) then Inl (Forbidden ''Signed URL expired'')
         else if signLocal env storageKey (number_text env expires) \<noteq> sig then Inl (Forbidden ''Invalid signed URL signature'')
         else Inr storageKey
     | _ \<Rightarrow> Inl (Forbidden ''Signed URL expired''))"

definition readObject :: "storage_env \<Rightarrow> string \<Rightarrow> ('z store_db_scheme, string) act" where
  "readObject env storageKey =
    (let key = extractKeyFromUrl env storageKey in
     thenA (guardA (key \<noteq> []) (NotFound ''Object not found''))
     (if \<not> st_s3 env then
        bindA (sumA (resolveLocalPath env key)) (\<lambda>full.
        bindA (getsA (\<lambda>s. files s full)) (\<lambda>body. someA body (NotFound ''Object not found'')))
      else bindA (getsA (\<lambda>s. objects s key)) (\<lambda>body. someA body (NotFound ''Object not found''))))"

definition openLocalReadStream :: "storage_env \<Rightarrow> string \<Rightarrow> ('z store_db_scheme, string) act" where
  "openLocalReadStream env storageKey =
    bindA (sumA (resolveLocalPath env storageKey)) (\<lambda>full.
    bindA (getsA (\<lambda>s. files s full)) (\<lambda>body. someA body (NotFound ''Object not found'')))"

section \<open>Deleting\<close>

text \<open>\<open>deleteImage\<close>: the key it removes, if any; a failure is logged and forgotten.\<close>

definition deleted_key :: "storage_env \<Rightarrow> string \<Rightarrow> string option" where
  "deleted_key env u =
    (if u = [] then None
     else if js_starts ''http'' u then
       map_option (\<lambda>path. let key = drop_slash path in
         if st_bucket env \<noteq> [] \<and> js_starts (st_bucket env @ ''/'') key then drop (length (st_bucket env) + 1) key else key)
         (st_pathname env u)
     else if js_starts ''/uploads/'' u then Some (drop 9 u) else Some u)"

definition delete_stored :: "storage_env \<Rightarrow> string \<Rightarrow> ('z store_db_scheme, unit) act" where
  "delete_stored env u =
    (case deleted_key env u of
      None \<Rightarrow> returnA ()
    | Some key \<Rightarrow>
        if \<not> st_s3 env then modifyA (files_update (\<lambda>m. m(join_path (st_localRoot env) key := None)))
        else modifyA (objects_update (\<lambda>m. m(key := None))))"

end
