(* ===== verification/Storage_Claims.thy ===== *)
theory Storage_Claims
  imports Storage Product_Claims "HOL-Library.Sublist"
begin

text \<open>
  What the storage guarantees: reads stay under the root of the uploads, private files have no public address,
  signed addresses open exactly what they were made for; deleting does not stay under the root.
\<close>

section \<open>Paths\<close>

lemma js_starts_iff: "js_starts p t \<longleftrightarrow> prefix p t"
  by (induction p t rule: js_starts.induct) auto

lemma split_on_no_sep: "x \<in> set (split_on c t) \<Longrightarrow> c \<notin> set x"
  by (induction c t arbitrary: x rule: split_on.induct) (fastforce split: if_splits list.splits)+

definition plain_name :: "string \<Rightarrow> bool" where
  "plain_name x \<longleftrightarrow> x \<noteq> [] \<and> x \<noteq> ''.'' \<and> x \<noteq> ''..'' \<and> CHR ''/'' \<notin> set x"

lemma walk_path_plain:
  "\<forall>x \<in> set dir. plain_name x \<Longrightarrow> \<forall>x \<in> set xs. CHR ''/'' \<notin> set x \<Longrightarrow> \<forall>x \<in> set (walk_path dir xs). plain_name x"
proof (induction dir xs rule: walk_path.induct)
  case (2 dir x xs)
  have up: "\<forall>y \<in> set (butlast dir). plain_name y" using 2(4) by (auto dest: in_set_butlastD)
  consider "x = [] \<or> x = ''.''" | "x \<noteq> []" "x \<noteq> ''.''" "x = ''..''" | "plain_name x"
    using 2(5) unfolding plain_name_def by fastforce
  then show ?case
  proof cases
    case 1
    with 2(1) [OF 1 2(4)] 2(5) show ?thesis by simp
  next
    case step: 2
    with 2(2) [OF _ _ up] 2(5) show ?thesis by simp
  next
    case 3
    then have "x \<noteq> []" "x \<noteq> ''.''" "x \<noteq> ''..''" by (auto simp: plain_name_def)
    with 2(3) 2(4,5) 3 show ?thesis by simp
  qed
qed simp

lemma join_path_plain: "\<forall>x \<in> set dir. plain_name x \<Longrightarrow> \<forall>x \<in> set (join_path dir key). plain_name x"
  unfolding join_path_def by (rule walk_path_plain) (auto dest: split_on_no_sep)

lemma path_text_head: "path_text p = [] \<or> (\<exists>t. path_text p = CHR ''/'' # t)"
  by (cases p) (auto simp: path_text_def)

lemma path_text_inside:
  "\<forall>x \<in> set dir. plain_name x \<Longrightarrow> \<forall>x \<in> set full. plain_name x \<Longrightarrow>
    prefix (path_text dir @ ''/'') (path_text full) \<or> path_text full = path_text dir \<Longrightarrow> \<exists>rest. full = dir @ rest"
proof (induction dir arbitrary: full)
  case (Cons d dir)
  show ?case
  proof (cases full)
    case Nil
    with Cons(4) show ?thesis by (auto simp: path_text_def)
  next
    case full: (Cons f fs)
    have d: "CHR ''/'' \<notin> set d" and f: "CHR ''/'' \<notin> set f" using Cons(2,3) full by (auto simp: plain_name_def)
    have cut: "takeWhile (\<lambda>c. c \<noteq> CHR ''/'') (x @ y) = x" if "CHR ''/'' \<notin> set x" "y = [] \<or> (\<exists>t. y = CHR ''/'' # t)" for x y
      using that by (induction x) auto
    have pt: "path_text (a # p) = CHR ''/'' # a @ path_text p" for a p by (simp add: path_text_def)
    obtain y where y: "f @ path_text fs = d @ y" "y = path_text dir \<or> (\<exists>z. y = path_text dir @ ''/'' @ z)"
    proof (cases "path_text full = path_text (d # dir)")
      case True
      then have "f @ path_text fs = d @ path_text dir" by (simp add: full pt)
      then show ?thesis by (rule that) simp
    next
      case False
      then obtain z where "path_text full = (path_text (d # dir) @ ''/'') @ z" using Cons(4) by (auto elim: prefixE)
      then have "f @ path_text fs = d @ (path_text dir @ ''/'' @ z)" by (simp add: full pt)
      then show ?thesis by (rule that) blast
    qed
    have "y = [] \<or> (\<exists>t. y = CHR ''/'' # t)" using y(2) path_text_head [of dir] by auto
    then have "f = d" using cut [OF f path_text_head [of fs]] cut [OF d, of y] y(1) by simp
    with y have "prefix (path_text dir @ ''/'') (path_text fs) \<or> path_text fs = path_text dir" by (auto simp: prefix_def)
    with Cons full have "\<exists>rest. fs = dir @ rest" by auto
    then show ?thesis using full \<open>f = d\<close> by simp
  qed
qed (simp add: path_text_def)

lemma resolve_inside:
  assumes "\<forall>x \<in> set (st_localRoot env). plain_name x" "resolveLocalPath env k = Inr full"
  shows "\<exists>rest. full = st_localRoot env @ rest \<and> (\<forall>x \<in> set rest. plain_name x)"
proof -
  have p: "\<forall>x \<in> set full. plain_name x"
    using assms join_path_plain by (auto simp: resolveLocalPath_def Let_def split: if_splits)
  have "prefix (path_text (st_localRoot env) @ ''/'') (path_text full) \<or> path_text full = path_text (st_localRoot env)"
    using assms(2) by (auto simp: resolveLocalPath_def Let_def js_starts_iff split: if_splits)
  from path_text_inside [OF assms(1) p this] p show ?thesis by auto
qed

text \<open>Climbing out of a directory.\<close>

lemma split_on_append: "split_on c (x @ c # t) = split_on c x @ split_on c t"
proof (induction x)
  case (Cons a x)
  have "split_on c x \<noteq> []" by (induction x) (auto split: list.splits)
  with Cons show ?case by (cases "split_on c x") auto
qed simp

lemma split_on_plain: "c \<notin> set x \<Longrightarrow> split_on c x = [x]"
  by (induction x) auto

lemma split_path_text: "\<forall>x \<in> set p. plain_name x \<Longrightarrow> split_on CHR ''/'' (t @ path_text p) = split_on CHR ''/'' t @ p"
proof (induction p arbitrary: t)
  case (Cons x p)
  have x: "split_on CHR ''/'' x = [x]" using Cons(2) by (auto simp: plain_name_def intro: split_on_plain)
  have "split_on CHR ''/'' (t @ path_text (x # p)) = split_on CHR ''/'' t @ split_on CHR ''/'' (x @ path_text p)"
    by (simp add: path_text_def split_on_append)
  also have "split_on CHR ''/'' (x @ path_text p) = x # p" using Cons x by simp
  finally show ?case .
qed (simp add: path_text_def)

definition ups :: "nat \<Rightarrow> string" where
  "ups n = concat (replicate n ''../'')"

lemma split_ups: "split_on CHR ''/'' (ups n @ t) = replicate n ''..'' @ split_on CHR ''/'' t"
proof (induction n)
  case (Suc n)
  have "split_on CHR ''/'' (''..'' @ CHR ''/'' # ups n @ t) = split_on CHR ''/'' ''..'' @ split_on CHR ''/'' (ups n @ t)"
    by (rule split_on_append)
  with Suc show ?case by (simp add: ups_def)
qed (simp add: ups_def)

lemma walk_path_ups: "walk_path dir (replicate (length dir) ''..'' @ xs) = walk_path [] xs"
proof (induction dir rule: rev_induct)
  case (snoc x dir)
  then show ?case by simp
qed simp

lemma walk_path_names: "\<forall>x \<in> set xs. plain_name x \<Longrightarrow> walk_path dir xs = dir @ xs"
  by (induction dir xs rule: walk_path.induct) (auto simp: plain_name_def)

lemma climbing:
  assumes "\<forall>x \<in> set p. plain_name x"
  shows "join_path dir (ups (length dir) @ tl (path_text (x # p))) = walk_path [] (split_on CHR ''/'' x @ p)"
  using assms by (simp add: join_path_def split_ups walk_path_ups path_text_def split_path_text [unfolded path_text_def])

section \<open>Reading and deleting\<close>

text \<open>
  C31.  Reading stays inside, deleting does not.  What is read from the local disk lies under the root of the
  uploads, whatever key is asked for.  But the address of a product's picture is any text its merchant sends,
  and the update that replaces it deletes the file it leads to: for every file of the disk there is such an
  address.
\<close>

theorem reads_inside_deletes_outside:
  fixes s :: "'z store_db_scheme"
  assumes disk: "\<not> st_s3 env" "\<forall>x \<in> set (st_localRoot env). plain_name x"
    and target: "target \<noteq> []" "\<forall>x \<in> set target. plain_name x"
    and url: "url = ''/uploads/'' @ ups (length (st_localRoot env)) @ tl (path_text target)"
    and prod: "find_row (\<lambda>p. in_tenant (ce_tenant cenv) p \<and> p_id p = i) (products s) = Some p" "p_imageUrl p = Some url"
    and may: "is_admin user \<or> (user_role user = MERCHANT \<and> user_shopId user = Some (p_shopId p))"
    and dto: "up_imageUrl dto = Some new" "trim_or_null new \<noteq> Some url"
  shows "(\<forall>k body t t'. readObject env k (t :: 'z store_db_scheme) = (Inr body, t') \<longrightarrow>
      t' = t \<and> (\<exists>rest. files t (st_localRoot env @ rest) = Some body \<and> (\<forall>x \<in> set rest. plain_name x))) \<and>
    url \<in> set (deleted_files (snd (updateProduct cenv user i dto s))) \<and>
    files (snd (delete_stored env url s)) target = None"
proof -
  have read: "t' = t \<and> (\<exists>rest. files t (st_localRoot env @ rest) = Some body \<and> (\<forall>x \<in> set rest. plain_name x))"
    if r: "readObject env k t = (Inr body, t')" for k body and t t' :: "'z store_db_scheme"
  proof -
    obtain full where full: "resolveLocalPath env (extractKeyFromUrl env k) = Inr full" "files t full = Some body" "t' = t"
      using r disk(1) by (auto simp: readObject_def Let_def ok_simps sumA_def split: sum.splits)
    from resolve_inside [OF disk(2) full(1)] full show ?thesis by auto
  qed
  obtain x xs where target': "target = x # xs" using target(1) by (cases target) auto
  have "split_on CHR ''/'' x = [x]" using target(2) target' by (auto simp: plain_name_def intro: split_on_plain)
  then have "join_path (st_localRoot env) (ups (length (st_localRoot env)) @ tl (path_text target)) = target"
    using climbing [of xs "st_localRoot env" x] target(2) target' walk_path_names [of target "[]"] by simp
  moreover have "deleted_key env url = Some (ups (length (st_localRoot env)) @ tl (path_text target))"
    by (simp add: deleted_key_def url)
  ultimately have del: "files (snd (delete_stored env url s)) target = None"
    using disk(1) by (simp add: delete_stored_def modifyA_def)
  have allowed: "assertCanWriteShop user (p_shopId p) t = (Inr (), t)" for t :: "'z store_db_scheme"
    using may by (auto simp: assertCanWriteShop_def returnA_def)
  have first: "product_by (ce_tenant cenv) (\<lambda>p. p_id p = i) s = (Inr (Some p), s)"
    using prod(1) by (simp add: product_by_def getsA_def)
  have "url \<noteq> []" by (simp add: url)
  then have image: "whenA (up_imageUrl dto \<noteq> None \<and> truthy (p_imageUrl p) \<and> p_imageUrl p \<noteq> trim_or_null (upd (up_imageUrl dto) None))
      (deleteImage (the (p_imageUrl p))) s = (Inr (), deleted_files_update (\<lambda>t. t @ [url]) s)"
    using prod(2) dto by (auto simp: whenA_def deleteImage_def modifyA_def upd_def)
  define rest :: "('z store_db_scheme, product_row) act" where "rest = bindA (write_product (ce_tenant cenv) i (product_patch dto)) (\<lambda>p.
     thenA (auditA (Some (sub user)) (if up_status dto \<noteq> None then ''STATUS_CHANGE'' else ''UPDATE'') ''Product'' (Some i))
     (thenA (invalidateCatalogCache cenv)
     (thenA (scheduleSearchIndex cenv i (if p_status p = PR_ACTIVE then SA_index else SA_remove) True)
     (thenA (emitA ''product.updated'' i) (returnA p)))))"
  have "updateProduct cenv user i dto s = rest (deleted_files_update (\<lambda>t. t @ [url]) s)"
    using first allowed image
    by (simp add: updateProduct_def rest_def bindA_def thenA_def someA_def returnA_def)
  moreover have "keeps (\<lambda>t. url \<in> set (deleted_files t)) rest"
    unfolding rest_def write_product_def product_by_def invalidateCatalogCache_def cache_delByPrefix_def scheduleSearchIndex_def searchA_def
    by (intro keeps_steps keeps_auditA keeps_emitA keeps_modify keeps_prod) simp_all
  ultimately have "url \<in> set (deleted_files (snd (updateProduct cenv user i dto s)))"
    by (auto simp: keeps_def)
  with read del show ?thesis by blast
qed

text \<open>A disk with one secret file beside the uploads.\<close>

definition demo_storage :: storage_env where
  "demo_storage = \<lparr>st_localRoot = [''app'', ''uploads''], st_s3 = False, st_bucket = [], st_publicUrl = [], st_endpoint = [],
    st_sharp = (\<lambda>n q b. Inr b), st_putObject = (\<lambda>k. None), st_pathname = (\<lambda>u. None), st_hmac = (\<lambda>t. CHR ''#'' # t),
    st_presign = (\<lambda>k n. k), st_numberText = (\<lambda>x. ''.'')\<rparr>"

definition climbing_item :: product_row where
  "climbing_item = demo_item ''p1'' ''s1''\<lparr>p_imageUrl := Some (''/uploads/'' @ ups 2 @ tl (path_text [''etc'', ''passwd'']))\<rparr>"

definition demo_disk :: store_db where
  "demo_disk = product_db.extend demo_shelf
    \<lparr>files = [[''etc'', ''passwd''] \<mapsto> ''secret''], objects = Map.empty\<rparr>\<lparr>products := [climbing_item]\<rparr>"

definition demo_update :: update_product where
  "demo_update = \<lparr>up_name = None, up_slug = None, up_description = None, up_sku = None, up_gtin = None, up_price = None,
    up_priceCents = None, up_currency = None, up_stock = None, up_categoryId = None, up_imageUrl = Some None,
    up_brand = None, up_moq = None, up_status = None\<rparr>"

theorem reads_inside_deletes_outside_witness:
  "\<exists>url. url \<in> set (deleted_files (snd (updateProduct demo_catalog demo_merchant ''p1'' demo_update demo_disk))) \<and>
    files demo_disk [''etc'', ''passwd''] = Some ''secret'' \<and>
    files (snd (delete_stored demo_storage url demo_disk)) [''etc'', ''passwd''] = None"
proof -
  have env: "\<not> st_s3 demo_storage" "\<forall>x \<in> set (st_localRoot demo_storage). plain_name x" "length (st_localRoot demo_storage) = 2"
    by (simp_all add: demo_storage_def plain_name_def)
  have prod: "find_row (\<lambda>p. in_tenant (ce_tenant demo_catalog) p \<and> p_id p = ''p1'') (products demo_disk) = Some climbing_item"
    by (simp add: demo_disk_def climbing_item_def demo_item_def demo_product_def in_tenant_def demo_catalog_def)
  have may: "is_admin demo_merchant \<or> (user_role demo_merchant = MERCHANT \<and> user_shopId demo_merchant = Some (p_shopId climbing_item))"
    by (simp add: demo_merchant_def climbing_item_def demo_item_def demo_product_def)
  note reads_inside_deletes_outside [OF env(1,2), of "[''etc'', ''passwd'']", OF _ _ refl prod _ may, of demo_update None]
  moreover have "\<forall>x \<in> set [''etc'', ''passwd'']. plain_name x" by (simp add: plain_name_def)
  ultimately show ?thesis
    by (simp add: env climbing_item_def demo_update_def trim_or_null_def demo_disk_def product_db.defs) blast
qed

section \<open>Signed addresses\<close>

lemma dec_nat_digits: "c \<in> set (dec_nat n) \<Longrightarrow> digit c"
proof (induction n rule: dec_nat.induct)
  case (1 n)
  have d: "digit (char_of (48 + m))" if "m < 10" for m :: nat
    using that by (simp add: digit_def Let_def)
  show ?case
  proof (cases "n < 10")
    case True
    then show ?thesis using 1(2) d by (subst (asm) dec_nat.simps) simp
  next
    case False
    then show ?thesis using 1 d [of "n mod 10"] by (subst (asm) (2) dec_nat.simps) auto
  qed
qed

lemma undec_dec_nat: "undec (dec_nat n) = int n"
proof (induction n rule: dec_nat.induct)
  case (1 n)
  show ?case
  proof (cases "n < 10")
    case True
    then show ?thesis by (subst dec_nat.simps) (simp add: undec_def)
  next
    case False
    then have "undec (dec_nat n) = 10 * undec (dec_nat (n div 10)) + int (n mod 10)"
      by (subst dec_nat.simps) (simp add: undec_def)
    then show ?thesis using 1 False by (simp add: zdiv_int zmod_int)
  qed
qed

lemma fl_frac_whole:
  assumes "0 \<le> n"
  obtains k where "fl_frac n 1 = (n * 2 ^ k, k)"
proof (cases "n = 0")
  case True
  then have "fl_frac n 1 = (n * 2 ^ 0, 0)" by (simp add: fl_frac_def)
  then show ?thesis by (rule that)
next
  case False
  have "round_even m 1 = m" for m using round_even_exact [of 1 m] by simp
  then have "fl_frac n 1 \<in> {(n * 2 ^ k, k) | k. True}"
    using assms False by (auto simp: fl_frac_def fl_pos_def Let_def)
  then show ?thesis using that by blast
qed

lemma Number_dec:
  assumes "0 \<le> n" "n < 2 ^ 53"
  obtains k where "js_Number (dec n) = Finite (n * 2 ^ k, k)"
proof -
  define t where "t = dec_nat (nat n)"
  have t: "dec n = t" "t \<noteq> []" "\<forall>c \<in> set t. digit c" "undec t = n"
    using assms by (auto simp: t_def dec_def dec_nat_digits undec_dec_nat)
  have nd: "\<not> digit c" if "c \<in> {CHR ''-'', CHR ''+'', CHR ''x'', CHR ''o'', CHR ''b'', CHR ''I'', CHR '' '', CHR 0x09, CHR 0x0A, CHR 0x0B, CHR 0x0C, CHR 0x0D}" for c
    using that by (auto simp: digit_def)
  have space: "\<not> js_space c" if "c \<in> set t" for c using t(3) that nd by (auto simp: js_space_def)
  have dw: "dropWhile js_space u = u" if "set u \<subseteq> set t" for u
    using that space by (cases u) auto
  have trim: "js_trim t = t" by (simp add: js_trim_def dw)
  have lower: "js_lower_char c = c" if "digit c" for c
    using that by (auto simp: digit_def js_lower_char_def Let_def)
  obtain c u where cu: "t = c # u" "digit c" using t(2,3) by (cases t) auto
  have pre: "js_lower (take 2 t) \<noteq> [CHR ''0'', x]" if "x \<in> {CHR ''x'', CHR ''o'', CHR ''b''}" for x
  proof (cases u)
    case Nil
    then show ?thesis by (simp add: cu js_lower_def)
  next
    case (Cons d v)
    then have "digit d" using t(3) cu by simp
    then show ?thesis using that nd [of d] lower [of d] cu Cons by (auto simp: js_lower_def)
  qed
  have whole: "takeWhile digit t = t" "dropWhile digit t = []" using t(3) by simp_all
  obtain k where k: "fl_frac n 1 = (n * 2 ^ k, k)" using fl_frac_whole [OF assms(1)] .
  have big: "(2 :: int) ^ 53 \<le> 2 ^ 1024" by (rule power_increasing) simp_all
  have inf: "t \<noteq> ''Infinity''" using cu nd by auto
  have "js_Number t = unsigned_number False t"
    using pre [of "CHR ''x''"] pre [of "CHR ''o''"] pre [of "CHR ''b''"] cu nd trim
    by (auto simp: js_Number_def Let_def)
  also have "\<dots> = decimal_number False n 0"
    using inf t(2,4) by (simp add: unsigned_number_def exponent_of_def Let_def whole)
  also have "\<dots> = Finite (n * 2 ^ k, k)"
    using assms(2) big k by (simp add: decimal_number_def)
  finally show ?thesis using that t(1) by simp
qed

text \<open>Texts of numbers that are not whole have a point or an exponent, and no colon.\<close>

definition prints_numbers :: "storage_env \<Rightarrow> bool" where
  "prints_numbers env \<longleftrightarrow>
    (\<forall>x. set (st_numberText env x) \<inter> {CHR ''.'', CHR ''e''} \<noteq> {} \<and> CHR '':'' \<notin> set (st_numberText env x))"

lemma prints_numbersD:
  "prints_numbers env \<Longrightarrow> CHR '':'' \<notin> set (st_numberText env x)"
  "prints_numbers env \<Longrightarrow> \<exists>c \<in> set (st_numberText env x). c = CHR ''.'' \<or> c = CHR ''e''"
  unfolding prints_numbers_def by blast+

lemma last_colon:
  "xs @ c # ys = xs' @ c # ys' \<Longrightarrow> c \<notin> set ys \<Longrightarrow> c \<notin> set ys' \<Longrightarrow> xs = xs' \<and> ys = ys'"
  for c :: char
proof -
  assume eq: "xs @ c # ys = xs' @ c # ys'" and c: "c \<notin> set ys" "c \<notin> set ys'"
  from arg_cong [OF eq, of rev] have rev: "rev ys @ c # rev xs = rev ys' @ c # rev xs'" by simp
  have cut: "takeWhile (\<lambda>d. d \<noteq> c) (rev u @ c # v) = rev u" if "c \<notin> set u" for u v
    using that by (subst takeWhile_append2) auto
  have "rev ys = rev ys'" using cut [OF c(1), of "rev xs"] cut [OF c(2), of "rev xs'"] rev by simp
  with rev show ?thesis by simp
qed

lemma dec_digits: "0 \<le> n \<Longrightarrow> c \<in> set (dec n) \<Longrightarrow> digit c"
  using dec_nat_digits by (auto simp: dec_def)

lemma dec_colon: "CHR '':'' \<notin> set (dec n)"
proof -
  have "CHR '':'' \<notin> set (dec_nat m)" for m using dec_nat_digits [of "CHR '':''" m] by (auto simp: digit_def)
  then show ?thesis by (simp add: dec_def)
qed

lemma dec_inj: "0 \<le> e \<Longrightarrow> dec v = dec e \<Longrightarrow> v = e"
proof -
  assume e: "0 \<le> e" and eq: "dec v = dec e"
  have "\<not> v < 0"
  proof
    assume "v < 0"
    then have "CHR ''-'' \<in> set (dec e)" using eq [symmetric] by (simp add: dec_def)
    from dec_digits [OF e this] show False by (simp add: digit_def)
  qed
  with e eq injD [OF inj_dec_nat, of "nat v" "nat e"] show ?thesis by (simp add: dec_def)
qed

lemma number_text_dec:
  assumes "prints_numbers env" "0 \<le> e" "number_text env x = dec e"
  shows "fst x = e * 2 ^ snd x"
proof (cases "is_integer x \<and> \<bar>fst x div 2 ^ snd x\<bar> < 10 ^ 21")
  case True
  then have "fst x div 2 ^ snd x = e" using assms(3) dec_inj [OF assms(2)] by (simp add: number_text_def)
  moreover have "fst x mod 2 ^ snd x = 0" using True by (simp add: is_integer_def)
  ultimately show ?thesis by (metis add.right_neutral div_mult_mod_eq)
next
  case False
  then have "st_numberText env x = dec e" using assms(3) by (auto simp: number_text_def)
  moreover obtain c where "c \<in> set (st_numberText env x)" "c = CHR ''.'' \<or> c = CHR ''e''"
    using prints_numbersD(2) [OF assms(1)] by blast
  ultimately have False using dec_digits [OF assms(2), of c] by (auto simp: digit_def)
  then show ?thesis ..
qed

text \<open>
  C32.  A signed address of a local file opens exactly that file: until its time is over it is accepted for the
  key it was made for, afterwards it is refused, and no other key, time or spelling of them is accepted with its
  signature for another file or for longer.  The hash is taken as free of collisions.
\<close>

theorem signed_url_exact:
  assumes local: "\<not> st_s3 env" and hash: "inj (st_hmac env)" "\<forall>t. st_hmac env t \<noteq> []" and numbers: "prints_numbers env"
    and key: "extractKeyFromUrl env k = k" and time: "0 \<le> clock s" "0 \<le> ttl" "clock s div 1000 + ttl < 2 ^ 53"
    and made: "getSignedUrl env k ttl s = (Inr (LocalSigned k' e sig), s')"
  shows "k' = k \<and> s' = s \<and> e = clock s div 1000 + ttl \<and>
    (\<forall>now. verifyLocalSignedUrl env now k' (dec e) sig =
      (if e < now div 1000 then Inl (Forbidden ''Signed URL expired'') else Inr k)) \<and>
    (\<forall>now k2 e2 k3. verifyLocalSignedUrl env now k2 e2 sig = Inr k3 \<longrightarrow> k3 = k \<and> now div 1000 \<le> e)"
proof -
  have m: "k' = k" "s' = s" "e = clock s div 1000 + ttl" "sig = signLocal env k (dec e)" "k \<noteq> []"
    using made local key by (auto simp: getSignedUrl_def Let_def ok_simps)
  have e: "0 \<le> e" "e < 2 ^ 53" using time m(3) by auto
  obtain n where n: "js_Number (dec e) = Finite (e * 2 ^ n, n)" using Number_dec [OF e] .
  have sig: "sig \<noteq> []" using m(4) hash(2) by (simp add: signLocal_def)
  have "dec e \<noteq> []" by (simp add: dec_def)
  moreover have "number_text env (e * 2 ^ n, n) = dec e" using e by (simp add: number_text_def is_integer_def)
  ultimately have own: "verifyLocalSignedUrl env now k' (dec e) sig =
      (if e < now div 1000 then Inl (Forbidden ''Signed URL expired'') else Inr k)" for now
    using sig m key n by (simp add: verifyLocalSignedUrl_def Let_def dbl_less_int_def)
  have other: "k3 = k \<and> now div 1000 \<le> e" if v: "verifyLocalSignedUrl env now k2 e2 sig = Inr k3" for now k2 e2 k3
  proof -
    obtain x where x: "k3 = extractKeyFromUrl env k2" "\<not> dbl_less_int x (now div 1000)" "signLocal env k3 (number_text env x) = sig"
      using v by (auto simp: verifyLocalSignedUrl_def Let_def split: if_splits js_number.splits)
    then have eq: "k3 @ CHR '':'' # number_text env x = k @ CHR '':'' # dec e"
      using m(4) injD [OF hash(1)] by (simp add: signLocal_def)
    have "CHR '':'' \<notin> set (number_text env x)"
      using prints_numbersD(1) [OF numbers] dec_colon by (simp add: number_text_def)
    with last_colon [OF eq] dec_colon have "k3 = k" "number_text env x = dec e" by auto
    with number_text_dec [OF numbers e(1)] x(2) show ?thesis by (simp add: dbl_less_int_def not_less)
  qed
  show ?thesis using m own other by blast
qed

theorem signed_url_exact_witness:
  "\<exists>sig. getSignedUrl demo_storage ''private/a'' 180 demo_db = (Inr (LocalSigned ''private/a'' 181 sig), demo_db) \<and>
    verifyLocalSignedUrl demo_storage 180000 ''private/a'' (dec 181) sig = Inr ''private/a'' \<and>
    verifyLocalSignedUrl demo_storage 182000 ''private/a'' (dec 181) sig = Inl (Forbidden ''Signed URL expired'')"
proof -
  have pre: "\<not> st_s3 demo_storage" "inj (st_hmac demo_storage)" "\<forall>t. st_hmac demo_storage t \<noteq> []" "prints_numbers demo_storage"
      "extractKeyFromUrl demo_storage ''private/a'' = ''private/a''"
    by (auto simp: demo_storage_def inj_def prints_numbers_def extractKeyFromUrl_def backslashes_def)
  have now: "clock demo_db = 1000" by (simp add: demo_db_def)
  have made: "getSignedUrl demo_storage ''private/a'' 180 demo_db =
      (Inr (LocalSigned ''private/a'' 181 (signLocal demo_storage ''private/a'' (dec 181))), demo_db)"
    using pre now by (simp add: getSignedUrl_def ok_simps Let_def)
  show ?thesis using signed_url_exact [OF pre _ _ _ made] made now by auto
qed

end
