(* ===== verification/Notify.thy ===== *)
theory Notify
  imports Storage
begin

text \<open>
  Notifications: \<open>notifications/notifications.service.ts\<close> and the workers of its queues
  (\<open>jobs/processors/notification.processor.ts\<close>, \<open>email.processor.ts\<close>).  A notification has one delivery per
  channel.  The gateway of web sockets is the list of what was pushed, the queue of mails the list of its jobs;
  whether they are there and whether the queue takes a job is given.
\<close>

section \<open>State\<close>

datatype notification_type =
    NT_ORDER_CREATED | NT_ORDER_PAID | NT_ORDER_SHIPPED | NT_ORDER_CANCELLED | NT_ORDER_STATUS | NT_RFQ_CREATED
  | NT_RFQ_OFFER_RECEIVED | NT_RFQ_AWARDED | NT_RFQ_NEW | NT_RFQ_RESPONSE | NT_PAYOUT_REQUESTED | NT_PAYOUT_COMPLETED
  | NT_PAYOUT | NT_KYC_APPROVED | NT_KYC_REJECTED | NT_PASSWORD_CHANGED | NT_INVITE | NT_SYSTEM

definition notification_types :: "(string \<times> notification_type) list" where
  "notification_types = [(''ORDER_CREATED'', NT_ORDER_CREATED), (''ORDER_PAID'', NT_ORDER_PAID),
    (''ORDER_SHIPPED'', NT_ORDER_SHIPPED), (''ORDER_CANCELLED'', NT_ORDER_CANCELLED), (''ORDER_STATUS'', NT_ORDER_STATUS),
    (''RFQ_CREATED'', NT_RFQ_CREATED), (''RFQ_OFFER_RECEIVED'', NT_RFQ_OFFER_RECEIVED), (''RFQ_AWARDED'', NT_RFQ_AWARDED),
    (''RFQ_NEW'', NT_RFQ_NEW), (''RFQ_RESPONSE'', NT_RFQ_RESPONSE), (''PAYOUT_REQUESTED'', NT_PAYOUT_REQUESTED),
    (''PAYOUT_COMPLETED'', NT_PAYOUT_COMPLETED), (''PAYOUT'', NT_PAYOUT), (''KYC_APPROVED'', NT_KYC_APPROVED),
    (''KYC_REJECTED'', NT_KYC_REJECTED), (''PASSWORD_CHANGED'', NT_PASSWORD_CHANGED), (''INVITE'', NT_INVITE),
    (''SYSTEM'', NT_SYSTEM)]"

datatype channel = IN_APP | EMAIL

record notification_row =
  n_id :: string
  n_tenantId :: "string option"
  n_userId :: string
  n_type :: notification_type
  n_title :: string
  n_message :: string
  n_data :: payload
  n_link :: "string option"
  n_isRead :: bool
  n_readAt :: "int option"

record delivery_row =
  nd_id :: string
  nd_notificationId :: string
  nd_channel :: channel
  nd_status :: string
  nd_sentAt :: "int option"
  nd_error :: "string option"

record email_job =
  em_to :: string
  em_subject :: string
  em_body :: string
  em_notificationId :: string
  em_deliveryId :: "string option"

text \<open>A push is the user and the notification.\<close>

record notify_db = store_db +
  notifications :: "notification_row list"
  deliveries :: "delivery_row list"
  pushes :: "(string \<times> string) list"
  email_jobs :: "email_job list"

text \<open>The queue is missing, or answers a job with a failure or takes it.\<close>

record notify_env =
  ne_emails :: "(email_job \<Rightarrow> exn option) option"
  ne_gateway :: bool

record notify_params =
  np_userId :: string
  np_type :: string
  np_title :: string
  np_body :: "string option"
  np_data :: payload
  np_channels :: "channel list option"
  np_tenantId :: "string option"
  np_link :: "string option"

section \<open>Sending\<close>

definition toNotificationType :: "string \<Rightarrow> notification_type" where
  "toNotificationType t =
    (case map_of notification_types t of
      Some ty \<Rightarrow> ty
    | None \<Rightarrow> (case map_of notification_types (js_upper t) of Some ty \<Rightarrow> ty | None \<Rightarrow> NT_SYSTEM))"

definition DEFAULT_CHANNELS :: "channel list" where "DEFAULT_CHANNELS = [IN_APP, EMAIL]"

definition update_delivery :: "string \<Rightarrow> (delivery_row \<Rightarrow> delivery_row) \<Rightarrow> ('z notify_db_scheme, unit) act" where
  "update_delivery i f = updateA deliveries deliveries_update (\<lambda>d. nd_id d = i) f"

definition deliveries_of :: "string \<Rightarrow> 'z notify_db_scheme \<Rightarrow> delivery_row list" where
  "deliveries_of i s = filter (\<lambda>d. nd_notificationId d = i) (deliveries s)"

definition mark_sent :: "string \<Rightarrow> ('z notify_db_scheme, unit) act" where
  "mark_sent i = bindA (getsA clock) (\<lambda>now. update_delivery i (\<lambda>d. d\<lparr>nd_status := ''sent'', nd_sentAt := Some now\<rparr>))"

text \<open>The row with its deliveries, in one statement; the user and the tenant are foreign keys.\<close>

definition create_notification :: "notify_params \<Rightarrow> ('z notify_db_scheme, notification_row) act" where
  "create_notification q =
    bindA newIdA (\<lambda>i.
    bindA (mapA (if np_channels q = None \<or> np_channels q = Some [] then DEFAULT_CHANNELS else the (np_channels q))
      (\<lambda>c. bindA newIdA (\<lambda>j. returnA \<lparr>nd_id = j, nd_notificationId = i, nd_channel = c, nd_status = ''pending'',
        nd_sentAt = None, nd_error = None\<rparr>))) (\<lambda>ds.
    let row = \<lparr>n_id = i, n_tenantId = np_tenantId q, n_userId = np_userId q, n_type = toNotificationType (np_type q),
      n_title = np_title q, n_message = (case np_body q of Some b \<Rightarrow> b | None \<Rightarrow> []), n_data = np_data q,
      n_link = np_link q, n_isRead = False, n_readAt = None\<rparr> in
    bindA (getsA (\<lambda>s. list_ex (\<lambda>u. us_id u = np_userId q) (users s) \<and>
      (case np_tenantId q of None \<Rightarrow> True | Some t \<Rightarrow> list_ex (\<lambda>x. tn_id x = t) (tenants s)))) (\<lambda>known.
    thenA (guardA known (PrismaError ''P2003''))
    (thenA (createA notifications_update row)
    (thenA (modifyA (deliveries_update (\<lambda>t. t @ ds))) (returnA row))))))"

definition pushA :: "notify_env \<Rightarrow> string \<Rightarrow> string \<Rightarrow> ('z notify_db_scheme, unit) act" where
  "pushA env userId i = whenA (ne_gateway env) (modifyA (pushes_update (\<lambda>t. t @ [(userId, i)])))"

definition add_email :: "(email_job \<Rightarrow> exn option) \<Rightarrow> email_job \<Rightarrow> ('z notify_db_scheme, unit) act" where
  "add_email queue job =
    (case queue job of Some e \<Rightarrow> throwA e | None \<Rightarrow> modifyA (email_jobs_update (\<lambda>t. t @ [job])))"

definition channel_of :: "channel \<Rightarrow> delivery_row \<Rightarrow> bool" where
  "channel_of c d \<longleftrightarrow> nd_channel d = c"

text \<open>The mail of a notification: to the queue, or logged, or without an address.\<close>

definition send_email :: "notify_env \<Rightarrow> notify_params \<Rightarrow> notification_row \<Rightarrow> delivery_row \<Rightarrow> ('z notify_db_scheme, unit) act" where
  "send_email env q row d =
    catchA
     (bindA (user_by (\<lambda>u. us_id u = np_userId q)) (\<lambda>found.
      case or_else (map_option us_email found) None of
        Some to \<Rightarrow>
          (case ne_emails env of
            Some queue \<Rightarrow> add_email queue
              \<lparr>em_to = to, em_subject = np_title q,
               em_body = join_with [CHR 0x0A] (filter (\<lambda>t. t \<noteq> [])
                 [np_title q, [], n_message row, if truthy (np_link q) then CHR 0x0A # the (np_link q) else []]),
               em_notificationId = n_id row, em_deliveryId = Some (nd_id d)\<rparr>
          | None \<Rightarrow> mark_sent (nd_id d))
      | None \<Rightarrow>
          bindA (getsA clock) (\<lambda>now. update_delivery (nd_id d)
            (\<lambda>d. d\<lparr>nd_status := ''failed'', nd_error := Some ''no user email'', nd_sentAt := Some now\<rparr>))))
     (\<lambda>e. update_delivery (nd_id d) (\<lambda>d. d\<lparr>nd_status := ''failed'', nd_error := Some (take 500 (exn_message e))\<rparr>))"

definition notify :: "notify_env \<Rightarrow> notify_params \<Rightarrow> ('z notify_db_scheme, notification_row option) act" where
  "notify env q =
    (if np_userId q = [] then returnA None
     else
       bindA (create_notification q) (\<lambda>row.
       bindA (getsA (deliveries_of (n_id row))) (\<lambda>ds.
       thenA (case find_row (channel_of IN_APP) ds of
           None \<Rightarrow> returnA ()
         | Some d \<Rightarrow> thenA (mark_sent (nd_id d)) (pushA env (np_userId q) (n_id row)))
       (thenA (case find_row (channel_of EMAIL) ds of None \<Rightarrow> returnA () | Some d \<Rightarrow> send_email env q row d)
         (getsA (\<lambda>s. find_row (\<lambda>n. n_id n = n_id row) (notifications s)))))))"

text \<open>\<open>create\<close>; \<open>body\<close> and \<open>message\<close> are two names of the text.\<close>

record create_notify = notify_params +
  np_message :: "string option"
  np_sendEmail :: "bool option"

definition create_and_notify :: "notify_env \<Rightarrow> create_notify \<Rightarrow> ('z notify_db_scheme, notification_row option) act" where
  "create_and_notify env q =
    notify env \<lparr>np_userId = np_userId q, np_type = np_type q, np_title = np_title q,
      np_body = (case np_body q of Some b \<Rightarrow> Some b | None \<Rightarrow> (case np_message q of Some m \<Rightarrow> Some m | None \<Rightarrow> Some [])),
      np_data = np_data q,
      np_channels = (case np_channels q of
         Some cs \<Rightarrow> Some cs
       | None \<Rightarrow> Some (if np_sendEmail q = Some False then [IN_APP] else [IN_APP, EMAIL])),
      np_tenantId = np_tenantId q, np_link = np_link q\<rparr>"

text \<open>The worker's delivery of a stored notification.\<close>

definition deliver :: "notify_env \<Rightarrow> string \<Rightarrow> bool \<Rightarrow> ('z notify_db_scheme, bool) act" where
  "deliver env notificationId sendEmail =
    bindA (getsA (\<lambda>s. find_row (\<lambda>n. n_id n = notificationId) (notifications s))) (\<lambda>found.
    case found of
      None \<Rightarrow> returnA False
    | Some n \<Rightarrow>
        bindA (getsA (deliveries_of notificationId)) (\<lambda>ds.
        bindA (user_by (\<lambda>u. us_id u = n_userId n)) (\<lambda>user.
        thenA (pushA env (n_userId n) notificationId)
        (thenA (forA (filter (\<lambda>d. nd_channel d = IN_APP \<and> nd_status d = ''pending'') ds) (\<lambda>d. mark_sent (nd_id d)))
        (thenA (if sendEmail \<and> truthy (map_option us_email user)
           then (case ne_emails env of
              Some queue \<Rightarrow> add_email queue
                \<lparr>em_to = us_email (the user), em_subject = n_title n,
                 em_body = join_with [CHR 0x0A] [n_title n, [], n_message n, if truthy (n_link n) then CHR 0x0A # the (n_link n) else []],
                 em_notificationId = notificationId, em_deliveryId = None\<rparr>
            | None \<Rightarrow>
                (case find_row (channel_of EMAIL) ds of
                   Some d \<Rightarrow> if nd_status d = ''pending'' then mark_sent (nd_id d) else returnA ()
                 | None \<Rightarrow> returnA ()))
           else returnA ())
          (returnA True))))))"

text \<open>\<open>notifyShopOwners\<close>.\<close>

definition notifyShopOwners :: "notify_env \<Rightarrow> string \<Rightarrow> create_notify \<Rightarrow> ('z notify_db_scheme, notification_row option list) act" where
  "notifyShopOwners env shopId q =
    bindA (getsA (\<lambda>s. filter (\<lambda>u. us_shopId u = Some shopId) (users s))) (\<lambda>owners.
    mapA owners (\<lambda>u. create_and_notify env (q\<lparr>np_userId := us_id u,
      np_tenantId := (case np_tenantId q of Some t \<Rightarrow> Some t | None \<Rightarrow> us_tenantId u)\<rparr>)))"

section \<open>The workers\<close>

text \<open>The mail worker sets the delivery of a job; a job that failed for good sets it failed.\<close>

definition email_processed :: "email_job \<Rightarrow> ('z notify_db_scheme, unit) act" where
  "email_processed job =
    (case or_else (em_deliveryId job) None of
      None \<Rightarrow> returnA ()
    | Some i \<Rightarrow>
        catchA (bindA (getsA clock) (\<lambda>now.
            update_delivery i (\<lambda>d. d\<lparr>nd_status := ''sent'', nd_sentAt := Some now, nd_error := None\<rparr>)))
          (\<lambda>e. returnA ()))"

definition email_failed :: "email_job \<Rightarrow> nat \<Rightarrow> nat \<Rightarrow> exn \<Rightarrow> ('z notify_db_scheme, unit) act" where
  "email_failed job attempts attemptsMade error =
    (case or_else (em_deliveryId job) None of
      None \<Rightarrow> returnA ()
    | Some i \<Rightarrow>
        whenA (attempts \<le> attemptsMade)
          (catchA (update_delivery i (\<lambda>d. d\<lparr>nd_status := ''failed'', nd_error := Some (take 500 (exn_message error))\<rparr>))
            (\<lambda>e. returnA ())))"

datatype notify_job = SendNotification string "bool option" | OtherJob string

definition notification_processed :: "notify_env \<Rightarrow> notify_job \<Rightarrow> ('z notify_db_scheme, bool) act" where
  "notification_processed env job =
    (case job of
      SendNotification i sendEmail \<Rightarrow> deliver env i (sendEmail \<noteq> Some False)
    | OtherJob name \<Rightarrow> returnA True)"

section \<open>The inbox\<close>

text \<open>Unread first, then the newest.\<close>

definition inbox_order :: "notification_row list \<Rightarrow> notification_row list" where
  "inbox_order ns = filter (\<lambda>n. \<not> n_isRead n) (rev ns) @ filter n_isRead (rev ns)"

record inbox_page =
  ip_items :: "(notification_row \<times> delivery_row list) list"
  ip_total :: nat
  ip_unread :: nat
  ip_page :: nat
  ip_limit :: nat
  ip_pageCount :: nat

definition list_inbox :: "string \<Rightarrow> bool \<Rightarrow> int option \<Rightarrow> int option \<Rightarrow> ('z notify_db_scheme, inbox_page) act" where
  "list_inbox userId unreadOnly pageNo perPage =
    (let page = nat (max 1 (case pageNo of Some p \<Rightarrow> p | None \<Rightarrow> 1));
         limit = nat (min 100 (max 1 (case perPage of Some l \<Rightarrow> l | None \<Rightarrow> 50)));
         skip = (page - 1) * limit;
         mine = (\<lambda>n. n_userId n = userId \<and> (unreadOnly \<longrightarrow> \<not> n_isRead n)) in
     getsA (\<lambda>s.
       let count = count_where mine (notifications s) in
       \<lparr>ip_items = map (\<lambda>n. (n, deliveries_of (n_id n) s)) (take limit (drop skip (inbox_order (filter mine (notifications s))))),
        ip_total = count, ip_unread = count_where (\<lambda>n. n_userId n = userId \<and> \<not> n_isRead n) (notifications s),
        ip_page = page, ip_limit = limit, ip_pageCount = max 1 ((count + limit - 1) div limit)\<rparr>))"

definition unreadCount :: "string \<Rightarrow> ('z notify_db_scheme, nat) act" where
  "unreadCount userId = getsA (\<lambda>s. count_where (\<lambda>n. n_userId n = userId \<and> \<not> n_isRead n) (notifications s))"

definition mark_read :: "(notification_row \<Rightarrow> bool) \<Rightarrow> ('z notify_db_scheme, nat) act" where
  "mark_read P =
    bindA (getsA (\<lambda>s. (clock s, count_where P (notifications s)))) (\<lambda>(now, n).
    thenA (updateManyA notifications_update P (\<lambda>r. r\<lparr>n_isRead := True, n_readAt := Some now\<rparr>)) (returnA n))"

definition markAsRead :: "string \<Rightarrow> string \<Rightarrow> ('z notify_db_scheme, nat) act" where
  "markAsRead notificationId userId = mark_read (\<lambda>n. n_id n = notificationId \<and> n_userId n = userId)"

definition markAllAsRead :: "string \<Rightarrow> ('z notify_db_scheme, nat) act" where
  "markAllAsRead userId = mark_read (\<lambda>n. n_userId n = userId \<and> \<not> n_isRead n)"

end
