(* ===== verification/Notify_Claims.thy ===== *)
theory Notify_Claims
  imports Notify Storage_Claims Auth_Claims "HOL-Library.Multiset"
begin

text \<open>What is sent when a user is notified, and what the pages of the inbox show.\<close>

section \<open>Pages\<close>

lemma take_pages: "concat (map (\<lambda>p. take l (drop ((p - 1) * l) xs)) [1..<Suc k]) = take (k * l) xs"
proof (induction k)
  case (Suc k)
  have "take (Suc k * l) xs = take (k * l + l) xs" by (simp add: add.commute)
  also have "\<dots> = take (k * l) xs @ take l (drop (k * l) xs)" by (rule take_add)
  finally show ?case using Suc by simp
qed simp

lemma enough_pages: "0 < (l::nat) \<Longrightarrow> n \<le> max 1 ((n + l - 1) div l) * l"
proof -
  assume l: "0 < l"
  have "n + l - 1 < ((n + l - 1) div l) * l + l"
    using l by (metis div_mult_mod_eq mod_less_divisor nat_add_left_cancel_less)
  then have "n \<le> ((n + l - 1) div l) * l" using l by linarith
  then show ?thesis by (metis max.cobounded2 mult_le_mono1 order_trans)
qed

definition page_no :: "string \<Rightarrow> bool \<Rightarrow> nat \<Rightarrow> 'z notify_db_scheme \<Rightarrow> nat \<Rightarrow> inbox_page" where
  "page_no userId unreadOnly l s p = projr (fst (list_inbox userId unreadOnly (Some (int p)) (Some (int l)) s))"

lemma page_no_fields:
  fixes s :: "'z notify_db_scheme" and u :: string and unreadOnly :: bool
  assumes l: "0 < l" "l \<le> 100" and p: "0 < p"
  defines "mine \<equiv> filter (\<lambda>n. n_userId n = u \<and> (unreadOnly \<longrightarrow> \<not> n_isRead n)) (notifications s)"
  shows "map fst (ip_items (page_no u unreadOnly l s p)) = take l (drop ((p - 1) * l) (inbox_order mine))"
    and "ip_pageCount (page_no u unreadOnly l s p) = max 1 ((length mine + l - 1) div l)"
proof -
  have "nat (max 1 (int p)) = p" "nat (min 100 (max 1 (int l))) = l" using l p by auto
  then show "map fst (ip_items (page_no u unreadOnly l s p)) = take l (drop ((p - 1) * l) (inbox_order mine))"
    and "ip_pageCount (page_no u unreadOnly l s p) = max 1 ((length mine + l - 1) div l)"
    by (simp_all add: page_no_def list_inbox_def getsA_def Let_def mine_def count_where_def comp_def)
qed

lemma inbox_order_mset: "mset (inbox_order ns) = mset ns"
  using multiset_partition [of "mset ns" n_isRead] by (simp add: inbox_order_def mset_filter mset_rev union_commute)

lemma inbox_order_sorted: "sorted_wrt (\<lambda>a b. n_isRead a \<longrightarrow> n_isRead b) (inbox_order ns)"
proof -
  have "sorted_wrt (\<lambda>a b. n_isRead a \<longrightarrow> n_isRead b) (filter n_isRead xs)"
    "sorted_wrt (\<lambda>a b. n_isRead a \<longrightarrow> n_isRead b) (filter (\<lambda>n. \<not> n_isRead n) xs)"
    for xs :: "notification_row list"
    by (induction xs) auto
  then show ?thesis by (simp add: inbox_order_def sorted_wrt_append)
qed

lemma length_inbox_order: "length (inbox_order ns) = length ns"
  by (metis inbox_order_mset mset_eq_length)

text \<open>Reading all leaves no unread one of the user and the others' as they were.\<close>

lemma mark_all_reads:
  assumes "markAllAsRead u s = (r, s')"
  shows "fst (unreadCount u s') = Inr 0"
    and "filter (\<lambda>n. n_userId n \<noteq> u) (notifications s') = filter (\<lambda>n. n_userId n \<noteq> u) (notifications s)"
proof -
  have s': "notifications s' = update_where (\<lambda>n. n_userId n = u \<and> \<not> n_isRead n)
      (\<lambda>n. n\<lparr>n_isRead := True, n_readAt := Some (clock s)\<rparr>) (notifications s)"
    using assms by (auto simp: markAllAsRead_def mark_read_def updateManyA_def act_defs)
  show "fst (unreadCount u s') = Inr 0"
    unfolding unreadCount_def getsA_def prod.sel s' sum.inject count_where_zero ball_update_where by simp
  show "filter (\<lambda>n. n_userId n \<noteq> u) (notifications s') = filter (\<lambda>n. n_userId n \<noteq> u) (notifications s)"
    unfolding s' by (rule filter_update_other) auto
qed

text \<open>
  Reading the pages of the inbox one after the other, up to the page count the first one
  reports, shows every notification of the user exactly once, the unread ones first, and no page is longer than
  the limit.
\<close>

theorem inbox_pages:
  fixes s :: "'z notify_db_scheme"
  assumes "0 < l" and "l \<le> 100"
  shows "\<exists>shown. concat (map (\<lambda>p. map fst (ip_items (page_no u unreadOnly l s p)))
      [1..<Suc (ip_pageCount (page_no u unreadOnly l s 1))]) = shown \<and>
    mset shown = mset (filter (\<lambda>n. n_userId n = u \<and> (unreadOnly \<longrightarrow> \<not> n_isRead n)) (notifications s)) \<and>
    sorted_wrt (\<lambda>a b. n_isRead a \<longrightarrow> n_isRead b) shown \<and>
    (\<forall>p > 0. length (ip_items (page_no u unreadOnly l s p)) \<le> l)"
proof -
  let ?mine = "filter (\<lambda>n. n_userId n = u \<and> (unreadOnly \<longrightarrow> \<not> n_isRead n)) (notifications s)"
  let ?k = "ip_pageCount (page_no u unreadOnly l s 1)"
  have "concat (map (\<lambda>p. map fst (ip_items (page_no u unreadOnly l s p))) [1..<Suc ?k]) =
      concat (map (\<lambda>p. take l (drop ((p - 1) * l) (inbox_order ?mine))) [1..<Suc ?k])"
    by (intro arg_cong [of _ _ concat] map_cong refl) (auto simp: page_no_fields [OF assms])
  also have "\<dots> = inbox_order ?mine"
    unfolding take_pages page_no_fields(2) [OF assms zero_less_one]
    by (rule take_all) (simp only: length_inbox_order enough_pages [OF assms(1)])
  finally have all: "concat (map (\<lambda>p. map fst (ip_items (page_no u unreadOnly l s p))) [1..<Suc ?k]) = inbox_order ?mine" .
  have "length (ip_items (page_no u unreadOnly l s p)) \<le> l" if "p > 0" for p
    using arg_cong [OF page_no_fields(1) [OF assms that, of u unreadOnly s], of length] by simp
  with all show ?thesis by (auto simp: inbox_order_mset inbox_order_sorted)
qed

section \<open>One notification\<close>

text \<open>The ids the state hands out next are of no stored row.\<close>

definition fresh_ids :: "'z notify_db_scheme \<Rightarrow> bool" where
  "fresh_ids s \<longleftrightarrow> inj (id_supply s) \<and> (\<forall>j. id_supply s j \<noteq> []) \<and>
    (\<forall>j \<ge> next_id s. (\<forall>n \<in> set (notifications s). n_id n \<noteq> id_supply s j) \<and>
      (\<forall>d \<in> set (deliveries s). nd_id d \<noteq> id_supply s j \<and> nd_notificationId d \<noteq> id_supply s j))"

definition first_row :: "notify_params \<Rightarrow> string \<Rightarrow> notification_row" where
  "first_row q i = \<lparr>n_id = i, n_tenantId = np_tenantId q, n_userId = np_userId q, n_type = toNotificationType (np_type q),
    n_title = np_title q, n_message = (case np_body q of Some b \<Rightarrow> b | None \<Rightarrow> []), n_data = np_data q, n_link = np_link q,
    n_isRead = False, n_readAt = None\<rparr>"

definition pending_row :: "string \<Rightarrow> string \<Rightarrow> channel \<Rightarrow> delivery_row" where
  "pending_row i j c = \<lparr>nd_id = j, nd_notificationId = i, nd_channel = c, nd_status = ''pending'', nd_sentAt = None, nd_error = None\<rparr>"

lemma create_notification_run:
  fixes s :: "'z notify_db_scheme"
  assumes "np_channels q = None \<or> np_channels q = Some [IN_APP, EMAIL]"
    and "find_row (\<lambda>u. us_id u = np_userId q) (users s) = Some u"
    and "case np_tenantId q of None \<Rightarrow> True | Some t \<Rightarrow> list_ex (\<lambda>x. tn_id x = t) (tenants s)"
  defines "i \<equiv> id_supply s (next_id s)"
  shows "create_notification q s = (Inr (first_row q i),
    s\<lparr>next_id := next_id s + 3, notifications := notifications s @ [first_row q i],
      deliveries := deliveries s @ [pending_row i (id_supply s (next_id s + 1)) IN_APP, pending_row i (id_supply s (next_id s + 2)) EMAIL]\<rparr>)"
proof -
  have user: "list_ex (\<lambda>u. us_id u = np_userId q) (users s)"
    using find_row_Some [OF assms(2)] by (auto simp: list_ex_iff)
  define s1 where "s1 = s\<lparr>next_id := next_id s + 3\<rparr>"
  have first: "newIdA s = (Inr i, s\<lparr>next_id := Suc (next_id s)\<rparr>)" by (simp add: newIdA_def i_def)
  have both: "mapA [IN_APP, EMAIL] (\<lambda>c. bindA newIdA (\<lambda>j. returnA \<lparr>nd_id = j, nd_notificationId = i, nd_channel = c,
      nd_status = ''pending'', nd_sentAt = None, nd_error = None\<rparr>)) (s\<lparr>next_id := Suc (next_id s)\<rparr>) =
    (Inr [pending_row i (id_supply s (next_id s + 1)) IN_APP, pending_row i (id_supply s (next_id s + 2)) EMAIL], s1)"
    by (simp add: newIdA_def act_defs pending_row_def s1_def)
  have known: "list_ex (\<lambda>u. us_id u = np_userId q) (users s1) \<and>
      (case np_tenantId q of None \<Rightarrow> True | Some t \<Rightarrow> list_ex (\<lambda>x. tn_id x = t) (tenants s1))"
    using user assms(3) by (simp add: s1_def split: option.splits)
  have channels: "(if np_channels q = None \<or> np_channels q = Some [] then DEFAULT_CHANNELS else the (np_channels q)) = [IN_APP, EMAIL]"
    using assms(1) by (auto simp: DEFAULT_CHANNELS_def)
  have "create_notification q s = (Inr (first_row q i), s1\<lparr>notifications := notifications s1 @ [first_row q i],
      deliveries := deliveries s1 @ [pending_row i (id_supply s (next_id s + 1)) IN_APP, pending_row i (id_supply s (next_id s + 2)) EMAIL]\<rparr>)"
    unfolding create_notification_def bindA_run [of newIdA, OF first] channels
      bindA_run [where m = "mapA a b" for a b, OF both] Let_def act_laws_run known
    using known by (simp add: createA_def act_defs first_row_def)
  then show ?thesis by (simp add: s1_def)
qed

text \<open>A write to one of two new rows.\<close>

lemma update_new_delivery:
  fixes s :: "'z notify_db_scheme"
  assumes "deliveries s = ds @ [a, b]" and "\<forall>d \<in> set ds. nd_id d \<noteq> nd_id a \<and> nd_id d \<noteq> nd_id b" and "nd_id a \<noteq> nd_id b"
  shows "update_delivery (nd_id a) f s = (Inr (), s\<lparr>deliveries := ds @ [f a, b]\<rparr>)"
    and "update_delivery (nd_id b) f s = (Inr (), s\<lparr>deliveries := ds @ [a, f b]\<rparr>)"
    and "mark_sent (nd_id a) s = (Inr (), s\<lparr>deliveries := ds @ [a\<lparr>nd_status := ''sent'', nd_sentAt := Some (clock s)\<rparr>, b]\<rparr>)"
    and "mark_sent (nd_id b) s = (Inr (), s\<lparr>deliveries := ds @ [a, b\<lparr>nd_status := ''sent'', nd_sentAt := Some (clock s)\<rparr>]\<rparr>)"
proof -
  have old: "update_where (\<lambda>d. nd_id d = nd_id a) f ds = ds" "update_where (\<lambda>d. nd_id d = nd_id b) f ds = ds" for f
    using assms(2) by (auto intro!: update_where_none)
  have found: "find_row (\<lambda>d. nd_id d = nd_id a) (ds @ [a, b]) \<noteq> None" "find_row (\<lambda>d. nd_id d = nd_id b) (ds @ [a, b]) \<noteq> None"
    unfolding find_row_ex by auto
  show a: "update_delivery (nd_id a) f s = (Inr (), s\<lparr>deliveries := ds @ [f a, b]\<rparr>)" for f
    using assms(1,3) old found(1) by (simp add: update_delivery_def updateA_def)
  show b: "update_delivery (nd_id b) f s = (Inr (), s\<lparr>deliveries := ds @ [a, f b]\<rparr>)" for f
    using assms(1,3) old found(2) by (simp add: update_delivery_def updateA_def)
  show "mark_sent (nd_id a) s = (Inr (), s\<lparr>deliveries := ds @ [a\<lparr>nd_status := ''sent'', nd_sentAt := Some (clock s)\<rparr>, b]\<rparr>)"
    "mark_sent (nd_id b) s = (Inr (), s\<lparr>deliveries := ds @ [a, b\<lparr>nd_status := ''sent'', nd_sentAt := Some (clock s)\<rparr>]\<rparr>)"
    by (simp_all add: mark_sent_def bindA_gets a b)
qed

text \<open>The mail's delivery after the step, and whether a job is waiting.\<close>

definition mail_outcome :: "notify_env \<Rightarrow> user_row \<Rightarrow> delivery_row \<Rightarrow> email_job list \<Rightarrow> bool" where
  "mail_outcome env u d jobs \<longleftrightarrow>
    (if us_email u = [] then nd_status d = ''failed'' \<and> jobs = []
     else case ne_emails env of
       None \<Rightarrow> nd_status d = ''sent'' \<and> jobs = []
     | Some queue \<Rightarrow> (\<exists>job. em_to job = us_email u \<and> em_deliveryId job = Some (nd_id d) \<and>
         (case queue job of
           Some e \<Rightarrow> nd_status d = ''failed'' \<and> jobs = []
         | None \<Rightarrow> nd_status d = ''pending'' \<and> jobs = [job])))"

lemma send_email_run:
  fixes s :: "'z notify_db_scheme"
  assumes new: "deliveries s = ds @ [a, b]" "\<forall>d \<in> set ds. nd_id d \<noteq> nd_id a \<and> nd_id d \<noteq> nd_id b" "nd_id a \<noteq> nd_id b"
    and user: "find_row (\<lambda>u. us_id u = np_userId q) (users s) = Some u" and pending: "nd_status b = ''pending''"
  shows "\<exists>d jobs. send_email env q row b s = (Inr (), s\<lparr>deliveries := ds @ [a, d], email_jobs := email_jobs s @ jobs\<rparr>) \<and>
    nd_id d = nd_id b \<and> nd_channel d = nd_channel b \<and> nd_notificationId d = nd_notificationId b \<and> mail_outcome env u d jobs"
proof (cases "us_email u = []")
  case True
  let ?d = "b\<lparr>nd_status := ''failed'', nd_error := Some ''no user email'', nd_sentAt := Some (clock s)\<rparr>"
  have "send_email env q row b s = (Inr (), s\<lparr>deliveries := ds @ [a, ?d]\<rparr>)"
    using True user by (simp add: send_email_def user_by_def act_defs update_new_delivery [OF new])
  with True show ?thesis by (intro exI [of _ ?d] exI [of _ "[]"]) (simp add: mail_outcome_def)
next
  case False
  then have "or_else (Some (us_email u)) None = Some (us_email u)" by (cases "us_email u") auto
  note to = this
  show ?thesis
  proof (cases "ne_emails env")
    case None
    let ?d = "b\<lparr>nd_status := ''sent'', nd_sentAt := Some (clock s)\<rparr>"
    have "send_email env q row b s = (Inr (), s\<lparr>deliveries := ds @ [a, ?d]\<rparr>)"
      using None user to by (simp add: send_email_def user_by_def act_defs update_new_delivery [OF new])
    with None False show ?thesis by (intro exI [of _ ?d] exI [of _ "[]"]) (simp add: mail_outcome_def)
  next
    case (Some queue)
    let ?job = "\<lparr>em_to = us_email u, em_subject = np_title q,
       em_body = join_with [CHR 0x0A] (filter (\<lambda>t. t \<noteq> [])
         [np_title q, [], n_message row, if truthy (np_link q) then CHR 0x0A # the (np_link q) else []]),
       em_notificationId = n_id row, em_deliveryId = Some (nd_id b)\<rparr>"
    have run: "send_email env q row b s = catchA (add_email queue ?job)
        (\<lambda>e. update_delivery (nd_id b) (\<lambda>d. d\<lparr>nd_status := ''failed'', nd_error := Some (take 500 (exn_message e))\<rparr>)) s"
      using user to Some unfolding send_email_def user_by_def catchA_def bindA_gets by simp
    show ?thesis
    proof (cases "queue ?job")
      case None
      with run have "send_email env q row b s = (Inr (), s\<lparr>email_jobs := email_jobs s @ [?job]\<rparr>)"
        unfolding add_email_def by (simp add: act_defs)
      then have "send_email env q row b s = (Inr (), s\<lparr>deliveries := ds @ [a, b], email_jobs := email_jobs s @ [?job]\<rparr>)"
        using new(1) by simp
      moreover have "mail_outcome env u b [?job]"
        unfolding mail_outcome_def using False Some None pending by (auto intro!: exI [of _ ?job])
      ultimately show ?thesis by blast
    next
      case (Some e)
      let ?d = "b\<lparr>nd_status := ''failed'', nd_error := Some (take 500 (exn_message e))\<rparr>"
      have "send_email env q row b s = (Inr (), s\<lparr>deliveries := ds @ [a, ?d], email_jobs := email_jobs s @ []\<rparr>)"
        unfolding run catchA_def add_email_def Some by (simp add: throwA_def update_new_delivery [OF new])
      moreover have "mail_outcome env u ?d []"
        unfolding mail_outcome_def using False \<open>ne_emails env = Some queue\<close> Some by (auto intro!: exI [of _ ?job])
      ultimately show ?thesis by (intro exI [of _ ?d] exI [of _ "[]"]) simp
    qed
  qed
qed

text \<open>The queue's worker finishes the delivery of a waiting job.\<close>

lemma email_processed_run:
  fixes s :: "'z notify_db_scheme"
  assumes "deliveries s = ds @ [a, b]" "\<forall>d \<in> set ds. nd_id d \<noteq> nd_id a \<and> nd_id d \<noteq> nd_id b" "nd_id a \<noteq> nd_id b"
    and "em_deliveryId job = Some (nd_id b)" and "nd_id b \<noteq> []"
  shows "deliveries (snd (email_processed job s)) = ds @ [a, b\<lparr>nd_status := ''sent'', nd_sentAt := Some (clock s), nd_error := None\<rparr>]"
proof -
  have "or_else (em_deliveryId job) None = Some (nd_id b)" using assms(4,5) by (cases "nd_id b") auto
  then show ?thesis by (simp add: email_processed_def act_defs update_new_delivery [OF assms(1-3)])
qed

text \<open>One notification of a known user, in full.\<close>

lemma notify_run:
  fixes s :: "'z notify_db_scheme"
  assumes "np_userId q \<noteq> []" and channels: "np_channels q = None \<or> np_channels q = Some [IN_APP, EMAIL]" and fresh: "fresh_ids s"
    and user: "find_row (\<lambda>u. us_id u = np_userId q) (users s) = Some u"
    and tenant: "case np_tenantId q of None \<Rightarrow> True | Some t \<Rightarrow> list_ex (\<lambda>x. tn_id x = t) (tenants s)"
  shows "\<exists>n a b s' jobs. notify env q s = (Inr (Some n), s') \<and> n = first_row q (id_supply s (next_id s)) \<and>
    s' = s\<lparr>next_id := next_id s + 3, notifications := notifications s @ [n], deliveries := deliveries s @ [a, b],
      pushes := pushes s @ (if ne_gateway env then [(np_userId q, n_id n)] else []), email_jobs := email_jobs s @ jobs\<rparr> \<and>
    nd_id a = id_supply s (next_id s + 1) \<and> nd_id b = id_supply s (next_id s + 2) \<and>
    nd_notificationId a = n_id n \<and> nd_notificationId b = n_id n \<and>
    nd_channel a = IN_APP \<and> nd_status a = ''sent'' \<and> nd_channel b = EMAIL \<and> mail_outcome env u b jobs \<and>
    list_all (\<lambda>job. deliveries (snd (email_processed job s')) =
      deliveries s @ [a, b\<lparr>nd_status := ''sent'', nd_sentAt := Some (clock s'), nd_error := None\<rparr>]) jobs"
proof -
  let ?i = "id_supply s (next_id s)"
  let ?n = "first_row q ?i"
  let ?a = "pending_row ?i (id_supply s (next_id s + 1)) IN_APP" and ?b = "pending_row ?i (id_supply s (next_id s + 2)) EMAIL"
  define s1 where "s1 = s\<lparr>next_id := next_id s + 3, notifications := notifications s @ [?n], deliveries := deliveries s @ [?a, ?b]\<rparr>"
  let ?a' = "?a\<lparr>nd_status := ''sent'', nd_sentAt := Some (clock s)\<rparr>"
  define s2 where "s2 = s1\<lparr>deliveries := deliveries s @ [?a', ?b],
    pushes := pushes s @ (if ne_gateway env then [(np_userId q, ?i)] else [])\<rparr>"
  have made: "create_notification q s = (Inr ?n, s1)"
    using create_notification_run [OF channels user tenant] by (simp add: s1_def)
  have apart: "nd_id ?a \<noteq> nd_id ?b" "nd_id ?b \<noteq> []"
    using fresh by (simp_all add: fresh_ids_def pending_row_def inj_eq)
  have old: "\<forall>d \<in> set (deliveries s). nd_id d \<noteq> nd_id ?a \<and> nd_id d \<noteq> nd_id ?b"
    "\<forall>d \<in> set (deliveries s). nd_notificationId d \<noteq> ?i" "\<forall>n \<in> set (notifications s). n_id n \<noteq> ?i"
    using fresh unfolding fresh_ids_def pending_row_def by (metis delivery_row.select_convs(1) le_add1 order_refl)+
  have own: "deliveries_of (n_id ?n) s1 = [?a, ?b]"
    using old(2) by (auto simp: deliveries_of_def s1_def pending_row_def first_row_def filter_empty_conv)
  have sent: "thenA (mark_sent (nd_id ?a)) (pushA env (np_userId q) (n_id ?n)) s1 = (Inr (), s2)"
    using update_new_delivery(3) [OF _ old(1) apart(1), of s1]
    by (simp add: s1_def s2_def pushA_def act_defs first_row_def)
  have new: "deliveries s2 = deliveries s @ [?a', ?b]" by (simp add: s2_def)
  have "find_row (\<lambda>u. us_id u = np_userId q) (users s2) = Some u" using user by (simp add: s2_def s1_def)
  with send_email_run [OF new _ _ this, of env ?n] old(1) apart(1)
  obtain d jobs where mail: "send_email env q ?n ?b s2 = (Inr (), s2\<lparr>deliveries := deliveries s @ [?a', d], email_jobs := email_jobs s2 @ jobs\<rparr>)"
      and d: "nd_id d = nd_id ?b" "nd_channel d = nd_channel ?b" "nd_notificationId d = nd_notificationId ?b" and out: "mail_outcome env u d jobs"
    by (auto simp: pending_row_def)
  let ?s' = "s2\<lparr>deliveries := deliveries s @ [?a', d], email_jobs := email_jobs s2 @ jobs\<rparr>"
  have "find_row (\<lambda>n. n_id n = ?i) (notifications s @ [?n]) = Some ?n"
    using old(3) by (simp add: find_row_append find_row_None [THEN iffD2] first_row_def)
  then have run: "notify env q s = (Inr (Some ?n), ?s')"
    using assms(1) mail sent own
    by (simp add: notify_def bindA_run [where m = "create_notification q" for q, OF made] bindA_gets thenA_def bindA_run channel_of_def pending_row_def s2_def s1_def
        first_row_def getsA_def)
  have jobs: "list_all (\<lambda>job. em_deliveryId job = Some (nd_id d)) jobs"
    using out by (auto simp: mail_outcome_def split: if_splits option.splits)
  have "list_all (\<lambda>job. deliveries (snd (email_processed job ?s')) =
      deliveries s @ [?a', d\<lparr>nd_status := ''sent'', nd_sentAt := Some (clock ?s'), nd_error := None\<rparr>]) jobs"
    using jobs unfolding list_all_iff
    by (intro ballI email_processed_run) (use old(1) apart d in auto)
  then show ?thesis
    using run out d by (intro exI [of _ ?n] exI [of _ ?a'] exI [of _ d] exI [of _ ?s'] exI [of _ jobs])
      (simp add: s2_def s1_def first_row_def pending_row_def)
qed

text \<open>
  C38.  Notifying a user who exists, on the default channels (the caller names none, or the application and
  mail in this order) and for no tenant or one that exists, never throws: it adds one unread notification of
  that user with two deliveries, the one in the application sent and pushed to the user's sockets, the one by
  mail failed without an address, sent where there is no queue, failed when the queue refuses, and otherwise
  waiting with exactly one job in the queue, whose worker marks it sent.
\<close>

theorem notify_outcome:
  fixes s :: "'z notify_db_scheme"
  assumes "np_userId q \<noteq> []" and "np_channels q = None \<or> np_channels q = Some [IN_APP, EMAIL]" and fresh: "fresh_ids s"
    and user: "find_row (\<lambda>u. us_id u = np_userId q) (users s) = Some u"
    and tenant: "case np_tenantId q of None \<Rightarrow> True | Some t \<Rightarrow> list_ex (\<lambda>x. tn_id x = t) (tenants s)"
  shows "\<exists>n a b s' jobs. notify env q s = (Inr (Some n), s') \<and>
    notifications s' = notifications s @ [n] \<and> n_userId n = np_userId q \<and> \<not> n_isRead n \<and>
    deliveries s' = deliveries s @ [a, b] \<and> nd_channel a = IN_APP \<and> nd_status a = ''sent'' \<and> nd_channel b = EMAIL \<and>
    pushes s' = pushes s @ (if ne_gateway env then [(np_userId q, n_id n)] else []) \<and>
    email_jobs s' = email_jobs s @ jobs \<and> mail_outcome env u b jobs \<and>
    list_all (\<lambda>job. deliveries (snd (email_processed job s')) =
      deliveries s @ [a, b\<lparr>nd_status := ''sent'', nd_sentAt := Some (clock s'), nd_error := None\<rparr>]) jobs"
  using notify_run [OF assms(1,2) fresh user tenant, of env] by (fastforce simp: first_row_def)

section \<open>Examples\<close>

definition demo_notice :: "string \<Rightarrow> bool \<Rightarrow> notification_row" where
  "demo_notice i seen = \<lparr>n_id = i, n_tenantId = None, n_userId = ''u1'', n_type = NT_SYSTEM, n_title = ''t'', n_message = ''m'',
    n_data = [], n_link = None, n_isRead = seen, n_readAt = None\<rparr>"

definition demo_inbox :: notify_db where
  "demo_inbox = store_db.extend demo_disk
    \<lparr>notifications = [demo_notice ''n1'' False, demo_notice ''n2'' True, demo_notice ''n3'' False], deliveries = [],
     pushes = [], email_jobs = []\<rparr>\<lparr>users := [demo_user], id_supply := (\<lambda>n. replicate (Suc n) CHR ''i'')\<rparr>"

definition demo_message :: notify_params where
  "demo_message = \<lparr>np_userId = ''u1'', np_type = ''ORDER_PAID'', np_title = ''Paid'', np_body = None, np_data = [],
    np_channels = None, np_tenantId = None, np_link = None\<rparr>"

theorem inbox_pages_witness:
  "\<exists>shown. concat (map (\<lambda>p. map fst (ip_items (page_no ''u1'' False 2 demo_inbox p)))
      [1..<Suc (ip_pageCount (page_no ''u1'' False 2 demo_inbox 1))]) = shown \<and>
    mset shown = mset [demo_notice ''n1'' False, demo_notice ''n2'' True, demo_notice ''n3'' False] \<and>
    sorted_wrt (\<lambda>a b. n_isRead a \<longrightarrow> n_isRead b) shown"
  using inbox_pages [of 2 "''u1''" False demo_inbox] by (auto simp: demo_inbox_def demo_notice_def store_db.defs)

text \<open>A queue that takes every job, and no sockets.\<close>

theorem notify_outcome_witness:
  "\<exists>n a b s' job. notify \<lparr>ne_emails = Some (\<lambda>_. None), ne_gateway = False\<rparr> demo_message demo_inbox = (Inr (Some n), s') \<and>
    notifications s' = notifications demo_inbox @ [n] \<and> deliveries s' = [a, b] \<and> nd_status a = ''sent'' \<and>
    nd_status b = ''pending'' \<and> email_jobs s' = [job] \<and> em_to job = ''u1@x'' \<and>
    map nd_status (deliveries (snd (email_processed job s'))) = [''sent'', ''sent'']"
proof -
  have fresh: "fresh_ids demo_inbox"
    by (auto simp: fresh_ids_def demo_inbox_def demo_notice_def inj_def store_db.defs)
  have user: "find_row (\<lambda>u. us_id u = np_userId demo_message) (users demo_inbox) = Some demo_user"
    by (simp add: demo_inbox_def demo_message_def demo_user_def)
  have "np_userId demo_message \<noteq> []" "np_channels demo_message = None" "np_tenantId demo_message = None" "us_email demo_user = ''u1@x''"
      "deliveries demo_inbox = []" "email_jobs demo_inbox = []"
    by (simp_all add: demo_message_def demo_user_def demo_inbox_def store_db.defs)
  with notify_outcome [of demo_message demo_inbox demo_user "\<lparr>ne_emails = Some (\<lambda>_. None), ne_gateway = False\<rparr>", OF _ _ fresh user]
  show ?thesis by (fastforce simp: mail_outcome_def)
qed

end
