(* ===== verification/Support.thy ===== *)
theory Support
  imports Notify Refunds
begin

text \<open>
  The support desk: \<open>support/support.service.ts\<close>.  Tickets and their messages, disputes about orders, and the
  older way to decide on refunds.  Lists are the newest first; tickets by the time of their last change.
\<close>

section \<open>State\<close>

datatype ticket_priority = TP_LOW | TP_NORMAL | TP_HIGH

datatype ticket_status = TK_OPEN | TK_IN_PROGRESS | TK_RESOLVED | TK_CLOSED

definition ticket_priorities :: "(string \<times> ticket_priority) list" where
  "ticket_priorities = [(''LOW'', TP_LOW), (''NORMAL'', TP_NORMAL), (''HIGH'', TP_HIGH)]"

definition ticket_statuses :: "(string \<times> ticket_status) list" where
  "ticket_statuses = [(''OPEN'', TK_OPEN), (''IN_PROGRESS'', TK_IN_PROGRESS), (''RESOLVED'', TK_RESOLVED), (''CLOSED'', TK_CLOSED)]"

record ticket_row =
  tk_id :: string
  tk_authorId :: "string option"
  tk_subject :: string
  tk_body :: string
  tk_type :: string
  tk_priority :: ticket_priority
  tk_status :: ticket_status
  tk_updatedAt :: int

record ticket_message_row =
  tm_id :: string
  tm_ticketId :: string
  tm_authorId :: "string option"
  tm_body :: string

record support_db = notify_db +
  tickets :: "ticket_row list"
  ticket_messages :: "ticket_message_row list"

record create_ticket =
  ct_subject :: string
  ct_body :: string
  ct_type :: "string option"
  ct_priority :: "string option"

section \<open>Tickets\<close>

definition listTickets :: "jwt_payload \<Rightarrow> ('z support_db_scheme, ticket_row list) act" where
  "listTickets user =
    getsA (\<lambda>s. sort_key (\<lambda>t. - tk_updatedAt t)
      (filter (\<lambda>t. is_admin user \<or> tk_authorId t = Some (sub user)) (rev (tickets s))))"

definition createTicket :: "jwt_payload \<Rightarrow> create_ticket \<Rightarrow> ('z support_db_scheme, ticket_row) act" where
  "createTicket user dto =
    bindA (someA (map_of ticket_priorities (if truthy (ct_priority dto) then the (ct_priority dto) else ''NORMAL''))
      (PrismaError ''validation'')) (\<lambda>priority.
    bindA newIdA (\<lambda>i.
    bindA (getsA clock) (\<lambda>now.
    let row = \<lparr>tk_id = i, tk_authorId = Some (sub user), tk_subject = ct_subject dto, tk_body = ct_body dto,
      tk_type = (if truthy (ct_type dto) then the (ct_type dto) else ''general''), tk_priority = priority,
      tk_status = TK_OPEN, tk_updatedAt = now\<rparr> in
    thenA (createA tickets_update row) (returnA row))))"

definition addTicketMessage :: "jwt_payload \<Rightarrow> string \<Rightarrow> string \<Rightarrow> ('z support_db_scheme, ticket_message_row) act" where
  "addTicketMessage user ticketId body =
    bindA (getsA (\<lambda>s. find_row (\<lambda>t. tk_id t = ticketId) (tickets s))) (\<lambda>found.
    bindA (someA found (NotFound '''')) (\<lambda>ticket.
    thenA (guardA (is_admin user \<or> tk_authorId ticket = Some (sub user)) (Forbidden ''''))
    (bindA newIdA (\<lambda>i.
     let row = \<lparr>tm_id = i, tm_ticketId = ticketId, tm_authorId = Some (sub user), tm_body = body\<rparr> in
     thenA (createA ticket_messages_update row) (returnA row)))))"

definition updateTicketStatus :: "jwt_payload \<Rightarrow> string \<Rightarrow> string \<Rightarrow> ('z support_db_scheme, ticket_row) act" where
  "updateTicketStatus user i status =
    thenA (guardA (is_admin user) (Forbidden ''''))
    (bindA (someA (map_of ticket_statuses status) (PrismaError ''validation'')) (\<lambda>st.
     bindA (getsA clock) (\<lambda>now.
     updateRowA tickets tickets_update (\<lambda>t. tk_id t = i) (\<lambda>t. t\<lparr>tk_status := st, tk_updatedAt := now\<rparr>))))"

section \<open>Disputes\<close>

text \<open>The rows about the orders a caller may see: all, those of the merchant's shop, those of the buyer.\<close>

definition sees_order :: "jwt_payload \<Rightarrow> 'z pay_db_scheme \<Rightarrow> string \<Rightarrow> bool" where
  "sees_order user s orderId \<longleftrightarrow>
    is_admin user \<or>
    (case find_row (\<lambda>o'. o_id o' = orderId) (orders s) of
      None \<Rightarrow> False
    | Some order \<Rightarrow>
        if user_role user = MERCHANT \<and> truthy (user_shopId user) then user_shopId user = Some (o_shopId order)
        else o_customerId order = Some (sub user))"

definition listDisputes :: "jwt_payload \<Rightarrow> ('z support_db_scheme, dispute_row list) act" where
  "listDisputes user = getsA (\<lambda>s. filter (\<lambda>d. sees_order user s (dp_orderId d)) (rev (disputes s)))"

definition createDispute :: "jwt_payload \<Rightarrow> string \<Rightarrow> string \<Rightarrow> ('z support_db_scheme, dispute_row) act" where
  "createDispute user orderId reason =
    bindA (getsA (\<lambda>s. find_row (\<lambda>o'. o_id o' = orderId) (orders s))) (\<lambda>found.
    bindA (someA found (NotFound ''Order not found'')) (\<lambda>order.
    thenA (guardA (\<not> (user_role user = CUSTOMER \<and> o_customerId order \<noteq> Some (sub user))) (Forbidden ''''))
    (thenA (guardA (\<not> (user_role user = MERCHANT \<and> user_shopId user \<noteq> Some (o_shopId order))) (Forbidden ''''))
    (bindA newIdA (\<lambda>i.
     let dispute = \<lparr>dp_id = i, dp_orderId = orderId, dp_reason = reason, dp_status = DS_OPEN, dp_resolution = None\<rparr> in
     thenA (createA disputes_update dispute)
     (thenA (updateA orders orders_update (\<lambda>o'. o_id o' = orderId) (\<lambda>o'. o'\<lparr>o_status := OS_DISPUTED\<rparr>))
     (thenA (createA history_update \<lparr>h_orderId = orderId, h_fromStatus = Some (o_status order), h_toStatus = OS_DISPUTED,
         h_actorId = Some (sub user), h_reason = Some reason\<rparr>)
       (returnA dispute))))))))"

definition support_resolveDispute ::
  "jwt_payload \<Rightarrow> string \<Rightarrow> string \<Rightarrow> dispute_status \<Rightarrow> ('z support_db_scheme, dispute_row) act" where
  "support_resolveDispute user i resolution status =
    thenA (guardA (is_admin user) (Forbidden ''''))
    (updateRowA disputes disputes_update (\<lambda>d. dp_id d = i) (\<lambda>d. d\<lparr>dp_resolution := Some resolution, dp_status := status\<rparr>))"

section \<open>Refunds\<close>

definition listRefunds :: "jwt_payload \<Rightarrow> ('z support_db_scheme, refund_row list) act" where
  "listRefunds user = getsA (\<lambda>s. filter (\<lambda>r. sees_order user s (rf_orderId r)) (rev (refunds s)))"

definition support_requestRefund ::
  "jwt_payload \<Rightarrow> string \<Rightarrow> int \<Rightarrow> string option \<Rightarrow> ('z support_db_scheme, refund_row) act" where
  "support_requestRefund user orderId amountCents reason =
    bindA (getsA (\<lambda>s. find_row (\<lambda>o'. o_id o' = orderId) (orders s))) (\<lambda>found.
    bindA (someA found (NotFound '''')) (\<lambda>order.
    thenA (guardA (\<not> (user_role user = CUSTOMER \<and> o_customerId order \<noteq> Some (sub user))) (Forbidden ''''))
    (thenA (guardA (\<not> (amountCents \<le> 0 \<or> o_totalCents order < amountCents)) (Forbidden ''Invalid refund amount''))
    (bindA newIdA (\<lambda>rid.
     let refund =
       \<lparr>rf_id = rid, rf_orderId = orderId, rf_amountCents = amountCents,
        rf_currency = (if o_currency order = [] then ''USD'' else o_currency order),
        rf_reason = or_else reason None, rf_status = RF_REQUESTED, rf_adminNote = None,
        rf_requestedById = Some (sub user), rf_approvedById = None, rf_approvedAt = None,
        rf_stripeRefundId = None, rf_providerRequestedAt = None, rf_providerConfirmedAt = None,
        rf_completedAt = None, rf_failureReason = None\<rparr> in
     thenA (createA refunds_update refund) (returnA refund))))))"

text \<open>The status is the text of the request: anything but the two names rejects.\<close>

definition decided :: "string \<Rightarrow> refund_status" where
  "decided status = (if status = ''APPROVED'' then RF_APPROVED else RF_REJECTED)"

definition decideRefund ::
  "jwt_payload \<Rightarrow> string \<Rightarrow> string \<Rightarrow> string option \<Rightarrow> ('z support_db_scheme, refund_row) act" where
  "decideRefund user i status adminNote =
    thenA (guardA (is_admin user \<or> user_role user = MERCHANT) (Forbidden ''''))
    (thenA (guardA (status \<noteq> ''COMPLETED'') (Forbidden ''COMPLETED is only set by provider webhook''))
    (bindA (getsA (\<lambda>s. find_row (\<lambda>r. rf_id r = i) (refunds s))) (\<lambda>found.
     bindA (someA found (NotFound '''')) (\<lambda>refund.
     bindA (getsA (order_of_refund refund)) (\<lambda>o'.
     bindA (someA o' (RawError ''TypeError'')) (\<lambda>order.
     thenA (guardA (\<not> (user_role user = MERCHANT \<and> user_shopId user \<noteq> Some (o_shopId order))) (Forbidden ''''))
     (thenA (guardA (\<not> (status = ''APPROVED'' \<and> rf_status refund \<noteq> RF_REQUESTED))
        (Forbidden ''Only REQUESTED refunds can be approved''))
     (bindA (getsA clock) (\<lambda>now.
      bindA (updateRowA refunds refunds_update (\<lambda>r. rf_id r = i)
        (\<lambda>r. r\<lparr>rf_status := decided status, rf_adminNote := or_else adminNote None,
               rf_approvedById := Some (sub user), rf_approvedAt := Some now\<rparr>)) (\<lambda>updated.
      thenA (auditA (Some (sub user)) (''refund.'' @ js_lower status) ''Refund'' (Some i))
        (returnA updated)))))))))))"

definition support_listAudit :: "jwt_payload \<Rightarrow> ('z support_db_scheme, audit_row list) act" where
  "support_listAudit user =
    thenA (guardA (is_admin user) (Forbidden '''')) (getsA (\<lambda>s. take 200 (rev (audit_log s))))"

end
