(* ===== verification/Support_Claims.thy ===== *)
theory Support_Claims
  imports Support Order_Claims Notify_Claims
begin

text \<open>What the support desk does to the orders and refunds of the rest of the program.\<close>

section \<open>Disputes\<close>

text \<open>
  C34.  Opening a dispute that is refused (no such order, a buyer for another's order, a merchant for
  another shop's) writes nothing.  One that returns adds an open dispute about that order, sets that order's status
  alone to DISPUTED, whatever it was, and records the change in the history; payments, refunds, stock and
  reservations stay as they were.
\<close>

theorem dispute_outcome:
  fixes s :: "'z support_db_scheme"
  assumes run: "createDispute user orderId reason s = (r, s')"
  shows "case r of
      Inl e \<Rightarrow> s' = s
    | Inr d \<Rightarrow> \<exists>order. find_row (\<lambda>o'. o_id o' = orderId) (orders s) = Some order \<and>
        (case user_role user of CUSTOMER \<Rightarrow> o_customerId order = Some (sub user)
          | MERCHANT \<Rightarrow> user_shopId user = Some (o_shopId order) | _ \<Rightarrow> True) \<and>
        dp_orderId d = orderId \<and> dp_status d = DS_OPEN \<and> disputes s' = disputes s @ [d] \<and>
        orders s' = update_where (\<lambda>o'. o_id o' = orderId) (\<lambda>o'. o'\<lparr>o_status := OS_DISPUTED\<rparr>) (orders s) \<and>
        history s' = history s @ [\<lparr>h_orderId = orderId, h_fromStatus = Some (o_status order), h_toStatus = OS_DISPUTED,
          h_actorId = Some (sub user), h_reason = Some reason\<rparr>] \<and>
        (payments s', refunds s', products s', stocks s', reservations s') =
          (payments s, refunds s, products s, stocks s, reservations s)"
proof (cases "find_row (\<lambda>o'. o_id o' = orderId) (orders s)")
  case None
  with run show ?thesis by (auto simp: createDispute_def act_defs)
next
  case (Some order)
  with run show ?thesis
    by (auto simp: createDispute_def act_defs newIdA_def createA_def updateA_def Let_def split: if_splits role.splits)
qed

text \<open>So a dispute opens an order again that was closed or never paid, and an administrator can complete it.\<close>

lemma dispute_then_completed:
  fixes s :: "'z support_db_scheme"
  assumes order: "find_row (\<lambda>o'. o_id o' = i) (orders s) = Some order"
    and buyer: "user_role buyer = CUSTOMER" "o_customerId order = Some (sub buyer)" and admin: "is_admin adm"
  shows "\<exists>d s1 o' s2. createDispute buyer i reason s = (Inr d, s1) \<and>
    updateStatus adm i ''COMPLETED'' None s1 = (Inr o', s2) \<and> o_status o' = OS_COMPLETED \<and> payments s2 = payments s"
proof -
  define d where "d = \<lparr>dp_id = id_supply s (next_id s), dp_orderId = i, dp_reason = reason, dp_status = DS_OPEN, dp_resolution = None\<rparr>"
  define s1 where "s1 = s\<lparr>next_id := Suc (next_id s), disputes := disputes s @ [d],
    orders := update_where (\<lambda>o'. o_id o' = i) (\<lambda>o'. o'\<lparr>o_status := OS_DISPUTED\<rparr>) (orders s),
    history := history s @ [\<lparr>h_orderId = i, h_fromStatus = Some (o_status order), h_toStatus = OS_DISPUTED,
      h_actorId = Some (sub buyer), h_reason = Some reason\<rparr>]\<rparr>"
  have first: "createDispute buyer i reason s = (Inr d, s1)"
    using order buyer by (simp add: createDispute_def act_defs newIdA_def createA_def updateA_def s1_def d_def Let_def)
  have now: "find_row (\<lambda>o'. o_id o' = i) (orders s1) = Some (order\<lparr>o_status := OS_DISPUTED\<rparr>)"
    using order find_row_Some [OF order] by (simp add: s1_def find_row_update_where)
  have id: "o_id order = i" using find_row_Some [OF order] by simp
  have "canTransition (Role (user_role adm)) OS_DISPUTED OS_COMPLETED" "may_update adm (order\<lparr>o_status := OS_DISPUTED\<rparr>)"
    using admin by (auto simp: is_admin_def canTransition_def ADMIN_TRANSITIONS_def may_update_def)
  moreover have "order_status_of ''COMPLETED'' = Some OS_COMPLETED" by (simp add: order_status_of_def order_status_names_def)
  ultimately have "\<exists>o' s2. updateStatus adm i ''COMPLETED'' None s1 = (Inr o', s2) \<and> o_status o' = OS_COMPLETED \<and> payments s2 = payments s1"
    using now id by (simp add: updateStatus_def updateStatus_tx_def act_defs Let_def updateRowA_def createA_def auditA_def)
  moreover have "payments s1 = payments s" by (simp add: s1_def)
  ultimately show ?thesis using first by metis
qed

section \<open>Refunds\<close>

lemma decideRefund_run:
  fixes s :: "'z support_db_scheme" and adminNote :: "string option"
  assumes "find_row (\<lambda>r. rf_id r = i) (refunds s) = Some r" and "order_of_refund r s = Some order"
    and "user_role user = MERCHANT" "user_shopId user = Some (o_shopId order)"
    and "status \<noteq> ''APPROVED''" "status \<noteq> ''COMPLETED''"
  defines "f \<equiv> \<lambda>r. r\<lparr>rf_status := RF_REJECTED, rf_adminNote := or_else adminNote None, rf_approvedById := Some (sub user),
    rf_approvedAt := Some (clock s)\<rparr>"
  shows "decideRefund user i status adminNote s = (Inr (f r), s\<lparr>refunds := update_where (\<lambda>r. rf_id r = i) f (refunds s),
    audit_log := audit_log s @ [\<lparr>au_actorId = or_else (Some (sub user)) None, au_action = ''refund.'' @ js_lower status,
      au_entityType = ''Refund'', au_entityId = or_else (Some i) None\<rparr>]\<rparr>)"
  using assms(1-6) by (simp add: decideRefund_def act_defs decided_def updateRowA_def auditA_def f_def is_admin_def)

text \<open>
  C35.  On the older route a merchant may reject any refund of its shop, also one the
  provider has completed.  The ceiling of the order grows by the amount that was paid back already, and where the
  order still takes refunds the buyer can ask for the same amount once more; the books keep the first repayment.
\<close>

theorem rejecting_reopens_refund:
  fixes s :: "'z support_db_scheme"
  assumes refund: "find_row (\<lambda>r. rf_id r = i) (refunds s) = Some r" "rf_status r = RF_COMPLETED" "0 < rf_amountCents r"
    and order: "order_of_refund r s = Some order" "refundable_status (o_status order)"
    and merchant: "user_role user = MERCHANT" "user_shopId user = Some (o_shopId order)"
    and buyer: "user_role buyer = CUSTOMER" "o_customerId order = Some (sub buyer)"
    and status: "status \<noteq> ''APPROVED''" "status \<noteq> ''COMPLETED''"
    and keys: "distinct (map rf_id (refunds s))" and within: "refundedSoFar (o_id order) s \<le> paidBase order s"
  shows "\<exists>r1 s1 r2 s2. decideRefund user i status adminNote s = (Inr r1, s1) \<and> rf_status r1 = RF_REJECTED \<and>
    maxRefundable order s1 = maxRefundable order s + rf_amountCents r \<and>
    requestRefund buyer (o_id order) (rf_amountCents r) None s1 = (Inr r2, s2) \<and> rf_amountCents r2 = rf_amountCents r \<and>
    (ledger_entries s2, fin_txns s2) = (ledger_entries s, fin_txns s)"
proof -
  let ?f = "\<lambda>r. r\<lparr>rf_status := RF_REJECTED, rf_adminNote := or_else adminNote None, rf_approvedById := Some (sub user),
    rf_approvedAt := Some (clock s)\<rparr>"
  define s1 where "s1 = s\<lparr>refunds := update_where (\<lambda>r. rf_id r = i) ?f (refunds s),
    audit_log := audit_log s @ [\<lparr>au_actorId = or_else (Some (sub user)) None, au_action = ''refund.'' @ js_lower status,
      au_entityType = ''Refund'', au_entityId = or_else (Some i) None\<rparr>]\<rparr>"
  have run: "decideRefund user i status adminNote s = (Inr (?f r), s1)"
    unfolding s1_def by (rule decideRefund_run [OF refund(1) order(1) merchant status])
  have at: "find_row (\<lambda>o'. o_id o' = rf_orderId r) (orders s) = Some order" using order(1) by (simp add: order_of_refund_def)
  then have same: "rf_orderId r = o_id order" using find_row_Some [OF at] by simp
  with at have found: "find_row (\<lambda>o'. o_id o' = o_id order) (orders s1) = Some order" by (simp add: s1_def)
  have "refundedSoFar (o_id order) s1 = refundedSoFar (o_id order) s - rf_amountCents r"
    unfolding refundedSoFar_def s1_def using refund(2) same
    by (simp add: sum_where_update_key [OF keys refund(1)] LIVE_REFUNDS_def)
  moreover have "paidBase order s1 = paidBase order s" by (simp add: paidBase_def s1_def)
  ultimately have room: "maxRefundable order s1 = maxRefundable order s + rf_amountCents r"
    using within refund(3) by (simp add: maxRefundable_def)
  moreover have "0 \<le> maxRefundable order s" by (simp add: maxRefundable_def)
  ultimately have "\<exists>r2 s2. requestRefund buyer (o_id order) (rf_amountCents r) None s1 = (Inr r2, s2) \<and>
      rf_amountCents r2 = rf_amountCents r \<and> ledger_entries s2 = ledger_entries s1 \<and> fin_txns s2 = fin_txns s1"
    using found buyer order(2) refund(3)
    by (simp add: requestRefund_def act_defs may_request_def newIdA_def createA_def auditA_def Let_def)
  then show ?thesis using run room by (fastforce simp: s1_def)
qed

section \<open>Examples\<close>

definition demo_refund :: refund_row where
  "demo_refund = \<lparr>rf_id = ''r1'', rf_orderId = ''o1'', rf_amountCents = 600, rf_currency = ''USD'', rf_reason = None,
    rf_status = RF_COMPLETED, rf_adminNote = None, rf_requestedById = None, rf_approvedById = None, rf_approvedAt = None,
    rf_stripeRefundId = None, rf_providerRequestedAt = None, rf_providerConfirmedAt = None, rf_completedAt = Some 900,
    rf_failureReason = None\<rparr>"

definition demo_desk :: support_db where
  "demo_desk = notify_db.extend demo_inbox \<lparr>tickets = [], ticket_messages = []\<rparr>
    \<lparr>orders := [demo_order OS_PARTIALLY_REFUNDED], refunds := [demo_refund], payments := []\<rparr>"

lemma demo_desk_fields:
  "orders demo_desk = [demo_order OS_PARTIALLY_REFUNDED]" "refunds demo_desk = [demo_refund]" "payments demo_desk = []"
  by (simp_all add: demo_desk_def)

theorem dispute_outcome_witness:
  "\<exists>d s'. createDispute demo_buyer ''o1'' ''late'' demo_desk = (Inr d, s') \<and> map o_status (orders s') = [OS_DISPUTED]"
proof -
  obtain d s' where run: "createDispute demo_buyer ''o1'' ''late'' demo_desk = (Inr d, s')"
    by (auto simp: createDispute_def act_defs newIdA_def createA_def updateA_def Let_def demo_desk_fields demo_order_def demo_buyer_def)
  with dispute_outcome [OF this] show ?thesis by (auto simp: demo_desk_fields demo_order_def)
qed

theorem rejecting_reopens_refund_witness:
  "\<exists>r1 s1 r2 s2. decideRefund demo_merchant ''r1'' ''REJECTED'' None demo_desk = (Inr r1, s1) \<and>
    maxRefundable (demo_order OS_PARTIALLY_REFUNDED) demo_desk = 1400 \<and> maxRefundable (demo_order OS_PARTIALLY_REFUNDED) s1 = 2000 \<and>
    requestRefund demo_buyer ''o1'' 600 None s1 = (Inr r2, s2)"
proof -
  have "maxRefundable (demo_order OS_PARTIALLY_REFUNDED) demo_desk = 1400"
    by (simp add: maxRefundable_def paidBase_def refundedSoFar_def demo_desk_fields demo_order_def demo_refund_def LIVE_REFUNDS_def)
  moreover have "refundedSoFar ''o1'' demo_desk \<le> paidBase (demo_order OS_PARTIALLY_REFUNDED) demo_desk"
    by (simp add: paidBase_def refundedSoFar_def demo_desk_fields demo_order_def demo_refund_def LIVE_REFUNDS_def)
  ultimately show ?thesis
    using rejecting_reopens_refund [of "''r1''" demo_desk demo_refund "demo_order OS_PARTIALLY_REFUNDED" demo_merchant demo_buyer "''REJECTED''" None]
    by (fastforce simp: demo_desk_fields demo_order_def demo_refund_def demo_merchant_def demo_buyer_def order_of_refund_def
        refundable_status_def)
qed

end
