(* ===== verification/Shops.thy ===== *)
theory Shops
  imports Catalog
begin

text \<open>
  Shops: \<open>shops/shops.service.ts\<close> with the three shops the catalogue falls back to.  A list is by name.
\<close>

text \<open>What a list or a reading shows: the row, its owner, the numbers of its products and orders.\<close>

record shop_owner =
  ow_id :: string
  ow_name :: string
  ow_email :: string

record shop_view =
  sv_id :: string
  sv_name :: string
  sv_slug :: string
  sv_status :: shop_status
  sv_row :: "shop_row option"
  sv_owner :: "shop_owner option"
  sv_products :: nat
  sv_orders :: nat

text \<open>The fallback shops have no row; they own themselves.\<close>

definition fallback_shop :: "string \<Rightarrow> string \<Rightarrow> shop_view" where
  "fallback_shop i name = \<lparr>sv_id = i, sv_name = name, sv_slug = i, sv_status = SH_ACTIVE, sv_row = None,
    sv_owner = Some \<lparr>ow_id = i, ow_name = name, ow_email = []\<rparr>, sv_products = 0, sv_orders = 0\<rparr>"

definition FALLBACK_SHOPS :: "shop_view list" where
  "FALLBACK_SHOPS = [fallback_shop ''drilltech-supply'' ''DrillTech Supply'', fallback_shop ''fieldsafe-ppe'' ''FieldSafe PPE'',
    fallback_shop ''pipe-valve-co'' ''Pipe & Valve Co'']"

definition shop_view_of :: "'z auth_db_scheme \<Rightarrow> shop_row \<Rightarrow> shop_view" where
  "shop_view_of s h =
    \<lparr>sv_id = sh_id h, sv_name = sh_name h, sv_slug = sh_slug h, sv_status = sh_status h, sv_row = Some h,
     sv_owner = map_option (\<lambda>u. \<lparr>ow_id = us_id u, ow_name = us_name u, ow_email = us_email u\<rparr>)
       (find_row (\<lambda>u. us_shopId u = Some (sh_id h)) (users s)),
     sv_products = count_where (\<lambda>p. p_shopId p = sh_id h) (products s),
     sv_orders = count_where (\<lambda>o'. o_shopId o' = sh_id h) (orders s)\<rparr>"

definition list_shops :: "catalog_env \<Rightarrow> jwt_payload option \<Rightarrow> ('z catalog_db_scheme, shop_view list) act" where
  "list_shops env user =
    catchA
     (bindA (unless_down env (getsA (\<lambda>s. map (shop_view_of s) (sort_by (\<lambda>a b. sh_name a < sh_name b)
        (filter (\<lambda>h. (case user of None \<Rightarrow> False | Some u \<Rightarrow> is_admin u) \<or> sh_status h = SH_ACTIVE) (shops s)))))) (\<lambda>hs.
      returnA (if hs = [] then FALLBACK_SHOPS else hs)))
     (\<lambda>e. returnA FALLBACK_SHOPS)"

definition get_shop :: "string \<Rightarrow> ('z auth_db_scheme, shop_view) act" where
  "get_shop i =
    bindA (getsA (\<lambda>s. map_option (shop_view_of s) (find_row (\<lambda>h. sh_id h = i) (shops s)))) (\<lambda>found.
    someA found (NotFound ''Shop not found''))"

definition updateShop :: "jwt_payload \<Rightarrow> string \<Rightarrow> shop_status \<Rightarrow> string option \<Rightarrow> ('z auth_db_scheme, shop_row) act" where
  "updateShop user i status rejectionReason =
    thenA (guardA (is_admin user) (Forbidden ''''))
    (bindA (get_shop i) (\<lambda>_.
     thenA (guardA (\<not> (status = SH_REJECTED \<and> \<not> truthy (map_option js_trim rejectionReason))) (Forbidden ''rejectionReason required''))
     (bindA (updateRowA shops shops_update (\<lambda>h. sh_id h = i)
       (\<lambda>h. h\<lparr>sh_status := status, sh_verified := (status = SH_ACTIVE),
              sh_rejectionReason := (if status = SH_REJECTED then or_else rejectionReason None else None)\<rparr>)) (\<lambda>shop.
      thenA (whenA (status \<noteq> SH_ACTIVE) (updateManyA products_update (\<lambda>p. p_shopId p = i \<and> p_status p = PR_ACTIVE)
        (\<lambda>p. p\<lparr>p_status := PR_DRAFT\<rparr>)))
      (thenA (auditA (Some (sub user)) ''shop.status_change'' ''Shop'' (Some i)) (returnA shop))))))"

text \<open>A field that is not given stays.\<close>

record shop_profile =
  spf_description :: "string option"
  spf_legalName :: "string option"
  spf_taxId :: "string option"
  spf_country :: "string option"
  spf_address :: "string option"
  spf_payoutDetails :: "string option"

definition given :: "'a option \<Rightarrow> 'a option \<Rightarrow> 'a option" where
  "given new old = (case new of Some x \<Rightarrow> Some x | None \<Rightarrow> old)"

definition updateShopProfile :: "jwt_payload \<Rightarrow> shop_profile \<Rightarrow> ('z auth_db_scheme, shop_row) act" where
  "updateShopProfile user d =
    thenA (guardA (user_role user = MERCHANT \<and> truthy (user_shopId user)) (Forbidden ''''))
    (updateRowA shops shops_update (\<lambda>h. Some (sh_id h) = user_shopId user)
      (\<lambda>h. h\<lparr>sh_description := given (spf_description d) (sh_description h),
             sh_legalName := given (spf_legalName d) (sh_legalName h), sh_taxId := given (spf_taxId d) (sh_taxId h),
             sh_country := given (spf_country d) (sh_country h), sh_address := given (spf_address d) (sh_address h),
             sh_payoutDetails := given (spf_payoutDetails d) (sh_payoutDetails h)\<rparr>))"

definition myShop :: "jwt_payload \<Rightarrow> ('z auth_db_scheme, shop_view) act" where
  "myShop user =
    thenA (guardA (truthy (user_shopId user)) (NotFound ''No shop linked'')) (get_shop (the (user_shopId user)))"

end
