(* ===== verification/Admin.thy ===== *)
theory Admin
  imports Shops Finance
begin

text \<open>
  The administrators' console: \<open>admin/admin.service.ts\<close>.  A list is the newest first, page by page after the row of
  the cursor.  Names in requests are texts; \<open>in\<close> on a generated enum also finds the names every object of
  JavaScript has, which the database then refuses.
\<close>

section \<open>Names\<close>

definition roles :: "(string \<times> role) list" where
  "roles = [(''SUPER_ADMIN'', SUPER_ADMIN), (''ADMIN'', ADMIN), (''MERCHANT'', MERCHANT), (''CUSTOMER'', CUSTOMER)]"

definition user_statuses :: "(string \<times> user_status) list" where
  "user_statuses = [(''ACTIVE'', US_ACTIVE), (''INACTIVE'', US_INACTIVE), (''SUSPENDED'', US_SUSPENDED),
    (''PENDING_VERIFICATION'', US_PENDING_VERIFICATION)]"

definition shop_statuses :: "(string \<times> shop_status) list" where
  "shop_statuses = [(''PENDING'', SH_PENDING), (''ACTIVE'', SH_ACTIVE), (''SUSPENDED'', SH_SUSPENDED), (''REJECTED'', SH_REJECTED)]"

definition order_statuses :: "(string \<times> order_status) list" where
  "order_statuses = [(''PENDING_PAYMENT'', OS_PENDING_PAYMENT), (''PAID'', OS_PAID), (''PROCESSING'', OS_PROCESSING),
    (''SHIPPED'', OS_SHIPPED), (''COMPLETED'', OS_COMPLETED), (''CANCELLED'', OS_CANCELLED), (''DISPUTED'', OS_DISPUTED),
    (''REFUNDED'', OS_REFUNDED), (''PARTIALLY_REFUNDED'', OS_PARTIALLY_REFUNDED)]"

definition dispute_statuses :: "(string \<times> dispute_status) list" where
  "dispute_statuses = [(''OPEN'', DS_OPEN), (''APPEALED'', DS_APPEALED), (''RESOLVED'', DS_RESOLVED), (''CLOSED'', DS_CLOSED)]"

definition payout_statuses :: "(string \<times> payout_status) list" where
  "payout_statuses = [(''PENDING'', PO_PENDING), (''RESERVED'', PO_RESERVED), (''PROCESSING'', PO_PROCESSING),
    (''APPROVED'', PO_APPROVED), (''REJECTED'', PO_REJECTED), (''COMPLETED'', PO_COMPLETED), (''PAID'', PO_PAID),
    (''FAILED'', PO_FAILED), (''CANCELLED'', PO_CANCELLED)]"

definition OBJECT_PROTOTYPE :: "string list" where
  "OBJECT_PROTOTYPE = [''constructor'', ''__defineGetter__'', ''__defineSetter__'', ''hasOwnProperty'', ''__lookupGetter__'',
    ''__lookupSetter__'', ''isPrototypeOf'', ''propertyIsEnumerable'', ''toString'', ''valueOf'', ''__proto__'', ''toLocaleString'']"

definition in_enum :: "(string \<times> 'a) list \<Rightarrow> string \<Rightarrow> bool" where
  "in_enum names t \<longleftrightarrow> map_of names t \<noteq> None \<or> t \<in> set OBJECT_PROTOTYPE"

text \<open>The value of a name that was found, at the statement that uses it.\<close>

definition enum_value :: "(string \<times> 'a) list \<Rightarrow> string \<Rightarrow> ('s, 'a) act" where
  "enum_value names t = someA (map_of names t) (PrismaError ''validation'')"

section \<open>Pages\<close>

record 'r admin_page =
  ap_items :: "'r list"
  ap_nextCursor :: "string option"
  ap_hasMore :: bool

text \<open>The rows from the cursor on, without the first; none when there is no such row.\<close>

definition newest_first :: "('r \<Rightarrow> string) \<Rightarrow> ('r \<Rightarrow> bool) \<Rightarrow> string option \<Rightarrow> nat \<Rightarrow> 'r list \<Rightarrow> 'r list" where
  "newest_first key P cursor n rows =
    (case or_else cursor None of
      None \<Rightarrow> take n (filter P (rev rows))
    | Some c \<Rightarrow> take n (drop 1 (filter P (dropWhile (\<lambda>r. key r \<noteq> c) (rev rows)))))"

definition admin_page_of :: "('r \<Rightarrow> string) \<Rightarrow> nat \<Rightarrow> 'r list \<Rightarrow> 'r admin_page" where
  "admin_page_of key limit items =
    (let next = (if length items = limit then Some (key (last items)) else None) in
     \<lparr>ap_items = items, ap_nextCursor = next, ap_hasMore = truthy next\<rparr>)"

text \<open>A limit is between 1 and 100, or not given.\<close>

definition admin_limit :: "nat option \<Rightarrow> nat" where
  "admin_limit limit = min (case limit of Some n \<Rightarrow> if n = 0 then 20 else n | None \<Rightarrow> 20) 100"

record admin_query =
  aq_role :: "string option"
  aq_status :: "string option"
  aq_search :: "string option"
  aq_cursor :: "string option"
  aq_limit :: "nat option"

text \<open>The condition on an enum column: none when the text is no name of it.\<close>

definition enum_filter :: "(string \<times> 'a) list \<Rightarrow> string option \<Rightarrow> ('s, 'a option) act" where
  "enum_filter names t =
    (if truthy t \<and> in_enum names (the t) then bindA (enum_value names (the t)) (\<lambda>x. returnA (Some x)) else returnA None)"

definition is_wanted :: "'a option \<Rightarrow> 'a \<Rightarrow> bool" where
  "is_wanted want x \<longleftrightarrow> want = None \<or> want = Some x"

definition searched :: "string option \<Rightarrow> (string \<Rightarrow> bool) \<Rightarrow> bool" where
  "searched search found \<longleftrightarrow> (truthy (map_option js_trim search) \<longrightarrow> found (js_trim (the search)))"

definition icontains :: "string \<Rightarrow> string \<Rightarrow> bool" where
  "icontains q t \<longleftrightarrow> js_contains (js_lower q) (js_lower t)"

section \<open>Dashboard\<close>

record dashboard =
  da_customers :: nat
  da_merchants :: nat
  da_products :: nat
  da_orders :: nat
  da_pendingShops :: nat
  da_openDisputes :: nat
  da_gmvCents :: int
  da_todayOrders :: nat
  da_todayGmvCents :: int

definition counts_as_sale :: "order_row \<Rightarrow> bool" where
  "counts_as_sale o' \<longleftrightarrow> o_status o' \<notin> {OS_CANCELLED, OS_PENDING_PAYMENT}"

text \<open>Which orders were made today is an argument: the rows keep no time.\<close>

definition getDashboard :: "(order_row \<Rightarrow> bool) \<Rightarrow> ('z auth_db_scheme, dashboard) act" where
  "getDashboard today =
    getsA (\<lambda>s. \<lparr>da_customers = count_where (\<lambda>u. us_role u = CUSTOMER) (users s),
      da_merchants = count_where (\<lambda>u. us_role u = MERCHANT) (users s),
      da_products = count_where (\<lambda>p. p_status p = PR_ACTIVE) (products s),
      da_orders = length (orders s),
      da_pendingShops = count_where (\<lambda>h. sh_status h = SH_PENDING) (shops s),
      da_openDisputes = count_where (\<lambda>d. dp_status d \<in> {DS_OPEN, DS_APPEALED}) (disputes s),
      da_gmvCents = sum_where counts_as_sale o_totalCents (orders s),
      da_todayOrders = count_where (\<lambda>o'. today o' \<and> counts_as_sale o') (orders s),
      da_todayGmvCents = sum_where (\<lambda>o'. today o' \<and> counts_as_sale o') o_totalCents (orders s)\<rparr>)"

section \<open>Accounts\<close>

definition normalizeUserStatus :: "string \<Rightarrow> string" where
  "normalizeUserStatus status = (if status = ''BLOCKED'' then ''SUSPENDED'' else status)"

definition admin_listUsers :: "admin_query \<Rightarrow> ('z auth_db_scheme, user_row admin_page) act" where
  "admin_listUsers q =
    bindA (enum_filter roles (aq_role q)) (\<lambda>role.
    bindA (enum_filter user_statuses (map_option normalizeUserStatus (aq_status q))) (\<lambda>status.
    let limit = admin_limit (aq_limit q);
        P = (\<lambda>u. is_wanted role (us_role u) \<and> is_wanted status (us_status u) \<and>
          searched (aq_search q) (\<lambda>t. icontains t (us_email u) \<or> icontains t (us_name u))) in
    getsA (\<lambda>s. admin_page_of us_id limit (newest_first us_id P (aq_cursor q) limit (users s)))))"

definition updateUserStatus :: "string \<Rightarrow> string \<Rightarrow> string \<Rightarrow> ('z auth_db_scheme, user_row) act" where
  "updateUserStatus userId status actorId =
    (let normalized = normalizeUserStatus status in
     thenA (guardA (in_enum user_statuses normalized) (BadRequest ''Invalid status''))
     (bindA (user_by (\<lambda>u. us_id u = userId)) (\<lambda>found.
      bindA (someA found (NotFound ''User not found'')) (\<lambda>existing.
      bindA (enum_value user_statuses normalized) (\<lambda>st.
      bindA (updateRowA users users_update (\<lambda>u. us_id u = userId) (\<lambda>u. u\<lparr>us_status := st\<rparr>)) (\<lambda>user.
      thenA (auditA (Some actorId) ''USER_STATUS_CHANGE'' ''User'' (Some userId)) (returnA user)))))))"

definition active_super :: "user_row \<Rightarrow> bool" where
  "active_super u \<longleftrightarrow> us_role u = SUPER_ADMIN \<and> us_status u = US_ACTIVE"

definition updateUserRole :: "string \<Rightarrow> string \<Rightarrow> string \<Rightarrow> ('z auth_db_scheme, user_row) act" where
  "updateUserRole userId role actorId =
    thenA (guardA (in_enum roles role) (BadRequest ''Invalid role''))
    (bindA (user_by (\<lambda>u. us_id u = userId)) (\<lambda>found.
     bindA (someA found (NotFound ''User not found'')) (\<lambda>existing.
     thenA (whenA (us_role existing = SUPER_ADMIN \<and> role \<noteq> ''SUPER_ADMIN'')
       (bindA (getsA (\<lambda>s. count_where active_super (users s))) (\<lambda>supers.
        guardA (\<not> supers \<le> 1) (BadRequest ''Cannot demote the last SUPER_ADMIN''))))
     (bindA (enum_value roles role) (\<lambda>r.
      bindA (updateRowA users users_update (\<lambda>u. us_id u = userId) (\<lambda>u. u\<lparr>us_role := r\<rparr>)) (\<lambda>user.
      thenA (auditA (Some actorId) ''USER_ROLE_CHANGE'' ''User'' (Some userId)) (returnA user)))))))"

section \<open>Shops, orders, disputes\<close>

definition admin_listShops :: "admin_query \<Rightarrow> ('z auth_db_scheme, shop_view admin_page) act" where
  "admin_listShops q =
    bindA (enum_filter shop_statuses (aq_status q)) (\<lambda>status.
    let limit = admin_limit (aq_limit q);
        P = (\<lambda>h. is_wanted status (sh_status h) \<and>
          searched (aq_search q) (\<lambda>t. icontains t (sh_name h) \<or> icontains t (sh_slug h))) in
    getsA (\<lambda>s. admin_page_of sv_id limit (map (shop_view_of s) (newest_first sh_id P (aq_cursor q) limit (shops s)))))"

definition updateShopStatus :: "string \<Rightarrow> string \<Rightarrow> string \<Rightarrow> ('z auth_db_scheme, shop_row) act" where
  "updateShopStatus shopId status actorId =
    thenA (guardA (in_enum shop_statuses status) (BadRequest ''Invalid shop status''))
    (bindA (getsA (\<lambda>s. find_row (\<lambda>h. sh_id h = shopId) (shops s))) (\<lambda>found.
     bindA (someA found (NotFound ''Shop not found'')) (\<lambda>existing.
     bindA (enum_value shop_statuses status) (\<lambda>st.
     bindA (updateRowA shops shops_update (\<lambda>h. sh_id h = shopId)
       (\<lambda>h. h\<lparr>sh_status := st, sh_verified := (if st = SH_ACTIVE then True else sh_verified h)\<rparr>)) (\<lambda>shop.
     thenA (auditA (Some actorId) ''SHOP_STATUS_CHANGE'' ''Shop'' (Some shopId))
     (thenA (whenA (st = SH_ACTIVE) (emitA ''merchant.approved'' shopId)) (returnA shop)))))))"

definition admin_listOrders :: "admin_query \<Rightarrow> ('z auth_db_scheme, order_row admin_page) act" where
  "admin_listOrders q =
    bindA (enum_filter order_statuses (aq_status q)) (\<lambda>status.
    let limit = admin_limit (aq_limit q);
        P = (\<lambda>o'. is_wanted status (o_status o') \<and>
          searched (aq_search q) (\<lambda>t. icontains t (o_orderNumber o') \<or> js_contains t (o_id o') \<or>
            (case o_customerEmail o' of None \<Rightarrow> False | Some e \<Rightarrow> icontains t e))) in
    getsA (\<lambda>s. admin_page_of o_id limit (newest_first o_id P (aq_cursor q) limit (orders s))))"

definition admin_listDisputes :: "admin_query \<Rightarrow> ('z auth_db_scheme, dispute_row admin_page) act" where
  "admin_listDisputes q =
    bindA (enum_filter dispute_statuses (aq_status q)) (\<lambda>status.
    let limit = admin_limit (aq_limit q) in
    getsA (\<lambda>s. admin_page_of dp_id limit (newest_first dp_id (\<lambda>d. is_wanted status (dp_status d)) (aq_cursor q) limit (disputes s))))"

definition resolution_status :: "string \<Rightarrow> dispute_status" where
  "resolution_status resolution =
    (if resolution = ''CLOSED'' then DS_CLOSED else if resolution = ''APPEALED'' then DS_APPEALED
     else if resolution = ''OPEN'' then DS_OPEN else DS_RESOLVED)"

definition resolution_text :: "string \<Rightarrow> string \<Rightarrow> string" where
  "resolution_text resolution note_text =
    take 2000 (if resolution \<noteq> [] \<and> note_text \<noteq> [] then resolution @ '': '' @ note_text else resolution @ note_text)"

definition resolveDispute :: "string \<Rightarrow> string \<Rightarrow> string \<Rightarrow> string \<Rightarrow> ('z auth_db_scheme, dispute_row) act" where
  "resolveDispute disputeId resolution note_text actorId =
    bindA (getsA (\<lambda>s. find_row (\<lambda>d. dp_id d = disputeId) (disputes s))) (\<lambda>found.
    bindA (someA found (NotFound ''Dispute not found'')) (\<lambda>existing.
    bindA (updateRowA disputes disputes_update (\<lambda>d. dp_id d = disputeId)
      (\<lambda>d. d\<lparr>dp_status := resolution_status resolution,
             dp_resolution := Some (case resolution_text resolution note_text of [] \<Rightarrow> resolution | t \<Rightarrow> t)\<rparr>)) (\<lambda>dispute.
    thenA (auditA (Some actorId) ''DISPUTE_RESOLVED'' ''Dispute'' (Some disputeId)) (returnA dispute))))"

section \<open>Payouts\<close>

definition admin_listPayouts :: "admin_query \<Rightarrow> ('z auth_db_scheme, payout_row admin_page) act" where
  "admin_listPayouts q =
    bindA (enum_filter payout_statuses (aq_status q)) (\<lambda>status.
    let limit = admin_limit (aq_limit q) in
    getsA (\<lambda>s. admin_page_of po_id limit (newest_first po_id (\<lambda>p. is_wanted status (po_status p)) (aq_cursor q) limit (payouts s))))"

definition pay_out_tx :: "payout_row \<Rightarrow> string \<Rightarrow> ('z fin_db_scheme, payout_row) act" where
  "pay_out_tx row adminNote =
    txA
     (bindA (getsA clock) (\<lambda>now.
      bindA (updateRowA payouts payouts_update (\<lambda>p. po_id p = po_id row)
        (\<lambda>p. p\<lparr>po_status := PO_PAID, po_adminNote := or_else (Some adminNote) (po_adminNote row), po_processedAt := Some now\<rparr>)) (\<lambda>payout.
      thenA (createA ledger_entries_update
        \<lparr>le_shopId = Some (po_shopId row), le_orderId = None, le_account = LA_VENDOR, le_entryType = LE_PAYOUT,
         le_amountCents = - po_amountCents row, le_currency = ''USD'', le_metadata = None\<rparr>)
        (returnA payout))))"

definition processPayout :: "string \<Rightarrow> string \<Rightarrow> string \<Rightarrow> string \<Rightarrow> ('z auth_db_scheme, payout_row) act" where
  "processPayout payoutId status adminNote actorId =
    thenA (guardA (in_enum payout_statuses status) (BadRequest ''Invalid payout status''))
    (bindA (getsA (\<lambda>s. find_row (\<lambda>p. po_id p = payoutId) (payouts s))) (\<lambda>found.
     bindA (someA found (NotFound ''Payout not found'')) (\<lambda>row.
     if status = ''PAID'' then
       thenA (guardA (po_status row = PO_APPROVED \<or> po_status row = PO_PENDING)
         (BadRequest ''Payout must be APPROVED (or PENDING) to mark PAID''))
       (bindA (pay_out_tx row adminNote) (\<lambda>updated.
        thenA (auditA (Some actorId) ''PAYOUT_PAID'' ''PayoutRequest'' (Some payoutId)) (returnA updated)))
     else if status = ''APPROVED'' \<or> status = ''REJECTED'' then
       thenA (guardA (po_status row = PO_PENDING \<or> po_status row = PO_APPROVED)
         (BadRequest ''Only PENDING (or APPROVED) payouts can be decided''))
       (bindA (getsA clock) (\<lambda>now.
        bindA (updateRowA payouts payouts_update (\<lambda>p. po_id p = payoutId)
          (\<lambda>p. p\<lparr>po_status := (if status = ''APPROVED'' then PO_APPROVED else PO_REJECTED),
                 po_adminNote := or_else (Some adminNote) None,
                 po_processedAt := (if status = ''REJECTED'' then Some now else po_processedAt p)\<rparr>)) (\<lambda>updated.
        thenA (auditA (Some actorId) (if status = ''APPROVED'' then ''PAYOUT_APPROVED'' else ''PAYOUT_REJECTED'')
          ''PayoutRequest'' (Some payoutId)) (returnA updated))))
     else throwA (BadRequest ''Unsupported payout status transition''))))"

end
