(* ===== verification/Admin_Claims.thy ===== *)
theory Admin_Claims
  imports Admin Support_Claims Money_Claims
begin

text \<open>What the administrators' console keeps, and what it loses.\<close>

section \<open>The last super administrator\<close>

text \<open>The operations of the console, apart from the status of an account that is an active super administrator.\<close>

datatype console_op =
    Set_role string string string
  | Set_user_status string string string
  | Set_shop_status string string string
  | Resolve_dispute string string string string
  | Process_payout string string string string

definition console :: "console_op \<Rightarrow> ('z auth_db_scheme, unit) act" where
  "console x =
    (case x of
      Set_role u r a \<Rightarrow> thenA (updateUserRole u r a) (returnA ())
    | Set_user_status u t a \<Rightarrow>
        bindA (getsA (\<lambda>s. list_ex (\<lambda>w. us_id w = u \<and> active_super w) (users s))) (\<lambda>super.
        thenA (whenA (\<not> super) (thenA (updateUserStatus u t a) (returnA ()))) (returnA ()))
    | Set_shop_status h t a \<Rightarrow> thenA (updateShopStatus h t a) (returnA ())
    | Resolve_dispute d r n a \<Rightarrow> thenA (resolveDispute d r n a) (returnA ())
    | Process_payout p t n a \<Rightarrow> thenA (processPayout p t n a) (returnA ()))"

definition has_super :: "'z auth_db_scheme \<Rightarrow> bool" where
  "has_super s \<longleftrightarrow> distinct (map us_id (users s)) \<and> list_ex active_super (users s)"

lemma has_super_cong: "users s' = users s \<Longrightarrow> has_super s \<Longrightarrow> has_super s'"
  by (simp add: has_super_def)

text \<open>One account changes and keeps its id: another one is enough, or the account itself.\<close>

lemma has_super_update:
  assumes s: "has_super s" and users: "users s' = update_where (\<lambda>u. us_id u = i) f (users s)"
    and f: "\<And>u. us_id (f u) = us_id u"
    and other: "(\<exists>w \<in> set (users s). active_super w \<and> us_id w \<noteq> i) \<or> (\<forall>w. active_super w \<longrightarrow> active_super (f w))"
  shows "has_super s'"
proof -
  have "distinct (map us_id (users s'))" using s f by (simp add: has_super_def users map_update_where)
  moreover have "\<exists>w \<in> set (users s'). active_super w"
    unfolding users bex_update_where using s other by (auto simp: has_super_def list_ex_iff)
  ultimately show ?thesis by (simp add: has_super_def list_ex_iff)
qed

lemma two_supers:
  assumes "distinct (map us_id us)" and "1 < count_where active_super us"
  shows "\<exists>w \<in> set us. active_super w \<and> us_id w \<noteq> i"
proof (rule ccontr)
  assume "\<not> ?thesis"
  then have only: "set (map us_id (filter active_super us)) \<subseteq> {i}" by auto
  have "distinct (map us_id (filter active_super us))" using assms(1) by (rule distinct_map_filter)
  then have "length (filter active_super us) \<le> card {i}"
    using card_mono [OF _ only] distinct_card [of "map us_id (filter active_super us)"] by (simp only: finite.emptyI finite.insertI length_map)
  with assms(2) show False by (simp add: count_where_def)
qed

lemma updateUserRole_effect:
  fixes s :: "'z auth_db_scheme"
  assumes run: "updateUserRole u r a s = (res, s')"
  shows "users s' = users s \<or> (\<exists>w x. find_row (\<lambda>w. us_id w = u) (users s) = Some w \<and> map_of roles r = Some x \<and>
    users s' = update_where (\<lambda>w. us_id w = u) (\<lambda>w. w\<lparr>us_role := x\<rparr>) (users s) \<and>
    (us_role w = SUPER_ADMIN \<and> r \<noteq> ''SUPER_ADMIN'' \<longrightarrow> 1 < count_where active_super (users s)))"
proof (cases "find_row (\<lambda>w. us_id w = u) (users s)")
  case None
  with run show ?thesis by (auto simp: updateUserRole_def user_by_def act_defs split: if_splits)
next
  case (Some w)
  note w = this
  show ?thesis
  proof (cases "map_of roles r")
    case None
    with run w show ?thesis by (auto simp: updateUserRole_def user_by_def enum_value_def act_defs split: if_splits)
  next
    case (Some x)
    with run w show ?thesis
      by (auto simp: updateUserRole_def user_by_def enum_value_def act_defs updateRowA_def auditA_def in_enum_def split: if_splits)
  qed
qed

lemma role_keeps_super: "keeps has_super (updateUserRole u r a)"
proof (rule keepsI)
  fix s res and s' :: "'z auth_db_scheme"
  assume s: "has_super s" and run: "updateUserRole u r a s = (res, s')"
  show "has_super s'"
    using updateUserRole_effect [OF run]
  proof (elim disjE exE conjE)
    assume "users s' = users s"
    then show ?thesis using s by (rule has_super_cong)
  next
    fix w x assume w: "find_row (\<lambda>w. us_id w = u) (users s) = Some w" and x: "map_of roles r = Some x"
      and users: "users s' = update_where (\<lambda>w. us_id w = u) (\<lambda>w. w\<lparr>us_role := x\<rparr>) (users s)"
      and more: "us_role w = SUPER_ADMIN \<and> r \<noteq> ''SUPER_ADMIN'' \<longrightarrow> 1 < count_where active_super (users s)"
    have keys: "distinct (map us_id (users s))" using s by (simp add: has_super_def)
    have "(\<exists>v \<in> set (users s). active_super v \<and> us_id v \<noteq> u) \<or> (\<forall>v. active_super v \<longrightarrow> active_super (v\<lparr>us_role := x\<rparr>))"
    proof (cases "r = ''SUPER_ADMIN''")
      case True
      with x have "x = SUPER_ADMIN" by (simp add: roles_def)
      then show ?thesis by (simp add: active_super_def)
    next
      case False
      obtain v where v: "v \<in> set (users s)" "active_super v" using s by (auto simp: has_super_def list_ex_iff)
      show ?thesis
      proof (cases "us_id v = u")
        case True
        with find_row_key [OF keys v(1)] w have "v = w" by simp
        with v False more have "1 < count_where active_super (users s)" by (simp add: active_super_def)
        from two_supers [OF keys this] show ?thesis by blast
      qed (use v in blast)
    qed
    then show ?thesis by (intro has_super_update [OF s users]) auto
  qed
qed

lemma status_keeps_super:
  fixes s :: "'z auth_db_scheme"
  assumes s: "has_super s" and other: "\<not> list_ex (\<lambda>w. us_id w = u \<and> active_super w) (users s)"
    and run: "updateUserStatus u t a s = (res, s')"
  shows "has_super s'"
proof -
  have "users s' = users s \<or> (\<exists>st. users s' = update_where (\<lambda>w. us_id w = u) (\<lambda>w. w\<lparr>us_status := st\<rparr>) (users s))"
  proof (cases "find_row (\<lambda>w. us_id w = u) (users s)")
    case None
    with run show ?thesis by (auto simp: updateUserStatus_def user_by_def act_defs Let_def split: if_splits)
  next
    case (Some w)
    with run show ?thesis
      by (cases "map_of user_statuses (normalizeUserStatus t)")
        (auto simp: updateUserStatus_def user_by_def enum_value_def act_defs Let_def updateRowA_def auditA_def in_enum_def split: if_splits)
  qed
  then show ?thesis
  proof (elim disjE exE)
    assume "users s' = users s"
    then show ?thesis using s by (rule has_super_cong)
  next
    fix st assume users: "users s' = update_where (\<lambda>w. us_id w = u) (\<lambda>w. w\<lparr>us_status := st\<rparr>) (users s)"
    have "\<exists>v \<in> set (users s). active_super v \<and> us_id v \<noteq> u"
      using s other by (auto simp: has_super_def list_ex_iff)
    then show ?thesis by (intro has_super_update [OF s users]) auto
  qed
qed

lemma rest_keeps_super:
  "keeps has_super (updateShopStatus h t a)" "keeps has_super (resolveDispute d r n a)" "keeps has_super (processPayout p t n a)"
  unfolding updateShopStatus_def enum_value_def resolveDispute_def processPayout_def pay_out_tx_def
  by (intro keeps_steps keeps_updateRowA keeps_createA keeps_auditA keeps_emitA; simp add: has_super_def)+

lemma console_keeps_super: "keeps has_super (console x)"
proof (cases x)
  case (Set_user_status u t a)
  have "keeps has_super (bindA (getsA (\<lambda>s. list_ex (\<lambda>w. us_id w = u \<and> active_super w) (users s))) (\<lambda>super.
      thenA (whenA (\<not> super) (thenA (updateUserStatus u t a) (returnA ()))) (returnA ())))"
    by (rule keepsI) (auto simp: act_defs split: if_splits prod.splits sum.splits intro: status_keeps_super)
  then show ?thesis by (simp add: console_def Set_user_status)
qed (auto simp: console_def intro!: keeps_then keeps_return role_keeps_super rest_keeps_super)

interpretation consoles: invariant_component "console :: console_op \<Rightarrow> ('z auth_db_scheme, unit) act" "has_super :: 'z auth_db_scheme \<Rightarrow> bool"
  by unfold_locales (rule console_keeps_super)

text \<open>
  C33.  Over every sequence of changes of roles, of the status of accounts that are not active super
  administrators, of shops, disputes and payouts, whoever asks for them, an active super administrator remains; and
  account ids stay unique.
\<close>

theorem super_admin_remains:
  fixes s :: "'z auth_db_scheme"
  assumes "distinct (map us_id (users s))" and "list_ex active_super (users s)"
  shows "distinct (map us_id (users (run_all console ops s))) \<and> list_ex active_super (users (run_all console ops s))"
  using consoles.history_keeps [of s ops] assms by (simp add: has_super_def)

text \<open>The status of the last one may be changed, which locks everybody out of its role.\<close>

lemma last_super_suspended:
  fixes s :: "'z auth_db_scheme"
  assumes "users s = [u]" and "active_super u"
  shows "\<exists>r s'. updateUserStatus (us_id u) ''BLOCKED'' a s = (Inr r, s') \<and> \<not> list_ex active_super (users s')"
  using assms by (simp add: updateUserStatus_def user_by_def enum_value_def act_defs Let_def updateRowA_def auditA_def in_enum_def
      normalizeUserStatus_def user_statuses_def active_super_def)

theorem super_admin_remains_witness:
  "list_ex active_super (users (run_all console [Set_role ''u1'' ''CUSTOMER'' ''u1'', Set_user_status ''u1'' ''BLOCKED'' ''u2'']
     (demo_desk\<lparr>users := [demo_user\<lparr>us_role := SUPER_ADMIN\<rparr>]\<rparr>)))"
  using super_admin_remains [of "demo_desk\<lparr>users := [demo_user\<lparr>us_role := SUPER_ADMIN\<rparr>]\<rparr>"
      "[Set_role ''u1'' ''CUSTOMER'' ''u1'', Set_user_status ''u1'' ''BLOCKED'' ''u2'']"]
  by (simp add: active_super_def demo_user_def del: run_all.simps)

section \<open>Payouts at the console\<close>

lemma find_updated:
  "find_row (\<lambda>r. key r = k) xs = Some x \<Longrightarrow> (\<And>r. key (f r) = key r) \<Longrightarrow>
   find_row (\<lambda>r. key r = k) (update_where (\<lambda>r. key r = k) f xs) = Some (f x)"
  by (induction xs) (auto split: if_splits)

text \<open>
  A payout whose amount is reserved may be approved once more by the finance
  service and is then rejected at the console.  Nothing is posted on the way, and failing it afterwards posts nothing
  either: the reserve is never given back, and a shop with double-entry books has no more available than before.
\<close>

theorem console_rejection_keeps_reserve:
  fixes s :: "'z auth_db_scheme"
  assumes row: "find_row (\<lambda>p. po_id p = i) (payouts s) = Some row" "po_status row = PO_RESERVED \<or> po_status row = PO_PROCESSING"
    and admin: "is_admin user" and books: "0 < deCount (po_shopId row) s"
  shows "\<exists>r1 s1 r2 s2 r3 s3. decidePayout user i D_APPROVED n1 s = (Inr r1, s1) \<and>
    processPayout i ''REJECTED'' n2 (sub user) s1 = (Inr r2, s2) \<and> po_status r2 = PO_REJECTED \<and>
    failPayout i reason (Some (sub user)) s2 = (Inr r3, s3) \<and> po_status r3 = PO_FAILED \<and>
    fin_txns s3 = fin_txns s \<and> getAvailableBalance (po_shopId row) s3 = getAvailableBalance (po_shopId row) s"
proof -
  have id: "po_id row = i" using find_row_Some [OF row(1)] by simp
  let ?f1 = "\<lambda>p. p\<lparr>po_status := PO_APPROVED, po_adminNote := or_else n1 None\<rparr>"
  obtain s1 where one: "decidePayout user i D_APPROVED n1 s = (Inr (?f1 row), s1)"
      and p1: "payouts s1 = update_where (\<lambda>p. po_id p = i) ?f1 (payouts s)" and t1: "fin_txns s1 = fin_txns s"
    using row admin by (auto simp: decidePayout_def act_defs updateRowA_def auditA_def)
  have r1: "find_row (\<lambda>p. po_id p = i) (payouts s1) = Some (?f1 row)"
    unfolding p1 by (rule find_updated [OF row(1)]) simp
  let ?f2 = "\<lambda>p. p\<lparr>po_status := PO_REJECTED, po_adminNote := or_else (Some n2) None, po_processedAt := Some (clock s1)\<rparr>"
  have known: "in_enum payout_statuses ''REJECTED''" by (simp add: in_enum_def payout_statuses_def)
  obtain s2 where two: "processPayout i ''REJECTED'' n2 (sub user) s1 = (Inr (?f2 (?f1 row)), s2)"
      and p2: "payouts s2 = update_where (\<lambda>p. po_id p = i) ?f2 (payouts s1)" and t2: "fin_txns s2 = fin_txns s1"
    using r1 known by (auto simp: processPayout_def act_defs updateRowA_def auditA_def)
  have r2: "find_row (\<lambda>p. po_id p = i) (payouts s2) = Some (?f2 (?f1 row))"
    unfolding p2 by (rule find_updated [OF r1]) simp
  obtain r3 s3 where three: "failPayout i reason (Some (sub user)) s2 = (Inr r3, s3)" "po_status r3 = PO_FAILED" "fin_txns s3 = fin_txns s2"
    using r2 id by (auto simp: failPayout_def failPayout_tx_def act_defs updateRowA_def auditA_def)
  have same: "deCount (po_shopId row) s3 = deCount (po_shopId row) s" "vendorPayableBalanceCents (po_shopId row) s3 = vendorPayableBalanceCents (po_shopId row) s"
    using three t2 t1 by (simp_all add: deCount_def vendorPayableBalanceCents_def account_balance_def posted_entries_def)
  then have "getAvailableBalance (po_shopId row) s3 = getAvailableBalance (po_shopId row) s"
    using books by (simp add: getAvailableBalance_def)
  with one two three t2 t1 show ?thesis by fastforce
qed

definition demo_payout :: payout_row where
  "demo_payout = \<lparr>po_id = ''w'', po_shopId = ''s1'', po_amountCents = 4000, po_status = PO_RESERVED, po_note = None,
    po_adminNote = None, po_reservedAt = Some 900, po_processedAt = None, po_completedAt = None, po_failureReason = None,
    po_stripeTransferId = None, po_requestedById = None\<rparr>"

definition demo_console :: support_db where
  "demo_console = demo_desk\<lparr>payouts := [demo_payout], fin_txns := fin_txns demo_funds\<rparr>"

theorem console_rejection_keeps_reserve_witness:
  "\<exists>r1 s1 r2 s2 r3 s3. decidePayout demo_admin ''w'' D_APPROVED None demo_console = (Inr r1, s1) \<and>
    processPayout ''w'' ''REJECTED'' ''no'' ''a1'' s1 = (Inr r2, s2) \<and> failPayout ''w'' ''no'' (Some ''a1'') s2 = (Inr r3, s3) \<and>
    fin_txns s3 = fin_txns demo_console"
proof -
  have books: "0 < deCount (po_shopId demo_payout) demo_console"
    using demo_funds_books(2) by (simp add: demo_console_def demo_payout_def deCount_def)
  have "find_row (\<lambda>p. po_id p = ''w'') (payouts demo_console) = Some demo_payout" "po_status demo_payout = PO_RESERVED"
      "is_admin demo_admin" "sub demo_admin = ''a1''"
    by (simp_all add: demo_console_def demo_payout_def demo_admin_def is_admin_def)
  with console_rejection_keeps_reserve [OF _ _ _ books, of "''w''" demo_admin None "''no''" "''no''"] show ?thesis by fastforce
qed

end
