(* ===== verification/Media.thy ===== *)
theory Media
  imports Support Storage
begin

text \<open>
  Owned files: \<open>media/media.service.ts\<close>.  An asset is a stored file with its owner, its shop and who may see it.
\<close>

section \<open>State\<close>

datatype visibility = V_PUBLIC | V_PRIVATE | V_KYC

record media_row =
  me_id :: string
  me_ownerId :: "string option"
  me_shopId :: "string option"
  me_entityType :: string
  me_entityId :: string
  me_storageKey :: string
  me_originalName :: "string option"
  me_mimeType :: string
  me_sizeBytes :: int
  me_visibility :: visibility

record media_db = support_db +
  media_assets :: "media_row list"

record media_env =
  mv_upload :: upload_env
  mv_storage :: storage_env

record create_media =
  cm_entityType :: string
  cm_entityId :: string
  cm_shopId :: "string option"
  cm_visibility :: "visibility option"

text \<open>\<open>storageKey\<close> is a unique column, the shop a foreign key.\<close>

definition insert_media :: "media_row \<Rightarrow> ('z media_db_scheme, unit) act" where
  "insert_media row =
    bindA (getsA (\<lambda>s. (list_ex (\<lambda>m. me_storageKey m = me_storageKey row) (media_assets s),
      case me_shopId row of None \<Rightarrow> True | Some h \<Rightarrow> list_ex (\<lambda>x. sh_id x = h) (shops s)))) (\<lambda>(clash, known).
    thenA (guardA (\<not> clash) (PrismaError ''P2002''))
    (thenA (guardA known (PrismaError ''P2003'')) (createA media_assets_update row)))"

section \<open>Folders\<close>

definition folderForEntity :: "string \<Rightarrow> string" where
  "folderForEntity entityType =
    (let t = js_lower entityType in
     if t = ''product'' \<or> t = ''products'' then ''products''
     else if t = ''kyc'' then ''kyc''
     else if t = ''user'' \<or> t = ''avatar'' \<or> t = ''avatars'' then ''avatars''
     else if t = ''document'' \<or> t = ''documents'' then ''documents''
     else ''other'')"

definition privateFolderForEntity :: "string \<Rightarrow> string option \<Rightarrow> string \<Rightarrow> string" where
  "privateFolderForEntity entityType shopId entityId =
    (let t = js_lower entityType in
     if t = ''kyc'' then ''kyc/'' @ (case or_else shopId None of Some h \<Rightarrow> h | None \<Rightarrow> ''unknown'') @ ''/'' @ entityId
     else if t = ''document'' \<or> t = ''documents'' then ''documents/'' @ entityId
     else ''other/'' @ entityId)"

section \<open>Creating\<close>

definition media_visibility :: "create_media \<Rightarrow> visibility" where
  "media_visibility dto =
    (if js_lower (cm_entityType dto) = ''kyc'' then V_KYC
     else if js_lower (cm_entityType dto) = ''product'' \<and> cm_visibility dto = None then V_PUBLIC
     else case cm_visibility dto of Some v \<Rightarrow> v | None \<Rightarrow> V_PRIVATE)"

definition media_kind :: "visibility \<Rightarrow> upload_file option \<Rightarrow> upload_kind" where
  "media_kind v file =
    (if v = V_KYC then UK_kyc
     else case file of Some f \<Rightarrow> if js_starts ''image/'' (uf_mimetype f) then UK_image else UK_media | None \<Rightarrow> UK_media)"

definition media_shop :: "create_media \<Rightarrow> jwt_payload \<Rightarrow> string option" where
  "media_shop dto user =
    or_else (cm_shopId dto) (or_else (if user_role user = MERCHANT then user_shopId user else None) None)"

text \<open>The address the service shows.\<close>

record media_view =
  mw_row :: media_row
  mw_url :: "string option"

definition toResponse :: "storage_env \<Rightarrow> media_row \<Rightarrow> media_view" where
  "toResponse st m =
    (let publicUrl = toPublicUrl st (me_storageKey m) in
     \<lparr>mw_row = m, mw_url =
        (if me_visibility m = V_PUBLIC then publicUrl
         else if truthy publicUrl \<and> \<not> isPrivateKey st (me_storageKey m) then publicUrl else None)\<rparr>)"

text \<open>The stored file: key, type and size.\<close>

definition store_media ::
  "storage_env \<Rightarrow> create_media \<Rightarrow> visibility \<Rightarrow> string option \<Rightarrow> upload_file \<Rightarrow> safe_file \<Rightarrow> ('z media_db_scheme, stored) act" where
  "store_media st dto v shopId f safe =
    (let isImage = js_starts ''image/'' (sf_mimeType safe) in
     if v = V_KYC \<or> v = V_PRIVATE then
       uploadPrivate st f (privateFolderForEntity (cm_entityType dto) shopId (cm_entityId dto)) isImage
     else
       (let folder = folderForEntity (cm_entityType dto) in
        bindA (if isImage then uploadImage st f folder else uploadFile st f folder) (\<lambda>publicUrl.
        returnA \<lparr>so_storageKey = extractKeyFromUrl st publicUrl,
          so_mimeType = (if isImage then ''image/webp'' else sf_mimeType safe), so_sizeBytes = sf_sizeBytes safe\<rparr>)))"

definition media_create :: "media_env \<Rightarrow> upload_file option \<Rightarrow> create_media \<Rightarrow> jwt_payload \<Rightarrow> ('z media_db_scheme, media_view) act" where
  "media_create env file dto user =
    thenA (guardA (js_trim (cm_entityType dto) \<noteq> [] \<and> js_trim (cm_entityId dto) \<noteq> [])
      (BadRequest ''entityType and entityId are required''))
    (let v = media_visibility dto in
     bindA (assertSafe (mv_upload env) file (media_kind v file) None False) (\<lambda>safe.
     let f = applySafeMeta (the file) safe;
         shopId = media_shop dto user in
     thenA (guardA (\<not> (user_role user = MERCHANT \<and> truthy shopId \<and> truthy (user_shopId user) \<and> shopId \<noteq> user_shopId user))
       (Forbidden ''Cannot upload media for another shop''))
     (bindA (store_media (mv_storage env) dto v shopId f safe) (\<lambda>st.
      thenA (guardA (so_storageKey st \<noteq> []) (BadRequest ''Failed to resolve storage key''))
      (bindA newIdA (\<lambda>i.
       let row = \<lparr>me_id = i, me_ownerId = Some (sub user), me_shopId = shopId, me_entityType = js_trim (cm_entityType dto),
         me_entityId = js_trim (cm_entityId dto), me_storageKey = so_storageKey st,
         me_originalName = Some (sf_safeOriginalName safe), me_mimeType = so_mimeType st, me_sizeBytes = so_sizeBytes st,
         me_visibility = v\<rparr> in
       thenA (insert_media row) (returnA (toResponse (mv_storage env) row))))))))"

definition createLegacy :: "media_env \<Rightarrow> upload_file option \<Rightarrow> string \<Rightarrow> jwt_payload \<Rightarrow> ('z media_db_scheme, media_view) act" where
  "createLegacy env file folder user =
    media_create env file
      \<lparr>cm_entityType = (if folder = [] then ''other'' else folder), cm_entityId = sub user, cm_shopId = user_shopId user,
       cm_visibility = Some (if folder = ''kyc'' then V_KYC else if folder = ''products'' then V_PUBLIC else V_PRIVATE)\<rparr> user"

section \<open>Reading and deleting\<close>

definition assertCanReadMedia :: "media_row \<Rightarrow> jwt_payload \<Rightarrow> ('s, unit) act" where
  "assertCanReadMedia m user =
    guardA (is_admin user \<or> me_ownerId m = Some (sub user) \<or>
      truthy (me_shopId m) \<and> truthy (user_shopId user) \<and> me_shopId m = user_shopId user) (Forbidden ''No permission to view'')"

definition assertCanDelete :: "media_row \<Rightarrow> jwt_payload \<Rightarrow> ('s, unit) act" where
  "assertCanDelete m user =
    guardA (me_ownerId m = Some (sub user) \<or>
      truthy (me_shopId m) \<and> truthy (user_shopId user) \<and> me_shopId m = user_shopId user \<or> is_admin user) (Forbidden ''No permission to delete'')"

text \<open>A private document shows a signed address instead of a public one.\<close>

datatype media_found = Shown media_view | SignedFor media_row signed_url

definition media_findOne :: "storage_env \<Rightarrow> string \<Rightarrow> jwt_payload option \<Rightarrow> ('z media_db_scheme, media_found) act" where
  "media_findOne st i user =
    bindA (getsA (\<lambda>s. find_row (\<lambda>m. me_id m = i) (media_assets s))) (\<lambda>found.
    bindA (someA found (NotFound ''Media not found'')) (\<lambda>m.
    thenA (whenA (me_visibility m = V_PRIVATE \<or> me_visibility m = V_KYC)
      (bindA (someA user (Forbidden ''Authentication required'')) (\<lambda>u. assertCanReadMedia m u)))
    (if me_visibility m = V_KYC
     then bindA (getSignedUrl st (me_storageKey m) 180) (\<lambda>signed. returnA (SignedFor m signed))
     else returnA (Shown (toResponse st m)))))"

definition media_delete :: "storage_env \<Rightarrow> string \<Rightarrow> jwt_payload \<Rightarrow> ('z media_db_scheme, string) act" where
  "media_delete st i user =
    bindA (getsA (\<lambda>s. find_row (\<lambda>m. me_id m = i) (media_assets s))) (\<lambda>found.
    bindA (someA found (NotFound ''Media not found'')) (\<lambda>m.
    thenA (assertCanDelete m user)
    (thenA (catchA (delete_stored st (me_storageKey m)) (\<lambda>e. returnA ()))
    (thenA (modifyA (media_assets_update (filter (\<lambda>m. me_id m \<noteq> i)))) (returnA i)))))"

end
