(* ===== verification/Kyc.thy ===== *)
theory Kyc
  imports Media Shops
begin

text \<open>
  Documents of a shop's verification: \<open>kyc/kyc.service.ts\<close>.  Each is a private asset; an administrator decides on it,
  and the decision moves the shop.
\<close>

section \<open>State\<close>

datatype kyc_type = KT_PASSPORT | KT_INN | KT_CHARTER | KT_CERTIFICATE | KT_OTHER

datatype kyc_status = KS_PENDING | KS_APPROVED | KS_REJECTED

definition kyc_types :: "(string \<times> kyc_type) list" where
  "kyc_types = [(''PASSPORT'', KT_PASSPORT), (''INN'', KT_INN), (''CHARTER'', KT_CHARTER), (''CERTIFICATE'', KT_CERTIFICATE),
    (''OTHER'', KT_OTHER)]"

record kyc_row =
  ky_id :: string
  ky_shopId :: string
  ky_uploadedById :: "string option"
  ky_reviewedById :: "string option"
  ky_docType :: kyc_type
  ky_fileName :: string
  ky_filePath :: "string option"
  ky_mediaAssetId :: "string option"
  ky_status :: kyc_status
  ky_notes :: "string option"
  ky_reviewedAt :: "int option"

record kyc_db = media_db +
  kyc_docs :: "kyc_row list"

definition media_of :: "kyc_row \<Rightarrow> 'z media_db_scheme \<Rightarrow> media_row option" where
  "media_of d s = (case ky_mediaAssetId d of None \<Rightarrow> None | Some i \<Rightarrow> find_row (\<lambda>m. me_id m = i) (media_assets s))"

section \<open>Uploading\<close>

definition may_upload_kyc :: "jwt_payload \<Rightarrow> string \<Rightarrow> bool" where
  "may_upload_kyc user shopId \<longleftrightarrow>
    (if user_role user = MERCHANT then truthy (user_shopId user) \<and> user_shopId user = Some shopId else is_admin user)"

definition kyc_type_of :: "string \<Rightarrow> kyc_type" where
  "kyc_type_of raw = (case map_of kyc_types (js_upper (if raw = [] then ''OTHER'' else raw)) of Some t \<Rightarrow> t | None \<Rightarrow> KT_OTHER)"

text \<open>The document, its asset as it is shown, and the path of its download.\<close>

record kyc_view =
  kv_doc :: kyc_row
  kv_media :: "(string \<times> string \<times> visibility \<times> int) option"
  kv_downloadPath :: string

definition download_path :: "string \<Rightarrow> string" where
  "download_path i = ''/api/kyc/documents/'' @ i @ ''/download''"

definition media_shown :: "media_row \<Rightarrow> string \<times> string \<times> visibility \<times> int" where
  "media_shown m = (me_id m, me_mimeType m, me_visibility m, me_sizeBytes m)"

definition uploadKycDocument ::
  "media_env \<Rightarrow> string \<Rightarrow> jwt_payload \<Rightarrow> upload_file option \<Rightarrow> string \<Rightarrow> ('z kyc_db_scheme, kyc_view) act" where
  "uploadKycDocument env shopId user file docTypeRaw =
    bindA (assertSafe (mv_upload env) file UK_kyc None False) (\<lambda>safe.
    let f = applySafeMeta (the file) safe in
    bindA (getsA (\<lambda>s. find_row (\<lambda>h. sh_id h = shopId) (shops s))) (\<lambda>shop.
    thenA (guardA (shop \<noteq> None) (NotFound ''Shop not found''))
    (thenA (guardA (may_upload_kyc user shopId) (Forbidden ''Not your shop''))
    (bindA newIdA (\<lambda>uuid.
     let tempEntityId = ''pending-'' @ uuid in
     bindA (uploadPrivate (mv_storage env) f (''kyc/'' @ shopId @ ''/'' @ tempEntityId) (js_starts ''image/'' (sf_mimeType safe))) (\<lambda>uploaded.
     bindA newIdA (\<lambda>mid.
     let media = \<lparr>me_id = mid, me_ownerId = Some (sub user), me_shopId = Some shopId, me_entityType = ''kyc'',
       me_entityId = tempEntityId, me_storageKey = so_storageKey uploaded, me_originalName = Some (sf_safeOriginalName safe),
       me_mimeType = so_mimeType uploaded, me_sizeBytes = so_sizeBytes uploaded, me_visibility = V_KYC\<rparr> in
     thenA (insert_media media)
     (bindA newIdA (\<lambda>i.
      let doc = \<lparr>ky_id = i, ky_shopId = shopId, ky_uploadedById = Some (sub user), ky_reviewedById = None,
        ky_docType = kyc_type_of docTypeRaw, ky_fileName = sf_safeOriginalName safe, ky_filePath = None,
        ky_mediaAssetId = Some mid, ky_status = KS_PENDING, ky_notes = None, ky_reviewedAt = None\<rparr> in
      thenA (createA kyc_docs_update doc)
      (thenA (updateA media_assets media_assets_update (\<lambda>m. me_id m = mid) (\<lambda>m. m\<lparr>me_entityId := i\<rparr>))
      (thenA (auditA (Some (sub user)) ''KYC_UPLOAD'' ''KycDocument'' (Some i))
        (returnA \<lparr>kv_doc = doc, kv_media = Some (media_shown media), kv_downloadPath = download_path i\<rparr>))))))))))))"

section \<open>Reading\<close>

definition assertCanAccessKyc :: "string \<Rightarrow> string option \<Rightarrow> jwt_payload \<Rightarrow> ('s, unit) act" where
  "assertCanAccessKyc shopId uploadedById user =
    guardA (is_admin user \<or> truthy (user_shopId user) \<and> user_shopId user = Some shopId \<or>
      truthy uploadedById \<and> uploadedById = Some (sub user)) (Forbidden ''Access denied to this KYC document'')"

definition getDownloadUrl :: "storage_env \<Rightarrow> string \<Rightarrow> jwt_payload \<Rightarrow> ('z kyc_db_scheme, signed_url \<times> kyc_row) act" where
  "getDownloadUrl st documentId user =
    bindA (getsA (\<lambda>s. find_row (\<lambda>d. ky_id d = documentId) (kyc_docs s))) (\<lambda>found.
    bindA (someA found (NotFound ''KYC document not found'')) (\<lambda>doc.
    thenA (assertCanAccessKyc (ky_shopId doc) (ky_uploadedById doc) user)
    (bindA (getsA (\<lambda>s. or_else (map_option me_storageKey (media_of doc s))
       (if truthy (ky_filePath doc) then Some (extractKeyFromUrl st (the (ky_filePath doc))) else None))) (\<lambda>key.
     thenA (guardA (truthy key) (NotFound ''KYC file not available''))
     (bindA (getSignedUrl st (the key) 180) (\<lambda>signed.
      thenA (auditA (Some (sub user)) ''KYC_DOWNLOAD'' ''KycDocument'' (Some (ky_id doc))) (returnA (signed, doc))))))))"

definition getShopKyc :: "string \<Rightarrow> jwt_payload option \<Rightarrow> ('z kyc_db_scheme, kyc_view list) act" where
  "getShopKyc shopId user =
    bindA (getsA (\<lambda>s. find_row (\<lambda>h. sh_id h = shopId) (shops s))) (\<lambda>shop.
    thenA (guardA (shop \<noteq> None) (NotFound ''Shop not found''))
    (thenA (guardA (case user of None \<Rightarrow> True | Some u \<Rightarrow> \<not> (user_role u = MERCHANT \<and> user_shopId u \<noteq> Some shopId)) (Forbidden ''Not your shop''))
     (getsA (\<lambda>s. map (\<lambda>d. \<lparr>kv_doc = d\<lparr>ky_filePath := None\<rparr>, kv_media = map_option media_shown (media_of d s),
        kv_downloadPath = download_path (ky_id d)\<rparr>) (filter (\<lambda>d. ky_shopId d = shopId) (rev (kyc_docs s)))))))"

section \<open>Deciding\<close>

text \<open>The shop after a decision: verified when nothing is pending any more, not verified after a rejection.\<close>

definition move_shop :: "kyc_row \<Rightarrow> kyc_status \<Rightarrow> string option \<Rightarrow> ('z kyc_db_scheme, unit) act" where
  "move_shop doc next notes =
    (if next = KS_APPROVED then
       bindA (getsA (\<lambda>s. count_where (\<lambda>d. ky_shopId d = ky_shopId doc \<and> ky_status d = KS_PENDING) (kyc_docs s))) (\<lambda>pending.
       whenA (pending = 0) (updateA shops shops_update (\<lambda>h. sh_id h = ky_shopId doc)
         (\<lambda>h. h\<lparr>sh_verified := True, sh_status := SH_ACTIVE, sh_kycNotes := or_else notes (Some ''KYC approved'')\<rparr>)))
     else
       updateA shops shops_update (\<lambda>h. sh_id h = ky_shopId doc)
         (\<lambda>h. h\<lparr>sh_verified := False, sh_rejectionReason := or_else notes (Some ''KYC document rejected'')\<rparr>))"

text \<open>Whom to tell: the uploader, or what the shop's merchant fills in.\<close>

definition kyc_recipient :: "kyc_row \<Rightarrow> 'z auth_db_scheme \<Rightarrow> string option \<times> string option" where
  "kyc_recipient doc s =
    (let uploader = (case ky_uploadedById doc of None \<Rightarrow> None | Some i \<Rightarrow> find_row (\<lambda>u. us_id u = i) (users s));
         mail = map_option us_email uploader; who = map_option us_id uploader in
     if truthy mail \<and> truthy who then (mail, who)
     else (let merchant = find_row (\<lambda>u. us_shopId u = Some (ky_shopId doc) \<and> us_role u = MERCHANT) (users s) in
       (or_else mail (map_option us_email merchant), or_else who (map_option us_id merchant))))"

text \<open>The answer about the notice: sent in the application, logged as a mail only, or skipped.\<close>

datatype kyc_notice = In_app "string option" | Mail_only string | Skipped

text \<open>The texts of the message are an argument: from the shop's name and the notes.\<close>

definition tell_reviewed ::
  "notify_env \<Rightarrow> (bool \<Rightarrow> string option \<Rightarrow> string option \<Rightarrow> string \<times> string) \<Rightarrow> kyc_row \<Rightarrow> bool \<Rightarrow> string option \<Rightarrow> string option \<Rightarrow>
   ('z kyc_db_scheme, kyc_notice) act" where
  "tell_reviewed env text_of doc approved shopName notes =
    bindA (getsA (kyc_recipient doc)) (\<lambda>(mail, who).
    if truthy who then
      bindA (notify env \<lparr>np_userId = the who, np_type = (if approved then ''KYC_APPROVED'' else ''KYC_REJECTED''),
        np_title = fst (text_of approved shopName notes), np_body = Some (snd (text_of approved shopName notes)),
        np_data = [(''shopId'', JString (ky_shopId doc)), (''documentId'', JString (ky_id doc)),
          (''status'', JString (if approved then ''APPROVED'' else ''REJECTED'')),
          (''notes'', case or_else notes None of Some n \<Rightarrow> JString n | None \<Rightarrow> JNull)],
        np_channels = None, np_tenantId = None, np_link = Some ''/merchant/kyc''\<rparr>) (\<lambda>created.
      returnA (In_app (map_option n_id created)))
    else if truthy mail then returnA (Mail_only (the mail))
    else returnA Skipped)"

definition reviewKycDocument ::
  "notify_env \<Rightarrow> (bool \<Rightarrow> string option \<Rightarrow> string option \<Rightarrow> string \<times> string) \<Rightarrow> string \<Rightarrow> string \<Rightarrow> string \<Rightarrow> string option \<Rightarrow>
   ('z kyc_db_scheme, kyc_row \<times> kyc_notice) act" where
  "reviewKycDocument env text_of docId status reviewerId notes =
    (let t = js_upper status in
     thenA (guardA (t = ''APPROVED'' \<or> t = ''REJECTED'') (BadRequest ''status must be APPROVED or REJECTED''))
     (let approved = (t = ''APPROVED''); next = (if approved then KS_APPROVED else KS_REJECTED) in
      bindA (getsA (\<lambda>s. find_row (\<lambda>d. ky_id d = docId) (kyc_docs s))) (\<lambda>found.
      bindA (someA found (NotFound ''KYC document not found'')) (\<lambda>existing.
      bindA (getsA clock) (\<lambda>now.
      bindA (updateRowA kyc_docs kyc_docs_update (\<lambda>d. ky_id d = docId)
        (\<lambda>d. d\<lparr>ky_status := next, ky_notes := notes, ky_reviewedById := Some reviewerId, ky_reviewedAt := Some now\<rparr>)) (\<lambda>doc.
      bindA (getsA (\<lambda>s. map_option sh_name (find_row (\<lambda>h. sh_id h = ky_shopId doc) (shops s)))) (\<lambda>shopName.
      thenA (move_shop doc next notes)
      (thenA (auditA (Some reviewerId) (if approved then ''KYC_APPROVED'' else ''KYC_REJECTED'') ''KycDocument'' (Some docId))
      (bindA (tell_reviewed env text_of doc approved shopName notes) (\<lambda>notice. returnA (doc, notice)))))))))))"

section \<open>Deleting\<close>

definition deleteKycDocument :: "storage_env \<Rightarrow> string \<Rightarrow> jwt_payload \<Rightarrow> ('z kyc_db_scheme, unit) act" where
  "deleteKycDocument st docId user =
    bindA (getsA (\<lambda>s. find_row (\<lambda>d. ky_id d = docId) (kyc_docs s))) (\<lambda>found.
    bindA (someA found (NotFound ''KYC document not found'')) (\<lambda>doc.
    thenA (guardA (is_admin user \<or> user_role user = MERCHANT \<and> user_shopId user = Some (ky_shopId doc)) (Forbidden ''''))
    (thenA (guardA (is_admin user \<or> ky_status doc = KS_PENDING) (Forbidden ''Only PENDING documents can be deleted''))
    (bindA (getsA (media_of doc)) (\<lambda>media.
     thenA (if truthy (map_option me_storageKey media) then delete_stored st (me_storageKey (the media))
            else if truthy (ky_filePath doc) then delete_stored st (the (ky_filePath doc)) else returnA ())
     (thenA (case or_else (ky_mediaAssetId doc) None of
         None \<Rightarrow> returnA ()
       | Some m \<Rightarrow>
           thenA (updateA kyc_docs kyc_docs_update (\<lambda>d. ky_id d = docId) (\<lambda>d. d\<lparr>ky_mediaAssetId := None\<rparr>))
             (modifyA (media_assets_update (filter (\<lambda>x. me_id x \<noteq> m)))))
     (thenA (modifyA (kyc_docs_update (filter (\<lambda>d. ky_id d \<noteq> docId))))
       (auditA (Some (sub user)) ''KYC_DELETE'' ''KycDocument'' (Some docId)))))))))"

end
