(* ===== verification/Kyc_Claims.thy ===== *)
theory Kyc_Claims
  imports Kyc Admin_Claims Upload_Claims
begin

text \<open>Where a shop's documents lie, and what a decision on one does to the shop.\<close>

section \<open>Private files\<close>

lemma uploadPrivate_key:
  assumes "uploadPrivate env f pre img s = (Inr st, s')"
  shows "\<exists>t. so_storageKey st = PRIVATE_STORAGE_PREFIX @ t"
proof -
  let ?p = "strip_slashes (backslashes pre)"
  obtain uuid ext where "so_storageKey st =
      (if js_starts PRIVATE_STORAGE_PREFIX ?p then ?p else PRIVATE_STORAGE_PREFIX @ ?p) @ ''/'' @ uuid @ ext"
    using assms by (fastforce simp: uploadPrivate_def Let_def ok_simps)
  then show ?thesis by (auto simp: js_starts_iff prefix_def)
qed

lemma private_key:
  "isPrivateKey env (PRIVATE_STORAGE_PREFIX @ t)" "toPublicUrl env (PRIVATE_STORAGE_PREFIX @ t) = None"
  by (simp_all add: isPrivateKey_def toPublicUrl_def Let_def extractKeyFromUrl_def PRIVATE_STORAGE_PREFIX_def backslashes_def drop_slash_def)

text \<open>The same for every asset that is not public.\<close>

lemma private_media_hidden:
  fixes s :: "'z media_db_scheme"
  assumes "media_create env file dto user s = (Inr w, s')" and "me_visibility (mw_row w) \<noteq> V_PUBLIC"
  shows "isPrivateKey (mv_storage env) (me_storageKey (mw_row w)) \<and> mw_url w = None"
proof -
  obtain st f shopId safe row and s1 s2 :: "'z media_db_scheme" where put: "store_media (mv_storage env) dto (media_visibility dto) shopId f safe s1 = (Inr st, s2)"
      and w: "w = toResponse (mv_storage env) row" and row: "me_visibility row = media_visibility dto" "me_storageKey row = so_storageKey st"
    using assms(1) by (clarsimp simp: media_create_def Let_def ok_simps)
  have v: "media_visibility dto \<noteq> V_PUBLIC" using assms(2) by (simp add: w row toResponse_def Let_def)
  then have "media_visibility dto = V_KYC \<or> media_visibility dto = V_PRIVATE" by (cases "media_visibility dto") auto
  then obtain t where "so_storageKey st = PRIVATE_STORAGE_PREFIX @ t"
    using put by (auto simp: store_media_def Let_def dest: uploadPrivate_key)
  then show ?thesis using v row by (simp add: w toResponse_def Let_def private_key)
qed

text \<open>
  C37.  A document that was uploaded was uploaded by the shop's merchant or an administrator; it is
  pending, and its file is an asset of that shop with the visibility of such documents, whose key is private whatever
  the file was called, so that it has no public address.
\<close>

theorem kyc_upload_private:
  fixes s :: "'z kyc_db_scheme"
  assumes run: "uploadKycDocument env shopId user file raw s = (Inr v, s')"
  shows "(if user_role user = MERCHANT then user_shopId user = Some shopId else is_admin user) \<and>
    kv_doc v \<in> set (kyc_docs s') \<and> ky_status (kv_doc v) = KS_PENDING \<and> ky_shopId (kv_doc v) = shopId \<and>
    (\<exists>m \<in> set (media_assets s'). ky_mediaAssetId (kv_doc v) = Some (me_id m) \<and> me_visibility m = V_KYC \<and>
      me_shopId m = Some shopId \<and> isPrivateKey (mv_storage env) (me_storageKey m) \<and> toPublicUrl (mv_storage env) (me_storageKey m) = None)"
proof -
  obtain f tmp img up and s1 s2 :: "'z kyc_db_scheme" where
      may: "may_upload_kyc user shopId"
    and put: "uploadPrivate (mv_storage env) f (''kyc/'' @ shopId @ ''/'' @ tmp) img s1 = (Inr up, s2)"
    and d: "ky_status (kv_doc v) = KS_PENDING" "ky_shopId (kv_doc v) = shopId" and docs: "kv_doc v \<in> set (kyc_docs s')"
    and there: "\<exists>m \<in> set (media_assets s'). ky_mediaAssetId (kv_doc v) = Some (me_id m) \<and> me_visibility m = V_KYC \<and>
      me_shopId m = Some shopId \<and> me_storageKey m = so_storageKey up"
    using run unfolding uploadKycDocument_def Let_def
    by (clarsimp simp: ok_simps insert_media_def auditA_def)
  from uploadPrivate_key [OF put] obtain t where "so_storageKey up = PRIVATE_STORAGE_PREFIX @ t" ..
  then have "isPrivateKey (mv_storage env) (so_storageKey up)" "toPublicUrl (mv_storage env) (so_storageKey up) = None"
    by (simp_all add: private_key)
  with d docs may there show ?thesis by (auto simp: may_upload_kyc_def)
qed

text \<open>
  On the local disk a private key alone does not keep a file private: the entity id of a request becomes part of the
  key, and one that climbs puts the file among the public ones, under a key that counts as private.
\<close>

lemma private_upload_climbs:
  assumes "plain_name u"
  shows "privateFolderForEntity ''x'' shopId ''../../products'' = ''other/../../products''"
    and "join_path dir (PRIVATE_STORAGE_PREFIX @ ''other/../../products'' @ ''/'' @ u) = dir @ [''products'', u]"
    and "isPrivateKey env (PRIVATE_STORAGE_PREFIX @ ''other/../../products'' @ ''/'' @ u)"
proof -
  show "privateFolderForEntity ''x'' shopId ''../../products'' = ''other/../../products''"
    by (simp add: privateFolderForEntity_def js_lower_def js_lower_char_def Let_def of_char_def)
  have "split_on CHR ''/'' u = [u]" using assms by (intro split_on_plain) (simp add: plain_name_def)
  then show "join_path dir (PRIVATE_STORAGE_PREFIX @ ''other/../../products'' @ ''/'' @ u) = dir @ [''products'', u]"
    using assms by (simp add: join_path_def PRIVATE_STORAGE_PREFIX_def plain_name_def butlast_append)
qed (rule private_key)

section \<open>Decisions\<close>

lemma notify_frame:
  fixes x :: "shop_row list \<times> kyc_row list"
  shows "keeps (\<lambda>s :: 'z kyc_db_scheme. (shops s, kyc_docs s) = x) (notify env q)"
  unfolding notify_def create_notification_def send_email_def mark_sent_def update_delivery_def pushA_def add_email_def user_by_def Let_def
  by (intro keeps_steps keeps_updateA keeps_createA keeps_modify keeps_newIdA) simp_all

lemma tell_frame:
  fixes x :: "shop_row list \<times> kyc_row list"
  shows "keeps (\<lambda>s :: 'z kyc_db_scheme. (shops s, kyc_docs s) = x) (tell_reviewed env text_of d b n m)"
  unfolding tell_reviewed_def case_prod_unfold by (intro keeps_steps notify_frame)

definition shops_after :: "kyc_row \<Rightarrow> kyc_status \<Rightarrow> string option \<Rightarrow> 'z kyc_db_scheme \<Rightarrow> shop_row list" where
  "shops_after d next notes s =
    (if next = KS_REJECTED then update_where (\<lambda>h. sh_id h = ky_shopId d)
       (\<lambda>h. h\<lparr>sh_verified := False, sh_rejectionReason := or_else notes (Some ''KYC document rejected'')\<rparr>) (shops s)
     else if list_ex (\<lambda>e. ky_shopId e = ky_shopId d \<and> ky_status e = KS_PENDING \<and> ky_id e \<noteq> ky_id d) (kyc_docs s) then shops s
     else update_where (\<lambda>h. sh_id h = ky_shopId d)
       (\<lambda>h. h\<lparr>sh_verified := True, sh_status := SH_ACTIVE, sh_kycNotes := or_else notes (Some ''KYC approved'')\<rparr>) (shops s))"

text \<open>
  C36.  A decision that returns was asked for with one of the two names, sets that document's status
  alone, and moves the document's shop as follows: a rejection takes its verification and leaves its status; an approval
  makes it verified and active exactly when no other document of the shop is pending, whatever was decided on
  the others and whatever the shop's status was; no other shop changes.
\<close>

theorem review_moves_shop:
  fixes s :: "'z kyc_db_scheme"
  assumes run: "reviewKycDocument env text_of docId status reviewer notes s = (Inr (d, told), s')"
  shows "\<exists>old next. find_row (\<lambda>e. ky_id e = docId) (kyc_docs s) = Some old \<and>
    (js_upper status, next) \<in> {(''APPROVED'', KS_APPROVED), (''REJECTED'', KS_REJECTED)} \<and>
    d = old\<lparr>ky_status := next, ky_notes := notes, ky_reviewedById := Some reviewer, ky_reviewedAt := Some (clock s)\<rparr> \<and>
    kyc_docs s' = update_where (\<lambda>e. ky_id e = docId) (\<lambda>e. e\<lparr>ky_status := next, ky_notes := notes,
      ky_reviewedById := Some reviewer, ky_reviewedAt := Some (clock s)\<rparr>) (kyc_docs s) \<and>
    shops s' = shops_after old next notes s"
proof -
  define verdict where "verdict = (if js_upper status = ''APPROVED'' then KS_APPROVED else KS_REJECTED)"
  let ?f = "\<lambda>e. e\<lparr>ky_status := verdict, ky_notes := notes, ky_reviewedById := Some reviewer, ky_reviewedAt := Some (clock s)\<rparr>"
  define s1 where "s1 = kyc_docs_update (update_where (\<lambda>e. ky_id e = docId) ?f) s"
  obtain old g b and s2 :: "'z kyc_db_scheme" where name: "js_upper status = ''APPROVED'' \<or> js_upper status = ''REJECTED''"
    and old: "find_row (\<lambda>e. ky_id e = docId) (kyc_docs s) = Some old" and d: "d = ?f old"
    and moved: "move_shop (?f old) verdict notes s1 = (Inr (), s2)"
    and told: "tell_reviewed env text_of (?f old) b (map_option sh_name (find_row (\<lambda>h. sh_id h = ky_shopId old) (shops s1))) notes
      (audit_log_update g s2) = (Inr told, s')"
    using run unfolding reviewKycDocument_def Let_def s1_def verdict_def
    by (clarsimp simp: ok_simps auditA_def) 
  have id: "ky_id old = docId" using find_row_Some [OF old] by simp
  have frame: "shops s' = shops s2" "kyc_docs s' = kyc_docs s2"
    using keepsD [OF tell_frame refl told] by simp_all
  have others: "count_where (\<lambda>e. ky_shopId e = ky_shopId old \<and> ky_status e = KS_PENDING) (kyc_docs s1) = 0 \<longleftrightarrow>
      \<not> list_ex (\<lambda>e. ky_shopId e = ky_shopId old \<and> ky_status e = KS_PENDING \<and> ky_id e \<noteq> ky_id old) (kyc_docs s)"
    unfolding count_where_zero s1_def id by (auto simp: ball_update_where list_ex_iff verdict_def)
  have after: "shops s2 = shops_after old verdict notes s" "kyc_docs s2 = kyc_docs s1"
    using moved others by (auto simp: move_shop_def shops_after_def ok_simps verdict_def s1_def split: if_splits)
  show ?thesis
    using old d name frame after by (intro exI [of _ old] exI [of _ verdict]) (auto simp: s1_def verdict_def)
qed

text \<open>
  The two ways to suspend a shop differ: the service of shops takes its products off the list, the console leaves them.
\<close>

lemma suspension_of_products:
  fixes s :: "'z auth_db_scheme"
  assumes shop: "find_row (\<lambda>h. sh_id h = i) (shops s) = Some h" and admin: "is_admin user"
  shows "\<exists>r s'. updateShop user i SH_SUSPENDED None s = (Inr r, s') \<and> list_all (\<lambda>p. p_shopId p = i \<longrightarrow> p_status p \<noteq> PR_ACTIVE) (products s')"
    and "\<exists>r s'. updateShopStatus i ''SUSPENDED'' a s = (Inr r, s') \<and> products s' = products s"
proof -
  show "\<exists>r s'. updateShop user i SH_SUSPENDED None s = (Inr r, s') \<and> list_all (\<lambda>p. p_shopId p = i \<longrightarrow> p_status p \<noteq> PR_ACTIVE) (products s')"
    using assms by (simp add: updateShop_def get_shop_def act_defs updateRowA_def updateManyA_def auditA_def list_all_iff ball_update_where)
  have "in_enum shop_statuses ''SUSPENDED''" "map_of shop_statuses ''SUSPENDED'' = Some SH_SUSPENDED"
    by (simp_all add: in_enum_def shop_statuses_def)
  then show "\<exists>r s'. updateShopStatus i ''SUSPENDED'' a s = (Inr r, s') \<and> products s' = products s"
    using shop by (simp add: updateShopStatus_def enum_value_def act_defs updateRowA_def auditA_def)
qed

section \<open>Examples\<close>

definition demo_document :: "string \<Rightarrow> kyc_status \<Rightarrow> kyc_row" where
  "demo_document i st = \<lparr>ky_id = i, ky_shopId = ''s1'', ky_uploadedById = None, ky_reviewedById = None, ky_docType = KT_INN,
    ky_fileName = ''inn.pdf'', ky_filePath = None, ky_mediaAssetId = None, ky_status = st, ky_notes = None, ky_reviewedAt = None\<rparr>"

definition demo_files :: kyc_db where
  "demo_files = media_db.extend (support_db.extend demo_desk \<lparr>media_assets = []\<rparr>)
    \<lparr>kyc_docs = [demo_document ''d1'' KS_PENDING, demo_document ''d2'' KS_REJECTED]\<rparr>
    \<lparr>shops := [demo_shop\<lparr>sh_status := SH_SUSPENDED, sh_verified := False\<rparr>]\<rparr>"

lemma demo_files_fields:
  "kyc_docs demo_files = [demo_document ''d1'' KS_PENDING, demo_document ''d2'' KS_REJECTED]" "media_assets demo_files = []"
  "shops demo_files = [demo_shop\<lparr>sh_status := SH_SUSPENDED, sh_verified := False\<rparr>]" "users demo_files = [demo_user]"
  by (simp_all add: demo_files_def support_db.defs media_db.defs demo_desk_def notify_db.defs demo_inbox_def)

text \<open>The one pending document is approved, the other stays rejected: the suspended shop is active and verified.\<close>

theorem review_moves_shop_witness:
  "\<exists>d told s'. reviewKycDocument \<lparr>ne_emails = None, ne_gateway = False\<rparr> (\<lambda>_ _ _. ([], [])) ''d1'' ''approved'' ''a1'' None demo_files =
      (Inr (d, told), s') \<and> map (\<lambda>h. (sh_status h, sh_verified h)) (shops s') = [(SH_ACTIVE, True)] \<and>
    map ky_status (kyc_docs s') = [KS_APPROVED, KS_REJECTED]"
proof -
  have t: "js_upper ''approved'' = ''APPROVED''" by code_simp
  obtain d told s' where run: "reviewKycDocument \<lparr>ne_emails = None, ne_gateway = False\<rparr> (\<lambda>_ _ _. ([], [])) ''d1'' ''approved'' ''a1'' None
      demo_files = (Inr (d, told), s')"
    by (simp add: reviewKycDocument_def t act_defs Let_def demo_files_fields demo_document_def updateRowA_def move_shop_def updateA_def
        demo_shop_def tell_reviewed_def kyc_recipient_def demo_user_def auditA_def)
  with review_moves_shop [OF run] t show ?thesis
    by (auto simp: demo_files_fields demo_document_def demo_shop_def shops_after_def)
qed

lemma demo_scan_accepted:
  "validateUploadedFile (\<lambda>b. Inr None) u (Some demo_png) UK_kyc None =
    Inr \<lparr>sf_safeOriginalName = ''a b.png'', sf_storageKeyName = randomStorageFileName u ''.png'', sf_ext = ''.png'',
      sf_declaredMime = ''image/png'', sf_mimeType = ''image/png'', sf_sizeBytes = 8,
      sf_buffer = uf_buffer demo_png, sf_kind = UK_kyc\<rparr>"
proof -
  have "safeExtension (uf_originalname demo_png) = Inr ''.png'' \<and> js_lower (extname (uf_originalname demo_png)) = ''.png'' \<and>
      normalizeFilename (uf_originalname demo_png) = ''a b.png'' \<and> declared_mime (uf_mimetype demo_png) = ''image/png'' \<and>
      detectMagicMime (uf_buffer demo_png) = Some ''image/png'' \<and> ''.png'' \<notin> set DANGEROUS_EXT \<and>
      final_ext UK_kyc ''.png'' ''image/png'' = Inr ''.png'' \<and> uf_buffer demo_png \<noteq> [] \<and> uf_size demo_png = 8 \<and>
      checked_ext UK_kyc ''.png'' = Inr ''.png'' \<and> \<not> declared_dangerous UK_kyc ''image/png'' ''image/png'' \<and>
      content_mime UK_kyc (Some ''image/png'') (uf_buffer demo_png) = Inr ''image/png''"
    by code_simp
  then show ?thesis by (simp add: validateUploadedFile_def detected_mime_def Let_def)
qed

theorem kyc_upload_private_witness:
  "\<exists>v s'. uploadKycDocument \<lparr>mv_upload = \<lparr>ue_fileType = (\<lambda>b. Inr None), ue_clamd = None\<rparr>, mv_storage = demo_storage\<rparr> ''s1'' demo_admin
      (Some demo_png) ''INN'' demo_files = (Inr v, s') \<and> kv_doc v \<in> set (kyc_docs s') \<and>
    (\<exists>m \<in> set (media_assets s'). isPrivateKey demo_storage (me_storageKey m))"
proof -
  let ?env = "\<lparr>mv_upload = \<lparr>ue_fileType = (\<lambda>b. Inr None), ue_clamd = None\<rparr>, mv_storage = demo_storage\<rparr>"
  have buffer: "uf_buffer demo_png \<noteq> []" by (simp add: demo_png_def)
  have "\<exists>v s'. uploadKycDocument ?env ''s1'' demo_admin (Some demo_png) ''INN'' demo_files = (Inr v, s')"
    by (simp add: uploadKycDocument_def assertSafe_def sumA_def demo_scan_accepted scanBuffer_def uploadPrivate_def insert_media_def
        act_defs Let_def demo_files_fields newIdA_def createA_def updateA_def auditA_def demo_storage_def putLocal_def demo_shop_def
        may_upload_kyc_def demo_admin_def is_admin_def applySafeMeta_def buffer)
  then obtain v s' where run: "uploadKycDocument ?env ''s1'' demo_admin (Some demo_png) ''INN'' demo_files = (Inr v, s')" by blast
  with kyc_upload_private [OF run] show ?thesis by auto
qed

end
