(* ===== verification/Desks.thy ===== *)
theory Desks
  imports Kyc Rfq Admin
begin

text \<open>
  What a buyer and a merchant see of their business: \<open>buyer/buyer.service.ts\<close>, \<open>wishlist/wishlist.service.ts\<close> and
  \<open>merchant/merchant.service.ts\<close>.  Lists are the newest first.
\<close>

section \<open>Wishlist\<close>

record wish_row =
  wi_id :: string
  wi_userId :: string
  wi_productId :: string

record desk_db = kyc_db +
  wishes :: "wish_row list"

definition getWishlist :: "string \<Rightarrow> ('z desk_db_scheme, (wish_row \<times> product_row option) list) act" where
  "getWishlist userId =
    getsA (\<lambda>s. map (\<lambda>w. (w, find_row (\<lambda>p. p_id p = wi_productId w) (products s)))
      (filter (\<lambda>w. wi_userId w = userId) (rev (wishes s))))"

text \<open>An entry of user and product is there at most once.\<close>

definition addToWishlist :: "string \<Rightarrow> string \<Rightarrow> ('z desk_db_scheme, wish_row) act" where
  "addToWishlist userId productId =
    thenA (guardA (js_trim productId \<noteq> []) (BadRequest ''productId is required''))
    (bindA (getsA (\<lambda>s. find_row (\<lambda>p. p_id p = productId) (products s))) (\<lambda>product.
     thenA (guardA (product \<noteq> None) (NotFound ''Product not found''))
     (bindA (getsA (\<lambda>s. find_row (\<lambda>w. wi_userId w = userId \<and> wi_productId w = productId) (wishes s))) (\<lambda>old.
      case old of
        Some w \<Rightarrow> returnA w
      | None \<Rightarrow>
          bindA newIdA (\<lambda>i.
          let row = \<lparr>wi_id = i, wi_userId = userId, wi_productId = productId\<rparr> in
          thenA (createA wishes_update row) (returnA row))))))"

definition removeFromWishlist :: "string \<Rightarrow> string \<Rightarrow> ('z desk_db_scheme, unit) act" where
  "removeFromWishlist userId productId =
    modifyA (wishes_update (filter (\<lambda>w. \<not> (wi_userId w = userId \<and> wi_productId w = productId))))"

section \<open>The buyer's desk\<close>

definition ACTIVE_ORDER_STATUSES :: "order_status list" where
  "ACTIVE_ORDER_STATUSES = [OS_PENDING_PAYMENT, OS_PAID, OS_PROCESSING, OS_SHIPPED]"

definition COMPLETED_ORDER_STATUSES :: "order_status list" where
  "COMPLETED_ORDER_STATUSES = [OS_COMPLETED, OS_REFUNDED, OS_PARTIALLY_REFUNDED]"

definition CANCELLED_ORDER_STATUSES :: "order_status list" where
  "CANCELLED_ORDER_STATUSES = [OS_CANCELLED]"

definition rfq_statuses :: "(string \<times> rfq_status) list" where
  "rfq_statuses = [(''DRAFT'', RQ_DRAFT), (''OPEN'', RQ_OPEN), (''MATCHED'', RQ_MATCHED), (''QUOTED'', RQ_QUOTED),
    (''AWARDED'', RQ_AWARDED), (''CLOSED'', RQ_CLOSED), (''CANCELLED'', RQ_CANCELLED)]"

definition offers_for :: "string \<Rightarrow> 'z rfq_db_scheme \<Rightarrow> offer_row list" where
  "offers_for i s = filter (\<lambda>f. of_rfqId f = i) (offers s)"

definition has_pending_offer :: "'z rfq_db_scheme \<Rightarrow> rfq_row \<Rightarrow> bool" where
  "has_pending_offer s r \<longleftrightarrow> list_ex (\<lambda>f. of_status f = OF_PENDING) (offers_for (rq_id r) s)"

record buyer_dashboard =
  bu_activeOrders :: nat
  bu_pendingRfqs :: nat
  bu_wishlistCount :: nat
  bu_rfqsWithOffers :: nat
  bu_unreadNotifications :: nat
  bu_recentOrders :: "order_row list"
  bu_recentRfqs :: "(rfq_row \<times> nat) list"

definition buyer_getDashboard :: "string \<Rightarrow> ('z desk_db_scheme, buyer_dashboard) act" where
  "buyer_getDashboard buyerId =
    getsA (\<lambda>s. \<lparr>
      bu_activeOrders = count_where (\<lambda>o'. o_customerId o' = Some buyerId \<and> o_status o' \<in> set ACTIVE_ORDER_STATUSES) (orders s),
      bu_pendingRfqs = count_where (\<lambda>r. rq_buyerId r = buyerId \<and> rq_status r \<in> {RQ_DRAFT, RQ_OPEN, RQ_MATCHED, RQ_QUOTED}) (rfqs s),
      bu_wishlistCount = count_where (\<lambda>w. wi_userId w = buyerId) (wishes s),
      bu_rfqsWithOffers = count_where (\<lambda>r. rq_buyerId r = buyerId \<and> rq_status r \<in> {RQ_QUOTED, RQ_MATCHED, RQ_OPEN} \<and> has_pending_offer s r) (rfqs s),
      bu_unreadNotifications = count_where (\<lambda>n. n_userId n = buyerId \<and> \<not> n_isRead n) (notifications s),
      bu_recentOrders = take 5 (filter (\<lambda>o'. o_customerId o' = Some buyerId) (rev (orders s))),
      bu_recentRfqs = map (\<lambda>r. (r, length (offers_for (rq_id r) s))) (take 5 (filter (\<lambda>r. rq_buyerId r = buyerId) (rev (rfqs s))))\<rparr>)"

text \<open>The rows, the filter that was understood, their number.\<close>

record 'r filtered =
  fl_items :: "'r list"
  fl_filter :: string
  fl_total :: nat

definition filter_key :: "string option \<Rightarrow> string" where
  "filter_key statusFilter = js_lower (case statusFilter of Some t \<Rightarrow> t | None \<Rightarrow> [])"

definition filter_name :: "string \<Rightarrow> string \<Rightarrow> string" where
  "filter_name key otherwise = (if key = [] then otherwise else key)"

text \<open>
  The statuses a filter selects; \<open>None\<close> selects all.  The last case looks a lower-case key up among upper-case names, so it
  finds only what every object has, which the database refuses.
\<close>

definition buyer_order_filter :: "string \<Rightarrow> ('s, order_status list option) act" where
  "buyer_order_filter key =
    (if key = ''active'' then returnA (Some ACTIVE_ORDER_STATUSES)
     else if key = ''completed'' then returnA (Some COMPLETED_ORDER_STATUSES)
     else if key = ''cancelled'' then returnA (Some CANCELLED_ORDER_STATUSES)
     else if key \<noteq> [] \<and> in_enum order_statuses key then bindA (enum_value order_statuses key) (\<lambda>st. returnA (Some [st]))
     else returnA None)"

definition selects :: "'a list option \<Rightarrow> 'a \<Rightarrow> bool" where
  "selects want x \<longleftrightarrow> (case want of None \<Rightarrow> True | Some xs \<Rightarrow> x \<in> set xs)"

definition buyer_getOrders :: "string \<Rightarrow> string option \<Rightarrow> ('z desk_db_scheme, (order_row \<times> payment_row list) filtered) act" where
  "buyer_getOrders buyerId statusFilter =
    (let key = filter_key statusFilter in
     bindA (buyer_order_filter key) (\<lambda>want.
     getsA (\<lambda>s. let items = take 50 (filter (\<lambda>o'. o_customerId o' = Some buyerId \<and> selects want (o_status o')) (rev (orders s))) in
       \<lparr>fl_items = map (\<lambda>o'. (o', filter (\<lambda>p. pay_orderId p = o_id o') (payments s))) items,
        fl_filter = filter_name key ''all'', fl_total = length items\<rparr>)))"

definition buyer_rfq_filter :: "string \<Rightarrow> ('s, rfq_status list option) act" where
  "buyer_rfq_filter key =
    (if key = ''draft'' then returnA (Some [RQ_DRAFT])
     else if key = ''open'' then returnA (Some [RQ_OPEN, RQ_MATCHED, RQ_QUOTED])
     else if key = ''awarded'' then returnA (Some [RQ_AWARDED, RQ_CLOSED])
     else if key \<noteq> [] \<and> in_enum rfq_statuses (js_upper key) then bindA (enum_value rfq_statuses (js_upper key)) (\<lambda>st. returnA (Some [st]))
     else returnA None)"

definition buyer_getRfqs :: "string \<Rightarrow> string option \<Rightarrow> ('z desk_db_scheme, (rfq_row \<times> offer_row list) filtered) act" where
  "buyer_getRfqs buyerId statusFilter =
    (let key = filter_key statusFilter in
     if key = ''offers'' then
       getsA (\<lambda>s. let items = take 50 (filter (\<lambda>r. rq_buyerId r = buyerId \<and> has_pending_offer s r) (rev (rfqs s))) in
         \<lparr>fl_items = map (\<lambda>r. (r, offers_for (rq_id r) s)) items, fl_filter = ''offers'', fl_total = length items\<rparr>)
     else
       bindA (buyer_rfq_filter key) (\<lambda>want.
       getsA (\<lambda>s. let items = take 50 (filter (\<lambda>r. rq_buyerId r = buyerId \<and> selects want (rq_status r)) (rev (rfqs s))) in
         \<lparr>fl_items = map (\<lambda>r. (r, offers_for (rq_id r) s)) items, fl_filter = filter_name key ''all'', fl_total = length items\<rparr>)))"

section \<open>The merchant's desk\<close>

definition GMV_STATUSES :: "order_status list" where
  "GMV_STATUSES = [OS_PAID, OS_PROCESSING, OS_SHIPPED, OS_COMPLETED]"

definition PENDING_ORDER_STATUSES :: "order_status list" where
  "PENDING_ORDER_STATUSES = [OS_PENDING_PAYMENT, OS_PAID, OS_PROCESSING]"

definition requireShopId :: "jwt_payload \<Rightarrow> ('s, string) act" where
  "requireShopId user = someA (or_else (user_shopId user) None) (Forbidden ''No shop linked to merchant'')"

record merchant_dashboard =
  md_shop :: "shop_row option"
  md_gmvCents :: int
  md_revenueCents :: int
  md_commissionCents :: int
  md_ordersCount :: nat
  md_pendingOrders :: nat
  md_completedOrders :: nat
  md_productsCount :: nat
  md_activeProducts :: nat
  md_availableBalanceCents :: int
  md_pendingPayoutsCents :: int
  md_openOffers :: nat
  md_awardedOffers :: nat
  md_kycPending :: nat
  md_kycApproved :: nat
  md_conversionTenths :: int
  md_recentOrders :: "order_row list"
  md_recentOffers :: "offer_row list"

text \<open>The rate is shown in percent with one digit: its tenths are the whole number the code rounds to.\<close>

definition conversion_tenths :: "nat \<Rightarrow> nat \<Rightarrow> int" where
  "conversion_tenths completed placed =
    (if 0 < placed then js_round (fl_mul (fl_frac (int completed) (int placed)) (dbl_of_int 1000)) else 0)"

definition merchant_getDashboard :: "string \<Rightarrow> ('z desk_db_scheme, merchant_dashboard) act" where
  "merchant_getDashboard shopId =
    getsA (\<lambda>s.
      let mine = (\<lambda>o'. o_shopId o' = shopId);
          gmv = sum_where (\<lambda>o'. mine o' \<and> o_status o' \<in> set GMV_STATUSES) o_totalCents (orders s);
          commission = sum_where (\<lambda>o'. mine o' \<and> o_status o' \<in> set GMV_STATUSES) o_commissionCents (orders s);
          placed = count_where mine (orders s);
          completed = count_where (\<lambda>o'. mine o' \<and> o_status o' = OS_COMPLETED) (orders s) in
      \<lparr>md_shop = find_row (\<lambda>h. sh_id h = shopId) (shops s),
       md_gmvCents = gmv, md_revenueCents = max 0 (gmv - commission), md_commissionCents = commission,
       md_ordersCount = placed,
       md_pendingOrders = count_where (\<lambda>o'. mine o' \<and> o_status o' \<in> set PENDING_ORDER_STATUSES) (orders s),
       md_completedOrders = completed,
       md_productsCount = count_where (\<lambda>p. p_shopId p = shopId) (products s),
       md_activeProducts = count_where (\<lambda>p. p_shopId p = shopId \<and> p_status p = PR_ACTIVE) (products s),
       md_availableBalanceCents = getAvailableBalance shopId s,
       md_pendingPayoutsCents = openPayouts shopId s,
       md_openOffers = count_where (\<lambda>f. of_shopId f = shopId \<and> of_status f = OF_PENDING) (offers s),
       md_awardedOffers = count_where (\<lambda>f. of_shopId f = shopId \<and> of_status f = OF_ACCEPTED) (offers s),
       md_kycPending = count_where (\<lambda>d. ky_shopId d = shopId \<and> ky_status d = KS_PENDING) (kyc_docs s),
       md_kycApproved = count_where (\<lambda>d. ky_shopId d = shopId \<and> ky_status d = KS_APPROVED) (kyc_docs s),
       md_conversionTenths = conversion_tenths completed placed,
       md_recentOrders = take 5 (filter mine (rev (orders s))),
       md_recentOffers = take 5 (filter (\<lambda>f. of_shopId f = shopId) (rev (offers s)))\<rparr>)"

definition merchant_order_filter :: "string \<Rightarrow> ('s, order_status list option) act" where
  "merchant_order_filter key =
    (if key = ''pending'' \<or> key = ''active'' then returnA (Some PENDING_ORDER_STATUSES)
     else if key = ''paid'' then returnA (Some [OS_PAID, OS_PROCESSING, OS_SHIPPED])
     else if key = ''completed'' then returnA (Some [OS_COMPLETED])
     else if key = ''cancelled'' then returnA (Some [OS_CANCELLED, OS_REFUNDED, OS_PARTIALLY_REFUNDED])
     else if key \<noteq> [] \<and> in_enum order_statuses (js_upper key) then bindA (enum_value order_statuses (js_upper key)) (\<lambda>st. returnA (Some [st]))
     else returnA None)"

definition merchant_getOrders :: "string \<Rightarrow> string option \<Rightarrow> ('z desk_db_scheme, (order_row \<times> payment_row list) filtered) act" where
  "merchant_getOrders shopId statusFilter =
    (let key = filter_key statusFilter in
     bindA (merchant_order_filter key) (\<lambda>want.
     getsA (\<lambda>s. let items = take 50 (filter (\<lambda>o'. o_shopId o' = shopId \<and> selects want (o_status o')) (rev (orders s))) in
       \<lparr>fl_items = map (\<lambda>o'. (o', filter (\<lambda>p. pay_orderId p = o_id o') (payments s))) items,
        fl_filter = filter_name key ''all'', fl_total = length items\<rparr>)))"

text \<open>A request as a merchant sees it: with the score of its match, or with the own offer.\<close>

record merchant_rfq =
  mr_rfq :: rfq_row
  mr_matchScore :: "int option"
  mr_myOffer :: "offer_row option"

definition merchant_offer_filter :: "string \<Rightarrow> offer_status list option" where
  "merchant_offer_filter key =
    (if key = ''pending'' \<or> key = ''open'' then Some [OF_PENDING]
     else if key = ''accepted'' \<or> key = ''awarded'' then Some [OF_ACCEPTED]
     else if key = ''rejected'' then Some [OF_REJECTED] else None)"

definition merchant_getRfqs :: "string \<Rightarrow> string option \<Rightarrow> ('z desk_db_scheme, merchant_rfq filtered) act" where
  "merchant_getRfqs shopId statusFilter =
    (let key = filter_key statusFilter;
         rfq_of = (\<lambda>s i. find_row (\<lambda>r. rq_id r = i) (rfqs s)) in
     if key = ''incoming'' \<or> key = ''matched'' then
       getsA (\<lambda>s. let found = take 50 (filter (\<lambda>m. ma_shopId m = shopId) (rev (matches s))) in
         \<lparr>fl_items = List.map_filter (\<lambda>m. case rfq_of s (ma_rfqId m) of
              Some r \<Rightarrow> if rq_status r \<noteq> RQ_CANCELLED then Some \<lparr>mr_rfq = r, mr_matchScore = Some (ma_score m), mr_myOffer = None\<rparr> else None
            | None \<Rightarrow> None) found,
          fl_filter = ''incoming'', fl_total = length found\<rparr>)
     else
       getsA (\<lambda>s. let found = take 50 (filter (\<lambda>f. of_shopId f = shopId \<and> selects (merchant_offer_filter key) (of_status f)) (rev (offers s))) in
         \<lparr>fl_items = List.map_filter (\<lambda>f. map_option (\<lambda>r. \<lparr>mr_rfq = r, mr_matchScore = None, mr_myOffer = Some f\<rparr>) (rfq_of s (of_rfqId f))) found,
          fl_filter = filter_name key ''offers'', fl_total = length found\<rparr>))"

record kyc_summary =
  ks_shop :: shop_row
  ks_documents :: "(kyc_row \<times> string) list"
  ks_pending :: nat
  ks_approved :: nat
  ks_rejected :: nat

definition merchant_getKyc :: "string \<Rightarrow> ('z desk_db_scheme, kyc_summary) act" where
  "merchant_getKyc shopId =
    bindA (getsA (\<lambda>s. find_row (\<lambda>h. sh_id h = shopId) (shops s))) (\<lambda>found.
    bindA (someA found (BadRequest ''Shop not found'')) (\<lambda>shop.
    getsA (\<lambda>s. let ds = filter (\<lambda>d. ky_shopId d = shopId) (rev (kyc_docs s)) in
      \<lparr>ks_shop = shop, ks_documents = map (\<lambda>d. (d, download_path (ky_id d))) ds,
       ks_pending = count_where (\<lambda>d. ky_status d = KS_PENDING) ds, ks_approved = count_where (\<lambda>d. ky_status d = KS_APPROVED) ds,
       ks_rejected = count_where (\<lambda>d. ky_status d = KS_REJECTED) ds\<rparr>)))"

end
