(* ===== verification/Documents.thy ===== *)
theory Documents
  imports Desks
begin

text \<open>
  Invoices and acts of an order: \<open>documents/documents.service.ts\<close>.  The drawing of the PDF is an argument, and so is the
  tenant of an order, which the order rows do not keep; the messages of exceptions, Russian in the code, are given in English.
\<close>

section \<open>State\<close>

datatype document_type = DT_INVOICE | DT_ACT | DT_UPD | DT_OFFER

datatype document_status = DC_DRAFT | DC_ISSUED | DC_PAID | DC_CANCELLED

text \<open>What is printed: the parties, the lines and the additions.\<close>

record document_line =
  dl_name :: string
  dl_quantity :: int
  dl_priceCents :: int
  dl_taxCents :: int
  dl_totalCents :: int

record document_data =
  dd_orderNumber :: string
  dd_buyerName :: string
  dd_buyerEmail :: "string option"
  dd_sellerName :: string
  dd_items :: "document_line list"
  dd_shippingPriceCents :: int
  dd_taxCents :: int

record issued_document =
  do_id :: string
  do_tenantId :: "string option"
  do_orderId :: "string option"
  do_type :: document_type
  do_number :: string
  do_status :: document_status
  do_subtotalCents :: int
  do_taxCents :: int
  do_totalCents :: int
  do_currency :: string
  do_pdfUrl :: "string option"
  do_data :: document_data

record document_db = desk_db +
  order_documents :: "issued_document list"

record document_env =
  de_storage :: storage_env
  de_pdf :: "issued_document \<Rightarrow> exn + string"
  de_tenantOf :: "order_row \<Rightarrow> string option"
  de_year :: int

section \<open>Numbers\<close>

text \<open>The prefixes are Cyrillic.\<close>

definition prefixMap :: "document_type \<Rightarrow> string" where
  "prefixMap t =
    (case t of
      DT_INVOICE \<Rightarrow> utf8 [0xD0, 0xA1, 0xD0, 0xA7]
    | DT_ACT \<Rightarrow> utf8 [0xD0, 0x90, 0xD0, 0x9A, 0xD0, 0xA2]
    | DT_UPD \<Rightarrow> utf8 [0xD0, 0xA3, 0xD0, 0x9F, 0xD0, 0x94]
    | DT_OFFER \<Rightarrow> utf8 [0xD0, 0x9A, 0xD0, 0x9F])"

definition number_prefix :: "int \<Rightarrow> document_type \<Rightarrow> string" where
  "number_prefix year t = prefixMap t @ ''-'' @ dec year @ ''-''"

definition pad_zeros :: "nat \<Rightarrow> string \<Rightarrow> string" where
  "pad_zeros n t = replicate (n - length t) CHR ''0'' @ t"

text \<open>\<open>parseInt\<close> of a text that starts with a digit: the number of its leading digits.\<close>

definition digit_char :: "char \<Rightarrow> bool" where
  "digit_char c \<longleftrightarrow> 48 \<le> (of_char c :: nat) \<and> (of_char c :: nat) \<le> 57"

fun digits_value :: "nat \<Rightarrow> string \<Rightarrow> nat" where
  "digits_value n [] = n"
| "digits_value n (c # cs) = digits_value (10 * n + (of_char c - 48)) cs"

definition parse_digits :: "string \<Rightarrow> nat option" where
  "parse_digits t =
    (let ds = takeWhile digit_char (js_trim t) in if ds = [] then None else Some (digits_value 0 ds))"

text \<open>The number that is last in the order of texts.\<close>

fun text_less :: "string \<Rightarrow> string \<Rightarrow> bool" where
  "text_less t [] = False"
| "text_less [] (c # cs) = True"
| "text_less (b # bs) (c # cs) = (if b = c then text_less bs cs else (of_char b :: nat) < of_char c)"

fun last_text :: "string list \<Rightarrow> string option" where
  "last_text [] = None"
| "last_text (t # ts) = (case last_text ts of None \<Rightarrow> Some t | Some u \<Rightarrow> Some (if text_less t u then u else t))"

definition numbers_of :: "string option \<Rightarrow> document_type \<Rightarrow> string \<Rightarrow> 'z document_db_scheme \<Rightarrow> string list" where
  "numbers_of tenantId t prefix s =
    map do_number (filter (\<lambda>d. do_type d = t \<and> (truthy tenantId \<longrightarrow> do_tenantId d = tenantId) \<and> js_starts prefix (do_number d))
      (order_documents s))"

definition next_number :: "string \<Rightarrow> string option \<Rightarrow> nat" where
  "next_number prefix newest =
    (case newest of None \<Rightarrow> 1
     | Some t \<Rightarrow> (case parse_digits (drop (length prefix) t) of Some n \<Rightarrow> n + 1 | None \<Rightarrow> 1))"

definition generateNumber :: "int \<Rightarrow> string option \<Rightarrow> document_type \<Rightarrow> ('z document_db_scheme, string) act" where
  "generateNumber year tenantId t =
    (let prefix = number_prefix year t in
     getsA (\<lambda>s. prefix @ pad_zeros 5 (dec_nat (next_number prefix (last_text (numbers_of tenantId t prefix s))))))"

section \<open>Creating\<close>

definition may_access_document :: "order_row \<Rightarrow> jwt_payload option \<Rightarrow> ('s, unit) act" where
  "may_access_document order user =
    guardA (case user of
      None \<Rightarrow> True
    | Some u \<Rightarrow> is_admin u \<or> user_role u = MERCHANT \<and> user_shopId u = Some (o_shopId order) \<or>
        user_role u = CUSTOMER \<and> o_customerId order = Some (sub u)) (Forbidden ''No access to the order'')"

definition dash :: string where "dash = utf8 [0xE2, 0x80, 0x94]"

text \<open>The first text that is there.\<close>

fun first_text :: "string option list \<Rightarrow> string" where
  "first_text [] = dash"
| "first_text (t # ts) = (if truthy t then the t else first_text ts)"

definition document_data_of :: "order_row \<Rightarrow> 'z auth_db_scheme \<Rightarrow> document_data" where
  "document_data_of order s =
    (let customer = (case o_customerId order of None \<Rightarrow> None | Some i \<Rightarrow> find_row (\<lambda>u. us_id u = i) (users s));
         shop = find_row (\<lambda>h. sh_id h = o_shopId order) (shops s) in
     \<lparr>dd_orderNumber = o_orderNumber order,
      dd_buyerName = first_text [o_customerName order, Option.bind customer us_company, map_option us_name customer,
        o_customerEmail order, map_option us_email customer],
      dd_buyerEmail = or_else (o_customerEmail order) (or_else (map_option us_email customer) None),
      dd_sellerName = first_text [map_option sh_name shop],
      dd_items = map (\<lambda>i. \<lparr>dl_name = oi_productName i, dl_quantity = oi_quantity i, dl_priceCents = oi_unitPriceCents i,
        dl_taxCents = oi_taxCents i, dl_totalCents = oi_lineTotalCents i + oi_taxCents i\<rparr>) (o_items order),
      dd_shippingPriceCents = o_shippingPriceCents order, dd_taxCents = o_taxCents order\<rparr>)"

text \<open>\<open>(tenantId, type, number)\<close> is unique; two rows without a tenant do not clash.\<close>

definition insert_document :: "issued_document \<Rightarrow> ('z document_db_scheme, unit) act" where
  "insert_document row =
    bindA (getsA (\<lambda>s. do_tenantId row \<noteq> None \<and> list_ex (\<lambda>d. do_tenantId d = do_tenantId row \<and> do_type d = do_type row \<and>
      do_number d = do_number row) (order_documents s))) (\<lambda>clash.
    thenA (guardA (\<not> clash) (PrismaError ''P2002'')) (createA order_documents_update row))"

text \<open>Runs of other characters than letters, digits, underscore, dot and dash become one underscore.\<close>

definition word_char :: "char \<Rightarrow> bool" where
  "word_char c \<longleftrightarrow> alnum c \<or> c \<in> {CHR ''_'', CHR ''.'', CHR ''-''}"

fun safe_words :: "bool \<Rightarrow> string \<Rightarrow> string" where
  "safe_words inside [] = []"
| "safe_words inside (c # cs) =
    (if word_char c then c # safe_words False cs
     else if inside then safe_words True cs else CHR ''_'' # safe_words True cs)"

definition store_pdf :: "document_env \<Rightarrow> issued_document \<Rightarrow> ('z document_db_scheme, issued_document) act" where
  "store_pdf env document =
    catchA
     (bindA (sumA (de_pdf env document)) (\<lambda>buffer.
      bindA (uploadFile (de_storage env)
        \<lparr>uf_originalname = safe_words False (do_number document) @ ''.pdf'', uf_mimetype = ''application/pdf'',
         uf_buffer = buffer, uf_size = int (length buffer)\<rparr> ''documents'') (\<lambda>pdfUrl.
      updateRowA order_documents order_documents_update (\<lambda>d. do_id d = do_id document) (\<lambda>d. d\<lparr>do_pdfUrl := Some pdfUrl\<rparr>))))
     (\<lambda>e. returnA document)"

definition createFromOrder ::
  "document_env \<Rightarrow> string \<Rightarrow> string option \<Rightarrow> document_type \<Rightarrow> jwt_payload option \<Rightarrow> ('z document_db_scheme, issued_document) act" where
  "createFromOrder env orderId tenantId t user =
    bindA (getsA (\<lambda>s. find_row (\<lambda>o'. o_id o' = orderId) (orders s))) (\<lambda>found.
    bindA (someA found (NotFound ''Order not found'')) (\<lambda>order.
    thenA (may_access_document order user)
    (let resolvedTenant = or_else tenantId (or_else (de_tenantOf env order) (or_else (Option.bind user user_tenantId) None)) in
     bindA (generateNumber (de_year env) resolvedTenant t) (\<lambda>number.
     bindA newIdA (\<lambda>i.
     bindA (getsA (document_data_of order)) (\<lambda>content.
     let row = \<lparr>do_id = i, do_tenantId = resolvedTenant, do_orderId = Some (o_id order), do_type = t, do_number = number,
       do_status = DC_ISSUED, do_subtotalCents = o_subtotalCents order, do_taxCents = o_taxCents order,
       do_totalCents = o_totalCents order, do_currency = (if o_currency order = [] then ''RUB'' else o_currency order),
       do_pdfUrl = None, do_data = content\<rparr> in
     thenA (insert_document row) (store_pdf env row)))))))"

definition createInvoiceFromOrder :: "document_env \<Rightarrow> string \<Rightarrow> string option \<Rightarrow> jwt_payload option \<Rightarrow> ('z document_db_scheme, issued_document) act" where
  "createInvoiceFromOrder env orderId tenantId user = createFromOrder env orderId tenantId DT_INVOICE user"

definition createActFromOrder :: "document_env \<Rightarrow> string \<Rightarrow> string option \<Rightarrow> jwt_payload option \<Rightarrow> ('z document_db_scheme, issued_document) act" where
  "createActFromOrder env orderId tenantId user = createFromOrder env orderId tenantId DT_ACT user"

section \<open>Reading\<close>

definition order_of_document :: "issued_document \<Rightarrow> 'z document_db_scheme \<Rightarrow> order_row option" where
  "order_of_document d s = (case do_orderId d of None \<Rightarrow> None | Some i \<Rightarrow> find_row (\<lambda>o'. o_id o' = i) (orders s))"

definition list_documents ::
  "string option \<Rightarrow> string option \<Rightarrow> jwt_payload option \<Rightarrow> ('z document_db_scheme, issued_document list) act" where
  "list_documents tenantId orderId user =
    getsA (\<lambda>s. take 100 (filter (\<lambda>d. (truthy orderId \<longrightarrow> do_orderId d = orderId) \<and> (truthy tenantId \<longrightarrow> do_tenantId d = tenantId) \<and>
      (case user of
        None \<Rightarrow> True
      | Some u \<Rightarrow>
          if user_role u = MERCHANT \<and> truthy (user_shopId u)
          then (case order_of_document d s of None \<Rightarrow> False | Some o' \<Rightarrow> user_shopId u = Some (o_shopId o'))
          else if user_role u = CUSTOMER
          then (case order_of_document d s of None \<Rightarrow> False | Some o' \<Rightarrow> o_customerId o' = Some (sub u))
          else True)) (rev (order_documents s))))"

definition getOne_document :: "string \<Rightarrow> jwt_payload option \<Rightarrow> ('z document_db_scheme, issued_document) act" where
  "getOne_document i user =
    bindA (getsA (\<lambda>s. find_row (\<lambda>d. do_id d = i) (order_documents s))) (\<lambda>found.
    bindA (someA found (NotFound ''Document not found'')) (\<lambda>d.
    bindA (getsA (order_of_document d)) (\<lambda>order.
    thenA (case order of None \<Rightarrow> returnA () | Some o' \<Rightarrow> may_access_document o' user) (returnA d))))"

definition getPdfBuffer :: "document_env \<Rightarrow> string \<Rightarrow> jwt_payload option \<Rightarrow> ('z document_db_scheme, string \<times> string) act" where
  "getPdfBuffer env i user =
    bindA (getOne_document i user) (\<lambda>d.
    bindA (sumA (de_pdf env d)) (\<lambda>buffer. returnA (buffer, safe_words False (do_number d) @ ''.pdf'')))"

end
