(* ===== verification/Document_Claims.thy ===== *)
theory Document_Claims
  imports Documents Kyc_Claims
begin

text \<open>
  The numbers of documents.  They are compared as texts, which agrees with the order of the numbers as long as the texts have
  the same length: five digits.  The hundred-thousandth document of a year is the last one.
\<close>

section \<open>Five digits\<close>

definition digit_of :: "nat \<Rightarrow> char" where "digit_of n = char_of (48 + n)"

definition five :: "nat \<Rightarrow> string" where
  "five n = [digit_of (n div 10000), digit_of (n div 1000 mod 10), digit_of (n div 100 mod 10), digit_of (n div 10 mod 10),
    digit_of (n mod 10)]"

lemma of_digit [simp]: "n < 10 \<Longrightarrow> (of_char (digit_of n) :: nat) = 48 + n"
  by (simp add: digit_of_def)

lemma digit_of_eq [simp]: "m < 10 \<Longrightarrow> n < 10 \<Longrightarrow> digit_of m = digit_of n \<longleftrightarrow> m = n"
  by (metis add_left_cancel of_digit)

lemma dec_nat_step: "dec_nat n = (if n < 10 then [digit_of n] else dec_nat (n div 10) @ [digit_of (n mod 10)])"
  by (subst dec_nat.simps) (simp add: digit_of_def)

lemma dec_nat_five:
  "n < 10 \<Longrightarrow> dec_nat n = [digit_of n]"
  "10 \<le> n \<Longrightarrow> n < 100 \<Longrightarrow> dec_nat n = [digit_of (n div 10), digit_of (n mod 10)]"
  "100 \<le> n \<Longrightarrow> n < 1000 \<Longrightarrow> dec_nat n = [digit_of (n div 100), digit_of (n div 10 mod 10), digit_of (n mod 10)]"
  "1000 \<le> n \<Longrightarrow> n < 10000 \<Longrightarrow>
    dec_nat n = [digit_of (n div 1000), digit_of (n div 100 mod 10), digit_of (n div 10 mod 10), digit_of (n mod 10)]"
  "10000 \<le> n \<Longrightarrow> n < 100000 \<Longrightarrow>
    dec_nat n = [digit_of (n div 10000), digit_of (n div 1000 mod 10), digit_of (n div 100 mod 10), digit_of (n div 10 mod 10),
      digit_of (n mod 10)]"
proof -
  show a: "n < 10 \<Longrightarrow> dec_nat n = [digit_of n]" for n by (simp add: dec_nat_step)
  show b: "10 \<le> n \<Longrightarrow> n < 100 \<Longrightarrow> dec_nat n = [digit_of (n div 10), digit_of (n mod 10)]" for n
    by (simp add: dec_nat_step [of n] a)
  show c: "100 \<le> n \<Longrightarrow> n < 1000 \<Longrightarrow> dec_nat n = [digit_of (n div 100), digit_of (n div 10 mod 10), digit_of (n mod 10)]" for n
    by (simp add: dec_nat_step [of n] b div_mult2_eq [symmetric])
  show d: "1000 \<le> n \<Longrightarrow> n < 10000 \<Longrightarrow>
    dec_nat n = [digit_of (n div 1000), digit_of (n div 100 mod 10), digit_of (n div 10 mod 10), digit_of (n mod 10)]" for n
    by (simp add: dec_nat_step [of n] c div_mult2_eq [symmetric])
  show "10000 \<le> n \<Longrightarrow> n < 100000 \<Longrightarrow>
    dec_nat n = [digit_of (n div 10000), digit_of (n div 1000 mod 10), digit_of (n div 100 mod 10), digit_of (n div 10 mod 10),
      digit_of (n mod 10)]" for n
    by (simp add: dec_nat_step [of n] d div_mult2_eq [symmetric])
qed

lemma zeros:
  "replicate 4 z = [z, z, z, z]" "replicate 3 z = [z, z, z]" "replicate 2 z = [z, z]"
  by (simp_all add: numeral_eq_Suc)

lemma pad_five: "n < 100000 \<Longrightarrow> pad_zeros 5 (dec_nat n) = five n"
proof -
  assume n: "n < 100000"
  have z: "CHR ''0'' = digit_of 0" by code_simp
  consider "n < 10" | "10 \<le> n" "n < 100" | "100 \<le> n" "n < 1000" | "1000 \<le> n" "n < 10000" | "10000 \<le> n" by linarith
  then show ?thesis
    by cases (use n in \<open>simp_all add: pad_zeros_def five_def z dec_nat_five zeros\<close>)
qed

section \<open>Texts in order\<close>

lemma text_less_prefix [simp]: "text_less (p @ t) (p @ u) = text_less t u"
  by (induction p) simp_all

lemma text_less_irrefl [simp]: "\<not> text_less t t"
  by (induction t) simp_all

lemma text_less_asym: "text_less t u \<Longrightarrow> \<not> text_less u t"
  by (induction t u rule: text_less.induct) (auto split: if_splits)

lemma last_text_greatest: "u \<in> set ts \<Longrightarrow> (\<And>t. t \<in> set ts \<Longrightarrow> t \<noteq> u \<Longrightarrow> text_less t u) \<Longrightarrow> last_text ts = Some u"
proof (induction ts)
  case (Cons t ts)
  have mem: "last_text xs = Some v \<Longrightarrow> v \<in> set xs" for xs v
    by (induction xs arbitrary: v) (auto split: option.splits if_splits)
  show ?case
  proof (cases "u \<in> set ts")
    case True
    then have "last_text ts = Some u" using Cons by auto
    moreover have "t \<noteq> u \<Longrightarrow> text_less t u" using Cons.prems by auto
    ultimately show ?thesis by auto
  next
    case False
    then have t: "t = u" using Cons.prems by auto
    show ?thesis
    proof (cases "last_text ts")
      case (Some v)
      then have "v \<in> set ts" by (rule mem)
      then have "text_less v u" using Cons.prems(2) [of v] False by auto
      then show ?thesis using Some t by (simp add: text_less_asym)
    qed (simp add: t)
  qed
qed simp

lemma digits_of:
  fixes n :: nat
  shows "n = 10000 * (n div 10000) + 1000 * (n div 1000 mod 10) + 100 * (n div 100 mod 10) + 10 * (n div 10 mod 10) + n mod 10"
proof -
  have split: "k = 10 * (k div 10) + k mod 10" for k :: nat by simp
  have "n div 100 = n div 10 div 10" "n div 1000 = n div 100 div 10" "n div 10000 = n div 1000 div 10"
    by (simp_all add: div_mult2_eq [symmetric])
  then show ?thesis
    using split [of n] split [of "n div 10"] split [of "n div 100"] split [of "n div 1000"] by linarith
qed

lemma text_less_digits:
  assumes "a < 10" "b < 10" "c < 10" "d < 10" "e < 10" "a' < 10" "b' < 10" "c' < 10" "d' < 10" "e' < 10"
    and "10000 * a + 1000 * b + 100 * c + 10 * d + e < 10000 * a' + 1000 * b' + 100 * c' + 10 * d' + e'"
  shows "text_less [digit_of a, digit_of b, digit_of c, digit_of d, digit_of e]
    [digit_of a', digit_of b', digit_of c', digit_of d', digit_of e']"
  using assms by (auto split: if_splits)

lemma text_less_five:
  assumes "m < n" "n < 100000"
  shows "text_less (five m) (five n)"
  unfolding five_def
proof (rule text_less_digits)
  show "10000 * (m div 10000) + 1000 * (m div 1000 mod 10) + 100 * (m div 100 mod 10) + 10 * (m div 10 mod 10) + m mod 10 <
      10000 * (n div 10000) + 1000 * (n div 1000 mod 10) + 100 * (n div 100 mod 10) + 10 * (n div 10 mod 10) + n mod 10"
    using assms digits_of [of m] digits_of [of n] by linarith
qed (use assms in simp_all)

section \<open>The next number\<close>

lemma digit_plain: "n < 10 \<Longrightarrow> digit_char (digit_of n) \<and> \<not> js_space (digit_of n)"
proof -
  have "list_all (\<lambda>n. digit_char (digit_of n) \<and> \<not> js_space (digit_of n)) [0..<10]" by code_simp
  then show "n < 10 \<Longrightarrow> digit_char (digit_of n) \<and> \<not> js_space (digit_of n)" by (simp add: list_all_iff)
qed

lemma parse_five: "n < 100000 \<Longrightarrow> parse_digits (five n) = Some n"
proof -
  assume n: "n < 100000"
  have "takeWhile digit_char (js_trim (five n)) = five n" "five n \<noteq> []"
    using n by (simp_all add: js_trim_def five_def digit_plain)
  moreover have "digits_value 0 (five n) = n"
    using n by (subst (2) digits_of) (simp add: five_def)
  ultimately show ?thesis by (simp add: parse_digits_def Let_def)
qed

lemma sixth_digit: "pad_zeros 5 (dec_nat 100000) = [digit_of 1, digit_of 0, digit_of 0, digit_of 0, digit_of 0, digit_of 0]"
  by (simp add: pad_zeros_def dec_nat_step [of 100000] dec_nat_five(5))

lemma text_less_sixth: "text_less (pad_zeros 5 (dec_nat 100000)) (five 99999)"
  by (simp add: sixth_digit five_def)

definition issued_numbers :: "string \<Rightarrow> nat \<Rightarrow> string list" where
  "issued_numbers p n = map (\<lambda>i. p @ pad_zeros 5 (dec_nat i)) [1..<Suc n]"

lemma newest_number:
  assumes "n \<le> 100000"
  shows "next_number p (last_text (issued_numbers p n)) = min 100000 (n + 1)"
proof (cases "n = 0")
  case True
  then show ?thesis by (simp add: issued_numbers_def next_number_def)
next
  case False
  define m where "m = min 99999 n"
  have m: "m < 100000" "1 \<le> m" "m \<le> n" using False by (auto simp: m_def)
  have "last_text (issued_numbers p n) = Some (p @ five m)"
  proof (rule last_text_greatest)
    show "p @ five m \<in> set (issued_numbers p n)"
    proof -
      have "m \<in> set [1..<Suc n]" using m by auto
      then have "p @ pad_zeros 5 (dec_nat m) \<in> set (issued_numbers p n)" unfolding issued_numbers_def set_map by (rule imageI)
      then show ?thesis using m by (simp add: pad_five)
    qed
    fix t assume t: "t \<in> set (issued_numbers p n)" "t \<noteq> p @ five m"
    then obtain i where i: "1 \<le> i" "i \<le> n" "t = p @ pad_zeros 5 (dec_nat i)"
      unfolding issued_numbers_def set_map by fastforce
    show "text_less t (p @ five m)"
    proof (cases "i = 100000")
      case True
      then have "m = 99999" using i assms by (simp add: m_def)
      then show ?thesis using True i text_less_sixth by simp
    next
      case False
      then have less: "i < 100000" using i assms by simp
      moreover have "i \<noteq> m" using t i m less by (auto simp: pad_five)
      ultimately have "i < m" using i by (auto simp: m_def)
      then show ?thesis using i m less by (simp add: pad_five text_less_five)
    qed
  qed
  then show ?thesis using m by (simp add: next_number_def parse_five) (simp add: m_def)
qed

section \<open>The last document\<close>

lemma store_pdf_returns: "\<exists>d s'. store_pdf env document s = (Inr d, s')"
  by (auto simp: store_pdf_def catchA_def returnA_def split: prod.split sum.split)

lemma put_public_frame:
  fixes x :: "string list"
  shows "keeps (\<lambda>s :: 'z document_db_scheme. map do_number (order_documents s) = x) (put_public env key body)"
  unfolding put_public_def putLocal_def putObject_def Let_def by (intro keeps_steps keeps_modify keeps_prod) simp_all

lemma uploadFile_frame:
  fixes x :: "string list"
  shows "keeps (\<lambda>s :: 'z document_db_scheme. map do_number (order_documents s) = x) (uploadFile env f folder)"
  unfolding uploadFile_def public_folder_def Let_def
  by (intro keeps_steps keeps_newIdA put_public_frame) simp_all

lemma update_where_map: "(\<And>r. g (f r) = g r) \<Longrightarrow> map g (update_where P f rs) = map g rs"
  by (simp add: update_where_def comp_def if_distrib [of g] cong: if_cong)

lemma store_pdf_frame:
  fixes x :: "string list"
  shows "keeps (\<lambda>s :: 'z document_db_scheme. map do_number (order_documents s) = x) (store_pdf env document)"
  unfolding store_pdf_def
  by (intro keeps_steps keeps_sumA uploadFile_frame keeps_updateRowA) (simp_all add: update_where_map)

lemma pad_fresh: "i < j \<Longrightarrow> j \<le> 100000 \<Longrightarrow> pad_zeros 5 (dec_nat i) \<noteq> pad_zeros 5 (dec_nat j)"
  using text_less_five [of i j] by (cases "j = 100000") (auto simp: pad_five sixth_digit, simp add: five_def)

lemma issued_fresh:
  assumes "n < 100000"
  shows "p @ pad_zeros 5 (dec_nat (n + 1)) \<notin> set (issued_numbers p n)"
proof
  assume "p @ pad_zeros 5 (dec_nat (n + 1)) \<in> set (issued_numbers p n)"
  then obtain i where "i \<in> set [1..<Suc n]" "p @ pad_zeros 5 (dec_nat (n + 1)) = p @ pad_zeros 5 (dec_nat i)"
    unfolding issued_numbers_def set_map by blast
  moreover from this(1) have "i < n + 1" by (simp only: set_upt atLeastLessThan_iff) simp
  ultimately show False using pad_fresh [of i "n + 1"] assms by simp
qed

lemma issued_last: "1 \<le> n \<Longrightarrow> p @ pad_zeros 5 (dec_nat n) \<in> set (issued_numbers p n)"
  unfolding issued_numbers_def set_map by (rule imageI) simp

text \<open>A number clashes with a row of the tenant and the type exactly when it is among their numbers.\<close>

lemma clash_iff:
  assumes "tenant \<noteq> []" and "js_starts p number"
  shows "list_ex (\<lambda>d. do_tenantId d = Some tenant \<and> do_type d = t \<and> do_number d = number) (order_documents s) \<longleftrightarrow>
    number \<in> set (numbers_of (Some tenant) t p s)"
  using assms by (auto simp: numbers_of_def list_ex_iff truthy_def)

text \<open>The row a document starts as, and the run up to its insertion.\<close>

definition new_document :: "string \<Rightarrow> document_type \<Rightarrow> string \<Rightarrow> order_row \<Rightarrow> 'z document_db_scheme \<Rightarrow> issued_document" where
  "new_document tenant t number order s = \<lparr>do_id = id_supply s (next_id s), do_tenantId = Some tenant, do_orderId = Some (o_id order),
     do_type = t, do_number = number, do_status = DC_ISSUED, do_subtotalCents = o_subtotalCents order, do_taxCents = o_taxCents order,
     do_totalCents = o_totalCents order, do_currency = (if o_currency order = [] then ''RUB'' else o_currency order),
     do_pdfUrl = None, do_data = document_data_of order (s\<lparr>next_id := Suc (next_id s)\<rparr>)\<rparr>"

lemma createFromOrder_run:
  fixes s :: "'z document_db_scheme"
  assumes "find_row (\<lambda>o'. o_id o' = orderId) (orders s) = Some order" and "may_access_document order user s = (Inr (), s)"
    and "tenant \<noteq> []" and "generateNumber (de_year env) (Some tenant) t s = (Inr number, s)"
  defines "row \<equiv> new_document tenant t number order s" and "s1 \<equiv> s\<lparr>next_id := Suc (next_id s)\<rparr>"
  shows "createFromOrder env orderId (Some tenant) t user s = thenA (insert_document row) (store_pdf env row) s1"
  using assms by (simp add: createFromOrder_def act_defs Let_def newIdA_def or_else_def truthy_def new_document_def)

lemma issued_clash:
  fixes s :: "'z document_db_scheme"
  assumes "tenant \<noteq> []" and same: "numbers_of (Some tenant) t p s = issued_numbers p n" and n: "n \<le> 100000"
  shows "list_ex (\<lambda>d. do_tenantId d = Some tenant \<and> do_type d = t \<and> do_number d = p @ pad_zeros 5 (dec_nat (min 100000 (n + 1))))
    (order_documents s) \<longleftrightarrow> \<not> n < 100000"
proof -
  have "js_starts p (p @ pad_zeros 5 (dec_nat (min 100000 (n + 1))))" by (simp add: js_starts_iff)
  note there = clash_iff [OF assms(1) this, of t s, unfolded same]
  show ?thesis
  proof (cases "n < 100000")
    case True
    then have "min 100000 (n + 1) = n + 1" by simp
    then show ?thesis using there issued_fresh [OF True, of p] True by simp
  next
    case False
    then have "n = 100000" using n by simp
    then show ?thesis using there issued_last [of n p] by simp
  qed
qed

text \<open>
  C39.  Let a tenant have the documents 1 to n of a type in a year, at most a hundred thousand.  As long as there
  are fewer, a document for an order the user may see is stored, under the number n + 1, with or without
  its drawing; with a hundred thousand there are no further ones: every attempt ends in the database's complaint about the
  same number and stores nothing, since the texts are compared and six digits come before five nines.
\<close>

theorem document_numbers:
  fixes s :: "'z document_db_scheme" and tenant :: string
  assumes found: "find_row (\<lambda>o'. o_id o' = orderId) (orders s) = Some order"
    and may: "may_access_document order user s = (Inr (), s)"
    and tenant: "tenant \<noteq> []"
    and used: "numbers_of (Some tenant) t (number_prefix (de_year env) t) s = issued_numbers (number_prefix (de_year env) t) n"
    and n: "n \<le> 100000"
  shows "if n < 100000
    then \<exists>d s'. createFromOrder env orderId (Some tenant) t user s = (Inr d, s') \<and>
      map do_number (order_documents s') = map do_number (order_documents s) @
        [number_prefix (de_year env) t @ pad_zeros 5 (dec_nat (n + 1))]
    else \<exists>s'. createFromOrder env orderId (Some tenant) t user s = (Inl (PrismaError ''P2002''), s') \<and>
      order_documents s' = order_documents s"
proof -
  let ?p = "number_prefix (de_year env) t"
  let ?s1 = "s\<lparr>next_id := Suc (next_id s)\<rparr>"
  define number where "number = ?p @ pad_zeros 5 (dec_nat (min 100000 (n + 1)))"
  define row where "row = new_document tenant t number order s"
  have "generateNumber (de_year env) (Some tenant) t s = (Inr number, s)"
    using used n by (simp only: generateNumber_def Let_def getsA_def newest_number number_def)
  from createFromOrder_run [OF found may tenant this]
  have run: "createFromOrder env orderId (Some tenant) t user s = thenA (insert_document row) (store_pdf env row) ?s1"
    by (simp add: row_def)
  have clash: "list_ex (\<lambda>d. do_tenantId d = Some tenant \<and> do_type d = t \<and> do_number d = number) (order_documents ?s1) \<longleftrightarrow> \<not> n < 100000"
    unfolding number_def using used n by (intro issued_clash [OF tenant]) (simp_all add: numbers_of_def)
  show ?thesis
  proof (cases "n < 100000")
    case True
    let ?s2 = "order_documents_update (\<lambda>ds. ds @ [row]) ?s1"
    have "insert_document row ?s1 = (Inr (), ?s2)"
      using clash True by (simp add: insert_document_def act_defs createA_def row_def new_document_def)
    then have go: "createFromOrder env orderId (Some tenant) t user s = store_pdf env row ?s2"
      by (simp add: run thenA_def bindA_def)
    obtain d s' where r: "store_pdf env row ?s2 = (Inr d, s')" using store_pdf_returns by blast
    have "map do_number (order_documents s') = map do_number (order_documents ?s2)"
      using store_pdf_frame [of "map do_number (order_documents ?s2)" env row] r unfolding keeps_def by (metis snd_conv)
    moreover have "do_number row = ?p @ pad_zeros 5 (dec_nat (n + 1))" using True by (simp add: row_def new_document_def number_def)
    ultimately show ?thesis using True go r by simp
  next
    case False
    then have "insert_document row ?s1 = (Inl (PrismaError ''P2002''), ?s1)"
      using clash by (simp add: insert_document_def act_defs row_def new_document_def)
    then show ?thesis using False by (simp add: run thenA_def bindA_def)
  qed
qed

section \<open>Witnesses\<close>

definition demo_drawing :: document_env where
  "demo_drawing = \<lparr>de_storage = demo_storage, de_pdf = (\<lambda>d. Inr ''pdf''), de_tenantOf = (\<lambda>o'. None), de_year = 2026\<rparr>"

definition demo_invoice :: "string \<Rightarrow> issued_document" where
  "demo_invoice number = \<lparr>do_id = ''d'' @ number, do_tenantId = Some ''t1'', do_orderId = Some ''o1'', do_type = DT_INVOICE,
    do_number = number, do_status = DC_ISSUED, do_subtotalCents = 0, do_taxCents = 0, do_totalCents = 0, do_currency = ''RUB'',
    do_pdfUrl = None, do_data = \<lparr>dd_orderNumber = ''ORD-1'', dd_buyerName = ''B'', dd_buyerEmail = None, dd_sellerName = ''S'',
      dd_items = [], dd_shippingPriceCents = 0, dd_taxCents = 0\<rparr>\<rparr>"

definition demo_archive :: "nat \<Rightarrow> document_db" where
  "demo_archive n = desk_db.extend (kyc_db.extend (demo_files\<lparr>orders := [demo_order OS_PAID]\<rparr>) (desk_db.fields []))
    (document_db.fields (map demo_invoice (issued_numbers (number_prefix 2026 DT_INVOICE) n)))"

lemma demo_archive_fields [simp]:
  "orders (demo_archive n) = [demo_order OS_PAID]"
  "order_documents (demo_archive n) = map demo_invoice (issued_numbers (number_prefix 2026 DT_INVOICE) n)"
  by (simp_all add: demo_archive_def desk_db.defs kyc_db.defs document_db.defs)

lemma demo_archive_numbers:
  "numbers_of (Some ''t1'') DT_INVOICE (number_prefix 2026 DT_INVOICE) (demo_archive n) = issued_numbers (number_prefix 2026 DT_INVOICE) n"
  by (simp add: numbers_of_def demo_invoice_def issued_numbers_def js_starts_iff filter_map comp_def)

theorem document_numbers_witness:
  "(\<exists>s'. createFromOrder demo_drawing ''o1'' (Some ''t1'') DT_INVOICE None (demo_archive 100000) = (Inl (PrismaError ''P2002''), s')) \<and>
    (\<exists>d s'. createFromOrder demo_drawing ''o1'' (Some ''t1'') DT_INVOICE None (demo_archive 99999) = (Inr d, s'))"
proof -
  have o: "find_row (\<lambda>o'. o_id o' = ''o1'') (orders (demo_archive n)) = Some (demo_order OS_PAID)" for n
    by (simp add: demo_order_def)
  have may: "may_access_document (demo_order OS_PAID) None (demo_archive n) = (Inr (), demo_archive n)" for n
    by (simp add: may_access_document_def act_defs)
  have used: "numbers_of (Some ''t1'') DT_INVOICE (number_prefix (de_year demo_drawing) DT_INVOICE) (demo_archive n) =
      issued_numbers (number_prefix (de_year demo_drawing) DT_INVOICE) n" for n
    using demo_archive_numbers by (simp add: demo_drawing_def)
  have "(if k < 100000
      then \<exists>d s'. createFromOrder demo_drawing ''o1'' (Some ''t1'') DT_INVOICE None (demo_archive k) = (Inr d, s')
      else \<exists>s'. createFromOrder demo_drawing ''o1'' (Some ''t1'') DT_INVOICE None (demo_archive k) = (Inl (PrismaError ''P2002''), s'))"
    if "k \<le> 100000" for k
    using document_numbers [OF o may _ used that] by (auto split: if_splits)
  from this [of 100000] this [of 99999] show ?thesis by simp
qed

end
