(* ===== verification/Rooms.thy ===== *)
theory Rooms
  imports Documents
begin

text \<open>
  What leaves the system besides mail: the queues of \<open>queue/queue.producer.ts\<close> and the rooms of the web sockets,
  \<open>realtime/realtime.gateway.ts\<close> (the namespace \<open>/ws\<close>) and \<open>common/websockets/orders.gateway.ts\<close>
  (\<open>/orders\<close>).  A queue is its list of jobs and a room the messages that went to it; the time in a message is left out.
\<close>

section \<open>State\<close>

text \<open>A job: its queue, its name, its data and what is kept beside them.\<close>

record queue_job =
  qj_queue :: string
  qj_name :: string
  qj_data :: payload
  qj_meta :: payload

record room_message =
  rm_namespace :: string
  rm_room :: string
  rm_event :: string
  rm_data :: payload
  rm_meta :: payload

text \<open>A membership is the namespace, the client and the room.\<close>

record room_db = document_db +
  queue_jobs :: "queue_job list"
  room_messages :: "room_message list"
  memberships :: "(string \<times> string \<times> string) list"

text \<open>A queue is missing, or fails on a job or takes it; the servers of the sockets are there or not.\<close>

record room_env =
  ro_queues :: "string \<Rightarrow> (queue_job \<Rightarrow> exn option) option"
  ro_sockets :: bool

section \<open>Payloads\<close>

definition json_text :: "string option \<Rightarrow> json" where
  "json_text t = (case t of None \<Rightarrow> JNull | Some x \<Rightarrow> JString x)"

text \<open>A field that is undefined is not sent.\<close>

definition opt_field :: "string \<Rightarrow> json option \<Rightarrow> payload" where
  "opt_field k j = (case j of None \<Rightarrow> [] | Some x \<Rightarrow> [(k, x)])"

definition json_truthy :: "json \<Rightarrow> bool" where
  "json_truthy j = (case j of JNull \<Rightarrow> False | JString t \<Rightarrow> t \<noteq> [] | JNumber n \<Rightarrow> n \<noteq> 0 | JStrings ts \<Rightarrow> True)"

section \<open>Queues\<close>

definition add_job :: "room_env \<Rightarrow> queue_job \<Rightarrow> ('z room_db_scheme, bool) act" where
  "add_job env job =
    (case ro_queues env (qj_queue job) of
      None \<Rightarrow> returnA False
    | Some answer \<Rightarrow>
        (case answer job of
          Some e \<Rightarrow> throwA e
        | None \<Rightarrow> thenA (modifyA (queue_jobs_update (\<lambda>t. t @ [job]))) (returnA True)))"

definition enqueueEmail :: "room_env \<Rightarrow> string \<Rightarrow> string \<Rightarrow> string \<Rightarrow> string option \<Rightarrow> ('z room_db_scheme, bool) act" where
  "enqueueEmail env to subject body template =
    add_job env \<lparr>qj_queue = ''emails'', qj_name = ''send'',
      qj_data = [(''to'', JString to), (''subject'', JString subject), (''body'', JString body)] @
        opt_field ''template'' (map_option JString template), qj_meta = []\<rparr>"

definition enqueueNotification ::
  "room_env \<Rightarrow> string option \<Rightarrow> string \<Rightarrow> string \<Rightarrow> string \<Rightarrow> payload \<Rightarrow> ('z room_db_scheme, bool) act" where
  "enqueueNotification env userId channel title body extra =
    add_job env \<lparr>qj_queue = ''notifications'', qj_name = ''push'',
      qj_data = opt_field ''userId'' (map_option JString userId) @
        [(''channel'', JString channel), (''title'', JString title), (''body'', JString body)], qj_meta = extra\<rparr>"

definition enqueueSearchIndex :: "room_env \<Rightarrow> string \<Rightarrow> string \<Rightarrow> ('z room_db_scheme, bool) act" where
  "enqueueSearchIndex env action productId =
    add_job env \<lparr>qj_queue = ''search-index'', qj_name = (if action = ''remove'' then ''remove-product'' else ''index-product''),
      qj_data = [(''action'', JString action), (''productId'', JString productId)], qj_meta = []\<rparr>"

text \<open>The job has the id of the import: while it is there, the queue does not take a second one.\<close>

definition import_queued :: "string \<Rightarrow> 'z room_db_scheme \<Rightarrow> bool" where
  "import_queued importJobId s \<longleftrightarrow>
    list_ex (\<lambda>j. qj_queue j = ''imports'' \<and> map_of (qj_data j) ''importJobId'' = Some (JString importJobId)) (queue_jobs s)"

definition enqueueImport :: "room_env \<Rightarrow> string \<Rightarrow> string \<Rightarrow> string option \<Rightarrow> ('z room_db_scheme, bool) act" where
  "enqueueImport env importJobId shopId actorId =
    bindA (getsA (import_queued importJobId)) (\<lambda>there.
    if there \<and> ro_queues env ''imports'' \<noteq> None then returnA True
    else add_job env \<lparr>qj_queue = ''imports'', qj_name = ''process-import'',
      qj_data = [(''importJobId'', JString importJobId), (''shopId'', JString shopId)] @
        opt_field ''actorId'' (map_option JString actorId), qj_meta = []\<rparr>)"

definition enqueueInventoryRelease :: "room_env \<Rightarrow> ('z room_db_scheme, bool) act" where
  "enqueueInventoryRelease env =
    add_job env \<lparr>qj_queue = ''inventory'', qj_name = ''release-expired'', qj_data = [], qj_meta = []\<rparr>"

section \<open>Rooms\<close>

text \<open>The rooms a client names, whoever it is.\<close>

definition join_room :: "string \<Rightarrow> string \<Rightarrow> string \<Rightarrow> ('z room_db_scheme, unit) act" where
  "join_room namespace client room = modifyA (memberships_update (\<lambda>t. t @ [(namespace, client, room)]))"

definition handleJoin :: "string \<Rightarrow> string list \<Rightarrow> ('z room_db_scheme, string list) act" where
  "handleJoin client rooms =
    thenA (forA rooms (\<lambda>room. whenA (length room < 120) (join_room ''/ws'' client room))) (returnA rooms)"

definition handleSubscribe :: "string \<Rightarrow> string option \<Rightarrow> ('z room_db_scheme, bool) act" where
  "handleSubscribe client orderId =
    (if \<not> truthy orderId then returnA False
     else thenA (join_room ''/orders'' client (''order:'' @ the orderId)) (returnA True))"

definition handleSubscribeUser :: "string \<Rightarrow> string option \<Rightarrow> ('z room_db_scheme, bool) act" where
  "handleSubscribeUser client userId =
    (if \<not> truthy userId then returnA False
     else thenA (join_room ''/orders'' client (''user:'' @ the userId)) (returnA True))"

definition to_room :: "room_env \<Rightarrow> string \<Rightarrow> string \<Rightarrow> string \<Rightarrow> payload \<Rightarrow> payload \<Rightarrow> ('z room_db_scheme, unit) act" where
  "to_room env namespace room event content extra =
    whenA (ro_sockets env) (modifyA (room_messages_update (\<lambda>t. t @
      [\<lparr>rm_namespace = namespace, rm_room = room, rm_event = event, rm_data = content, rm_meta = extra\<rparr>])))"

definition notifyOrderStatus ::
  "room_env \<Rightarrow> string \<Rightarrow> string option \<Rightarrow> string option \<Rightarrow> string \<Rightarrow> string option \<Rightarrow> ('z room_db_scheme, unit) act" where
  "notifyOrderStatus env orderId shopId customerId status orderNumber =
    (let content = (''orderId'', JString orderId) # opt_field ''shopId'' (map_option JString shopId) @
           [(''customerId'', json_text customerId), (''status'', JString status)] @
           opt_field ''orderNumber'' (map_option JString orderNumber) in
     thenA (to_room env ''/ws'' (''order:'' @ orderId) ''order.status'' content [])
     (thenA (whenA (truthy shopId) (to_room env ''/ws'' (''shop:'' @ the shopId) ''order.status'' content []))
       (whenA (truthy customerId) (to_room env ''/ws'' (''user:'' @ the customerId) ''order.status'' content []))))"

definition notifyRfq :: "room_env \<Rightarrow> string \<Rightarrow> string option \<Rightarrow> string \<Rightarrow> payload \<Rightarrow> ('z room_db_scheme, unit) act" where
  "notifyRfq env rfqId buyerId event extra =
    (let content = (''rfqId'', JString rfqId) # opt_field ''buyerId'' (map_option JString buyerId) @ [(''event'', JString event)] in
     thenA (to_room env ''/ws'' (''rfq:'' @ rfqId) ''rfq.event'' content extra)
       (whenA (truthy buyerId) (to_room env ''/ws'' (''user:'' @ the buyerId) ''rfq.event'' content extra)))"

definition emitOrderStatusChanged :: "room_env \<Rightarrow> string \<Rightarrow> string \<Rightarrow> payload \<Rightarrow> ('z room_db_scheme, unit) act" where
  "emitOrderStatusChanged env orderId status details =
    to_room env ''/orders'' (''order:'' @ orderId) ''order-status-changed''
      ((''orderId'', JString orderId) # (''status'', JString status) # details) []"

definition emitOrderCreated :: "room_env \<Rightarrow> string \<Rightarrow> json \<Rightarrow> payload \<Rightarrow> ('z room_db_scheme, unit) act" where
  "emitOrderCreated env orderId customerId details =
    (let content = (''orderId'', JString orderId) # (''customerId'', customerId) # details in
     thenA (to_room env ''/orders'' (''order:'' @ orderId) ''order-created'' content [])
       (whenA (json_truthy customerId)
         (to_room env ''/orders'' (''user:'' @ json_String (Some customerId)) ''order-created'' content [])))"

text \<open>What a client hears: the messages of its rooms.\<close>

definition hears :: "string \<Rightarrow> 'z room_db_scheme \<Rightarrow> room_message list" where
  "hears client s = filter (\<lambda>m. (rm_namespace m, client, rm_room m) \<in> set (memberships s)) (room_messages s)"

end
