(* ===== verification/Listeners.thy ===== *)
theory Listeners
  imports Rooms
begin

text \<open>
  What follows an event: \<open>events/domain-event.listener.ts\<close> for the events of the services, and the handlers of
  \<open>orders/events\<close>, \<open>rfq/events\<close> and \<open>tenant/events\<close> for those the outbox publishes.  The texts shown to
  people are an argument, from what they mention, and so is the tenant of an order; a field of a payload that is no text (or
  number, where a number is meant) counts as missing.
\<close>

section \<open>Texts and fields\<close>

datatype notice =
    Paid_buyer string | Paid_shop string | Status_changed string string string
  | Award_buyer string bool "int option" | Award_shop string bool | Payout_asked int | Payout_done int
  | Rfq_made string | Rfq_invited string | Offer_came string string int | Invited string | Invite_mail string string string

record listen_env =
  li_notify :: notify_env
  li_rooms :: room_env
  li_text :: "notice \<Rightarrow> string \<times> string"
  li_tenantOf :: "order_row \<Rightarrow> string option"
  li_webUrl :: string

definition text_field :: "payload \<Rightarrow> string \<Rightarrow> string option" where
  "text_field p k = (case map_of p k of Some (JString t) \<Rightarrow> or_else (Some t) None | _ \<Rightarrow> None)"

definition number_field :: "payload \<Rightarrow> string \<Rightarrow> int option" where
  "number_field p k = (case map_of p k of Some (JNumber n) \<Rightarrow> Some n | _ \<Rightarrow> None)"

definition text_of :: "string option \<Rightarrow> string" where
  "text_of t = (case t of Some x \<Rightarrow> x | None \<Rightarrow> [])"

text \<open>To one user through \<open>notify\<close>, to one through \<open>create\<close>, to the users of a shop.\<close>

definition tell ::
  "listen_env \<Rightarrow> notice \<Rightarrow> string \<Rightarrow> string option \<Rightarrow> payload \<Rightarrow> string option \<Rightarrow> string \<Rightarrow> ('z room_db_scheme, unit) act" where
  "tell env n ty userId content tenantId link =
    whenA (truthy userId)
      (thenA (notify (li_notify env)
        \<lparr>np_userId = the userId, np_type = ty, np_title = fst (li_text env n), np_body = Some (snd (li_text env n)),
         np_data = content, np_channels = None, np_tenantId = tenantId, np_link = Some link\<rparr>) (returnA ()))"

definition note_for ::
  "listen_env \<Rightarrow> notice \<Rightarrow> string \<Rightarrow> string \<Rightarrow> payload \<Rightarrow> string option \<Rightarrow> string \<Rightarrow> bool option \<Rightarrow> create_notify" where
  "note_for env n ty userId content tenantId link sendEmail =
    \<lparr>np_userId = userId, np_type = ty, np_title = fst (li_text env n), np_body = None, np_data = content, np_channels = None,
     np_tenantId = tenantId, np_link = Some link, np_message = Some (snd (li_text env n)), np_sendEmail = sendEmail\<rparr>"

definition tell_owners ::
  "listen_env \<Rightarrow> notice \<Rightarrow> string \<Rightarrow> string option \<Rightarrow> payload \<Rightarrow> string option \<Rightarrow> string \<Rightarrow> bool option \<Rightarrow> ('z room_db_scheme, unit) act" where
  "tell_owners env n ty shopId content tenantId link sendEmail =
    whenA (truthy shopId)
      (thenA (notifyShopOwners (li_notify env) (the shopId) (note_for env n ty [] content tenantId link sendEmail)) (returnA ()))"

section \<open>Orders\<close>

definition onOrderCreated :: "listen_env \<Rightarrow> payload \<Rightarrow> ('z room_db_scheme, unit) act" where
  "onOrderCreated env p =
    thenA (enqueueNotification (li_rooms env) (text_field p ''customerId'') ''order'' ''Order created''
      (text_of (or_else (text_field p ''orderNumber'') (text_field p ''orderId''))) p)
    (notifyOrderStatus (li_rooms env) (text_of (text_field p ''orderId'')) (text_field p ''shopId'')
      (text_field p ''customerId'') ''PENDING_PAYMENT'' (text_field p ''orderNumber''))"

text \<open>Customer, shop and tenant of the payload, filled in from the order.\<close>

definition paid_parties ::
  "listen_env \<Rightarrow> payload \<Rightarrow> string \<Rightarrow> ('z room_db_scheme, string option \<times> string option \<times> string option) act" where
  "paid_parties env p orderId =
    (let c = text_field p ''customerId''; h = text_field p ''shopId''; t = text_field p ''tenantId'' in
     if orderId \<noteq> [] \<and> (c = None \<or> h = None) then
       bindA (getsA (\<lambda>s. find_row (\<lambda>o'. o_id o' = orderId) (orders s))) (\<lambda>found.
       returnA (case found of
         None \<Rightarrow> (c, h, t)
       | Some o' \<Rightarrow> (or_else c (o_customerId o'), or_else h (Some (o_shopId o')), or_else t (li_tenantOf env o'))))
     else returnA (c, h, t))"

definition onOrderPaid :: "listen_env \<Rightarrow> payload \<Rightarrow> ('z room_db_scheme, unit) act" where
  "onOrderPaid env p =
    (let orderId = text_of (text_field p ''orderId'');
         orderNumber = text_of (or_else (text_field p ''orderNumber'') (Some (take 8 orderId)));
         shown = (if orderNumber = [] then orderId else orderNumber) in
     bindA (paid_parties env p orderId) (\<lambda>(customerId, shopId, tenantId).
     let content = [(''orderId'', JString orderId), (''orderNumber'', JString orderNumber), (''shopId'', json_text shopId)] in
     thenA (tell env (Paid_buyer shown) ''ORDER_PAID'' customerId content tenantId (''/orders/'' @ orderId))
     (thenA (tell_owners env (Paid_shop shown) ''ORDER_PAID'' shopId content tenantId (''/merchant/orders/'' @ orderId) None)
     (thenA (enqueueNotification (li_rooms env) (or_else customerId None) ''order'' ''Order paid'' orderId p)
       (notifyOrderStatus (li_rooms env) orderId (or_else shopId None) customerId ''PAID'' (or_else (Some orderNumber) None))))))"

definition handle_OrderCreated ::
  "listen_env \<Rightarrow> string \<Rightarrow> json \<Rightarrow> int \<Rightarrow> string list \<Rightarrow> json option \<Rightarrow> ('z room_db_scheme, unit) act" where
  "handle_OrderCreated env orderId customerId totalCents shopIds orderNumber =
    (let job = (\<lambda>queue name content. thenA (add_job (li_rooms env)
           \<lparr>qj_queue = queue, qj_name = name, qj_data = (''orderId'', JString orderId) # content, qj_meta = []\<rparr>) (returnA ()));
         number = opt_field ''orderNumber'' orderNumber in
     thenA (whenA (json_truthy customerId) (job ''notifications'' ''order-created-customer''
       ((''customerId'', customerId) # (''totalCents'', JNumber totalCents) # number)))
     (thenA (forA shopIds (\<lambda>h. job ''notifications'' ''order-created-merchant'' ((''shopId'', JString h) # number)))
     (thenA (whenA (json_truthy customerId) (job ''emails'' ''order-confirmation'' ((''customerId'', customerId) # number)))
     (thenA (job ''search-index'' ''reindex-order'' [])
       (emitOrderCreated (li_rooms env) orderId customerId
         ((''totalCents'', JNumber totalCents) # number @ [(''shopIds'', JStrings shopIds)]))))))"

definition status_notice_type :: "string \<Rightarrow> string \<Rightarrow> string" where
  "status_notice_type old new =
    (if new = ''PAID'' then ''ORDER_PAID'' else if new = ''SHIPPED'' then ''ORDER_SHIPPED''
     else if new = ''CANCELLED'' then ''ORDER_CANCELLED''
     else if new = ''PENDING_PAYMENT'' \<and> (old = [] \<or> old = ''DRAFT'') then ''ORDER_CREATED'' else ''ORDER_STATUS'')"

definition handle_OrderStatusChanged :: "listen_env \<Rightarrow> string \<Rightarrow> string \<Rightarrow> string \<Rightarrow> json \<Rightarrow> ('z room_db_scheme, unit) act" where
  "handle_OrderStatusChanged env orderId old new changedBy =
    (let details = [(''oldStatus'', JString old), (''changedBy'', changedBy)] in
     thenA (emitOrderStatusChanged (li_rooms env) orderId new details)
     (thenA (add_job (li_rooms env) \<lparr>qj_queue = ''notifications'', qj_name = ''order-status-changed'',
        qj_data = (''orderId'', JString orderId) # (''newStatus'', JString new) # details, qj_meta = []\<rparr>)
     (bindA (getsA (\<lambda>s. find_row (\<lambda>o'. o_id o' = orderId) (orders s))) (\<lambda>found.
      case found of
        None \<Rightarrow> returnA ()
      | Some order \<Rightarrow>
          let ty = status_notice_type old new;
              n = Status_changed (o_orderNumber order) new old;
              tenantId = li_tenantOf env order;
              content = [(''orderId'', JString (o_id order)), (''status'', JString new), (''oldStatus'', JString old)] in
          if ty = ''ORDER_PAID'' \<and> changedBy = JNull then returnA ()
          else
            thenA (whenA (truthy (o_customerId order))
              (thenA (create_and_notify (li_notify env)
                (note_for env n ty (the (o_customerId order)) content tenantId (''/orders/'' @ o_id order) (Some True))) (returnA ())))
            (thenA (notifyShopOwners (li_notify env) (o_shopId order)
                (note_for env n ty [] content tenantId (''/merchant/orders/'' @ o_id order) (Some True)))
              (returnA ()))))))"

section \<open>Products\<close>

definition onProductCreated :: "listen_env \<Rightarrow> payload \<Rightarrow> ('z room_db_scheme, unit) act" where
  "onProductCreated env p =
    whenA (truthy (text_field p ''productId'') \<and> text_field p ''status'' = Some ''ACTIVE'')
      (thenA (enqueueSearchIndex (li_rooms env) ''index'' (text_of (text_field p ''productId''))) (returnA ()))"

definition onProductUpdated :: "listen_env \<Rightarrow> payload \<Rightarrow> ('z room_db_scheme, unit) act" where
  "onProductUpdated env p =
    whenA (truthy (text_field p ''productId''))
      (thenA (enqueueSearchIndex (li_rooms env)
        (if truthy (text_field p ''status'') \<and> text_field p ''status'' \<noteq> Some ''ACTIVE'' then ''remove'' else ''index'')
        (text_of (text_field p ''productId''))) (returnA ()))"

definition onProductDeleted :: "listen_env \<Rightarrow> payload \<Rightarrow> ('z room_db_scheme, unit) act" where
  "onProductDeleted env p =
    whenA (truthy (text_field p ''productId''))
      (thenA (enqueueSearchIndex (li_rooms env) ''remove'' (text_of (text_field p ''productId''))) (returnA ()))"

section \<open>Requests for quotation\<close>

definition onRfqCreated :: "listen_env \<Rightarrow> payload \<Rightarrow> ('z room_db_scheme, unit) act" where
  "onRfqCreated env p =
    thenA (notifyRfq (li_rooms env) (text_of (text_field p ''rfqId'')) (text_field p ''buyerId'') ''created'' p)
    (thenA (enqueueNotification (li_rooms env) (text_field p ''buyerId'') ''rfq'' ''RFQ created''
      (text_of (or_else (text_field p ''title'') (text_field p ''number''))) p) (returnA ()))"

definition onRfqAwarded :: "listen_env \<Rightarrow> payload \<Rightarrow> ('z room_db_scheme, unit) act" where
  "onRfqAwarded env p =
    (let rfqId = text_of (text_field p ''rfqId''); orderId = text_field p ''orderId''; shopId = text_field p ''shopId'';
         total = number_field p ''totalCents'' in
     bindA (getsA (\<lambda>s. if rfqId = [] then None else find_row (\<lambda>r. rq_id r = rfqId) (rfqs s))) (\<lambda>rfq.
     let buyerId = or_else (text_field p ''buyerId'') (map_option rq_buyerId rfq);
         label = text_of (or_else (map_option rq_number rfq) (or_else (map_option rq_title rfq) (Some rfqId)));
         content = [(''rfqId'', JString rfqId), (''offerId'', JString (text_of (text_field p ''offerId'')))] @
           opt_field ''orderId'' (map_option JString orderId) @ opt_field ''shopId'' (map_option JString shopId) @
           opt_field ''totalCents'' (map_option JNumber total) in
     thenA (tell env (Award_buyer label (orderId \<noteq> None) total) ''RFQ_AWARDED'' buyerId content None
       (case orderId of Some i \<Rightarrow> ''/orders/'' @ i | None \<Rightarrow> ''/rfq/'' @ rfqId))
      (tell_owners env (Award_shop label (orderId \<noteq> None)) ''RFQ_AWARDED'' shopId content None
        (case orderId of Some i \<Rightarrow> ''/merchant/orders/'' @ i | None \<Rightarrow> ''/merchant/rfq/'' @ rfqId) None)))"

text \<open>A request without shops goes to the first twenty active shops.\<close>

definition handle_RfqCreated ::
  "listen_env \<Rightarrow> string \<Rightarrow> string \<Rightarrow> string \<Rightarrow> string list \<Rightarrow> ('z room_db_scheme, unit) act" where
  "handle_RfqCreated env rfqId buyerId title shopIds =
    (let job = (\<lambda>name who. thenA (add_job (li_rooms env) \<lparr>qj_queue = ''notifications'', qj_name = name,
           qj_data = [(''rfqId'', JString rfqId), who, (''title'', JString title)], qj_meta = []\<rparr>) (returnA ())) in
     thenA (job ''rfq-created-buyer'' (''buyerId'', JString buyerId))
     (thenA (create_and_notify (li_notify env) (note_for env (Rfq_made title) ''RFQ_CREATED'' buyerId
         [(''rfqId'', JString rfqId)] None (''/rfq/'' @ rfqId) (Some False)))
     (bindA (getsA (\<lambda>s. if shopIds \<noteq> [] then shopIds
         else map sh_id (take 20 (filter (\<lambda>h. sh_status h = SH_ACTIVE) (shops s))))) (\<lambda>invited.
      forA invited (\<lambda>h.
        thenA (job ''rfq-invited-merchant'' (''shopId'', JString h))
          (thenA (notifyShopOwners (li_notify env) h (note_for env (Rfq_invited title) ''RFQ_CREATED'' []
            [(''rfqId'', JString rfqId), (''shopId'', JString h)] None (''/merchant/rfq/'' @ rfqId) (Some True)))
            (returnA ())))))))"

definition handle_RfqResponseCreated ::
  "listen_env \<Rightarrow> string \<Rightarrow> string \<Rightarrow> string \<Rightarrow> int \<Rightarrow> ('z room_db_scheme, unit) act" where
  "handle_RfqResponseCreated env responseId rfqId shopId totalCents =
    (let about = [(''rfqId'', JString rfqId), (''responseId'', JString responseId), (''shopId'', JString shopId)] in
     thenA (add_job (li_rooms env) \<lparr>qj_queue = ''notifications'', qj_name = ''rfq-new-response'',
       qj_data = about @ [(''totalCents'', JNumber totalCents)], qj_meta = []\<rparr>)
     (bindA (getsA (\<lambda>s. find_row (\<lambda>r. rq_id r = rfqId) (rfqs s))) (\<lambda>found.
      case found of
        None \<Rightarrow> returnA ()
      | Some r \<Rightarrow> tell env (Offer_came (rq_title r) (rq_number r) totalCents) ''RFQ_OFFER_RECEIVED'' (Some (rq_buyerId r))
          about None (''/rfq/'' @ rfqId))))"

definition handle_RfqResponseAccepted ::
  "listen_env \<Rightarrow> string \<Rightarrow> string \<Rightarrow> string \<Rightarrow> int \<Rightarrow> ('z room_db_scheme, unit) act" where
  "handle_RfqResponseAccepted env responseId rfqId shopId totalCents =
    thenA (add_job (li_rooms env) \<lparr>qj_queue = ''notifications'', qj_name = ''rfq-response-accepted'',
      qj_data = [(''responseId'', JString responseId), (''rfqId'', JString rfqId), (''shopId'', JString shopId),
        (''totalCents'', JNumber totalCents)], qj_meta = []\<rparr>)
    (thenA (add_job (li_rooms env) \<lparr>qj_queue = ''notifications'', qj_name = ''rfq-awarded-buyer'',
      qj_data = [(''rfqId'', JString rfqId), (''responseId'', JString responseId)], qj_meta = []\<rparr>) (returnA ()))"

definition handle_RfqResponseRejected ::
  "listen_env \<Rightarrow> string \<Rightarrow> string \<Rightarrow> string \<Rightarrow> json option \<Rightarrow> ('z room_db_scheme, unit) act" where
  "handle_RfqResponseRejected env responseId rfqId shopId reason =
    thenA (add_job (li_rooms env) \<lparr>qj_queue = ''notifications'', qj_name = ''rfq-response-rejected'',
      qj_data = [(''responseId'', JString responseId), (''rfqId'', JString rfqId), (''shopId'', JString shopId)] @
        opt_field ''reason'' reason, qj_meta = []\<rparr>) (returnA ())"

definition handle_RfqClosed :: "listen_env \<Rightarrow> string \<Rightarrow> string \<Rightarrow> json option \<Rightarrow> ('z room_db_scheme, unit) act" where
  "handle_RfqClosed env rfqId buyerId reason =
    thenA (add_job (li_rooms env) \<lparr>qj_queue = ''notifications'', qj_name = ''rfq-closed'',
      qj_data = [(''rfqId'', JString rfqId), (''buyerId'', JString buyerId)] @ opt_field ''reason'' reason, qj_meta = []\<rparr>)
    (returnA ())"

section \<open>Shops, payouts, invitations\<close>

definition onMerchantApproved :: "listen_env \<Rightarrow> payload \<Rightarrow> ('z room_db_scheme, unit) act" where
  "onMerchantApproved env p =
    thenA (enqueueEmail (li_rooms env) ''merchant@demo.com'' ''Shop approved''
      (''Shop '' @ json_String (map_of p ''shopId'') @ '' is ACTIVE'') None) (returnA ())"

definition payout_content :: "payload \<Rightarrow> int \<Rightarrow> payload" where
  "payout_content p amount = opt_field ''payoutId'' (map_of p ''payoutId'') @
    (''amountCents'', JNumber amount) # opt_field ''shopId'' (map_option JString (text_field p ''shopId''))"

definition onPayoutRequested :: "listen_env \<Rightarrow> payload \<Rightarrow> ('z room_db_scheme, unit) act" where
  "onPayoutRequested env p =
    (let amount = (case number_field p ''amountCents'' of Some n \<Rightarrow> n | None \<Rightarrow> 0) in
     thenA (tell_owners env (Payout_asked amount) ''PAYOUT_REQUESTED'' (text_field p ''shopId'') (payout_content p amount) None
       ''/merchant/balance'' None)
      (thenA (enqueueNotification (li_rooms env) None ''finance'' ''Payout requested''
        (json_title (map_of p ''amountCents'')) p) (returnA ())))"

definition onPayoutCompleted :: "listen_env \<Rightarrow> payload \<Rightarrow> ('z room_db_scheme, unit) act" where
  "onPayoutCompleted env p =
    (let amount = (case number_field p ''amountCents'' of Some n \<Rightarrow> n | None \<Rightarrow> 0) in
     tell_owners env (Payout_done amount) ''PAYOUT_COMPLETED'' (text_field p ''shopId'') (payout_content p amount) None
       ''/merchant/balance'' None)"

definition handle_TenantInviteCreated ::
  "listen_env \<Rightarrow> string \<Rightarrow> string \<Rightarrow> string \<Rightarrow> string \<Rightarrow> string \<Rightarrow> json option \<Rightarrow> ('z room_db_scheme, unit) act" where
  "handle_TenantInviteCreated env inviteId tenantId mailTo role token tenantName =
    (let label = (case tenantName of Some j \<Rightarrow> if json_truthy j then json_String (Some j) else tenantId | None \<Rightarrow> tenantId);
         mail = li_text env (Invite_mail label role (strip_last_slash (li_webUrl env) @ ''/invite/'' @ token)) in
     thenA (enqueueEmail (li_rooms env) mailTo (fst mail) (snd mail) (Some ''tenant-invite''))
     (bindA (user_by (\<lambda>u. us_email u = js_lower mailTo)) (\<lambda>existing.
      case existing of
        None \<Rightarrow> returnA ()
      | Some u \<Rightarrow>
          thenA (create_and_notify (li_notify env) (note_for env (Invited label) ''INVITE'' (us_id u)
            [(''inviteId'', JString inviteId), (''token'', JString token)] (or_else (Some tenantId) (us_tenantId u))
            (''/invite/'' @ token) (Some False))) (returnA ()))))"

section \<open>The two buses\<close>

text \<open>What the command bus does with an event the outbox publishes; an accepted invitation has no handler.\<close>

fun handle_event :: "listen_env \<Rightarrow> bus_event \<Rightarrow> ('z room_db_scheme, unit) act" where
  "handle_event env (OrderStatusChangedEvent i old new by) = handle_OrderStatusChanged env i old new by"
| "handle_event env (OrderCreatedEvent i c n hs number) = handle_OrderCreated env i c n hs number"
| "handle_event env (RfqCreatedEvent i b t cs hs number) = handle_RfqCreated env i b t hs"
| "handle_event env (RfqResponseCreatedEvent i r h m n) = handle_RfqResponseCreated env i r h n"
| "handle_event env (RfqResponseAcceptedEvent i r h b n) = handle_RfqResponseAccepted env i r h n"
| "handle_event env (RfqResponseRejectedEvent i r h b why) = handle_RfqResponseRejected env i r h why"
| "handle_event env (RfqClosedEvent i b why) = handle_RfqClosed env i b why"
| "handle_event env (TenantInviteCreatedEvent i t m r k name) = handle_TenantInviteCreated env i t m r k name"
| "handle_event env (TenantInviteAcceptedEvent i t u m) = returnA ()"

text \<open>The listener of an event of the services, by its name in \<open>DomainEvents\<close>.\<close>

definition on_event :: "listen_env \<Rightarrow> string \<Rightarrow> payload \<Rightarrow> ('z room_db_scheme, unit) act" where
  "on_event env name p =
    (if name = ''order.created'' then onOrderCreated env p
     else if name = ''order.paid'' then onOrderPaid env p
     else if name = ''product.created'' then onProductCreated env p
     else if name = ''product.updated'' then onProductUpdated env p
     else if name = ''product.deleted'' then onProductDeleted env p
     else if name = ''rfq.created'' then onRfqCreated env p
     else if name = ''rfq.awarded'' then onRfqAwarded env p
     else if name = ''merchant.approved'' then onMerchantApproved env p
     else if name = ''payout.requested'' then onPayoutRequested env p
     else if name = ''payout.completed'' then onPayoutCompleted env p
     else returnA ())"

end
