(* ===== verification/Listener_Claims.thy ===== *)
theory Listener_Claims
  imports Listeners Document_Claims
begin

text \<open>
  Who is told of what: a payment is told by the listener of the payment, not by the one of the order's status.  A step is
  described by the notifications it adds; \<open>tells\<close> says that it returns and adds those, and its rules follow the
  sequence of steps.
\<close>

section \<open>Steps and what they tell\<close>

definition told :: "'z notify_db_scheme \<Rightarrow> (string \<times> notification_type) list" where
  "told s = map (\<lambda>n. (n_userId n, n_type n)) (notifications s)"

text \<open>What no listener changes, and the ids stay fresh.\<close>

definition carries :: "'z room_db_scheme \<Rightarrow> 'z room_db_scheme \<Rightarrow> bool" where
  "carries s s' \<longleftrightarrow> users s' = users s \<and> tenants s' = tenants s \<and> orders s' = orders s \<and> (fresh_ids s \<longrightarrow> fresh_ids s')"

definition tells :: "('z room_db_scheme, 'a) act \<Rightarrow> 'z room_db_scheme \<Rightarrow> (string \<times> notification_type) list \<Rightarrow> bool" where
  "tells m s xs \<longleftrightarrow> (\<exists>r s'. m s = (Inr r, s') \<and> carries s s' \<and> told s' = told s @ xs)"

lemma carries_refl [simp]: "carries s s"
  by (simp add: carries_def)

lemma carries_trans: "carries s t \<Longrightarrow> carries t u \<Longrightarrow> carries s u"
  by (simp add: carries_def)

lemma tells_return [simp]: "tells (returnA x) s []"
  by (simp add: tells_def returnA_def)

lemma tells_then:
  assumes "tells m s xs" and "\<And>s'. carries s s' \<Longrightarrow> tells m' s' ys"
  shows "tells (thenA m m') s (xs @ ys)"
proof -
  obtain r s' where m: "m s = (Inr r, s')" "carries s s'" "told s' = told s @ xs" using assms(1) by (auto simp: tells_def)
  then obtain r' s'' where "m' s' = (Inr r', s'')" "carries s' s''" "told s'' = told s' @ ys"
    using assms(2) by (fastforce simp: tells_def)
  with m show ?thesis by (auto simp: tells_def thenA_def bindA_def intro: carries_trans)
qed

lemma tells_then_quiet: "tells m s xs \<Longrightarrow> tells (thenA m (returnA x)) s xs"
  using tells_then [of m s xs "returnA x" "[]"] by simp

lemma tells_when: "(b \<Longrightarrow> tells m s xs) \<Longrightarrow> tells (whenA b m) s (if b then xs else [])"
  by (simp add: whenA_def)

lemma tells_gets: "tells (f (g s)) s xs \<Longrightarrow> tells (bindA (getsA g) f) s xs"
  by (simp add: tells_def bindA_gets)

lemma tells_bind: "m s = (Inr x, s) \<Longrightarrow> tells (f x) s xs \<Longrightarrow> tells (bindA m f) s xs"
  by (simp add: tells_def bindA_run)

section \<open>One user, the users of a shop\<close>

definition tenant_known :: "string option \<Rightarrow> 'z room_db_scheme \<Rightarrow> bool" where
  "tenant_known t s \<longleftrightarrow> (case t of None \<Rightarrow> True | Some i \<Rightarrow> list_ex (\<lambda>x. tn_id x = i) (tenants s))"

lemma tenant_known_carries: "carries s s' \<Longrightarrow> tenant_known t s' = tenant_known t s"
  by (cases t) (simp_all add: carries_def tenant_known_def)

lemma fresh_after:
  assumes fresh: "fresh_ids s"
    and "n_id n = id_supply s (next_id s)" "nd_id a = id_supply s (next_id s + 1)" "nd_id b = id_supply s (next_id s + 2)"
    and "nd_notificationId a = n_id n" "nd_notificationId b = n_id n"
  shows "fresh_ids (s\<lparr>next_id := next_id s + 3, notifications := notifications s @ [n], deliveries := deliveries s @ [a, b],
      pushes := ps, email_jobs := js\<rparr>)"
proof -
  have "id_supply s i \<noteq> id_supply s j" if "i < j" for i j
    using fresh that unfolding fresh_ids_def by (metis injD less_irrefl)
  then show ?thesis using assms by (auto simp: fresh_ids_def)
qed

lemma tells_notify:
  fixes s :: "'z room_db_scheme"
  assumes "np_userId q \<noteq> []" and "np_channels q = None \<or> np_channels q = Some [IN_APP, EMAIL]" and fresh: "fresh_ids s"
    and "find_row (\<lambda>u. us_id u = np_userId q) (users s) \<noteq> None" and "tenant_known (np_tenantId q) s"
  shows "tells (notify env q) s [(np_userId q, toNotificationType (np_type q))]"
proof -
  obtain u where "find_row (\<lambda>u. us_id u = np_userId q) (users s) = Some u" using assms(4) by blast
  from notify_run [OF assms(1,2) fresh this] assms(5) obtain n a b s' jobs where
      run: "notify env q s = (Inr (Some n), s')" and n: "n = first_row q (id_supply s (next_id s))"
    and s': "s' = s\<lparr>next_id := next_id s + 3, notifications := notifications s @ [n], deliveries := deliveries s @ [a, b],
      pushes := pushes s @ (if ne_gateway env then [(np_userId q, n_id n)] else []), email_jobs := email_jobs s @ jobs\<rparr>"
    and ids: "nd_id a = id_supply s (next_id s + 1)" "nd_id b = id_supply s (next_id s + 2)"
      "nd_notificationId a = n_id n" "nd_notificationId b = n_id n"
    unfolding tenant_known_def by metis
  have "fresh_ids s'" unfolding s' using fresh ids n by (intro fresh_after) (simp_all add: first_row_def)
  then have "carries s s'" by (simp add: carries_def s')
  moreover have "told s' = told s @ [(np_userId q, toNotificationType (np_type q))]" by (simp add: told_def s' n first_row_def)
  ultimately show ?thesis using run by (auto simp: tells_def)
qed

lemma tells_create:
  fixes s :: "'z room_db_scheme"
  assumes "np_userId q \<noteq> []" and "np_channels q = None" and "np_sendEmail q \<noteq> Some False" and "fresh_ids s"
    and "find_row (\<lambda>u. us_id u = np_userId q) (users s) \<noteq> None" and "tenant_known (np_tenantId q) s"
  shows "tells (create_and_notify env q) s [(np_userId q, toNotificationType (np_type q))]"
proof -
  have "tells (notify env q') s [(np_userId q', toNotificationType (np_type q'))]"
    if "np_userId q' = np_userId q" "np_channels q' = Some [IN_APP, EMAIL]" "np_tenantId q' = np_tenantId q" for q'
    using assms that by (intro tells_notify) simp_all
  from this [of "\<lparr>np_userId = np_userId q, np_type = np_type q, np_title = np_title q,
      np_body = (case np_body q of Some b \<Rightarrow> Some b | None \<Rightarrow> (case np_message q of Some m \<Rightarrow> Some m | None \<Rightarrow> Some [])),
      np_data = np_data q, np_channels = Some [IN_APP, EMAIL], np_tenantId = np_tenantId q, np_link = np_link q\<rparr>"]
  show ?thesis using assms(2,3) by (simp add: create_and_notify_def)
qed

lemma tells_owners:
  fixes s :: "'z room_db_scheme"
  assumes q: "np_channels q = None" "np_sendEmail q \<noteq> Some False" and fresh: "fresh_ids s"
    and users: "\<forall>u \<in> set (users s). us_id u \<noteq> [] \<and> tenant_known (us_tenantId u) s" and tenant: "tenant_known (np_tenantId q) s"
  shows "tells (notifyShopOwners env shopId q) s
    (map (\<lambda>u. (us_id u, toNotificationType (np_type q))) (filter (\<lambda>u. us_shopId u = Some shopId) (users s)))"
proof -
  define f where "f = (\<lambda>u :: user_row. create_and_notify env (q\<lparr>np_userId := us_id u,
      np_tenantId := (case np_tenantId q of Some t \<Rightarrow> Some t | None \<Rightarrow> us_tenantId u)\<rparr>)
      :: ('z room_db_scheme, notification_row option) act)"
  have one: "tells (f u) t [(us_id u, toNotificationType (np_type q))]" if "carries s t" "u \<in> set (users s)" for u t
    unfolding f_def
  proof (rule tells_create [where q = "q\<lparr>np_userId := us_id u, np_tenantId := _\<rparr>", simplified])
    have "find_row (\<lambda>v. us_id v = us_id u) (users s) \<noteq> None" using that(2) unfolding find_row_ex by auto
    then show "\<exists>y. find_row (\<lambda>v. us_id v = us_id u) (users t) = Some y" using that(1) by (simp add: carries_def)
    show "tenant_known (case np_tenantId q of None \<Rightarrow> us_tenantId u | Some t \<Rightarrow> Some t) t"
      using users tenant that by (cases "np_tenantId q") (auto simp: tenant_known_carries)
  qed (use q users that fresh in \<open>auto simp: carries_def\<close>)
  have "tells (mapA us f) t (map (\<lambda>u. (us_id u, toNotificationType (np_type q))) us)"
    if "carries s t" "set us \<subseteq> set (users s)" for us t
    using that
  proof (induction us arbitrary: t)
    case (Cons u us)
    then obtain r t' where 1: "f u t = (Inr r, t')" "carries t t'" "told t' = told t @ [(us_id u, toNotificationType (np_type q))]"
      using one [of t u] by (auto simp: tells_def)
    then obtain r' t'' where "mapA us f t' = (Inr r', t'')" "carries t' t''"
        "told t'' = told t' @ map (\<lambda>u. (us_id u, toNotificationType (np_type q))) us"
      using Cons carries_trans [OF Cons.prems(1) 1(2)] by (fastforce simp: tells_def)
    with 1 show ?case by (auto simp: tells_def act_defs intro: carries_trans)
  qed simp
  then show ?thesis
    unfolding notifyShopOwners_def f_def [symmetric] by (intro tells_gets) auto
qed

section \<open>Jobs and rooms tell no one\<close>

definition queues_work :: "room_env \<Rightarrow> bool" where
  "queues_work env \<longleftrightarrow> (\<forall>queue answer job. ro_queues env queue = Some answer \<longrightarrow> answer job = None)"

lemma tells_job:
  assumes "queues_work env"
  shows "tells (add_job env job) s []"
proof (cases "ro_queues env (qj_queue job)")
  case (Some answer)
  then have "answer job = None" using assms by (auto simp: queues_work_def)
  with Some have "add_job env job s = (Inr True, queue_jobs_update (\<lambda>t. t @ [job]) s)" by (simp add: add_job_def act_defs)
  then show ?thesis by (auto simp: tells_def carries_def told_def fresh_ids_def)
qed (auto simp: add_job_def tells_def returnA_def)

lemma tells_room: "tells (to_room env namespace room event content extra) s []"
  by (auto simp: to_room_def act_defs tells_def carries_def told_def fresh_ids_def)

lemma tells_nothing: "tells m s [] \<Longrightarrow> tells (whenA b m) s []"
  using tells_when [of b m s "[]"] by simp

lemma tells_both: "tells m s [] \<Longrightarrow> (\<And>s'. carries s s' \<Longrightarrow> tells m' s' ys) \<Longrightarrow> tells (thenA m m') s ys"
  using tells_then [of m s "[]" m' ys] by simp

lemma tells_order_status: "tells (notifyOrderStatus env i h c st n) s []"
  unfolding notifyOrderStatus_def Let_def by (intro tells_both tells_nothing tells_room)

lemma tells_notification_job: "queues_work env \<Longrightarrow> tells (enqueueNotification env u c t b x) s []"
  unfolding enqueueNotification_def by (rule tells_job)

section \<open>A payment\<close>

lemma paid_parties_run:
  assumes "find_row (\<lambda>o'. o_id o' = orderId) (orders s) = Some order" and "orderId \<noteq> []" and "o_shopId order \<noteq> []"
    and "o_customerId order \<noteq> Some []" and "text_field p ''customerId'' \<in> {None, o_customerId order}"
    and "text_field p ''shopId'' \<in> {None, Some (o_shopId order)}" and "text_field p ''tenantId'' \<in> {None, li_tenantOf env order}"
  shows "\<exists>t \<in> {None, li_tenantOf env order}.
    paid_parties env p orderId s = (Inr (o_customerId order, Some (o_shopId order), t), s)"
proof (cases "text_field p ''customerId'' = None \<or> text_field p ''shopId'' = None")
  case True
  then have "paid_parties env p orderId s = (Inr (o_customerId order, Some (o_shopId order),
      or_else (text_field p ''tenantId'') (li_tenantOf env order)), s)"
    using assms by (auto simp: paid_parties_def Let_def act_defs or_else_def truthy_def split: option.splits)
  moreover have "or_else (text_field p ''tenantId'') (li_tenantOf env order) = li_tenantOf env order"
    using assms(7) by (auto simp: or_else_def)
  ultimately show ?thesis by simp
next
  case False
  then have "paid_parties env p orderId s = (Inr (o_customerId order, Some (o_shopId order), text_field p ''tenantId''), s)"
    using assms(5,6) by (auto simp: paid_parties_def Let_def act_defs)
  then show ?thesis using assms(7) by auto
qed

lemma paid_type: "toNotificationType ''ORDER_PAID'' = NT_ORDER_PAID"
  by (simp add: toNotificationType_def notification_types_def)

lemma on_paid: "on_event env ''order.paid'' p = onOrderPaid env p"
  by (simp add: on_event_def)

lemma tells_customer:
  fixes s :: "'z room_db_scheme"
  assumes "case userId of None \<Rightarrow> True | Some c \<Rightarrow> c \<noteq> [] \<and> find_row (\<lambda>u. us_id u = c) (users s) \<noteq> None"
    and "fresh_ids s" and "tenant_known t s"
  shows "tells (tell env n ''ORDER_PAID'' userId content t link) s (case userId of None \<Rightarrow> [] | Some c \<Rightarrow> [(c, NT_ORDER_PAID)])"
proof (cases userId)
  case (Some b)
  have "tells (notify (li_notify env) q) s [(b, NT_ORDER_PAID)]"
    if "np_userId q = b" "np_type q = ''ORDER_PAID''" "np_channels q = None" "np_tenantId q = t" for q
    using tells_notify [of q s "li_notify env"] assms Some that by (auto simp: paid_type)
  then show ?thesis using Some assms(1) by (simp add: tell_def whenA_def) (rule tells_then_quiet, simp)
qed (simp add: tell_def whenA_def)

lemma tells_shop:
  fixes s :: "'z room_db_scheme"
  assumes "\<forall>u \<in> set (users s). us_id u \<noteq> [] \<and> tenant_known (us_tenantId u) s" and "fresh_ids s" and "tenant_known t s" and "shopId \<noteq> []"
  shows "tells (tell_owners env n ''ORDER_PAID'' (Some shopId) content t link None) s
    (map (\<lambda>u. (us_id u, NT_ORDER_PAID)) (filter (\<lambda>u. us_shopId u = Some shopId) (users s)))"
proof -
  have "tells (notifyShopOwners (li_notify env) shopId (note_for env n ''ORDER_PAID'' [] content t link None)) s
    (map (\<lambda>u. (us_id u, NT_ORDER_PAID)) (filter (\<lambda>u. us_shopId u = Some shopId) (users s)))"
    using tells_owners [of "note_for env n ''ORDER_PAID'' [] content t link None" s "li_notify env" shopId] assms
    by (simp add: note_for_def paid_type)
  then show ?thesis using assms(4) by (simp add: tell_owners_def whenA_def tells_then_quiet)
qed

text \<open>
  C40.  A payment is told once: for an order whose customer and shop are known, with queues that take their jobs,
  the event that the order's status became \<open>PAID\<close> without an actor is handled and tells no one, and the
  event of the payment is then handled and adds, in this order, one notification for the customer, if the order has one,
  and one for every user of the shop, even when its payload names neither.
\<close>

theorem paid_told_once:
  fixes s :: "'z room_db_scheme"
  assumes order: "find_row (\<lambda>o'. o_id o' = orderId) (orders s) = Some order" "orderId \<noteq> []" "o_shopId order \<noteq> []"
    and customer: "case o_customerId order of None \<Rightarrow> True | Some c \<Rightarrow> c \<noteq> [] \<and> find_row (\<lambda>u. us_id u = c) (users s) \<noteq> None"
    and fresh: "fresh_ids s" and works: "queues_work (li_rooms env)"
    and users: "\<forall>u \<in> set (users s). us_id u \<noteq> [] \<and> tenant_known (us_tenantId u) s" and tenant: "tenant_known (li_tenantOf env order) s"
    and fields: "text_field p ''orderId'' = Some orderId" "text_field p ''customerId'' \<in> {None, o_customerId order}"
      "text_field p ''shopId'' \<in> {None, Some (o_shopId order)}" "text_field p ''tenantId'' \<in> {None, li_tenantOf env order}"
  shows "\<exists>s1 s2. handle_event env (OrderStatusChangedEvent orderId old ''PAID'' JNull) s = (Inr (), s1) \<and> told s1 = told s \<and>
    on_event env ''order.paid'' p s1 = (Inr (), s2) \<and>
    told s2 = told s @ (case o_customerId order of None \<Rightarrow> [] | Some c \<Rightarrow> [(c, NT_ORDER_PAID)]) @
      map (\<lambda>u. (us_id u, NT_ORDER_PAID)) (filter (\<lambda>u. us_shopId u = Some (o_shopId order)) (users s))"
proof -
  have "tells (handle_event env (OrderStatusChangedEvent orderId old ''PAID'' JNull)) s []"
    unfolding handle_event.simps handle_OrderStatusChanged_def Let_def emitOrderStatusChanged_def
    using order(1) by (intro tells_both tells_room tells_job [OF works] tells_gets) (simp add: carries_def status_notice_type_def)
  then obtain s1 where 1: "handle_event env (OrderStatusChangedEvent orderId old ''PAID'' JNull) s = (Inr (), s1)"
      and c: "carries s s1" and told: "told s1 = told s" by (auto simp: tells_def)
  have here: "find_row (\<lambda>o'. o_id o' = orderId) (orders s1) = Some order" "users s1 = users s" "fresh_ids s1"
    using c order(1) fresh by (simp_all add: carries_def)
  have whom: "o_customerId order \<noteq> Some []" using customer by (cases "o_customerId order") auto
  obtain t where t: "t \<in> {None, li_tenantOf env order}" and parties: "paid_parties env p orderId s1 = (Inr (o_customerId order, Some (o_shopId order), t), s1)"
    using paid_parties_run [OF here(1) order(2,3) whom fields(2-4)] by (rule bexE)
  have "t = None \<or> t = li_tenantOf env order" using t by simp
  then have before: "tenant_known t s" using tenant by (elim disjE) (simp_all add: tenant_known_def)
  then have known: "tenant_known t s1" by (simp add: tenant_known_carries [OF c])
  note buyer = tells_customer [OF customer [folded here(2)] here(3) known]
  have owners: "tells (tell_owners env n ''ORDER_PAID'' (Some (o_shopId order)) content t link None) s2
      (map (\<lambda>u. (us_id u, NT_ORDER_PAID)) (filter (\<lambda>u. us_shopId u = Some (o_shopId order)) (users s)))" if "carries s1 s2" for n content link s2
  proof -
    note c2 = carries_trans [OF c that]
    have same: "users s2 = users s" "fresh_ids s2" using c2 fresh by (simp_all add: carries_def)
    show ?thesis
      using tells_shop [of s2 t "o_shopId order" env n content link] users before order(3) same by (simp add: tenant_known_carries [OF c2])
  qed
  have "tells (on_event env ''order.paid'' p) s1 ((case o_customerId order of None \<Rightarrow> [] | Some c \<Rightarrow> [(c, NT_ORDER_PAID)]) @
      map (\<lambda>u. (us_id u, NT_ORDER_PAID)) (filter (\<lambda>u. us_shopId u = Some (o_shopId order)) (users s)))"
  proof -
    have start: "text_of (text_field p ''orderId'') = orderId" by (simp add: fields(1) text_of_def)
    have quiet: "tells (thenA (enqueueNotification (li_rooms env) a b c d x) (notifyOrderStatus (li_rooms env) e f g h i)) s' []"
      for a b c d x e f g h i s'
      by (intro tells_both tells_notification_job [OF works] tells_order_status)
    show ?thesis
      unfolding on_paid onOrderPaid_def Let_def start
    proof (rule tells_bind [where m = "paid_parties env p orderId" and s = s1, OF parties], unfold prod.case, rule tells_then [OF buyer])
      fix s' :: "'z room_db_scheme"
      assume "carries s1 s'"
      from tells_then [OF owners [OF this] quiet]
      show "tells (thenA (tell_owners env n ''ORDER_PAID'' (Some (o_shopId order)) content t link None)
          (thenA (enqueueNotification (li_rooms env) a b c d x) (notifyOrderStatus (li_rooms env) e f g h i))) s'
        (map (\<lambda>u. (us_id u, NT_ORDER_PAID)) (filter (\<lambda>u. us_shopId u = Some (o_shopId order)) (users s)))"
        for n content link a b c d x e f g h i by simp
    qed
  qed
  then obtain s2 where "on_event env ''order.paid'' p s1 = (Inr (), s2)"
    "told s2 = told s1 @ (case o_customerId order of None \<Rightarrow> [] | Some c \<Rightarrow> [(c, NT_ORDER_PAID)]) @
      map (\<lambda>u. (us_id u, NT_ORDER_PAID)) (filter (\<lambda>u. us_shopId u = Some (o_shopId order)) (users s))"
    by (auto simp: tells_def)
  with 1 told show ?thesis by auto
qed

section \<open>Witness\<close>

definition demo_hub :: "listen_env" where
  "demo_hub = \<lparr>li_notify = \<lparr>ne_emails = None, ne_gateway = True\<rparr>,
    li_rooms = \<lparr>ro_queues = (\<lambda>queue. if queue = ''notifications'' then Some (\<lambda>job. None) else None), ro_sockets = True\<rparr>,
    li_text = (\<lambda>n. (''Paid'', ''Paid'')), li_tenantOf = (\<lambda>o'. None), li_webUrl = ''http://x/''\<rparr>"

definition demo_floor :: room_db where
  "demo_floor = document_db.extend ((demo_archive 0)\<lparr>notifications := [], deliveries := [],
      users := [demo_user\<lparr>us_tenantId := None\<rparr>, demo_user\<lparr>us_id := ''m1'', us_shopId := Some ''s1'', us_tenantId := None\<rparr>],
      orders := [(demo_order OS_PAID)\<lparr>o_id := ''o1'', o_shopId := ''s1'', o_customerId := Some ''u1''\<rparr>],
      id_supply := (\<lambda>n. replicate (Suc n) CHR ''i'')\<rparr>) (room_db.fields [] [] [])"

lemma demo_floor_fields [simp]:
  "notifications demo_floor = []" "deliveries demo_floor = []" "id_supply demo_floor = (\<lambda>n. replicate (Suc n) CHR ''i'')"
  "users demo_floor = [demo_user\<lparr>us_tenantId := None\<rparr>, demo_user\<lparr>us_id := ''m1'', us_shopId := Some ''s1'', us_tenantId := None\<rparr>]"
  "orders demo_floor = [(demo_order OS_PAID)\<lparr>o_id := ''o1'', o_shopId := ''s1'', o_customerId := Some ''u1''\<rparr>]"
  by (simp_all add: demo_floor_def document_db.defs room_db.defs)

theorem paid_told_once_witness:
  "\<exists>s1 s2. handle_event demo_hub (OrderStatusChangedEvent ''o1'' ''PENDING_PAYMENT'' ''PAID'' JNull) demo_floor = (Inr (), s1) \<and> told s1 = [] \<and>
    on_event demo_hub ''order.paid'' [(''orderId'', JString ''o1'')] s1 = (Inr (), s2) \<and>
    told s2 = [(''u1'', NT_ORDER_PAID), (''m1'', NT_ORDER_PAID)]"
proof -
  let ?o = "(demo_order OS_PAID)\<lparr>o_id := ''o1'', o_shopId := ''s1'', o_customerId := Some ''u1''\<rparr>"
  have o: "find_row (\<lambda>o'. o_id o' = ''o1'') (orders demo_floor) = Some ?o" "''o1'' \<noteq> []" "o_shopId ?o \<noteq> []" by simp_all
  have c: "case o_customerId ?o of None \<Rightarrow> True | Some c \<Rightarrow> c \<noteq> [] \<and> find_row (\<lambda>u. us_id u = c) (users demo_floor) \<noteq> None"
    by (simp add: demo_user_def)
  have f: "fresh_ids demo_floor" by (simp add: fresh_ids_def inj_def)
  have w: "queues_work (li_rooms demo_hub)" by (simp add: queues_work_def demo_hub_def)
  have u: "\<forall>u \<in> set (users demo_floor). us_id u \<noteq> [] \<and> tenant_known (us_tenantId u) demo_floor"
    "tenant_known (li_tenantOf demo_hub ?o) demo_floor"
    by (simp_all add: demo_user_def tenant_known_def demo_hub_def)
  have p: "text_field [(''orderId'', JString ''o1'')] ''orderId'' = Some ''o1''"
    "text_field [(''orderId'', JString ''o1'')] ''customerId'' \<in> {None, o_customerId ?o}"
    "text_field [(''orderId'', JString ''o1'')] ''shopId'' \<in> {None, Some (o_shopId ?o)}"
    "text_field [(''orderId'', JString ''o1'')] ''tenantId'' \<in> {None, li_tenantOf demo_hub ?o}"
    by (simp_all add: text_field_def or_else_def)
  have "us_shopId demo_user \<noteq> Some ''s1''" "us_id demo_user = ''u1''" by (simp_all add: demo_user_def)
  with paid_told_once [OF o c f w u p, of "''PENDING_PAYMENT''"] show ?thesis
    by (simp add: told_def)
qed

end
