(* ===== verification/Spec2Isabelle.thy ===== *)
theory Spec2Isabelle
  imports Stock_Claims Tax_Claims Money_Claims Order_Claims Checkout_Claims Refund_Claims Payment_Claims Rfq_Claims
    Outbox_Claims Shipping_Claims Totp_Claims Auth_Claims Tenant_Claims Idempotency_Claims Product_Claims Upload_Claims Storage_Claims
    Notify_Claims Support_Claims Admin_Claims Kyc_Claims Document_Claims Listener_Claims
begin

text \<open>
  A model of the business core of the marketplace API (apps/api/src) and what holds of it.

  \<^bold>\<open>The program.\<close>  Merchants sell through shops; buyers fill a cart and check out into one order per
  shop, or publish a request for quotation and award an offer, which also creates an order.  A
  checkout holds stock, a confirmed payment (a Stripe webhook, or the development route) takes it,
  posts to two ledgers and marks the order paid; refunds and payouts post the money back and out.  All
  services share one PostgreSQL database through Prisma, and most operations are one transaction.

  \<^bold>\<open>State.\<close>  The database is a record that grows along the services: \<open>core_db\<close> (clock, supply of ids,
  audit log, events, outbox), \<open>inv_db\<close> (shops, products, stock rows, warehouses, reservations),
  \<open>fin_db\<close> (double-entry and single-entry ledger, payouts), \<open>ord_db\<close> (carts, orders, history, taxes,
  shipping), \<open>pay_db\<close> (payments, refunds, webhook events, disputes, connected accounts), \<open>rfq_db\<close>
  (requests, offers, matches, messages), \<open>bus_db\<close> (what the event bus took),
  \<open>auth_db\<close> (accounts, refresh tokens), \<open>tenant_db\<close> (tenants, invites), \<open>catalog_db\<close> (categories,
  documents, the cache), \<open>product_db\<close> (import jobs, their files), \<open>store_db\<close> (the local disk, the bucket),
  \<open>notify_db\<close> (notifications, deliveries, what was pushed and queued), \<open>support_db\<close> (tickets), \<open>media_db\<close>
  (owned files), \<open>kyc_db\<close> (documents of shops), \<open>desk_db\<close> (wishlists), \<open>document_db\<close> (invoices and acts),
  \<open>room_db\<close> (queues, rooms of the sockets); the table of idempotency keys stands beside it.  A table is the list of its rows in the order of creation; an
  operation is polymorphic in what later services add, so it runs unchanged on the whole database.
  Money is an \<open>int\<close> of cents as the \<open>Int\<close> columns have it; products that the code rounds go through
  doubles (\<open>JsNumber\<close>).  The range of the column type is not enforced, a unique column is checked by
  \<open>createUniqueA\<close>, and ids and texts are ordered byte by byte where PostgreSQL uses its collation.

  \<^bold>\<open>Operations.\<close>  \<open>('s, 'a) act\<close> is \<open>'s \<Rightarrow> (exn + 'a) \<times> 's\<close>: an exception keeps what was written before
  it, \<open>txA\<close> is a Prisma transaction (an exception takes its writes back), \<open>catchA\<close> is try/catch,
  \<open>forA\<close> and \<open>mapA\<close> are the loops.  Every throw of the code is a branch.  An operation runs alone; where
  the code reads a row before it opens its transaction, the transaction is a definition of its own
  that takes the row, so that interleavings can be stated.

  \<^bold>\<open>Theories.\<close>
  \<^item> \<open>Prelude\<close>: actions, exceptions, table operations, strings as JavaScript treats them, the
    invariant calculus (\<open>keeps\<close>), the interfaces \<open>invariant_component\<close> and \<open>status_machine\<close>.
  \<^item> \<open>JsNumber\<close>: doubles as fractions, \<open>Math.round\<close>.
  \<^item> \<open>Schema\<close>: rows and enums of prisma/schema.prisma, the steps every service uses.
  \<^item> \<open>Inventory\<close> (warehouse/): stock rows, reservations, warehouse commands.  \<open>Inventory_Facts\<close>: its
    invariant, which excepts a set of places, and the locale \<open>tracked_component\<close>, which carries along the
    places an owner lowered below the reserved units (\<open>UpdateProductStockHandler\<close>);
    \<open>Stock_Holds\<close>: what confirming, releasing and expiring a hold share, as a locale that
    the three operations instantiate; \<open>Stock_Reach\<close>: the step relation, the owner's new quantities and the
    editor's stock of a product included, with the conditions a fulfilment needs of them;
    \<open>Stock_Claims\<close>: properties, also the payment that fails where these conditions were broken.
  \<^item> \<open>Ledger\<close>, \<open>Finance\<close> (finance/): postings, payouts.  \<open>Finance_Facts\<close>, \<open>Payout_Funds\<close>: the ledger
    invariant and the conservation of funds; \<open>Money_Claims\<close>: properties.
  \<^item> \<open>Tax\<close>, \<open>Tax_Claims\<close> (tax/): rates and rounding.
  \<^item> \<open>Orders\<close>, \<open>Order_Claims\<close> (orders/): cart, checkout, access, status, fulfilment.  \<open>Checkout_Claims\<close>:
    the checkout writes everything or nothing, its orders add up to the cart and hold every line.
  \<^item> \<open>Refunds\<close>, \<open>Refund_Claims\<close> (refunds/): the refund desk within what was paid, what each operation
    does to a row of the refund machine.
  \<^item> \<open>Payments\<close>, \<open>Payment_Claims\<close> (payments/): full amounts only, events handled once, signatures, keys.
  \<^item> \<open>Rfq\<close>, \<open>Rfq_Commands\<close>, \<open>Rfq_Claims\<close> (rfq/): the invariant of requests, offers and their orders.
  \<^item> \<open>Outbox\<close>, \<open>Outbox_Claims\<close> (common/outbox/): the dispatcher and the abstract step it refines.
  \<^item> \<open>Shipping\<close>, \<open>Shipping_Claims\<close> (shipping/): rates and the options of a checkout.
  \<^item> \<open>Totp\<close>, \<open>Totp_Claims\<close> (auth/totp.util.ts): base 32 and the codes, against the definitions of the RFCs.
  \<^item> \<open>Slugs\<close>: addresses of shops and products, the search for a free one.
  \<^item> \<open>Auth\<close>, \<open>Auth_Facts\<close>, \<open>Auth_Claims\<close> (auth/): accounts, sessions, second factor; the invariant of
    the accounts over every history; what a session, a refresh token and a reset are worth; a family of
    refresh tokens that a reuse ended stays ended.
  \<^item> \<open>Requests\<close>, \<open>Tenants\<close>, \<open>Tenant_Claims\<close> (common/guards, common/tenant, tenant/): guards, the tenant of
    a request and the rewriting of queries, tenants and invites; the isolation of tenants for the kinds of
    query that are rewritten, and an aggregate that is not.  A condition is an equality or any test of the
    row, so it covers ranges and alternatives; raw SQL and nested writes are not modelled.
  \<^item> \<open>Idempotency\<close>, \<open>Idempotency_Claims\<close> (common/idempotency, orders.controller.ts): a key runs once.
  \<^item> \<open>Catalog\<close> (catalog/, cache/): categories, lists, the cache, products and their documents.  \<open>Csv\<close>,
    \<open>Products\<close> (merchant/merchant-products.service.ts): the import file, a merchant's products.
    \<open>Product_Facts\<close>: the invariant of a merchant's requests; \<open>Product_Claims\<close>: properties, among them
    which row of an import file became which product.
  \<^item> \<open>Uploads\<close>, \<open>Upload_Claims\<close> (common/upload/): the check of an uploaded file.  \<open>Storage\<close>,
    \<open>Storage_Claims\<close> (storage/): keys, paths, signed addresses.
  \<^item> \<open>Notify\<close>, \<open>Notify_Claims\<close> (notifications/, jobs/processors/): notifications and their deliveries, the inbox.
  \<^item> \<open>Support\<close>, \<open>Support_Claims\<close> (support/): tickets, disputes, the older route of refunds and what it undoes.
  \<^item> \<open>Shops\<close> (shops/), \<open>Admin\<close>, \<open>Admin_Claims\<close> (admin/): the console; who keeps its highest role.
  \<^item> \<open>Media\<close> (media/), \<open>Kyc\<close>, \<open>Kyc_Claims\<close> (kyc/): owned files, the verification of shops.
  \<^item> \<open>Desks\<close> (wishlist/, buyer/, merchant/merchant.service.ts): what a buyer and a merchant see.
  \<^item> \<open>Documents\<close>, \<open>Document_Claims\<close> (documents/): invoices and acts; their numbers and where these end.
  \<^item> \<open>Rooms\<close> (queue/queue.producer.ts, realtime/, common/websockets/), \<open>Listeners\<close> (events/, orders/events, rfq/events,
    tenant/events): what follows an event.  \<open>Listener_Claims\<close>: a small calculus of what a step tells whom.
  \<^item> \<open>Samples\<close>: the small database the witnesses run on.

  \<^bold>\<open>Parameters.\<close>  Code outside the repository is an argument of what uses it: Stripe's calls, bcrypt,
  HMAC and SHA hashes, the signature of tokens, random numbers, the object store, image conversion, recognition of file types, the
  virus scanner, URL parsing, the drawing of documents, the event bus, the aborts of database transactions (a function from the attempt to the
  exception, if any).

  \<^bold>\<open>Bounds.\<close>  The retry loops are recursion on the number of attempts the code allows (five for a payout,
  three for the number of a request); no other loop is unbounded.

  \<^bold>\<open>Reading of numbers.\<close>  \<open>text_Number\<close> reads the decimal spelling of a whole number, which is what the
    program writes into its payloads; for other spellings that JavaScript accepts it gives 0.

  \<^bold>\<open>Not modelled.\<close>  HTTP controllers and their validation pipes, logging, metrics, request context,
  descriptive texts, the wiring of the queues' workers, the public demo form, the web client, the search engine.
\<close>

end
